(* ===== verification/Prelude.thy ===== *)
theory Prelude
  imports Main "HOL-Library.FSet" "HOL-Library.List_Lexorder" "HOL-Library.Char_ord"
    "HOL-Library.Sublist" "HOL-Library.Monad_Syntax" "HOL-Library.Multiset"
begin

text \<open>
  What the component theories share: the reading of a Go result that may panic, loops with an
  early exit over slices, iteration over Go maps used as sets, and the proof collections.

  A Go call that may panic has the type \<open>'a go\<close>, an \<open>option\<close> whose \<open>None\<close> is the panic.
  A Go error result is a value of an error datatype of the component, as \<open>error option\<close>
  (\<open>None\<close> is Go's nil) for operations that only validate, and as a sum for the ones that also
  return a value.  A Go map used as a set is a finite set \<open>'a fset\<close>.
\<close>

section \<open>Collections of facts\<close>

named_theorems go_panic_simps \<open>equations that remove the panic case of a call\<close>
named_theorems go_def \<open>definitions of operations that are unfolded in component proofs\<close>

section \<open>Results that may panic\<close>

type_synonym 'a go = "'a option"

text \<open>The loop \<open>for _, x := range xs { if f(x) { return true } }; return false\<close>.\<close>

fun go_any :: "('a \<Rightarrow> bool go) \<Rightarrow> 'a list \<Rightarrow> bool go" where
  "go_any f [] = Some False"
| "go_any f (x # xs) =
     (case f x of None \<Rightarrow> None | Some True \<Rightarrow> Some True | Some False \<Rightarrow> go_any f xs)"

text \<open>The loop \<open>for _, x := range xs { if !f(x) { return false } }; return true\<close>.\<close>

fun go_all :: "('a \<Rightarrow> bool go) \<Rightarrow> 'a list \<Rightarrow> bool go" where
  "go_all f [] = Some True"
| "go_all f (x # xs) =
     (case f x of None \<Rightarrow> None | Some True \<Rightarrow> go_all f xs | Some False \<Rightarrow> Some False)"

definition go_not :: "bool go \<Rightarrow> bool go" where
  "go_not = map_option Not"

lemma go_not_simps [simp]: "go_not None = None" "go_not (Some b) = Some (\<not> b)"
  by (simp_all add: go_not_def)

lemma go_not_eq_Some [simp]: "go_not r = Some b \<longleftrightarrow> r = Some (\<not> b)"
  by (cases r) auto

lemma go_not_eq_None [simp]: "go_not r = None \<longleftrightarrow> r = None"
  by (cases r) auto

lemma go_any_total:
  assumes "\<And>x. x \<in> set xs \<Longrightarrow> f x \<noteq> None"
  shows "go_any f xs = Some (\<exists>x \<in> set xs. f x = Some True)"
  using assms by (induction xs) (auto split: option.split bool.split)

lemma go_all_total:
  assumes "\<And>x. x \<in> set xs \<Longrightarrow> f x \<noteq> None"
  shows "go_all f xs = Some (\<forall>x \<in> set xs. f x = Some True)"
  using assms by (induction xs) (auto split: option.split bool.split)

lemma go_all_Some_True:
  "go_all f xs = Some True \<longleftrightarrow> (\<forall>x \<in> set xs. f x = Some True)"
  by (induction xs) (auto split: option.splits bool.splits)

lemma go_any_cong [fundef_cong]:
  "xs = ys \<Longrightarrow> (\<And>x. x \<in> set ys \<Longrightarrow> f x = g x) \<Longrightarrow> go_any f xs = go_any g ys"
  by (induction xs arbitrary: ys) (auto split: option.splits bool.splits)

lemma go_all_cong [fundef_cong]:
  "xs = ys \<Longrightarrow> (\<And>x. x \<in> set ys \<Longrightarrow> f x = g x) \<Longrightarrow> go_all f xs = go_all g ys"
  by (induction xs arbitrary: ys) (auto split: option.splits bool.splits)

section \<open>The first error of a validation loop\<close>

text \<open>The loop \<open>for _, x := range xs { if err := f(x); err != nil { return err } }; return nil\<close>.\<close>

fun first_err :: "('a \<Rightarrow> 'e option) \<Rightarrow> 'a list \<Rightarrow> 'e option" where
  "first_err f [] = None"
| "first_err f (x # xs) = (case f x of Some e \<Rightarrow> Some e | None \<Rightarrow> first_err f xs)"

lemma first_err_None [simp]: "first_err f xs = None \<longleftrightarrow> (\<forall>x \<in> set xs. f x = None)"
  by (induction xs) (auto split: option.splits)

lemma first_err_Some: "first_err f xs = Some e \<Longrightarrow> \<exists>x \<in> set xs. f x = Some e"
  by (induction xs) (auto split: option.splits)

section \<open>Iteration over a Go map used as a set\<close>

text \<open>
  Go visits the keys of a map in an order it does not specify.  A loop that stops at the first
  key for which a test holds is a bounded quantifier over the key set when the test cannot
  panic; when it can, the result is a panic if some key panics.  Every use below has a test
  that panics for all keys or for none, so the choice of order cannot be seen.
\<close>

definition go_any_set :: "('a \<Rightarrow> bool go) \<Rightarrow> 'a fset \<Rightarrow> bool go" where
  "go_any_set f S = (if \<exists>x |\<in>| S. f x = None then None else Some (\<exists>x |\<in>| S. f x = Some True))"

lemma go_any_set_total:
  assumes "\<And>x. x |\<in>| S \<Longrightarrow> f x \<noteq> None"
  shows "go_any_set f S = Some (\<exists>x |\<in>| S. f x = Some True)"
  using assms by (auto simp: go_any_set_def)

lemma go_any_set_None: "go_any_set f S = None \<longleftrightarrow> (\<exists>x |\<in>| S. f x = None)"
  by (simp add: go_any_set_def)

definition go_image :: "('a \<Rightarrow> 'b go) \<Rightarrow> 'a fset \<Rightarrow> 'b fset go" where
  "go_image f S = (if \<exists>x |\<in>| S. f x = None then None else Some ((\<lambda>x. the (f x)) |`| S))"

lemma go_image_None: "go_image f S = None \<longleftrightarrow> (\<exists>x |\<in>| S. f x = None)"
  by (simp add: go_image_def)

lemma go_image_SomeD:
  assumes "go_image f S = Some T"
  shows "y |\<in>| T \<longleftrightarrow> (\<exists>x |\<in>| S. f x = Some y)"
  using assms by (force simp: go_image_def split: if_splits)

end
