(* ===== verification/GoStrings.thy ===== *)
theory GoStrings
  imports Prelude
begin

text \<open>
  The parts of Go's \<open>strings\<close>, \<open>strconv\<close> and \<open>fmt\<close> packages that the modelled files call.
  A Go string is its list of bytes, an Isabelle \<open>string\<close>; lengths count bytes.
\<close>

section \<open>Package strings\<close>

definition HasPrefix :: "string \<Rightarrow> string \<Rightarrow> bool" where
  "HasPrefix s p = (take (length p) s = p)"

definition HasSuffix :: "string \<Rightarrow> string \<Rightarrow> bool" where
  "HasSuffix s p = (length p \<le> length s \<and> drop (length s - length p) s = p)"

definition TrimPrefix :: "string \<Rightarrow> string \<Rightarrow> string" where
  "TrimPrefix s p = (if HasPrefix s p then drop (length p) s else s)"

definition TrimSuffix :: "string \<Rightarrow> string \<Rightarrow> string" where
  "TrimSuffix s p = (if HasSuffix s p then take (length s - length p) s else s)"

text \<open>\<open>Index\<close> returns \<open>None\<close> where Go returns -1.\<close>

fun Index :: "string \<Rightarrow> string \<Rightarrow> nat option" where
  "Index [] sub = (if sub = [] then Some 0 else None)"
| "Index (c # s) sub = (if HasPrefix (c # s) sub then Some 0 else map_option Suc (Index s sub))"

definition Contains :: "string \<Rightarrow> string \<Rightarrow> bool" where
  "Contains s sub = (Index s sub \<noteq> None)"

text \<open>\<open>SplitN(s, sep, 2)\<close> with a separator that is not empty.\<close>

definition SplitN2 :: "string \<Rightarrow> string \<Rightarrow> string list" where
  "SplitN2 s sep = (case Index s sep of None \<Rightarrow> [s]
     | Some i \<Rightarrow> [take i s, drop (i + length sep) s])"

text \<open>\<open>Replace(s, old, new, -1)\<close> with an \<open>old\<close> that is not empty.\<close>

function ReplaceAll :: "string \<Rightarrow> string \<Rightarrow> string \<Rightarrow> string" where
  "ReplaceAll s old new =
     (if s = [] then []
      else if old \<noteq> [] \<and> HasPrefix s old then new @ ReplaceAll (drop (length old) s) old new
      else hd s # ReplaceAll (tl s) old new)"
  by pat_completeness auto
termination
  by (relation "measure (\<lambda>(s, old, new). length s)") (auto simp: HasPrefix_def)

declare ReplaceAll.simps [simp del]

text \<open>\<open>Split(s, sep)\<close> with a one-byte separator.\<close>

fun SplitOn :: "char \<Rightarrow> string \<Rightarrow> string list" where
  "SplitOn sep [] = [[]]"
| "SplitOn sep (c # s) =
     (if c = sep then [] # SplitOn sep s
      else (case SplitOn sep s of [] \<Rightarrow> [[c]] | w # ws \<Rightarrow> (c # w) # ws))"

fun JoinOn :: "string \<Rightarrow> string list \<Rightarrow> string" where
  "JoinOn sep [] = []"
| "JoinOn sep [w] = w"
| "JoinOn sep (w # v # ws) = w @ sep @ JoinOn sep (v # ws)"

lemma HasPrefix_iff: "HasPrefix s p \<longleftrightarrow> (\<exists>t. s = p @ t)"
  unfolding HasPrefix_def by (metis append_eq_conv_conj append_take_drop_id)

lemma HasPrefix_append [simp]: "HasPrefix (p @ t) p"
  by (simp add: HasPrefix_def)

lemma HasPrefix_Nil [simp]: "HasPrefix s []"
  by (simp add: HasPrefix_def)

lemma HasPrefix_Nil_left [simp]: "HasPrefix [] p \<longleftrightarrow> p = []"
  by (auto simp: HasPrefix_def)

lemma HasPrefix_Cons [simp]: "HasPrefix (c # s) (d # p) \<longleftrightarrow> c = d \<and> HasPrefix s p"
  by (auto simp: HasPrefix_def)

lemma HasPrefix_trans: "HasPrefix s p \<Longrightarrow> HasPrefix p q \<Longrightarrow> HasPrefix s q"
  by (auto simp: HasPrefix_iff)

lemma HasPrefix_comparable:
  assumes "HasPrefix s p" and "HasPrefix s q"
  shows "HasPrefix p q \<or> HasPrefix q p"
  using assms unfolding HasPrefix_iff by (metis append_eq_append_conv2)

lemma TrimPrefix_append [simp]: "TrimPrefix (p @ t) p = t"
  by (simp add: TrimPrefix_def)

lemma HasSuffix_iff: "HasSuffix s p \<longleftrightarrow> (\<exists>t. s = t @ p)"
proof
  assume "HasSuffix s p"
  then have "s = take (length s - length p) s @ p"
    unfolding HasSuffix_def by (metis append_take_drop_id)
  then show "\<exists>t. s = t @ p" ..
qed (auto simp: HasSuffix_def)

lemma Index_None_iff: "Index s sub = None \<longleftrightarrow> (\<nexists>a b. s = a @ sub @ b)"
proof (induction s)
  case Nil
  then show ?case by auto
next
  case (Cons c s)
  have "(\<exists>a b. c # s = a @ sub @ b) \<longleftrightarrow>
      HasPrefix (c # s) sub \<or> (\<exists>a b. s = a @ sub @ b)"
    unfolding HasPrefix_iff by (auto simp: Cons_eq_append_conv)
  with Cons show ?case by auto
qed

lemma Contains_iff: "Contains s sub \<longleftrightarrow> (\<exists>a b. s = a @ sub @ b)"
  by (simp add: Contains_def Index_None_iff)

lemma Contains_single: "Contains s [c] \<longleftrightarrow> c \<in> set s"
  by (auto simp: Contains_iff dest: split_list)

lemma Index_Some_split:
  "Index s sub = Some i \<Longrightarrow> i + length sub \<le> length s \<and> s = take i s @ sub @ drop (i + length sub) s"
proof (induction s arbitrary: i)
  case Nil
  then show ?case by (auto split: if_splits)
next
  case (Cons c s)
  show ?case
  proof (cases "HasPrefix (c # s) sub")
    case True
    then obtain t where "c # s = sub @ t" by (auto simp: HasPrefix_iff)
    moreover from True Cons.prems have "i = 0" by simp
    ultimately show ?thesis by simp
  next
    case False
    with Cons.prems obtain j where j: "Index s sub = Some j" "i = Suc j" by auto
    from Cons.IH [OF j(1)] j(2) show ?thesis by simp
  qed
qed

lemma Index_first_char:
  "Index s [c] = Some i \<Longrightarrow> c \<notin> set (take i s)"
  by (induction s arbitrary: i) (auto split: if_splits)

lemma Index_char_append:
  "c \<notin> set a \<Longrightarrow> Index (a @ c # b) [c] = Some (length a)"
  by (induction a) auto

lemma Index_char_None: "Index s [c] = None \<longleftrightarrow> c \<notin> set s"
  by (induction s) auto

lemma SplitN2_char_absent: "c \<notin> set s \<Longrightarrow> SplitN2 s [c] = [s]"
  by (simp add: SplitN2_def Index_char_None [THEN iffD2])

lemma SplitN2_char_append: "c \<notin> set a \<Longrightarrow> SplitN2 (a @ c # b) [c] = [a, b]"
  by (simp add: SplitN2_def Index_char_append)

lemma SplitN2_join: "SplitN2 s sep = [a, b] \<Longrightarrow> s = a @ sep @ b"
  using Index_Some_split [of s sep] by (auto simp: SplitN2_def split: option.splits)

lemma ReplaceAll_Nil [simp]: "ReplaceAll [] old new = []"
  by (subst ReplaceAll.simps) simp

lemma ReplaceAll_absent: "\<not> Contains s old \<Longrightarrow> ReplaceAll s old new = s"
proof (induction s)
  case (Cons c s)
  then have "\<not> HasPrefix (c # s) old" and "\<not> Contains s old"
    by (auto simp: Contains_def split: if_splits)
  with Cons.IH show ?case by (subst ReplaceAll.simps) simp
qed simp

lemma SplitOn_nonempty [simp]: "SplitOn sep s \<noteq> []"
  by (cases s) (auto split: list.splits)

lemma JoinOn_SplitOn: "JoinOn [sep] (SplitOn sep s) = s"
proof (induction s)
  case (Cons c s)
  then show ?case
    by (cases "SplitOn sep s") (auto simp: neq_Nil_conv split: list.splits,
      (metis JoinOn.simps(2,3) append_Cons neq_Nil_conv)+)
qed simp

lemma SplitOn_append: "c \<notin> set a \<Longrightarrow> SplitOn c (a @ c # b) = a # SplitOn c b"
  by (induction a) auto

lemma SplitOn_append_gen: "SplitOn c (a @ c # b) = SplitOn c a @ SplitOn c b"
proof (induction a)
  case (Cons d a)
  then show ?case by (cases "SplitOn c a") auto
qed simp

lemma SplitOn_absent: "c \<notin> set a \<Longrightarrow> SplitOn c a = [a]"
  by (induction a) auto

lemma SplitOn_JoinOn:
  assumes "ws \<noteq> []" and "\<And>w. w \<in> set ws \<Longrightarrow> c \<notin> set w"
  shows "SplitOn c (JoinOn [c] ws) = ws"
  using assms
proof (induction "[c]" ws rule: JoinOn.induct)
  case (3 w v ws)
  then have "c \<notin> set w" and "SplitOn c (JoinOn [c] (v # ws)) = v # ws" by auto
  then show ?case using SplitOn_append [of c w "JoinOn [c] (v # ws)"] by simp
qed (auto simp: SplitOn_absent)

lemma SplitOn_no_sep: "w \<in> set (SplitOn sep s) \<Longrightarrow> sep \<notin> set w"
  by (induction s arbitrary: w) (auto split: list.splits if_splits)

section \<open>ASCII case mapping and character classes\<close>

definition ascii :: "char \<Rightarrow> nat" where
  "ascii c = of_char c"

definition is_upper :: "char \<Rightarrow> bool" where
  "is_upper c = (65 \<le> ascii c \<and> ascii c \<le> 90)"

definition is_lower :: "char \<Rightarrow> bool" where
  "is_lower c = (97 \<le> ascii c \<and> ascii c \<le> 122)"

definition is_digit :: "char \<Rightarrow> bool" where
  "is_digit c = (48 \<le> ascii c \<and> ascii c \<le> 57)"

definition is_alnum :: "char \<Rightarrow> bool" where
  "is_alnum c = (is_upper c \<or> is_lower c \<or> is_digit c)"

definition to_upper_char :: "char \<Rightarrow> char" where
  "to_upper_char c = (if is_lower c then char_of (ascii c - 32) else c)"

definition to_lower_char :: "char \<Rightarrow> char" where
  "to_lower_char c = (if is_upper c then char_of (ascii c + 32) else c)"

section \<open>Package strconv\<close>

definition digit_val :: "char \<Rightarrow> nat" where
  "digit_val c = ascii c - 48"

definition digit_char :: "nat \<Rightarrow> char" where
  "digit_char n = char_of (48 + n)"

definition digits_val :: "string \<Rightarrow> nat" where
  "digits_val = foldl (\<lambda>n c. 10 * n + digit_val c) 0"

text \<open>
  \<open>ParseInt(s, 10, 64)\<close>, which \<open>Atoi\<close> agrees with on a 64-bit platform: an optional sign, then
  one or more decimal digits, in the range of \<open>int64\<close>.  \<open>None\<close> is the error result.
\<close>

definition int64_min :: int where "int64_min = - (2 ^ 63)"
definition int64_max :: int where "int64_max = 2 ^ 63 - 1"

definition in_int64 :: "int \<Rightarrow> bool" where
  "in_int64 i = (int64_min \<le> i \<and> i \<le> int64_max)"

definition parse_digits :: "string \<Rightarrow> nat option" where
  "parse_digits s = (if s \<noteq> [] \<and> list_all is_digit s then Some (digits_val s) else None)"

definition ParseInt :: "string \<Rightarrow> int option" where
  "ParseInt s =
     (let (neg, ds) = (case s of c # t \<Rightarrow>
            if c = CHR ''-'' then (True, t) else if c = CHR ''+'' then (False, t) else (False, s)
          | [] \<Rightarrow> (False, s))
      in case parse_digits ds of
           None \<Rightarrow> None
         | Some n \<Rightarrow> let i = (if neg then - int n else int n) in if in_int64 i then Some i else None)"

definition Atoi :: "string \<Rightarrow> int option" where
  "Atoi = ParseInt"

fun nat_digits :: "nat \<Rightarrow> string" where
  "nat_digits n = (if n < 10 then [digit_char n] else nat_digits (n div 10) @ [digit_char (n mod 10)])"

declare nat_digits.simps [simp del]

definition Itoa :: "int \<Rightarrow> string" where
  "Itoa i = (if i < 0 then CHR ''-'' # nat_digits (nat (- i)) else nat_digits (nat i))"

definition FormatBool :: "bool \<Rightarrow> string" where
  "FormatBool b = (if b then ''true'' else ''false'')"

definition ParseBool :: "string \<Rightarrow> bool option" where
  "ParseBool s =
     (if s \<in> set [''1'', ''t'', ''T'', ''true'', ''TRUE'', ''True''] then Some True
      else if s \<in> set [''0'', ''f'', ''F'', ''false'', ''FALSE'', ''False''] then Some False
      else None)"

lemma ascii_digit_char: "n < 10 \<Longrightarrow> ascii (digit_char n) = 48 + n"
  by (simp add: ascii_def digit_char_def)

lemma is_digit_digit_char: "n < 10 \<Longrightarrow> is_digit (digit_char n)"
  by (simp add: is_digit_def ascii_digit_char)

lemma digit_val_digit_char: "n < 10 \<Longrightarrow> digit_val (digit_char n) = n"
  by (simp add: digit_val_def ascii_digit_char)

lemma digits_val_snoc: "digits_val (s @ [c]) = 10 * digits_val s + digit_val c"
  by (simp add: digits_val_def)

lemma nat_digits_props:
  "nat_digits n \<noteq> [] \<and> list_all is_digit (nat_digits n) \<and> digits_val (nat_digits n) = n"
proof (induction n rule: nat_digits.induct)
  case (1 n)
  show ?case
  proof (cases "n < 10")
    case True
    then show ?thesis
      by (simp add: nat_digits.simps [of n] is_digit_digit_char digits_val_def digit_val_digit_char)
  next
    case False
    with 1 show ?thesis
      by (simp add: nat_digits.simps [of n] is_digit_digit_char digits_val_snoc digit_val_digit_char)
  qed
qed

lemma parse_digits_nat_digits: "parse_digits (nat_digits n) = Some n"
  by (simp add: parse_digits_def nat_digits_props)

lemma is_digit_not_sign: "is_digit c \<Longrightarrow> c \<noteq> CHR ''-'' \<and> c \<noteq> CHR ''+''"
  by (auto simp: is_digit_def ascii_def)

lemma Atoi_Itoa:
  assumes "in_int64 i"
  shows "Atoi (Itoa i) = Some i"
proof (cases "i < 0")
  case True
  with assms show ?thesis
    by (simp add: Atoi_def ParseInt_def Itoa_def parse_digits_nat_digits)
next
  case False
  obtain c t where ct: "nat_digits (nat i) = c # t"
    using nat_digits_props by (meson neq_Nil_conv)
  then have "is_digit c" using nat_digits_props [of "nat i"] by simp
  with ct False assms show ?thesis
    using parse_digits_nat_digits [of "nat i"]
    by (simp add: Atoi_def ParseInt_def Itoa_def is_digit_not_sign)
qed

lemma ParseInt_range: "ParseInt s = Some i \<Longrightarrow> in_int64 i"
  by (auto simp: ParseInt_def Let_def split: option.splits if_splits prod.splits)

end
