(* ===== verification/Utf8.thy ===== *)
theory Utf8
  imports GoStrings
begin

text \<open>
  Go's \<open>unicode/utf8\<close>, as the modelled files use it: \<open>for _, r := range s\<close> decodes a string
  rune by rune, an invalid byte counting as one \<open>RuneError\<close>; \<open>utf8.ValidString\<close>,
  \<open>utf8.RuneCountInString\<close> and \<open>utf8.EncodeRune\<close>.  A rune is a \<open>nat\<close>, bytes are read as
  numbers below 256.
\<close>

definition RuneError :: nat where
  "RuneError = 65533"

definition cont_byte :: "nat \<Rightarrow> bool" where
  "cont_byte b = (128 \<le> b \<and> b \<le> 191)"

text \<open>
  The rune that starts with byte \<open>b\<close> followed by the bytes \<open>bs\<close>, and how many bytes of \<open>bs\<close> it
  takes; \<open>None\<close> for an invalid or short encoding.  The tighter range of the second byte after
  E0, ED, F0 and F4 excludes overlong forms, surrogates and runes above 10FFFF.
\<close>

definition second_lo :: "nat \<Rightarrow> nat" where
  "second_lo b = (if b = 224 then 160 else if b = 240 then 144 else 128)"

definition second_hi :: "nat \<Rightarrow> nat" where
  "second_hi b = (if b = 237 then 159 else if b = 244 then 143 else 191)"

fun decode2 :: "nat \<Rightarrow> nat list \<Rightarrow> (nat \<times> nat) option" where
  "decode2 b (c1 # _) =
     (if cont_byte c1 then Some ((b - 192) * 64 + (c1 - 128), 1) else None)"
| "decode2 b _ = None"

fun decode3 :: "nat \<Rightarrow> nat list \<Rightarrow> (nat \<times> nat) option" where
  "decode3 b (c1 # c2 # _) =
     (if second_lo b \<le> c1 \<and> c1 \<le> second_hi b \<and> cont_byte c2
      then Some ((b - 224) * 4096 + (c1 - 128) * 64 + (c2 - 128), 2) else None)"
| "decode3 b _ = None"

fun decode4 :: "nat \<Rightarrow> nat list \<Rightarrow> (nat \<times> nat) option" where
  "decode4 b (c1 # c2 # c3 # _) =
     (if second_lo b \<le> c1 \<and> c1 \<le> second_hi b \<and> cont_byte c2 \<and> cont_byte c3
      then Some ((b - 240) * 262144 + (c1 - 128) * 4096 + (c2 - 128) * 64 + (c3 - 128), 3) else None)"
| "decode4 b _ = None"

definition decode1 :: "nat \<Rightarrow> nat list \<Rightarrow> (nat \<times> nat) option" where
  "decode1 b bs =
     (if b < 128 then Some (b, 0)
      else if 194 \<le> b \<and> b \<le> 223 then decode2 b bs
      else if 224 \<le> b \<and> b \<le> 239 then decode3 b bs
      else if 240 \<le> b \<and> b \<le> 244 then decode4 b bs
      else None)"

lemma decode2_SomeD:
  "decode2 b bs = Some (r, n) \<Longrightarrow> \<exists>c1 bs'. bs = c1 # bs' \<and> 128 \<le> c1 \<and> c1 \<le> 191 \<and>
     r = (b - 192) * 64 + (c1 - 128) \<and> n = 1"
  by (cases "(b, bs)" rule: decode2.cases) (auto simp: cont_byte_def split: if_splits)

lemma decode3_SomeD:
  "decode3 b bs = Some (r, n) \<Longrightarrow> \<exists>c1 c2 bs'. bs = c1 # c2 # bs' \<and> second_lo b \<le> c1 \<and>
     c1 \<le> second_hi b \<and> 128 \<le> c2 \<and> c2 \<le> 191 \<and>
     r = (b - 224) * 4096 + (c1 - 128) * 64 + (c2 - 128) \<and> n = 2"
  by (cases "(b, bs)" rule: decode3.cases) (auto simp: cont_byte_def split: if_splits)

lemma decode4_SomeD:
  "decode4 b bs = Some (r, n) \<Longrightarrow> \<exists>c1 c2 c3 bs'. bs = c1 # c2 # c3 # bs' \<and> second_lo b \<le> c1 \<and>
     c1 \<le> second_hi b \<and> 128 \<le> c2 \<and> c2 \<le> 191 \<and> 128 \<le> c3 \<and> c3 \<le> 191 \<and>
     r = (b - 240) * 262144 + (c1 - 128) * 4096 + (c2 - 128) * 64 + (c3 - 128) \<and> n = 3"
  by (cases "(b, bs)" rule: decode4.cases) (auto simp: cont_byte_def split: if_splits)

function utf8_decode :: "nat list \<Rightarrow> nat list" where
  "utf8_decode [] = []"
| "utf8_decode (b # bs) =
     (case decode1 b bs of
        None \<Rightarrow> RuneError # utf8_decode bs
      | Some (r, n) \<Rightarrow> r # utf8_decode (drop n bs))"
  by pat_completeness auto
termination
  by (relation "measure length") auto

function utf8_valid :: "nat list \<Rightarrow> bool" where
  "utf8_valid [] = True"
| "utf8_valid (b # bs) =
     (case decode1 b bs of None \<Rightarrow> False | Some (r, n) \<Rightarrow> utf8_valid (drop n bs))"
  by pat_completeness auto
termination
  by (relation "measure length") auto

definition valid_rune :: "nat \<Rightarrow> bool" where
  "valid_rune r = (r < 55296 \<or> 57344 \<le> r \<and> r \<le> 1114111)"

definition EncodeRune :: "nat \<Rightarrow> nat list" where
  "EncodeRune r0 =
     (let r = (if valid_rune r0 then r0 else RuneError) in
      if r < 128 then [r]
      else if r < 2048 then [192 + r div 64, 128 + r mod 64]
      else if r < 65536 then [224 + r div 4096, 128 + r div 64 mod 64, 128 + r mod 64]
      else [240 + r div 262144, 128 + r div 4096 mod 64, 128 + r div 64 mod 64, 128 + r mod 64])"

definition bytes_of :: "string \<Rightarrow> nat list" where
  "bytes_of s = map of_char s"

definition string_of_bytes :: "nat list \<Rightarrow> string" where
  "string_of_bytes bs = map char_of bs"

definition runes :: "string \<Rightarrow> nat list" where
  "runes s = utf8_decode (bytes_of s)"

definition ValidString :: "string \<Rightarrow> bool" where
  "ValidString s = utf8_valid (bytes_of s)"

definition RuneCountInString :: "string \<Rightarrow> nat" where
  "RuneCountInString s = length (runes s)"

lemma bytes_of_simps [simp]:
  "bytes_of [] = []" "bytes_of (c # s) = of_char c # bytes_of s"
  "bytes_of (s @ t) = bytes_of s @ bytes_of t" "length (bytes_of s) = length s"
  by (simp_all add: bytes_of_def)

lemma string_of_bytes_of [simp]: "string_of_bytes (bytes_of s) = s"
  by (simp add: string_of_bytes_def bytes_of_def comp_def)

lemma bytes_of_inj: "bytes_of s = bytes_of t \<longleftrightarrow> s = t"
  by (metis string_of_bytes_of)

lemma bytes_of_bound: "b \<in> set (bytes_of s) \<Longrightarrow> b < 256"
  by (auto simp: bytes_of_def)

lemma bytes_of_string_of_bytes: "list_all (\<lambda>b. b < 256) bs \<Longrightarrow> bytes_of (string_of_bytes bs) = bs"
  by (induction bs) (auto simp: string_of_bytes_def bytes_of_def)

section \<open>Encoding and decoding are inverse\<close>

text \<open>Base-64 digits of a rune: packing and unpacking.\<close>

lemma pack2:
  fixes x y :: nat
  assumes "y < 64"
  shows "(x * 64 + y) div 64 = x" and "(x * 64 + y) mod 64 = y"
  using assms by simp_all

lemma pack3:
  fixes x y z :: nat
  assumes "y < 64" and "z < 64"
  shows "(x * 4096 + y * 64 + z) div 4096 = x"
    and "(x * 4096 + y * 64 + z) div 64 = x * 64 + y"
    and "(x * 4096 + y * 64 + z) mod 64 = z"
proof -
  have e: "x * 4096 + y * 64 + z = (x * 64 + y) * 64 + z" by simp
  show q: "(x * 4096 + y * 64 + z) div 64 = x * 64 + y"
    unfolding e using assms by (simp only: pack2)
  show "(x * 4096 + y * 64 + z) mod 64 = z"
    unfolding e using assms by (simp only: pack2)
  have "(x * 4096 + y * 64 + z) div (64 * 64) = x"
    unfolding div_mult2_eq q using assms by (simp only: pack2)
  then show "(x * 4096 + y * 64 + z) div 4096 = x" by simp
qed

lemma pack4:
  fixes x y z w :: nat
  assumes "y < 64" and "z < 64" and "w < 64"
  shows "(x * 262144 + y * 4096 + z * 64 + w) div 262144 = x"
    and "(x * 262144 + y * 4096 + z * 64 + w) div 4096 = x * 64 + y"
    and "(x * 262144 + y * 4096 + z * 64 + w) div 64 = x * 4096 + y * 64 + z"
    and "(x * 262144 + y * 4096 + z * 64 + w) mod 64 = w"
proof -
  let ?r = "x * 262144 + y * 4096 + z * 64 + w"
  have e: "?r = (x * 4096 + y * 64 + z) * 64 + w" by simp
  show q: "?r div 64 = x * 4096 + y * 64 + z"
    unfolding e using assms by (simp only: pack2)
  show "?r mod 64 = w"
    unfolding e using assms by (simp only: pack2)
  have "?r div (64 * 64) = x * 64 + y"
    unfolding div_mult2_eq q using assms by (simp only: pack3)
  then show "?r div 4096 = x * 64 + y" by simp
  have "?r div (64 * 4096) = x"
    unfolding div_mult2_eq q using assms by (simp only: pack3)
  then show "?r div 262144 = x" by simp
qed

lemma unpack2:
  fixes r :: nat
  obtains x y where "r = x * 64 + y" and "y < 64"
  by (metis div_mult_mod_eq mod_less_divisor zero_less_numeral)

lemma unpack3:
  fixes r :: nat
  obtains x y z where "r = x * 4096 + y * 64 + z" and "y < 64" and "z < 64"
proof -
  obtain q z where q: "r = q * 64 + z" "z < 64" by (rule unpack2)
  obtain x y where "q = x * 64 + y" "y < 64" by (rule unpack2)
  with q show thesis by (intro that [of x y z]) simp_all
qed

lemma unpack4:
  fixes r :: nat
  obtains x y z w where "r = x * 262144 + y * 4096 + z * 64 + w" and "y < 64" and "z < 64" and "w < 64"
proof -
  obtain q w where q: "r = q * 64 + w" "w < 64" by (rule unpack2)
  obtain x y z where "q = x * 4096 + y * 64 + z" "y < 64" "z < 64" by (rule unpack3)
  with q show thesis by (intro that [of x y z w]) simp_all
qed

lemma decode1_EncodeRune:
  assumes "valid_rune r"
  obtains b bs where "EncodeRune r = b # bs" and "\<And>rest. decode1 b (bs @ rest) = Some (r, length bs)"
proof -
  consider (one) "r < 128" | (two) "128 \<le> r" "r < 2048" | (three) "2048 \<le> r" "r < 65536"
    | (four) "65536 \<le> r" "r \<le> 1114111"
    using assms by (force simp: valid_rune_def)
  then show thesis
  proof cases
    case one
    with assms that [of r "[]"] show thesis
      by (simp add: EncodeRune_def decode1_def)
  next
    case two
    obtain x y where r: "r = x * 64 + y" "y < 64" by (rule unpack2)
    with two have "2 \<le> x" "x < 32" by auto
    with two assms r that [of "192 + x" "[128 + y]"] show thesis
      by (simp add: EncodeRune_def decode1_def cont_byte_def pack2)
  next
    case three
    obtain x y z where r: "r = x * 4096 + y * 64 + z" "y < 64" "z < 64" by (rule unpack3)
    from three r have x: "x < 16" and ov: "x = 0 \<Longrightarrow> 32 \<le> y" by auto
    from assms three r have su: "x = 13 \<Longrightarrow> y < 32" by (auto simp: valid_rune_def)
    have "second_lo (224 + x) \<le> 128 + y \<and> 128 + y \<le> second_hi (224 + x)"
      using x r ov su by (auto simp: second_lo_def second_hi_def)
    moreover have "EncodeRune r = [224 + x, 128 + y, 128 + z]"
      using three assms unfolding EncodeRune_def by (simp add: r pack3 pack2 Let_def)
    ultimately show thesis
      using x r that [of "224 + x" "[128 + y, 128 + z]"] by (simp add: decode1_def cont_byte_def)
  next
    case four
    obtain x y z w where r: "r = x * 262144 + y * 4096 + z * 64 + w" "y < 64" "z < 64" "w < 64"
      by (rule unpack4)
    from four r have x: "x \<le> 4" and ov: "x = 0 \<Longrightarrow> 16 \<le> y" and hi: "x = 4 \<Longrightarrow> y < 16" by auto
    have "second_lo (240 + x) \<le> 128 + y \<and> 128 + y \<le> second_hi (240 + x)"
      using x r ov hi by (auto simp: second_lo_def second_hi_def)
    moreover have "EncodeRune r = [240 + x, 128 + y, 128 + z, 128 + w]"
      using four assms unfolding EncodeRune_def by (simp add: r pack4 pack3 pack2 Let_def)
    ultimately show thesis
      using x r that [of "240 + x" "[128 + y, 128 + z, 128 + w]"] by (simp add: decode1_def cont_byte_def)
  qed
qed

lemma utf8_EncodeRune_append:
  assumes "valid_rune r"
  shows "utf8_decode (EncodeRune r @ rest) = r # utf8_decode rest"
    and "utf8_valid (EncodeRune r @ rest) = utf8_valid rest"
proof -
  obtain b bs where "EncodeRune r = b # bs" "decode1 b (bs @ rest) = Some (r, length bs)"
    using decode1_EncodeRune [OF assms] by metis
  then show "utf8_decode (EncodeRune r @ rest) = r # utf8_decode rest"
    and "utf8_valid (EncodeRune r @ rest) = utf8_valid rest" by simp_all
qed

lemma decode1_Some_inv:
  assumes "decode1 b bs = Some (r, n)"
  shows "valid_rune r \<and> EncodeRune r = b # take n bs \<and> n \<le> length bs"
proof -
  consider (one) "b < 128" "r = b" "n = 0"
    | (two) x y bs' where "bs = (128 + y) # bs'" "b = 192 + x" "2 \<le> x" "x < 32" "y < 64"
        "r = x * 64 + y" "n = 1"
    | (three) x y z bs' where "bs = (128 + y) # (128 + z) # bs'" "b = 224 + x" "x < 16" "y < 64" "z < 64"
        "second_lo b \<le> 128 + y" "128 + y \<le> second_hi b" "r = x * 4096 + y * 64 + z" "n = 2"
    | (four) x y z w bs' where "bs = (128 + y) # (128 + z) # (128 + w) # bs'" "b = 240 + x" "x \<le> 4"
        "y < 64" "z < 64" "w < 64" "second_lo b \<le> 128 + y" "128 + y \<le> second_hi b"
        "r = x * 262144 + y * 4096 + z * 64 + w" "n = 3"
  proof -
    have lohi: "128 \<le> second_lo b" "second_hi b \<le> 191"
      by (simp_all add: second_lo_def second_hi_def)
    have "b < 128 \<or> 194 \<le> b \<and> b \<le> 223 \<or> 224 \<le> b \<and> b \<le> 239 \<or> 240 \<le> b \<and> b \<le> 244"
    proof (rule ccontr)
      assume "\<not> ?thesis"
      then have "\<not> b < 128" "\<not> (194 \<le> b \<and> b \<le> 223)" "\<not> (224 \<le> b \<and> b \<le> 239)" "\<not> (240 \<le> b \<and> b \<le> 244)"
        by blast+
      then have "decode1 b bs = None" unfolding decode1_def by (simp only: if_False)
      with assms show False by simp
    qed
    then consider "b < 128" | "194 \<le> b" "b \<le> 223" | "224 \<le> b" "b \<le> 239" | "240 \<le> b" "b \<le> 244"
      by blast
    then show thesis
    proof cases
      case 1
      then have "decode1 b bs = Some (b, 0)" by (simp add: decode1_def)
      with assms have "r = b" "n = 0" by simp_all
      with 1 show thesis by (rule one)
    next
      case 2
      then have "decode1 b bs = decode2 b bs" by (simp add: decode1_def)
      with assms obtain c1 bs' where c: "bs = c1 # bs'" "128 \<le> c1" "c1 \<le> 191"
        "r = (b - 192) * 64 + (c1 - 128)" "n = 1"
        using decode2_SomeD [of b bs r n] by auto
      show thesis
        by (rule two [of "c1 - 128" bs' "b - 192"]) (use c 2 in auto)
    next
      case 3
      then have "decode1 b bs = decode3 b bs" by (simp add: decode1_def)
      with assms obtain c1 c2 bs' where c: "bs = c1 # c2 # bs'" "second_lo b \<le> c1" "c1 \<le> second_hi b"
        "128 \<le> c2" "c2 \<le> 191" "r = (b - 224) * 4096 + (c1 - 128) * 64 + (c2 - 128)" "n = 2"
        using decode3_SomeD [of b bs r n] by metis
      show thesis
        by (rule three [of "c1 - 128" "c2 - 128" bs' "b - 224"]) (use c 3 lohi in auto)
    next
      case 4
      then have "decode1 b bs = decode4 b bs" by (simp add: decode1_def)
      with assms obtain c1 c2 c3 bs' where c: "bs = c1 # c2 # c3 # bs'" "second_lo b \<le> c1"
        "c1 \<le> second_hi b" "128 \<le> c2" "c2 \<le> 191" "128 \<le> c3" "c3 \<le> 191"
        "r = (b - 240) * 262144 + (c1 - 128) * 4096 + (c2 - 128) * 64 + (c3 - 128)" "n = 3"
        using decode4_SomeD [of b bs r n] by metis
      show thesis
        by (rule four [of "c1 - 128" "c2 - 128" "c3 - 128" bs' "b - 240"]) (use c 4 lohi in auto)
    qed
  qed
  then show ?thesis
  proof cases
    case one
    then show ?thesis by (auto simp: valid_rune_def EncodeRune_def)
  next
    case two
    then have v: "valid_rune r" "\<not> r < 128" "r < 2048" by (auto simp: valid_rune_def)
    with two show ?thesis by (simp add: EncodeRune_def pack2 Let_def)
  next
    case three
    then have v: "valid_rune r" "\<not> r < 128" "\<not> r < 2048" "r < 65536"
      by (auto simp: valid_rune_def second_lo_def second_hi_def split: if_splits)
    with three show ?thesis by (simp add: EncodeRune_def pack3 pack2 Let_def)
  next
    case four
    then have v: "valid_rune r" "\<not> r < 128" "\<not> r < 2048" "\<not> r < 65536"
      by (auto simp: valid_rune_def second_lo_def second_hi_def split: if_splits)
    with four show ?thesis by (simp add: EncodeRune_def pack4 pack3 pack2 Let_def)
  qed
qed

lemma utf8_decode_encode: "list_all valid_rune rs \<Longrightarrow> utf8_decode (concat (map EncodeRune rs)) = rs"
  by (induction rs) (simp_all add: utf8_EncodeRune_append)

lemma utf8_encode_decode:
  "utf8_valid bs \<Longrightarrow> concat (map EncodeRune (utf8_decode bs)) = bs \<and> list_all valid_rune (utf8_decode bs)"
proof (induction bs rule: utf8_valid.induct)
  case (2 b bs)
  then obtain r n where d: "decode1 b bs = Some (r, n)" and v: "utf8_valid (drop n bs)"
    by (auto split: option.splits)
  from "2.IH" [OF d _ v] have "concat (map EncodeRune (utf8_decode (drop n bs))) = drop n bs"
    "list_all valid_rune (utf8_decode (drop n bs))" by simp_all
  with d decode1_Some_inv [OF d] show ?case by simp
qed simp

lemma runes_inj:
  assumes "ValidString s" and "ValidString t"
  shows "runes s = runes t \<longleftrightarrow> s = t"
  using assms utf8_encode_decode unfolding ValidString_def runes_def by (metis bytes_of_inj)

section \<open>Strings of ASCII characters\<close>

definition is_ascii :: "string \<Rightarrow> bool" where
  "is_ascii s = list_all (\<lambda>c. ascii c < 128) s"

lemma is_ascii_simps [simp]:
  "is_ascii []" "is_ascii (c # s) \<longleftrightarrow> ascii c < 128 \<and> is_ascii s"
  "is_ascii (s @ t) \<longleftrightarrow> is_ascii s \<and> is_ascii t"
  by (simp_all add: is_ascii_def)

lemma runes_Nil [simp]: "runes [] = []"
  by (simp add: runes_def)

lemma runes_ascii_Cons [simp]: "ascii c < 128 \<Longrightarrow> runes (c # s) = ascii c # runes s"
  by (simp add: runes_def decode1_def ascii_def)

lemma runes_ascii_append: "is_ascii s \<Longrightarrow> runes (s @ t) = map ascii s @ runes t"
  by (induction s) auto

lemma runes_ascii: "is_ascii s \<Longrightarrow> runes s = map ascii s"
  using runes_ascii_append [of s "[]"] by simp

lemma ascii_inj [simp]: "ascii c = ascii d \<longleftrightarrow> c = d"
  by (simp add: ascii_def)

lemma runes_eq_Nil [simp]: "runes s = [] \<longleftrightarrow> s = []"
  by (cases s) (auto simp: runes_def split: option.splits)

text \<open>An ASCII rune comes from the byte it is.\<close>

lemma utf8_decode_ascii_mem: "r \<in> set (utf8_decode bs) \<Longrightarrow> r < 128 \<Longrightarrow> r \<in> set bs"
proof (induction bs rule: utf8_decode.induct)
  case (2 b bs)
  show ?case
  proof (cases "decode1 b bs")
    case None
    with 2 show ?thesis by (auto simp: RuneError_def)
  next
    case (Some rn)
    then obtain q n where d: "decode1 b bs = Some (q, n)" by (cases rn) auto
    with "2.prems" consider (here) "r = q" | (later) "r \<in> set (utf8_decode (drop n bs))" by auto
    then show ?thesis
    proof cases
      case here
      with decode1_Some_inv [OF d] "2.prems"(2) have "[r] = b # take n bs"
        by (auto simp: EncodeRune_def split: if_splits)
      then show ?thesis by simp
    next
      case later
      with "2.IH"(2) [OF d refl] "2.prems"(2) have "r \<in> set (drop n bs)" by simp
      then show ?thesis using set_drop_subset [of n bs] by auto
    qed
  qed
qed simp

lemma rune_of_char: "ascii c < 128 \<Longrightarrow> c \<notin> set s \<Longrightarrow> ascii c \<notin> set (runes s)"
  using utf8_decode_ascii_mem [of "ascii c" "bytes_of s"]
  by (auto simp: runes_def bytes_of_def ascii_def)

section \<open>Case\<close>

text \<open>\<open>strings.ToLower\<close> and \<open>strings.ToUpper\<close>; the first argument is the table of Unicode for runes
  outside ASCII.\<close>

definition ToLower :: "(nat \<Rightarrow> nat) \<Rightarrow> string \<Rightarrow> string" where
  "ToLower lw s =
     (if is_ascii s then map to_lower_char s
      else string_of_bytes (concat (map (\<lambda>r. EncodeRune (if r < 128 then ascii (to_lower_char (char_of r)) else lw r)) (runes s))))"

definition ToUpper :: "(nat \<Rightarrow> nat) \<Rightarrow> string \<Rightarrow> string" where
  "ToUpper up s =
     (if is_ascii s then map to_upper_char s
      else string_of_bytes (concat (map (\<lambda>r. EncodeRune (if r < 128 then ascii (to_upper_char (char_of r)) else up r)) (runes s))))"

end
