(* ===== verification/Wildcard.thy ===== *)
theory Wildcard
  imports Utf8
begin

text \<open>
  \<open>pkg/wildcard/match.go\<close>: glob matching of a resource or a principal against a pattern.  The
  recursive matcher works on runes.  Go's \<open>str = str[1:]\<close> panics on an empty slice, which the
  matcher reaches for a \<open>?\<close> in simple mode when the string is used up; that is the \<open>None\<close>
  result.
\<close>

section \<open>The matcher\<close>

definition rune_qmark :: nat where "rune_qmark = 63"
definition rune_star :: nat where "rune_star = 42"

fun deepMatchRune :: "nat list \<Rightarrow> nat list \<Rightarrow> bool \<Rightarrow> bool go" where
  "deepMatchRune str [] simple = Some (str = [])"
| "deepMatchRune str (p # pattern) simple =
     (if p = rune_qmark then
        (if str = [] \<and> \<not> simple then Some False
         else (case str of [] \<Rightarrow> None | _ # str' \<Rightarrow> deepMatchRune str' pattern simple))
      else if p = rune_star then
        (case deepMatchRune str pattern simple of
           None \<Rightarrow> None
         | Some True \<Rightarrow> Some True
         | Some False \<Rightarrow>
             (case str of [] \<Rightarrow> Some False | _ # str' \<Rightarrow> deepMatchRune str' (p # pattern) simple))
      else
        (case str of
           [] \<Rightarrow> Some False
         | c # str' \<Rightarrow> if c \<noteq> p then Some False else deepMatchRune str' pattern simple))"

definition MatchSimple :: "string \<Rightarrow> string \<Rightarrow> bool go" where
  "MatchSimple pattern name =
     (if pattern = '''' then Some (name = pattern)
      else if pattern = ''*'' then Some True
      else deepMatchRune (runes name) (runes pattern) True)"

text \<open>
  \<open>Match\<close> calls the matcher with \<open>simple = false\<close>.  Lemma \<open>deepMatchRune_total\<close> shows that
  this call does not panic, so the result is read as a boolean.
\<close>

definition Match :: "string \<Rightarrow> string \<Rightarrow> bool" where
  "Match pattern name =
     (if pattern = '''' then name = pattern
      else if pattern = ''*'' then True
      else deepMatchRune (runes name) (runes pattern) False = Some True)"

section \<open>What a pattern means\<close>

text \<open>
  \<open>?\<close> stands for one rune, \<open>*\<close> for any sequence of runes, every other rune for itself.
\<close>

inductive glob :: "nat list \<Rightarrow> nat list \<Rightarrow> bool" where
  glob_end: "glob [] []"
| glob_one: "glob pattern str \<Longrightarrow> glob (rune_qmark # pattern) (c # str)"
| glob_many: "glob pattern str \<Longrightarrow> glob (rune_star # pattern) (skipped @ str)"
| glob_rune: "c \<noteq> rune_qmark \<Longrightarrow> c \<noteq> rune_star \<Longrightarrow> glob pattern str \<Longrightarrow> glob (c # pattern) (c # str)"

inductive_cases glob_nil_patE: "glob [] str"
inductive_cases glob_consE: "glob (p # pattern) str"

lemma rune_distinct [simp]: "rune_star \<noteq> rune_qmark" "rune_qmark \<noteq> rune_star"
  by (simp_all add: rune_star_def rune_qmark_def)

lemma glob_nil_pat [simp]: "glob [] str \<longleftrightarrow> str = []"
  by (auto elim: glob_nil_patE intro: glob_end)

lemma glob_qmark [simp]: "glob (rune_qmark # pattern) str \<longleftrightarrow> (\<exists>c str'. str = c # str' \<and> glob pattern str')"
  by (auto elim: glob_consE intro: glob_one)

lemma glob_rune_iff [simp]:
  "p \<noteq> rune_qmark \<Longrightarrow> p \<noteq> rune_star \<Longrightarrow>
     glob (p # pattern) str \<longleftrightarrow> (\<exists>str'. str = p # str' \<and> glob pattern str')"
  by (auto elim: glob_consE intro: glob_rune)

lemma glob_star_split: "glob (rune_star # pattern) str \<longleftrightarrow> (\<exists>a b. str = a @ b \<and> glob pattern b)"
proof
  assume "glob (rune_star # pattern) str"
  then show "\<exists>a b. str = a @ b \<and> glob pattern b"
    by (rule glob_consE) auto
qed (auto intro: glob_many)

text \<open>The unfolding the matcher uses: skip nothing, or skip one rune and try again.\<close>

lemma glob_star_step:
  "glob (rune_star # pattern) str \<longleftrightarrow>
     glob pattern str \<or> (\<exists>c str'. str = c # str' \<and> glob (rune_star # pattern) str')"
proof
  assume "glob (rune_star # pattern) str"
  then obtain a b where ab: "str = a @ b" "glob pattern b" by (auto simp: glob_star_split)
  then show "glob pattern str \<or> (\<exists>c str'. str = c # str' \<and> glob (rune_star # pattern) str')"
    by (cases a) (auto simp: glob_star_split)
next
  assume "glob pattern str \<or> (\<exists>c str'. str = c # str' \<and> glob (rune_star # pattern) str')"
  then show "glob (rune_star # pattern) str"
    unfolding glob_star_split by (metis append_Cons append_Nil)
qed

section \<open>The matcher decides the meaning\<close>

lemma deepMatchRune_glob: "deepMatchRune str pattern False = Some (glob pattern str)"
proof (induction str pattern "False" rule: deepMatchRune.induct)
  case (2 str p pattern)
  note IH = this
  consider (qmark) "p = rune_qmark" | (star) "p = rune_star"
    | (rune) "p \<noteq> rune_qmark" "p \<noteq> rune_star" by blast
  then show ?case
  proof cases
    case qmark
    with IH show ?thesis by (cases str) auto
  next
    case star
    with IH(2) have IH1: "deepMatchRune str pattern False = Some (glob pattern str)" by simp
    show ?thesis
    proof (cases "glob pattern str")
      case True
      with star IH1 show ?thesis by (simp add: glob_star_step [of pattern str])
    next
      case False
      show ?thesis
      proof (cases str)
        case Nil
        with star IH1 False show ?thesis by (simp add: glob_star_step [of pattern "[]"])
      next
        case (Cons c str')
        with star IH1 False IH(3) show ?thesis by (simp add: glob_star_step [of pattern "c # str'"])
      qed
    qed
  next
    case rune
    with IH show ?thesis by (cases str) auto
  qed
qed simp

lemma deepMatchRune_total: "deepMatchRune str pattern False \<noteq> None"
  by (simp add: deepMatchRune_glob)

text \<open>In simple mode the matcher agrees with the other mode wherever it returns.\<close>

lemma deepMatchRune_simple:
  "deepMatchRune str pattern True = Some b \<Longrightarrow> deepMatchRune str pattern False = Some b"
proof (induction str pattern "True" arbitrary: b rule: deepMatchRune.induct)
  case (2 str p pattern)
  note IH = this
  consider (qmark) "p = rune_qmark" | (star) "p = rune_star"
    | (rune) "p \<noteq> rune_qmark" "p \<noteq> rune_star" by blast
  then show ?case
  proof cases
    case qmark
    with IH show ?thesis by (cases str) auto
  next
    case star
    from IH(5) star obtain b1 where b1: "deepMatchRune str pattern True = Some b1"
      by (auto split: option.splits)
    with IH(2) star have f1: "deepMatchRune str pattern False = Some b1" by simp
    show ?thesis
    proof (cases b1)
      case True
      with star b1 f1 IH(5) show ?thesis by simp
    next
      case False
      with star b1 f1 IH(5) IH(3) show ?thesis by (cases str) auto
    qed
  next
    case rune
    with IH show ?thesis by (cases str) (auto split: if_splits)
  qed
qed simp

lemma deepMatchRune_simple_no_qmark:
  "rune_qmark \<notin> set pattern \<Longrightarrow> deepMatchRune str pattern True \<noteq> None"
proof (induction str pattern "True" rule: deepMatchRune.induct)
  case (2 str p pattern)
  then show ?case by (cases str) (auto split: option.splits bool.splits)
qed simp

lemma runes_star [simp]: "runes ''*'' = [rune_star]"
  by (simp add: rune_star_def ascii_def)

lemma glob_star_all [simp]: "glob [rune_star] str"
  by (simp add: glob_star_split)

lemma Match_glob: "Match pattern name \<longleftrightarrow> glob (runes pattern) (runes name)"
  by (auto simp: Match_def deepMatchRune_glob)

lemma MatchSimple_Some_Match:
  assumes "MatchSimple pattern name = Some b"
  shows "b = Match pattern name"
  using assms by (auto simp: MatchSimple_def Match_def split: if_splits dest: deepMatchRune_simple)

lemma MatchSimple_no_qmark:
  assumes "rune_qmark \<notin> set (runes pattern)"
  shows "MatchSimple pattern name = Some (Match pattern name)"
proof -
  have "MatchSimple pattern name \<noteq> None"
    using deepMatchRune_simple_no_qmark [OF assms, of "runes name"] by (auto simp: MatchSimple_def)
  then show ?thesis using MatchSimple_Some_Match by blast
qed

text \<open>A pattern without wildcards matches itself only.\<close>

definition literal_runes :: "nat list \<Rightarrow> bool" where
  "literal_runes rs \<longleftrightarrow> rune_qmark \<notin> set rs \<and> rune_star \<notin> set rs"

lemma glob_literal_append:
  "literal_runes lit \<Longrightarrow> glob (lit @ pattern) str \<longleftrightarrow> (\<exists>str'. str = lit @ str' \<and> glob pattern str')"
  by (induction lit arbitrary: str) (auto simp: literal_runes_def)

lemma glob_literal: "literal_runes lit \<Longrightarrow> glob lit str \<longleftrightarrow> str = lit"
  using glob_literal_append [of lit "[]" str] by simp

lemma glob_literal_star: "literal_runes lit \<Longrightarrow> glob (lit @ [rune_star]) str \<longleftrightarrow> (\<exists>rest. str = lit @ rest)"
  by (simp add: glob_literal_append)

definition literal :: "string \<Rightarrow> bool" where
  "literal s \<longleftrightarrow> is_ascii s \<and> CHR ''?'' \<notin> set s \<and> CHR ''*'' \<notin> set s"

lemma literal_runes_ascii: "literal s \<Longrightarrow> literal_runes (runes s)"
proof -
  have "ascii (CHR ''?'') = rune_qmark" "ascii (CHR ''*'') = rune_star"
    by (simp_all add: ascii_def rune_qmark_def rune_star_def)
  then show "literal s \<Longrightarrow> literal_runes (runes s)"
    by (auto simp: literal_def literal_runes_def runes_ascii) (metis ascii_inj)+
qed

lemma runes_prefix_ascii:
  "is_ascii p \<Longrightarrow> (\<exists>rest. runes s = map ascii p @ rest) \<longleftrightarrow> HasPrefix s p"
proof (induction p arbitrary: s)
  case (Cons c p)
  show ?case
  proof (cases s)
    case (Cons d t)
    show ?thesis
    proof (cases "c = d")
      case True
      with Cons Cons.IH [of t] Cons.prems show ?thesis by simp
    next
      case False
      have "hd (runes s) \<noteq> ascii c"
      proof (cases "ascii d < 128")
        case True
        with Cons False show ?thesis by simp
      next
        case d: False
        have "hd (runes s) \<ge> 128"
        proof (cases "decode1 (ascii d) (bytes_of t)")
          case None
          with Cons show ?thesis by (simp add: runes_def ascii_def RuneError_def)
        next
          case (Some rn)
          obtain r n where rn: "rn = (r, n)" by (cases rn)
          have "EncodeRune r = ascii d # take n (bytes_of t)"
            using decode1_Some_inv Some rn by simp
          then have "\<not> r < 128" using d by (auto simp: EncodeRune_def valid_rune_def split: if_splits)
          with Some rn Cons show ?thesis by (simp add: runes_def ascii_def)
        qed
        with Cons.prems show ?thesis by auto
      qed
      with False Cons show ?thesis by (auto simp: neq_Nil_conv)
    qed
  qed (simp add: HasPrefix_def)
qed simp

lemma runes_eq_ascii:
  assumes "is_ascii p"
  shows "runes s = map ascii p \<longleftrightarrow> s = p"
proof
  assume e: "runes s = map ascii p"
  then have "\<exists>rest. runes s = map ascii p @ rest" by (metis append_Nil2)
  then obtain t where t: "s = p @ t" using runes_prefix_ascii [OF assms] by (auto simp: HasPrefix_iff)
  with e assms have "runes t = []" by (simp add: runes_ascii_append)
  with t show "s = p" by simp
qed (simp add: runes_ascii assms)

lemma Match_literal: "literal p \<Longrightarrow> Match p name \<longleftrightarrow> name = p"
  using runes_eq_ascii [of p name] glob_literal [OF literal_runes_ascii, of p]
  by (simp add: Match_glob literal_def runes_ascii)

lemma Match_literal_star: "literal p \<Longrightarrow> Match (p @ ''*'') name \<longleftrightarrow> HasPrefix name p"
proof -
  assume p: "literal p"
  then have a: "is_ascii p" by (simp add: literal_def)
  then have "runes (p @ ''*'') = runes p @ [rune_star]"
    by (simp add: runes_ascii_append runes_ascii)
  with p have "Match (p @ ''*'') name \<longleftrightarrow> (\<exists>rest. runes name = runes p @ rest)"
    by (simp add: Match_glob glob_literal_star literal_runes_ascii)
  with a show ?thesis by (simp add: runes_prefix_ascii runes_ascii)
qed

lemma Match_star [simp]: "Match ''*'' name"
  by (simp add: Match_def)

section \<open>Properties\<close>


text \<open>\<open>MatchSimple\<close> either panics or returns what \<open>Match\<close> returns; it does not panic for a
  pattern without question mark, and it does for the pattern of one question mark and the empty
  name.\<close>

theorem MatchSimple_panics_or_agrees:
  "MatchSimple pattern name \<in> {None, Some (Match pattern name)} \<and>
   MatchSimple ''?'' [] = None \<and>
   (CHR ''?'' \<notin> set pattern \<longrightarrow> MatchSimple pattern name = Some (Match pattern name))"
proof -
  have q: "ascii CHR ''?'' = rune_qmark" by (simp add: ascii_def rune_qmark_def)
  have "MatchSimple pattern name \<in> {None, Some (Match pattern name)}"
    using MatchSimple_Some_Match by (cases "MatchSimple pattern name") auto
  moreover have "MatchSimple ''?'' [] = None"
  proof -
    have "runes ''?'' = [rune_qmark]" by (subst runes_ascii) (simp_all add: is_ascii_def q rune_qmark_def)
    then show ?thesis by (simp add: MatchSimple_def)
  qed
  moreover have "CHR ''?'' \<notin> set pattern \<longrightarrow> MatchSimple pattern name = Some (Match pattern name)"
    using rune_of_char [of "CHR ''?''" pattern] MatchSimple_no_qmark [of pattern name] by (simp add: q rune_qmark_def)
  ultimately show ?thesis by simp
qed

theorem MatchSimple_panics_or_agrees_witness: "MatchSimple ''*'' ''alice'' = Some True"
  using MatchSimple_panics_or_agrees [of "''*''" "''alice''"] by simp

end
