(* ===== verification/StringSet.thy ===== *)
theory StringSet
  imports GoStrings
begin

text \<open>
  \<open>pkg/set/stringset.go\<close> and the interface that every Go map used as a set shares.  The Go
  type \<open>map[K]struct{}\<close> is a finite set of keys.  The locale \<open>key_set\<close> states what the users
  of such a type rely on; \<open>StringSet\<close> is its first instance, \<open>KeySet\<close>, \<open>ValueSet\<close>,
  \<open>ActionSet\<close> and \<open>ResourceSet\<close> follow in their own theories.
\<close>

section \<open>The interface\<close>

locale key_set =
  fixes new :: "'s"
    and add :: "'s \<Rightarrow> 'k \<Rightarrow> 's"
    and has :: "'s \<Rightarrow> 'k \<Rightarrow> bool"
  assumes has_new: "\<not> has new k"
    and has_add: "has (add s k) k' \<longleftrightarrow> k' = k \<or> has s k'"
    and has_ext: "(\<And>k. has s k \<longleftrightarrow> has t k) \<Longrightarrow> s = t"
begin

lemma add_commute: "add (add s k) k' = add (add s k') k"
  by (rule has_ext) (auto simp: has_add)

lemma add_idem: "has s k \<Longrightarrow> add s k = s"
  by (rule has_ext) (auto simp: has_add)

lemma has_foldl_add: "has (foldl add s ks) k \<longleftrightarrow> has s k \<or> k \<in> set ks"
  by (induction ks arbitrary: s) (auto simp: has_add)

lemma foldl_add_set: "set ks = set ks' \<Longrightarrow> foldl add new ks = foldl add new ks'"
  by (rule has_ext) (simp add: has_foldl_add)

lemma foldl_add_new: "has (foldl add new ks) k \<longleftrightarrow> k \<in> set ks"
  by (simp add: has_foldl_add has_new)

end

text \<open>Set types that also have \<open>Equals\<close> and \<open>Intersection\<close>.\<close>

locale key_set_eq = key_set new add has
  for new :: "'s" and add :: "'s \<Rightarrow> 'k \<Rightarrow> 's" and has :: "'s \<Rightarrow> 'k \<Rightarrow> bool" +
  fixes equals :: "'s \<Rightarrow> 's \<Rightarrow> bool"
    and inter :: "'s \<Rightarrow> 's \<Rightarrow> 's"
  assumes equals_has: "equals s t \<longleftrightarrow> (\<forall>k. has s k \<longleftrightarrow> has t k)"
    and has_inter: "has (inter s t) k \<longleftrightarrow> has s k \<and> has t k"
begin

lemma equals_eq: "equals s t \<longleftrightarrow> s = t"
  unfolding equals_has using has_ext by blast

lemma equals_sym: "equals s t \<longleftrightarrow> equals t s"
  by (auto simp: equals_eq)

lemma inter_commute: "inter s t = inter t s"
  by (rule has_ext) (auto simp: has_inter)

text \<open>The idiom \<open>s.Intersection(t).Equals(t)\<close> tests inclusion.\<close>

lemma inter_equals_subset: "equals (inter s t) t \<longleftrightarrow> (\<forall>k. has t k \<longrightarrow> has s k)"
  by (auto simp: equals_has has_inter)

end

section \<open>StringSet\<close>

type_synonym StringSet = "string fset"

definition NewStringSet :: StringSet where
  "NewStringSet = {||}"

definition StringSet_ToSlice :: "StringSet \<Rightarrow> string list" where
  "StringSet_ToSlice s = sorted_list_of_fset s"

definition StringSet_IsEmpty :: "StringSet \<Rightarrow> bool" where
  "StringSet_IsEmpty s = (fcard s = 0)"

definition StringSet_Add :: "StringSet \<Rightarrow> string \<Rightarrow> StringSet" where
  "StringSet_Add self s = finsert s self"

definition StringSet_Remove :: "StringSet \<Rightarrow> string \<Rightarrow> StringSet" where
  "StringSet_Remove self s = self |-| {|s|}"

definition StringSet_Contains :: "StringSet \<Rightarrow> string \<Rightarrow> bool" where
  "StringSet_Contains self s = (s |\<in>| self)"

definition StringSet_FuncMatch :: "StringSet \<Rightarrow> (string \<Rightarrow> string \<Rightarrow> bool) \<Rightarrow> string \<Rightarrow> StringSet" where
  "StringSet_FuncMatch self matchFn matchString = ffilter (\<lambda>k. matchFn k matchString) self"

text \<open>\<open>ApplyFunc\<close>, and its form for a function that may panic.\<close>

definition StringSet_ApplyFunc :: "StringSet \<Rightarrow> (string \<Rightarrow> string) \<Rightarrow> StringSet" where
  "StringSet_ApplyFunc self applyFn = applyFn |`| self"

definition StringSet_ApplyFunc_go :: "StringSet \<Rightarrow> (string \<Rightarrow> string go) \<Rightarrow> StringSet go" where
  "StringSet_ApplyFunc_go self applyFn = go_image applyFn self"

definition StringSet_Equals :: "StringSet \<Rightarrow> StringSet \<Rightarrow> bool" where
  "StringSet_Equals self sset =
     (if fcard self \<noteq> fcard sset then False else \<not> (\<exists>k |\<in>| self. \<not> k |\<in>| sset))"

definition StringSet_Intersection :: "StringSet \<Rightarrow> StringSet \<Rightarrow> StringSet" where
  "StringSet_Intersection self sset = ffilter (\<lambda>k. k |\<in>| sset) self"

definition StringSet_Difference :: "StringSet \<Rightarrow> StringSet \<Rightarrow> StringSet" where
  "StringSet_Difference self sset = ffilter (\<lambda>k. \<not> k |\<in>| sset) self"

definition StringSet_Union :: "StringSet \<Rightarrow> StringSet \<Rightarrow> StringSet" where
  "StringSet_Union self sset = self |\<union>| sset"

definition CreateStringSet :: "string list \<Rightarrow> StringSet" where
  "CreateStringSet sl = foldl StringSet_Add NewStringSet sl"

definition CopyStringSet :: "StringSet \<Rightarrow> StringSet" where
  "CopyStringSet self = ffilter (\<lambda>_. True) self"

text \<open>\<open>fmt.Sprintf("%s", slice)\<close>: the elements between brackets, a space between two.\<close>

definition sprint_slice :: "string list \<Rightarrow> string" where
  "sprint_slice sl = ''['' @ JoinOn '' '' sl @ '']''"

definition StringSet_String :: "StringSet \<Rightarrow> string" where
  "StringSet_String self = sprint_slice (StringSet_ToSlice self)"

text \<open>
  \<open>UnmarshalJSON\<close> decodes with the jsoniter package, first into a slice and then, if that
  fails, into a string; what the package returns for the two calls is the argument.
\<close>

definition StringSet_UnmarshalJSON :: "string list option \<Rightarrow> string option \<Rightarrow> StringSet option" where
  "StringSet_UnmarshalJSON as_slice as_string =
     (case as_slice of
        Some sl \<Rightarrow> Some (foldl StringSet_Add NewStringSet sl)
      | None \<Rightarrow> map_option (\<lambda>s. StringSet_Add NewStringSet s) as_string)"

lemmas StringSet_defs = NewStringSet_def StringSet_ToSlice_def StringSet_IsEmpty_def StringSet_Add_def
  StringSet_Remove_def StringSet_Contains_def StringSet_FuncMatch_def StringSet_ApplyFunc_def
  StringSet_ApplyFunc_go_def StringSet_Intersection_def StringSet_Difference_def StringSet_Union_def
  CopyStringSet_def

text \<open>The length test and the one-way inclusion loop together decide equality of finite sets.\<close>

lemma card_inclusion_equal:
  "(if fcard s \<noteq> fcard t then False else \<not> (\<exists>k |\<in>| s. \<not> k |\<in>| t)) \<longleftrightarrow> s = t"
proof
  assume "if fcard s \<noteq> fcard t then False else \<not> (\<exists>k |\<in>| s. \<not> k |\<in>| t)"
  then have "fcard s = fcard t" and "fset s \<subseteq> fset t" by (auto split: if_splits)
  then have "fset s = fset t"
    by (metis card_subset_eq fcard.rep_eq finite_fset)
  then show "s = t" by (simp add: fset_inject)
qed simp

interpretation strset: key_set_eq NewStringSet StringSet_Add StringSet_Contains
    StringSet_Equals StringSet_Intersection
proof unfold_locales
  fix s t :: StringSet
  assume "\<And>k. StringSet_Contains s k \<longleftrightarrow> StringSet_Contains t k"
  then show "s = t" by (auto simp: StringSet_defs)
next
  fix s t :: StringSet
  show "StringSet_Equals s t \<longleftrightarrow> (\<forall>k. StringSet_Contains s k \<longleftrightarrow> StringSet_Contains t k)"
    unfolding StringSet_Equals_def card_inclusion_equal by (auto simp: StringSet_defs)
qed (auto simp: StringSet_defs)

lemma fmember_CreateStringSet [simp]: "k |\<in>| CreateStringSet ks \<longleftrightarrow> k \<in> set ks"
  using strset.foldl_add_new [of ks k] by (simp add: CreateStringSet_def StringSet_Contains_def)

lemma CreateStringSet_fset: "CreateStringSet ks = fset_of_list ks"
  by (auto simp: fset_of_list_elem)

lemma StringSet_IsEmpty_iff [simp]: "StringSet_IsEmpty s \<longleftrightarrow> s = {||}"
  by (simp add: StringSet_IsEmpty_def)

lemma StringSet_Equals_eq: "StringSet_Equals s t \<longleftrightarrow> s = t"
  by (rule strset.equals_eq)

lemma set_StringSet_ToSlice [simp]: "set (StringSet_ToSlice s) = fset s"
  by (simp add: StringSet_ToSlice_def)

lemma StringSet_ToSlice_CreateStringSet [simp]: "CreateStringSet (StringSet_ToSlice s) = s"
  by (simp add: CreateStringSet_fset StringSet_ToSlice_def)

lemma StringSet_ToSlice_sorted: "sorted (StringSet_ToSlice s) \<and> distinct (StringSet_ToSlice s)"
  by (simp add: StringSet_ToSlice_def sorted_list_of_fset.rep_eq)

lemma StringSet_ToSlice_inj: "StringSet_ToSlice s = StringSet_ToSlice t \<longleftrightarrow> s = t"
  by (metis StringSet_ToSlice_CreateStringSet)

lemma CopyStringSet_eq [simp]: "CopyStringSet s = s"
  by (auto simp: CopyStringSet_def)

section \<open>Properties\<close>

text \<open>\<open>Equals\<close>, which compares the sizes and looks up one way, decides equality of the two
  sets; the slice of a set is sorted, has no duplicates and builds the set again; membership in
  the results of the set operations is what their names say.\<close>

theorem StringSet_operations:
  "(StringSet_Equals s t \<longleftrightarrow> s = t) \<and>
   sorted (StringSet_ToSlice s) \<and> distinct (StringSet_ToSlice s) \<and> CreateStringSet (StringSet_ToSlice s) = s \<and>
   (StringSet_Contains (StringSet_Intersection s t) k \<longleftrightarrow> StringSet_Contains s k \<and> StringSet_Contains t k) \<and>
   (StringSet_Contains (StringSet_Difference s t) k \<longleftrightarrow> StringSet_Contains s k \<and> \<not> StringSet_Contains t k) \<and>
   (StringSet_Contains (StringSet_Union s t) k \<longleftrightarrow> StringSet_Contains s k \<or> StringSet_Contains t k) \<and>
   (StringSet_Contains (StringSet_Remove s x) k \<longleftrightarrow> StringSet_Contains s k \<and> k \<noteq> x)"
  using StringSet_ToSlice_sorted [of s] by (auto simp: StringSet_Equals_eq StringSet_defs)

end
