(* ===== verification/Json.thy ===== *)
theory Json
  imports Utf8 "HOL-Library.Finite_Map"
begin

text \<open>
  The documents that \<open>encoding/json\<close> reads and writes, as trees.  A number keeps its literal,
  an object its fields in the order of the text.  The functions below are what
  \<open>json.Unmarshal\<close> does with a target of a basic type or of a map type and what \<open>json.Marshal\<close>
  writes for strings and maps; \<open>None\<close> is the error result.  The text of a document is not
  modelled, only its tree.
\<close>

datatype json =
    JNull
  | JBool bool
  | JNum string
  | JStr string
  | JArr "json list"
  | JObj "(string \<times> json) list"

section \<open>Decoding\<close>

text \<open>Decoding \<open>null\<close> leaves a target of a basic type as it is; the targets are zero values.\<close>

fun decode_bool :: "json \<Rightarrow> bool option" where
  "decode_bool JNull = Some False"
| "decode_bool (JBool b) = Some b"
| "decode_bool _ = None"

fun decode_int :: "json \<Rightarrow> int option" where
  "decode_int JNull = Some 0"
| "decode_int (JNum n) = ParseInt n"
| "decode_int _ = None"

fun decode_string :: "json \<Rightarrow> string option" where
  "decode_string JNull = Some []"
| "decode_string (JStr s) = Some s"
| "decode_string _ = None"

fun decode_list :: "(json \<Rightarrow> 'a option) \<Rightarrow> json list \<Rightarrow> 'a list option" where
  "decode_list f [] = Some []"
| "decode_list f (j # js) =
     (case f j of None \<Rightarrow> None | Some x \<Rightarrow> map_option (\<lambda>xs. x # xs) (decode_list f js))"

fun decode_slice :: "(json \<Rightarrow> 'a option) \<Rightarrow> json \<Rightarrow> 'a list option" where
  "decode_slice f JNull = Some []"
| "decode_slice f (JArr js) = decode_list f js"
| "decode_slice f _ = None"

text \<open>A map target: a later field replaces an earlier one of the same name.\<close>

fun decode_fields :: "(json \<Rightarrow> 'a option) \<Rightarrow> (string, 'a) fmap \<Rightarrow> (string \<times> json) list \<Rightarrow> (string, 'a) fmap option" where
  "decode_fields f m [] = Some m"
| "decode_fields f m ((k, j) # fs) =
     (case f j of None \<Rightarrow> None | Some x \<Rightarrow> decode_fields f (fmupd k x m) fs)"

fun decode_map :: "(json \<Rightarrow> 'a option) \<Rightarrow> json \<Rightarrow> (string, 'a) fmap option" where
  "decode_map f JNull = Some fmempty"
| "decode_map f (JObj fs) = decode_fields f fmempty fs"
| "decode_map f _ = None"

section \<open>Encoding\<close>

text \<open>A string is written rune by rune; bytes that are not UTF-8 become the replacement rune.\<close>

definition ToValidUTF8 :: "string \<Rightarrow> string" where
  "ToValidUTF8 s = string_of_bytes (concat (map EncodeRune (runes s)))"

definition json_string :: "string \<Rightarrow> json" where
  "json_string s = JStr (ToValidUTF8 s)"

definition json_int :: "int \<Rightarrow> json" where
  "json_int i = JNum (Itoa i)"

text \<open>The keys of a map in the order in which \<open>json.Marshal\<close> writes them.  Code that ranges over
  a map sees them in an order Go leaves open; this one stands for it.\<close>

definition sorted_keys :: "(string, 'a) fmap \<Rightarrow> string list" where
  "sorted_keys m = sorted_list_of_fset (fmdom m)"

definition sorted_items :: "(string, 'a) fmap \<Rightarrow> (string \<times> 'a) list" where
  "sorted_items m = map (\<lambda>k. (k, the (fmlookup m k))) (sorted_keys m)"

lemma ToValidUTF8_valid: "ValidString s \<Longrightarrow> ToValidUTF8 s = s"
  using utf8_encode_decode [of "bytes_of s"]
  by (simp add: ToValidUTF8_def ValidString_def runes_def)

lemma set_sorted_keys [simp]: "set (sorted_keys m) = fset (fmdom m)"
  by (simp add: sorted_keys_def)

lemma distinct_sorted_keys [simp]: "distinct (sorted_keys m)"
  by (simp add: sorted_keys_def sorted_list_of_fset.rep_eq)

lemma map_fst_sorted_items [simp]: "map fst (sorted_items m) = sorted_keys m"
  by (simp add: sorted_items_def comp_def)

lemma set_sorted_items: "(k, v) \<in> set (sorted_items m) \<longleftrightarrow> fmlookup m k = Some v"
  by (auto simp: sorted_items_def fmlookup_dom_iff)

lemma decode_int_json_int: "in_int64 i \<Longrightarrow> decode_int (json_int i) = Some i"
  using Atoi_Itoa by (simp add: json_int_def Atoi_def)

lemma decode_list_map: "(\<And>x. x \<in> set xs \<Longrightarrow> f (g x) = Some x) \<Longrightarrow> decode_list f (map g xs) = Some xs"
  by (induction xs) auto

lemma decode_fields_map:
  assumes "\<And>k x. (k, x) \<in> set xs \<Longrightarrow> f (g x) = Some (h x)"
  shows "decode_fields f m (map (\<lambda>(k, x). (k, g x)) xs) = Some (foldl (\<lambda>m (k, x). fmupd k (h x) m) m xs)"
  using assms
proof (induction xs arbitrary: m)
  case (Cons kx xs)
  obtain k x where kx: "kx = (k, x)" by (cases kx)
  have "f (g x) = Some (h x)" by (rule Cons.prems [of k]) (simp add: kx)
  moreover have "decode_fields f (fmupd k (h x) m) (map (\<lambda>(k, x). (k, g x)) xs) =
      Some (foldl (\<lambda>m (k, x). fmupd k (h x) m) (fmupd k (h x) m) xs)"
    by (rule Cons.IH, rule Cons.prems) auto
  ultimately show ?case by (simp add: kx)
qed simp

lemma fmlookup_foldl_items:
  "distinct (map fst xs) \<Longrightarrow> fmlookup (foldl (\<lambda>m (k, x). fmupd k (h x) m) m xs) y =
     (case map_of xs y of Some x \<Rightarrow> Some (h x) | None \<Rightarrow> fmlookup m y)"
  by (induction xs arbitrary: m) (auto split: option.splits dest: map_of_SomeD simp: map_of_eq_None_iff rev_image_eqI)

lemma map_of_sorted_items: "map_of (sorted_items m) k = fmlookup m k"
proof (cases "fmlookup m k")
  case None
  then show ?thesis by (auto simp: map_of_eq_None_iff fmlookup_dom_iff simp flip: set_map)
next
  case (Some v)
  then have "map_of (sorted_items m) k = Some v"
    by (intro map_of_is_SomeI) (simp_all add: set_sorted_items)
  with Some show ?thesis by simp
qed

lemma decode_map_items:
  assumes "\<And>k x. fmlookup m k = Some x \<Longrightarrow> f (g x) = Some (h x)"
  shows "decode_map f (JObj (map (\<lambda>(k, x). (k, g x)) (sorted_items m))) = Some (fmmap h m)"
proof -
  have "decode_fields f fmempty (map (\<lambda>(k, x). (k, g x)) (sorted_items m)) =
      Some (foldl (\<lambda>m (k, x). fmupd k (h x) m) fmempty (sorted_items m))"
    using assms by (intro decode_fields_map) (auto simp: set_sorted_items)
  also have "foldl (\<lambda>m (k, x). fmupd k (h x) m) fmempty (sorted_items m) = fmmap h m"
    by (rule fmap_ext) (auto simp: fmlookup_foldl_items map_of_sorted_items split: option.splits)
  finally show ?thesis by simp
qed

end
