(* ===== verification/GoNet.thy ===== *)
theory GoNet
  imports Utf8 "HOL-Library.Word"
begin

unbundle bit_operations_syntax

text \<open>
  What the policy conditions use of the Go packages \<open>net\<close>, \<open>net/http\<close> and \<open>encoding/base64\<close>,
  in the releases that \<open>go.mod\<close> and the \<open>Dockerfile\<close> name (1.13 and 1.14): \<open>ParseIP\<close>,
  \<open>ParseCIDR\<close>, \<open>IPNet.Contains\<close>, \<open>IPNet.String\<close>, \<open>CanonicalHeaderKey\<close> and the standard
  base64 encoding.  An address is the byte slice Go keeps: 4 or 16 bytes.
\<close>

section \<open>Numbers inside addresses\<close>

type_synonym ip = "8 word list"

text \<open>\<open>dtoi\<close> and \<open>xtoi\<close>: value and rest of the digits at the front, below \<open>0xFFFFFF\<close>.\<close>

definition net_big :: int where "net_big = 16777215"

fun scan_num :: "(char \<Rightarrow> nat option) \<Rightarrow> nat \<Rightarrow> int \<Rightarrow> string \<Rightarrow> (int \<times> string) option" where
  "scan_num dig base n [] = Some (n, [])"
| "scan_num dig base n (c # s) =
     (case dig c of
        None \<Rightarrow> Some (n, c # s)
      | Some d \<Rightarrow>
          (let n' = n * int base + int d in
           if net_big \<le> n' then None else scan_num dig base n' s))"

definition dec_digit :: "char \<Rightarrow> nat option" where
  "dec_digit c = (if is_digit c then Some (digit_val c) else None)"

definition hex_digit :: "char \<Rightarrow> nat option" where
  "hex_digit c =
     (if is_digit c then Some (ascii c - 48)
      else if 97 \<le> ascii c \<and> ascii c \<le> 102 then Some (ascii c - 87)
      else if 65 \<le> ascii c \<and> ascii c \<le> 70 then Some (ascii c - 55)
      else None)"

definition scan_from :: "(char \<Rightarrow> nat option) \<Rightarrow> nat \<Rightarrow> string \<Rightarrow> (int \<times> string) option" where
  "scan_from dig base s =
     (case s of [] \<Rightarrow> None | c # _ \<Rightarrow> if dig c = None then None else scan_num dig base 0 s)"

definition dtoi :: "string \<Rightarrow> (int \<times> string) option" where
  "dtoi = scan_from dec_digit 10"

definition xtoi :: "string \<Rightarrow> (int \<times> string) option" where
  "xtoi = scan_from hex_digit 16"

section \<open>Parsing addresses\<close>

definition v4InV6Prefix :: ip where
  "v4InV6Prefix = replicate 10 0 @ [255, 255]"

fun octets :: "nat \<Rightarrow> bool \<Rightarrow> string \<Rightarrow> ip option" where
  "octets 0 first s = (if s = [] then Some [] else None)"
| "octets (Suc n) first s =
     do {
       s \<leftarrow> (if s = [] then None else if first then Some s
            else if hd s = CHR ''.'' then Some (tl s) else None);
       (v, rest) \<leftarrow> dtoi s;
       bs \<leftarrow> (if 255 < v then None else octets n False rest);
       Some (word_of_int v # bs)
     }"

definition parseIPv4 :: "string \<Rightarrow> ip option" where
  "parseIPv4 s = map_option (\<lambda>p. v4InV6Prefix @ p) (octets 4 True s)"

text \<open>
  The loop of \<open>parseIPv6\<close>.  \<open>acc\<close> is \<open>ip[:i]\<close>; the result is the final \<open>ip[:i]\<close>, the place of
  the ellipsis and the unread text.  The bound \<open>n\<close> counts the eight rounds the loop has.
\<close>

fun parse_groups :: "nat \<Rightarrow> ip \<Rightarrow> nat option \<Rightarrow> string \<Rightarrow> (ip \<times> nat option \<times> string) option" where
  "parse_groups 0 acc ell s = Some (acc, ell, s)"
| "parse_groups (Suc n) acc ell s =
     (if 16 \<le> length acc then Some (acc, ell, s)
      else case xtoi s of
        None \<Rightarrow> None
      | Some (v, rest) \<Rightarrow>
          if 65535 < v then None
          else if rest \<noteq> [] \<and> hd rest = CHR ''.'' then
            (if ell = None \<and> length acc \<noteq> 12 then None
             else if 16 < length acc + 4 then None
             else map_option (\<lambda>ip4. (acc @ drop 12 ip4, ell, [])) (parseIPv4 s))
          else
            (let acc' = acc @ [word_of_int (v div 256), word_of_int v] in
             if rest = [] then Some (acc', ell, [])
             else if hd rest \<noteq> CHR '':'' \<or> length rest = 1 then None
             else
               (let rest' = tl rest in
                if hd rest' = CHR '':'' then
                  (if ell \<noteq> None then None
                   else if tl rest' = [] then Some (acc', Some (length acc'), [])
                   else parse_groups n acc' (Some (length acc')) (tl rest'))
                else parse_groups n acc' ell rest')))"

definition finish_groups :: "ip \<times> nat option \<times> string \<Rightarrow> ip option" where
  "finish_groups r =
     (case r of (acc, ell, s) \<Rightarrow>
        if s \<noteq> [] then None
        else if length acc < 16 then
          (case ell of
             None \<Rightarrow> None
           | Some e \<Rightarrow> Some (take e acc @ replicate (16 - length acc) 0 @ drop e acc))
        else if ell \<noteq> None then None
        else Some acc)"

definition parseIPv6 :: "string \<Rightarrow> ip option" where
  "parseIPv6 s =
     (if HasPrefix s ''::'' then
        (if drop 2 s = [] then Some (replicate 16 0)
         else Option.bind (parse_groups 8 [] (Some 0) (drop 2 s)) finish_groups)
      else Option.bind (parse_groups 8 [] None s) finish_groups)"

definition ParseIP :: "string \<Rightarrow> ip option" where
  "ParseIP s =
     (case dropWhile (\<lambda>c. c \<noteq> CHR ''.'' \<and> c \<noteq> CHR '':'') s of
        [] \<Rightarrow> None
      | c # _ \<Rightarrow> if c = CHR ''.'' then parseIPv4 s else parseIPv6 s)"

section \<open>Networks\<close>

record ipnet =
  IP :: ip
  Mask :: ip

definition To4 :: "ip \<Rightarrow> ip option" where
  "To4 ip = (if length ip = 4 then Some ip
     else if length ip = 16 \<and> take 12 ip = v4InV6Prefix then Some (drop 12 ip) else None)"

text \<open>\<open>CIDRMask(ones, bits)\<close> for \<open>0 \<le> ones \<le> bits\<close>.\<close>

fun mask_bytes :: "nat \<Rightarrow> nat \<Rightarrow> ip" where
  "mask_bytes 0 n = []"
| "mask_bytes (Suc l) n =
     (if 8 \<le> n then 255 # mask_bytes l (n - 8)
      else NOT (drop_bit n (255 :: 8 word)) # mask_bytes l 0)"

definition CIDRMask :: "nat \<Rightarrow> nat \<Rightarrow> ip" where
  "CIDRMask ones bits = mask_bytes (bits div 8) ones"

text \<open>\<open>ip.Mask(m)\<close> for the two shapes \<open>ParseCIDR\<close> builds: an IPv4 address kept in 16 bytes with
  a mask of 4, and 16 bytes with 16.\<close>

definition ip_Mask :: "ip \<Rightarrow> ip \<Rightarrow> ip" where
  "ip_Mask ip m =
     (let ip' = (if length m = 4 \<and> length ip = 16 \<and> take 12 ip = v4InV6Prefix then drop 12 ip else ip)
      in map2 (\<lambda>a b. a AND b) ip' m)"

definition ParseCIDR :: "string \<Rightarrow> ipnet option" where
  "ParseCIDR s =
     (case Index s ''/'' of
        None \<Rightarrow> None
      | Some i \<Rightarrow>
          (let addr = take i s; mask = drop (i + 1) s;
               iplen = (if parseIPv4 addr = None then 16 else 4 :: nat);
               ip = (case parseIPv4 addr of Some ip \<Rightarrow> Some ip | None \<Rightarrow> parseIPv6 addr)
           in case (ip, dtoi mask) of
                (Some ip, Some (n, [])) \<Rightarrow>
                  if int (8 * iplen) < n then None
                  else (let m = CIDRMask (nat n) (8 * iplen)
                        in Some \<lparr>IP = ip_Mask ip m, Mask = m\<rparr>)
              | _ \<Rightarrow> None))"

definition networkNumberAndMask :: "ipnet \<Rightarrow> (ip \<times> ip) option" where
  "networkNumberAndMask n =
     (let m = Mask n in
      case (case To4 (IP n) of Some ip \<Rightarrow> Some ip
                             | None \<Rightarrow> if length (IP n) = 16 then Some (IP n) else None) of
        None \<Rightarrow> None
      | Some ip \<Rightarrow>
          if length m = 4 then (if length ip \<noteq> 4 then None else Some (ip, m))
          else if length m = 16 then Some (ip, if length ip = 4 then drop 12 m else m)
          else None)"

definition IPNet_Contains :: "ipnet \<Rightarrow> ip \<Rightarrow> bool" where
  "IPNet_Contains n ip =
     (let ip' = (case To4 ip of Some x \<Rightarrow> x | None \<Rightarrow> ip) in
      case networkNumberAndMask n of
        None \<Rightarrow> ip' = []
      | Some (nn, m) \<Rightarrow>
          length ip' = length nn \<and>
          list_all (\<lambda>((a, b), c). a AND b = c AND b) (zip (zip nn m) ip'))"

section \<open>Printing networks\<close>

definition byte_dec :: "8 word \<Rightarrow> string" where
  "byte_dec b = nat_digits (unat b)"

definition hex_char :: "nat \<Rightarrow> char" where
  "hex_char n = char_of (if n < 10 then 48 + n else 87 + n)"

fun hex_digits :: "nat \<Rightarrow> string" where
  "hex_digits n = (if n < 16 then [hex_char n] else hex_digits (n div 16) @ [hex_char (n mod 16)])"

declare hex_digits.simps [simp del]

text \<open>\<open>appendHex\<close> of a 16-bit group, and \<open>hexString\<close>.\<close>

fun ip_groups :: "ip \<Rightarrow> nat list" where
  "ip_groups (a # b # r) = (256 * unat a + unat b) # ip_groups r"
| "ip_groups _ = []"

definition hexString :: "ip \<Rightarrow> string" where
  "hexString bs = concat (map (\<lambda>b. [hex_char (unat b div 16), hex_char (unat b mod 16)]) bs)"

text \<open>The first longest run of zero groups: start and length, kept when longer than one.\<close>

fun zero_run :: "nat list \<Rightarrow> nat" where
  "zero_run (0 # r) = Suc (zero_run r)"
| "zero_run _ = 0"

definition best_run :: "nat list \<Rightarrow> (nat \<times> nat) option" where
  "best_run gs =
     (let best = foldl (\<lambda>(s, l) i. if l < zero_run (drop i gs) then (i, zero_run (drop i gs)) else (s, l))
                       (0, 0) [0..<length gs]
      in if snd best \<le> 1 then None else Some best)"

definition IP_String :: "ip \<Rightarrow> string" where
  "IP_String p =
     (if p = [] then ''<nil>''
      else case To4 p of
        Some q \<Rightarrow> JoinOn ''.'' (map byte_dec q)
      | None \<Rightarrow>
          if length p \<noteq> 16 then CHR ''?'' # hexString p
          else case best_run (ip_groups p) of
            None \<Rightarrow> JoinOn '':'' (map hex_digits (ip_groups p))
          | Some (s, l) \<Rightarrow>
              JoinOn '':'' (map hex_digits (take s (ip_groups p))) @ ''::'' @
              JoinOn '':'' (map hex_digits (drop (s + l) (ip_groups p))))"

text \<open>\<open>simpleMaskLength\<close>: the number of leading ones, \<open>None\<close> for a mask that is not canonical.\<close>

definition mask_bits :: "ip \<Rightarrow> bool list" where
  "mask_bits m = concat (map (\<lambda>b. map (bit b) [7, 6, 5, 4, 3, 2, 1, 0]) m)"

definition simpleMaskLength :: "ip \<Rightarrow> nat option" where
  "simpleMaskLength m =
     (let bs = mask_bits m; n = length (takeWhile id bs)
      in if True \<in> set (drop n bs) then None else Some n)"

definition IPNet_String :: "ipnet \<Rightarrow> string" where
  "IPNet_String n =
     (case networkNumberAndMask n of
        None \<Rightarrow> ''<nil>''
      | Some (nn, m) \<Rightarrow>
          (case simpleMaskLength m of
             None \<Rightarrow> IP_String nn @ ''/'' @ (if m = [] then ''<nil>'' else hexString m)
           | Some l \<Rightarrow> IP_String nn @ ''/'' @ nat_digits l))"

section \<open>Canonical header names\<close>

text \<open>\<open>validHeaderFieldByte\<close>: the token characters of RFC 7230.\<close>

definition validHeaderFieldByte :: "char \<Rightarrow> bool" where
  "validHeaderFieldByte c \<longleftrightarrow> is_alnum c \<or> c \<in> set ''!#$%&*+-.^_`|~'' \<or> ascii c = 39"

fun canonical_go :: "bool \<Rightarrow> string \<Rightarrow> string" where
  "canonical_go up [] = []"
| "canonical_go up (c # s) =
     (let c' = (if up then to_upper_char c else to_lower_char c) in c' # canonical_go (c' = CHR ''-'') s)"

definition CanonicalHeaderKey :: "string \<Rightarrow> string" where
  "CanonicalHeaderKey s = (if list_all validHeaderFieldByte s then canonical_go True s else s)"

section \<open>The standard base64 encoding\<close>

definition b64_char :: "nat \<Rightarrow> char" where
  "b64_char n = char_of (if n < 26 then 65 + n else if n < 52 then 71 + n
     else if n < 62 then n - 4 else if n = 62 then 43 else 47)"

definition b64_val :: "char \<Rightarrow> nat option" where
  "b64_val c = (if is_upper c then Some (ascii c - 65) else if is_lower c then Some (ascii c - 71)
     else if is_digit c then Some (ascii c + 4) else if c = CHR ''+'' then Some 62
     else if c = CHR ''/'' then Some 63 else None)"

fun b64_enc :: "nat list \<Rightarrow> string" where
  "b64_enc [] = []"
| "b64_enc [a] = [b64_char (a div 4), b64_char (a mod 4 * 16), CHR ''='', CHR ''='']"
| "b64_enc [a, b] =
     [b64_char (a div 4), b64_char (a mod 4 * 16 + b div 16), b64_char (b mod 16 * 4), CHR ''='']"
| "b64_enc (a # b # c # r) =
     b64_char (a div 4) # b64_char (a mod 4 * 16 + b div 16) #
     b64_char (b mod 16 * 4 + c div 64) # b64_char (c mod 64) # b64_enc r"

definition b64_EncodeToString :: "string \<Rightarrow> string" where
  "b64_EncodeToString s = b64_enc (bytes_of s)"

text \<open>Decoding skips line breaks, takes four characters at a time and lets the padding end the
  text; it does not look at the unused bits of the last character.\<close>

fun b64_dec :: "string \<Rightarrow> nat list option" where
  "b64_dec [] = Some []"
| "b64_dec (p # q # r # s # rest) =
     do {
       x \<leftarrow> b64_val p;
       y \<leftarrow> b64_val q;
       if r = CHR ''='' then
         (if s = CHR ''='' \<and> rest = [] then Some [x * 4 + y div 16] else None)
       else do {
         z \<leftarrow> b64_val r;
         if s = CHR ''='' then
           (if rest = [] then Some [x * 4 + y div 16, y mod 16 * 16 + z div 4] else None)
         else do {
           w \<leftarrow> b64_val s;
           tail \<leftarrow> b64_dec rest;
           Some ((x * 4 + y div 16) # (y mod 16 * 16 + z div 4) # (z mod 4 * 64 + w) # tail)
         }
       }
     }"
| "b64_dec _ = None"

definition b64_DecodeString :: "string \<Rightarrow> string option" where
  "b64_DecodeString s =
     map_option string_of_bytes (b64_dec (filter (\<lambda>c. ascii c \<noteq> 10 \<and> ascii c \<noteq> 13) s))"

lemma ascii_char_of: "n < 256 \<Longrightarrow> ascii (char_of n) = n"
  by (simp add: ascii_def)

lemma ascii_b64_char: "n < 64 \<Longrightarrow> ascii (b64_char n) =
    (if n < 26 then 65 + n else if n < 52 then 71 + n else if n < 62 then n - 4 else if n = 62 then 43 else 47)"
  unfolding b64_char_def by (rule ascii_char_of) auto

lemma b64_val_char: "n < 64 \<Longrightarrow> b64_val (b64_char n) = Some n"
  using ascii_b64_char [of n] ascii_inj [of "b64_char n" "CHR ''+''"] ascii_inj [of "b64_char n" "CHR ''/''"]
  by (auto simp: b64_val_def is_upper_def is_lower_def is_digit_def ascii_def split: if_splits)

lemma b64_char_neq: "n < 64 \<Longrightarrow> b64_char n \<noteq> CHR ''='' \<and> ascii (b64_char n) \<noteq> 10 \<and> ascii (b64_char n) \<noteq> 13"
  using ascii_b64_char [of n] ascii_inj [of "b64_char n" "CHR ''=''"]
  by (auto simp: ascii_def split: if_splits)

lemma div_mod_pack:
  fixes p q k :: nat
  assumes "q < k"
  shows "(p * k + q) div k = p" "(p * k + q) mod k = q"
  using assms by auto

lemma b64_sextets:
  fixes a b c :: nat
  assumes "a < 256" "b < 256" "c < 256"
  shows "a div 4 < 64" "a mod 4 * 16 < 64" "a mod 4 * 16 + b div 16 < 64" "b mod 16 * 4 < 64"
    "b mod 16 * 4 + c div 64 < 64" "c mod 64 < 64"
    "a div 4 * 4 + (a mod 4 * 16) div 16 = a"
    "a div 4 * 4 + (a mod 4 * 16 + b div 16) div 16 = a"
    "(a mod 4 * 16 + b div 16) mod 16 * 16 + (b mod 16 * 4) div 4 = b"
    "(a mod 4 * 16 + b div 16) mod 16 * 16 + (b mod 16 * 4 + c div 64) div 4 = b"
    "(b mod 16 * 4 + c div 64) mod 4 * 64 + c mod 64 = c"
proof -
  have a: "a mod 4 < 4" "a div 4 < 64" and b: "b mod 16 < 16" "b div 16 < 16"
    and c: "c mod 64 < 64" "c div 64 < 4" using assms by auto
  note pack = div_mod_pack [OF b(2), of "a mod 4"] div_mod_pack [OF c(2), of "b mod 16"]
  show "a div 4 < 64" "a mod 4 * 16 < 64" "a mod 4 * 16 + b div 16 < 64" "b mod 16 * 4 < 64"
    "b mod 16 * 4 + c div 64 < 64" "c mod 64 < 64" using a b c by linarith+
  show "a div 4 * 4 + (a mod 4 * 16) div 16 = a" by simp
  show "a div 4 * 4 + (a mod 4 * 16 + b div 16) div 16 = a"
    "(a mod 4 * 16 + b div 16) mod 16 * 16 + (b mod 16 * 4) div 4 = b"
    "(a mod 4 * 16 + b div 16) mod 16 * 16 + (b mod 16 * 4 + c div 64) div 4 = b"
    "(b mod 16 * 4 + c div 64) mod 4 * 64 + c mod 64 = c"
    using b c by (simp_all add: pack)
qed

lemma b64_dec_enc: "list_all (\<lambda>b. b < 256) bs \<Longrightarrow> b64_dec (b64_enc bs) = Some bs"
proof (induction bs rule: b64_enc.induct)
  case (2 a)
  then have a: "a < 256" by simp
  show ?case
    using b64_sextets [OF a a a] by (simp only: b64_enc.simps b64_dec.simps b64_val_char b64_char_neq bind.simps simp_thms if_True)
next
  case (3 a b)
  then have ab: "a < 256" "b < 256" by simp_all
  show ?case
    using b64_sextets [OF ab ab(1)]
    by (simp only: b64_enc.simps b64_dec.simps b64_val_char b64_char_neq bind.simps simp_thms if_True if_False)
next
  case (4 a b c r)
  note IH = this
  then have abc: "a < 256" "b < 256" "c < 256" and r: "b64_dec (b64_enc r) = Some r" by simp_all
  show ?case
    using b64_sextets [OF abc]
    by (simp only: b64_enc.simps b64_dec.simps b64_val_char b64_char_neq r bind.simps simp_thms if_True if_False)
qed simp

lemma b64_enc_chars: "list_all (\<lambda>b. b < 256) bs \<Longrightarrow> c \<in> set (b64_enc bs) \<Longrightarrow>
    c = CHR ''='' \<or> (\<exists>n < 64. c = b64_char n)"
proof (induction bs rule: b64_enc.induct)
  case (2 a)
  then have a: "a < 256" by simp
  from 2(2) have "c = b64_char (a div 4) \<or> c = b64_char (a mod 4 * 16) \<or> c = CHR ''=''"
    by simp
  with b64_sextets(1,2) [OF a a a] show ?case by blast
next
  case (3 a b)
  then have ab: "a < 256" "b < 256" by simp_all
  from 3(2) have "c = b64_char (a div 4) \<or> c = b64_char (a mod 4 * 16 + b div 16) \<or>
      c = b64_char (b mod 16 * 4) \<or> c = CHR ''=''" by simp
  with b64_sextets(1,3,4) [OF ab ab(1)] show ?case by blast
next
  case (4 x y z r)
  then have xyz: "x < 256" "y < 256" "z < 256" and r: "c \<in> set (b64_enc r) \<Longrightarrow>
    c = CHR ''='' \<or> (\<exists>n < 64. c = b64_char n)" by simp_all
  from 4(3) have "c = b64_char (x div 4) \<or> c = b64_char (x mod 4 * 16 + y div 16) \<or>
      c = b64_char (y mod 16 * 4 + z div 64) \<or> c = b64_char (z mod 64) \<or> c \<in> set (b64_enc r)" by simp
  with r b64_sextets(1,3,5,6) [OF xyz] show ?case by blast
qed simp

lemma b64_enc_no_breaks:
  assumes "list_all (\<lambda>b. b < 256) bs"
  shows "filter (\<lambda>c. ascii c \<noteq> 10 \<and> ascii c \<noteq> 13) (b64_enc bs) = b64_enc bs"
proof -
  have eq: "ascii (CHR ''='') \<noteq> 10 \<and> ascii (CHR ''='') \<noteq> 13" by (simp add: ascii_def)
  show ?thesis
    unfolding filter_id_conv using b64_enc_chars [OF assms] b64_char_neq eq by blast
qed

lemma b64_roundtrip: "b64_DecodeString (b64_EncodeToString s) = Some s"
proof -
  have "list_all (\<lambda>b. b < 256) (bytes_of s)" by (auto simp: list_all_iff bytes_of_bound)
  then show ?thesis
    by (simp add: b64_DecodeString_def b64_EncodeToString_def b64_enc_no_breaks b64_dec_enc)
qed

end
