(* ===== verification/S3Utils.thy ===== *)
theory S3Utils
  imports GoNet "HOL-Library.Finite_Map"
begin

text \<open>
  \<open>pkg/s3utils/utils.go\<close>: names of buckets and objects, the percent encoding of paths and the
  encoding of tags as a query.  The recognisers of Amazon, Google and Aliyun host names are not
  modelled.  A Go \<open>map[string]string\<close> is a finite map \<open>(string, string) fmap\<close>.
\<close>

section \<open>White space\<close>

text \<open>\<open>unicode.IsSpace\<close>, as the list of the code points it holds for, in their encodings.\<close>

definition space_runes :: "nat list" where
  "space_runes = [9, 10, 11, 12, 13, 32, 133, 160, 5760] @ [8192..<8203] @ [8232, 8233, 8239, 8287, 12288]"

definition space_encodings :: "string list" where
  "space_encodings = map (\<lambda>r. string_of_bytes (EncodeRune r)) space_runes"

function TrimLeftSpace :: "string \<Rightarrow> string" where
  "TrimLeftSpace s =
     (case find (HasPrefix s) space_encodings of
        None \<Rightarrow> s
      | Some e \<Rightarrow> if e = [] then s else TrimLeftSpace (drop (length e) s))"
  by pat_completeness auto
termination
proof (relation "measure length")
  fix s e
  assume "find (HasPrefix s) space_encodings = Some e" and "e \<noteq> []"
  then obtain t where "s = e @ t" by (auto simp: find_Some_iff HasPrefix_iff)
  then show "(drop (length e) s, s) \<in> measure length" using \<open>e \<noteq> []\<close> by simp
qed simp

declare TrimLeftSpace.simps [simp del]

function TrimRightSpace :: "string \<Rightarrow> string" where
  "TrimRightSpace s =
     (case find (HasSuffix s) space_encodings of
        None \<Rightarrow> s
      | Some e \<Rightarrow> if e = [] then s else TrimRightSpace (take (length s - length e) s))"
  by pat_completeness auto
termination
proof (relation "measure length")
  fix s e
  assume "find (HasSuffix s) space_encodings = Some e" and "e \<noteq> []"
  then obtain t where "s = t @ e" by (auto simp: find_Some_iff HasSuffix_iff)
  then show "(take (length s - length e) s, s) \<in> measure length" using \<open>e \<noteq> []\<close> by simp
qed simp

declare TrimRightSpace.simps [simp del]

definition TrimSpace :: "string \<Rightarrow> string" where
  "TrimSpace s = TrimRightSpace (TrimLeftSpace s)"

section \<open>Domains and addresses\<close>

definition domain_reserved :: string where
  "domain_reserved = CHR 0x60 # ''~!@#$%^&*()+={}[]|'' @ [CHR 0x5C, CHR 0x22, CHR 0x27] @ '';:><?/''"

definition IsValidDomain :: "string \<Rightarrow> bool" where
  "IsValidDomain host0 =
     (let host = TrimSpace host0 in
      if length host = 0 \<or> 255 < length host then False
      else if last host = CHR ''-'' \<or> hd host = CHR ''-'' then False
      else if last host = CHR ''_'' \<or> hd host = CHR ''_'' then False
      else if hd host = CHR ''.'' then False
      else if list_ex (\<lambda>c. c \<in> set domain_reserved) host then False
      else True)"

definition IsValidIP :: "string \<Rightarrow> bool" where
  "IsValidIP ip = (ParseIP ip \<noteq> None)"

section \<open>Bucket and object names\<close>

datatype bucket_err = BucketEmpty | BucketShort | BucketLong | BucketIP | BucketInvalid

text \<open>The three regular expressions of the file, as tests of the whole name.\<close>

definition bucket_char :: "char \<Rightarrow> bool" where
  "bucket_char c \<longleftrightarrow> is_alnum c \<or> c \<in> set ''.-_:''"

definition bucket_char_strict :: "char \<Rightarrow> bool" where
  "bucket_char_strict c \<longleftrightarrow> is_lower c \<or> is_digit c \<or> c \<in> set ''.-''"

definition end_char_strict :: "char \<Rightarrow> bool" where
  "end_char_strict c \<longleftrightarrow> is_lower c \<or> is_digit c"

definition name_regex :: "(char \<Rightarrow> bool) \<Rightarrow> (char \<Rightarrow> bool) \<Rightarrow> string \<Rightarrow> bool" where
  "name_regex ends mid s \<longleftrightarrow>
     3 \<le> length s \<and> length s \<le> 63 \<and> ends (hd s) \<and> ends (last s) \<and> list_all mid (butlast (tl s))"

definition validBucketName :: "string \<Rightarrow> bool" where
  "validBucketName = name_regex is_alnum bucket_char"

definition validBucketNameStrict :: "string \<Rightarrow> bool" where
  "validBucketNameStrict = name_regex end_char_strict bucket_char_strict"

definition ipAddress_regex :: "string \<Rightarrow> bool" where
  "ipAddress_regex s \<longleftrightarrow>
     length (SplitOn CHR ''.'' s) = 4 \<and> list_all (\<lambda>w. w \<noteq> [] \<and> list_all is_digit w) (SplitOn CHR ''.'' s)"

definition checkBucketNameCommon :: "string \<Rightarrow> bool \<Rightarrow> bucket_err option" where
  "checkBucketNameCommon bucketName strict =
     (if TrimSpace bucketName = [] then Some BucketEmpty
      else if length bucketName < 3 then Some BucketShort
      else if 63 < length bucketName then Some BucketLong
      else if ipAddress_regex bucketName then Some BucketIP
      else if Contains bucketName ''..'' \<or> Contains bucketName ''.-'' \<or> Contains bucketName ''-.''
        then Some BucketInvalid
      else if strict then
        (if \<not> validBucketNameStrict bucketName then Some BucketInvalid else None)
      else if \<not> validBucketName bucketName then Some BucketInvalid
      else None)"

definition CheckValidBucketName :: "string \<Rightarrow> bucket_err option" where
  "CheckValidBucketName bucketName = checkBucketNameCommon bucketName False"

definition CheckValidBucketNameStrict :: "string \<Rightarrow> bucket_err option" where
  "CheckValidBucketNameStrict bucketName = checkBucketNameCommon bucketName True"

datatype object_err = ObjectEmpty | ObjectLong | ObjectNotUTF8

definition CheckValidObjectNamePrefix :: "string \<Rightarrow> object_err option" where
  "CheckValidObjectNamePrefix objectName =
     (if 1024 < length objectName then Some ObjectLong
      else if \<not> ValidString objectName then Some ObjectNotUTF8
      else None)"

definition CheckValidObjectName :: "string \<Rightarrow> object_err option" where
  "CheckValidObjectName objectName =
     (if TrimSpace objectName = [] then Some ObjectEmpty else CheckValidObjectNamePrefix objectName)"

section \<open>Percent encoding\<close>

definition percentEncodeSlash :: "string \<Rightarrow> string" where
  "percentEncodeSlash s = ReplaceAll s ''/'' ''%2F''"

definition path_char :: "char \<Rightarrow> bool" where
  "path_char c \<longleftrightarrow> is_alnum c \<or> c \<in> set ''-_.~/''"

definition reservedObjectNames :: "string \<Rightarrow> bool" where
  "reservedObjectNames s \<longleftrightarrow> s \<noteq> [] \<and> list_all path_char s"

definition hex_upper :: "nat \<Rightarrow> char" where
  "hex_upper n = char_of (if n < 10 then 48 + n else 55 + n)"

definition percent_byte :: "nat \<Rightarrow> string" where
  "percent_byte b = [CHR ''%'', hex_upper (b div 16), hex_upper (b mod 16)]"

text \<open>The loop over the runes of the name; \<open>None\<close> is its early return of the name itself.\<close>

fun encode_loop :: "nat list \<Rightarrow> string option" where
  "encode_loop [] = Some []"
| "encode_loop (r # rs) =
     (if r < 128 \<and> path_char (char_of r) then map_option (\<lambda>t. char_of r # t) (encode_loop rs)
      else if \<not> valid_rune r then None
      else map_option (\<lambda>t. concat (map percent_byte (EncodeRune r)) @ t) (encode_loop rs))"

definition EncodePath :: "string \<Rightarrow> string" where
  "EncodePath pathName =
     (if reservedObjectNames pathName then pathName
      else case encode_loop (runes pathName) of None \<Rightarrow> pathName | Some t \<Rightarrow> t)"

text \<open>\<open>url.PathUnescape\<close>.\<close>

fun PathUnescape :: "string \<Rightarrow> string option" where
  "PathUnescape [] = Some []"
| "PathUnescape (c # s) =
     (if c = CHR ''%'' then
        (case s of
           h # l # rest \<Rightarrow>
             (case (hex_digit h, hex_digit l) of
                (Some x, Some y) \<Rightarrow> map_option (\<lambda>t. char_of (16 * x + y) # t) (PathUnescape rest)
              | _ \<Rightarrow> None)
         | _ \<Rightarrow> None)
      else map_option (\<lambda>t. c # t) (PathUnescape s))"

section \<open>Tags\<close>

definition map_keys :: "(string, 'a) fmap \<Rightarrow> string list" where
  "map_keys m = sorted_list_of_fset (fmdom m)"

definition query_add :: "string \<Rightarrow> string \<Rightarrow> string \<Rightarrow> string" where
  "query_add pre buf v =
     (if 0 < length buf then buf @ ''&'' else buf) @ pre @ percentEncodeSlash (EncodePath v)"

definition QueryEncode :: "(string, string list) fmap \<Rightarrow> string" where
  "QueryEncode v =
     foldl (\<lambda>buf k. foldl (query_add (percentEncodeSlash (EncodePath k) @ ''='')) buf (the (fmlookup v k)))
       [] (map_keys v)"

definition TagEncode :: "(string, string) fmap \<Rightarrow> string" where
  "TagEncode tags = QueryEncode (fmmap (\<lambda>v. [v]) tags)"

fun TagDecode_loop :: "(string, string) fmap \<Rightarrow> string list \<Rightarrow> (string, string) fmap" where
  "TagDecode_loop tagMap [] = tagMap"
| "TagDecode_loop tagMap (tag # tags) =
     (case SplitN2 tag ''='' of
        [k, v] \<Rightarrow>
          TagDecode_loop (fmupd k (case PathUnescape v of Some u \<Rightarrow> u | None \<Rightarrow> []) tagMap) tags
      | _ \<Rightarrow> fmempty)"

definition TagDecode :: "string \<Rightarrow> (string, string) fmap" where
  "TagDecode ctag = (if ctag = [] then fmempty else TagDecode_loop fmempty (SplitOn CHR ''&'' ctag))"

section \<open>Accepted bucket names\<close>

lemma EncodeRune_bytes:
  assumes "b \<in> set (EncodeRune r)"
  shows "b < 256 \<and> (128 \<le> r \<longrightarrow> 128 \<le> b)"
proof -
  have "r div 262144 < 8 \<and> r div 4096 < 1024" if "r \<le> 1114111" using that by auto
  then show ?thesis
    using assms by (auto simp: EncodeRune_def Let_def valid_rune_def RuneError_def split: if_splits)
qed

lemma EncodeRune_nonempty [simp]: "EncodeRune r \<noteq> []"
  by (simp add: EncodeRune_def Let_def)

lemma is_alnum_less: "is_alnum c \<Longrightarrow> ascii c < 128"
  by (auto simp: is_alnum_def is_upper_def is_lower_def is_digit_def)

lemma space_encodings_ends:
  assumes "e \<in> set space_encodings"
  shows "e \<noteq> [] \<and> \<not> is_alnum (hd e) \<and> \<not> is_alnum (last e)"
proof -
  from assms obtain r where r: "r \<in> set space_runes" and e: "e = map char_of (EncodeRune r)"
    by (auto simp: space_encodings_def string_of_bytes_def)
  have low: "r < 128 \<Longrightarrow> r \<le> 32"
    using r by (auto simp: space_runes_def)
  have "\<not> is_alnum (char_of b :: char)" if b: "b \<in> set (EncodeRune r)" for b
  proof (cases "r < 128")
    case True
    with low have "r \<le> 32" by simp
    with b have "b \<le> 32" by (auto simp: EncodeRune_def valid_rune_def split: if_splits)
    then show ?thesis using ascii_char_of [of b] by (auto simp: is_alnum_def is_upper_def is_lower_def is_digit_def)
  next
    case False
    with EncodeRune_bytes [OF b] ascii_char_of [of b] show ?thesis using is_alnum_less by fastforce
  qed
  then show ?thesis by (simp add: e hd_map last_map)
qed

lemma TrimSpace_alnum_ends:
  assumes "s \<noteq> []" and "is_alnum (hd s)" and "is_alnum (last s)"
  shows "TrimSpace s = s"
proof -
  have "find (HasPrefix s) space_encodings = None"
    using space_encodings_ends assms(2) by (fastforce simp: find_None_iff HasPrefix_iff)
  then have l: "TrimLeftSpace s = s" by (simp add: TrimLeftSpace.simps)
  have "find (HasSuffix s) space_encodings = None"
    using space_encodings_ends assms(3) by (fastforce simp: find_None_iff HasSuffix_iff)
  then have "TrimRightSpace s = s" by (simp add: TrimRightSpace.simps)
  with l show ?thesis by (simp add: TrimSpace_def)
qed

lemma name_regex_chars:
  assumes "name_regex ends mid s" and "\<And>c. ends c \<Longrightarrow> mid c"
  shows "list_all mid s"
proof -
  from assms(1) obtain a t b where s: "s = a # t @ [b]"
    by (cases s; cases "tl s" rule: rev_cases) (auto simp: name_regex_def)
  with assms show ?thesis by (auto simp: name_regex_def list_all_iff)
qed

lemma name_regex_iff:
  assumes "\<And>c. ends c \<Longrightarrow> mid c"
  shows "name_regex ends mid s \<longleftrightarrow>
    3 \<le> length s \<and> length s \<le> 63 \<and> ends (hd s) \<and> ends (last s) \<and> list_all mid s"
proof
  assume "name_regex ends mid s"
  with name_regex_chars [OF this assms]
  show "3 \<le> length s \<and> length s \<le> 63 \<and> ends (hd s) \<and> ends (last s) \<and> list_all mid s"
    by (simp add: name_regex_def)
next
  assume "3 \<le> length s \<and> length s \<le> 63 \<and> ends (hd s) \<and> ends (last s) \<and> list_all mid s"
  then show "name_regex ends mid s"
    by (auto simp: name_regex_def list_all_iff dest!: in_set_butlastD list.set_sel(2) [rotated])
qed

lemma checkBucketNameCommon_None:
  "checkBucketNameCommon s strict = None \<longleftrightarrow>
     (if strict then validBucketNameStrict s else validBucketName s) \<and> \<not> ipAddress_regex s \<and>
     \<not> Contains s ''..'' \<and> \<not> Contains s ''.-'' \<and> \<not> Contains s ''-.''"
proof -
  have trim: "TrimSpace s \<noteq> []"
    if "(if strict then validBucketNameStrict s else validBucketName s)"
  proof -
    from that have ends: "s \<noteq> []" "is_alnum (hd s)" "is_alnum (last s)"
      by (auto simp: validBucketNameStrict_def validBucketName_def name_regex_def end_char_strict_def
          is_alnum_def split: if_splits)
    with TrimSpace_alnum_ends [OF this] show ?thesis by simp
  qed
  have len: "3 \<le> length s \<and> length s \<le> 63"
    if "(if strict then validBucketNameStrict s else validBucketName s)"
    using that by (auto simp: validBucketNameStrict_def validBucketName_def name_regex_def split: if_splits)
  show ?thesis
    unfolding checkBucketNameCommon_def using trim len by (cases strict) auto
qed

section \<open>Percent encoding is undone by decoding\<close>

lemma ReplaceAll_char: "ReplaceAll s [c] new = concat (map (\<lambda>d. if d = c then new else [d]) s)"
  by (induction s) (simp_all add: ReplaceAll.simps [of "_ # _"])

lemma hex_digit_upper:
  assumes "n < 16"
  shows "hex_digit (hex_upper n) = Some n"
proof -
  have "ascii (hex_upper n) = (if n < 10 then 48 + n else 55 + n)"
    unfolding hex_upper_def using assms by (intro ascii_char_of) auto
  with assms show ?thesis by (auto simp: hex_digit_def is_digit_def)
qed

lemma PathUnescape_percent_byte:
  assumes "b < 256"
  shows "PathUnescape (percent_byte b @ t) = map_option (\<lambda>u. char_of b # u) (PathUnescape t)"
proof -
  have "b div 16 < 16" "b mod 16 < 16" "16 * (b div 16) + b mod 16 = b" using assms by auto
  then show ?thesis by (simp add: percent_byte_def hex_digit_upper del: mult_div_mod_eq)
qed

lemma PathUnescape_percent_bytes:
  "list_all (\<lambda>b. b < 256) bs \<Longrightarrow> PathUnescape (concat (map percent_byte bs) @ t) =
     map_option (\<lambda>u. string_of_bytes bs @ u) (PathUnescape t)"
proof (induction bs)
  case (Cons b bs)
  then show ?case
    by (cases "PathUnescape t") (simp_all add: PathUnescape_percent_byte string_of_bytes_def)
next
  case Nil
  show ?case by (cases "PathUnescape t") (simp_all add: string_of_bytes_def)
qed

text \<open>The code of one rune in a query value, where the slash is encoded too.\<close>

definition query_rune :: "nat \<Rightarrow> string" where
  "query_rune r = (if r < 128 \<and> path_char (char_of r) \<and> r \<noteq> 47 then [char_of r]
     else concat (map percent_byte (EncodeRune r)))"

lemma encode_loop_total:
  "list_all valid_rune rs \<Longrightarrow> encode_loop rs =
     Some (concat (map (\<lambda>r. if r < 128 \<and> path_char (char_of r) then [char_of r]
                            else concat (map percent_byte (EncodeRune r))) rs))"
  by (induction rs) auto

lemma path_char_ascii: "path_char c \<Longrightarrow> ascii c < 128"
  using is_alnum_less by (auto simp: path_char_def ascii_def)

lemma char_of_ascii: "char_of (ascii c) = c"
  by (simp add: ascii_def)

lemma char_of_slash: "(r :: nat) < 128 \<Longrightarrow> (char_of r :: char) = CHR ''/'' \<Longrightarrow> r = 47"
  using ascii_char_of [of r] by (simp add: ascii_def)

lemma percent_bytes_no_slash: "ReplaceAll (concat (map percent_byte bs)) ''/'' w = concat (map percent_byte bs)"
  if "list_all (\<lambda>b. b < 256) bs"
proof -
  have "hex_upper n \<noteq> CHR ''/''" if n: "n < 16" for n
    using hex_digit_upper [OF n] by (auto simp: hex_digit_def is_digit_def ascii_def)
  then have "percent_byte b = concat (map (\<lambda>d. if d = CHR ''/'' then w else [d]) (percent_byte b))" if "b < 256" for b
    using that by (simp add: percent_byte_def)
  then show ?thesis using that
    by (induction bs) (auto simp: ReplaceAll_char)
qed

lemma EncodePath_runes:
  assumes "ValidString s"
  shows "EncodePath s = concat (map (\<lambda>r. if r < 128 \<and> path_char (char_of r) then [char_of r]
                            else concat (map percent_byte (EncodeRune r))) (runes s))"
proof (cases "reservedObjectNames s")
  case True
  then have all: "list_all path_char s" by (simp add: reservedObjectNames_def)
  then have "is_ascii s" by (auto simp: is_ascii_def list_all_iff path_char_ascii)
  then have "runes s = map ascii s" by (rule runes_ascii)
  moreover from all have "concat (map (\<lambda>c. if ascii c < 128 \<and> path_char (char_of (ascii c)) then [char_of (ascii c)]
      else concat (map percent_byte (EncodeRune (ascii c)))) s) = s"
    by (induction s) (auto simp: path_char_ascii char_of_ascii)
  ultimately show ?thesis using True by (simp add: EncodePath_def comp_def)
next
  case False
  have "list_all valid_rune (runes s)"
    using assms utf8_encode_decode by (simp add: ValidString_def runes_def)
  with False show ?thesis by (simp add: EncodePath_def encode_loop_total)
qed

lemma EncodeRune_slash [simp]: "EncodeRune 47 = [47]"
  by (simp add: EncodeRune_def valid_rune_def)

lemma query_encoding:
  assumes "ValidString s"
  shows "percentEncodeSlash (EncodePath s) = concat (map query_rune (runes s))"
proof -
  have slash: "percent_byte 47 = ''%2F''" 
  proof -
    have "ascii CHR ''2'' = 50" "ascii CHR ''F'' = 70" by (simp_all add: ascii_def)
    with char_of_ascii [of "CHR ''2''"] char_of_ascii [of "CHR ''F''"]
    show ?thesis by (simp add: percent_byte_def hex_upper_def)
  qed
  have one: "ReplaceAll (if r < 128 \<and> path_char (char_of r) then [char_of r]
      else concat (map percent_byte (EncodeRune r))) ''/'' ''%2F'' = query_rune r" for r
  proof -
    have bytes: "list_all (\<lambda>b. b < 256) (EncodeRune r)" using EncodeRune_bytes by (auto simp: list_all_iff)
    have r47: "(char_of (47 :: nat) :: char) = CHR ''/''" "path_char CHR ''/''"
      using char_of_ascii [of "CHR ''/''"] by (simp_all add: ascii_def path_char_def)
    consider (plain) "r < 128 \<and> path_char (char_of r) \<and> r \<noteq> 47" | (slash) "r = 47"
      | (coded) "\<not> (r < 128 \<and> path_char (char_of r))" by blast
    then show ?thesis
    proof cases
      case plain
      then have "(char_of r :: char) \<noteq> CHR ''/''"
        using char_of_slash by blast
      with plain show ?thesis by (simp add: query_rune_def ReplaceAll_char)
    next
      case slash
      then show ?thesis by (simp add: query_rune_def ReplaceAll_char r47 \<open>percent_byte 47 = ''%2F''\<close>)
    next
      case coded
      then show ?thesis
        by (simp only: query_rune_def percent_bytes_no_slash [OF bytes] if_False simp_thms) auto
    qed
  qed
  have "ReplaceAll (concat ws) [c] w = concat (map (\<lambda>v. ReplaceAll v [c] w) ws)" for ws c and w :: string
    by (induction ws) (auto simp: ReplaceAll_char)
  then show ?thesis
    using assms by (simp add: percentEncodeSlash_def EncodePath_runes one comp_def)
qed

lemma PathUnescape_query_rune:
  "PathUnescape (query_rune r @ t) = map_option (\<lambda>u. string_of_bytes (EncodeRune r) @ u) (PathUnescape t)"
proof (cases "r < 128 \<and> path_char (char_of r) \<and> r \<noteq> 47")
  case True
  moreover have "\<not> path_char CHR ''%''"
    by (simp add: path_char_def is_alnum_def is_upper_def is_lower_def is_digit_def ascii_def)
  ultimately have "(char_of r :: char) \<noteq> CHR ''%''" by metis
  with True show ?thesis
    by (simp add: query_rune_def EncodeRune_def valid_rune_def string_of_bytes_def)
next
  case False
  have "list_all (\<lambda>b. b < 256) (EncodeRune r)" using EncodeRune_bytes by (auto simp: list_all_iff)
  with False PathUnescape_percent_bytes [OF this] show ?thesis by (auto simp: query_rune_def)
qed

lemma PathUnescape_query:
  assumes "ValidString s"
  shows "PathUnescape (percentEncodeSlash (EncodePath s)) = Some s"
proof -
  have "PathUnescape (concat (map query_rune rs)) = Some (string_of_bytes (concat (map EncodeRune rs)))" for rs
    by (induction rs) (auto simp: PathUnescape_query_rune string_of_bytes_def)
  moreover have "concat (map EncodeRune (runes s)) = bytes_of s"
    using assms utf8_encode_decode by (simp add: ValidString_def runes_def)
  ultimately show ?thesis using query_encoding [OF assms] by simp
qed

lemma query_chars:
  assumes "ValidString s" and "c \<in> set (percentEncodeSlash (EncodePath s))"
  shows "c = CHR ''%'' \<or> path_char c \<and> c \<noteq> CHR ''/''"
proof -
  have hex: "path_char (hex_upper n) \<and> hex_upper n \<noteq> CHR ''/''" if n: "n < 16" for n
    using hex_digit_upper [OF n]
    by (auto simp: hex_digit_def path_char_def is_alnum_def is_upper_def is_lower_def is_digit_def ascii_def split: if_splits)
  have "d = CHR ''%'' \<or> path_char d \<and> d \<noteq> CHR ''/''" if "d \<in> set (percent_byte b)" "b < 256" for d b
  proof -
    from that have "b div 16 < 16" "b mod 16 < 16" by auto
    with that(1) hex [of "b div 16"] hex [of "b mod 16"] show ?thesis by (auto simp: percent_byte_def)
  qed
  moreover from assms obtain r where "c \<in> set (query_rune r)" by (auto simp: query_encoding)
  ultimately show ?thesis
    using char_of_slash [of r] EncodeRune_bytes
    by (fastforce simp: query_rune_def split: if_splits)
qed

section \<open>Decoding the tags that were encoded\<close>

text \<open>
  \<open>TagDecode\<close> does not decode the keys, so the round trip needs keys that the encoding leaves
  as they are.
\<close>

definition plain_key :: "string \<Rightarrow> bool" where
  "plain_key k \<longleftrightarrow> list_all (\<lambda>c. path_char c \<and> c \<noteq> CHR ''/'') k"

lemma plain_key_encoding: "plain_key k \<Longrightarrow> percentEncodeSlash (EncodePath k) = k"
proof -
  assume "plain_key k"
  then have k: "list_all path_char k" "CHR ''/'' \<notin> set k" by (auto simp: plain_key_def list_all_iff)
  have "EncodePath k = k"
  proof (cases "k = []")
    case False
    with k show ?thesis by (simp add: EncodePath_def reservedObjectNames_def)
  qed (simp add: EncodePath_def reservedObjectNames_def)
  moreover have "percentEncodeSlash k = k"
    unfolding percentEncodeSlash_def using k by (intro ReplaceAll_absent) (simp add: Contains_single)
  ultimately show ?thesis by simp
qed

definition tag_text :: "(string, string) fmap \<Rightarrow> string \<Rightarrow> string" where
  "tag_text m k = percentEncodeSlash (EncodePath k) @ ''='' @ percentEncodeSlash (EncodePath (the (fmlookup m k)))"

lemma JoinOn_Cons: "JoinOn sep (w # ws) = w @ concat (map (\<lambda>v. sep @ v) ws)"
  by (induction ws arbitrary: w) auto

lemma map_keys_set [simp]: "set (map_keys m) = fset (fmdom m)"
  by (simp add: map_keys_def)

lemma TagEncode_JoinOn: "TagEncode m = JoinOn ''&'' (map (tag_text m) (map_keys m))"
proof -
  have step: "foldl (query_add (percentEncodeSlash (EncodePath k) @ ''='')) buf (the (fmlookup (fmmap (\<lambda>v. [v]) m) k))
      = (if buf = [] then [] else buf @ ''&'') @ tag_text m k" if "k \<in> set (map_keys m)" for k buf
    using that by (auto simp: query_add_def tag_text_def fmlookup_dom_iff)
  have fold: "foldl (\<lambda>buf k. foldl (query_add (percentEncodeSlash (EncodePath k) @ ''='')) buf
        (the (fmlookup (fmmap (\<lambda>v. [v]) m) k))) buf ks = buf @ concat (map (\<lambda>v. ''&'' @ v) (map (tag_text m) ks))"
    if "buf \<noteq> []" "set ks \<subseteq> set (map_keys m)" for buf ks
    using that
  proof (induction ks arbitrary: buf)
    case (Cons k ks)
    then have k: "k \<in> set (map_keys m)" and ks: "set ks \<subseteq> set (map_keys m)" by auto
    have ne: "buf @ ''&'' @ tag_text m k \<noteq> []" by simp
    show ?case
      unfolding foldl_Cons step [OF k] using Cons.IH [OF ne ks] Cons.prems(1) by simp
  qed simp
  have keys: "map_keys (fmmap (\<lambda>v. [v]) m) = map_keys m" by (simp add: map_keys_def)
  show ?thesis
  proof (cases "map_keys m")
    case Nil
    then show ?thesis by (simp add: TagEncode_def QueryEncode_def keys)
  next
    case (Cons k ks)
    have "tag_text m k \<noteq> []" by (simp add: tag_text_def)
    moreover have "set ks \<subseteq> set (map_keys m)" using Cons by (simp del: map_keys_set) blast
    ultimately show ?thesis using fold [of "tag_text m k" ks] step [of k "[]"] Cons
      by (simp add: TagEncode_def QueryEncode_def keys JoinOn_Cons)
  qed
qed

lemma TagDecode_loop_text:
  assumes "\<And>k. k \<in> set ks \<Longrightarrow> plain_key k \<and> ValidString (the (fmlookup m k))"
  shows "TagDecode_loop acc (map (tag_text m) ks) = foldl (\<lambda>a k. fmupd k (the (fmlookup m k)) a) acc ks"
  using assms
proof (induction ks arbitrary: acc)
  case (Cons k ks)
  then have k: "plain_key k" "ValidString (the (fmlookup m k))" by simp_all
  have "\<not> path_char CHR ''=''"
    by (simp add: path_char_def is_alnum_def is_upper_def is_lower_def is_digit_def ascii_def)
  with k(1) have "CHR ''='' \<notin> set k" by (auto simp: plain_key_def list_all_iff)
  then have "SplitN2 (tag_text m k) ''='' = [k, percentEncodeSlash (EncodePath (the (fmlookup m k)))]"
    by (simp add: tag_text_def plain_key_encoding [OF k(1)] SplitN2_char_append)
  with Cons PathUnescape_query [OF k(2)] show ?case by simp
qed simp

lemma foldl_fmupd:
  "fmlookup (foldl (\<lambda>a k. fmupd k (f k) a) acc ks) x = (if x \<in> set ks then Some (f x) else fmlookup acc x)"
  by (induction ks arbitrary: acc) auto

lemma TagDecode_encoded:
  assumes "\<And>k v. fmlookup m k = Some v \<Longrightarrow> plain_key k \<and> ValidString v"
  shows "TagDecode (TagEncode m) = m"
proof -
  have ok: "plain_key k \<and> ValidString (the (fmlookup m k))" if "k \<in> set (map_keys m)" for k
    using that assms [of k] by (auto simp: fmlookup_dom_iff)
  have enc: "CHR ''&'' \<notin> set (percentEncodeSlash (EncodePath s))" if "ValidString s" for s
  proof -
    have "\<not> path_char CHR ''&''"
      by (simp add: path_char_def is_alnum_def is_upper_def is_lower_def is_digit_def ascii_def)
    with query_chars [OF that] show ?thesis by fastforce
  qed
  have no_amp: "CHR ''&'' \<notin> set (tag_text m k)" if "k \<in> set (map_keys m)" for k
  proof -
    have "\<not> path_char CHR ''&''"
      by (simp add: path_char_def is_alnum_def is_upper_def is_lower_def is_digit_def ascii_def)
    with ok [OF that] enc [of "the (fmlookup m k)"] show ?thesis
      by (auto simp: tag_text_def plain_key_encoding) (auto simp: plain_key_def list_all_iff)
  qed
  show ?thesis
  proof (cases "map_keys m = []")
    case True
    then have "fmdom m = {||}" by (metis bot_fset.rep_eq empty_set fset_inject map_keys_set)
    then have "m = fmempty" by (simp add: fmap_ext fmdom_notD)
    with True show ?thesis by (simp add: TagEncode_JoinOn TagDecode_def)
  next
    case False
    then have "JoinOn ''&'' (map (tag_text m) (map_keys m)) \<noteq> []"
      by (cases "map_keys m") (auto simp: JoinOn_Cons tag_text_def)
    moreover have "SplitOn CHR ''&'' (JoinOn ''&'' (map (tag_text m) (map_keys m))) = map (tag_text m) (map_keys m)"
      using False no_amp by (intro SplitOn_JoinOn) auto
    ultimately have "TagDecode (TagEncode m) = foldl (\<lambda>a k. fmupd k (the (fmlookup m k)) a) fmempty (map_keys m)"
      using TagDecode_loop_text [of "map_keys m" m fmempty] ok by (simp add: TagEncode_JoinOn TagDecode_def del: map_keys_set)
    then show ?thesis by (auto intro!: fmap_ext simp: foldl_fmupd fmlookup_dom_iff) 
  qed
qed

lemma TagDecode_single:
  assumes "ValidString k" and "ValidString v"
  shows "TagDecode (TagEncode (fmupd k v fmempty)) = fmupd (percentEncodeSlash (EncodePath k)) v fmempty"
proof -
  have special: "\<not> path_char CHR ''&''" "\<not> path_char CHR ''=''"
    by (simp_all add: path_char_def is_alnum_def is_upper_def is_lower_def is_digit_def ascii_def)
  have clean: "CHR ''&'' \<notin> set (percentEncodeSlash (EncodePath s))" "CHR ''='' \<notin> set (percentEncodeSlash (EncodePath s))"
    if "ValidString s" for s
    using query_chars [OF that] special by fastforce+
  have "map_keys (fmupd k v fmempty) = [k]" by (simp add: map_keys_def sorted_list_of_fset.rep_eq)
  then have enc: "TagEncode (fmupd k v fmempty) =
      percentEncodeSlash (EncodePath k) @ CHR ''='' # percentEncodeSlash (EncodePath v)"
    by (simp add: TagEncode_JoinOn tag_text_def)
  have "SplitOn CHR ''&'' (percentEncodeSlash (EncodePath k) @ CHR ''='' # percentEncodeSlash (EncodePath v)) =
      [percentEncodeSlash (EncodePath k) @ CHR ''='' # percentEncodeSlash (EncodePath v)]"
    using clean assms by (intro SplitOn_absent) auto
  then show ?thesis
    using clean(2) [OF assms(1)] PathUnescape_query [OF assms(2)]
    by (simp add: enc TagDecode_def SplitN2_char_append)
qed

section \<open>Properties\<close>

text \<open>decoding undoes the encoding of tags whose keys need no escape and whose values are
  UTF-8.\<close>

theorem TagDecode_TagEncode:
  assumes "\<And>k v. fmlookup m k = Some v \<Longrightarrow> plain_key k \<and> ValidString v"
  shows "TagDecode (TagEncode m) = m"
  using assms by (rule TagDecode_encoded)

theorem TagDecode_TagEncode_witness:
  "TagDecode (TagEncode (fmupd ''k'' ''a b'' fmempty)) = fmupd ''k'' ''a b'' fmempty"
proof (rule TagDecode_TagEncode)
  fix k v
  assume "fmlookup (fmupd ''k'' ''a b'' fmempty) k = Some v"
  then have "k = ''k''" "v = ''a b''" by (auto split: if_splits)
  then show "plain_key k \<and> ValidString v"
    by (simp add: plain_key_def path_char_def is_alnum_def is_lower_def ascii_def ValidString_def
        bytes_of_def decode1_def)
qed

text \<open>the keys are written with escapes and read without undoing them: a single tag comes
  back under its encoded key, which is another key whenever an escape was needed.\<close>

theorem TagDecode_key_not_unescaped:
  assumes "ValidString k" and "ValidString v" and "\<not> plain_key k"
  shows "TagDecode (TagEncode (fmupd k v fmempty)) = fmupd (percentEncodeSlash (EncodePath k)) v fmempty \<and>
    TagDecode (TagEncode (fmupd k v fmempty)) \<noteq> fmupd k v fmempty"
proof -
  have "percentEncodeSlash (EncodePath k) \<noteq> k"
  proof
    assume eq: "percentEncodeSlash (EncodePath k) = k"
    from assms(3) obtain c where c: "c \<in> set k" "\<not> (path_char c \<and> c \<noteq> CHR ''/'')"
      by (auto simp: plain_key_def list_all_iff)
    with query_chars [OF assms(1), of c] eq have "c = CHR ''%''" by auto
    from PathUnescape_query [OF assms(1)] eq have "PathUnescape k = Some k" by simp
    moreover have "PathUnescape s = Some t \<Longrightarrow> CHR ''%'' \<in> set s \<Longrightarrow> length t < length s" for s t
    proof (induction s arbitrary: t rule: PathUnescape.induct)
      case (2 d s)
      have le: "PathUnescape x = Some y \<Longrightarrow> length y \<le> length x" for x y
        by (induction x arbitrary: y rule: PathUnescape.induct)
          (auto split: if_splits list.splits option.splits simp: le_SucI)
      show ?case
      proof (cases "d = CHR ''%''")
        case True
        with 2(3) show ?thesis by (auto split: list.splits option.splits dest!: le)
      next
        case False
        with 2 show ?thesis by auto
      qed
    qed simp
    ultimately show False using c(1) \<open>c = CHR ''%''\<close> by blast
  qed
  moreover have "TagDecode (TagEncode (fmupd k v fmempty)) = fmupd (percentEncodeSlash (EncodePath k)) v fmempty"
    using assms by (simp add: TagDecode_single)
  moreover have "fmupd k' v fmempty \<noteq> fmupd k v fmempty" if "k' \<noteq> k" for k'
    using that by (metis fmempty_lookup fmupd_lookup option.distinct(1))
  ultimately show ?thesis by simp
qed

theorem TagDecode_key_not_unescaped_witness:
  "TagDecode (TagEncode (fmupd ''a b'' ''c'' fmempty)) \<noteq> fmupd ''a b'' ''c'' fmempty"
proof -
  have "ValidString ''a b''" "ValidString ''c''"
    by (simp_all add: ValidString_def bytes_of_def decode1_def)
  moreover have "\<not> plain_key ''a b''"
    by (simp add: plain_key_def path_char_def is_alnum_def is_upper_def is_lower_def is_digit_def ascii_def)
  ultimately show ?thesis using TagDecode_key_not_unescaped by blast
qed

text \<open>the percent encoding of a path is undone by \<open>url.PathUnescape\<close> for every UTF-8 text,
  and the encoded text has only unreserved characters and the percent sign.\<close>

theorem EncodePath_roundtrip:
  assumes "ValidString s"
  shows "PathUnescape (percentEncodeSlash (EncodePath s)) = Some s \<and>
    list_all (\<lambda>c. c = CHR ''%'' \<or> path_char c \<and> c \<noteq> CHR ''/'') (percentEncodeSlash (EncodePath s))"
  using PathUnescape_query [OF assms] query_chars [OF assms] by (auto simp: list_all_iff)

theorem EncodePath_roundtrip_witness:
  "PathUnescape (percentEncodeSlash (EncodePath ''a b/c'')) = Some ''a b/c''"
proof -
  have "ValidString ''a b/c''" by (simp add: ValidString_def bytes_of_def decode1_def)
  then show ?thesis using EncodePath_roundtrip by blast
qed

text \<open>the bucket names that are accepted: 3 to 63 characters of the class, a letter or digit
  at both ends, no dotted quad and none of the three forbidden pairs; the strict check accepts
  those of them that have only lower case letters, digits, dots and dashes.\<close>

theorem CheckValidBucketName_accepts:
  "(CheckValidBucketName b = None \<longleftrightarrow>
      3 \<le> length b \<and> length b \<le> 63 \<and> is_alnum (hd b) \<and> is_alnum (last b) \<and> list_all bucket_char b \<and>
      \<not> ipAddress_regex b \<and> \<not> Contains b ''..'' \<and> \<not> Contains b ''.-'' \<and> \<not> Contains b ''-.'') \<and>
   (CheckValidBucketNameStrict b = None \<longleftrightarrow>
      CheckValidBucketName b = None \<and> list_all bucket_char_strict b)"
proof -
  have mid: "is_alnum c \<Longrightarrow> bucket_char c" "end_char_strict c \<Longrightarrow> bucket_char_strict c" for c
    by (auto simp: bucket_char_def bucket_char_strict_def end_char_strict_def)
  have loose: "validBucketName b \<longleftrightarrow> 3 \<le> length b \<and> length b \<le> 63 \<and> is_alnum (hd b) \<and> is_alnum (last b) \<and> list_all bucket_char b"
    unfolding validBucketName_def by (rule name_regex_iff) (rule mid)
  have strict: "validBucketNameStrict b \<longleftrightarrow>
      3 \<le> length b \<and> length b \<le> 63 \<and> end_char_strict (hd b) \<and> end_char_strict (last b) \<and> list_all bucket_char_strict b"
    unfolding validBucketNameStrict_def by (rule name_regex_iff) (rule mid)
  have "end_char_strict c \<longleftrightarrow> is_alnum c" if "bucket_char_strict c" for c
    using that by (auto simp: bucket_char_strict_def end_char_strict_def is_alnum_def is_upper_def is_lower_def
        is_digit_def ascii_def)
  moreover have "bucket_char_strict c \<Longrightarrow> bucket_char c" for c
    by (auto simp: bucket_char_strict_def bucket_char_def is_alnum_def)
  ultimately have "validBucketNameStrict b \<longleftrightarrow> validBucketName b \<and> list_all bucket_char_strict b"
    unfolding loose strict by (cases b) (auto simp: list_all_iff)
  then show ?thesis
    unfolding CheckValidBucketName_def CheckValidBucketNameStrict_def checkBucketNameCommon_None
    using loose by auto
qed

end
