(* ===== verification/ConditionKey.thy ===== *)
theory ConditionKey
  imports StringSet Json S3Utils
begin

text \<open>
  The keys, names and values of policy conditions: \<open>key.go\<close>, \<open>jwt.go\<close>, \<open>name.go\<close>, \<open>value.go\<close>
  and \<open>valueset.go\<close> of \<open>pkg/bucket/policy/condition\<close>.  \<open>Key\<close> and \<open>name\<close> are string types as in
  the code.  The values of a request are a Go \<open>map[string][]string\<close>.
\<close>

section \<open>Errors of the package\<close>

type_synonym Key = string
type_synonym cond_name = string

datatype cond_err =
    JsonErr
  | UnknownKey Key
  | InvalidKey string
  | InvalidName string
  | ValueNotString cond_name
  | ValueNotCIDR cond_name
  | ValueNotInt cond_name
  | ValueNotTime cond_name
  | ValueNotBool cond_name
  | OneValueOnly cond_name
  | InvalidValue string Key cond_name
  | EmptyValue Key cond_name
  | BucketNameErr bucket_err
  | Base64Err
  | KeyNotAllowed Key cond_name
  | InvalidValueSet
  | EmptyValueSet
  | DuplicateValue
  | UnknownKind
  | NotABoolValue
  | NotAnIntValue
  | NotAStringValue
  | EmptyCondition
  | NotHandled cond_name

section \<open>key.go and jwt.go\<close>

definition S3XAmzCopySource :: Key where
  "S3XAmzCopySource = ''s3:x-amz-copy-source''"
definition S3XAmzServerSideEncryption :: Key where
  "S3XAmzServerSideEncryption = ''s3:x-amz-server-side-encryption''"
definition S3XAmzServerSideEncryptionCustomerAlgorithm :: Key where
  "S3XAmzServerSideEncryptionCustomerAlgorithm = ''s3:x-amz-server-side-encryption-customer-algorithm''"
definition S3XAmzMetadataDirective :: Key where
  "S3XAmzMetadataDirective = ''s3:x-amz-metadata-directive''"
definition S3XAmzContentSha256 :: Key where
  "S3XAmzContentSha256 = ''s3:x-amz-content-sha256''"
definition S3XAmzStorageClass :: Key where
  "S3XAmzStorageClass = ''s3:x-amz-storage-class''"
definition S3LocationConstraint :: Key where
  "S3LocationConstraint = ''s3:LocationConstraint''"
definition S3Prefix :: Key where "S3Prefix = ''s3:prefix''"
definition S3Delimiter :: Key where "S3Delimiter = ''s3:delimiter''"
definition S3MaxKeys :: Key where "S3MaxKeys = ''s3:max-keys''"
definition S3ObjectLockRemainingRetentionDays :: Key where
  "S3ObjectLockRemainingRetentionDays = ''s3:object-lock-remaining-retention-days''"
definition S3ObjectLockMode :: Key where "S3ObjectLockMode = ''s3:object-lock-mode''"
definition S3ObjectLockRetainUntilDate :: Key where
  "S3ObjectLockRetainUntilDate = ''s3:object-lock-retain-until-date''"
definition S3ObjectLockLegalHold :: Key where
  "S3ObjectLockLegalHold = ''s3:object-lock-legal-hold''"
definition AWSReferer :: Key where "AWSReferer = ''aws:Referer''"
definition AWSSourceIP :: Key where "AWSSourceIP = ''aws:SourceIp''"
definition AWSUserAgent :: Key where "AWSUserAgent = ''aws:UserAgent''"
definition AWSSecureTransport :: Key where "AWSSecureTransport = ''aws:SecureTransport''"
definition AWSCurrentTime :: Key where "AWSCurrentTime = ''aws:CurrentTime''"
definition AWSEpochTime :: Key where "AWSEpochTime = ''aws:EpochTime''"
definition AWSPrincipalType :: Key where "AWSPrincipalType = ''aws:principaltype''"
definition AWSUserID :: Key where "AWSUserID = ''aws:userid''"
definition AWSUsername :: Key where "AWSUsername = ''aws:username''"

definition JWTKeys :: "Key list" where
  "JWTKeys =
     [''jwt:sub'', ''jwt:iss'', ''jwt:aud'', ''jwt:jti'', ''jwt:name'', ''jwt:given_name'',
      ''jwt:family_name'', ''jwt:middle_name'', ''jwt:nickname'', ''jwt:preferred_username'',
      ''jwt:profile'', ''jwt:picture'', ''jwt:website'', ''jwt:email'', ''jwt:gender'',
      ''jwt:birthdate'', ''jwt:phone_number'', ''jwt:address'', ''jwt:scope'', ''jwt:client_id'']"

definition AllSupportedKeys :: "Key list" where
  "AllSupportedKeys =
     [S3XAmzCopySource, S3XAmzServerSideEncryption, S3XAmzServerSideEncryptionCustomerAlgorithm,
      S3XAmzMetadataDirective, S3XAmzStorageClass, S3XAmzContentSha256, S3LocationConstraint,
      S3Prefix, S3Delimiter, S3MaxKeys, S3ObjectLockRemainingRetentionDays, S3ObjectLockMode,
      S3ObjectLockLegalHold, S3ObjectLockRetainUntilDate, AWSReferer, AWSSourceIP, AWSUserAgent,
      AWSSecureTransport, AWSCurrentTime, AWSEpochTime, AWSPrincipalType, AWSUserID, AWSUsername]
     @ JWTKeys"

definition CommonKeys :: "Key list" where
  "CommonKeys =
     [AWSReferer, AWSSourceIP, AWSUserAgent, AWSSecureTransport, AWSCurrentTime, AWSEpochTime,
      AWSPrincipalType, AWSUserID, AWSUsername, S3XAmzContentSha256] @ JWTKeys"

definition AllSupportedAdminKeys :: "Key list" where
  "AllSupportedAdminKeys =
     [AWSReferer, AWSSourceIP, AWSUserAgent, AWSSecureTransport, AWSCurrentTime, AWSEpochTime]"

lemmas key_defs = S3XAmzCopySource_def S3XAmzServerSideEncryption_def
  S3XAmzServerSideEncryptionCustomerAlgorithm_def S3XAmzMetadataDirective_def
  S3XAmzContentSha256_def S3XAmzStorageClass_def S3LocationConstraint_def S3Prefix_def
  S3Delimiter_def S3MaxKeys_def S3ObjectLockRemainingRetentionDays_def S3ObjectLockMode_def
  S3ObjectLockRetainUntilDate_def S3ObjectLockLegalHold_def AWSReferer_def AWSSourceIP_def
  AWSUserAgent_def AWSSecureTransport_def AWSCurrentTime_def AWSEpochTime_def
  AWSPrincipalType_def AWSUserID_def AWSUsername_def

definition Key_IsValid :: "Key \<Rightarrow> bool" where
  "Key_IsValid key = (key \<in> set AllSupportedKeys)"

definition Key_MarshalJSON :: "Key \<Rightarrow> cond_err + json" where
  "Key_MarshalJSON key = (if \<not> Key_IsValid key then Inl (UnknownKey key) else Inr (json_string key))"

definition Key_VarName :: "Key \<Rightarrow> string" where
  "Key_VarName key = ''${'' @ key @ ''}''"

definition Key_Name :: "Key \<Rightarrow> string" where
  "Key_Name key =
     (if HasPrefix key ''aws:'' then TrimPrefix key ''aws:''
      else if HasPrefix key ''jwt:'' then TrimPrefix key ''jwt:''
      else TrimPrefix key ''s3:'')"

definition parseKey :: "string \<Rightarrow> cond_err + Key" where
  "parseKey s = (if Key_IsValid s then Inr s else Inl (InvalidKey s))"

definition Key_UnmarshalJSON :: "json \<Rightarrow> cond_err + Key" where
  "Key_UnmarshalJSON data =
     (case decode_string data of None \<Rightarrow> Inl JsonErr | Some s \<Rightarrow> parseKey s)"

text \<open>
  \<open>substFuncFromValues\<close>: the policy variables \<open>${key}\<close> of the common keys are replaced, one key
  after the other.  A key with an empty list of values is an index out of range.
\<close>

type_synonym req_values = "string \<Rightarrow> string list option"

fun subst_loop :: "Key list \<Rightarrow> req_values \<Rightarrow> string \<Rightarrow> string go" where
  "subst_loop [] values v = Some v"
| "subst_loop (key # keys) values v =
     (case values (Key_Name key) of
        None \<Rightarrow> subst_loop keys values v
      | Some [] \<Rightarrow> None
      | Some (r # _) \<Rightarrow>
          subst_loop keys values (if r \<noteq> [] then ReplaceAll v (Key_VarName key) r else v))"

definition substFuncFromValues :: "req_values \<Rightarrow> string \<Rightarrow> string go" where
  "substFuncFromValues values v = subst_loop CommonKeys values v"

text \<open>The lookup that opens every \<open>evaluate\<close>: the canonical header name first, then the name.\<close>

definition requestValue :: "Key \<Rightarrow> req_values \<Rightarrow> string list" where
  "requestValue k values =
     (case values (CanonicalHeaderKey (Key_Name k)) of
        Some v \<Rightarrow> v
      | None \<Rightarrow> (case values (Key_Name k) of Some v \<Rightarrow> v | None \<Rightarrow> []))"

text \<open>A substitution panics for every string or for none.\<close>

definition common_values_ok :: "req_values \<Rightarrow> bool" where
  "common_values_ok values = list_all (\<lambda>k. values (Key_Name k) \<noteq> Some []) CommonKeys"

lemma subst_loop_None: "subst_loop keys values v = None \<longleftrightarrow> (\<exists>k \<in> set keys. values (Key_Name k) = Some [])"
  by (induction keys arbitrary: v) (auto split: option.splits list.splits)

lemma substFuncFromValues_None: "substFuncFromValues values v = None \<longleftrightarrow> \<not> common_values_ok values"
  by (auto simp: substFuncFromValues_def subst_loop_None common_values_ok_def list_all_iff)

lemma subst_loop_absent:
  "\<not> Contains v ''${'' \<Longrightarrow> (\<forall>k \<in> set keys. values (Key_Name k) \<noteq> Some []) \<Longrightarrow> subst_loop keys values v = Some v"
proof (induction keys)
  case (Cons k keys)
  have "\<not> Contains v (Key_VarName k)"
  proof
    assume "Contains v (Key_VarName k)"
    then obtain a b where "v = a @ ''${'' @ (k @ ''}'' @ b)" by (auto simp: Contains_iff Key_VarName_def)
    then show False using Cons.prems(1) by (auto simp: Contains_iff)
  qed
  then show ?case using Cons by (auto simp: ReplaceAll_absent split: option.splits list.splits)
qed simp

lemma substFuncFromValues_absent:
  "\<not> Contains v ''${'' \<Longrightarrow> common_values_ok values \<Longrightarrow> substFuncFromValues values v = Some v"
  by (auto simp: substFuncFromValues_def common_values_ok_def list_all_iff intro!: subst_loop_absent)

subsection \<open>KeySet\<close>

type_synonym KeySet = "Key fset"

definition KeySet_Add :: "KeySet \<Rightarrow> Key \<Rightarrow> KeySet" where
  "KeySet_Add self key = finsert key self"

definition NewKeySet :: "Key list \<Rightarrow> KeySet" where
  "NewKeySet keys = foldl KeySet_Add {||} keys"

definition KeySet_Difference :: "KeySet \<Rightarrow> KeySet \<Rightarrow> KeySet" where
  "KeySet_Difference self sset = ffilter (\<lambda>k. \<not> k |\<in>| sset) self"

definition KeySet_IsEmpty :: "KeySet \<Rightarrow> bool" where
  "KeySet_IsEmpty self = (fcard self = 0)"

definition KeySet_ToSlice :: "KeySet \<Rightarrow> Key list" where
  "KeySet_ToSlice self = sorted_list_of_fset self"

definition KeySet_String :: "KeySet \<Rightarrow> string" where
  "KeySet_String self = sprint_slice (KeySet_ToSlice self)"

interpretation keyset: key_set "{||} :: KeySet" KeySet_Add "\<lambda>s k. k |\<in>| s"
  by unfold_locales (auto simp: KeySet_Add_def)

lemma fmember_NewKeySet [simp]: "k |\<in>| NewKeySet ks \<longleftrightarrow> k \<in> set ks"
  using keyset.foldl_add_new [of k ks] by (simp add: NewKeySet_def)

lemma KeySet_Difference_empty: "KeySet_IsEmpty (KeySet_Difference s t) \<longleftrightarrow> s |\<subseteq>| t"
  by (auto simp: KeySet_IsEmpty_def KeySet_Difference_def)

section \<open>name.go\<close>

definition n_stringEquals :: cond_name where "n_stringEquals = ''StringEquals''"
definition n_stringNotEquals :: cond_name where "n_stringNotEquals = ''StringNotEquals''"
definition n_stringEqualsIgnoreCase :: cond_name where "n_stringEqualsIgnoreCase = ''StringEqualsIgnoreCase''"
definition n_stringNotEqualsIgnoreCase :: cond_name where "n_stringNotEqualsIgnoreCase = ''StringNotEqualsIgnoreCase''"
definition n_stringLike :: cond_name where "n_stringLike = ''StringLike''"
definition n_stringNotLike :: cond_name where "n_stringNotLike = ''StringNotLike''"
definition n_binaryEquals :: cond_name where "n_binaryEquals = ''BinaryEquals''"
definition n_ipAddress :: cond_name where "n_ipAddress = ''IpAddress''"
definition n_notIPAddress :: cond_name where "n_notIPAddress = ''NotIpAddress''"
definition n_null :: cond_name where "n_null = ''Null''"
definition n_boolean :: cond_name where "n_boolean = ''Bool''"
definition n_numericEquals :: cond_name where "n_numericEquals = ''NumericEquals''"
definition n_numericNotEquals :: cond_name where "n_numericNotEquals = ''NumericNotEquals''"
definition n_numericLessThan :: cond_name where "n_numericLessThan = ''NumericLessThan''"
definition n_numericLessThanEquals :: cond_name where "n_numericLessThanEquals = ''NumericLessThanEquals''"
definition n_numericGreaterThan :: cond_name where "n_numericGreaterThan = ''NumericGreaterThan''"
definition n_numericGreaterThanEquals :: cond_name where "n_numericGreaterThanEquals = ''NumericGreaterThanEquals''"
definition n_dateEquals :: cond_name where "n_dateEquals = ''DateEquals''"
definition n_dateNotEquals :: cond_name where "n_dateNotEquals = ''DateNotEquals''"
definition n_dateLessThan :: cond_name where "n_dateLessThan = ''DateLessThan''"
definition n_dateLessThanEquals :: cond_name where "n_dateLessThanEquals = ''DateLessThanEquals''"
definition n_dateGreaterThan :: cond_name where "n_dateGreaterThan = ''DateGreaterThan''"
definition n_dateGreaterThanEquals :: cond_name where "n_dateGreaterThanEquals = ''DateGreaterThanEquals''"

lemmas name_defs = n_stringEquals_def n_stringNotEquals_def n_stringEqualsIgnoreCase_def
  n_stringNotEqualsIgnoreCase_def n_stringLike_def n_stringNotLike_def n_binaryEquals_def
  n_ipAddress_def n_notIPAddress_def n_null_def n_boolean_def n_numericEquals_def
  n_numericNotEquals_def n_numericLessThan_def n_numericLessThanEquals_def
  n_numericGreaterThan_def n_numericGreaterThanEquals_def n_dateEquals_def n_dateNotEquals_def
  n_dateLessThan_def n_dateLessThanEquals_def n_dateGreaterThan_def n_dateGreaterThanEquals_def

definition supportedConditions :: "cond_name list" where
  "supportedConditions =
     [n_stringEquals, n_stringNotEquals, n_stringEqualsIgnoreCase, n_stringNotEqualsIgnoreCase,
      n_binaryEquals, n_stringLike, n_stringNotLike, n_ipAddress, n_notIPAddress, n_null, n_boolean,
      n_numericEquals, n_numericNotEquals, n_numericLessThan, n_numericLessThanEquals,
      n_numericGreaterThan, n_numericGreaterThanEquals, n_dateEquals, n_dateNotEquals,
      n_dateLessThan, n_dateLessThanEquals, n_dateGreaterThan, n_dateGreaterThanEquals]"

definition name_IsValid :: "cond_name \<Rightarrow> bool" where
  "name_IsValid n = (n \<in> set supportedConditions)"

definition name_MarshalJSON :: "cond_name \<Rightarrow> cond_err + json" where
  "name_MarshalJSON n = (if \<not> name_IsValid n then Inl (InvalidName n) else Inr (json_string n))"

definition parseName :: "string \<Rightarrow> cond_err + cond_name" where
  "parseName s = (if name_IsValid s then Inr s else Inl (InvalidName s))"

definition name_UnmarshalJSON :: "json \<Rightarrow> cond_err + cond_name" where
  "name_UnmarshalJSON data =
     (case decode_string data of None \<Rightarrow> Inl JsonErr | Some s \<Rightarrow> parseName s)"

end
