(* ===== verification/ConditionValue.thy ===== *)
theory ConditionValue
  imports ConditionKey "HOL-Library.Product_Lexorder"
begin

text \<open>
  \<open>value.go\<close> and \<open>valueset.go\<close> of \<open>pkg/bucket/policy/condition\<close>: the values of a condition in
  a policy document.  A \<open>Value\<close> keeps the four fields of the Go struct; \<open>Kind\<close> holds the
  reflect kinds the package uses.  A \<open>ValueSet\<close> is a finite set; values are ordered so that a
  loop over such a set has one order to be computed with.
\<close>

section \<open>value.go\<close>

definition path2BucketAndObject :: "string \<Rightarrow> string \<times> string" where
  "path2BucketAndObject path0 =
     (let path = TrimPrefix path0 ''/''; pathComponents = SplitN2 path ''/'' in
      case pathComponents of
        [b] \<Rightarrow> (b, [])
      | [b, ob] \<Rightarrow> (b, ob)
      | _ \<Rightarrow> ([], []))"

datatype Kind = InvalidKind | BoolKind | IntKind | StringKind

datatype Value = Value (val_t: Kind) (val_s: string) (val_i: int) (val_b: bool)

definition Value_zero :: Value where
  "Value_zero = Value InvalidKind [] 0 False"

text \<open>The getters return the field and the error beside it.\<close>

definition Value_GetBool :: "Value \<Rightarrow> bool \<times> cond_err option" where
  "Value_GetBool v = (val_b v, if val_t v \<noteq> BoolKind then Some NotABoolValue else None)"

definition Value_GetInt :: "Value \<Rightarrow> int \<times> cond_err option" where
  "Value_GetInt v = (val_i v, if val_t v \<noteq> IntKind then Some NotAnIntValue else None)"

definition Value_GetString :: "Value \<Rightarrow> string \<times> cond_err option" where
  "Value_GetString v = (val_s v, if val_t v \<noteq> StringKind then Some NotAStringValue else None)"

definition Value_GetType :: "Value \<Rightarrow> Kind" where
  "Value_GetType v = val_t v"

definition Value_MarshalJSON :: "Value \<Rightarrow> cond_err + json" where
  "Value_MarshalJSON v =
     (case val_t v of
        StringKind \<Rightarrow> Inr (json_string (val_s v))
      | IntKind \<Rightarrow> Inr (json_int (val_i v))
      | BoolKind \<Rightarrow> Inr (JBool (val_b v))
      | InvalidKind \<Rightarrow> Inl UnknownKind)"

definition NewBoolValue :: "bool \<Rightarrow> Value" where
  "NewBoolValue x = Value BoolKind [] 0 x"

definition NewIntValue :: "int \<Rightarrow> Value" where
  "NewIntValue x = Value IntKind [] x False"

definition NewStringValue :: "string \<Rightarrow> Value" where
  "NewStringValue x = Value StringKind x 0 False"

definition Value_String :: "Value \<Rightarrow> string" where
  "Value_String v =
     (case val_t v of
        StringKind \<Rightarrow> val_s v
      | IntKind \<Rightarrow> Itoa (val_i v)
      | BoolKind \<Rightarrow> FormatBool (val_b v)
      | InvalidKind \<Rightarrow> [])"

definition Value_UnmarshalJSON :: "json \<Rightarrow> cond_err + Value" where
  "Value_UnmarshalJSON data =
     (case decode_bool data of
        Some x \<Rightarrow> Inr (NewBoolValue x)
      | None \<Rightarrow>
          (case decode_int data of
             Some x \<Rightarrow> Inr (NewIntValue x)
           | None \<Rightarrow>
               (case decode_string data of
                  Some x \<Rightarrow> Inr (NewStringValue x)
                | None \<Rightarrow> Inl JsonErr)))"

lemmas Value_get_defs = Value_GetBool_def Value_GetInt_def Value_GetString_def Value_GetType_def
lemmas Value_new_defs = NewBoolValue_def NewIntValue_def NewStringValue_def

lemma NewStringValue_inj [simp]: "NewStringValue x = NewStringValue y \<longleftrightarrow> x = y"
  by (simp add: NewStringValue_def)

section \<open>An order on values\<close>

definition Kind_index :: "Kind \<Rightarrow> nat" where
  "Kind_index k = (case k of InvalidKind \<Rightarrow> 0 | BoolKind \<Rightarrow> 1 | IntKind \<Rightarrow> 2 | StringKind \<Rightarrow> 24)"

definition Value_tuple :: "Value \<Rightarrow> nat \<times> string \<times> int \<times> bool" where
  "Value_tuple v = (Kind_index (val_t v), val_s v, val_i v, val_b v)"

lemma Value_tuple_inj [simp]: "Value_tuple v = Value_tuple w \<longleftrightarrow> v = w"
  by (cases v; cases w) (auto simp: Value_tuple_def Kind_index_def split: Kind.splits)

instantiation Value :: linorder
begin

definition less_eq_Value :: "Value \<Rightarrow> Value \<Rightarrow> bool" where
  "less_eq_Value v w \<longleftrightarrow> Value_tuple v \<le> Value_tuple w"

definition less_Value :: "Value \<Rightarrow> Value \<Rightarrow> bool" where
  "less_Value v w \<longleftrightarrow> Value_tuple v < Value_tuple w"

instance
proof
  fix x y z :: Value
  show "(x < y) = (x \<le> y \<and> \<not> y \<le> x)" by (simp add: less_eq_Value_def less_Value_def less_le_not_le)
  show "x \<le> x" by (simp add: less_eq_Value_def)
  show "x \<le> y \<Longrightarrow> y \<le> z \<Longrightarrow> x \<le> z" by (simp add: less_eq_Value_def)
  show "x \<le> y \<Longrightarrow> y \<le> x \<Longrightarrow> x = y" unfolding less_eq_Value_def by (metis Value_tuple_inj antisym)
  show "x \<le> y \<or> y \<le> x" by (simp add: less_eq_Value_def linear)
qed

end

section \<open>valueset.go\<close>

type_synonym ValueSet = "Value fset"

definition ValueSet_Add :: "ValueSet \<Rightarrow> Value \<Rightarrow> ValueSet" where
  "ValueSet_Add self v = finsert v self"

definition NewValueSet :: "Value list \<Rightarrow> ValueSet" where
  "NewValueSet values = foldl ValueSet_Add {||} values"

interpretation valueset: key_set "{||} :: ValueSet" ValueSet_Add "\<lambda>s k. k |\<in>| s"
  by unfold_locales (auto simp: ValueSet_Add_def)

text \<open>The members in the order that stands for the one a Go loop over the map takes.\<close>

definition ValueSet_range :: "ValueSet \<Rightarrow> Value list" where
  "ValueSet_range self = sorted_list_of_fset self"

fun marshal_values :: "Value list \<Rightarrow> cond_err + json list" where
  "marshal_values [] = Inr []"
| "marshal_values (v # vs) =
     (case Value_MarshalJSON v of
        Inl e \<Rightarrow> Inl e
      | Inr j \<Rightarrow> (case marshal_values vs of Inl e \<Rightarrow> Inl e | Inr js \<Rightarrow> Inr (j # js)))"

definition ValueSet_MarshalJSON :: "ValueSet \<Rightarrow> cond_err + json" where
  "ValueSet_MarshalJSON self =
     (let values = ValueSet_range self in
      if length values = 0 then Inl InvalidValueSet
      else (case marshal_values values of Inl e \<Rightarrow> Inl e | Inr js \<Rightarrow> Inr (JArr js)))"

fun add_values :: "ValueSet \<Rightarrow> Value list \<Rightarrow> cond_err + ValueSet" where
  "add_values acc [] = Inr acc"
| "add_values acc (v # vs) =
     (if v |\<in>| acc then Inl DuplicateValue else add_values (ValueSet_Add acc v) vs)"

definition decode_Value :: "json \<Rightarrow> Value option" where
  "decode_Value j = (case Value_UnmarshalJSON j of Inl _ \<Rightarrow> None | Inr v \<Rightarrow> Some v)"

definition ValueSet_UnmarshalJSON :: "json \<Rightarrow> cond_err + ValueSet" where
  "ValueSet_UnmarshalJSON data =
     (case Value_UnmarshalJSON data of
        Inr v \<Rightarrow> Inr (ValueSet_Add {||} v)
      | Inl _ \<Rightarrow>
          (case decode_slice decode_Value data of
             None \<Rightarrow> Inl JsonErr
           | Some values \<Rightarrow>
               if length values < 1 then Inl EmptyValueSet
               else add_values {||} values))"

lemma fmember_NewValueSet [simp]: "v |\<in>| NewValueSet vs \<longleftrightarrow> v \<in> set vs"
  using valueset.foldl_add_new [of v vs] by (simp add: NewValueSet_def)

lemma set_ValueSet_range [simp]: "set (ValueSet_range vs) = fset vs"
  by (simp add: ValueSet_range_def)

lemma distinct_ValueSet_range [simp]: "distinct (ValueSet_range vs)"
  by (simp add: ValueSet_range_def sorted_list_of_fset.rep_eq)

lemma ValueSet_range_single [simp]: "ValueSet_range {|v|} = [v]"
  by (simp add: ValueSet_range_def sorted_list_of_fset.rep_eq)

section \<open>Reading back what was written\<close>

text \<open>The values the constructors build, with strings that are UTF-8 and integers in range.\<close>

definition Value_wf :: "Value \<Rightarrow> bool" where
  "Value_wf v \<longleftrightarrow>
     (\<exists>x. v = NewStringValue x \<and> ValidString x) \<or>
     (\<exists>x. v = NewIntValue x \<and> in_int64 x) \<or>
     (\<exists>x. v = NewBoolValue x)"

lemma Value_marshal_wf:
  assumes "Value_wf v"
  obtains j where "Value_MarshalJSON v = Inr j" and "Value_UnmarshalJSON j = Inr v"
proof -
  from assms consider (str) x where "v = NewStringValue x" "ValidString x"
    | (num) x where "v = NewIntValue x" "in_int64 x" | (boolean) x where "v = NewBoolValue x"
    unfolding Value_wf_def by blast
  then show thesis
  proof cases
    case str
    then have "Value_MarshalJSON v = Inr (JStr x)"
      by (simp add: Value_MarshalJSON_def NewStringValue_def json_string_def ToValidUTF8_valid)
    moreover have "Value_UnmarshalJSON (JStr x) = Inr v"
      using str by (simp add: Value_UnmarshalJSON_def)
    ultimately show thesis by (rule that)
  next
    case num
    then have "Value_MarshalJSON v = Inr (json_int x)"
      by (simp add: Value_MarshalJSON_def NewIntValue_def)
    moreover have "Value_UnmarshalJSON (json_int x) = Inr v"
      using num decode_int_json_int [of x] by (simp add: Value_UnmarshalJSON_def json_int_def)
    ultimately show thesis by (rule that)
  next
    case boolean
    then have "Value_MarshalJSON v = Inr (JBool x)"
      by (simp add: Value_MarshalJSON_def NewBoolValue_def)
    moreover have "Value_UnmarshalJSON (JBool x) = Inr v"
      using boolean by (simp add: Value_UnmarshalJSON_def)
    ultimately show thesis by (rule that)
  qed
qed

lemma marshal_values_wf:
  "list_all Value_wf vs \<Longrightarrow>
     \<exists>js. marshal_values vs = Inr js \<and> decode_list decode_Value js = Some vs"
proof (induction vs)
  case (Cons v vs)
  then obtain js where js: "marshal_values vs = Inr js" "decode_list decode_Value js = Some vs" by auto
  from Cons.prems have "Value_wf v" by simp
  then obtain j where "Value_MarshalJSON v = Inr j" and "Value_UnmarshalJSON j = Inr v"
    by (rule Value_marshal_wf)
  moreover from this have "decode_Value j = Some v" by (simp add: decode_Value_def)
  ultimately show ?case using js by simp
qed simp

lemma add_values_distinct:
  "distinct vs \<Longrightarrow> fset acc \<inter> set vs = {} \<Longrightarrow> add_values acc vs = Inr (foldl ValueSet_Add acc vs)"
  by (induction vs arbitrary: acc) (auto simp: ValueSet_Add_def)

lemma ValueSet_roundtrip:
  assumes "vs \<noteq> {||}" and "\<And>v. v |\<in>| vs \<Longrightarrow> Value_wf v"
  obtains j where "ValueSet_MarshalJSON vs = Inr j" and "ValueSet_UnmarshalJSON j = Inr vs"
proof -
  have "list_all Value_wf (ValueSet_range vs)" using assms(2) by (auto simp: list_all_iff)
  then obtain js where js: "marshal_values (ValueSet_range vs) = Inr js"
      "decode_list decode_Value js = Some (ValueSet_range vs)"
    using marshal_values_wf by blast
  have ne: "ValueSet_range vs \<noteq> []"
  proof
    assume "ValueSet_range vs = []"
    then have "fset vs = {}" using set_ValueSet_range [of vs] by simp
    with assms(1) show False by (metis bot_fset.rep_eq fset_inject)
  qed
  have "foldl ValueSet_Add {||} (ValueSet_range vs) = vs"
    by (rule valueset.has_ext) (simp add: valueset.foldl_add_new)
  then have "ValueSet_UnmarshalJSON (JArr js) = Inr vs"
    using js(2) ne by (simp add: ValueSet_UnmarshalJSON_def Value_UnmarshalJSON_def add_values_distinct)
  moreover have "ValueSet_MarshalJSON vs = Inr (JArr js)"
    using js(1) ne by (simp add: ValueSet_MarshalJSON_def Let_def)
  ultimately show thesis using that by blast
qed

section \<open>Properties\<close>

text \<open>a set of values that is not empty, with UTF-8 strings and 64-bit integers, is written
  to a document that reads back as the same set.\<close>

theorem ValueSet_marshal_unmarshal:
  assumes "vs \<noteq> {||}" and "\<And>v. v |\<in>| vs \<Longrightarrow> Value_wf v"
  shows "\<exists>j. ValueSet_MarshalJSON vs = Inr j \<and> ValueSet_UnmarshalJSON j = Inr vs"
  using ValueSet_roundtrip [OF assms] by blast

theorem ValueSet_marshal_unmarshal_witness:
  "\<exists>j. ValueSet_MarshalJSON {|NewIntValue 7, NewBoolValue True|} = Inr j \<and>
     ValueSet_UnmarshalJSON j = Inr {|NewIntValue 7, NewBoolValue True|}"
  by (rule ValueSet_marshal_unmarshal)
    (auto simp: Value_wf_def in_int64_def int64_min_def int64_max_def)

end
