(* ===== verification/ConditionString.thy ===== *)
theory ConditionString
  imports ConditionValue Wildcard
begin

text \<open>
  The conditions on strings: \<open>stringequalsfunc.go\<close>, \<open>stringequalsignorecasefunc.go\<close>,
  \<open>stringlikefunc.go\<close> and \<open>binaryequalsfunc.go\<close> of \<open>pkg/bucket/policy/condition\<close>.  Each Go
  struct is a datatype with one constructor; a struct that embeds another one wraps it.
  \<open>evaluate\<close> returns \<open>None\<close> where the code panics.
\<close>

section \<open>What the string conditions share\<close>

definition string_values :: "StringSet \<Rightarrow> ValueSet" where
  "string_values vs = foldl ValueSet_Add (NewValueSet []) (map NewStringValue (StringSet_ToSlice vs))"

lemma fmember_string_values [simp]: "v |\<in>| string_values vs \<longleftrightarrow> (\<exists>s. s |\<in>| vs \<and> v = NewStringValue s)"
  by (auto simp: string_values_def NewValueSet_def valueset.foldl_add_new)

lemma string_values_inj: "string_values vs = string_values ws \<longleftrightarrow> vs = ws"
proof
  assume eq: "string_values vs = string_values ws"
  have "s |\<in>| vs \<longleftrightarrow> s |\<in>| ws" for s
    using arg_cong [OF eq, of "\<lambda>x. NewStringValue s |\<in>| x"] by auto
  then show "vs = ws" by blast
qed simp

definition cond_string :: "cond_name \<Rightarrow> Key \<Rightarrow> string list \<Rightarrow> string" where
  "cond_string n key valueStrings = n @ '':'' @ key @ '':'' @ sprint_slice valueStrings"

section \<open>stringequalsfunc.go\<close>

definition toStringEqualsFuncString :: "cond_name \<Rightarrow> Key \<Rightarrow> StringSet \<Rightarrow> string" where
  "toStringEqualsFuncString n key values = cond_string n key (sort (StringSet_ToSlice values))"

datatype stringEqualsFunc = StringEqualsFunc Key StringSet

fun stringEqualsFunc_evaluate :: "stringEqualsFunc \<Rightarrow> req_values \<Rightarrow> bool go" where
  "stringEqualsFunc_evaluate (StringEqualsFunc k vs) values =
     map_option
       (\<lambda>fvalues. \<not> StringSet_IsEmpty (StringSet_Intersection fvalues (CreateStringSet (requestValue k values))))
       (StringSet_ApplyFunc_go vs (substFuncFromValues values))"

fun stringEqualsFunc_key :: "stringEqualsFunc \<Rightarrow> Key" where
  "stringEqualsFunc_key (StringEqualsFunc k vs) = k"

definition stringEqualsFunc_name :: "stringEqualsFunc \<Rightarrow> cond_name" where
  "stringEqualsFunc_name f = n_stringEquals"

fun stringEqualsFunc_String :: "stringEqualsFunc \<Rightarrow> string" where
  "stringEqualsFunc_String (StringEqualsFunc k vs) = toStringEqualsFuncString n_stringEquals k vs"

text \<open>\<open>toMap\<close> returns a nil map for a key that is not valid.\<close>

fun stringEqualsFunc_toMap :: "stringEqualsFunc \<Rightarrow> (Key \<times> ValueSet) option" where
  "stringEqualsFunc_toMap (StringEqualsFunc k vs) =
     (if \<not> Key_IsValid k then None else Some (k, string_values vs))"

datatype stringNotEqualsFunc = StringNotEqualsFunc stringEqualsFunc

fun stringNotEqualsFunc_evaluate :: "stringNotEqualsFunc \<Rightarrow> req_values \<Rightarrow> bool go" where
  "stringNotEqualsFunc_evaluate (StringNotEqualsFunc f) values = go_not (stringEqualsFunc_evaluate f values)"

definition stringNotEqualsFunc_name :: "stringNotEqualsFunc \<Rightarrow> cond_name" where
  "stringNotEqualsFunc_name f = n_stringNotEquals"

fun stringNotEqualsFunc_String :: "stringNotEqualsFunc \<Rightarrow> string" where
  "stringNotEqualsFunc_String (StringNotEqualsFunc (StringEqualsFunc k vs)) =
     toStringEqualsFuncString n_stringNotEquals k vs"

fun strings_of_values :: "cond_name \<Rightarrow> Value list \<Rightarrow> cond_err + string list" where
  "strings_of_values n [] = Inr []"
| "strings_of_values n (v # vs) =
     (case Value_GetString v of
        (x, Some e) \<Rightarrow> Inl (ValueNotString n)
      | (x, None) \<Rightarrow> map_sum id (\<lambda>xs. x # xs) (strings_of_values n vs))"

definition valuesToStringSlice :: "cond_name \<Rightarrow> ValueSet \<Rightarrow> cond_err + string list" where
  "valuesToStringSlice n values = strings_of_values n (ValueSet_range values)"

definition copy_source_err :: "cond_name \<Rightarrow> string \<Rightarrow> cond_err option" where
  "copy_source_err n s =
     (case path2BucketAndObject s of (bucket, object) \<Rightarrow>
        if object = [] then Some (InvalidValue s S3XAmzCopySource n)
        else map_option BucketNameErr (CheckValidBucketName bucket))"

definition string_value_err :: "cond_name \<Rightarrow> Key \<Rightarrow> string \<Rightarrow> cond_err option" where
  "string_value_err n key s =
     (if key = S3XAmzCopySource then copy_source_err n s
      else if key = S3XAmzServerSideEncryption \<or> key = S3XAmzServerSideEncryptionCustomerAlgorithm then
        (if s \<noteq> ''AES256'' then Some (InvalidValue s S3XAmzServerSideEncryption n) else None)
      else if key = S3XAmzMetadataDirective then
        (if s \<noteq> ''COPY'' \<and> s \<noteq> ''REPLACE'' then Some (InvalidValue s S3XAmzMetadataDirective n) else None)
      else if key = S3XAmzContentSha256 then
        (if s = [] then Some (EmptyValue S3XAmzContentSha256 n) else None)
      else None)"

definition validateStringEqualsValues :: "cond_name \<Rightarrow> Key \<Rightarrow> StringSet \<Rightarrow> cond_err option" where
  "validateStringEqualsValues n key values = first_err (string_value_err n key) (StringSet_ToSlice values)"

definition NewStringEqualsFunc :: "Key \<Rightarrow> string list \<Rightarrow> cond_err + stringEqualsFunc" where
  "NewStringEqualsFunc key values =
     (let sset = CreateStringSet values in
      case validateStringEqualsValues n_stringEquals key sset of
        Some e \<Rightarrow> Inl e
      | None \<Rightarrow> Inr (StringEqualsFunc key sset))"

definition newStringEqualsFunc :: "Key \<Rightarrow> ValueSet \<Rightarrow> cond_err + stringEqualsFunc" where
  "newStringEqualsFunc key values =
     (case valuesToStringSlice n_stringEquals values of
        Inl e \<Rightarrow> Inl e | Inr valueStrings \<Rightarrow> NewStringEqualsFunc key valueStrings)"

definition NewStringNotEqualsFunc :: "Key \<Rightarrow> string list \<Rightarrow> cond_err + stringNotEqualsFunc" where
  "NewStringNotEqualsFunc key values =
     (let sset = CreateStringSet values in
      case validateStringEqualsValues n_stringNotEquals key sset of
        Some e \<Rightarrow> Inl e
      | None \<Rightarrow> Inr (StringNotEqualsFunc (StringEqualsFunc key sset)))"

definition newStringNotEqualsFunc :: "Key \<Rightarrow> ValueSet \<Rightarrow> cond_err + stringNotEqualsFunc" where
  "newStringNotEqualsFunc key values =
     (case valuesToStringSlice n_stringNotEquals values of
        Inl e \<Rightarrow> Inl e | Inr valueStrings \<Rightarrow> NewStringNotEqualsFunc key valueStrings)"

section \<open>stringequalsignorecasefunc.go\<close>

text \<open>
  \<open>strings.EqualFold\<close> compares rune by rune under Unicode simple folding.  The folding table is
  an argument: \<open>uf\<close> maps a rune to a representative of its folding orbit.
\<close>

definition EqualFold :: "(nat \<Rightarrow> nat) \<Rightarrow> string \<Rightarrow> string \<Rightarrow> bool" where
  "EqualFold uf s t = (map uf (runes s) = map uf (runes t))"

definition toStringEqualsIgnoreCaseFuncString :: "cond_name \<Rightarrow> Key \<Rightarrow> StringSet \<Rightarrow> string" where
  "toStringEqualsIgnoreCaseFuncString n key values = cond_string n key (sort (StringSet_ToSlice values))"

datatype stringEqualsIgnoreCaseFunc = StringEqualsIgnoreCaseFunc Key StringSet

fun stringEqualsIgnoreCaseFunc_evaluate ::
    "(nat \<Rightarrow> nat) \<Rightarrow> stringEqualsIgnoreCaseFunc \<Rightarrow> req_values \<Rightarrow> bool go" where
  "stringEqualsIgnoreCaseFunc_evaluate uf (StringEqualsIgnoreCaseFunc k vs) values =
     map_option
       (\<lambda>fvalues. list_ex (\<lambda>v. \<not> StringSet_IsEmpty (StringSet_FuncMatch fvalues (EqualFold uf) v))
                          (requestValue k values))
       (StringSet_ApplyFunc_go vs (substFuncFromValues values))"

fun stringEqualsIgnoreCaseFunc_key :: "stringEqualsIgnoreCaseFunc \<Rightarrow> Key" where
  "stringEqualsIgnoreCaseFunc_key (StringEqualsIgnoreCaseFunc k vs) = k"

definition stringEqualsIgnoreCaseFunc_name :: "stringEqualsIgnoreCaseFunc \<Rightarrow> cond_name" where
  "stringEqualsIgnoreCaseFunc_name f = n_stringEqualsIgnoreCase"

fun stringEqualsIgnoreCaseFunc_String :: "stringEqualsIgnoreCaseFunc \<Rightarrow> string" where
  "stringEqualsIgnoreCaseFunc_String (StringEqualsIgnoreCaseFunc k vs) =
     toStringEqualsIgnoreCaseFuncString n_stringEqualsIgnoreCase k vs"

fun stringEqualsIgnoreCaseFunc_toMap :: "stringEqualsIgnoreCaseFunc \<Rightarrow> (Key \<times> ValueSet) option" where
  "stringEqualsIgnoreCaseFunc_toMap (StringEqualsIgnoreCaseFunc k vs) =
     (if \<not> Key_IsValid k then None else Some (k, string_values vs))"

datatype stringNotEqualsIgnoreCaseFunc = StringNotEqualsIgnoreCaseFunc stringEqualsIgnoreCaseFunc

fun stringNotEqualsIgnoreCaseFunc_evaluate ::
    "(nat \<Rightarrow> nat) \<Rightarrow> stringNotEqualsIgnoreCaseFunc \<Rightarrow> req_values \<Rightarrow> bool go" where
  "stringNotEqualsIgnoreCaseFunc_evaluate uf (StringNotEqualsIgnoreCaseFunc f) values =
     go_not (stringEqualsIgnoreCaseFunc_evaluate uf f values)"

definition stringNotEqualsIgnoreCaseFunc_name :: "stringNotEqualsIgnoreCaseFunc \<Rightarrow> cond_name" where
  "stringNotEqualsIgnoreCaseFunc_name f = n_stringNotEqualsIgnoreCase"

fun stringNotEqualsIgnoreCaseFunc_String :: "stringNotEqualsIgnoreCaseFunc \<Rightarrow> string" where
  "stringNotEqualsIgnoreCaseFunc_String (StringNotEqualsIgnoreCaseFunc (StringEqualsIgnoreCaseFunc k vs)) =
     toStringEqualsIgnoreCaseFuncString n_stringNotEqualsIgnoreCase k vs"

definition validateStringEqualsIgnoreCaseValues :: "cond_name \<Rightarrow> Key \<Rightarrow> StringSet \<Rightarrow> cond_err option" where
  "validateStringEqualsIgnoreCaseValues n key values = validateStringEqualsValues n key values"

definition NewStringEqualsIgnoreCaseFunc :: "Key \<Rightarrow> string list \<Rightarrow> cond_err + stringEqualsIgnoreCaseFunc" where
  "NewStringEqualsIgnoreCaseFunc key values =
     (let sset = CreateStringSet values in
      case validateStringEqualsIgnoreCaseValues n_stringEqualsIgnoreCase key sset of
        Some e \<Rightarrow> Inl e
      | None \<Rightarrow> Inr (StringEqualsIgnoreCaseFunc key sset))"

definition newStringEqualsIgnoreCaseFunc :: "Key \<Rightarrow> ValueSet \<Rightarrow> cond_err + stringEqualsIgnoreCaseFunc" where
  "newStringEqualsIgnoreCaseFunc key values =
     (case valuesToStringSlice n_stringEqualsIgnoreCase values of
        Inl e \<Rightarrow> Inl e | Inr valueStrings \<Rightarrow> NewStringEqualsIgnoreCaseFunc key valueStrings)"

definition NewStringNotEqualsIgnoreCaseFunc :: "Key \<Rightarrow> string list \<Rightarrow> cond_err + stringNotEqualsIgnoreCaseFunc" where
  "NewStringNotEqualsIgnoreCaseFunc key values =
     (let sset = CreateStringSet values in
      case validateStringEqualsIgnoreCaseValues n_stringNotEqualsIgnoreCase key sset of
        Some e \<Rightarrow> Inl e
      | None \<Rightarrow> Inr (StringNotEqualsIgnoreCaseFunc (StringEqualsIgnoreCaseFunc key sset)))"

definition newStringNotEqualsIgnoreCaseFunc :: "Key \<Rightarrow> ValueSet \<Rightarrow> cond_err + stringNotEqualsIgnoreCaseFunc" where
  "newStringNotEqualsIgnoreCaseFunc key values =
     (case valuesToStringSlice n_stringNotEqualsIgnoreCase values of
        Inl e \<Rightarrow> Inl e | Inr valueStrings \<Rightarrow> NewStringNotEqualsIgnoreCaseFunc key valueStrings)"

section \<open>stringlikefunc.go\<close>

definition toStringLikeFuncString :: "cond_name \<Rightarrow> Key \<Rightarrow> StringSet \<Rightarrow> string" where
  "toStringLikeFuncString n key values = cond_string n key (sort (StringSet_ToSlice values))"

datatype stringLikeFunc = StringLikeFunc Key StringSet

fun stringLikeFunc_evaluate :: "stringLikeFunc \<Rightarrow> req_values \<Rightarrow> bool go" where
  "stringLikeFunc_evaluate (StringLikeFunc k vs) values =
     map_option
       (\<lambda>fvalues. list_ex (\<lambda>v. \<not> StringSet_IsEmpty (StringSet_FuncMatch fvalues Match v)) (requestValue k values))
       (StringSet_ApplyFunc_go vs (substFuncFromValues values))"

fun stringLikeFunc_key :: "stringLikeFunc \<Rightarrow> Key" where
  "stringLikeFunc_key (StringLikeFunc k vs) = k"

definition stringLikeFunc_name :: "stringLikeFunc \<Rightarrow> cond_name" where
  "stringLikeFunc_name f = n_stringLike"

fun stringLikeFunc_String :: "stringLikeFunc \<Rightarrow> string" where
  "stringLikeFunc_String (StringLikeFunc k vs) = toStringLikeFuncString n_stringLike k vs"

fun stringLikeFunc_toMap :: "stringLikeFunc \<Rightarrow> (Key \<times> ValueSet) option" where
  "stringLikeFunc_toMap (StringLikeFunc k vs) =
     (if \<not> Key_IsValid k then None else Some (k, string_values vs))"

datatype stringNotLikeFunc = StringNotLikeFunc stringLikeFunc

fun stringNotLikeFunc_evaluate :: "stringNotLikeFunc \<Rightarrow> req_values \<Rightarrow> bool go" where
  "stringNotLikeFunc_evaluate (StringNotLikeFunc f) values = go_not (stringLikeFunc_evaluate f values)"

definition stringNotLikeFunc_name :: "stringNotLikeFunc \<Rightarrow> cond_name" where
  "stringNotLikeFunc_name f = n_stringNotLike"

fun stringNotLikeFunc_String :: "stringNotLikeFunc \<Rightarrow> string" where
  "stringNotLikeFunc_String (StringNotLikeFunc (StringLikeFunc k vs)) =
     toStringLikeFuncString n_stringNotLike k vs"

definition validateStringLikeValues :: "cond_name \<Rightarrow> Key \<Rightarrow> StringSet \<Rightarrow> cond_err option" where
  "validateStringLikeValues n key values =
     first_err (\<lambda>s. if key = S3XAmzCopySource then copy_source_err n s else None) (StringSet_ToSlice values)"

definition NewStringLikeFunc :: "Key \<Rightarrow> string list \<Rightarrow> cond_err + stringLikeFunc" where
  "NewStringLikeFunc key values =
     (let sset = CreateStringSet values in
      case validateStringLikeValues n_stringLike key sset of
        Some e \<Rightarrow> Inl e
      | None \<Rightarrow> Inr (StringLikeFunc key sset))"

definition newStringLikeFunc :: "Key \<Rightarrow> ValueSet \<Rightarrow> cond_err + stringLikeFunc" where
  "newStringLikeFunc key values =
     (case valuesToStringSlice n_stringLike values of
        Inl e \<Rightarrow> Inl e | Inr valueStrings \<Rightarrow> NewStringLikeFunc key valueStrings)"

definition NewStringNotLikeFunc :: "Key \<Rightarrow> string list \<Rightarrow> cond_err + stringNotLikeFunc" where
  "NewStringNotLikeFunc key values =
     (let sset = CreateStringSet values in
      case validateStringLikeValues n_stringNotLike key sset of
        Some e \<Rightarrow> Inl e
      | None \<Rightarrow> Inr (StringNotLikeFunc (StringLikeFunc key sset)))"

definition newStringNotLikeFunc :: "Key \<Rightarrow> ValueSet \<Rightarrow> cond_err + stringNotLikeFunc" where
  "newStringNotLikeFunc key values =
     (case valuesToStringSlice n_stringNotLike values of
        Inl e \<Rightarrow> Inl e | Inr valueStrings \<Rightarrow> NewStringNotLikeFunc key valueStrings)"

section \<open>binaryequalsfunc.go\<close>

definition toBinaryEqualsFuncString :: "cond_name \<Rightarrow> Key \<Rightarrow> StringSet \<Rightarrow> string" where
  "toBinaryEqualsFuncString n key values = cond_string n key (sort (StringSet_ToSlice values))"

datatype binaryEqualsFunc = BinaryEqualsFunc Key StringSet

fun binaryEqualsFunc_evaluate :: "binaryEqualsFunc \<Rightarrow> req_values \<Rightarrow> bool go" where
  "binaryEqualsFunc_evaluate (BinaryEqualsFunc k vs) values =
     map_option
       (\<lambda>fvalues. \<not> StringSet_IsEmpty (StringSet_Intersection fvalues (CreateStringSet (requestValue k values))))
       (StringSet_ApplyFunc_go vs (substFuncFromValues values))"

fun binaryEqualsFunc_key :: "binaryEqualsFunc \<Rightarrow> Key" where
  "binaryEqualsFunc_key (BinaryEqualsFunc k vs) = k"

definition binaryEqualsFunc_name :: "binaryEqualsFunc \<Rightarrow> cond_name" where
  "binaryEqualsFunc_name f = n_binaryEquals"

fun binaryEqualsFunc_String :: "binaryEqualsFunc \<Rightarrow> string" where
  "binaryEqualsFunc_String (BinaryEqualsFunc k vs) = toBinaryEqualsFuncString n_binaryEquals k vs"

fun binaryEqualsFunc_toMap :: "binaryEqualsFunc \<Rightarrow> (Key \<times> ValueSet) option" where
  "binaryEqualsFunc_toMap (BinaryEqualsFunc k vs) =
     (if \<not> Key_IsValid k then None
      else Some (k, foldl ValueSet_Add (NewValueSet [])
                      (map (\<lambda>value. NewStringValue (b64_EncodeToString value)) (StringSet_ToSlice vs))))"

text \<open>
  \<open>validateBinaryEqualsValues\<close> replaces, in the set it is given, each encoded value by its
  bytes, one after the other; the set it leaves is the second part of the result.
\<close>

fun binary_loop :: "cond_name \<Rightarrow> Key \<Rightarrow> string list \<Rightarrow> StringSet \<Rightarrow> cond_err option \<times> StringSet" where
  "binary_loop n key [] values = (None, values)"
| "binary_loop n key (s # ss) values =
     (case b64_DecodeString s of
        None \<Rightarrow> (Some Base64Err, values)
      | Some sbytes \<Rightarrow>
          (let values' = StringSet_Remove values s in
           case string_value_err n key sbytes of
             Some e \<Rightarrow> (Some e, values')
           | None \<Rightarrow> binary_loop n key ss (StringSet_Add values' sbytes)))"

definition validateBinaryEqualsValues :: "cond_name \<Rightarrow> Key \<Rightarrow> StringSet \<Rightarrow> cond_err option \<times> StringSet" where
  "validateBinaryEqualsValues n key values = binary_loop n key (StringSet_ToSlice values) values"

definition NewBinaryEqualsFunc :: "Key \<Rightarrow> string list \<Rightarrow> cond_err + binaryEqualsFunc" where
  "NewBinaryEqualsFunc key values =
     (case validateBinaryEqualsValues n_binaryEquals key (CreateStringSet values) of
        (Some e, _) \<Rightarrow> Inl e
      | (None, sset) \<Rightarrow> Inr (BinaryEqualsFunc key sset))"

definition newBinaryEqualsFunc :: "Key \<Rightarrow> ValueSet \<Rightarrow> cond_err + binaryEqualsFunc" where
  "newBinaryEqualsFunc key values =
     (case valuesToStringSlice n_binaryEquals values of
        Inl e \<Rightarrow> Inl e | Inr valueStrings \<Rightarrow> NewBinaryEqualsFunc key valueStrings)"

section \<open>Properties\<close>

lemma ApplyFunc_go_None:
  "StringSet_ApplyFunc_go vs (substFuncFromValues values) = None \<longleftrightarrow> vs \<noteq> {||} \<and> \<not> common_values_ok values"
  by (auto simp: StringSet_ApplyFunc_go_def go_image_None substFuncFromValues_None)

lemma ffilter_empty_iff: "ffilter P A = {||} \<longleftrightarrow> (\<forall>x |\<in>| A. \<not> P x)"
  by auto

text \<open>What the four conditions test, over the substituted values.\<close>

lemma stringEquals_iff:
  assumes "common_values_ok values"
  shows "stringEqualsFunc_evaluate (StringEqualsFunc k vs) values =
    Some (\<exists>v |\<in>| vs. \<exists>r \<in> set (requestValue k values). substFuncFromValues values v = Some r)"
proof -
  from assms obtain fv where fv: "StringSet_ApplyFunc_go vs (substFuncFromValues values) = Some fv"
    using ApplyFunc_go_None by fastforce
  then have "y |\<in>| fv \<longleftrightarrow> (\<exists>x |\<in>| vs. substFuncFromValues values x = Some y)" for y
    unfolding StringSet_ApplyFunc_go_def by (rule go_image_SomeD)
  with fv show ?thesis by (auto simp: StringSet_Intersection_def ffilter_empty_iff) blast
qed

lemma stringLike_iff:
  assumes "common_values_ok values"
  shows "stringLikeFunc_evaluate (StringLikeFunc k vs) values =
    Some (\<exists>v |\<in>| vs. \<exists>r \<in> set (requestValue k values). \<exists>p. substFuncFromValues values v = Some p \<and> Match p r)"
proof -
  from assms obtain fv where fv: "StringSet_ApplyFunc_go vs (substFuncFromValues values) = Some fv"
    using ApplyFunc_go_None by fastforce
  then have "y |\<in>| fv \<longleftrightarrow> (\<exists>x |\<in>| vs. substFuncFromValues values x = Some y)" for y
    unfolding StringSet_ApplyFunc_go_def by (rule go_image_SomeD)
  with fv show ?thesis by (auto simp: StringSet_FuncMatch_def list_ex_iff ffilter_empty_iff) blast+
qed

end
