(* ===== verification/GoTime.thy ===== *)
theory GoTime
  imports GoStrings
begin

text \<open>
  Go's \<open>time\<close> package as the modelled files use it: instants, the parser and the printer of the
  layout \<open>time.RFC3339\<close> ("2006-01-02T15:04:05Z07:00"), with the behaviour of Go 1.13, which
  go.mod names: the hour may have one digit, a fraction of a second is accepted, the two fields of
  the zone offset are not range-checked.

  A time is its instant in nanoseconds since the Unix epoch and its location, which is UTC or an
  offset in seconds (a location is only ever printed as its offset).
\<close>

datatype location = UTC | Offset int

record gotime =
  instant :: int
  loc :: location

definition zone_offset :: "location \<Rightarrow> int" where
  "zone_offset l = (case l of UTC \<Rightarrow> 0 | Offset s \<Rightarrow> s)"

definition time_Equal :: "gotime \<Rightarrow> gotime \<Rightarrow> bool" where
  "time_Equal t u = (instant t = instant u)"

definition time_After :: "gotime \<Rightarrow> gotime \<Rightarrow> bool" where
  "time_After t u = (instant t > instant u)"

definition time_Before :: "gotime \<Rightarrow> gotime \<Rightarrow> bool" where
  "time_Before t u = (instant t < instant u)"

text \<open>The zero \<open>time.Time\<close> is the start of year 1, UTC.\<close>

definition zero_time :: gotime where
  "zero_time = \<lparr>instant = - 62135596800 * 1000000000, loc = UTC\<rparr>"

definition time_IsZero :: "gotime \<Rightarrow> bool" where
  "time_IsZero t = (instant t = instant zero_time)"

section \<open>The calendar\<close>

definition is_leap :: "int \<Rightarrow> bool" where
  "is_leap y = (y mod 4 = 0 \<and> (y mod 100 \<noteq> 0 \<or> y mod 400 = 0))"

definition month_lengths :: "bool \<Rightarrow> int list" where
  "month_lengths leap = [31, if leap then 29 else 28, 31, 30, 31, 30, 31, 31, 30, 31, 30, 31]"

definition days_in :: "int \<Rightarrow> int \<Rightarrow> int" where
  "days_in m y = month_lengths (is_leap y) ! nat (m - 1)"

text \<open>Days from 1 January of year 1 to 1 January of year \<open>y\<close>.\<close>

definition days_before_year :: "int \<Rightarrow> int" where
  "days_before_year y = 365 * (y - 1) + (y - 1) div 4 - (y - 1) div 100 + (y - 1) div 400"

definition unix_epoch_days :: int where
  "unix_epoch_days = 719162"

definition days_of_date :: "int \<Rightarrow> int \<Rightarrow> int \<Rightarrow> int" where
  "days_of_date y m d =
     days_before_year y + sum_list (take (nat (m - 1)) (month_lengths (is_leap y))) + (d - 1) - unix_epoch_days"

definition unix_seconds :: "int \<Rightarrow> int \<Rightarrow> int \<Rightarrow> int \<Rightarrow> int \<Rightarrow> int \<Rightarrow> int" where
  "unix_seconds y m d hh mm ss = days_of_date y m d * 86400 + hh * 3600 + mm * 60 + ss"

text \<open>The month and the day of the month, from the day of the year and the month lengths.\<close>

fun month_day :: "int \<Rightarrow> int list \<Rightarrow> int \<Rightarrow> int \<times> int" where
  "month_day m [] d = (m, d + 1)"
| "month_day m (l # ls) d = (if d < l then (m, d + 1) else month_day (m + 1) ls (d - l))"

text \<open>\<open>absDate\<close>: year, month and day of a number of days since 1 January of year 1.\<close>

definition civil :: "int \<Rightarrow> int \<times> int \<times> int" where
  "civil days =
     (let n400 = days div 146097; d0 = days mod 146097;
          c = d0 div 36524; n100 = c - c div 4; d1 = d0 - 36524 * n100;
          n4 = d1 div 1461; d2 = d1 - 1461 * n4;
          q = d2 div 365; n1 = q - q div 4; yday = d2 - 365 * n1;
          y = 400 * n400 + 100 * n100 + 4 * n4 + n1 + 1;
          (m, d) = month_day 1 (month_lengths (is_leap y)) yday
      in (y, m, d))"

section \<open>Parsing\<close>

fun skip_char :: "char \<Rightarrow> string \<Rightarrow> string option" where
  "skip_char c [] = None"
| "skip_char c (d # s) = (if d = c then Some s else None)"

text \<open>Two digits, or one when \<open>fixed\<close> is false and the next byte is no digit.\<close>

fun getnum :: "string \<Rightarrow> bool \<Rightarrow> (int \<times> string) option" where
  "getnum [] fixed = None"
| "getnum [a] fixed = (if is_digit a \<and> \<not> fixed then Some (int (digit_val a), []) else None)"
| "getnum (a # b # s) fixed =
     (if \<not> is_digit a then None
      else if is_digit b then Some (int (10 * digit_val a + digit_val b), s)
      else if fixed then None
      else Some (int (digit_val a), b # s))"

definition get_year :: "string \<Rightarrow> (int \<times> string) option" where
  "get_year s = (if 4 \<le> length s \<and> list_all is_digit (take 4 s)
     then Some (int (digits_val (take 4 s)), drop 4 s) else None)"

text \<open>A fraction after the seconds: a dot and at least one digit.\<close>

definition digits_int :: "string \<Rightarrow> int" where
  "digits_int = foldl (\<lambda>n c. 10 * n + int (digit_val c)) 0"

definition get_fraction :: "string \<Rightarrow> (int \<times> string) option" where
  "get_fraction s =
     (case s of
        c # d # t \<Rightarrow>
          if c = CHR ''.'' \<and> is_digit d then
            (let ds = takeWhile is_digit (d # t); n = digits_int ds in
             if n < 10 ^ 9 then Some (n * 10 ^ (9 - length ds), dropWhile is_digit (d # t)) else None)
          else Some (0, s)
      | _ \<Rightarrow> Some (0, s))"

text \<open>The internal \<open>atoi\<close> of package time on a two-byte field: an optional sign, then digits.\<close>

definition zone_field :: "string \<Rightarrow> int option" where
  "zone_field s =
     (let (neg, ds) = (case s of c # t \<Rightarrow>
            if c = CHR ''-'' then (True, t) else if c = CHR ''+'' then (False, t) else (False, s)
          | [] \<Rightarrow> (False, s))
      in if list_all is_digit ds then Some (if neg then - int (digits_val ds) else int (digits_val ds)) else None)"

fun get_zone :: "string \<Rightarrow> (location \<times> string) option" where
  "get_zone (sg # h1 # h2 # col # m1 # m2 # rest) =
     (if sg = CHR ''Z'' then Some (UTC, h1 # h2 # col # m1 # m2 # rest)
      else if col \<noteq> CHR '':'' then None
      else (case (zone_field [h1, h2], zone_field [m1, m2]) of
          (Some hh, Some mm) \<Rightarrow>
            if sg = CHR ''+'' then Some (Offset ((hh * 60 + mm) * 60), rest)
            else if sg = CHR ''-'' then Some (Offset (- ((hh * 60 + mm) * 60)), rest)
            else None
        | _ \<Rightarrow> None))"
| "get_zone (sg # rest) = (if sg = CHR ''Z'' then Some (UTC, rest) else None)"
| "get_zone [] = None"

definition ParseRFC3339 :: "string \<Rightarrow> gotime option" where
  "ParseRFC3339 v0 = do {
     (year, v1) \<leftarrow> get_year v0;
     v2 \<leftarrow> skip_char (CHR ''-'') v1;
     (month, v3) \<leftarrow> getnum v2 True;
     v4 \<leftarrow> (if month \<le> 0 \<or> 12 < month then None else skip_char (CHR ''-'') v3);
     (day, v5) \<leftarrow> getnum v4 True;
     v6 \<leftarrow> skip_char (CHR ''T'') v5;
     (hour, v7) \<leftarrow> getnum v6 False;
     v8 \<leftarrow> (if 24 \<le> hour then None else skip_char (CHR '':'') v7);
     (minute, v9) \<leftarrow> getnum v8 True;
     v10 \<leftarrow> (if 60 \<le> minute then None else skip_char (CHR '':'') v9);
     (second, v11) \<leftarrow> getnum v10 True;
     (nsec, v12) \<leftarrow> (if 60 \<le> second then None else get_fraction v11);
     (zone, rest) \<leftarrow> get_zone v12;
     if rest \<noteq> [] \<or> day < 1 \<or> days_in month year < day then None
     else Some \<lparr>instant = (unix_seconds year month day hour minute second - zone_offset zone) * 10 ^ 9 + nsec,
                loc = zone\<rparr>
   }"

section \<open>Printing\<close>

definition pad_nat :: "nat \<Rightarrow> nat \<Rightarrow> string" where
  "pad_nat w n = (let s = nat_digits n in replicate (w - length s) (CHR ''0'') @ s)"

definition append_int :: "int \<Rightarrow> nat \<Rightarrow> string" where
  "append_int i w = (if i < 0 then CHR ''-'' # pad_nat w (nat (- i)) else pad_nat w (nat i))"

definition format_zone :: "int \<Rightarrow> string" where
  "format_zone off =
     (if off = 0 then ''Z''
      else let z = \<bar>off\<bar> div 60 in
        (if off \<le> - 60 then ''-'' else ''+'') @ append_int (z div 60) 2 @ '':'' @ append_int (z mod 60) 2)"

definition FormatRFC3339 :: "gotime \<Rightarrow> string" where
  "FormatRFC3339 t =
     (let secs = instant t div 10 ^ 9 + zone_offset (loc t);
          (y, m, d) = civil (secs div 86400 + unix_epoch_days);
          s = secs mod 86400
      in append_int y 4 @ ''-'' @ append_int m 2 @ ''-'' @ append_int d 2 @ ''T'' @
         append_int (s div 3600) 2 @ '':'' @ append_int (s mod 3600 div 60) 2 @ '':'' @ append_int (s mod 60) 2 @
         format_zone (zone_offset (loc t)))"

text \<open>The printed form drops the fraction of the second.\<close>

lemma FormatRFC3339_fraction:
  assumes "instant t div 10 ^ 9 = instant u div 10 ^ 9" and "zone_offset (loc t) = zone_offset (loc u)"
  shows "FormatRFC3339 t = FormatRFC3339 u"
  unfolding FormatRFC3339_def by (simp only: assms)

end
