(* ===== verification/ConditionScalar.thy ===== *)
theory ConditionScalar
  imports ConditionValue GoTime
begin

text \<open>
  The conditions with one value: \<open>boolfunc.go\<close>, \<open>nullfunc.go\<close>, \<open>ipaddressfunc.go\<close>, and the
  three files of numeric and the three files of date conditions of
  \<open>pkg/bucket/policy/condition\<close>.  An \<open>int\<close> of Go is an \<open>int\<close>; what enters it comes from
  \<open>Atoi\<close>, which keeps it in 64 bits.
\<close>

section \<open>boolfunc.go\<close>

datatype booleanFunc = BooleanFunc Key string

fun booleanFunc_evaluate :: "booleanFunc \<Rightarrow> req_values \<Rightarrow> bool" where
  "booleanFunc_evaluate (BooleanFunc k value) values =
     (case requestValue k values of
        [] \<Rightarrow> False
      | r # _ \<Rightarrow> value = r)"

fun booleanFunc_key :: "booleanFunc \<Rightarrow> Key" where
  "booleanFunc_key (BooleanFunc k value) = k"

definition booleanFunc_name :: "booleanFunc \<Rightarrow> cond_name" where
  "booleanFunc_name f = n_boolean"

fun booleanFunc_String :: "booleanFunc \<Rightarrow> string" where
  "booleanFunc_String (BooleanFunc k value) = n_boolean @ '':'' @ k @ '':'' @ value"

fun booleanFunc_toMap :: "booleanFunc \<Rightarrow> (Key \<times> ValueSet) option" where
  "booleanFunc_toMap (BooleanFunc k value) =
     (if \<not> Key_IsValid k then None else Some (k, NewValueSet [NewStringValue value]))"

definition newBooleanFunc :: "Key \<Rightarrow> ValueSet \<Rightarrow> cond_err + booleanFunc" where
  "newBooleanFunc key values =
     (if key \<noteq> AWSSecureTransport then Inl (KeyNotAllowed AWSSecureTransport n_boolean)
      else case ValueSet_range values of
        [v] \<Rightarrow>
          (case Value_GetType v of
             BoolKind \<Rightarrow> Inr (BooleanFunc key (Value_String v))
           | StringKind \<Rightarrow>
               (if ParseBool (fst (Value_GetString v)) = None then Inl (ValueNotBool n_boolean)
                else Inr (BooleanFunc key (Value_String v)))
           | _ \<Rightarrow> Inl (ValueNotBool n_boolean))
      | _ \<Rightarrow> Inl (OneValueOnly n_boolean))"

definition NewBoolFunc :: "Key \<Rightarrow> string \<Rightarrow> cond_err + booleanFunc" where
  "NewBoolFunc key value = Inr (BooleanFunc key value)"

section \<open>nullfunc.go\<close>

datatype nullFunc = NullFunc Key bool

fun nullFunc_evaluate :: "nullFunc \<Rightarrow> req_values \<Rightarrow> bool" where
  "nullFunc_evaluate (NullFunc k value) values =
     (if value then length (requestValue k values) = 0 else length (requestValue k values) \<noteq> 0)"

fun nullFunc_key :: "nullFunc \<Rightarrow> Key" where
  "nullFunc_key (NullFunc k value) = k"

definition nullFunc_name :: "nullFunc \<Rightarrow> cond_name" where
  "nullFunc_name f = n_null"

fun nullFunc_String :: "nullFunc \<Rightarrow> string" where
  "nullFunc_String (NullFunc k value) = n_null @ '':'' @ k @ '':'' @ FormatBool value"

fun nullFunc_toMap :: "nullFunc \<Rightarrow> (Key \<times> ValueSet) option" where
  "nullFunc_toMap (NullFunc k value) =
     (if \<not> Key_IsValid k then None else Some (k, NewValueSet [NewBoolValue value]))"

definition newNullFunc :: "Key \<Rightarrow> ValueSet \<Rightarrow> cond_err + nullFunc" where
  "newNullFunc key values =
     (case ValueSet_range values of
        [v] \<Rightarrow>
          (case Value_GetType v of
             BoolKind \<Rightarrow> Inr (NullFunc key (fst (Value_GetBool v)))
           | StringKind \<Rightarrow>
               (case ParseBool (fst (Value_GetString v)) of
                  None \<Rightarrow> Inl (ValueNotBool n_null)
                | Some value \<Rightarrow> Inr (NullFunc key value))
           | _ \<Rightarrow> Inl (ValueNotBool n_null))
      | _ \<Rightarrow> Inl (OneValueOnly n_null))"

definition NewNullFunc :: "Key \<Rightarrow> bool \<Rightarrow> cond_err + nullFunc" where
  "NewNullFunc key value = Inr (NullFunc key value)"

section \<open>ipaddressfunc.go\<close>

definition toIPAddressFuncString :: "cond_name \<Rightarrow> Key \<Rightarrow> ipnet list \<Rightarrow> string" where
  "toIPAddressFuncString n key values =
     n @ '':'' @ key @ '':'' @ sprint_slice (sort (map IPNet_String values))"

datatype ipAddressFunc = IPAddressFunc Key "ipnet list"

text \<open>The first loop parses every value of the request and panics on one that is no address.\<close>

fun parse_ips :: "string list \<Rightarrow> ip list go" where
  "parse_ips [] = Some []"
| "parse_ips (s # ss) =
     (case ParseIP s of None \<Rightarrow> None | Some ip \<Rightarrow> map_option (\<lambda>ips. ip # ips) (parse_ips ss))"

fun ipAddressFunc_evaluate :: "ipAddressFunc \<Rightarrow> req_values \<Rightarrow> bool go" where
  "ipAddressFunc_evaluate (IPAddressFunc k nets) values =
     map_option (\<lambda>IPs. list_ex (\<lambda>ip. list_ex (\<lambda>net. IPNet_Contains net ip) nets) IPs)
       (parse_ips (requestValue k values))"

fun ipAddressFunc_key :: "ipAddressFunc \<Rightarrow> Key" where
  "ipAddressFunc_key (IPAddressFunc k nets) = k"

definition ipAddressFunc_name :: "ipAddressFunc \<Rightarrow> cond_name" where
  "ipAddressFunc_name f = n_ipAddress"

fun ipAddressFunc_String :: "ipAddressFunc \<Rightarrow> string" where
  "ipAddressFunc_String (IPAddressFunc k nets) = toIPAddressFuncString n_ipAddress k nets"

fun ipAddressFunc_toMap :: "ipAddressFunc \<Rightarrow> (Key \<times> ValueSet) option" where
  "ipAddressFunc_toMap (IPAddressFunc k nets) =
     (if \<not> Key_IsValid k then None
      else Some (k, foldl ValueSet_Add (NewValueSet []) (map (\<lambda>net. NewStringValue (IPNet_String net)) nets)))"

datatype notIPAddressFunc = NotIPAddressFunc ipAddressFunc

fun notIPAddressFunc_evaluate :: "notIPAddressFunc \<Rightarrow> req_values \<Rightarrow> bool go" where
  "notIPAddressFunc_evaluate (NotIPAddressFunc f) values = go_not (ipAddressFunc_evaluate f values)"

definition notIPAddressFunc_name :: "notIPAddressFunc \<Rightarrow> cond_name" where
  "notIPAddressFunc_name f = n_notIPAddress"

fun notIPAddressFunc_String :: "notIPAddressFunc \<Rightarrow> string" where
  "notIPAddressFunc_String (NotIPAddressFunc (IPAddressFunc k nets)) = toIPAddressFuncString n_notIPAddress k nets"

fun ipnets_of_values :: "cond_name \<Rightarrow> Value list \<Rightarrow> cond_err + ipnet list" where
  "ipnets_of_values n [] = Inr []"
| "ipnets_of_values n (v # vs) =
     (case Value_GetString v of
        (s, Some e) \<Rightarrow> Inl (ValueNotString n)
      | (s, None) \<Rightarrow>
          (case ParseCIDR s of
             None \<Rightarrow> Inl (ValueNotCIDR n)
           | Some net \<Rightarrow> map_sum id (\<lambda>nets. net # nets) (ipnets_of_values n vs)))"

definition valuesToIPNets :: "cond_name \<Rightarrow> ValueSet \<Rightarrow> cond_err + ipnet list" where
  "valuesToIPNets n values = ipnets_of_values n (ValueSet_range values)"

definition NewIPAddressFunc :: "Key \<Rightarrow> ipnet list \<Rightarrow> cond_err + ipAddressFunc" where
  "NewIPAddressFunc key nets =
     (if key \<noteq> AWSSourceIP then Inl (KeyNotAllowed AWSSourceIP n_ipAddress) else Inr (IPAddressFunc key nets))"

definition newIPAddressFunc :: "Key \<Rightarrow> ValueSet \<Rightarrow> cond_err + ipAddressFunc" where
  "newIPAddressFunc key values =
     (case valuesToIPNets n_ipAddress values of Inl e \<Rightarrow> Inl e | Inr nets \<Rightarrow> NewIPAddressFunc key nets)"

definition NewNotIPAddressFunc :: "Key \<Rightarrow> ipnet list \<Rightarrow> cond_err + notIPAddressFunc" where
  "NewNotIPAddressFunc key nets =
     (if key \<noteq> AWSSourceIP then Inl (KeyNotAllowed AWSSourceIP n_notIPAddress)
      else Inr (NotIPAddressFunc (IPAddressFunc key nets)))"

definition newNotIPAddressFunc :: "Key \<Rightarrow> ValueSet \<Rightarrow> cond_err + notIPAddressFunc" where
  "newNotIPAddressFunc key values =
     (case valuesToIPNets n_notIPAddress values of Inl e \<Rightarrow> Inl e | Inr nets \<Rightarrow> NewNotIPAddressFunc key nets)"

section \<open>numericequalsfunc.go\<close>

definition toNumericEqualsFuncString :: "cond_name \<Rightarrow> Key \<Rightarrow> int \<Rightarrow> string" where
  "toNumericEqualsFuncString n key value = n @ '':'' @ key @ '':'' @ Itoa value"

datatype numericEqualsFunc = NumericEqualsFunc Key int

fun numericEqualsFunc_evaluate :: "numericEqualsFunc \<Rightarrow> req_values \<Rightarrow> bool" where
  "numericEqualsFunc_evaluate (NumericEqualsFunc k value) values =
     (case requestValue k values of
        [] \<Rightarrow> False
      | r # _ \<Rightarrow> (case Atoi r of None \<Rightarrow> False | Some x \<Rightarrow> value = x))"

fun numericEqualsFunc_key :: "numericEqualsFunc \<Rightarrow> Key" where
  "numericEqualsFunc_key (NumericEqualsFunc k value) = k"

definition numericEqualsFunc_name :: "numericEqualsFunc \<Rightarrow> cond_name" where
  "numericEqualsFunc_name f = n_numericEquals"

fun numericEqualsFunc_String :: "numericEqualsFunc \<Rightarrow> string" where
  "numericEqualsFunc_String (NumericEqualsFunc k value) = toNumericEqualsFuncString n_numericEquals k value"

fun numericEqualsFunc_toMap :: "numericEqualsFunc \<Rightarrow> (Key \<times> ValueSet) option" where
  "numericEqualsFunc_toMap (NumericEqualsFunc k value) =
     (if \<not> Key_IsValid k then None else Some (k, ValueSet_Add (NewValueSet []) (NewIntValue value)))"

datatype numericNotEqualsFunc = NumericNotEqualsFunc numericEqualsFunc

fun numericNotEqualsFunc_evaluate :: "numericNotEqualsFunc \<Rightarrow> req_values \<Rightarrow> bool" where
  "numericNotEqualsFunc_evaluate (NumericNotEqualsFunc f) values = (\<not> numericEqualsFunc_evaluate f values)"

definition numericNotEqualsFunc_name :: "numericNotEqualsFunc \<Rightarrow> cond_name" where
  "numericNotEqualsFunc_name f = n_numericNotEquals"

fun numericNotEqualsFunc_String :: "numericNotEqualsFunc \<Rightarrow> string" where
  "numericNotEqualsFunc_String (NumericNotEqualsFunc (NumericEqualsFunc k value)) = toNumericEqualsFuncString n_numericNotEquals k value"

definition valueToInt :: "cond_name \<Rightarrow> ValueSet \<Rightarrow> cond_err + int" where
  "valueToInt n values =
     (case ValueSet_range values of
        [vs] \<Rightarrow>
          (case Value_GetType vs of
             IntKind \<Rightarrow> Inr (fst (Value_GetInt vs))
           | StringKind \<Rightarrow>
               (case Atoi (fst (Value_GetString vs)) of None \<Rightarrow> Inl (ValueNotInt n) | Some v \<Rightarrow> Inr v)
           | _ \<Rightarrow> Inl (ValueNotInt n))
      | _ \<Rightarrow> Inl (OneValueOnly n))"

definition NewNumericEqualsFunc :: "Key \<Rightarrow> int \<Rightarrow> cond_err + numericEqualsFunc" where
  "NewNumericEqualsFunc key value = Inr (NumericEqualsFunc key value)"

definition newNumericEqualsFunc :: "Key \<Rightarrow> ValueSet \<Rightarrow> cond_err + numericEqualsFunc" where
  "newNumericEqualsFunc key values =
     (case valueToInt n_numericEquals values of Inl e \<Rightarrow> Inl e | Inr v \<Rightarrow> NewNumericEqualsFunc key v)"

definition NewNumericNotEqualsFunc :: "Key \<Rightarrow> int \<Rightarrow> cond_err + numericNotEqualsFunc" where
  "NewNumericNotEqualsFunc key value = Inr (NumericNotEqualsFunc (NumericEqualsFunc key value))"

definition newNumericNotEqualsFunc :: "Key \<Rightarrow> ValueSet \<Rightarrow> cond_err + numericNotEqualsFunc" where
  "newNumericNotEqualsFunc key values =
     (case valueToInt n_numericNotEquals values of Inl e \<Rightarrow> Inl e | Inr v \<Rightarrow> NewNumericNotEqualsFunc key v)"

section \<open>numericgreaterfunc.go\<close>

definition toNumericGreaterThanFuncString :: "cond_name \<Rightarrow> Key \<Rightarrow> int \<Rightarrow> string" where
  "toNumericGreaterThanFuncString n key value = n @ '':'' @ key @ '':'' @ Itoa value"

datatype numericGreaterThanFunc = NumericGreaterThanFunc Key int

fun numericGreaterThanFunc_evaluate :: "numericGreaterThanFunc \<Rightarrow> req_values \<Rightarrow> bool" where
  "numericGreaterThanFunc_evaluate (NumericGreaterThanFunc k value) values =
     (case requestValue k values of
        [] \<Rightarrow> False
      | r # _ \<Rightarrow> (case Atoi r of None \<Rightarrow> False | Some x \<Rightarrow> value < x))"

fun numericGreaterThanFunc_key :: "numericGreaterThanFunc \<Rightarrow> Key" where
  "numericGreaterThanFunc_key (NumericGreaterThanFunc k value) = k"

definition numericGreaterThanFunc_name :: "numericGreaterThanFunc \<Rightarrow> cond_name" where
  "numericGreaterThanFunc_name f = n_numericGreaterThan"

fun numericGreaterThanFunc_String :: "numericGreaterThanFunc \<Rightarrow> string" where
  "numericGreaterThanFunc_String (NumericGreaterThanFunc k value) = toNumericGreaterThanFuncString n_numericGreaterThan k value"

fun numericGreaterThanFunc_toMap :: "numericGreaterThanFunc \<Rightarrow> (Key \<times> ValueSet) option" where
  "numericGreaterThanFunc_toMap (NumericGreaterThanFunc k value) =
     (if \<not> Key_IsValid k then None else Some (k, ValueSet_Add (NewValueSet []) (NewIntValue value)))"

datatype numericGreaterThanEqualsFunc = NumericGreaterThanEqualsFunc numericGreaterThanFunc

fun numericGreaterThanEqualsFunc_evaluate :: "numericGreaterThanEqualsFunc \<Rightarrow> req_values \<Rightarrow> bool" where
  "numericGreaterThanEqualsFunc_evaluate (NumericGreaterThanEqualsFunc (NumericGreaterThanFunc k value)) values =
     (case requestValue k values of
        [] \<Rightarrow> False
      | r # _ \<Rightarrow> (case Atoi r of None \<Rightarrow> False | Some x \<Rightarrow> value \<le> x))"

definition numericGreaterThanEqualsFunc_name :: "numericGreaterThanEqualsFunc \<Rightarrow> cond_name" where
  "numericGreaterThanEqualsFunc_name f = n_numericGreaterThanEquals"

fun numericGreaterThanEqualsFunc_String :: "numericGreaterThanEqualsFunc \<Rightarrow> string" where
  "numericGreaterThanEqualsFunc_String (NumericGreaterThanEqualsFunc (NumericGreaterThanFunc k value)) = toNumericGreaterThanFuncString n_numericGreaterThanEquals k value"

definition NewNumericGreaterThanFunc :: "Key \<Rightarrow> int \<Rightarrow> cond_err + numericGreaterThanFunc" where
  "NewNumericGreaterThanFunc key value = Inr (NumericGreaterThanFunc key value)"

definition newNumericGreaterThanFunc :: "Key \<Rightarrow> ValueSet \<Rightarrow> cond_err + numericGreaterThanFunc" where
  "newNumericGreaterThanFunc key values =
     (case valueToInt n_numericGreaterThan values of Inl e \<Rightarrow> Inl e | Inr v \<Rightarrow> NewNumericGreaterThanFunc key v)"

definition NewNumericGreaterThanEqualsFunc :: "Key \<Rightarrow> int \<Rightarrow> cond_err + numericGreaterThanEqualsFunc" where
  "NewNumericGreaterThanEqualsFunc key value = Inr (NumericGreaterThanEqualsFunc (NumericGreaterThanFunc key value))"

definition newNumericGreaterThanEqualsFunc :: "Key \<Rightarrow> ValueSet \<Rightarrow> cond_err + numericGreaterThanEqualsFunc" where
  "newNumericGreaterThanEqualsFunc key values =
     (case valueToInt n_numericGreaterThanEquals values of Inl e \<Rightarrow> Inl e | Inr v \<Rightarrow> NewNumericGreaterThanEqualsFunc key v)"

section \<open>numericlessfunc.go\<close>

definition toNumericLessThanFuncString :: "cond_name \<Rightarrow> Key \<Rightarrow> int \<Rightarrow> string" where
  "toNumericLessThanFuncString n key value = n @ '':'' @ key @ '':'' @ Itoa value"

datatype numericLessThanFunc = NumericLessThanFunc Key int

fun numericLessThanFunc_evaluate :: "numericLessThanFunc \<Rightarrow> req_values \<Rightarrow> bool" where
  "numericLessThanFunc_evaluate (NumericLessThanFunc k value) values =
     (case requestValue k values of
        [] \<Rightarrow> False
      | r # _ \<Rightarrow> (case Atoi r of None \<Rightarrow> False | Some x \<Rightarrow> x < value))"

fun numericLessThanFunc_key :: "numericLessThanFunc \<Rightarrow> Key" where
  "numericLessThanFunc_key (NumericLessThanFunc k value) = k"

definition numericLessThanFunc_name :: "numericLessThanFunc \<Rightarrow> cond_name" where
  "numericLessThanFunc_name f = n_numericLessThan"

fun numericLessThanFunc_String :: "numericLessThanFunc \<Rightarrow> string" where
  "numericLessThanFunc_String (NumericLessThanFunc k value) = toNumericLessThanFuncString n_numericLessThan k value"

fun numericLessThanFunc_toMap :: "numericLessThanFunc \<Rightarrow> (Key \<times> ValueSet) option" where
  "numericLessThanFunc_toMap (NumericLessThanFunc k value) =
     (if \<not> Key_IsValid k then None else Some (k, ValueSet_Add (NewValueSet []) (NewIntValue value)))"

datatype numericLessThanEqualsFunc = NumericLessThanEqualsFunc numericLessThanFunc

fun numericLessThanEqualsFunc_evaluate :: "numericLessThanEqualsFunc \<Rightarrow> req_values \<Rightarrow> bool" where
  "numericLessThanEqualsFunc_evaluate (NumericLessThanEqualsFunc (NumericLessThanFunc k value)) values =
     (case requestValue k values of
        [] \<Rightarrow> False
      | r # _ \<Rightarrow> (case Atoi r of None \<Rightarrow> False | Some x \<Rightarrow> x \<le> value))"

definition numericLessThanEqualsFunc_name :: "numericLessThanEqualsFunc \<Rightarrow> cond_name" where
  "numericLessThanEqualsFunc_name f = n_numericLessThanEquals"

fun numericLessThanEqualsFunc_String :: "numericLessThanEqualsFunc \<Rightarrow> string" where
  "numericLessThanEqualsFunc_String (NumericLessThanEqualsFunc (NumericLessThanFunc k value)) = toNumericLessThanFuncString n_numericLessThanEquals k value"

definition NewNumericLessThanFunc :: "Key \<Rightarrow> int \<Rightarrow> cond_err + numericLessThanFunc" where
  "NewNumericLessThanFunc key value = Inr (NumericLessThanFunc key value)"

definition newNumericLessThanFunc :: "Key \<Rightarrow> ValueSet \<Rightarrow> cond_err + numericLessThanFunc" where
  "newNumericLessThanFunc key values =
     (case valueToInt n_numericLessThan values of Inl e \<Rightarrow> Inl e | Inr v \<Rightarrow> NewNumericLessThanFunc key v)"

definition NewNumericLessThanEqualsFunc :: "Key \<Rightarrow> int \<Rightarrow> cond_err + numericLessThanEqualsFunc" where
  "NewNumericLessThanEqualsFunc key value = Inr (NumericLessThanEqualsFunc (NumericLessThanFunc key value))"

definition newNumericLessThanEqualsFunc :: "Key \<Rightarrow> ValueSet \<Rightarrow> cond_err + numericLessThanEqualsFunc" where
  "newNumericLessThanEqualsFunc key values =
     (case valueToInt n_numericLessThanEquals values of Inl e \<Rightarrow> Inl e | Inr v \<Rightarrow> NewNumericLessThanEqualsFunc key v)"

section \<open>dateequalsfunc.go\<close>

definition toDateEqualsFuncString :: "cond_name \<Rightarrow> Key \<Rightarrow> gotime \<Rightarrow> string" where
  "toDateEqualsFuncString n key value = n @ '':'' @ key @ '':'' @ FormatRFC3339 value"

datatype dateEqualsFunc = DateEqualsFunc Key gotime

fun dateEqualsFunc_evaluate :: "dateEqualsFunc \<Rightarrow> req_values \<Rightarrow> bool" where
  "dateEqualsFunc_evaluate (DateEqualsFunc k value) values =
     (case requestValue k values of
        [] \<Rightarrow> False
      | r # _ \<Rightarrow> (case ParseRFC3339 r of None \<Rightarrow> False | Some x \<Rightarrow> time_Equal value x))"

fun dateEqualsFunc_key :: "dateEqualsFunc \<Rightarrow> Key" where
  "dateEqualsFunc_key (DateEqualsFunc k value) = k"

definition dateEqualsFunc_name :: "dateEqualsFunc \<Rightarrow> cond_name" where
  "dateEqualsFunc_name f = n_dateEquals"

fun dateEqualsFunc_String :: "dateEqualsFunc \<Rightarrow> string" where
  "dateEqualsFunc_String (DateEqualsFunc k value) = toDateEqualsFuncString n_dateEquals k value"

fun dateEqualsFunc_toMap :: "dateEqualsFunc \<Rightarrow> (Key \<times> ValueSet) option" where
  "dateEqualsFunc_toMap (DateEqualsFunc k value) =
     (if \<not> Key_IsValid k then None else Some (k, ValueSet_Add (NewValueSet []) (NewStringValue (FormatRFC3339 value))))"

datatype dateNotEqualsFunc = DateNotEqualsFunc dateEqualsFunc

fun dateNotEqualsFunc_evaluate :: "dateNotEqualsFunc \<Rightarrow> req_values \<Rightarrow> bool" where
  "dateNotEqualsFunc_evaluate (DateNotEqualsFunc f) values = (\<not> dateEqualsFunc_evaluate f values)"

definition dateNotEqualsFunc_name :: "dateNotEqualsFunc \<Rightarrow> cond_name" where
  "dateNotEqualsFunc_name f = n_dateNotEquals"

fun dateNotEqualsFunc_String :: "dateNotEqualsFunc \<Rightarrow> string" where
  "dateNotEqualsFunc_String (DateNotEqualsFunc (DateEqualsFunc k value)) = toDateEqualsFuncString n_dateNotEquals k value"

definition valueToTime :: "cond_name \<Rightarrow> ValueSet \<Rightarrow> cond_err + gotime" where
  "valueToTime n values =
     (case ValueSet_range values of
        [vs] \<Rightarrow>
          (case Value_GetType vs of
             StringKind \<Rightarrow>
               (case ParseRFC3339 (fst (Value_GetString vs)) of
                  None \<Rightarrow> Inl (ValueNotTime n) | Some v \<Rightarrow> Inr v)
           | _ \<Rightarrow> Inl (ValueNotTime n))
      | _ \<Rightarrow> Inl (OneValueOnly n))"

definition NewDateEqualsFunc :: "Key \<Rightarrow> gotime \<Rightarrow> cond_err + dateEqualsFunc" where
  "NewDateEqualsFunc key value = Inr (DateEqualsFunc key value)"

definition newDateEqualsFunc :: "Key \<Rightarrow> ValueSet \<Rightarrow> cond_err + dateEqualsFunc" where
  "newDateEqualsFunc key values =
     (case valueToTime n_dateEquals values of Inl e \<Rightarrow> Inl e | Inr v \<Rightarrow> NewDateEqualsFunc key v)"

definition NewDateNotEqualsFunc :: "Key \<Rightarrow> gotime \<Rightarrow> cond_err + dateNotEqualsFunc" where
  "NewDateNotEqualsFunc key value = Inr (DateNotEqualsFunc (DateEqualsFunc key value))"

definition newDateNotEqualsFunc :: "Key \<Rightarrow> ValueSet \<Rightarrow> cond_err + dateNotEqualsFunc" where
  "newDateNotEqualsFunc key values =
     (case valueToTime n_dateNotEquals values of Inl e \<Rightarrow> Inl e | Inr v \<Rightarrow> NewDateNotEqualsFunc key v)"

section \<open>dategreaterthanfunc.go\<close>

text \<open>The string of the second condition, and the name in its errors, is the one of
  \<open>dateNotEquals\<close>, as in the code; so it is in \<open>datelessthanfunc.go\<close>.\<close>

definition toDateGreaterThanFuncString :: "cond_name \<Rightarrow> Key \<Rightarrow> gotime \<Rightarrow> string" where
  "toDateGreaterThanFuncString n key value = n @ '':'' @ key @ '':'' @ FormatRFC3339 value"

datatype dateGreaterThanFunc = DateGreaterThanFunc Key gotime

fun dateGreaterThanFunc_evaluate :: "dateGreaterThanFunc \<Rightarrow> req_values \<Rightarrow> bool" where
  "dateGreaterThanFunc_evaluate (DateGreaterThanFunc k value) values =
     (case requestValue k values of
        [] \<Rightarrow> False
      | r # _ \<Rightarrow> (case ParseRFC3339 r of None \<Rightarrow> False | Some x \<Rightarrow> time_After x value))"

fun dateGreaterThanFunc_key :: "dateGreaterThanFunc \<Rightarrow> Key" where
  "dateGreaterThanFunc_key (DateGreaterThanFunc k value) = k"

definition dateGreaterThanFunc_name :: "dateGreaterThanFunc \<Rightarrow> cond_name" where
  "dateGreaterThanFunc_name f = n_dateGreaterThan"

fun dateGreaterThanFunc_String :: "dateGreaterThanFunc \<Rightarrow> string" where
  "dateGreaterThanFunc_String (DateGreaterThanFunc k value) = toDateGreaterThanFuncString n_dateGreaterThan k value"

fun dateGreaterThanFunc_toMap :: "dateGreaterThanFunc \<Rightarrow> (Key \<times> ValueSet) option" where
  "dateGreaterThanFunc_toMap (DateGreaterThanFunc k value) =
     (if \<not> Key_IsValid k then None else Some (k, ValueSet_Add (NewValueSet []) (NewStringValue (FormatRFC3339 value))))"

datatype dateGreaterThanEqualsFunc = DateGreaterThanEqualsFunc dateGreaterThanFunc

fun dateGreaterThanEqualsFunc_evaluate :: "dateGreaterThanEqualsFunc \<Rightarrow> req_values \<Rightarrow> bool" where
  "dateGreaterThanEqualsFunc_evaluate (DateGreaterThanEqualsFunc (DateGreaterThanFunc k value)) values =
     (case requestValue k values of
        [] \<Rightarrow> False
      | r # _ \<Rightarrow> (case ParseRFC3339 r of None \<Rightarrow> False | Some x \<Rightarrow> time_After x value \<or> time_Equal x value))"

definition dateGreaterThanEqualsFunc_name :: "dateGreaterThanEqualsFunc \<Rightarrow> cond_name" where
  "dateGreaterThanEqualsFunc_name f = n_dateGreaterThanEquals"

fun dateGreaterThanEqualsFunc_String :: "dateGreaterThanEqualsFunc \<Rightarrow> string" where
  "dateGreaterThanEqualsFunc_String (DateGreaterThanEqualsFunc (DateGreaterThanFunc k value)) = toDateGreaterThanFuncString n_dateNotEquals k value"

definition NewDateGreaterThanFunc :: "Key \<Rightarrow> gotime \<Rightarrow> cond_err + dateGreaterThanFunc" where
  "NewDateGreaterThanFunc key value = Inr (DateGreaterThanFunc key value)"

definition newDateGreaterThanFunc :: "Key \<Rightarrow> ValueSet \<Rightarrow> cond_err + dateGreaterThanFunc" where
  "newDateGreaterThanFunc key values =
     (case valueToTime n_dateGreaterThan values of Inl e \<Rightarrow> Inl e | Inr v \<Rightarrow> NewDateGreaterThanFunc key v)"

definition NewDateGreaterThanEqualsFunc :: "Key \<Rightarrow> gotime \<Rightarrow> cond_err + dateGreaterThanEqualsFunc" where
  "NewDateGreaterThanEqualsFunc key value = Inr (DateGreaterThanEqualsFunc (DateGreaterThanFunc key value))"

definition newDateGreaterThanEqualsFunc :: "Key \<Rightarrow> ValueSet \<Rightarrow> cond_err + dateGreaterThanEqualsFunc" where
  "newDateGreaterThanEqualsFunc key values =
     (case valueToTime n_dateNotEquals values of Inl e \<Rightarrow> Inl e | Inr v \<Rightarrow> NewDateGreaterThanEqualsFunc key v)"

section \<open>datelessthanfunc.go\<close>

definition toDateLessThanFuncString :: "cond_name \<Rightarrow> Key \<Rightarrow> gotime \<Rightarrow> string" where
  "toDateLessThanFuncString n key value = n @ '':'' @ key @ '':'' @ FormatRFC3339 value"

datatype dateLessThanFunc = DateLessThanFunc Key gotime

fun dateLessThanFunc_evaluate :: "dateLessThanFunc \<Rightarrow> req_values \<Rightarrow> bool" where
  "dateLessThanFunc_evaluate (DateLessThanFunc k value) values =
     (case requestValue k values of
        [] \<Rightarrow> False
      | r # _ \<Rightarrow> (case ParseRFC3339 r of None \<Rightarrow> False | Some x \<Rightarrow> time_Before x value))"

fun dateLessThanFunc_key :: "dateLessThanFunc \<Rightarrow> Key" where
  "dateLessThanFunc_key (DateLessThanFunc k value) = k"

definition dateLessThanFunc_name :: "dateLessThanFunc \<Rightarrow> cond_name" where
  "dateLessThanFunc_name f = n_dateLessThan"

fun dateLessThanFunc_String :: "dateLessThanFunc \<Rightarrow> string" where
  "dateLessThanFunc_String (DateLessThanFunc k value) = toDateLessThanFuncString n_dateLessThan k value"

fun dateLessThanFunc_toMap :: "dateLessThanFunc \<Rightarrow> (Key \<times> ValueSet) option" where
  "dateLessThanFunc_toMap (DateLessThanFunc k value) =
     (if \<not> Key_IsValid k then None else Some (k, ValueSet_Add (NewValueSet []) (NewStringValue (FormatRFC3339 value))))"

datatype dateLessThanEqualsFunc = DateLessThanEqualsFunc dateLessThanFunc

fun dateLessThanEqualsFunc_evaluate :: "dateLessThanEqualsFunc \<Rightarrow> req_values \<Rightarrow> bool" where
  "dateLessThanEqualsFunc_evaluate (DateLessThanEqualsFunc (DateLessThanFunc k value)) values =
     (case requestValue k values of
        [] \<Rightarrow> False
      | r # _ \<Rightarrow> (case ParseRFC3339 r of None \<Rightarrow> False | Some x \<Rightarrow> time_Before x value \<or> time_Equal x value))"

definition dateLessThanEqualsFunc_name :: "dateLessThanEqualsFunc \<Rightarrow> cond_name" where
  "dateLessThanEqualsFunc_name f = n_dateLessThanEquals"

fun dateLessThanEqualsFunc_String :: "dateLessThanEqualsFunc \<Rightarrow> string" where
  "dateLessThanEqualsFunc_String (DateLessThanEqualsFunc (DateLessThanFunc k value)) = toDateLessThanFuncString n_dateNotEquals k value"

definition NewDateLessThanFunc :: "Key \<Rightarrow> gotime \<Rightarrow> cond_err + dateLessThanFunc" where
  "NewDateLessThanFunc key value = Inr (DateLessThanFunc key value)"

definition newDateLessThanFunc :: "Key \<Rightarrow> ValueSet \<Rightarrow> cond_err + dateLessThanFunc" where
  "newDateLessThanFunc key values =
     (case valueToTime n_dateLessThan values of Inl e \<Rightarrow> Inl e | Inr v \<Rightarrow> NewDateLessThanFunc key v)"

definition NewDateLessThanEqualsFunc :: "Key \<Rightarrow> gotime \<Rightarrow> cond_err + dateLessThanEqualsFunc" where
  "NewDateLessThanEqualsFunc key value = Inr (DateLessThanEqualsFunc (DateLessThanFunc key value))"

definition newDateLessThanEqualsFunc :: "Key \<Rightarrow> ValueSet \<Rightarrow> cond_err + dateLessThanEqualsFunc" where
  "newDateLessThanEqualsFunc key values =
     (case valueToTime n_dateNotEquals values of Inl e \<Rightarrow> Inl e | Inr v \<Rightarrow> NewDateLessThanEqualsFunc key v)"

end
