(* ===== verification/Condition.thy ===== *)
theory Condition
  imports ConditionString ConditionScalar
begin

text \<open>
  \<open>func.go\<close> of \<open>pkg/bucket/policy/condition\<close>: the interface \<open>Function\<close> over the 23 condition
  types, and the lists \<open>Functions\<close> of them.  A value of the interface is one of the structs, so
  \<open>Function\<close> is their sum and a method of the interface calls the method of the struct.  A struct
  that embeds another one takes \<open>key\<close> and \<open>toMap\<close> from it.
\<close>

section \<open>The interface\<close>

datatype Function =
    F_stringEquals stringEqualsFunc
  | F_stringNotEquals stringNotEqualsFunc
  | F_stringEqualsIgnoreCase stringEqualsIgnoreCaseFunc
  | F_stringNotEqualsIgnoreCase stringNotEqualsIgnoreCaseFunc
  | F_binaryEquals binaryEqualsFunc
  | F_stringLike stringLikeFunc
  | F_stringNotLike stringNotLikeFunc
  | F_ipAddress ipAddressFunc
  | F_notIPAddress notIPAddressFunc
  | F_null nullFunc
  | F_boolean booleanFunc
  | F_numericEquals numericEqualsFunc
  | F_numericNotEquals numericNotEqualsFunc
  | F_numericLessThan numericLessThanFunc
  | F_numericLessThanEquals numericLessThanEqualsFunc
  | F_numericGreaterThan numericGreaterThanFunc
  | F_numericGreaterThanEquals numericGreaterThanEqualsFunc
  | F_dateEquals dateEqualsFunc
  | F_dateNotEquals dateNotEqualsFunc
  | F_dateLessThan dateLessThanFunc
  | F_dateLessThanEquals dateLessThanEqualsFunc
  | F_dateGreaterThan dateGreaterThanFunc
  | F_dateGreaterThanEquals dateGreaterThanEqualsFunc

fun Function_evaluate :: "(nat \<Rightarrow> nat) \<Rightarrow> Function \<Rightarrow> req_values \<Rightarrow> bool go" where
  "Function_evaluate uf (F_stringEquals f) values = stringEqualsFunc_evaluate f values"
| "Function_evaluate uf (F_stringNotEquals f) values = stringNotEqualsFunc_evaluate f values"
| "Function_evaluate uf (F_stringEqualsIgnoreCase f) values = stringEqualsIgnoreCaseFunc_evaluate uf f values"
| "Function_evaluate uf (F_stringNotEqualsIgnoreCase f) values = stringNotEqualsIgnoreCaseFunc_evaluate uf f values"
| "Function_evaluate uf (F_binaryEquals f) values = binaryEqualsFunc_evaluate f values"
| "Function_evaluate uf (F_stringLike f) values = stringLikeFunc_evaluate f values"
| "Function_evaluate uf (F_stringNotLike f) values = stringNotLikeFunc_evaluate f values"
| "Function_evaluate uf (F_ipAddress f) values = ipAddressFunc_evaluate f values"
| "Function_evaluate uf (F_notIPAddress f) values = notIPAddressFunc_evaluate f values"
| "Function_evaluate uf (F_null f) values = Some (nullFunc_evaluate f values)"
| "Function_evaluate uf (F_boolean f) values = Some (booleanFunc_evaluate f values)"
| "Function_evaluate uf (F_numericEquals f) values = Some (numericEqualsFunc_evaluate f values)"
| "Function_evaluate uf (F_numericNotEquals f) values = Some (numericNotEqualsFunc_evaluate f values)"
| "Function_evaluate uf (F_numericLessThan f) values = Some (numericLessThanFunc_evaluate f values)"
| "Function_evaluate uf (F_numericLessThanEquals f) values = Some (numericLessThanEqualsFunc_evaluate f values)"
| "Function_evaluate uf (F_numericGreaterThan f) values = Some (numericGreaterThanFunc_evaluate f values)"
| "Function_evaluate uf (F_numericGreaterThanEquals f) values = Some (numericGreaterThanEqualsFunc_evaluate f values)"
| "Function_evaluate uf (F_dateEquals f) values = Some (dateEqualsFunc_evaluate f values)"
| "Function_evaluate uf (F_dateNotEquals f) values = Some (dateNotEqualsFunc_evaluate f values)"
| "Function_evaluate uf (F_dateLessThan f) values = Some (dateLessThanFunc_evaluate f values)"
| "Function_evaluate uf (F_dateLessThanEquals f) values = Some (dateLessThanEqualsFunc_evaluate f values)"
| "Function_evaluate uf (F_dateGreaterThan f) values = Some (dateGreaterThanFunc_evaluate f values)"
| "Function_evaluate uf (F_dateGreaterThanEquals f) values = Some (dateGreaterThanEqualsFunc_evaluate f values)"

fun Function_key :: "Function \<Rightarrow> Key" where
  "Function_key (F_stringEquals f) = stringEqualsFunc_key f"
| "Function_key (F_stringNotEquals (StringNotEqualsFunc f)) = stringEqualsFunc_key f"
| "Function_key (F_stringEqualsIgnoreCase f) = stringEqualsIgnoreCaseFunc_key f"
| "Function_key (F_stringNotEqualsIgnoreCase (StringNotEqualsIgnoreCaseFunc f)) = stringEqualsIgnoreCaseFunc_key f"
| "Function_key (F_binaryEquals f) = binaryEqualsFunc_key f"
| "Function_key (F_stringLike f) = stringLikeFunc_key f"
| "Function_key (F_stringNotLike (StringNotLikeFunc f)) = stringLikeFunc_key f"
| "Function_key (F_ipAddress f) = ipAddressFunc_key f"
| "Function_key (F_notIPAddress (NotIPAddressFunc f)) = ipAddressFunc_key f"
| "Function_key (F_null f) = nullFunc_key f"
| "Function_key (F_boolean f) = booleanFunc_key f"
| "Function_key (F_numericEquals f) = numericEqualsFunc_key f"
| "Function_key (F_numericNotEquals (NumericNotEqualsFunc f)) = numericEqualsFunc_key f"
| "Function_key (F_numericLessThan f) = numericLessThanFunc_key f"
| "Function_key (F_numericLessThanEquals (NumericLessThanEqualsFunc f)) = numericLessThanFunc_key f"
| "Function_key (F_numericGreaterThan f) = numericGreaterThanFunc_key f"
| "Function_key (F_numericGreaterThanEquals (NumericGreaterThanEqualsFunc f)) = numericGreaterThanFunc_key f"
| "Function_key (F_dateEquals f) = dateEqualsFunc_key f"
| "Function_key (F_dateNotEquals (DateNotEqualsFunc f)) = dateEqualsFunc_key f"
| "Function_key (F_dateLessThan f) = dateLessThanFunc_key f"
| "Function_key (F_dateLessThanEquals (DateLessThanEqualsFunc f)) = dateLessThanFunc_key f"
| "Function_key (F_dateGreaterThan f) = dateGreaterThanFunc_key f"
| "Function_key (F_dateGreaterThanEquals (DateGreaterThanEqualsFunc f)) = dateGreaterThanFunc_key f"

fun Function_name :: "Function \<Rightarrow> cond_name" where
  "Function_name (F_stringEquals f) = stringEqualsFunc_name f"
| "Function_name (F_stringNotEquals f) = stringNotEqualsFunc_name f"
| "Function_name (F_stringEqualsIgnoreCase f) = stringEqualsIgnoreCaseFunc_name f"
| "Function_name (F_stringNotEqualsIgnoreCase f) = stringNotEqualsIgnoreCaseFunc_name f"
| "Function_name (F_binaryEquals f) = binaryEqualsFunc_name f"
| "Function_name (F_stringLike f) = stringLikeFunc_name f"
| "Function_name (F_stringNotLike f) = stringNotLikeFunc_name f"
| "Function_name (F_ipAddress f) = ipAddressFunc_name f"
| "Function_name (F_notIPAddress f) = notIPAddressFunc_name f"
| "Function_name (F_null f) = nullFunc_name f"
| "Function_name (F_boolean f) = booleanFunc_name f"
| "Function_name (F_numericEquals f) = numericEqualsFunc_name f"
| "Function_name (F_numericNotEquals f) = numericNotEqualsFunc_name f"
| "Function_name (F_numericLessThan f) = numericLessThanFunc_name f"
| "Function_name (F_numericLessThanEquals f) = numericLessThanEqualsFunc_name f"
| "Function_name (F_numericGreaterThan f) = numericGreaterThanFunc_name f"
| "Function_name (F_numericGreaterThanEquals f) = numericGreaterThanEqualsFunc_name f"
| "Function_name (F_dateEquals f) = dateEqualsFunc_name f"
| "Function_name (F_dateNotEquals f) = dateNotEqualsFunc_name f"
| "Function_name (F_dateLessThan f) = dateLessThanFunc_name f"
| "Function_name (F_dateLessThanEquals f) = dateLessThanEqualsFunc_name f"
| "Function_name (F_dateGreaterThan f) = dateGreaterThanFunc_name f"
| "Function_name (F_dateGreaterThanEquals f) = dateGreaterThanEqualsFunc_name f"

fun Function_String :: "Function \<Rightarrow> string" where
  "Function_String (F_stringEquals f) = stringEqualsFunc_String f"
| "Function_String (F_stringNotEquals f) = stringNotEqualsFunc_String f"
| "Function_String (F_stringEqualsIgnoreCase f) = stringEqualsIgnoreCaseFunc_String f"
| "Function_String (F_stringNotEqualsIgnoreCase f) = stringNotEqualsIgnoreCaseFunc_String f"
| "Function_String (F_binaryEquals f) = binaryEqualsFunc_String f"
| "Function_String (F_stringLike f) = stringLikeFunc_String f"
| "Function_String (F_stringNotLike f) = stringNotLikeFunc_String f"
| "Function_String (F_ipAddress f) = ipAddressFunc_String f"
| "Function_String (F_notIPAddress f) = notIPAddressFunc_String f"
| "Function_String (F_null f) = nullFunc_String f"
| "Function_String (F_boolean f) = booleanFunc_String f"
| "Function_String (F_numericEquals f) = numericEqualsFunc_String f"
| "Function_String (F_numericNotEquals f) = numericNotEqualsFunc_String f"
| "Function_String (F_numericLessThan f) = numericLessThanFunc_String f"
| "Function_String (F_numericLessThanEquals f) = numericLessThanEqualsFunc_String f"
| "Function_String (F_numericGreaterThan f) = numericGreaterThanFunc_String f"
| "Function_String (F_numericGreaterThanEquals f) = numericGreaterThanEqualsFunc_String f"
| "Function_String (F_dateEquals f) = dateEqualsFunc_String f"
| "Function_String (F_dateNotEquals f) = dateNotEqualsFunc_String f"
| "Function_String (F_dateLessThan f) = dateLessThanFunc_String f"
| "Function_String (F_dateLessThanEquals f) = dateLessThanEqualsFunc_String f"
| "Function_String (F_dateGreaterThan f) = dateGreaterThanFunc_String f"
| "Function_String (F_dateGreaterThanEquals f) = dateGreaterThanEqualsFunc_String f"

fun Function_toMap :: "Function \<Rightarrow> (Key \<times> ValueSet) option" where
  "Function_toMap (F_stringEquals f) = stringEqualsFunc_toMap f"
| "Function_toMap (F_stringNotEquals (StringNotEqualsFunc f)) = stringEqualsFunc_toMap f"
| "Function_toMap (F_stringEqualsIgnoreCase f) = stringEqualsIgnoreCaseFunc_toMap f"
| "Function_toMap (F_stringNotEqualsIgnoreCase (StringNotEqualsIgnoreCaseFunc f)) = stringEqualsIgnoreCaseFunc_toMap f"
| "Function_toMap (F_binaryEquals f) = binaryEqualsFunc_toMap f"
| "Function_toMap (F_stringLike f) = stringLikeFunc_toMap f"
| "Function_toMap (F_stringNotLike (StringNotLikeFunc f)) = stringLikeFunc_toMap f"
| "Function_toMap (F_ipAddress f) = ipAddressFunc_toMap f"
| "Function_toMap (F_notIPAddress (NotIPAddressFunc f)) = ipAddressFunc_toMap f"
| "Function_toMap (F_null f) = nullFunc_toMap f"
| "Function_toMap (F_boolean f) = booleanFunc_toMap f"
| "Function_toMap (F_numericEquals f) = numericEqualsFunc_toMap f"
| "Function_toMap (F_numericNotEquals (NumericNotEqualsFunc f)) = numericEqualsFunc_toMap f"
| "Function_toMap (F_numericLessThan f) = numericLessThanFunc_toMap f"
| "Function_toMap (F_numericLessThanEquals (NumericLessThanEqualsFunc f)) = numericLessThanFunc_toMap f"
| "Function_toMap (F_numericGreaterThan f) = numericGreaterThanFunc_toMap f"
| "Function_toMap (F_numericGreaterThanEquals (NumericGreaterThanEqualsFunc f)) = numericGreaterThanFunc_toMap f"
| "Function_toMap (F_dateEquals f) = dateEqualsFunc_toMap f"
| "Function_toMap (F_dateNotEquals (DateNotEqualsFunc f)) = dateEqualsFunc_toMap f"
| "Function_toMap (F_dateLessThan f) = dateLessThanFunc_toMap f"
| "Function_toMap (F_dateLessThanEquals (DateLessThanEqualsFunc f)) = dateLessThanFunc_toMap f"
| "Function_toMap (F_dateGreaterThan f) = dateGreaterThanFunc_toMap f"
| "Function_toMap (F_dateGreaterThanEquals (DateGreaterThanEqualsFunc f)) = dateGreaterThanFunc_toMap f"

lemmas Function_name_defs = stringEqualsFunc_name_def
  stringNotEqualsFunc_name_def
  stringEqualsIgnoreCaseFunc_name_def
  stringNotEqualsIgnoreCaseFunc_name_def
  binaryEqualsFunc_name_def
  stringLikeFunc_name_def
  stringNotLikeFunc_name_def
  ipAddressFunc_name_def
  notIPAddressFunc_name_def
  nullFunc_name_def
  booleanFunc_name_def
  numericEqualsFunc_name_def
  numericNotEqualsFunc_name_def
  numericLessThanFunc_name_def
  numericLessThanEqualsFunc_name_def
  numericGreaterThanFunc_name_def
  numericGreaterThanEqualsFunc_name_def
  dateEqualsFunc_name_def
  dateNotEqualsFunc_name_def
  dateLessThanFunc_name_def
  dateLessThanEqualsFunc_name_def
  dateGreaterThanFunc_name_def
  dateGreaterThanEqualsFunc_name_def

section \<open>Functions\<close>

type_synonym Functions = "Function list"

text \<open>The loop ends at the first condition that does not hold.\<close>

definition Functions_Evaluate :: "(nat \<Rightarrow> nat) \<Rightarrow> Functions \<Rightarrow> req_values \<Rightarrow> bool go" where
  "Functions_Evaluate uf functions values = go_all (\<lambda>f. Function_evaluate uf f values) functions"

definition Functions_Keys :: "Functions \<Rightarrow> KeySet" where
  "Functions_Keys functions = foldl (\<lambda>keySet f. KeySet_Add keySet (Function_key f)) (NewKeySet []) functions"

definition Functions_String :: "Functions \<Rightarrow> string" where
  "Functions_String functions = sprint_slice (sort (map Function_String functions))"

definition NewFunctions :: "Function list \<Rightarrow> Functions" where
  "NewFunctions functions = functions"

text \<open>
  \<open>MarshalJSON\<close> builds a map from names to maps from keys to value sets.  A nil inner map is
  \<open>None\<close>: it can be replaced by \<open>toMap\<close> but not assigned to, which panics.  A later condition
  with the same name and key replaces the earlier one.
\<close>

type_synonym cond_map = "(string, (string, ValueSet) fmap option) fmap"

definition marshal_step :: "cond_map \<Rightarrow> Function \<Rightarrow> cond_map go" where
  "marshal_step nm f =
     (case fmlookup nm (Function_name f) of
        Some inner \<Rightarrow>
          (case Function_toMap f of
             None \<Rightarrow> Some nm
           | Some (k, v) \<Rightarrow>
               (case inner of
                  None \<Rightarrow> None
                | Some m \<Rightarrow> Some (fmupd (Function_name f) (Some (fmupd k v m)) nm)))
      | None \<Rightarrow>
          Some (fmupd (Function_name f) (map_option (\<lambda>(k, v). fmupd k v fmempty) (Function_toMap f)) nm))"

fun marshal_loop :: "cond_map \<Rightarrow> Function list \<Rightarrow> cond_map go" where
  "marshal_loop nm [] = Some nm"
| "marshal_loop nm (f # fs) = (case marshal_step nm f of None \<Rightarrow> None | Some nm' \<Rightarrow> marshal_loop nm' fs)"

fun marshal_fields :: "('a \<Rightarrow> cond_err + json) \<Rightarrow> (string \<times> 'a) list \<Rightarrow> cond_err + (string \<times> json) list" where
  "marshal_fields f [] = Inr []"
| "marshal_fields f ((k, x) # xs) =
     (case f x of
        Inl e \<Rightarrow> Inl e
      | Inr j \<Rightarrow> map_sum id (\<lambda>js. (ToValidUTF8 k, j) # js) (marshal_fields f xs))"

definition marshal_inner :: "(string, ValueSet) fmap option \<Rightarrow> cond_err + json" where
  "marshal_inner inner =
     (case inner of
        None \<Rightarrow> Inr JNull
      | Some m \<Rightarrow> map_sum id JObj (marshal_fields ValueSet_MarshalJSON (sorted_items m)))"

definition Functions_MarshalJSON :: "Functions \<Rightarrow> (cond_err + json) go" where
  "Functions_MarshalJSON functions =
     map_option (\<lambda>nm. map_sum id JObj (marshal_fields marshal_inner (sorted_items nm)))
       (marshal_loop fmempty functions)"

definition conditionFuncMap :: "cond_name \<Rightarrow> (Key \<Rightarrow> ValueSet \<Rightarrow> cond_err + Function) option" where
  "conditionFuncMap n =
     map_of
       [(n_stringEquals, \<lambda>k vs. map_sum id F_stringEquals (newStringEqualsFunc k vs)),
        (n_stringNotEquals, \<lambda>k vs. map_sum id F_stringNotEquals (newStringNotEqualsFunc k vs)),
        (n_stringEqualsIgnoreCase, \<lambda>k vs. map_sum id F_stringEqualsIgnoreCase (newStringEqualsIgnoreCaseFunc k vs)),
        (n_stringNotEqualsIgnoreCase, \<lambda>k vs. map_sum id F_stringNotEqualsIgnoreCase (newStringNotEqualsIgnoreCaseFunc k vs)),
        (n_binaryEquals, \<lambda>k vs. map_sum id F_binaryEquals (newBinaryEqualsFunc k vs)),
        (n_stringLike, \<lambda>k vs. map_sum id F_stringLike (newStringLikeFunc k vs)),
        (n_stringNotLike, \<lambda>k vs. map_sum id F_stringNotLike (newStringNotLikeFunc k vs)),
        (n_ipAddress, \<lambda>k vs. map_sum id F_ipAddress (newIPAddressFunc k vs)),
        (n_notIPAddress, \<lambda>k vs. map_sum id F_notIPAddress (newNotIPAddressFunc k vs)),
        (n_null, \<lambda>k vs. map_sum id F_null (newNullFunc k vs)),
        (n_boolean, \<lambda>k vs. map_sum id F_boolean (newBooleanFunc k vs)),
        (n_numericEquals, \<lambda>k vs. map_sum id F_numericEquals (newNumericEqualsFunc k vs)),
        (n_numericNotEquals, \<lambda>k vs. map_sum id F_numericNotEquals (newNumericNotEqualsFunc k vs)),
        (n_numericLessThan, \<lambda>k vs. map_sum id F_numericLessThan (newNumericLessThanFunc k vs)),
        (n_numericLessThanEquals, \<lambda>k vs. map_sum id F_numericLessThanEquals (newNumericLessThanEqualsFunc k vs)),
        (n_numericGreaterThan, \<lambda>k vs. map_sum id F_numericGreaterThan (newNumericGreaterThanFunc k vs)),
        (n_numericGreaterThanEquals, \<lambda>k vs. map_sum id F_numericGreaterThanEquals (newNumericGreaterThanEqualsFunc k vs)),
        (n_dateEquals, \<lambda>k vs. map_sum id F_dateEquals (newDateEqualsFunc k vs)),
        (n_dateNotEquals, \<lambda>k vs. map_sum id F_dateNotEquals (newDateNotEqualsFunc k vs)),
        (n_dateLessThan, \<lambda>k vs. map_sum id F_dateLessThan (newDateLessThanFunc k vs)),
        (n_dateLessThanEquals, \<lambda>k vs. map_sum id F_dateLessThanEquals (newDateLessThanEqualsFunc k vs)),
        (n_dateGreaterThan, \<lambda>k vs. map_sum id F_dateGreaterThan (newDateGreaterThanFunc k vs)),
        (n_dateGreaterThanEquals, \<lambda>k vs. map_sum id F_dateGreaterThanEquals (newDateGreaterThanEqualsFunc k vs))] n"

fun unmarshal_args :: "cond_name \<Rightarrow> (string \<times> ValueSet) list \<Rightarrow> cond_err + Function list" where
  "unmarshal_args n [] = Inr []"
| "unmarshal_args n ((keyString, values) # args) =
     (case parseKey keyString of
        Inl e \<Rightarrow> Inl e
      | Inr key \<Rightarrow>
          (case conditionFuncMap n of
             None \<Rightarrow> Inl (NotHandled n)
           | Some vfn \<Rightarrow>
               (case vfn key values of
                  Inl e \<Rightarrow> Inl e
                | Inr f \<Rightarrow> map_sum id (\<lambda>fs. f # fs) (unmarshal_args n args))))"

fun unmarshal_names :: "(string \<times> (string, ValueSet) fmap) list \<Rightarrow> cond_err + Function list" where
  "unmarshal_names [] = Inr []"
| "unmarshal_names ((nameString, args) # nm) =
     (case parseName nameString of
        Inl e \<Rightarrow> Inl e
      | Inr n \<Rightarrow>
          (case unmarshal_args n (sorted_items args) of
             Inl e \<Rightarrow> Inl e
           | Inr fs \<Rightarrow> map_sum id (\<lambda>gs. fs @ gs) (unmarshal_names nm)))"

definition decode_ValueSet :: "json \<Rightarrow> ValueSet option" where
  "decode_ValueSet j = (case ValueSet_UnmarshalJSON j of Inl _ \<Rightarrow> None | Inr vs \<Rightarrow> Some vs)"

definition Functions_UnmarshalJSON :: "json \<Rightarrow> cond_err + Functions" where
  "Functions_UnmarshalJSON data =
     (case decode_map (decode_map decode_ValueSet) data of
        None \<Rightarrow> Inl JsonErr
      | Some nm \<Rightarrow>
          if nm = fmempty then Inl EmptyCondition
          else unmarshal_names (sorted_items nm))"

definition Functions_GobEncode :: "Functions \<Rightarrow> (cond_err + json) go" where
  "Functions_GobEncode functions = Functions_MarshalJSON functions"

definition Functions_GobDecode :: "json \<Rightarrow> cond_err + Functions" where
  "Functions_GobDecode data = Functions_UnmarshalJSON data"

section \<open>Evaluation does not panic\<close>

text \<open>
  What a request must offer for the evaluation of a condition not to panic: no common key with
  an empty list, and only addresses under the source address key.  A condition on addresses is
  well formed when its key is that key; every constructor of the package sees to it.
\<close>

definition request_ok :: "req_values \<Rightarrow> bool" where
  "request_ok values \<longleftrightarrow>
     common_values_ok values \<and> list_all (\<lambda>s. ParseIP s \<noteq> None) (requestValue AWSSourceIP values)"

fun Function_wf :: "Function \<Rightarrow> bool" where
  "Function_wf (F_ipAddress f) = (ipAddressFunc_key f = AWSSourceIP)"
| "Function_wf (F_notIPAddress (NotIPAddressFunc f)) = (ipAddressFunc_key f = AWSSourceIP)"
| "Function_wf _ = True"

lemma parse_ips_None: "parse_ips ss = None \<longleftrightarrow> (\<exists>s \<in> set ss. ParseIP s = None)"
  by (induction ss) (auto split: option.splits)

lemma ApplyFunc_total: "common_values_ok values \<Longrightarrow> StringSet_ApplyFunc_go vs (substFuncFromValues values) \<noteq> None"
  by (simp add: ApplyFunc_go_None)

lemma stringEquals_total: "common_values_ok values \<Longrightarrow> stringEqualsFunc_evaluate f values \<noteq> None"
  by (cases f) (simp add: ApplyFunc_total)

lemma stringEqualsIgnoreCase_total:
  "common_values_ok values \<Longrightarrow> stringEqualsIgnoreCaseFunc_evaluate uf f values \<noteq> None"
  by (cases f) (simp add: ApplyFunc_total)

lemma stringLike_total: "common_values_ok values \<Longrightarrow> stringLikeFunc_evaluate f values \<noteq> None"
  by (cases f) (simp add: ApplyFunc_total)

lemma binaryEquals_total: "common_values_ok values \<Longrightarrow> binaryEqualsFunc_evaluate f values \<noteq> None"
  by (cases f) (simp add: ApplyFunc_total)

lemma ipAddress_total:
  "request_ok values \<Longrightarrow> ipAddressFunc_key f = AWSSourceIP \<Longrightarrow> ipAddressFunc_evaluate f values \<noteq> None"
  by (cases f) (auto simp: request_ok_def parse_ips_None list_all_iff)

lemma request_okD: "request_ok values \<Longrightarrow> common_values_ok values"
  by (simp add: request_ok_def)

lemma Function_evaluate_total:
  assumes "request_ok values" and "Function_wf f"
  shows "Function_evaluate uf f values \<noteq> None"
proof (cases f)
  case (F_stringNotEquals g)
  with assms show ?thesis by (cases g) (simp add: stringEquals_total [OF request_okD, simplified])
next
  case (F_stringNotEqualsIgnoreCase g)
  with assms show ?thesis by (cases g) (simp add: stringEqualsIgnoreCase_total [OF request_okD, simplified])
next
  case (F_stringNotLike g)
  with assms show ?thesis by (cases g) (simp add: stringLike_total [OF request_okD, simplified])
next
  case (F_notIPAddress g)
  with assms show ?thesis by (cases g) (simp add: ipAddress_total [simplified])
qed (use assms in \<open>simp_all add: stringEquals_total [simplified] stringEqualsIgnoreCase_total [simplified]
       stringLike_total [simplified] binaryEquals_total [simplified] ipAddress_total [simplified] request_okD\<close>)

lemma Functions_Evaluate_total:
  assumes "request_ok values" and "list_all Function_wf fs"
  shows "Functions_Evaluate uf fs values = Some (\<forall>f \<in> set fs. Function_evaluate uf f values = Some True)"
  unfolding Functions_Evaluate_def using assms Function_evaluate_total
  by (intro go_all_total) (simp add: list_all_iff)

lemma Functions_Evaluate_True:
  "Functions_Evaluate uf fs values = Some True \<longleftrightarrow> (\<forall>f \<in> set fs. Function_evaluate uf f values = Some True)"
  by (simp add: Functions_Evaluate_def go_all_Some_True)

section \<open>Conditions that come from a document are well formed\<close>

lemma map_sum_Inr: "map_sum id f r = Inr y \<longleftrightarrow> (\<exists>x. r = Inr x \<and> y = f x)"
  by (cases r) auto

lemma newIPAddressFunc_key: "newIPAddressFunc key vs = Inr f \<Longrightarrow> ipAddressFunc_key f = AWSSourceIP"
  by (auto simp: newIPAddressFunc_def NewIPAddressFunc_def split: sum.splits if_splits)

lemma newNotIPAddressFunc_key: "newNotIPAddressFunc key vs = Inr (NotIPAddressFunc f) \<Longrightarrow> ipAddressFunc_key f = AWSSourceIP"
  by (auto simp: newNotIPAddressFunc_def NewNotIPAddressFunc_def split: sum.splits if_splits)

lemma conditionFuncMap_cases:
  assumes "conditionFuncMap n = Some vfn"
  shows "(n, vfn) \<in> set
       [(n_stringEquals, \<lambda>k vs. map_sum id F_stringEquals (newStringEqualsFunc k vs)),
        (n_stringNotEquals, \<lambda>k vs. map_sum id F_stringNotEquals (newStringNotEqualsFunc k vs)),
        (n_stringEqualsIgnoreCase, \<lambda>k vs. map_sum id F_stringEqualsIgnoreCase (newStringEqualsIgnoreCaseFunc k vs)),
        (n_stringNotEqualsIgnoreCase, \<lambda>k vs. map_sum id F_stringNotEqualsIgnoreCase (newStringNotEqualsIgnoreCaseFunc k vs)),
        (n_binaryEquals, \<lambda>k vs. map_sum id F_binaryEquals (newBinaryEqualsFunc k vs)),
        (n_stringLike, \<lambda>k vs. map_sum id F_stringLike (newStringLikeFunc k vs)),
        (n_stringNotLike, \<lambda>k vs. map_sum id F_stringNotLike (newStringNotLikeFunc k vs)),
        (n_ipAddress, \<lambda>k vs. map_sum id F_ipAddress (newIPAddressFunc k vs)),
        (n_notIPAddress, \<lambda>k vs. map_sum id F_notIPAddress (newNotIPAddressFunc k vs)),
        (n_null, \<lambda>k vs. map_sum id F_null (newNullFunc k vs)),
        (n_boolean, \<lambda>k vs. map_sum id F_boolean (newBooleanFunc k vs)),
        (n_numericEquals, \<lambda>k vs. map_sum id F_numericEquals (newNumericEqualsFunc k vs)),
        (n_numericNotEquals, \<lambda>k vs. map_sum id F_numericNotEquals (newNumericNotEqualsFunc k vs)),
        (n_numericLessThan, \<lambda>k vs. map_sum id F_numericLessThan (newNumericLessThanFunc k vs)),
        (n_numericLessThanEquals, \<lambda>k vs. map_sum id F_numericLessThanEquals (newNumericLessThanEqualsFunc k vs)),
        (n_numericGreaterThan, \<lambda>k vs. map_sum id F_numericGreaterThan (newNumericGreaterThanFunc k vs)),
        (n_numericGreaterThanEquals, \<lambda>k vs. map_sum id F_numericGreaterThanEquals (newNumericGreaterThanEqualsFunc k vs)),
        (n_dateEquals, \<lambda>k vs. map_sum id F_dateEquals (newDateEqualsFunc k vs)),
        (n_dateNotEquals, \<lambda>k vs. map_sum id F_dateNotEquals (newDateNotEqualsFunc k vs)),
        (n_dateLessThan, \<lambda>k vs. map_sum id F_dateLessThan (newDateLessThanFunc k vs)),
        (n_dateLessThanEquals, \<lambda>k vs. map_sum id F_dateLessThanEquals (newDateLessThanEqualsFunc k vs)),
        (n_dateGreaterThan, \<lambda>k vs. map_sum id F_dateGreaterThan (newDateGreaterThanFunc k vs)),
        (n_dateGreaterThanEquals, \<lambda>k vs. map_sum id F_dateGreaterThanEquals (newDateGreaterThanEqualsFunc k vs))]"
  using assms unfolding conditionFuncMap_def by (rule map_of_SomeD)

lemma conditionFuncMap_wf:
  assumes "conditionFuncMap n = Some vfn" and "vfn key vs = Inr f"
  shows "Function_wf f"
proof (cases f)
  case (F_ipAddress g)
  with conditionFuncMap_cases [OF assms(1)] assms(2) have "newIPAddressFunc key vs = Inr g"
    by (auto simp: map_sum_Inr)
  with F_ipAddress show ?thesis by (simp add: newIPAddressFunc_key)
next
  case (F_notIPAddress g)
  with conditionFuncMap_cases [OF assms(1)] assms(2) have "newNotIPAddressFunc key vs = Inr g"
    by (auto simp: map_sum_Inr)
  with F_notIPAddress show ?thesis by (cases g) (simp add: newNotIPAddressFunc_key)
qed simp_all

lemma unmarshal_args_wf: "unmarshal_args n args = Inr fs \<Longrightarrow> list_all Function_wf fs"
  by (induction n args arbitrary: fs rule: unmarshal_args.induct)
    (auto simp: map_sum_Inr conditionFuncMap_wf split: sum.splits option.splits)

lemma unmarshal_names_wf: "unmarshal_names nm = Inr fs \<Longrightarrow> list_all Function_wf fs"
  by (induction nm arbitrary: fs rule: unmarshal_names.induct)
    (auto simp: map_sum_Inr unmarshal_args_wf split: sum.splits)

lemma Functions_UnmarshalJSON_wf: "Functions_UnmarshalJSON data = Inr fs \<Longrightarrow> list_all Function_wf fs"
  by (auto simp: Functions_UnmarshalJSON_def unmarshal_names_wf split: option.splits if_splits)

section \<open>The keys of a list of conditions\<close>

lemma Functions_Keys_iff: "k |\<in>| Functions_Keys fs \<longleftrightarrow> (\<exists>f \<in> set fs. Function_key f = k)"
proof -
  have "foldl (\<lambda>ks f. KeySet_Add ks (Function_key f)) ks fs = foldl KeySet_Add ks (map Function_key fs)" for ks
    by (induction fs arbitrary: ks) auto
  then show ?thesis by (auto simp: Functions_Keys_def NewKeySet_def keyset.foldl_add_new)
qed

section \<open>Properties\<close>


definition ex_condition :: json where
  "ex_condition = JObj [(''Null'', JObj [(''s3:prefix'', JBool True)])]"

lemma ex_condition_read:
  "Functions_UnmarshalJSON ex_condition = Inr [F_null (NullFunc S3Prefix True)]"
proof -
  have vs: "decode_ValueSet (JBool True) = Some {|NewBoolValue True|}"
    by (simp add: decode_ValueSet_def ValueSet_UnmarshalJSON_def Value_UnmarshalJSON_def ValueSet_Add_def)
  have items: "sorted_items (fmupd k x fmempty) = [(k, x)]" for k and x :: 'b
    by (simp add: sorted_items_def sorted_keys_def sorted_list_of_fset.rep_eq)
  have "conditionFuncMap ''Null'' = Some (\<lambda>k vs. map_sum id F_null (newNullFunc k vs))"
    by (simp add: conditionFuncMap_def name_defs)
  moreover have "newNullFunc ''s3:prefix'' {|NewBoolValue True|} = Inr (NullFunc S3Prefix True)"
    by (simp add: newNullFunc_def Value_get_defs NewBoolValue_def S3Prefix_def)
  moreover have "parseName ''Null'' = Inr ''Null''" "parseKey ''s3:prefix'' = Inr ''s3:prefix''"
    by (simp_all add: parseName_def name_IsValid_def supportedConditions_def n_null_def parseKey_def
        Key_IsValid_def AllSupportedKeys_def S3Prefix_def)
  moreover have "fmupd k x fmempty \<noteq> fmempty" for k and x :: 'c
    by (metis fmempty_lookup fmupd_lookup option.distinct(1))
  ultimately show ?thesis
    by (simp add: Functions_UnmarshalJSON_def ex_condition_def vs items)
qed


text \<open>for a request with one value under the key, the numeric conditions against a number
  order the value as integers: exactly one of less, equal and greater holds and the two others
  are their unions; a value that is no number satisfies only \<open>NumericNotEquals\<close>.\<close>

theorem numeric_conditions_order:
  assumes "requestValue k vals = [r]"
  shows "(case Atoi r of
      None \<Rightarrow>
        \<not> numericEqualsFunc_evaluate (NumericEqualsFunc k n) vals \<and>
        \<not> numericLessThanFunc_evaluate (NumericLessThanFunc k n) vals \<and>
        \<not> numericGreaterThanFunc_evaluate (NumericGreaterThanFunc k n) vals \<and>
        \<not> numericLessThanEqualsFunc_evaluate (NumericLessThanEqualsFunc (NumericLessThanFunc k n)) vals \<and>
        \<not> numericGreaterThanEqualsFunc_evaluate (NumericGreaterThanEqualsFunc (NumericGreaterThanFunc k n)) vals \<and>
        numericNotEqualsFunc_evaluate (NumericNotEqualsFunc (NumericEqualsFunc k n)) vals
    | Some x \<Rightarrow>
        (numericLessThanFunc_evaluate (NumericLessThanFunc k n) vals \<longleftrightarrow> x < n) \<and>
        (numericEqualsFunc_evaluate (NumericEqualsFunc k n) vals \<longleftrightarrow> x = n) \<and>
        (numericGreaterThanFunc_evaluate (NumericGreaterThanFunc k n) vals \<longleftrightarrow> n < x) \<and>
        (numericLessThanEqualsFunc_evaluate (NumericLessThanEqualsFunc (NumericLessThanFunc k n)) vals \<longleftrightarrow> x \<le> n) \<and>
        (numericGreaterThanEqualsFunc_evaluate (NumericGreaterThanEqualsFunc (NumericGreaterThanFunc k n)) vals \<longleftrightarrow> n \<le> x) \<and>
        (numericNotEqualsFunc_evaluate (NumericNotEqualsFunc (NumericEqualsFunc k n)) vals \<longleftrightarrow> x \<noteq> n))"
  using assms by (auto split: option.split)

theorem numeric_conditions_order_witness:
  "numericLessThanFunc_evaluate (NumericLessThanFunc S3MaxKeys 10) (\<lambda>_. Some [''7'']) \<and>
   \<not> numericGreaterThanFunc_evaluate (NumericGreaterThanFunc S3MaxKeys 10) (\<lambda>_. Some [''7''])"
proof -
  have one: "requestValue S3MaxKeys (\<lambda>_. Some [''7'']) = [''7'']" by (simp add: requestValue_def)
  have "Atoi ''7'' = Some 7"
    by (simp add: Atoi_def ParseInt_def parse_digits_def digits_val_def digit_val_def is_digit_def ascii_def
        in_int64_def int64_min_def int64_max_def)
  with numeric_conditions_order [OF one, of 10] show ?thesis by simp
qed

text \<open>three different conditions print alike: \<open>DateLessThanEquals\<close>,
  \<open>DateGreaterThanEquals\<close> and \<open>DateNotEquals\<close> of the same key and time.  The printed form is what
  the removal of duplicate statements compares, while for a time in the past of the limit the
  first holds and the second does not.\<close>

theorem date_conditions_print_alike:
  "Function_String (F_dateLessThanEquals (DateLessThanEqualsFunc (DateLessThanFunc k limit))) =
     Function_String (F_dateGreaterThanEquals (DateGreaterThanEqualsFunc (DateGreaterThanFunc k limit))) \<and>
   Function_String (F_dateLessThanEquals (DateLessThanEqualsFunc (DateLessThanFunc k limit))) =
     Function_String (F_dateNotEquals (DateNotEqualsFunc (DateEqualsFunc k limit))) \<and>
   (requestValue k vals = [r] \<and> ParseRFC3339 r = Some time \<and> time_Before time limit \<longrightarrow>
     Function_evaluate uf (F_dateLessThanEquals (DateLessThanEqualsFunc (DateLessThanFunc k limit))) vals = Some True \<and>
     Function_evaluate uf (F_dateGreaterThanEquals (DateGreaterThanEqualsFunc (DateGreaterThanFunc k limit))) vals = Some False)"
  by (auto simp: toDateLessThanFuncString_def toDateGreaterThanFuncString_def toDateEqualsFuncString_def
      time_Before_def time_After_def time_Equal_def)

theorem date_conditions_print_alike_witness:
  "\<exists>limit vals.
     Function_evaluate id (F_dateLessThanEquals (DateLessThanEqualsFunc (DateLessThanFunc AWSCurrentTime limit))) vals = Some True \<and>
     Function_evaluate id (F_dateGreaterThanEquals (DateGreaterThanEqualsFunc (DateGreaterThanFunc AWSCurrentTime limit))) vals = Some False"
proof -
  have one: "requestValue AWSCurrentTime (\<lambda>_. Some [''2020-01-01T00:00:00Z'']) = [''2020-01-01T00:00:00Z'']"
    by (simp add: requestValue_def)
  have "ParseRFC3339 ''2020-01-01T00:00:00Z'' \<noteq> None"
    by (simp add: ParseRFC3339_def get_year_def digits_int_def get_fraction_def digits_val_def digit_val_def
        is_digit_def ascii_def days_in_def month_lengths_def is_leap_def)
  then obtain time where time: "ParseRFC3339 ''2020-01-01T00:00:00Z'' = Some time" by blast
  have "time_Before time (time\<lparr>instant := instant time + 1\<rparr>)" by (simp add: time_Before_def)
  with date_conditions_print_alike [of AWSCurrentTime "time\<lparr>instant := instant time + 1\<rparr>"
      "\<lambda>_. Some [''2020-01-01T00:00:00Z'']" "''2020-01-01T00:00:00Z''" time id] one time
  show ?thesis by blast
qed

end
