(* ===== verification/PolicyEngine.thy ===== *)
theory PolicyEngine
  imports Condition
begin

text \<open>
  What \<open>pkg/bucket/policy\<close> and \<open>pkg/iam/policy\<close> share: effects and IDs (\<open>effect.go\<close>, \<open>id.go\<close>,
  which the second package imports from the first), the resource type, the removal of duplicate
  statements, which both packages write out, and the decision procedure of \<open>Policy.IsAllowed\<close>
  as an interface.  The locale \<open>policy_engine\<close> states what both \<open>IsAllowed\<close> methods do with
  the verdicts of their statements; the two packages interpret it on their own definitions.
\<close>

section \<open>Errors\<close>

datatype policy_err =
    PolicyJsonErr
  | InvalidVersion string
  | InvalidEffect string
  | InvalidPrincipal
  | InvalidID
  | InvalidAction string
  | InvalidResource string
  | ResourceFormat string
  | BucketMismatch
  | EmptyActions
  | EmptyResources
  | UnsupportedResource string
  | UnsupportedKeys string
  | DuplicateResource string
  | CondErr cond_err

section \<open>effect.go and id.go\<close>

type_synonym Effect = string
type_synonym ID = string

definition Allow :: Effect where "Allow = ''Allow''"
definition Deny :: Effect where "Deny = ''Deny''"

definition Effect_IsAllowed :: "Effect \<Rightarrow> bool \<Rightarrow> bool" where
  "Effect_IsAllowed effect b = (if effect = Allow then b else \<not> b)"

definition Effect_IsValid :: "Effect \<Rightarrow> bool" where
  "Effect_IsValid effect = (if effect = Allow \<or> effect = Deny then True else False)"

definition Effect_MarshalJSON :: "Effect \<Rightarrow> policy_err + json" where
  "Effect_MarshalJSON effect =
     (if \<not> Effect_IsValid effect then Inl (InvalidEffect effect) else Inr (json_string effect))"

definition Effect_UnmarshalJSON :: "json \<Rightarrow> policy_err + Effect" where
  "Effect_UnmarshalJSON data =
     (case decode_string data of
        None \<Rightarrow> Inl PolicyJsonErr
      | Some s \<Rightarrow> if \<not> Effect_IsValid s then Inl (InvalidEffect s) else Inr s)"

definition ID_IsValid :: "ID \<Rightarrow> bool" where
  "ID_IsValid i = ValidString i"

definition ID_MarshalJSON :: "ID \<Rightarrow> policy_err + json" where
  "ID_MarshalJSON i = (if \<not> ID_IsValid i then Inl InvalidID else Inr (json_string i))"

definition ID_UnmarshalJSON :: "json \<Rightarrow> policy_err + ID" where
  "ID_UnmarshalJSON data =
     (case decode_string data of
        None \<Rightarrow> Inl PolicyJsonErr
      | Some s \<Rightarrow> if \<not> ID_IsValid s then Inl InvalidID else Inr s)"

lemma Allow_neq_Deny [simp]: "Allow \<noteq> Deny" "Deny \<noteq> Allow"
  by (simp_all add: Allow_def Deny_def)

section \<open>Decoding with jsoniter\<close>

text \<open>
  \<open>StringSet.UnmarshalJSON\<close> decodes with the jsoniter package, which is not part of the
  repository: its two calls, into a slice of strings and into a string, are a parameter.
\<close>

record jsoniter =
  ji_slice :: "json \<Rightarrow> string list option"
  ji_string :: "json \<Rightarrow> string option"

definition decode_StringSet :: "jsoniter \<Rightarrow> json \<Rightarrow> StringSet option" where
  "decode_StringSet ji j = StringSet_UnmarshalJSON (ji_slice ji j) (ji_string ji j)"

text \<open>Struct fields are found by their folded names: ASCII letters and the two runes that fold
  to a letter of ASCII.\<close>

definition fold_name_rune :: "nat \<Rightarrow> nat" where
  "fold_name_rune r = (if r = 383 then 115 else if r = 8490 then 107 else if 65 \<le> r \<and> r \<le> 90 then r + 32 else r)"

definition field_is :: "string \<Rightarrow> string \<Rightarrow> bool" where
  "field_is name key \<longleftrightarrow> map fold_name_rune (runes key) = map fold_name_rune (runes name)"

text \<open>Decoding into a struct: each field of the object in turn, an unknown one is skipped.\<close>

fun decode_struct :: "(string \<Rightarrow> json \<Rightarrow> 's \<Rightarrow> 'e + 's) \<Rightarrow> 's \<Rightarrow> (string \<times> json) list \<Rightarrow> 'e + 's" where
  "decode_struct f st [] = Inr st"
| "decode_struct f st ((k, j) # fs) = (case f k j st of Inl e \<Rightarrow> Inl e | Inr st' \<Rightarrow> decode_struct f st' fs)"

fun decode_objects :: "(json \<Rightarrow> 'e + 'a) \<Rightarrow> json list \<Rightarrow> 'e + 'a list" where
  "decode_objects f [] = Inr []"
| "decode_objects f (j # js) =
     (case f j of Inl e \<Rightarrow> Inl e | Inr x \<Rightarrow> map_sum id (\<lambda>xs. x # xs) (decode_objects f js))"

section \<open>Resources\<close>

definition ResourceARNPrefix :: string where
  "ResourceARNPrefix = ''arn:aws:s3:::''"

datatype Resource = Resource (res_BucketName: string) (res_Pattern: string)

definition Resource_pair :: "Resource \<Rightarrow> string \<times> string" where
  "Resource_pair r = (res_BucketName r, res_Pattern r)"

lemma Resource_pair_inj [simp]: "Resource_pair r = Resource_pair r' \<longleftrightarrow> r = r'"
  by (cases r; cases r') (simp add: Resource_pair_def)

instantiation Resource :: linorder
begin

definition less_eq_Resource :: "Resource \<Rightarrow> Resource \<Rightarrow> bool" where
  "less_eq_Resource r r' \<longleftrightarrow> Resource_pair r \<le> Resource_pair r'"

definition less_Resource :: "Resource \<Rightarrow> Resource \<Rightarrow> bool" where
  "less_Resource r r' \<longleftrightarrow> Resource_pair r < Resource_pair r'"

instance
proof
  fix x y z :: Resource
  show "(x < y) = (x \<le> y \<and> \<not> y \<le> x)" by (simp add: less_eq_Resource_def less_Resource_def less_le_not_le)
  show "x \<le> x" by (simp add: less_eq_Resource_def)
  show "x \<le> y \<Longrightarrow> y \<le> z \<Longrightarrow> x \<le> z" by (simp add: less_eq_Resource_def)
  show "x \<le> y \<Longrightarrow> y \<le> x \<Longrightarrow> x = y" unfolding less_eq_Resource_def by (metis Resource_pair_inj antisym)
  show "x \<le> y \<or> y \<le> x" by (simp add: less_eq_Resource_def linear)
qed

end

type_synonym ResourceSet = "Resource fset"

text \<open>The name a statement matches its resources against: bucket, slash, object.\<close>

definition object_path :: "string \<Rightarrow> string \<Rightarrow> string" where
  "object_path bucket object = bucket @ (if HasPrefix object ''/'' then [] else ''/'') @ object"

section \<open>Removal of duplicate statements\<close>

text \<open>
  \<open>dropDuplicateStatements\<close> of both packages.  The inner loop ranges over \<open>Statements[i+1:]\<close>,
  so its index \<open>j\<close> starts at zero there; the statement at position \<open>j\<close> of the whole slice is
  removed and the search starts again.
\<close>

fun find_dup_j :: "('s \<Rightarrow> 's \<Rightarrow> bool) \<Rightarrow> 's \<Rightarrow> nat \<Rightarrow> 's list \<Rightarrow> nat option" where
  "find_dup_j same x j [] = None"
| "find_dup_j same x j (y # ys) = (if same x y then Some j else find_dup_j same x (Suc j) ys)"

fun find_dup :: "('s \<Rightarrow> 's \<Rightarrow> bool) \<Rightarrow> 's list \<Rightarrow> nat option" where
  "find_dup same [] = None"
| "find_dup same (x # xs) =
     (case find_dup_j same x 0 xs of Some j \<Rightarrow> Some j | None \<Rightarrow> find_dup same xs)"

lemma find_dup_j_bound: "find_dup_j same x j ys = Some k \<Longrightarrow> j \<le> k \<and> k < j + length ys"
  by (induction same x j ys rule: find_dup_j.induct) (auto split: if_splits)

lemma find_dup_bound: "find_dup same xs = Some j \<Longrightarrow> j < length xs"
  by (induction xs) (auto split: option.splits dest: find_dup_j_bound)

function drop_dups :: "('s \<Rightarrow> 's \<Rightarrow> bool) \<Rightarrow> 's list \<Rightarrow> 's list" where
  "drop_dups same xs =
     (case find_dup same xs of
        None \<Rightarrow> xs
      | Some j \<Rightarrow> drop_dups same (take j xs @ drop (j + 1) xs))"
  by pat_completeness auto
termination
  by (relation "measure (\<lambda>(same, xs). length xs)") (auto dest: find_dup_bound)

declare drop_dups.simps [simp del]

lemma find_dup_j_None: "find_dup_j same x j ys = None \<longleftrightarrow> (\<forall>y \<in> set ys. \<not> same x y)"
  by (induction ys arbitrary: j) auto

fun no_dups :: "('s \<Rightarrow> 's \<Rightarrow> bool) \<Rightarrow> 's list \<Rightarrow> bool" where
  "no_dups same [] = True"
| "no_dups same (x # xs) = ((\<forall>y \<in> set xs. \<not> same x y) \<and> no_dups same xs)"

lemma find_dup_None: "find_dup same xs = None \<longleftrightarrow> no_dups same xs"
proof (induction xs)
  case (Cons x xs)
  then show ?case
    using find_dup_j_None [of same x 0 xs] by (cases "find_dup_j same x 0 xs") auto
qed simp

lemma drop_dups_no_dups: "no_dups same (drop_dups same xs)"
proof (induction same xs rule: drop_dups.induct)
  case (1 same xs)
  show ?case
  proof (cases "find_dup same xs")
    case None
    then have "no_dups same xs" by (simp add: find_dup_None)
    with None show ?thesis by (simp add: drop_dups.simps [of same xs])
  next
    case (Some j)
    with 1 show ?thesis by (simp add: drop_dups.simps [of same xs])
  qed
qed

lemma drop_dups_id: "no_dups same xs \<Longrightarrow> drop_dups same xs = xs"
  by (simp add: drop_dups.simps [of same xs] find_dup_None [symmetric])

lemma drop_dups_subseq: "subseq (drop_dups same xs) xs"
proof (induction same xs rule: drop_dups.induct)
  case (1 same xs)
  show ?case
  proof (cases "find_dup same xs")
    case (Some j)
    then have "drop_dups same xs = drop_dups same (take j xs @ drop (j + 1) xs)"
      by (simp add: drop_dups.simps [of same xs])
    moreover have "subseq (take j xs @ drop (j + 1) xs) xs"
      by (metis append_take_drop_id drop_drop list_emb_append2 subseq_append_iff subseq_order.order_refl
          suffix_drop suffix_imp_subseq add.commute)
    ultimately show ?thesis using 1 [OF Some] by (metis subseq_order.trans)
  next
    case None
    then show ?thesis by (simp add: drop_dups.simps [of same xs])
  qed
qed

lemma set_drop_dups: "set (drop_dups same xs) \<subseteq> set xs"
  using drop_dups_subseq [of same xs] by (simp add: subseq_conv_nths) (metis set_nths_subset)

section \<open>The decision of a policy\<close>

text \<open>
  \<open>verdict s a\<close> is what the statement's own \<open>IsAllowed\<close> returns: its effect applied to the
  test whether the statement matches.  A policy looks at the statements with effect Deny first,
  then at the owner, then at those with effect Allow.
\<close>

locale policy_engine =
  fixes effect :: "'s \<Rightarrow> Effect"
    and matches :: "'s \<Rightarrow> 'a \<Rightarrow> bool go"
    and verdict :: "'s \<Rightarrow> 'a \<Rightarrow> bool go"
    and owner :: "'a \<Rightarrow> bool"
    and is_allowed :: "'s list \<Rightarrow> 'a \<Rightarrow> bool go"
  assumes verdict_effect: "verdict s a = map_option (Effect_IsAllowed (effect s)) (matches s a)"
    and is_allowed_loops: "is_allowed ss a =
      (case go_any (\<lambda>s. if effect s = Deny then go_not (verdict s a) else Some False) ss of
         None \<Rightarrow> None
       | Some True \<Rightarrow> Some False
       | Some False \<Rightarrow>
           if owner a then Some True
           else go_any (\<lambda>s. if effect s = Allow then verdict s a else Some False) ss)"
begin

definition denied :: "'s list \<Rightarrow> 'a \<Rightarrow> bool" where
  "denied ss a \<longleftrightarrow> (\<exists>s \<in> set ss. effect s = Deny \<and> matches s a = Some True)"

definition granted :: "'s list \<Rightarrow> 'a \<Rightarrow> bool" where
  "granted ss a \<longleftrightarrow> (\<exists>s \<in> set ss. effect s = Allow \<and> matches s a = Some True)"

lemma verdict_allow: "effect s = Allow \<Longrightarrow> verdict s a = matches s a"
  by (cases "matches s a") (simp_all add: verdict_effect Effect_IsAllowed_def)

lemma verdict_deny: "effect s = Deny \<Longrightarrow> verdict s a = go_not (matches s a)"
  by (cases "matches s a") (simp_all add: verdict_effect Effect_IsAllowed_def)

lemma deny_loop:
  assumes "\<And>s. s \<in> set ss \<Longrightarrow> matches s a \<noteq> None"
  shows "go_any (\<lambda>s. if effect s = Deny then go_not (verdict s a) else Some False) ss = Some (denied ss a)"
proof -
  have "go_any (\<lambda>s. if effect s = Deny then go_not (verdict s a) else Some False) ss =
      Some (\<exists>s \<in> set ss. (if effect s = Deny then go_not (verdict s a) else Some False) = Some True)"
    by (rule go_any_total) (use assms in \<open>auto simp: verdict_deny\<close>)
  also have "(\<exists>s \<in> set ss. (if effect s = Deny then go_not (verdict s a) else Some False) = Some True) = denied ss a"
    unfolding denied_def by (rule bex_cong) (auto simp: verdict_deny)
  finally show ?thesis .
qed

lemma allow_loop:
  assumes "\<And>s. s \<in> set ss \<Longrightarrow> matches s a \<noteq> None"
  shows "go_any (\<lambda>s. if effect s = Allow then verdict s a else Some False) ss = Some (granted ss a)"
proof -
  have "go_any (\<lambda>s. if effect s = Allow then verdict s a else Some False) ss =
      Some (\<exists>s \<in> set ss. (if effect s = Allow then verdict s a else Some False) = Some True)"
    by (rule go_any_total) (use assms in \<open>auto simp: verdict_allow\<close>)
  also have "(\<exists>s \<in> set ss. (if effect s = Allow then verdict s a else Some False) = Some True) = granted ss a"
    unfolding granted_def by (rule bex_cong) (auto simp: verdict_allow)
  finally show ?thesis .
qed

lemma decision:
  assumes "\<And>s. s \<in> set ss \<Longrightarrow> matches s a \<noteq> None"
  shows "is_allowed ss a = Some (\<not> denied ss a \<and> (owner a \<or> granted ss a))"
  unfolding is_allowed_loops using deny_loop [OF assms] allow_loop [OF assms] by (auto split: bool.split)

lemma decision_set:
  assumes "\<And>s. s \<in> set ss \<Longrightarrow> matches s a \<noteq> None" and "set ss = set ts"
  shows "is_allowed ss a = is_allowed ts a"
proof -
  have "is_allowed ts a = Some (\<not> denied ts a \<and> (owner a \<or> granted ts a))"
    using assms by (intro decision) simp
  moreover have "is_allowed ss a = Some (\<not> denied ss a \<and> (owner a \<or> granted ss a))"
    by (rule decision) (rule assms(1))
  ultimately show ?thesis by (simp add: denied_def granted_def assms(2))
qed

text \<open>A statement with effect Allow that has a counterpart left may go; so may any statement
  with a counterpart of the same effect that matches the same requests.\<close>

lemma decision_drop:
  assumes total: "\<And>s. s \<in> set ss \<Longrightarrow> matches s a \<noteq> None" and sub: "set ts \<subseteq> set ss"
    and cover: "\<And>s. s \<in> set ss \<Longrightarrow> \<exists>t \<in> set ts. effect t = effect s \<and> matches t a = matches s a"
  shows "is_allowed ts a = is_allowed ss a"
proof -
  have "is_allowed ts a = Some (\<not> denied ts a \<and> (owner a \<or> granted ts a))"
    using total sub by (intro decision) auto
  moreover have "denied ts a = denied ss a"
    unfolding denied_def using sub cover by (metis subset_iff)
  moreover have "granted ts a = granted ss a"
    unfolding granted_def using sub cover by (metis subset_iff)
  moreover have "is_allowed ss a = Some (\<not> denied ss a \<and> (owner a \<or> granted ss a))"
    by (rule decision) (rule total)
  ultimately show ?thesis by simp
qed

end

end
