(* ===== verification/BucketPolicy.thy ===== *)
theory BucketPolicy
  imports PolicyEngine
begin

text \<open>
  \<open>pkg/bucket/policy\<close>: actions, principals, resources, statements and policies of a bucket, the
  decision \<open>Policy.IsAllowed\<close>, validation, and reading and writing policy documents.  An
  \<open>ActionSet\<close> and a \<open>ResourceSet\<close> are finite sets.  \<open>None\<close> is a panic where a call can reach one:
  \<open>wildcard.MatchSimple\<close>, an empty list of values under a common key, an address condition.
\<close>

section \<open>action.go\<close>

type_synonym Action = string

definition AbortMultipartUploadAction :: Action where "AbortMultipartUploadAction = ''s3:AbortMultipartUpload''"
definition CreateBucketAction :: Action where "CreateBucketAction = ''s3:CreateBucket''"
definition DeleteBucketAction :: Action where "DeleteBucketAction = ''s3:DeleteBucket''"
definition ForceDeleteBucketAction :: Action where "ForceDeleteBucketAction = ''s3:ForceDeleteBucket''"
definition DeleteBucketPolicyAction :: Action where "DeleteBucketPolicyAction = ''s3:DeleteBucketPolicy''"
definition DeleteObjectAction :: Action where "DeleteObjectAction = ''s3:DeleteObject''"
definition GetBucketLocationAction :: Action where "GetBucketLocationAction = ''s3:GetBucketLocation''"
definition GetBucketNotificationAction :: Action where "GetBucketNotificationAction = ''s3:GetBucketNotification''"
definition GetBucketPolicyAction :: Action where "GetBucketPolicyAction = ''s3:GetBucketPolicy''"
definition GetObjectAction :: Action where "GetObjectAction = ''s3:GetObject''"
definition HeadBucketAction :: Action where "HeadBucketAction = ''s3:HeadBucket''"
definition ListAllMyBucketsAction :: Action where "ListAllMyBucketsAction = ''s3:ListAllMyBuckets''"
definition ListBucketAction :: Action where "ListBucketAction = ''s3:ListBucket''"
definition ListBucketMultipartUploadsAction :: Action where "ListBucketMultipartUploadsAction = ''s3:ListBucketMultipartUploads''"
definition ListenBucketNotificationAction :: Action where "ListenBucketNotificationAction = ''s3:ListenBucketNotification''"
definition ListMultipartUploadPartsAction :: Action where "ListMultipartUploadPartsAction = ''s3:ListMultipartUploadParts''"
definition PutBucketNotificationAction :: Action where "PutBucketNotificationAction = ''s3:PutBucketNotification''"
definition PutBucketPolicyAction :: Action where "PutBucketPolicyAction = ''s3:PutBucketPolicy''"
definition PutObjectAction :: Action where "PutObjectAction = ''s3:PutObject''"
definition PutBucketLifecycleAction :: Action where "PutBucketLifecycleAction = ''s3:PutLifecycleConfiguration''"
definition GetBucketLifecycleAction :: Action where "GetBucketLifecycleAction = ''s3:GetLifecycleConfiguration''"
definition BypassGovernanceRetentionAction :: Action where "BypassGovernanceRetentionAction = ''s3:BypassGovernanceRetention''"
definition PutObjectRetentionAction :: Action where "PutObjectRetentionAction = ''s3:PutObjectRetention''"
definition GetObjectRetentionAction :: Action where "GetObjectRetentionAction = ''s3:GetObjectRetention''"
definition GetObjectLegalHoldAction :: Action where "GetObjectLegalHoldAction = ''s3:GetObjectLegalHold''"
definition PutObjectLegalHoldAction :: Action where "PutObjectLegalHoldAction = ''s3:PutObjectLegalHold''"
definition GetBucketObjectLockConfigurationAction :: Action where "GetBucketObjectLockConfigurationAction = ''s3:GetBucketObjectLockConfiguration''"
definition PutBucketObjectLockConfigurationAction :: Action where "PutBucketObjectLockConfigurationAction = ''s3:PutBucketObjectLockConfiguration''"
definition GetObjectTaggingAction :: Action where "GetObjectTaggingAction = ''s3:GetObjectTagging''"
definition PutObjectTaggingAction :: Action where "PutObjectTaggingAction = ''s3:PutObjectTagging''"
definition DeleteObjectTaggingAction :: Action where "DeleteObjectTaggingAction = ''s3:DeleteObjectTagging''"
definition PutBucketEncryptionAction :: Action where "PutBucketEncryptionAction = ''s3:PutEncryptionConfiguration''"
definition GetBucketEncryptionAction :: Action where "GetBucketEncryptionAction = ''s3:GetEncryptionConfiguration''"

lemmas action_defs =
  AbortMultipartUploadAction_def CreateBucketAction_def DeleteBucketAction_def
  ForceDeleteBucketAction_def DeleteBucketPolicyAction_def DeleteObjectAction_def
  GetBucketLocationAction_def GetBucketNotificationAction_def GetBucketPolicyAction_def
  GetObjectAction_def HeadBucketAction_def ListAllMyBucketsAction_def
  ListBucketAction_def ListBucketMultipartUploadsAction_def
  ListenBucketNotificationAction_def ListMultipartUploadPartsAction_def
  PutBucketNotificationAction_def PutBucketPolicyAction_def PutObjectAction_def
  PutBucketLifecycleAction_def GetBucketLifecycleAction_def
  BypassGovernanceRetentionAction_def PutObjectRetentionAction_def
  GetObjectRetentionAction_def GetObjectLegalHoldAction_def PutObjectLegalHoldAction_def
  GetBucketObjectLockConfigurationAction_def PutBucketObjectLockConfigurationAction_def
  GetObjectTaggingAction_def PutObjectTaggingAction_def DeleteObjectTaggingAction_def
  PutBucketEncryptionAction_def GetBucketEncryptionAction_def

definition supportedObjectActions :: "Action list" where
  "supportedObjectActions =
     [AbortMultipartUploadAction, DeleteObjectAction, GetObjectAction,
      ListMultipartUploadPartsAction, PutObjectAction, BypassGovernanceRetentionAction,
      PutObjectRetentionAction, GetObjectRetentionAction, PutObjectLegalHoldAction,
      GetObjectLegalHoldAction, GetObjectTaggingAction, PutObjectTaggingAction,
      DeleteObjectTaggingAction]"

definition Action_isObjectAction :: "Action \<Rightarrow> bool" where
  "Action_isObjectAction action = (action \<in> set supportedObjectActions)"

definition supportedActions :: "Action list" where
  "supportedActions =
     [AbortMultipartUploadAction, CreateBucketAction, DeleteBucketAction,
      ForceDeleteBucketAction, DeleteBucketPolicyAction, DeleteObjectAction,
      GetBucketLocationAction, GetBucketNotificationAction, GetBucketPolicyAction,
      GetObjectAction, HeadBucketAction, ListAllMyBucketsAction, ListBucketAction,
      ListBucketMultipartUploadsAction, ListenBucketNotificationAction,
      ListMultipartUploadPartsAction, PutBucketNotificationAction, PutBucketPolicyAction,
      PutObjectAction, GetBucketLifecycleAction, PutBucketLifecycleAction,
      PutObjectRetentionAction, GetObjectRetentionAction, GetObjectLegalHoldAction,
      PutObjectLegalHoldAction, PutBucketObjectLockConfigurationAction,
      GetBucketObjectLockConfigurationAction, BypassGovernanceRetentionAction,
      GetObjectTaggingAction, PutObjectTaggingAction, DeleteObjectTaggingAction,
      PutBucketEncryptionAction, GetBucketEncryptionAction]"

definition Action_IsValid :: "Action \<Rightarrow> bool" where
  "Action_IsValid action = (action \<in> set supportedActions)"

definition Action_MarshalJSON :: "Action \<Rightarrow> policy_err + json" where
  "Action_MarshalJSON action =
     (if Action_IsValid action then Inr (json_string action) else Inl (InvalidAction action))"

definition Action_UnmarshalJSON :: "json \<Rightarrow> policy_err + Action" where
  "Action_UnmarshalJSON data =
     (case decode_string data of
        None \<Rightarrow> Inl PolicyJsonErr
      | Some s \<Rightarrow> if \<not> Action_IsValid s then Inl (InvalidAction s) else Inr s)"

definition parseAction :: "string \<Rightarrow> policy_err + Action" where
  "parseAction s = (if Action_IsValid s then Inr s else Inl (InvalidAction s))"

text \<open>A key that is missing in the Go map reads as the nil set.\<close>

definition actionConditionKeyMap :: "Action \<Rightarrow> KeySet" where
  "actionConditionKeyMap action =
     (case map_of
       [(AbortMultipartUploadAction, NewKeySet CommonKeys),
        (CreateBucketAction, NewKeySet CommonKeys),
        (DeleteObjectAction, NewKeySet CommonKeys),
        (GetBucketLocationAction, NewKeySet CommonKeys),
        (GetObjectAction, NewKeySet ([S3XAmzServerSideEncryption, S3XAmzServerSideEncryptionCustomerAlgorithm,
          S3XAmzStorageClass] @ CommonKeys)),
        (HeadBucketAction, NewKeySet CommonKeys),
        (ListAllMyBucketsAction, NewKeySet CommonKeys),
        (ListBucketAction, NewKeySet ([S3Prefix, S3Delimiter, S3MaxKeys] @ CommonKeys)),
        (ListBucketMultipartUploadsAction, NewKeySet CommonKeys),
        (ListMultipartUploadPartsAction, NewKeySet CommonKeys),
        (PutObjectAction, NewKeySet ([S3XAmzCopySource, S3XAmzServerSideEncryption,
          S3XAmzServerSideEncryptionCustomerAlgorithm, S3XAmzMetadataDirective, S3XAmzStorageClass,
          S3ObjectLockRetainUntilDate, S3ObjectLockMode, S3ObjectLockLegalHold] @ CommonKeys)),
        (PutObjectRetentionAction, NewKeySet ([S3ObjectLockRemainingRetentionDays, S3ObjectLockRetainUntilDate, S3ObjectLockMode] @ CommonKeys)),
        (GetObjectRetentionAction, NewKeySet CommonKeys),
        (PutObjectLegalHoldAction, NewKeySet ([S3ObjectLockLegalHold] @ CommonKeys)),
        (GetObjectLegalHoldAction, NewKeySet CommonKeys),
        (BypassGovernanceRetentionAction, NewKeySet ([S3ObjectLockRemainingRetentionDays, S3ObjectLockRetainUntilDate, S3ObjectLockMode,
          S3ObjectLockLegalHold] @ CommonKeys)),
        (GetBucketObjectLockConfigurationAction, NewKeySet CommonKeys),
        (PutBucketObjectLockConfigurationAction, NewKeySet CommonKeys),
        (PutObjectTaggingAction, NewKeySet CommonKeys),
        (GetObjectTaggingAction, NewKeySet CommonKeys),
        (DeleteObjectTaggingAction, NewKeySet CommonKeys)] action of
        Some ks \<Rightarrow> ks | None \<Rightarrow> {||})"

section \<open>actionset.go\<close>

type_synonym ActionSet = "Action fset"

definition ActionSet_Add :: "ActionSet \<Rightarrow> Action \<Rightarrow> ActionSet" where
  "ActionSet_Add actionSet action = finsert action actionSet"

definition ActionSet_Contains :: "ActionSet \<Rightarrow> Action \<Rightarrow> bool" where
  "ActionSet_Contains actionSet action = (action |\<in>| actionSet)"

definition ActionSet_Equals :: "ActionSet \<Rightarrow> ActionSet \<Rightarrow> bool" where
  "ActionSet_Equals actionSet sactionSet =
     (if fcard actionSet \<noteq> fcard sactionSet then False else \<not> (\<exists>k |\<in>| actionSet. \<not> k |\<in>| sactionSet))"

definition NewActionSet :: "Action list \<Rightarrow> ActionSet" where
  "NewActionSet actions = foldl ActionSet_Add {||} actions"

definition ActionSet_Intersection :: "ActionSet \<Rightarrow> ActionSet \<Rightarrow> ActionSet" where
  "ActionSet_Intersection actionSet sset = ffilter (\<lambda>k. k |\<in>| sset) actionSet"

definition ActionSet_ToSlice :: "ActionSet \<Rightarrow> Action list" where
  "ActionSet_ToSlice actionSet = sorted_list_of_fset actionSet"

fun marshal_list :: "('a \<Rightarrow> policy_err + json) \<Rightarrow> 'a list \<Rightarrow> policy_err + json list" where
  "marshal_list f [] = Inr []"
| "marshal_list f (x # xs) =
     (case f x of Inl e \<Rightarrow> Inl e | Inr j \<Rightarrow> map_sum id (\<lambda>js. j # js) (marshal_list f xs))"

definition ActionSet_MarshalJSON :: "ActionSet \<Rightarrow> policy_err + json" where
  "ActionSet_MarshalJSON actionSet =
     (if fcard actionSet = 0 then Inl EmptyActions
      else map_sum id JArr (marshal_list Action_MarshalJSON (ActionSet_ToSlice actionSet)))"

definition ActionSet_String :: "ActionSet \<Rightarrow> string" where
  "ActionSet_String actionSet = sprint_slice (sort (ActionSet_ToSlice actionSet))"

fun add_actions :: "(string \<Rightarrow> policy_err + Action) \<Rightarrow> ActionSet \<Rightarrow> string list \<Rightarrow> policy_err + ActionSet" where
  "add_actions parse acc [] = Inr acc"
| "add_actions parse acc (s # ss) =
     (case parse s of Inl e \<Rightarrow> Inl e | Inr action \<Rightarrow> add_actions parse (ActionSet_Add acc action) ss)"

definition ActionSet_UnmarshalJSON :: "jsoniter \<Rightarrow> json \<Rightarrow> policy_err + ActionSet" where
  "ActionSet_UnmarshalJSON ji data =
     (case decode_StringSet ji data of
        None \<Rightarrow> Inl PolicyJsonErr
      | Some sset \<Rightarrow>
          if fcard sset = 0 then Inl EmptyActions
          else add_actions parseAction {||} (StringSet_ToSlice sset))"

interpretation actionset: key_set_eq "{||} :: ActionSet" ActionSet_Add ActionSet_Contains
    ActionSet_Equals ActionSet_Intersection
proof unfold_locales
  fix s t :: ActionSet
  show "ActionSet_Equals s t \<longleftrightarrow> (\<forall>k. ActionSet_Contains s k \<longleftrightarrow> ActionSet_Contains t k)"
    unfolding ActionSet_Equals_def card_inclusion_equal by (auto simp: ActionSet_Contains_def)
qed (auto simp: ActionSet_Contains_def ActionSet_Add_def ActionSet_Intersection_def)

lemma fmember_NewActionSet [simp]: "k |\<in>| NewActionSet ks \<longleftrightarrow> k \<in> set ks"
  using actionset.foldl_add_new [of ks k] by (simp add: NewActionSet_def ActionSet_Contains_def)

section \<open>principal.go\<close>

datatype Principal = Principal (AWS: StringSet)

definition Principal_IsValid :: "Principal \<Rightarrow> bool" where
  "Principal_IsValid p = (fcard (AWS p) \<noteq> 0)"

definition Principal_Equals :: "Principal \<Rightarrow> Principal \<Rightarrow> bool" where
  "Principal_Equals p pp = StringSet_Equals (AWS p) (AWS pp)"

definition Principal_Intersection :: "Principal \<Rightarrow> Principal \<Rightarrow> StringSet" where
  "Principal_Intersection p pp = StringSet_Intersection (AWS p) (AWS pp)"

definition json_StringSet :: "StringSet \<Rightarrow> json" where
  "json_StringSet s = JArr (map json_string (StringSet_ToSlice s))"

definition Principal_MarshalJSON :: "Principal \<Rightarrow> policy_err + json" where
  "Principal_MarshalJSON p =
     (if \<not> Principal_IsValid p then Inl InvalidPrincipal else Inr (JObj [(''AWS'', json_StringSet (AWS p))]))"

definition Principal_Match :: "Principal \<Rightarrow> string \<Rightarrow> bool go" where
  "Principal_Match p name = go_any (\<lambda>pattern. MatchSimple pattern name) (StringSet_ToSlice (AWS p))"

definition principal_field :: "jsoniter \<Rightarrow> string \<Rightarrow> json \<Rightarrow> Principal \<Rightarrow> policy_err + Principal" where
  "principal_field ji key j sp =
     (if field_is ''AWS'' key then
        (case decode_StringSet ji j of None \<Rightarrow> Inl PolicyJsonErr | Some s \<Rightarrow> Inr (Principal s))
      else Inr sp)"

definition Principal_UnmarshalJSON :: "jsoniter \<Rightarrow> json \<Rightarrow> policy_err + Principal" where
  "Principal_UnmarshalJSON ji data =
     (case (case data of
              JNull \<Rightarrow> Inr (Principal {||})
            | JObj fs \<Rightarrow> decode_struct (principal_field ji) (Principal {||}) fs
            | _ \<Rightarrow> Inl PolicyJsonErr) of
        Inr sp \<Rightarrow> Inr sp
      | Inl _ \<Rightarrow>
          (case decode_string data of
             None \<Rightarrow> Inl PolicyJsonErr
           | Some s \<Rightarrow>
               if s \<noteq> ''*'' then Inl InvalidPrincipal else Inr (Principal (CreateStringSet [''*'']))))"

definition NewPrincipal :: "string list \<Rightarrow> Principal" where
  "NewPrincipal principals = Principal (CreateStringSet principals)"

section \<open>resource.go\<close>

definition Resource_isBucketPattern :: "Resource \<Rightarrow> bool" where
  "Resource_isBucketPattern r = (\<not> Contains (res_Pattern r) ''/'')"

definition Resource_isObjectPattern :: "Resource \<Rightarrow> bool" where
  "Resource_isObjectPattern r = (Contains (res_Pattern r) ''/'' \<or> Contains (res_BucketName r) ''*'')"

definition Resource_IsValid :: "Resource \<Rightarrow> bool" where
  "Resource_IsValid r = (res_BucketName r \<noteq> [] \<and> res_Pattern r \<noteq> [])"

text \<open>The loop over \<open>CommonKeys\<close> is the one of \<open>substFuncFromValues\<close>.\<close>

definition Resource_Match :: "Resource \<Rightarrow> string \<Rightarrow> req_values \<Rightarrow> bool go" where
  "Resource_Match r resource conditionValues =
     map_option (\<lambda>pattern. Match pattern resource) (subst_loop CommonKeys conditionValues (res_Pattern r))"

definition Resource_String :: "Resource \<Rightarrow> string" where
  "Resource_String r = ResourceARNPrefix @ res_Pattern r"

definition Resource_MarshalJSON :: "Resource \<Rightarrow> policy_err + json" where
  "Resource_MarshalJSON r =
     (if \<not> Resource_IsValid r then Inl (InvalidResource (res_Pattern r)) else Inr (json_string (Resource_String r)))"

definition parseResource :: "string \<Rightarrow> policy_err + Resource" where
  "parseResource s =
     (if \<not> HasPrefix s ResourceARNPrefix then Inl (InvalidResource s)
      else
        (let pattern = TrimPrefix s ResourceARNPrefix; bucketName = hd (SplitN2 pattern ''/'') in
         if bucketName = [] then Inl (ResourceFormat s) else Inr (Resource bucketName pattern)))"

definition Resource_UnmarshalJSON :: "json \<Rightarrow> policy_err + Resource" where
  "Resource_UnmarshalJSON data =
     (case decode_string data of None \<Rightarrow> Inl PolicyJsonErr | Some s \<Rightarrow> parseResource s)"

definition Resource_Validate :: "Resource \<Rightarrow> string \<Rightarrow> policy_err option" where
  "Resource_Validate r bucketName =
     (if \<not> Resource_IsValid r then Some (InvalidResource [])
      else if \<not> Match (res_BucketName r) bucketName then Some BucketMismatch
      else None)"

definition NewResource :: "string \<Rightarrow> string \<Rightarrow> Resource" where
  "NewResource bucketName keyName =
     Resource bucketName
       (if keyName \<noteq> [] then bucketName @ (if \<not> HasPrefix keyName ''/'' then ''/'' else []) @ keyName
        else bucketName)"

section \<open>resourceset.go\<close>

definition ResourceSet_bucketResourceExists :: "ResourceSet \<Rightarrow> bool" where
  "ResourceSet_bucketResourceExists resourceSet = (\<exists>r |\<in>| resourceSet. Resource_isBucketPattern r)"

definition ResourceSet_objectResourceExists :: "ResourceSet \<Rightarrow> bool" where
  "ResourceSet_objectResourceExists resourceSet = (\<exists>r |\<in>| resourceSet. Resource_isObjectPattern r)"

definition ResourceSet_Add :: "ResourceSet \<Rightarrow> Resource \<Rightarrow> ResourceSet" where
  "ResourceSet_Add resourceSet resource = finsert resource resourceSet"

definition ResourceSet_Equals :: "ResourceSet \<Rightarrow> ResourceSet \<Rightarrow> bool" where
  "ResourceSet_Equals resourceSet sresourceSet =
     (if fcard resourceSet \<noteq> fcard sresourceSet then False
      else \<not> (\<exists>k |\<in>| resourceSet. \<not> k |\<in>| sresourceSet))"

definition ResourceSet_Intersection :: "ResourceSet \<Rightarrow> ResourceSet \<Rightarrow> ResourceSet" where
  "ResourceSet_Intersection resourceSet sset = ffilter (\<lambda>k. k |\<in>| sset) resourceSet"

definition ResourceSet_range :: "ResourceSet \<Rightarrow> Resource list" where
  "ResourceSet_range resourceSet = sorted_list_of_fset resourceSet"

definition ResourceSet_MarshalJSON :: "ResourceSet \<Rightarrow> policy_err + json" where
  "ResourceSet_MarshalJSON resourceSet =
     (if fcard resourceSet = 0 then Inl EmptyResources
      else map_sum id JArr (marshal_list Resource_MarshalJSON (ResourceSet_range resourceSet)))"

definition ResourceSet_Match :: "ResourceSet \<Rightarrow> string \<Rightarrow> req_values \<Rightarrow> bool go" where
  "ResourceSet_Match resourceSet resource conditionValues =
     go_any_set (\<lambda>r. Resource_Match r resource conditionValues) resourceSet"

definition ResourceSet_String :: "ResourceSet \<Rightarrow> string" where
  "ResourceSet_String resourceSet = sprint_slice (sort (map Resource_String (ResourceSet_range resourceSet)))"

fun add_resources :: "ResourceSet \<Rightarrow> string list \<Rightarrow> policy_err + ResourceSet" where
  "add_resources acc [] = Inr acc"
| "add_resources acc (s # ss) =
     (case parseResource s of
        Inl e \<Rightarrow> Inl e
      | Inr resource \<Rightarrow>
          if resource |\<in>| acc then Inl (DuplicateResource s)
          else add_resources (ResourceSet_Add acc resource) ss)"

definition ResourceSet_UnmarshalJSON :: "jsoniter \<Rightarrow> json \<Rightarrow> policy_err + ResourceSet" where
  "ResourceSet_UnmarshalJSON ji data =
     (case decode_StringSet ji data of
        None \<Rightarrow> Inl PolicyJsonErr
      | Some sset \<Rightarrow> add_resources {||} (StringSet_ToSlice sset))"

definition ResourceSet_Validate :: "ResourceSet \<Rightarrow> string \<Rightarrow> policy_err option" where
  "ResourceSet_Validate resourceSet bucketName =
     first_err (\<lambda>r. Resource_Validate r bucketName) (ResourceSet_range resourceSet)"

definition NewResourceSet :: "Resource list \<Rightarrow> ResourceSet" where
  "NewResourceSet resources = foldl ResourceSet_Add {||} resources"

interpretation resourceset: key_set_eq "{||} :: ResourceSet" ResourceSet_Add "\<lambda>s k. k |\<in>| s"
    ResourceSet_Equals ResourceSet_Intersection
proof unfold_locales
  fix s t :: ResourceSet
  show "ResourceSet_Equals s t \<longleftrightarrow> (\<forall>k. k |\<in>| s \<longleftrightarrow> k |\<in>| t)"
    unfolding ResourceSet_Equals_def card_inclusion_equal by auto
qed (auto simp: ResourceSet_Add_def ResourceSet_Intersection_def)

lemma fmember_NewResourceSet [simp]: "k |\<in>| NewResourceSet ks \<longleftrightarrow> k \<in> set ks"
  using resourceset.foldl_add_new [of k ks] by (simp add: NewResourceSet_def)

lemma set_ResourceSet_range [simp]: "set (ResourceSet_range rs) = fset rs"
  by (simp add: ResourceSet_range_def)

section \<open>statement.go\<close>

record Args =
  AccountName :: string
  args_Action :: Action
  args_BucketName :: string
  ConditionValues :: req_values
  IsOwner :: bool
  args_ObjectName :: string

record Statement =
  SID :: ID
  stmt_Effect :: Effect
  stmt_Principal :: Principal
  Actions :: ActionSet
  Resources :: ResourceSet
  Conditions :: Functions

text \<open>The closure \<open>check\<close> of \<open>Statement.IsAllowed\<close>.\<close>

definition Statement_check :: "(nat \<Rightarrow> nat) \<Rightarrow> Statement \<Rightarrow> Args \<Rightarrow> bool go" where
  "Statement_check uf statement args =
     (case Principal_Match (stmt_Principal statement) (AccountName args) of
        None \<Rightarrow> None
      | Some False \<Rightarrow> Some False
      | Some True \<Rightarrow>
          if \<not> ActionSet_Contains (Actions statement) (args_Action args) then Some False
          else
            (let resource = (if args_ObjectName args \<noteq> []
                             then object_path (args_BucketName args) (args_ObjectName args)
                             else args_BucketName args)
             in case ResourceSet_Match (Resources statement) resource (ConditionValues args) of
                  None \<Rightarrow> None
                | Some False \<Rightarrow> Some False
                | Some True \<Rightarrow> Functions_Evaluate uf (Conditions statement) (ConditionValues args)))"

definition Statement_IsAllowed :: "(nat \<Rightarrow> nat) \<Rightarrow> Statement \<Rightarrow> Args \<Rightarrow> bool go" where
  "Statement_IsAllowed uf statement args =
     map_option (Effect_IsAllowed (stmt_Effect statement)) (Statement_check uf statement args)"

definition statement_action_err :: "Statement \<Rightarrow> Action \<Rightarrow> policy_err option" where
  "statement_action_err statement action =
     (if Action_isObjectAction action \<and> \<not> ResourceSet_objectResourceExists (Resources statement)
        then Some (UnsupportedResource action)
      else if \<not> Action_isObjectAction action \<and> \<not> ResourceSet_bucketResourceExists (Resources statement)
        then Some (UnsupportedResource action)
      else if \<not> KeySet_IsEmpty (KeySet_Difference (Functions_Keys (Conditions statement)) (actionConditionKeyMap action))
        then Some (UnsupportedKeys action)
      else None)"

definition Statement_isValid :: "Statement \<Rightarrow> policy_err option" where
  "Statement_isValid statement =
     (if \<not> Effect_IsValid (stmt_Effect statement) then Some (InvalidEffect (stmt_Effect statement))
      else if \<not> Principal_IsValid (stmt_Principal statement) then Some InvalidPrincipal
      else if fcard (Actions statement) = 0 then Some EmptyActions
      else if fcard (Resources statement) = 0 then Some EmptyResources
      else first_err (statement_action_err statement) (ActionSet_ToSlice (Actions statement)))"

text \<open>Writing a statement: the conditions can panic, and are left out when there are none.\<close>

definition statement_fields :: "Statement \<Rightarrow> json \<Rightarrow> json \<Rightarrow> json \<Rightarrow> json \<Rightarrow> (string \<times> json) list \<Rightarrow> json" where
  "statement_fields statement e p a r cond =
     JObj ((if SID statement = [] then [] else [(''Sid'', json_string (SID statement))]) @
           [(''Effect'', e), (''Principal'', p), (''Action'', a), (''Resource'', r)] @ cond)"

definition marshal_conditions :: "Functions \<Rightarrow> (policy_err + (string \<times> json) list) go" where
  "marshal_conditions fs =
     (if fs = [] then Some (Inr [])
      else map_option (map_sum CondErr (\<lambda>j. [(''Condition'', j)])) (Functions_MarshalJSON fs))"

definition Statement_MarshalJSON :: "Statement \<Rightarrow> (policy_err + json) go" where
  "Statement_MarshalJSON statement =
     (case Statement_isValid statement of
        Some e \<Rightarrow> Some (Inl e)
      | None \<Rightarrow>
          if SID statement \<noteq> [] \<and> \<not> ID_IsValid (SID statement) then Some (Inl InvalidID)
          else
            (case (Effect_MarshalJSON (stmt_Effect statement), Principal_MarshalJSON (stmt_Principal statement),
                   ActionSet_MarshalJSON (Actions statement), ResourceSet_MarshalJSON (Resources statement)) of
               (Inr e, Inr p, Inr a, Inr r) \<Rightarrow>
                 map_option (map_sum id (statement_fields statement e p a r)) (marshal_conditions (Conditions statement))
             | (Inl e, _) \<Rightarrow> Some (Inl e)
             | (_, Inl e, _) \<Rightarrow> Some (Inl e)
             | (_, _, Inl e, _) \<Rightarrow> Some (Inl e)
             | (_, _, _, Inl e) \<Rightarrow> Some (Inl e)))"

definition Statement_zero :: Statement where
  "Statement_zero = \<lparr>SID = [], stmt_Effect = [], stmt_Principal = Principal {||}, Actions = {||},
     Resources = {||}, Conditions = []\<rparr>"

definition statement_field :: "jsoniter \<Rightarrow> string \<Rightarrow> json \<Rightarrow> Statement \<Rightarrow> policy_err + Statement" where
  "statement_field ji key j ss =
     (if field_is ''Sid'' key then map_sum id (\<lambda>x. ss\<lparr>SID := x\<rparr>) (ID_UnmarshalJSON j)
      else if field_is ''Effect'' key then map_sum id (\<lambda>x. ss\<lparr>stmt_Effect := x\<rparr>) (Effect_UnmarshalJSON j)
      else if field_is ''Principal'' key then map_sum id (\<lambda>x. ss\<lparr>stmt_Principal := x\<rparr>) (Principal_UnmarshalJSON ji j)
      else if field_is ''Action'' key then map_sum id (\<lambda>x. ss\<lparr>Actions := x\<rparr>) (ActionSet_UnmarshalJSON ji j)
      else if field_is ''Resource'' key then map_sum id (\<lambda>x. ss\<lparr>Resources := x\<rparr>) (ResourceSet_UnmarshalJSON ji j)
      else if field_is ''Condition'' key then map_sum CondErr (\<lambda>x. ss\<lparr>Conditions := x\<rparr>) (Functions_UnmarshalJSON j)
      else Inr ss)"

definition Statement_UnmarshalJSON :: "jsoniter \<Rightarrow> json \<Rightarrow> policy_err + Statement" where
  "Statement_UnmarshalJSON ji data =
     (case (case data of
              JNull \<Rightarrow> Inr Statement_zero
            | JObj fs \<Rightarrow> decode_struct (statement_field ji) Statement_zero fs
            | _ \<Rightarrow> Inl PolicyJsonErr) of
        Inl e \<Rightarrow> Inl e
      | Inr s \<Rightarrow> (case Statement_isValid s of Some e \<Rightarrow> Inl e | None \<Rightarrow> Inr s))"

definition Statement_Validate :: "Statement \<Rightarrow> string \<Rightarrow> policy_err option" where
  "Statement_Validate statement bucketName =
     (case Statement_isValid statement of
        Some e \<Rightarrow> Some e
      | None \<Rightarrow> ResourceSet_Validate (Resources statement) bucketName)"

definition NewStatement :: "Effect \<Rightarrow> Principal \<Rightarrow> ActionSet \<Rightarrow> ResourceSet \<Rightarrow> Functions \<Rightarrow> Statement" where
  "NewStatement effect prin actionSet resourceSet conditions =
     \<lparr>SID = [], stmt_Effect = effect, stmt_Principal = prin, Actions = actionSet,
      Resources = resourceSet, Conditions = conditions\<rparr>"

section \<open>policy.go\<close>

definition DefaultVersion :: string where
  "DefaultVersion = ''2012-10-17''"

record Policy =
  pol_ID :: ID
  Version :: string
  Statements :: "Statement list"

definition statements_allowed :: "(nat \<Rightarrow> nat) \<Rightarrow> Statement list \<Rightarrow> Args \<Rightarrow> bool go" where
  "statements_allowed uf statements args =
     (case go_any (\<lambda>s. if stmt_Effect s = Deny then go_not (Statement_IsAllowed uf s args) else Some False) statements of
        None \<Rightarrow> None
      | Some True \<Rightarrow> Some False
      | Some False \<Rightarrow>
          if IsOwner args then Some True
          else go_any (\<lambda>s. if stmt_Effect s = Allow then Statement_IsAllowed uf s args else Some False) statements)"

definition Policy_IsAllowed :: "(nat \<Rightarrow> nat) \<Rightarrow> Policy \<Rightarrow> Args \<Rightarrow> bool go" where
  "Policy_IsAllowed uf policy args = statements_allowed uf (Statements policy) args"

definition Policy_IsEmpty :: "Policy \<Rightarrow> bool" where
  "Policy_IsEmpty policy = (length (Statements policy) = 0)"

definition Policy_isValid :: "Policy \<Rightarrow> policy_err option" where
  "Policy_isValid policy =
     (if Version policy \<noteq> DefaultVersion \<and> Version policy \<noteq> [] then Some (InvalidVersion (Version policy))
      else first_err Statement_isValid (Statements policy))"

fun marshal_statements :: "('s \<Rightarrow> (policy_err + json) go) \<Rightarrow> 's list \<Rightarrow> (policy_err + json list) go" where
  "marshal_statements f [] = Some (Inr [])"
| "marshal_statements f (s # ss) =
     (case f s of
        None \<Rightarrow> None
      | Some (Inl e) \<Rightarrow> Some (Inl e)
      | Some (Inr j) \<Rightarrow> map_option (map_sum id (\<lambda>js. j # js)) (marshal_statements f ss))"

definition policy_fields :: "ID \<Rightarrow> string \<Rightarrow> json list \<Rightarrow> json" where
  "policy_fields i version js =
     JObj ((if i = [] then [] else [(''ID'', json_string i)]) @
           [(''Version'', json_string version), (''Statement'', JArr js)])"

text \<open>The model has one empty slice of statements; Go writes a nil one as \<open>null\<close>.\<close>

definition Policy_MarshalJSON :: "Policy \<Rightarrow> (policy_err + json) go" where
  "Policy_MarshalJSON policy =
     (case Policy_isValid policy of
        Some e \<Rightarrow> Some (Inl e)
      | None \<Rightarrow>
          if pol_ID policy \<noteq> [] \<and> \<not> ID_IsValid (pol_ID policy) then Some (Inl InvalidID)
          else map_option (map_sum id (policy_fields (pol_ID policy) (Version policy)))
                 (marshal_statements Statement_MarshalJSON (Statements policy)))"

definition same_statement :: "Statement \<Rightarrow> Statement \<Rightarrow> bool" where
  "same_statement x y \<longleftrightarrow>
     stmt_Effect x = stmt_Effect y \<and>
     Principal_Equals (stmt_Principal x) (stmt_Principal y) \<and>
     ActionSet_Equals (Actions x) (Actions y) \<and>
     ResourceSet_Equals (Resources x) (Resources y) \<and>
     Functions_String (Conditions x) = Functions_String (Conditions y)"

definition dropDuplicateStatements :: "Policy \<Rightarrow> Policy" where
  "dropDuplicateStatements policy = policy\<lparr>Statements := drop_dups same_statement (Statements policy)\<rparr>"

definition Policy_zero :: Policy where
  "Policy_zero = \<lparr>pol_ID = [], Version = [], Statements = []\<rparr>"

definition policy_field :: "jsoniter \<Rightarrow> string \<Rightarrow> json \<Rightarrow> Policy \<Rightarrow> policy_err + Policy" where
  "policy_field ji key j sp =
     (if field_is ''ID'' key then map_sum id (\<lambda>x. sp\<lparr>pol_ID := x\<rparr>) (ID_UnmarshalJSON j)
      else if field_is ''Version'' key then
        (case j of JNull \<Rightarrow> Inr sp | JStr s \<Rightarrow> Inr (sp\<lparr>Version := s\<rparr>) | _ \<Rightarrow> Inl PolicyJsonErr)
      else if field_is ''Statement'' key then
        (case j of
           JNull \<Rightarrow> Inr (sp\<lparr>Statements := []\<rparr>)
         | JArr js \<Rightarrow> map_sum id (\<lambda>x. sp\<lparr>Statements := x\<rparr>) (decode_objects (Statement_UnmarshalJSON ji) js)
         | _ \<Rightarrow> Inl PolicyJsonErr)
      else Inr sp)"

definition Policy_UnmarshalJSON :: "jsoniter \<Rightarrow> json \<Rightarrow> policy_err + Policy" where
  "Policy_UnmarshalJSON ji data =
     (case (case data of
              JNull \<Rightarrow> Inr Policy_zero
            | JObj fs \<Rightarrow> decode_struct (policy_field ji) Policy_zero fs
            | _ \<Rightarrow> Inl PolicyJsonErr) of
        Inl e \<Rightarrow> Inl e
      | Inr p \<Rightarrow> (case Policy_isValid p of Some e \<Rightarrow> Inl e | None \<Rightarrow> Inr (dropDuplicateStatements p)))"

definition Policy_Validate :: "Policy \<Rightarrow> string \<Rightarrow> policy_err option" where
  "Policy_Validate policy bucketName =
     (case Policy_isValid policy of
        Some e \<Rightarrow> Some e
      | None \<Rightarrow> first_err (\<lambda>s. Statement_Validate s bucketName) (Statements policy))"

text \<open>
  \<open>ParseConfig\<close> returns the policy also when the validation fails.  \<open>DisallowUnknownFields\<close> has
  no effect: \<open>Policy\<close> has an \<open>UnmarshalJSON\<close> of its own, which decodes with default settings.
\<close>

definition ParseConfig :: "jsoniter \<Rightarrow> json \<Rightarrow> string \<Rightarrow> Policy option \<times> policy_err option" where
  "ParseConfig ji data bucketName =
     (case Policy_UnmarshalJSON ji data of
        Inl e \<Rightarrow> (None, Some e)
      | Inr policy \<Rightarrow> (Some policy, Policy_Validate policy bucketName))"

section \<open>When a statement matches\<close>

text \<open>
  The declarative reading of \<open>check\<close>: some principal pattern covers the account, the action is
  listed, some resource pattern covers the resource after the policy variables are replaced, and
  every condition holds.
\<close>

definition request_resource :: "Args \<Rightarrow> string" where
  "request_resource args =
     (if args_ObjectName args \<noteq> [] then object_path (args_BucketName args) (args_ObjectName args)
      else args_BucketName args)"

definition applies :: "(nat \<Rightarrow> nat) \<Rightarrow> Statement \<Rightarrow> Args \<Rightarrow> bool" where
  "applies uf st args \<longleftrightarrow>
     (\<exists>p |\<in>| AWS (stmt_Principal st). glob (runes p) (runes (AccountName args))) \<and>
     args_Action args |\<in>| Actions st \<and>
     (\<exists>r |\<in>| Resources st. \<exists>p. substFuncFromValues (ConditionValues args) (res_Pattern r) = Some p \<and>
        glob (runes p) (runes (request_resource args))) \<and>
     (\<forall>f \<in> set (Conditions st). Function_evaluate uf f (ConditionValues args) = Some True)"

text \<open>Statements whose evaluation cannot panic: no question mark in a principal pattern, and
  address conditions on the source address only.\<close>

definition Statement_safe :: "Statement \<Rightarrow> bool" where
  "Statement_safe st \<longleftrightarrow>
     (\<forall>p |\<in>| AWS (stmt_Principal st). CHR ''?'' \<notin> set p) \<and> list_all Function_wf (Conditions st)"

lemma Principal_Match_safe:
  assumes "\<forall>p |\<in>| AWS pr. CHR ''?'' \<notin> set p"
  shows "Principal_Match pr name = Some (\<exists>p |\<in>| AWS pr. glob (runes p) (runes name))"
proof -
  have "MatchSimple p name = Some (glob (runes p) (runes name))" if "p |\<in>| AWS pr" for p
  proof -
    have "ascii CHR ''?'' = rune_qmark" by (simp add: ascii_def rune_qmark_def)
    then have "rune_qmark \<notin> set (runes p)"
      using rune_of_char [of "CHR ''?''" p] assms that by (simp add: rune_qmark_def)
    then show ?thesis using MatchSimple_no_qmark [of p name] by (simp add: Match_glob)
  qed
  then show ?thesis
    unfolding Principal_Match_def by (subst go_any_total) auto
qed

lemma ResourceSet_Match_safe:
  assumes "common_values_ok values"
  shows "ResourceSet_Match rs resource values = Some (\<exists>r |\<in>| rs. \<exists>p.
    substFuncFromValues values (res_Pattern r) = Some p \<and> glob (runes p) (runes resource))"
proof -
  have "Resource_Match r resource values \<noteq> None" for r
    using assms substFuncFromValues_None [of "values" "res_Pattern r"]
    by (simp add: Resource_Match_def substFuncFromValues_def)
  then have "ResourceSet_Match rs resource values = Some (\<exists>r |\<in>| rs. Resource_Match r resource values = Some True)"
    unfolding ResourceSet_Match_def by (intro go_any_set_total)
  also have "(\<exists>r |\<in>| rs. Resource_Match r resource values = Some True) = (\<exists>r |\<in>| rs. \<exists>p.
      substFuncFromValues values (res_Pattern r) = Some p \<and> glob (runes p) (runes resource))"
    by (auto simp: Resource_Match_def substFuncFromValues_def Match_glob)
  finally show ?thesis .
qed

lemma Statement_check_applies:
  assumes "Statement_safe st" and "request_ok (ConditionValues args)"
  shows "Statement_check uf st args = Some (applies uf st args)"
proof -
  have safe: "\<forall>p |\<in>| AWS (stmt_Principal st). CHR ''?'' \<notin> set p" "list_all Function_wf (Conditions st)"
    using assms(1) by (simp_all add: Statement_safe_def)
  show ?thesis
    unfolding Statement_check_def Principal_Match_safe [OF safe(1)] Let_def request_resource_def [symmetric]
      ResourceSet_Match_safe [OF request_okD [OF assms(2)]] Functions_Evaluate_total [OF assms(2) safe(2)]
    by (auto simp: applies_def ActionSet_Contains_def split: bool.split)
qed

interpretation bp: policy_engine stmt_Effect "Statement_check uf" "Statement_IsAllowed uf" IsOwner
    "statements_allowed uf" for uf
  by unfold_locales (simp_all add: Statement_IsAllowed_def statements_allowed_def)

lemma bp_denied_applies:
  assumes "list_all Statement_safe ss" and "request_ok (ConditionValues args)"
  shows "bp.denied uf ss args \<longleftrightarrow> (\<exists>s \<in> set ss. stmt_Effect s = Deny \<and> applies uf s args)"
  unfolding bp.denied_def using assms by (auto simp: list_all_iff Statement_check_applies)

lemma bp_granted_applies:
  assumes "list_all Statement_safe ss" and "request_ok (ConditionValues args)"
  shows "bp.granted uf ss args \<longleftrightarrow> (\<exists>s \<in> set ss. stmt_Effect s = Allow \<and> applies uf s args)"
  unfolding bp.granted_def using assms by (auto simp: list_all_iff Statement_check_applies)

lemma statements_allowed_applies:
  assumes "list_all Statement_safe ss" and "request_ok (ConditionValues args)"
  shows "statements_allowed uf ss args =
    Some (\<not> (\<exists>s \<in> set ss. stmt_Effect s = Deny \<and> applies uf s args) \<and>
          (IsOwner args \<or> (\<exists>s \<in> set ss. stmt_Effect s = Allow \<and> applies uf s args)))"
proof -
  have "statements_allowed uf ss args =
      Some (\<not> bp.denied uf ss args \<and> (IsOwner args \<or> bp.granted uf ss args))"
    using assms by (intro bp.decision) (auto simp: list_all_iff Statement_check_applies)
  then show ?thesis by (simp add: bp_denied_applies [OF assms] bp_granted_applies [OF assms])
qed

section \<open>Valid statements and policies\<close>

lemma fcard_0 [simp]: "fcard A = 0 \<longleftrightarrow> A = {||}"
  by simp

lemma Statement_isValid_None:
  "Statement_isValid st = None \<longleftrightarrow>
     Effect_IsValid (stmt_Effect st) \<and> AWS (stmt_Principal st) \<noteq> {||} \<and> Actions st \<noteq> {||} \<and>
     Resources st \<noteq> {||} \<and>
     (\<forall>a |\<in>| Actions st.
        (if Action_isObjectAction a then ResourceSet_objectResourceExists (Resources st)
         else ResourceSet_bucketResourceExists (Resources st)) \<and>
        (\<forall>f \<in> set (Conditions st). Function_key f |\<in>| actionConditionKeyMap a))"
proof -
  have keys: "Functions_Keys fs |\<subseteq>| ks \<longleftrightarrow> (\<forall>f \<in> set fs. Function_key f |\<in>| ks)" for fs ks
    by (auto simp: Functions_Keys_iff less_eq_fset.rep_eq subset_iff)
  have act: "statement_action_err st a = None \<longleftrightarrow>
        (if Action_isObjectAction a then ResourceSet_objectResourceExists (Resources st)
         else ResourceSet_bucketResourceExists (Resources st)) \<and>
        (\<forall>f \<in> set (Conditions st). Function_key f |\<in>| actionConditionKeyMap a)" for a
    by (auto simp: statement_action_err_def KeySet_Difference_empty keys)
  have "first_err (statement_action_err st) (ActionSet_ToSlice (Actions st)) = None \<longleftrightarrow>
      (\<forall>a |\<in>| Actions st. statement_action_err st a = None)"
    by (auto simp: ActionSet_ToSlice_def)
  then show ?thesis
    unfolding Statement_isValid_def act by (auto simp: Principal_IsValid_def)
qed

lemma ResourceSet_Validate_None:
  "ResourceSet_Validate rs b = None \<longleftrightarrow> (\<forall>r |\<in>| rs. Resource_IsValid r \<and> glob (runes (res_BucketName r)) (runes b))"
  by (auto simp: ResourceSet_Validate_def Resource_Validate_def Match_glob)

lemma Policy_Validate_None:
  "Policy_Validate p b = None \<longleftrightarrow>
     (Version p = DefaultVersion \<or> Version p = []) \<and>
     (\<forall>s \<in> set (Statements p). Statement_isValid s = None \<and>
        (\<forall>r |\<in>| Resources s. Resource_IsValid r \<and> glob (runes (res_BucketName r)) (runes b)))"
proof -
  have "Policy_isValid p = None \<longleftrightarrow> (Version p = DefaultVersion \<or> Version p = []) \<and>
      (\<forall>s \<in> set (Statements p). Statement_isValid s = None)"
    by (auto simp: Policy_isValid_def)
  moreover have "Statement_Validate s b = None \<longleftrightarrow> Statement_isValid s = None \<and>
      (\<forall>r |\<in>| Resources s. Resource_IsValid r \<and> glob (runes (res_BucketName r)) (runes b))" for s
    by (auto simp: Statement_Validate_def ResourceSet_Validate_None [symmetric] split: option.splits)
  ultimately show ?thesis
    by (auto simp: Policy_Validate_def split: option.splits)
qed

section \<open>Reading documents\<close>

lemma decode_struct_inv:
  assumes "\<And>k j st st'. P st \<Longrightarrow> f k j st = Inr st' \<Longrightarrow> P st'"
  shows "P st \<Longrightarrow> decode_struct f st fs = Inr st' \<Longrightarrow> P st'"
proof (induction fs arbitrary: st)
  case (Cons kj fs)
  then show ?case by (cases kj) (auto split: sum.splits dest: assms)
qed simp

lemma statement_field_wf:
  "list_all Function_wf (Conditions st) \<Longrightarrow> statement_field ji k j st = Inr st' \<Longrightarrow>
     list_all Function_wf (Conditions st')"
  by (cases "Functions_UnmarshalJSON j")
    (auto simp: statement_field_def map_sum_Inr Functions_UnmarshalJSON_wf split: if_splits)

lemma Statement_UnmarshalJSON_valid:
  assumes "Statement_UnmarshalJSON ji data = Inr s"
  shows "Statement_isValid s = None \<and> list_all Function_wf (Conditions s)"
proof -
  have "list_all Function_wf (Conditions st)"
    if "decode_struct (statement_field ji) Statement_zero fs = Inr st" for fs st
    by (rule decode_struct_inv [OF _ _ that]) (auto intro: statement_field_wf simp: Statement_zero_def)
  moreover have "list_all Function_wf (Conditions Statement_zero)" by (simp add: Statement_zero_def)
  ultimately show ?thesis
    using assms by (cases data) (auto simp: Statement_UnmarshalJSON_def split: sum.splits option.splits)
qed

lemma decode_objects_all:
  assumes "\<And>j x. f j = Inr x \<Longrightarrow> P x"
  shows "decode_objects f js = Inr xs \<Longrightarrow> list_all P xs"
  by (induction js arbitrary: xs) (auto simp: map_sum_Inr assms split: sum.splits)

definition good_statements :: "Policy \<Rightarrow> bool" where
  "good_statements p = list_all (\<lambda>s. Statement_isValid s = None \<and> list_all Function_wf (Conditions s)) (Statements p)"

lemma policy_field_good:
  assumes "good_statements p" and "policy_field ji k j p = Inr p'"
  shows "good_statements p'"
proof -
  have list: "good_statements (p\<lparr>Statements := ss\<rparr>)"
    if "decode_objects (Statement_UnmarshalJSON ji) js = Inr ss" for js ss
    unfolding good_statements_def using decode_objects_all [OF Statement_UnmarshalJSON_valid that] by simp
  have id: "good_statements (p\<lparr>pol_ID := x\<rparr>)" "good_statements (p\<lparr>Version := x\<rparr>)" "good_statements (p\<lparr>Statements := []\<rparr>)" for x
    using assms(1) by (simp_all add: good_statements_def)
  show ?thesis
    using assms by (auto simp: policy_field_def map_sum_Inr list id split: if_splits json.splits)
qed

lemma Policy_UnmarshalJSON_good:
  assumes "Policy_UnmarshalJSON ji data = Inr p"
  shows "good_statements p \<and> no_dups same_statement (Statements p) \<and> Policy_isValid p = None"
proof -
  have zero: "good_statements Policy_zero" by (simp add: Policy_zero_def good_statements_def)
  moreover have "good_statements q" if "decode_struct (policy_field ji) Policy_zero fs = Inr q" for fs q
    by (rule decode_struct_inv [where P = good_statements, OF policy_field_good zero that])
  ultimately obtain q where q: "good_statements q" "Policy_isValid q = None" "p = dropDuplicateStatements q"
    using assms by (cases data) (auto simp: Policy_UnmarshalJSON_def split: sum.splits option.splits)
  have sub: "set (Statements p) \<subseteq> set (Statements q)"
    by (simp add: q(3) dropDuplicateStatements_def set_drop_dups)
  have "good_statements p" using q(1) sub by (auto simp: good_statements_def list_all_iff)
  moreover have "Policy_isValid p = None"
  proof -
    have "Version p = Version q" by (simp add: q(3) dropDuplicateStatements_def)
    with q(2) sub show ?thesis by (auto simp: Policy_isValid_def split: if_splits)
  qed
  moreover have "no_dups same_statement (Statements p)"
    by (simp add: q(3) dropDuplicateStatements_def drop_dups_no_dups)
  ultimately show ?thesis by simp
qed

section \<open>Printing and reading a resource\<close>

definition Resource_wf :: "Resource \<Rightarrow> bool" where
  "Resource_wf r \<longleftrightarrow> res_BucketName r \<noteq> [] \<and> res_BucketName r = hd (SplitN2 (res_Pattern r) ''/'')"

lemma parseResource_String: "parseResource (Resource_String r) = Inr r \<longleftrightarrow> Resource_wf r"
  by (cases r) (auto simp: parseResource_def Resource_String_def Resource_wf_def Let_def)

lemma parseResource_Inr:
  "parseResource s = Inr r \<Longrightarrow> Resource_String r = s \<and> Resource_wf r \<and> Resource_IsValid r"
  by (auto simp: parseResource_def Resource_String_def Resource_wf_def Resource_IsValid_def Let_def HasPrefix_iff
      SplitN2_def split: if_splits option.splits)

lemma NewResource_wf:
  assumes "b \<noteq> []" and "CHR ''/'' \<notin> set b"
  shows "Resource_wf (NewResource b k)"
proof (cases "k = []")
  case True
  with assms show ?thesis by (simp add: Resource_wf_def NewResource_def SplitN2_char_absent)
next
  case False
  then obtain t where "(if \<not> HasPrefix k ''/'' then ''/'' else []) @ k = CHR ''/'' # t"
    by (cases k; cases "hd k = CHR ''/''") auto
  then have "res_Pattern (NewResource b k) = b @ CHR ''/'' # t"
    using False by (simp add: NewResource_def)
  with assms show ?thesis by (simp add: Resource_wf_def NewResource_def SplitN2_char_append)
qed

section \<open>Duplicate statements\<close>

lemma same_statement_iff:
  "same_statement x y \<longleftrightarrow> stmt_Effect x = stmt_Effect y \<and> stmt_Principal x = stmt_Principal y \<and>
     Actions x = Actions y \<and> Resources x = Resources y \<and>
     Functions_String (Conditions x) = Functions_String (Conditions y)"
  by (auto simp: same_statement_def Principal_Equals_def StringSet_Equals_eq actionset.equals_eq
      resourceset.equals_eq Principal.expand)

text \<open>With the second statement between two equal ones, the search removes it: the index of the
  inner loop counts from the statement after the first.\<close>

lemma drop_dups_loses_middle:
  assumes "same_statement a a" and "\<not> same_statement a d"
  shows "drop_dups same_statement [a, d, a] = [a]"
  using assms by (simp add: drop_dups.simps)

lemma same_statement_refl [simp]: "same_statement a a"
  by (simp add: same_statement_iff)

section \<open>Properties\<close>

text \<open>Inputs for the instances below: everyone may read the objects of the bucket \<open>b\<close>, and
  nobody may read those under \<open>b/x\<close>.\<close>

definition ex_allow :: Statement where
  "ex_allow = NewStatement Allow (NewPrincipal [''*'']) (NewActionSet [GetObjectAction])
     (NewResourceSet [NewResource ''b'' ''*'']) []"

definition ex_deny :: Statement where
  "ex_deny = NewStatement Deny (NewPrincipal [''*'']) (NewActionSet [GetObjectAction])
     (NewResourceSet [NewResource ''b'' ''x'']) []"

definition ex_args :: "string \<Rightarrow> Args" where
  "ex_args object = \<lparr>AccountName = ''alice'', args_Action = GetObjectAction, args_BucketName = ''b'',
     ConditionValues = Map.empty, IsOwner = False, args_ObjectName = object\<rparr>"

definition ex_policy :: "Statement list \<Rightarrow> Policy" where
  "ex_policy ss = \<lparr>pol_ID = [], Version = DefaultVersion, Statements = ss\<rparr>"

lemma ex_safe: "Statement_safe ex_allow" "Statement_safe ex_deny"
  by (simp_all add: Statement_safe_def ex_allow_def ex_deny_def NewStatement_def NewPrincipal_def)

lemma ex_request_ok: "request_ok (ConditionValues (ex_args object))"
  by (simp add: request_ok_def common_values_ok_def requestValue_def ex_args_def list_all_iff)

lemma ex_owner: "\<not> IsOwner (ex_args object)"
  by (simp add: ex_args_def)

lemma ex_fields:
  "stmt_Effect ex_allow = Allow" "stmt_Effect ex_deny = Deny"
  "Conditions ex_allow = []" "Conditions ex_deny = []"
  "AWS (stmt_Principal ex_allow) = {|''*''|}" "AWS (stmt_Principal ex_deny) = {|''*''|}"
  "Actions ex_allow = {|GetObjectAction|}" "Actions ex_deny = {|GetObjectAction|}"
  "Resources ex_allow = {|Resource ''b'' ''b/*''|}" "Resources ex_deny = {|Resource ''b'' ''b/x''|}"
  by (auto simp: ex_allow_def ex_deny_def NewStatement_def NewPrincipal_def NewActionSet_def
      ActionSet_Add_def NewResourceSet_def ResourceSet_Add_def NewResource_def)

lemma ex_substitution:
  "substFuncFromValues (ConditionValues (ex_args object)) ''b/*'' = Some ''b/*''"
  "substFuncFromValues (ConditionValues (ex_args object)) ''b/x'' = Some ''b/x''"
  using request_okD [OF ex_request_ok]
  by (auto intro!: substFuncFromValues_absent simp: Contains_iff Cons_eq_append_conv append_eq_Cons_conv)

lemma ex_resource: "request_resource (ex_args ''x'') = ''b/x''"
  by (simp add: request_resource_def object_path_def ex_args_def)

lemma ex_applies: "applies uf ex_allow (ex_args ''x'')" "applies uf ex_deny (ex_args ''x'')"
proof -
  have "literal ''b/''" "literal ''b/x''" by (simp_all add: literal_def is_ascii_def ascii_def)
  then have "Match (''b/'' @ ''*'') ''b/x''" "Match ''b/x'' ''b/x''"
    by (simp_all only: Match_literal_star Match_literal) simp
  then have "glob (runes ''b/*'') (runes ''b/x'')" "glob (runes ''b/x'') (runes ''b/x'')"
    by (simp_all add: Match_glob)
  then show "applies uf ex_allow (ex_args ''x'')" "applies uf ex_deny (ex_args ''x'')"
    unfolding applies_def ex_fields ex_resource by (simp_all add: ex_substitution) (simp_all add: ex_args_def)
qed



text \<open>C17: the removal of duplicates, which every policy document goes through when it is read,
  can remove a statement that is no duplicate: between two equal Allow statements a Deny
  statement is lost, and the decision turns from refused to allowed.\<close>

theorem dropDuplicateStatements_loses_deny:
  assumes "Statements policy = [allow, deny, allow]"
    and "stmt_Effect allow = Allow" and "stmt_Effect deny = Deny"
    and "list_all Statement_safe (Statements policy)" and "request_ok (ConditionValues args)"
    and "applies uf allow args" and "applies uf deny args"
  shows "Policy_IsAllowed uf policy args = Some False \<and>
    Policy_IsAllowed uf (dropDuplicateStatements policy) args = Some True"
proof -
  have "\<not> same_statement allow deny" using assms by (simp add: same_statement_iff)
  then have "Statements (dropDuplicateStatements policy) = [allow]"
    by (simp add: dropDuplicateStatements_def assms(1) drop_dups_loses_middle)
  moreover have "list_all Statement_safe [allow]" using assms(1,4) by simp
  ultimately have "Policy_IsAllowed uf (dropDuplicateStatements policy) args = Some True"
    using statements_allowed_applies [of "[allow]" args uf] assms by (simp add: Policy_IsAllowed_def)
  moreover have "Policy_IsAllowed uf policy args = Some False"
    unfolding Policy_IsAllowed_def using statements_allowed_applies [OF assms(4,5), of uf] assms by simp
  ultimately show ?thesis by simp
qed

theorem dropDuplicateStatements_loses_deny_witness:
  "Policy_IsAllowed id (ex_policy [ex_allow, ex_deny, ex_allow]) (ex_args ''x'') = Some False \<and>
   Policy_IsAllowed id (dropDuplicateStatements (ex_policy [ex_allow, ex_deny, ex_allow])) (ex_args ''x'') = Some True"
  by (rule dropDuplicateStatements_loses_deny [of _ ex_allow ex_deny])
    (simp_all add: ex_policy_def ex_fields ex_safe ex_applies ex_request_ok)

text \<open>C20: a policy that was read from a document passes its own validation, has no two statements
  that \<open>dropDuplicateStatements\<close> calls equal, and all its conditions are well formed; so for a
  request whose values are in order it is evaluated without a panic as far as the conditions go.\<close>

theorem Policy_UnmarshalJSON_invariant:
  assumes "Policy_UnmarshalJSON ji data = Inr policy"
  shows "Policy_isValid policy = None \<and> no_dups same_statement (Statements policy) \<and>
    (\<forall>s \<in> set (Statements policy). Statement_isValid s = None \<and> list_all Function_wf (Conditions s))"
  using Policy_UnmarshalJSON_good [OF assms] by (auto simp: good_statements_def list_all_iff)

definition plain_jsoniter :: jsoniter where
  "plain_jsoniter = \<lparr>ji_slice = decode_slice decode_string, ji_string = decode_string\<rparr>"

definition ex_document :: json where
  "ex_document = JObj [(''Version'', JStr DefaultVersion), (''Statement'', JArr [])]"

theorem Policy_UnmarshalJSON_invariant_witness:
  "Policy_UnmarshalJSON plain_jsoniter ex_document = Inr (ex_policy []) \<and>
   Policy_isValid (ex_policy []) = None \<and> no_dups same_statement (Statements (ex_policy []))"
proof -
  have runes: "runes ''ID'' = [73, 68]" "runes ''Version'' = [86, 101, 114, 115, 105, 111, 110]"
    "runes ''Statement'' = [83, 116, 97, 116, 101, 109, 101, 110, 116]"
    by (simp_all add: runes_ascii is_ascii_def ascii_def)
  have read: "Policy_UnmarshalJSON plain_jsoniter ex_document = Inr (ex_policy [])"
    by (simp add: Policy_UnmarshalJSON_def ex_document_def policy_field_def field_is_def runes
        fold_name_rune_def Policy_zero_def Policy_isValid_def dropDuplicateStatements_def drop_dups.simps ex_policy_def)
  with Policy_UnmarshalJSON_invariant [OF read] show ?thesis by simp
qed

text \<open>C22: validation against a bucket accepts exactly the policies whose version is known, whose
  statements have a valid effect, principals, actions and resources, a resource of the right kind
  for every action, only condition keys the action supports, and only resources of that bucket.\<close>

theorem Policy_Validate_accepts:
  "Policy_Validate policy bucketName = None \<longleftrightarrow>
     (Version policy = DefaultVersion \<or> Version policy = []) \<and>
     list_all (\<lambda>s.
       Effect_IsValid (stmt_Effect s) \<and> AWS (stmt_Principal s) \<noteq> {||} \<and> Actions s \<noteq> {||} \<and> Resources s \<noteq> {||} \<and>
       fBall (Actions s) (\<lambda>a.
         (if Action_isObjectAction a then ResourceSet_objectResourceExists (Resources s)
          else ResourceSet_bucketResourceExists (Resources s)) \<and>
         list_all (\<lambda>f. Function_key f |\<in>| actionConditionKeyMap a) (Conditions s)) \<and>
       fBall (Resources s) (\<lambda>r. Resource_IsValid r \<and> glob (runes (res_BucketName r)) (runes bucketName)))
     (Statements policy)"
  unfolding Policy_Validate_None Statement_isValid_None list_all_iff by blast

theorem Policy_Validate_accepts_witness:
  "Policy_Validate (ex_policy [ex_allow]) ''b'' = None \<and> Policy_Validate (ex_policy [ex_allow]) ''c'' \<noteq> None"
proof -
  have "literal ''b''" by (simp add: literal_def is_ascii_def ascii_def)
  then have "glob (runes ''b'') (runes ''b'')" "\<not> glob (runes ''b'') (runes ''c'')"
    by (simp_all add: Match_literal flip: Match_glob)
  moreover have "ResourceSet_objectResourceExists {|Resource ''b'' ''b/*''|}"
    by (simp add: ResourceSet_objectResourceExists_def Resource_isObjectPattern_def Contains_single)
  moreover have "Action_isObjectAction GetObjectAction"
    by (simp add: Action_isObjectAction_def supportedObjectActions_def)
  moreover have "Effect_IsValid Allow" by (simp add: Effect_IsValid_def)
  ultimately show ?thesis
    unfolding Policy_Validate_accepts by (simp add: ex_policy_def ex_fields Resource_IsValid_def)
qed

text \<open>a resource that was parsed prints as the text it came from, and the resources that parse
  back from their printed form are exactly those whose bucket is what stands before the first
  slash of the pattern; \<open>NewResource\<close> makes such a resource for every bucket name without slash.\<close>

theorem Resource_roundtrip:
  "(parseResource (Resource_String r) = Inr r \<longleftrightarrow> Resource_wf r) \<and>
   (parseResource s = Inr r \<longrightarrow> Resource_String r = s \<and> Resource_wf r \<and> Resource_IsValid r) \<and>
   (b \<noteq> [] \<and> CHR ''/'' \<notin> set b \<longrightarrow> parseResource (Resource_String (NewResource b k)) = Inr (NewResource b k))"
  using parseResource_String [of r] parseResource_Inr [of s r] NewResource_wf [of b k]
  by (auto simp: parseResource_String)

theorem Resource_roundtrip_witness:
  "parseResource ''arn:aws:s3:::b/k'' = Inr (Resource ''b'' ''b/k'') \<and>
   Resource_String (Resource ''b'' ''b/k'') = ''arn:aws:s3:::b/k'' \<and>
   parseResource (Resource_String (NewResource ''b'' ''k'')) = Inr (NewResource ''b'' ''k'')"
proof -
  have "parseResource ''arn:aws:s3:::b/k'' = Inr (Resource ''b'' ''b/k'')"
    by (simp add: parseResource_def ResourceARNPrefix_def TrimPrefix_def SplitN2_def)
  with Resource_roundtrip [of "Resource ''b'' ''b/k''" "''arn:aws:s3:::b/k''" "''b''" "''k''"]
  show ?thesis by simp
qed

end
