(* ===== verification/GoPath.thy ===== *)
theory GoPath
  imports GoStrings
begin

text \<open>
  What is used of the Go package \<open>path\<close>, and \<open>pathJoin\<close> of
  \<open>cmd/ipos/cmd/object-api-utils.go\<close>, which keeps a trailing slash.
\<close>

section \<open>path.Clean\<close>

text \<open>The lexical cleaning of a slash separated path: empty and \<open>.\<close> elements go, \<open>..\<close> takes the
  element before it away, or goes at the root.\<close>

fun clean_step :: "bool \<Rightarrow> string list \<Rightarrow> string list \<Rightarrow> string list" where
  "clean_step rooted st [] = rev st"
| "clean_step rooted st (c # cs) =
     (if c = [] \<or> c = ''.'' then clean_step rooted st cs
      else if c = ''..'' then
        (case st of
           [] \<Rightarrow> clean_step rooted (if rooted then [] else [c]) cs
         | d # ds \<Rightarrow> if d = ''..'' then clean_step rooted (c # st) cs else clean_step rooted ds cs)
      else clean_step rooted (c # st) cs)"

definition path_Clean :: "string \<Rightarrow> string" where
  "path_Clean p =
     (if p = [] then ''.''
      else
        (let rooted = HasPrefix p ''/''; out = JoinOn ''/'' (clean_step rooted [] (SplitOn CHR ''/'' p)) in
         if rooted then ''/'' @ out else if out = [] then ''.'' else out))"

text \<open>\<open>path.Join\<close>: the elements that are not empty, with slashes between, cleaned.\<close>

definition path_Join :: "string list \<Rightarrow> string" where
  "path_Join elem =
     (let es = dropWhile (\<lambda>e. e = []) elem in if es = [] then [] else path_Clean (JoinOn ''/'' es))"

definition pathJoin :: "string list \<Rightarrow> string" where
  "pathJoin elem =
     path_Join elem @ (if elem \<noteq> [] \<and> HasSuffix (last elem) ''/'' then ''/'' else [])"

section \<open>Cleaning twice\<close>

fun clean_stack :: "bool \<Rightarrow> string list \<Rightarrow> bool" where
  "clean_stack rooted [] = True"
| "clean_stack rooted (d # ds) \<longleftrightarrow>
     d \<noteq> [] \<and> d \<noteq> ''.'' \<and> CHR ''/'' \<notin> set d \<and> (d = ''..'' \<longrightarrow> \<not> rooted \<and> set ds \<subseteq> {''..''}) \<and> clean_stack rooted ds"

lemma clean_step_stack:
  assumes "clean_stack rooted st" and "\<And>c. c \<in> set cs \<Longrightarrow> CHR ''/'' \<notin> set c"
  shows "\<exists>out. clean_step rooted st cs = rev out \<and> clean_stack rooted out"
  using assms
proof (induction rooted st cs rule: clean_step.induct)
  case (2 rooted st c cs)
  then show ?case by (cases st) (auto split: if_splits)
qed auto

lemma clean_stack_append: "clean_stack rooted (xs @ ys) \<Longrightarrow> clean_stack rooted ys"
  by (induction xs) auto

lemma clean_step_clean:
  assumes "clean_stack rooted (rev ws @ st)"
  shows "clean_step rooted st ws = rev st @ ws"
  using assms
proof (induction ws arbitrary: st)
  case (Cons c cs)
  then have c: "clean_stack rooted (c # st)" using clean_stack_append [of rooted "rev cs" "c # st"] by simp
  have "clean_step rooted st (c # cs) = clean_step rooted (c # st) cs"
    using c by (cases st) auto
  with Cons show ?case by simp
qed simp

lemma clean_stack_elements: "clean_stack rooted st \<Longrightarrow> w \<in> set st \<Longrightarrow> w \<noteq> [] \<and> CHR ''/'' \<notin> set w"
  by (induction st) auto

lemma JoinOn_hd: "ws \<noteq> [] \<Longrightarrow> hd ws \<noteq> [] \<Longrightarrow> \<exists>t. JoinOn sep ws = hd ws @ t"
  by (cases ws; cases "tl ws") auto

lemma path_Clean_idem: "path_Clean (path_Clean p) = path_Clean p"
proof (cases "p = []")
  case True
  then show ?thesis by (simp add: path_Clean_def Let_def)
next
  case False
  define rooted where "rooted = HasPrefix p ''/''"
  obtain out where out: "clean_step rooted [] (SplitOn CHR ''/'' p) = rev out" and st: "clean_stack rooted out"
    using clean_step_stack [of rooted "[]" "SplitOn CHR ''/'' p"] SplitOn_no_sep by auto
  define ws where "ws = rev out"
  have again: "clean_step rooted [] ws = ws" using clean_step_clean [of rooted ws "[]"] st by (simp add: ws_def)
  have el: "w \<noteq> [] \<and> CHR ''/'' \<notin> set w" if "w \<in> set ws" for w
    using clean_stack_elements [OF st, of w] that by (simp add: ws_def)
  have p: "path_Clean p = (if rooted then ''/'' @ JoinOn ''/'' ws else if JoinOn ''/'' ws = [] then ''.'' else JoinOn ''/'' ws)"
    using False unfolding path_Clean_def Let_def rooted_def [symmetric] out ws_def [symmetric] by simp
  show ?thesis
  proof (cases "ws = []")
    case True
    then show ?thesis by (simp add: p) (simp add: path_Clean_def Let_def)
  next
    case ne: False
    then have hd_ws: "hd ws \<noteq> []" "CHR ''/'' \<notin> set (hd ws)" using el by auto
    with ne obtain t where t: "JoinOn ''/'' ws = hd ws @ t" using JoinOn_hd by blast
    have split: "SplitOn CHR ''/'' (JoinOn ''/'' ws) = ws" by (rule SplitOn_JoinOn [OF ne]) (use el in blast)
    show ?thesis
    proof (cases rooted)
      case True
      then show ?thesis using again by (simp add: p) (simp add: path_Clean_def Let_def split)
    next
      case False
      from t hd_ws have "JoinOn ''/'' ws \<noteq> []" "\<not> HasPrefix (JoinOn ''/'' ws) ''/''"
        by (auto simp: HasPrefix_iff) (metis append_Cons append_Nil hd_append2 list.sel(1) list.set_sel(1))
      with False again show ?thesis by (simp add: p) (simp add: path_Clean_def Let_def split)
    qed
  qed
qed

section \<open>Paths of single elements\<close>

definition element :: "string \<Rightarrow> bool" where
  "element n \<longleftrightarrow> n \<noteq> [] \<and> n \<noteq> ''.'' \<and> n \<noteq> ''..'' \<and> CHR ''/'' \<notin> set n"

text \<open>Cleaning removes the empty elements and leaves proper ones.\<close>

lemma clean_step_elements:
  "list_all (\<lambda>e. e = [] \<or> element e) es \<Longrightarrow> clean_step r st es = rev st @ filter (\<lambda>e. e \<noteq> []) es"
  by (induction es arbitrary: st) (auto simp: element_def)

lemma path_Clean_elements:
  assumes "list_all (\<lambda>e. e = [] \<or> element e) es" and "es \<noteq> []" and "hd es \<noteq> []"
  shows "path_Clean (JoinOn ''/'' es) = JoinOn ''/'' (filter (\<lambda>e. e \<noteq> []) es)"
proof -
  obtain e rest where es: "es = e # rest" "e \<noteq> []" using assms(2,3) by (cases es) auto
  then have e: "element e" using assms(1) by simp
  have split: "SplitOn CHR ''/'' (JoinOn ''/'' es) = es"
  proof (rule SplitOn_JoinOn [OF assms(2)])
    fix w assume "w \<in> set es"
    with assms(1) have "w = [] \<or> element w" by (simp add: list_all_iff)
    then show "CHR ''/'' \<notin> set w" by (elim disjE) (simp_all add: element_def)
  qed
  from es(2) obtain c e' where ce1: "e = c # e'" by (metis neq_Nil_conv)
  have "c \<noteq> CHR ''/''" using e unfolding ce1 element_def by auto
  note ce = ce1 this
  have "JoinOn ''/'' es = e @ (if rest = [] then [] else ''/'' @ JoinOn ''/'' rest)"
    unfolding es(1) by (cases rest) simp_all
  then have "JoinOn ''/'' es = c # (e' @ (if rest = [] then [] else ''/'' @ JoinOn ''/'' rest))" unfolding ce(1) by simp
  then have nonempty: "JoinOn ''/'' es \<noteq> []" and "\<not> HasPrefix (JoinOn ''/'' es) ''/''" using ce(2) by simp_all
  moreover have "JoinOn ''/'' (filter (\<lambda>e. e \<noteq> []) es) \<noteq> []"
    using es by (cases "filter (\<lambda>e. e \<noteq> []) rest") auto
  ultimately show ?thesis
    using clean_step_elements [OF assms(1), of False "[]"] by (simp add: path_Clean_def split Let_def)
qed

lemma JoinOn_append: "es \<noteq> [] \<Longrightarrow> fs \<noteq> [] \<Longrightarrow> JoinOn s (es @ fs) = JoinOn s es @ s @ JoinOn s fs"
proof (induction s es rule: JoinOn.induct)
  case (2 sep w)
  then show ?case by (cases fs) auto
qed auto

text \<open>A directory below the root, with a slash after every element.\<close>

definition dir_path :: "string list \<Rightarrow> string" where
  "dir_path es = concat (map (\<lambda>e. e @ ''/'') es)"

lemma dir_path_simps [simp]:
  "dir_path [] = []" "dir_path (e # es) = e @ ''/'' @ dir_path es" "dir_path (es @ [e]) = dir_path es @ e @ ''/''"
  by (simp_all add: dir_path_def)

lemma dir_path_JoinOn: "es \<noteq> [] \<Longrightarrow> dir_path es = JoinOn ''/'' es @ ''/''"
  by (induction es rule: induct_list012) auto

lemma pathJoin_entry:
  assumes "list_all element es" and "element n"
  shows "pathJoin [dir_path es, n] = dir_path es @ n" and "pathJoin [dir_path es, n @ ''/''] = dir_path es @ n @ ''/''"
proof -
  have n: "n \<noteq> []" "CHR ''/'' \<notin> set n" and el: "\<And>e. e \<in> set es \<Longrightarrow> e \<noteq> []"
    using assms by (auto simp: element_def list_all_iff)
  have nosl: "\<not> HasSuffix n ''/''" using n(2) by (auto simp: HasSuffix_iff)
  have fil: "filter (\<lambda>e. e \<noteq> []) es = es" using el by (simp add: filter_id_conv)
  have clean: "path_Clean (JoinOn ''/'' (es @ fs)) = JoinOn ''/'' (es @ [n])"
    if fs: "filter (\<lambda>e. e \<noteq> []) fs = [n]" "fs \<noteq> []" "es = [] \<longrightarrow> hd fs \<noteq> []" "list_all (\<lambda>e. e = [] \<or> element e) fs" for fs
    using path_Clean_elements [of "es @ fs"] fs assms(1) el fil by (cases es) (auto simp: list_all_iff)
  show "pathJoin [dir_path es, n] = dir_path es @ n"
  proof (cases "es = []")
    case True
    then show ?thesis using clean [of "[n]"] n nosl assms(2) by (simp add: pathJoin_def path_Join_def)
  next
    case False
    then have "JoinOn ''/'' [dir_path es, n] = JoinOn ''/'' (es @ [[], n])"
      using JoinOn_append [of es "[[], n]" "''/''"] by (simp add: dir_path_JoinOn)
    then show ?thesis using clean [of "[[], n]"] n nosl assms(2) False JoinOn_append [of es "[n]" "''/''"]
      by (simp add: pathJoin_def path_Join_def dir_path_JoinOn)
  qed
  show "pathJoin [dir_path es, n @ ''/''] = dir_path es @ n @ ''/''"
  proof (cases "es = []")
    case True
    then show ?thesis using clean [of "[n, []]"] n assms(2)
      by (simp add: pathJoin_def path_Join_def HasSuffix_iff)
  next
    case False
    then have "JoinOn ''/'' [dir_path es, n @ ''/''] = JoinOn ''/'' (es @ [[], n, []])"
      using JoinOn_append [of es "[[], n, []]" "''/''"] by (simp add: dir_path_JoinOn)
    then show ?thesis using clean [of "[[], n, []]"] n assms(2) False JoinOn_append [of es "[n]" "''/''"]
      by (simp add: pathJoin_def path_Join_def dir_path_JoinOn HasSuffix_iff)
  qed
qed

section \<open>Slashes that do not matter\<close>

lemma clean_step_empty: "clean_step r st (xs @ [] # ys) = clean_step r st (xs @ ys)"
  by (induction r st xs rule: clean_step.induct) (auto split: list.splits)

lemma path_Clean_cong:
  assumes "p \<noteq> []" "q \<noteq> []" "HasPrefix p ''/'' = HasPrefix q ''/''"
    and "\<And>r. clean_step r [] (SplitOn CHR ''/'' p) = clean_step r [] (SplitOn CHR ''/'' q)"
  shows "path_Clean p = path_Clean q"
  unfolding path_Clean_def Let_def assms(3,4) using assms(1,2) by simp

lemma path_Clean_slashes:
  assumes "a \<noteq> []"
  shows "path_Clean (a @ ''//'' @ b) = path_Clean (a @ ''/'' @ b)" and "path_Clean (a @ ''/'') = path_Clean a"
proof -
  have r: "HasPrefix (a @ x) ''/'' = HasPrefix a ''/''" for x using assms by (cases a) auto
  have "SplitOn CHR ''/'' (a @ ''//'' @ b) = SplitOn CHR ''/'' a @ [] # SplitOn CHR ''/'' b"
    "SplitOn CHR ''/'' (a @ ''/'' @ b) = SplitOn CHR ''/'' a @ SplitOn CHR ''/'' b"
    "SplitOn CHR ''/'' (a @ ''/'') = SplitOn CHR ''/'' a @ [] # []"
    using SplitOn_append_gen [of "CHR ''/''" a] by simp_all
  then show "path_Clean (a @ ''//'' @ b) = path_Clean (a @ ''/'' @ b)" and "path_Clean (a @ ''/'') = path_Clean a"
    using assms r by (intro path_Clean_cong; simp add: clean_step_empty)+
qed

end
