(* ===== verification/IamPolicy.thy ===== *)
theory IamPolicy
  imports BucketPolicy GoPath
begin

text \<open>
  \<open>pkg/iam/policy\<close>: the policies of users.  Its types have the shape of those in
  \<open>pkg/bucket/policy\<close> and keep their names here with the prefix \<open>iam_\<close> where they differ.  An
  action of a statement is a wildcard pattern, administrative actions are recognised, resources
  are not needed for them, and there is no principal.
\<close>

section \<open>admin-action.go\<close>

type_synonym AdminAction = string

definition HealAdminAction :: AdminAction where "HealAdminAction = ''admin:Heal''"
definition StorageInfoAdminAction :: AdminAction where "StorageInfoAdminAction = ''admin:StorageInfo''"
definition AccountingUsageInfoAdminAction :: AdminAction where "AccountingUsageInfoAdminAction = ''admin:AccountingUsageInfo''"
definition DataUsageInfoAdminAction :: AdminAction where "DataUsageInfoAdminAction = ''admin:DataUsageInfo''"
definition TopLocksAdminAction :: AdminAction where "TopLocksAdminAction = ''admin:TopLocksInfo''"
definition ProfilingAdminAction :: AdminAction where "ProfilingAdminAction = ''admin:Profiling''"
definition TraceAdminAction :: AdminAction where "TraceAdminAction = ''admin:ServerTrace''"
definition ConsoleLogAdminAction :: AdminAction where "ConsoleLogAdminAction = ''admin:ConsoleLog''"
definition KMSKeyStatusAdminAction :: AdminAction where "KMSKeyStatusAdminAction = ''admin:KMSKeyStatus''"
definition ServerInfoAdminAction :: AdminAction where "ServerInfoAdminAction = ''admin:ServerInfo''"
definition OBDInfoAdminAction :: AdminAction where "OBDInfoAdminAction = ''admin:OBDInfo''"
definition ServerUpdateAdminAction :: AdminAction where "ServerUpdateAdminAction = ''admin:ServerUpdate''"
definition ConfigUpdateAdminAction :: AdminAction where "ConfigUpdateAdminAction = ''admin:ConfigUpdate''"
definition CreateUserAdminAction :: AdminAction where "CreateUserAdminAction = ''admin:CreateUser''"
definition DeleteUserAdminAction :: AdminAction where "DeleteUserAdminAction = ''admin:DeleteUser''"
definition ListUsersAdminAction :: AdminAction where "ListUsersAdminAction = ''admin:ListUsers''"
definition EnableUserAdminAction :: AdminAction where "EnableUserAdminAction = ''admin:EnableUser''"
definition DisableUserAdminAction :: AdminAction where "DisableUserAdminAction = ''admin:DisableUser''"
definition GetUserAdminAction :: AdminAction where "GetUserAdminAction = ''admin:GetUser''"
definition AddUserToGroupAdminAction :: AdminAction where "AddUserToGroupAdminAction = ''admin:AddUserToGroup''"
definition RemoveUserFromGroupAdminAction :: AdminAction where "RemoveUserFromGroupAdminAction = ''admin:RemoveUserFromGroup''"
definition GetGroupAdminAction :: AdminAction where "GetGroupAdminAction = ''admin:GetGroup''"
definition ListGroupsAdminAction :: AdminAction where "ListGroupsAdminAction = ''admin:ListGroups''"
definition EnableGroupAdminAction :: AdminAction where "EnableGroupAdminAction = ''admin:EnableGroup''"
definition DisableGroupAdminAction :: AdminAction where "DisableGroupAdminAction = ''admin:DisableGroup''"
definition CreatePolicyAdminAction :: AdminAction where "CreatePolicyAdminAction = ''admin:CreatePolicy''"
definition DeletePolicyAdminAction :: AdminAction where "DeletePolicyAdminAction = ''admin:DeletePolicy''"
definition GetPolicyAdminAction :: AdminAction where "GetPolicyAdminAction = ''admin:GetPolicy''"
definition AttachPolicyAdminAction :: AdminAction where "AttachPolicyAdminAction = ''admin:AttachUserOrGroupPolicy''"
definition ListUserPoliciesAdminAction :: AdminAction where "ListUserPoliciesAdminAction = ''admin:ListUserPolicies''"
definition AllAdminActions :: AdminAction where "AllAdminActions = ''admin:*''"

lemmas admin_action_defs =
  HealAdminAction_def StorageInfoAdminAction_def AccountingUsageInfoAdminAction_def
  DataUsageInfoAdminAction_def TopLocksAdminAction_def ProfilingAdminAction_def
  TraceAdminAction_def ConsoleLogAdminAction_def KMSKeyStatusAdminAction_def
  ServerInfoAdminAction_def OBDInfoAdminAction_def ServerUpdateAdminAction_def
  ConfigUpdateAdminAction_def CreateUserAdminAction_def DeleteUserAdminAction_def
  ListUsersAdminAction_def EnableUserAdminAction_def DisableUserAdminAction_def
  GetUserAdminAction_def AddUserToGroupAdminAction_def
  RemoveUserFromGroupAdminAction_def GetGroupAdminAction_def ListGroupsAdminAction_def
  EnableGroupAdminAction_def DisableGroupAdminAction_def CreatePolicyAdminAction_def
  DeletePolicyAdminAction_def GetPolicyAdminAction_def AttachPolicyAdminAction_def
  ListUserPoliciesAdminAction_def AllAdminActions_def

definition supportedAdminActions :: "AdminAction list" where
  "supportedAdminActions =
     [AllAdminActions, HealAdminAction, ServerInfoAdminAction, StorageInfoAdminAction,
      DataUsageInfoAdminAction, TopLocksAdminAction, ProfilingAdminAction, TraceAdminAction,
      OBDInfoAdminAction, ConsoleLogAdminAction, KMSKeyStatusAdminAction,
      ServerUpdateAdminAction, ConfigUpdateAdminAction, CreateUserAdminAction,
      DeleteUserAdminAction, ListUsersAdminAction, EnableUserAdminAction,
      DisableUserAdminAction, GetUserAdminAction, AddUserToGroupAdminAction,
      RemoveUserFromGroupAdminAction, ListGroupsAdminAction, EnableGroupAdminAction,
      DisableGroupAdminAction, CreatePolicyAdminAction, DeletePolicyAdminAction,
      GetPolicyAdminAction, AttachPolicyAdminAction, ListUserPoliciesAdminAction]"

definition AdminAction_IsValid :: "AdminAction \<Rightarrow> bool" where
  "AdminAction_IsValid action = (action \<in> set supportedAdminActions)"

definition parseAdminAction :: "string \<Rightarrow> policy_err + AdminAction" where
  "parseAdminAction s = (if AdminAction_IsValid s then Inr s else Inl (InvalidAction s))"

definition adminActionConditionKeyMap :: "Action \<Rightarrow> KeySet" where
  "adminActionConditionKeyMap action =
     (if action \<in> set
       [AllAdminActions, HealAdminAction, StorageInfoAdminAction, ServerInfoAdminAction,
        DataUsageInfoAdminAction, OBDInfoAdminAction, TopLocksAdminAction, ProfilingAdminAction,
        TraceAdminAction, ConsoleLogAdminAction, KMSKeyStatusAdminAction,
        ServerUpdateAdminAction, ConfigUpdateAdminAction, CreateUserAdminAction,
        DeleteUserAdminAction, ListUsersAdminAction, EnableUserAdminAction,
        DisableUserAdminAction, GetUserAdminAction, AddUserToGroupAdminAction,
        RemoveUserFromGroupAdminAction, ListGroupsAdminAction, EnableGroupAdminAction,
        DisableGroupAdminAction, CreatePolicyAdminAction, DeletePolicyAdminAction,
        GetPolicyAdminAction, AttachPolicyAdminAction, ListUserPoliciesAdminAction]
      then NewKeySet AllSupportedAdminKeys else {||})"

section \<open>action.go\<close>

text \<open>The actions are the ones of the bucket policies but for the two on lifecycles and \<open>s3:*\<close>.\<close>

definition iam_PutBucketLifecycleAction :: Action where "iam_PutBucketLifecycleAction = ''s3:PutBucketLifecycle''"
definition iam_GetBucketLifecycleAction :: Action where "iam_GetBucketLifecycleAction = ''s3:GetBucketLifecycle''"
definition AllActions :: Action where "AllActions = ''s3:*''"

definition iam_supportedActions :: "Action list" where
  "iam_supportedActions =
     [AllActions, AbortMultipartUploadAction, CreateBucketAction, DeleteBucketAction,
      ForceDeleteBucketAction, DeleteBucketPolicyAction, DeleteObjectAction,
      GetBucketLocationAction, GetBucketNotificationAction, GetBucketPolicyAction,
      GetObjectAction, HeadBucketAction, ListAllMyBucketsAction, ListBucketAction,
      ListBucketMultipartUploadsAction, ListenBucketNotificationAction,
      ListMultipartUploadPartsAction, PutBucketNotificationAction, PutBucketPolicyAction,
      PutObjectAction, iam_GetBucketLifecycleAction, iam_PutBucketLifecycleAction,
      PutObjectRetentionAction, GetObjectRetentionAction, GetObjectLegalHoldAction,
      PutObjectLegalHoldAction, PutBucketObjectLockConfigurationAction,
      GetBucketObjectLockConfigurationAction, BypassGovernanceRetentionAction,
      GetObjectTaggingAction, PutObjectTaggingAction, DeleteObjectTaggingAction,
      PutBucketEncryptionAction, GetBucketEncryptionAction]"

definition iam_supportedObjectActions :: "Action list" where
  "iam_supportedObjectActions =
     [AllActions, AbortMultipartUploadAction, DeleteObjectAction, GetObjectAction,
      ListMultipartUploadPartsAction, PutObjectAction, BypassGovernanceRetentionAction,
      PutObjectRetentionAction, GetObjectRetentionAction, PutObjectLegalHoldAction,
      GetObjectLegalHoldAction, GetObjectTaggingAction, PutObjectTaggingAction,
      DeleteObjectTaggingAction]"

definition iam_Action_isObjectAction :: "Action \<Rightarrow> bool" where
  "iam_Action_isObjectAction action = (action \<in> set iam_supportedObjectActions)"

definition iam_Action_Match :: "Action \<Rightarrow> Action \<Rightarrow> bool" where
  "iam_Action_Match action a = Match action a"

definition iam_Action_IsValid :: "Action \<Rightarrow> bool" where
  "iam_Action_IsValid action = (action \<in> set iam_supportedActions)"

definition iam_Action_MarshalJSON :: "Action \<Rightarrow> policy_err + json" where
  "iam_Action_MarshalJSON action =
     (if iam_Action_IsValid action \<or> AdminAction_IsValid action then Inr (json_string action)
      else Inl (InvalidAction action))"

definition iam_Action_UnmarshalJSON :: "json \<Rightarrow> policy_err + Action" where
  "iam_Action_UnmarshalJSON data =
     (case decode_string data of
        None \<Rightarrow> Inl PolicyJsonErr
      | Some s \<Rightarrow> if \<not> iam_Action_IsValid s then Inl (InvalidAction s) else Inr s)"

definition iam_parseAction :: "string \<Rightarrow> policy_err + Action" where
  "iam_parseAction s =
     (case parseAdminAction s of
        Inr adminAction \<Rightarrow> Inr adminAction
      | Inl _ \<Rightarrow> if iam_Action_IsValid s then Inr s else Inl (InvalidAction s))"

definition iam_actionConditionKeyMap :: "Action \<Rightarrow> KeySet" where
  "iam_actionConditionKeyMap action =
     (case map_of
       [(AllActions, NewKeySet AllSupportedKeys),
        (AbortMultipartUploadAction, NewKeySet CommonKeys),
        (CreateBucketAction, NewKeySet CommonKeys),
        (DeleteBucketPolicyAction, NewKeySet CommonKeys),
        (DeleteObjectAction, NewKeySet CommonKeys),
        (GetBucketLocationAction, NewKeySet CommonKeys),
        (GetBucketNotificationAction, NewKeySet CommonKeys),
        (GetBucketPolicyAction, NewKeySet CommonKeys),
        (GetObjectAction, NewKeySet ([S3XAmzServerSideEncryption, S3XAmzServerSideEncryptionCustomerAlgorithm,
          S3XAmzStorageClass] @ CommonKeys)),
        (HeadBucketAction, NewKeySet CommonKeys),
        (ListAllMyBucketsAction, NewKeySet CommonKeys),
        (ListBucketAction, NewKeySet ([S3Prefix, S3Delimiter, S3MaxKeys] @ CommonKeys)),
        (ListBucketMultipartUploadsAction, NewKeySet CommonKeys),
        (ListenBucketNotificationAction, NewKeySet CommonKeys),
        (ListMultipartUploadPartsAction, NewKeySet CommonKeys),
        (PutBucketNotificationAction, NewKeySet CommonKeys),
        (PutBucketPolicyAction, NewKeySet CommonKeys),
        (PutObjectAction, NewKeySet ([S3XAmzCopySource, S3XAmzServerSideEncryption,
          S3XAmzServerSideEncryptionCustomerAlgorithm, S3XAmzMetadataDirective, S3XAmzStorageClass,
          S3ObjectLockRetainUntilDate, S3ObjectLockMode, S3ObjectLockLegalHold] @ CommonKeys)),
        (PutObjectRetentionAction, NewKeySet ([S3ObjectLockRemainingRetentionDays, S3ObjectLockRetainUntilDate, S3ObjectLockMode] @ CommonKeys)),
        (GetObjectRetentionAction, NewKeySet CommonKeys),
        (PutObjectLegalHoldAction, NewKeySet ([S3ObjectLockLegalHold] @ CommonKeys)),
        (GetObjectLegalHoldAction, NewKeySet CommonKeys),
        (BypassGovernanceRetentionAction, NewKeySet ([S3ObjectLockRemainingRetentionDays, S3ObjectLockRetainUntilDate, S3ObjectLockMode,
          S3ObjectLockLegalHold] @ CommonKeys)),
        (GetBucketObjectLockConfigurationAction, NewKeySet CommonKeys),
        (PutBucketObjectLockConfigurationAction, NewKeySet CommonKeys),
        (PutObjectTaggingAction, NewKeySet CommonKeys),
        (GetObjectTaggingAction, NewKeySet CommonKeys),
        (DeleteObjectTaggingAction, NewKeySet CommonKeys)] action of
        Some ks \<Rightarrow> ks | None \<Rightarrow> {||})"

section \<open>actionset.go\<close>

definition iam_ActionSet_IsEmpty :: "ActionSet \<Rightarrow> bool" where
  "iam_ActionSet_IsEmpty actionSet = (fcard actionSet = 0)"

definition iam_ActionSet_Match :: "ActionSet \<Rightarrow> Action \<Rightarrow> bool" where
  "iam_ActionSet_Match actionSet action = (\<exists>r |\<in>| actionSet. iam_Action_Match r action)"

text \<open>\<open>Add\<close>, \<open>Equals\<close>, \<open>Intersection\<close>, \<open>String\<close>, \<open>ToSlice\<close> and \<open>NewActionSet\<close> are written as in
  \<open>pkg/bucket/policy\<close>; \<open>MarshalJSON\<close> and \<open>UnmarshalJSON\<close> use this package's actions.\<close>

definition iam_ActionSet_MarshalJSON :: "ActionSet \<Rightarrow> policy_err + json" where
  "iam_ActionSet_MarshalJSON actionSet =
     (if fcard actionSet = 0 then Inl EmptyActions
      else map_sum id JArr (marshal_list iam_Action_MarshalJSON (ActionSet_ToSlice actionSet)))"

definition iam_ActionSet_UnmarshalJSON :: "jsoniter \<Rightarrow> json \<Rightarrow> policy_err + ActionSet" where
  "iam_ActionSet_UnmarshalJSON ji data =
     (case decode_StringSet ji data of
        None \<Rightarrow> Inl PolicyJsonErr
      | Some sset \<Rightarrow>
          if fcard sset = 0 then Inl EmptyActions
          else add_actions iam_parseAction {||} (StringSet_ToSlice sset))"

section \<open>resource.go\<close>

definition iam_Resource_isBucketPattern :: "Resource \<Rightarrow> bool" where
  "iam_Resource_isBucketPattern r = (\<not> Contains (res_Pattern r) ''/'' \<or> res_Pattern r = ''*'')"

definition iam_Resource_isObjectPattern :: "Resource \<Rightarrow> bool" where
  "iam_Resource_isObjectPattern r =
     (Contains (res_Pattern r) ''/'' \<or> Contains (res_BucketName r) ''*'' \<or> res_Pattern r = ''*/*'')"

definition iam_Resource_IsValid :: "Resource \<Rightarrow> bool" where
  "iam_Resource_IsValid r = (res_Pattern r \<noteq> [])"

definition iam_Resource_Match :: "Resource \<Rightarrow> string \<Rightarrow> req_values \<Rightarrow> bool go" where
  "iam_Resource_Match r resource conditionValues =
     map_option (\<lambda>pattern. if path_Clean resource = pattern then True else Match pattern resource)
       (subst_loop CommonKeys conditionValues (res_Pattern r))"

definition iam_Resource_MarshalJSON :: "Resource \<Rightarrow> policy_err + json" where
  "iam_Resource_MarshalJSON r =
     (if \<not> iam_Resource_IsValid r then Inl (InvalidResource (res_Pattern r))
      else Inr (json_string (Resource_String r)))"

definition iam_Resource_Validate :: "Resource \<Rightarrow> policy_err option" where
  "iam_Resource_Validate r = (if \<not> iam_Resource_IsValid r then Some (InvalidResource []) else None)"

text \<open>\<open>String\<close>, \<open>UnmarshalJSON\<close>, \<open>parseResource\<close> and \<open>NewResource\<close> are written as in
  \<open>pkg/bucket/policy\<close>.\<close>

section \<open>resourceset.go\<close>

definition iam_ResourceSet_bucketResourceExists :: "ResourceSet \<Rightarrow> bool" where
  "iam_ResourceSet_bucketResourceExists resourceSet = (\<exists>r |\<in>| resourceSet. iam_Resource_isBucketPattern r)"

definition iam_ResourceSet_objectResourceExists :: "ResourceSet \<Rightarrow> bool" where
  "iam_ResourceSet_objectResourceExists resourceSet = (\<exists>r |\<in>| resourceSet. iam_Resource_isObjectPattern r)"

definition iam_ResourceSet_MarshalJSON :: "ResourceSet \<Rightarrow> policy_err + json" where
  "iam_ResourceSet_MarshalJSON resourceSet =
     (if fcard resourceSet = 0 then Inl EmptyResources
      else map_sum id JArr (marshal_list iam_Resource_MarshalJSON (ResourceSet_range resourceSet)))"

definition iam_ResourceSet_Match :: "ResourceSet \<Rightarrow> string \<Rightarrow> req_values \<Rightarrow> bool go" where
  "iam_ResourceSet_Match resourceSet resource conditionValues =
     go_any_set (\<lambda>r. iam_Resource_Match r resource conditionValues) resourceSet"

definition iam_ResourceSet_Validate :: "ResourceSet \<Rightarrow> policy_err option" where
  "iam_ResourceSet_Validate resourceSet = first_err iam_Resource_Validate (ResourceSet_range resourceSet)"

section \<open>statement.go\<close>

text \<open>A claim of a token that \<open>GetPolicies\<close> reads: a string, a slice of strings, or another type.\<close>

datatype claim = ClaimString string | ClaimSlice "string list" | ClaimOther

record iam_Args =
  ia_AccountName :: string
  ia_Action :: Action
  ia_BucketName :: string
  ia_ConditionValues :: req_values
  ia_IsOwner :: bool
  ia_ObjectName :: string
  ia_Claims :: "string \<Rightarrow> claim option"

record iam_Statement =
  ist_SID :: ID
  ist_Effect :: Effect
  ist_Actions :: ActionSet
  ist_Resources :: ResourceSet
  ist_Conditions :: Functions

definition iam_Statement_isAdmin :: "iam_Statement \<Rightarrow> bool" where
  "iam_Statement_isAdmin statement = (\<not> (\<exists>action |\<in>| ist_Actions statement. \<not> AdminAction_IsValid action))"

text \<open>The closure \<open>check\<close>.  The resources are matched before \<open>isAdmin\<close> is asked.\<close>

definition iam_Statement_check :: "(nat \<Rightarrow> nat) \<Rightarrow> iam_Statement \<Rightarrow> iam_Args \<Rightarrow> bool go" where
  "iam_Statement_check uf statement args =
     (if \<not> iam_ActionSet_Match (ist_Actions statement) (ia_Action args) then Some False
      else
        (let resource = (if ia_ObjectName args \<noteq> []
                         then object_path (ia_BucketName args) (ia_ObjectName args)
                         else ia_BucketName args @ ''/'')
         in case iam_ResourceSet_Match (ist_Resources statement) resource (ia_ConditionValues args) of
              None \<Rightarrow> None
            | Some m \<Rightarrow>
                if \<not> m \<and> \<not> iam_Statement_isAdmin statement then Some False
                else Functions_Evaluate uf (ist_Conditions statement) (ia_ConditionValues args)))"

definition iam_Statement_IsAllowed :: "(nat \<Rightarrow> nat) \<Rightarrow> iam_Statement \<Rightarrow> iam_Args \<Rightarrow> bool go" where
  "iam_Statement_IsAllowed uf statement args =
     map_option (Effect_IsAllowed (ist_Effect statement)) (iam_Statement_check uf statement args)"

definition iam_key_err :: "iam_Statement \<Rightarrow> (Action \<Rightarrow> KeySet) \<Rightarrow> Action \<Rightarrow> policy_err option" where
  "iam_key_err statement keyMap action =
     (if \<not> KeySet_IsEmpty (KeySet_Difference (Functions_Keys (ist_Conditions statement)) (keyMap action))
      then Some (UnsupportedKeys action) else None)"

definition iam_Statement_isValid :: "iam_Statement \<Rightarrow> policy_err option" where
  "iam_Statement_isValid statement =
     (if \<not> Effect_IsValid (ist_Effect statement) then Some (InvalidEffect (ist_Effect statement))
      else if fcard (ist_Actions statement) = 0 then Some EmptyActions
      else if iam_Statement_isAdmin statement then
        first_err (iam_key_err statement adminActionConditionKeyMap) (ActionSet_ToSlice (ist_Actions statement))
      else if fcard (ist_Resources statement) = 0 then Some EmptyResources
      else (case iam_ResourceSet_Validate (ist_Resources statement) of
              Some e \<Rightarrow> Some e
            | None \<Rightarrow>
                first_err
                  (\<lambda>action.
                     if \<not> iam_ResourceSet_objectResourceExists (ist_Resources statement) \<and>
                        \<not> iam_ResourceSet_bucketResourceExists (ist_Resources statement)
                     then Some (UnsupportedResource action)
                     else iam_key_err statement iam_actionConditionKeyMap action)
                  (ActionSet_ToSlice (ist_Actions statement))))"

definition iam_marshal_resources :: "ResourceSet \<Rightarrow> policy_err + (string \<times> json) list" where
  "iam_marshal_resources rs =
     (if fcard rs = 0 then Inr [] else map_sum id (\<lambda>j. [(''Resource'', j)]) (iam_ResourceSet_MarshalJSON rs))"

definition iam_Statement_MarshalJSON :: "iam_Statement \<Rightarrow> (policy_err + json) go" where
  "iam_Statement_MarshalJSON statement =
     (case iam_Statement_isValid statement of
        Some e \<Rightarrow> Some (Inl e)
      | None \<Rightarrow>
          if ist_SID statement \<noteq> [] \<and> \<not> ID_IsValid (ist_SID statement) then Some (Inl InvalidID)
          else
            (case (Effect_MarshalJSON (ist_Effect statement), iam_ActionSet_MarshalJSON (ist_Actions statement),
                   iam_marshal_resources (ist_Resources statement)) of
               (Inr e, Inr a, Inr r) \<Rightarrow>
                 map_option
                   (map_sum id (\<lambda>cond.
                      JObj ((if ist_SID statement = [] then [] else [(''Sid'', json_string (ist_SID statement))]) @
                            [(''Effect'', e), (''Action'', a)] @ r @ cond)))
                   (marshal_conditions (ist_Conditions statement))
             | (Inl e, _) \<Rightarrow> Some (Inl e)
             | (_, Inl e, _) \<Rightarrow> Some (Inl e)
             | (_, _, Inl e) \<Rightarrow> Some (Inl e)))"

definition iam_Statement_zero :: iam_Statement where
  "iam_Statement_zero =
     \<lparr>ist_SID = [], ist_Effect = [], ist_Actions = {||}, ist_Resources = {||}, ist_Conditions = []\<rparr>"

definition iam_statement_field :: "jsoniter \<Rightarrow> string \<Rightarrow> json \<Rightarrow> iam_Statement \<Rightarrow> policy_err + iam_Statement" where
  "iam_statement_field ji key j ss =
     (if field_is ''Sid'' key then map_sum id (\<lambda>x. ss\<lparr>ist_SID := x\<rparr>) (ID_UnmarshalJSON j)
      else if field_is ''Effect'' key then map_sum id (\<lambda>x. ss\<lparr>ist_Effect := x\<rparr>) (Effect_UnmarshalJSON j)
      else if field_is ''Action'' key then map_sum id (\<lambda>x. ss\<lparr>ist_Actions := x\<rparr>) (iam_ActionSet_UnmarshalJSON ji j)
      else if field_is ''Resource'' key then map_sum id (\<lambda>x. ss\<lparr>ist_Resources := x\<rparr>) (ResourceSet_UnmarshalJSON ji j)
      else if field_is ''Condition'' key then map_sum CondErr (\<lambda>x. ss\<lparr>ist_Conditions := x\<rparr>) (Functions_UnmarshalJSON j)
      else Inr ss)"

definition iam_Statement_UnmarshalJSON :: "jsoniter \<Rightarrow> json \<Rightarrow> policy_err + iam_Statement" where
  "iam_Statement_UnmarshalJSON ji data =
     (case (case data of
              JNull \<Rightarrow> Inr iam_Statement_zero
            | JObj fs \<Rightarrow> decode_struct (iam_statement_field ji) iam_Statement_zero fs
            | _ \<Rightarrow> Inl PolicyJsonErr) of
        Inl e \<Rightarrow> Inl e
      | Inr s \<Rightarrow> (case iam_Statement_isValid s of Some e \<Rightarrow> Inl e | None \<Rightarrow> Inr s))"

definition iam_Statement_Validate :: "iam_Statement \<Rightarrow> policy_err option" where
  "iam_Statement_Validate statement = iam_Statement_isValid statement"

definition iam_NewStatement :: "Effect \<Rightarrow> ActionSet \<Rightarrow> ResourceSet \<Rightarrow> Functions \<Rightarrow> iam_Statement" where
  "iam_NewStatement effect actionSet resourceSet conditions =
     \<lparr>ist_SID = [], ist_Effect = effect, ist_Actions = actionSet, ist_Resources = resourceSet,
      ist_Conditions = conditions\<rparr>"

section \<open>policy.go\<close>

definition Args_GetPolicies :: "iam_Args \<Rightarrow> string \<Rightarrow> string list \<times> bool" where
  "Args_GetPolicies a policyClaimName =
     (case ia_Claims a policyClaimName of
        None \<Rightarrow> ([], False)
      | Some (ClaimString s) \<Rightarrow> (SplitOn CHR '','' s, True)
      | Some (ClaimSlice ss) \<Rightarrow> (ss, True)
      | Some ClaimOther \<Rightarrow> ([], False))"

record iam_Policy =
  ip_ID :: ID
  ip_Version :: string
  ip_Statements :: "iam_Statement list"

definition iam_statements_allowed :: "(nat \<Rightarrow> nat) \<Rightarrow> iam_Statement list \<Rightarrow> iam_Args \<Rightarrow> bool go" where
  "iam_statements_allowed uf statements args =
     (case go_any (\<lambda>s. if ist_Effect s = Deny then go_not (iam_Statement_IsAllowed uf s args) else Some False) statements of
        None \<Rightarrow> None
      | Some True \<Rightarrow> Some False
      | Some False \<Rightarrow>
          if ia_IsOwner args then Some True
          else go_any (\<lambda>s. if ist_Effect s = Allow then iam_Statement_IsAllowed uf s args else Some False) statements)"

definition iam_Policy_IsAllowed :: "(nat \<Rightarrow> nat) \<Rightarrow> iam_Policy \<Rightarrow> iam_Args \<Rightarrow> bool go" where
  "iam_Policy_IsAllowed uf iamp args = iam_statements_allowed uf (ip_Statements iamp) args"

definition iam_Policy_IsEmpty :: "iam_Policy \<Rightarrow> bool" where
  "iam_Policy_IsEmpty iamp = (length (ip_Statements iamp) = 0)"

definition iam_Policy_isValid :: "iam_Policy \<Rightarrow> policy_err option" where
  "iam_Policy_isValid iamp =
     (if ip_Version iamp \<noteq> DefaultVersion \<and> ip_Version iamp \<noteq> [] then Some (InvalidVersion (ip_Version iamp))
      else first_err iam_Statement_isValid (ip_Statements iamp))"

definition iam_Policy_MarshalJSON :: "iam_Policy \<Rightarrow> (policy_err + json) go" where
  "iam_Policy_MarshalJSON iamp =
     (case iam_Policy_isValid iamp of
        Some e \<Rightarrow> Some (Inl e)
      | None \<Rightarrow>
          if ip_ID iamp \<noteq> [] \<and> \<not> ID_IsValid (ip_ID iamp) then Some (Inl InvalidID)
          else map_option (map_sum id (policy_fields (ip_ID iamp) (ip_Version iamp)))
                 (marshal_statements iam_Statement_MarshalJSON (ip_Statements iamp)))"

definition iam_same_statement :: "iam_Statement \<Rightarrow> iam_Statement \<Rightarrow> bool" where
  "iam_same_statement x y \<longleftrightarrow>
     ist_Effect x = ist_Effect y \<and>
     ActionSet_Equals (ist_Actions x) (ist_Actions y) \<and>
     ResourceSet_Equals (ist_Resources x) (ist_Resources y) \<and>
     Functions_String (ist_Conditions x) = Functions_String (ist_Conditions y)"

definition iam_dropDuplicateStatements :: "iam_Policy \<Rightarrow> iam_Policy" where
  "iam_dropDuplicateStatements iamp = iamp\<lparr>ip_Statements := drop_dups iam_same_statement (ip_Statements iamp)\<rparr>"

definition iam_Policy_zero :: iam_Policy where
  "iam_Policy_zero = \<lparr>ip_ID = [], ip_Version = [], ip_Statements = []\<rparr>"

definition iam_policy_field :: "jsoniter \<Rightarrow> string \<Rightarrow> json \<Rightarrow> iam_Policy \<Rightarrow> policy_err + iam_Policy" where
  "iam_policy_field ji key j sp =
     (if field_is ''ID'' key then map_sum id (\<lambda>x. sp\<lparr>ip_ID := x\<rparr>) (ID_UnmarshalJSON j)
      else if field_is ''Version'' key then
        (case j of JNull \<Rightarrow> Inr sp | JStr s \<Rightarrow> Inr (sp\<lparr>ip_Version := s\<rparr>) | _ \<Rightarrow> Inl PolicyJsonErr)
      else if field_is ''Statement'' key then
        (case j of
           JNull \<Rightarrow> Inr (sp\<lparr>ip_Statements := []\<rparr>)
         | JArr js \<Rightarrow> map_sum id (\<lambda>x. sp\<lparr>ip_Statements := x\<rparr>) (decode_objects (iam_Statement_UnmarshalJSON ji) js)
         | _ \<Rightarrow> Inl PolicyJsonErr)
      else Inr sp)"

definition iam_Policy_UnmarshalJSON :: "jsoniter \<Rightarrow> json \<Rightarrow> policy_err + iam_Policy" where
  "iam_Policy_UnmarshalJSON ji data =
     (case (case data of
              JNull \<Rightarrow> Inr iam_Policy_zero
            | JObj fs \<Rightarrow> decode_struct (iam_policy_field ji) iam_Policy_zero fs
            | _ \<Rightarrow> Inl PolicyJsonErr) of
        Inl e \<Rightarrow> Inl e
      | Inr p \<Rightarrow> (case iam_Policy_isValid p of Some e \<Rightarrow> Inl e | None \<Rightarrow> Inr (iam_dropDuplicateStatements p)))"

definition iam_Policy_Validate :: "iam_Policy \<Rightarrow> policy_err option" where
  "iam_Policy_Validate iamp =
     (case iam_Policy_isValid iamp of
        Some e \<Rightarrow> Some e
      | None \<Rightarrow> first_err iam_Statement_Validate (ip_Statements iamp))"

definition iam_ParseConfig :: "jsoniter \<Rightarrow> json \<Rightarrow> iam_Policy option \<times> policy_err option" where
  "iam_ParseConfig ji data =
     (case iam_Policy_UnmarshalJSON ji data of
        Inl e \<Rightarrow> (None, Some e)
      | Inr iamp \<Rightarrow> (Some iamp, iam_Policy_Validate iamp))"

section \<open>constants.go\<close>

definition canned_policy :: "Action list \<Rightarrow> iam_Policy" where
  "canned_policy actions =
     \<lparr>ip_ID = [], ip_Version = DefaultVersion,
      ip_Statements = [\<lparr>ist_SID = [], ist_Effect = Allow, ist_Actions = NewActionSet actions,
        ist_Resources = NewResourceSet [NewResource ''*'' []], ist_Conditions = []\<rparr>]\<rparr>"

definition ReadWrite :: iam_Policy where
  "ReadWrite = canned_policy [AllActions]"

definition ReadOnly :: iam_Policy where
  "ReadOnly = canned_policy [GetBucketLocationAction, GetObjectAction]"

definition WriteOnly :: iam_Policy where
  "WriteOnly = canned_policy [PutObjectAction]"

definition AdminDiagnostics :: iam_Policy where
  "AdminDiagnostics =
     canned_policy [ProfilingAdminAction, TraceAdminAction, ConsoleLogAdminAction,
       ServerInfoAdminAction, TopLocksAdminAction, OBDInfoAdminAction]"

section \<open>When a statement matches\<close>

definition iam_request_resource :: "iam_Args \<Rightarrow> string" where
  "iam_request_resource args =
     (if ia_ObjectName args \<noteq> [] then object_path (ia_BucketName args) (ia_ObjectName args)
      else ia_BucketName args @ ''/'')"

definition iam_applies :: "(nat \<Rightarrow> nat) \<Rightarrow> iam_Statement \<Rightarrow> iam_Args \<Rightarrow> bool" where
  "iam_applies uf st args \<longleftrightarrow>
     (\<exists>a |\<in>| ist_Actions st. glob (runes a) (runes (ia_Action args))) \<and>
     ((\<forall>a |\<in>| ist_Actions st. AdminAction_IsValid a) \<or>
      (\<exists>r |\<in>| ist_Resources st. \<exists>p. substFuncFromValues (ia_ConditionValues args) (res_Pattern r) = Some p \<and>
         (p = path_Clean (iam_request_resource args) \<or> glob (runes p) (runes (iam_request_resource args))))) \<and>
     (\<forall>f \<in> set (ist_Conditions st). Function_evaluate uf f (ia_ConditionValues args) = Some True)"

lemma iam_ResourceSet_Match_safe:
  assumes "common_values_ok vals"
  shows "iam_ResourceSet_Match rs resource vals = Some (\<exists>r |\<in>| rs. \<exists>p.
    substFuncFromValues vals (res_Pattern r) = Some p \<and> (p = path_Clean resource \<or> glob (runes p) (runes resource)))"
proof -
  have "iam_Resource_Match r resource vals \<noteq> None" for r
    using assms substFuncFromValues_None [of vals "res_Pattern r"]
    by (simp add: iam_Resource_Match_def substFuncFromValues_def)
  then have "iam_ResourceSet_Match rs resource vals = Some (\<exists>r |\<in>| rs. iam_Resource_Match r resource vals = Some True)"
    unfolding iam_ResourceSet_Match_def by (intro go_any_set_total)
  also have "(\<exists>r |\<in>| rs. iam_Resource_Match r resource vals = Some True) = (\<exists>r |\<in>| rs. \<exists>p.
      substFuncFromValues vals (res_Pattern r) = Some p \<and> (p = path_Clean resource \<or> glob (runes p) (runes resource)))"
    by (auto simp: iam_Resource_Match_def substFuncFromValues_def Match_glob split: if_splits)
  finally show ?thesis .
qed

lemma iam_Statement_check_applies:
  assumes "list_all Function_wf (ist_Conditions st)" and "request_ok (ia_ConditionValues args)"
  shows "iam_Statement_check uf st args = Some (iam_applies uf st args)"
  unfolding iam_Statement_check_def Let_def iam_request_resource_def [symmetric]
    iam_ResourceSet_Match_safe [OF request_okD [OF assms(2)]] Functions_Evaluate_total [OF assms(2,1)]
  by (auto simp: iam_applies_def iam_ActionSet_Match_def iam_Action_Match_def Match_glob iam_Statement_isAdmin_def)

interpretation iam: policy_engine ist_Effect "iam_Statement_check uf" "iam_Statement_IsAllowed uf" ia_IsOwner
    "iam_statements_allowed uf" for uf
  by unfold_locales (simp_all add: iam_Statement_IsAllowed_def iam_statements_allowed_def)

lemma iam_statements_allowed_applies:
  assumes "list_all (\<lambda>s. list_all Function_wf (ist_Conditions s)) ss" and "request_ok (ia_ConditionValues args)"
  shows "iam_statements_allowed uf ss args =
    Some (\<not> (\<exists>s \<in> set ss. ist_Effect s = Deny \<and> iam_applies uf s args) \<and>
          (ia_IsOwner args \<or> (\<exists>s \<in> set ss. ist_Effect s = Allow \<and> iam_applies uf s args)))"
proof -
  have check: "iam_Statement_check uf s args = Some (iam_applies uf s args)" if "s \<in> set ss" for s
    using assms that by (simp add: list_all_iff iam_Statement_check_applies)
  then have "iam_statements_allowed uf ss args =
      Some (\<not> iam.denied uf ss args \<and> (ia_IsOwner args \<or> iam.granted uf ss args))"
    by (intro iam.decision) simp
  moreover have "iam.denied uf ss args = (\<exists>s \<in> set ss. ist_Effect s = Deny \<and> iam_applies uf s args)"
    unfolding iam.denied_def using check by (intro bex_cong) auto
  moreover have "iam.granted uf ss args = (\<exists>s \<in> set ss. ist_Effect s = Allow \<and> iam_applies uf s args)"
    unfolding iam.granted_def using check by (intro bex_cong) auto
  ultimately show ?thesis by simp
qed

section \<open>The canned policies\<close>

lemma star_unchanged: "common_values_ok vals \<Longrightarrow> substFuncFromValues vals ''*'' = Some ''*''"
  by (rule substFuncFromValues_absent) (auto simp: Contains_iff Cons_eq_append_conv)

lemma canned_decision:
  assumes "common_values_ok (ia_ConditionValues args)"
  shows "iam_Policy_IsAllowed uf (canned_policy actions) args =
    Some (ia_IsOwner args \<or> (\<exists>a \<in> set actions. Match a (ia_Action args)))"
proof -
  let ?st = "\<lparr>ist_SID = [], ist_Effect = Allow, ist_Actions = NewActionSet actions,
        ist_Resources = NewResourceSet [NewResource ''*'' []], ist_Conditions = []\<rparr>"
  have "iam_ResourceSet_Match (NewResourceSet [NewResource ''*'' []]) resource (ia_ConditionValues args) = Some True"
    for resource
    unfolding iam_ResourceSet_Match_safe [OF assms]
    by (auto simp: NewResource_def star_unchanged [OF assms] intro!: exI [of _ "''*''"])
  then have "iam_Statement_check uf ?st args = Some (\<exists>a \<in> set actions. Match a (ia_Action args))"
    by (auto simp: iam_Statement_check_def iam_ActionSet_Match_def iam_Action_Match_def Functions_Evaluate_def)
  then have check: "iam_Statement_IsAllowed uf ?st args = Some (\<exists>a \<in> set actions. Match a (ia_Action args))"
    by (simp add: iam_Statement_IsAllowed_def Effect_IsAllowed_def)
  show ?thesis
    by (simp add: iam_Policy_IsAllowed_def iam_statements_allowed_def canned_policy_def check split: bool.split)
qed

section \<open>Reading documents\<close>

lemma iam_statement_field_wf:
  "list_all Function_wf (ist_Conditions st) \<Longrightarrow> iam_statement_field ji k j st = Inr st' \<Longrightarrow>
     list_all Function_wf (ist_Conditions st')"
  by (cases "Functions_UnmarshalJSON j")
    (auto simp: iam_statement_field_def map_sum_Inr Functions_UnmarshalJSON_wf split: if_splits)

lemma iam_Statement_UnmarshalJSON_valid:
  assumes "iam_Statement_UnmarshalJSON ji data = Inr s"
  shows "iam_Statement_isValid s = None \<and> list_all Function_wf (ist_Conditions s)"
proof -
  have zero: "list_all Function_wf (ist_Conditions iam_Statement_zero)" by (simp add: iam_Statement_zero_def)
  have "list_all Function_wf (ist_Conditions st)"
    if "decode_struct (iam_statement_field ji) iam_Statement_zero fs = Inr st" for fs st
    by (rule decode_struct_inv [where P = "\<lambda>st. list_all Function_wf (ist_Conditions st)", OF iam_statement_field_wf zero that])
  with zero show ?thesis
    using assms by (cases data) (auto simp: iam_Statement_UnmarshalJSON_def split: sum.splits option.splits)
qed

definition iam_good_statements :: "iam_Policy \<Rightarrow> bool" where
  "iam_good_statements p =
     list_all (\<lambda>s. iam_Statement_isValid s = None \<and> list_all Function_wf (ist_Conditions s)) (ip_Statements p)"

lemma iam_policy_field_good:
  assumes "iam_good_statements p" and "iam_policy_field ji k j p = Inr p'"
  shows "iam_good_statements p'"
proof -
  have list: "iam_good_statements (p\<lparr>ip_Statements := ss\<rparr>)"
    if "decode_objects (iam_Statement_UnmarshalJSON ji) js = Inr ss" for js ss
    unfolding iam_good_statements_def using decode_objects_all [OF iam_Statement_UnmarshalJSON_valid that] by simp
  have id: "iam_good_statements (p\<lparr>ip_ID := x\<rparr>)" "iam_good_statements (p\<lparr>ip_Version := x\<rparr>)"
    "iam_good_statements (p\<lparr>ip_Statements := []\<rparr>)" for x
    using assms(1) by (simp_all add: iam_good_statements_def)
  show ?thesis
    using assms by (auto simp: iam_policy_field_def map_sum_Inr list id split: if_splits json.splits)
qed

lemma iam_Policy_UnmarshalJSON_good:
  assumes "iam_Policy_UnmarshalJSON ji data = Inr p"
  shows "iam_good_statements p \<and> no_dups iam_same_statement (ip_Statements p) \<and> iam_Policy_isValid p = None"
proof -
  have zero: "iam_good_statements iam_Policy_zero" by (simp add: iam_Policy_zero_def iam_good_statements_def)
  moreover have "iam_good_statements q" if "decode_struct (iam_policy_field ji) iam_Policy_zero fs = Inr q" for fs q
    by (rule decode_struct_inv [where P = iam_good_statements, OF iam_policy_field_good zero that])
  ultimately obtain q where q: "iam_good_statements q" "iam_Policy_isValid q = None" "p = iam_dropDuplicateStatements q"
    using assms by (cases data) (auto simp: iam_Policy_UnmarshalJSON_def split: sum.splits option.splits)
  have sub: "set (ip_Statements p) \<subseteq> set (ip_Statements q)"
    by (simp add: q(3) iam_dropDuplicateStatements_def set_drop_dups)
  have "iam_good_statements p" using q(1) sub by (auto simp: iam_good_statements_def list_all_iff)
  moreover have "iam_Policy_isValid p = None"
  proof -
    have "ip_Version p = ip_Version q" by (simp add: q(3) iam_dropDuplicateStatements_def)
    with q(2) sub show ?thesis by (auto simp: iam_Policy_isValid_def split: if_splits)
  qed
  moreover have "no_dups iam_same_statement (ip_Statements p)"
    by (simp add: q(3) iam_dropDuplicateStatements_def drop_dups_no_dups)
  ultimately show ?thesis by simp
qed

lemma iam_same_statement_iff:
  "iam_same_statement x y \<longleftrightarrow> ist_Effect x = ist_Effect y \<and> ist_Actions x = ist_Actions y \<and>
     ist_Resources x = ist_Resources y \<and>
     Functions_String (ist_Conditions x) = Functions_String (ist_Conditions y)"
  by (auto simp: iam_same_statement_def actionset.equals_eq resourceset.equals_eq)

lemma iam_drop_dups_loses_middle:
  assumes "\<not> iam_same_statement a d"
  shows "drop_dups iam_same_statement [a, d, a] = [a]"
  using assms by (simp add: drop_dups.simps iam_same_statement_iff)

section \<open>Properties\<close>

definition ex_iam_args :: "Action \<Rightarrow> string \<Rightarrow> iam_Args" where
  "ex_iam_args action object = \<lparr>ia_AccountName = ''alice'', ia_Action = action, ia_BucketName = ''b'',
     ia_ConditionValues = Map.empty, ia_IsOwner = False, ia_ObjectName = object, ia_Claims = Map.empty\<rparr>"

lemma ex_iam_ok: "request_ok (ia_ConditionValues (ex_iam_args action object))"
  "common_values_ok (ia_ConditionValues (ex_iam_args action object))"
  by (simp_all add: request_ok_def common_values_ok_def requestValue_def ex_iam_args_def list_all_iff)

lemma ex_iam_fields:
  "\<not> ia_IsOwner (ex_iam_args action object)" "ia_Action (ex_iam_args action object) = action"
  by (simp_all add: ex_iam_args_def)

text \<open>An administrative statement without resources and a statement that denies it.\<close>

definition ex_iam_allow :: iam_Statement where
  "ex_iam_allow = iam_NewStatement Allow (NewActionSet [ServerInfoAdminAction]) (NewResourceSet []) []"

definition ex_iam_deny :: iam_Statement where
  "ex_iam_deny = iam_NewStatement Deny (NewActionSet [AllAdminActions]) (NewResourceSet []) []"

lemma ex_iam_statement_fields:
  "ist_Effect ex_iam_allow = Allow" "ist_Effect ex_iam_deny = Deny"
  "ist_Conditions ex_iam_allow = []" "ist_Conditions ex_iam_deny = []"
  "ist_Actions ex_iam_allow = {|ServerInfoAdminAction|}" "ist_Actions ex_iam_deny = {|AllAdminActions|}"
  "ist_Resources ex_iam_allow = {||}" "ist_Resources ex_iam_deny = {||}"
  by (auto simp: ex_iam_allow_def ex_iam_deny_def iam_NewStatement_def NewActionSet_def ActionSet_Add_def
      NewResourceSet_def)

lemma ex_iam_applies:
  "iam_applies uf ex_iam_allow (ex_iam_args ServerInfoAdminAction object)"
  "iam_applies uf ex_iam_deny (ex_iam_args ServerInfoAdminAction object)"
proof -
  have "literal ''admin:ServerInfo''" "literal ''admin:''" by (simp_all add: literal_def is_ascii_def ascii_def)
  then have "Match ''admin:ServerInfo'' ''admin:ServerInfo''" "Match (''admin:'' @ ''*'') ''admin:ServerInfo''"
    by (simp_all only: Match_literal_star Match_literal) simp
  then have "glob (runes ''admin:ServerInfo'') (runes ''admin:ServerInfo'')"
    "glob (runes ''admin:*'') (runes ''admin:ServerInfo'')"
    by (simp_all add: Match_glob)
  then show "iam_applies uf ex_iam_allow (ex_iam_args ServerInfoAdminAction object)"
    "iam_applies uf ex_iam_deny (ex_iam_args ServerInfoAdminAction object)"
    by (simp_all add: iam_applies_def ex_iam_statement_fields ex_iam_fields ServerInfoAdminAction_def
        AllAdminActions_def AdminAction_IsValid_def supportedAdminActions_def)
qed

text \<open>C16: an IAM policy allows a request when no statement with effect Deny applies and the caller
  is the owner or a statement with effect Allow applies.  A statement applies when an action
  pattern matches, all its actions are administrative or a resource covers the request, and all
  conditions hold.\<close>

theorem iam_Policy_IsAllowed_decision:
  assumes "list_all (\<lambda>s. list_all Function_wf (ist_Conditions s)) (ip_Statements iamp)"
    and "request_ok (ia_ConditionValues args)"
  shows "iam_Policy_IsAllowed uf iamp args =
    Some (\<not> (\<exists>s \<in> set (ip_Statements iamp). ist_Effect s = Deny \<and> iam_applies uf s args) \<and>
          (ia_IsOwner args \<or> (\<exists>s \<in> set (ip_Statements iamp). ist_Effect s = Allow \<and> iam_applies uf s args)))"
  unfolding iam_Policy_IsAllowed_def using assms by (rule iam_statements_allowed_applies)

theorem iam_Policy_IsAllowed_decision_witness:
  "iam_Policy_IsAllowed id \<lparr>ip_ID = [], ip_Version = [], ip_Statements = [ex_iam_allow]\<rparr>
     (ex_iam_args ServerInfoAdminAction []) = Some True \<and>
   iam_Policy_IsAllowed id \<lparr>ip_ID = [], ip_Version = [], ip_Statements = [ex_iam_allow, ex_iam_deny]\<rparr>
     (ex_iam_args ServerInfoAdminAction []) = Some False"
  using iam_Policy_IsAllowed_decision [OF _ ex_iam_ok(1),
      of "\<lparr>ip_ID = [], ip_Version = [], ip_Statements = [ex_iam_allow]\<rparr>" id ServerInfoAdminAction "[]"]
    iam_Policy_IsAllowed_decision [OF _ ex_iam_ok(1),
      of "\<lparr>ip_ID = [], ip_Version = [], ip_Statements = [ex_iam_allow, ex_iam_deny]\<rparr>" id ServerInfoAdminAction "[]"]
  by (simp add: ex_iam_statement_fields ex_iam_fields ex_iam_applies)

text \<open>C21: what the canned policies grant, for every request whose common values are in order:
  \<open>ReadWrite\<close> every action that starts with \<open>s3:\<close>, \<open>ReadOnly\<close> exactly reading an object and the
  location of a bucket, \<open>WriteOnly\<close> exactly writing an object; the owner everything.\<close>

theorem canned_policies_grant:
  assumes "common_values_ok (ia_ConditionValues args)"
  shows "iam_Policy_IsAllowed uf ReadWrite args = Some (ia_IsOwner args \<or> HasPrefix (ia_Action args) ''s3:'') \<and>
    iam_Policy_IsAllowed uf ReadOnly args =
      Some (ia_IsOwner args \<or> ia_Action args = GetBucketLocationAction \<or> ia_Action args = GetObjectAction) \<and>
    iam_Policy_IsAllowed uf WriteOnly args = Some (ia_IsOwner args \<or> ia_Action args = PutObjectAction)"
proof -
  have "literal ''s3:''" "literal GetBucketLocationAction" "literal GetObjectAction" "literal PutObjectAction"
    by (simp_all add: literal_def is_ascii_def ascii_def GetBucketLocationAction_def GetObjectAction_def
        PutObjectAction_def)
  moreover have "AllActions = ''s3:'' @ ''*''" by (simp add: AllActions_def)
  ultimately show ?thesis
    unfolding ReadWrite_def ReadOnly_def WriteOnly_def canned_decision [OF assms]
    by (simp add: Match_literal) (metis Match_literal_star append.simps)
qed

theorem canned_policies_grant_witness:
  "iam_Policy_IsAllowed id ReadOnly (ex_iam_args GetObjectAction ''k'') = Some True \<and>
   iam_Policy_IsAllowed id ReadOnly (ex_iam_args PutObjectAction ''k'') = Some False \<and>
   iam_Policy_IsAllowed id ReadWrite (ex_iam_args PutObjectAction ''k'') = Some True \<and>
   iam_Policy_IsAllowed id WriteOnly (ex_iam_args GetObjectAction ''k'') = Some False"
  using canned_policies_grant [OF ex_iam_ok(2), of id GetObjectAction "''k''"]
    canned_policies_grant [OF ex_iam_ok(2), of id PutObjectAction "''k''"]
  by (simp add: ex_iam_fields) (simp add: GetObjectAction_def PutObjectAction_def GetBucketLocationAction_def)

text \<open>an IAM policy read from a document is valid, has no two statements that count as equal,
  and all its conditions are well formed.\<close>

theorem iam_Policy_UnmarshalJSON_invariant:
  assumes "iam_Policy_UnmarshalJSON ji data = Inr iamp"
  shows "iam_Policy_isValid iamp = None \<and> no_dups iam_same_statement (ip_Statements iamp) \<and>
    (\<forall>s \<in> set (ip_Statements iamp). iam_Statement_isValid s = None \<and> list_all Function_wf (ist_Conditions s))"
  using iam_Policy_UnmarshalJSON_good [OF assms] by (auto simp: iam_good_statements_def list_all_iff)

theorem iam_Policy_UnmarshalJSON_invariant_witness:
  "iam_Policy_UnmarshalJSON plain_jsoniter ex_document =
     Inr \<lparr>ip_ID = [], ip_Version = DefaultVersion, ip_Statements = []\<rparr> \<and>
   iam_Policy_isValid \<lparr>ip_ID = [], ip_Version = DefaultVersion, ip_Statements = []\<rparr> = None"
proof -
  have runes: "runes ''ID'' = [73, 68]" "runes ''Version'' = [86, 101, 114, 115, 105, 111, 110]"
    "runes ''Statement'' = [83, 116, 97, 116, 101, 109, 101, 110, 116]"
    by (simp_all add: runes_ascii is_ascii_def ascii_def)
  have read: "iam_Policy_UnmarshalJSON plain_jsoniter ex_document =
      Inr \<lparr>ip_ID = [], ip_Version = DefaultVersion, ip_Statements = []\<rparr>"
    by (simp add: iam_Policy_UnmarshalJSON_def ex_document_def iam_policy_field_def field_is_def runes
        fold_name_rune_def iam_Policy_zero_def iam_Policy_isValid_def iam_dropDuplicateStatements_def drop_dups.simps)
  with iam_Policy_UnmarshalJSON_invariant [OF read] show ?thesis by simp
qed

text \<open>two administrative actions that the code declares, reading a group and the accounting of
  usage, are not among the supported ones: a policy that names one of them is refused, while
  the pattern \<open>admin:*\<close> grants both.\<close>

theorem unsupported_admin_actions:
  "iam_parseAction GetGroupAdminAction = Inl (InvalidAction GetGroupAdminAction) \<and>
   iam_parseAction AccountingUsageInfoAdminAction = Inl (InvalidAction AccountingUsageInfoAdminAction) \<and>
   iam_parseAction AllAdminActions = Inr AllAdminActions \<and>
   iam_Action_Match AllAdminActions GetGroupAdminAction \<and>
   iam_Action_Match AllAdminActions AccountingUsageInfoAdminAction"
proof -
  have "literal ''admin:''" by (simp add: literal_def is_ascii_def ascii_def)
  then have "Match (''admin:'' @ ''*'') GetGroupAdminAction" "Match (''admin:'' @ ''*'') AccountingUsageInfoAdminAction"
    unfolding Match_literal_star [OF \<open>literal ''admin:''\<close>]
    by (simp_all add: GetGroupAdminAction_def AccountingUsageInfoAdminAction_def)
  then have "iam_Action_Match AllAdminActions GetGroupAdminAction"
    "iam_Action_Match AllAdminActions AccountingUsageInfoAdminAction"
    by (simp_all add: iam_Action_Match_def AllAdminActions_def)
  moreover have "iam_parseAction GetGroupAdminAction = Inl (InvalidAction GetGroupAdminAction)"
    by (simp add: iam_parseAction_def parseAdminAction_def AdminAction_IsValid_def supportedAdminActions_def
        iam_Action_IsValid_def iam_supportedActions_def admin_action_defs action_defs
        iam_PutBucketLifecycleAction_def iam_GetBucketLifecycleAction_def AllActions_def)
  moreover have "iam_parseAction AccountingUsageInfoAdminAction = Inl (InvalidAction AccountingUsageInfoAdminAction)"
    by (simp add: iam_parseAction_def parseAdminAction_def AdminAction_IsValid_def supportedAdminActions_def
        iam_Action_IsValid_def iam_supportedActions_def admin_action_defs action_defs
        iam_PutBucketLifecycleAction_def iam_GetBucketLifecycleAction_def AllActions_def)
  moreover have "iam_parseAction AllAdminActions = Inr AllAdminActions"
    by (simp add: iam_parseAction_def parseAdminAction_def AdminAction_IsValid_def supportedAdminActions_def)
  ultimately show ?thesis by simp
qed

end
