(* ===== verification/HttpRequest.thy ===== *)
theory HttpRequest
  imports GoNet
begin

text \<open>
  What the handlers read of a \<open>net/http\<close> request, the header names of
  \<open>cmd/ipos/http/headers.go\<close> that they use, and \<open>pkg/handlers/proxy.go\<close>: the address and the
  scheme of the client behind proxies.
\<close>

section \<open>Requests\<close>

type_synonym values_map = "string \<Rightarrow> string list option"

record http_request =
  Method :: string
  Header :: values_map
  Query :: values_map
  RemoteAddr :: string
  TLS :: bool
  Path :: string
  Host :: string
  TransferEncoding :: "string list"
  ContentLength :: int

text \<open>\<open>Header.Get\<close> and \<open>url.Values.Get\<close>: the first value, or the empty string.\<close>

definition first_value :: "values_map \<Rightarrow> string \<Rightarrow> string" where
  "first_value m k = (case m k of Some (v # _) \<Rightarrow> v | _ \<Rightarrow> [])"

definition Header_Get :: "http_request \<Rightarrow> string \<Rightarrow> string" where
  "Header_Get r k = first_value (Header r) (CanonicalHeaderKey k)"

definition Query_Get :: "http_request \<Rightarrow> string \<Rightarrow> string" where
  "Query_Get r k = first_value (Query r) k"

subsection \<open>Canonical names of literals\<close>

lemma to_upper_charI: "is_lower c \<Longrightarrow> ascii c = ascii d + 32 \<Longrightarrow> to_upper_char c = d"
  by (simp add: to_upper_char_def ascii_def)

lemma to_lower_charI: "is_upper c \<Longrightarrow> ascii d = ascii c + 32 \<Longrightarrow> to_lower_char c = d"
  by (simp add: to_lower_char_def ascii_def) (metis char_of_char)

lemma to_upper_char_letters [simp]:
  "to_upper_char CHR ''a'' = CHR ''A''" "to_upper_char CHR ''b'' = CHR ''B''" "to_upper_char CHR ''c'' = CHR ''C''"
  "to_upper_char CHR ''d'' = CHR ''D''" "to_upper_char CHR ''e'' = CHR ''E''" "to_upper_char CHR ''f'' = CHR ''F''"
  "to_upper_char CHR ''g'' = CHR ''G''" "to_upper_char CHR ''h'' = CHR ''H''" "to_upper_char CHR ''i'' = CHR ''I''"
  "to_upper_char CHR ''j'' = CHR ''J''" "to_upper_char CHR ''k'' = CHR ''K''" "to_upper_char CHR ''l'' = CHR ''L''"
  "to_upper_char CHR ''m'' = CHR ''M''" "to_upper_char CHR ''n'' = CHR ''N''" "to_upper_char CHR ''o'' = CHR ''O''"
  "to_upper_char CHR ''p'' = CHR ''P''" "to_upper_char CHR ''q'' = CHR ''Q''" "to_upper_char CHR ''r'' = CHR ''R''"
  "to_upper_char CHR ''s'' = CHR ''S''" "to_upper_char CHR ''t'' = CHR ''T''" "to_upper_char CHR ''u'' = CHR ''U''"
  "to_upper_char CHR ''v'' = CHR ''V''" "to_upper_char CHR ''w'' = CHR ''W''" "to_upper_char CHR ''x'' = CHR ''X''"
  "to_upper_char CHR ''y'' = CHR ''Y''" "to_upper_char CHR ''z'' = CHR ''Z''"
  by (rule to_upper_charI; simp add: is_lower_def ascii_def)+

lemma to_lower_char_letters [simp]:
  "to_lower_char CHR ''A'' = CHR ''a''" "to_lower_char CHR ''B'' = CHR ''b''" "to_lower_char CHR ''C'' = CHR ''c''"
  "to_lower_char CHR ''D'' = CHR ''d''" "to_lower_char CHR ''E'' = CHR ''e''" "to_lower_char CHR ''F'' = CHR ''f''"
  "to_lower_char CHR ''G'' = CHR ''g''" "to_lower_char CHR ''H'' = CHR ''h''" "to_lower_char CHR ''I'' = CHR ''i''"
  "to_lower_char CHR ''J'' = CHR ''j''" "to_lower_char CHR ''K'' = CHR ''k''" "to_lower_char CHR ''L'' = CHR ''l''"
  "to_lower_char CHR ''M'' = CHR ''m''" "to_lower_char CHR ''N'' = CHR ''n''" "to_lower_char CHR ''O'' = CHR ''o''"
  "to_lower_char CHR ''P'' = CHR ''p''" "to_lower_char CHR ''Q'' = CHR ''q''" "to_lower_char CHR ''R'' = CHR ''r''"
  "to_lower_char CHR ''S'' = CHR ''s''" "to_lower_char CHR ''T'' = CHR ''t''" "to_lower_char CHR ''U'' = CHR ''u''"
  "to_lower_char CHR ''V'' = CHR ''v''" "to_lower_char CHR ''W'' = CHR ''w''" "to_lower_char CHR ''X'' = CHR ''x''"
  "to_lower_char CHR ''Y'' = CHR ''y''" "to_lower_char CHR ''Z'' = CHR ''z''"
  by (rule to_lower_charI; simp add: is_upper_def ascii_def)+

lemma to_upper_char_same [simp]:
  "to_upper_char CHR ''A'' = CHR ''A''" "to_upper_char CHR ''B'' = CHR ''B''" "to_upper_char CHR ''C'' = CHR ''C''"
  "to_upper_char CHR ''D'' = CHR ''D''" "to_upper_char CHR ''E'' = CHR ''E''" "to_upper_char CHR ''F'' = CHR ''F''"
  "to_upper_char CHR ''G'' = CHR ''G''" "to_upper_char CHR ''H'' = CHR ''H''" "to_upper_char CHR ''I'' = CHR ''I''"
  "to_upper_char CHR ''J'' = CHR ''J''" "to_upper_char CHR ''K'' = CHR ''K''" "to_upper_char CHR ''L'' = CHR ''L''"
  "to_upper_char CHR ''M'' = CHR ''M''" "to_upper_char CHR ''N'' = CHR ''N''" "to_upper_char CHR ''O'' = CHR ''O''"
  "to_upper_char CHR ''P'' = CHR ''P''" "to_upper_char CHR ''Q'' = CHR ''Q''" "to_upper_char CHR ''R'' = CHR ''R''"
  "to_upper_char CHR ''S'' = CHR ''S''" "to_upper_char CHR ''T'' = CHR ''T''" "to_upper_char CHR ''U'' = CHR ''U''"
  "to_upper_char CHR ''V'' = CHR ''V''" "to_upper_char CHR ''W'' = CHR ''W''" "to_upper_char CHR ''X'' = CHR ''X''"
  "to_upper_char CHR ''Y'' = CHR ''Y''" "to_upper_char CHR ''Z'' = CHR ''Z''" "to_upper_char CHR ''-'' = CHR ''-''"
  by (simp_all add: to_upper_char_def is_lower_def ascii_def)

lemma to_lower_char_same [simp]:
  "to_lower_char CHR ''a'' = CHR ''a''" "to_lower_char CHR ''b'' = CHR ''b''" "to_lower_char CHR ''c'' = CHR ''c''"
  "to_lower_char CHR ''d'' = CHR ''d''" "to_lower_char CHR ''e'' = CHR ''e''" "to_lower_char CHR ''f'' = CHR ''f''"
  "to_lower_char CHR ''g'' = CHR ''g''" "to_lower_char CHR ''h'' = CHR ''h''" "to_lower_char CHR ''i'' = CHR ''i''"
  "to_lower_char CHR ''j'' = CHR ''j''" "to_lower_char CHR ''k'' = CHR ''k''" "to_lower_char CHR ''l'' = CHR ''l''"
  "to_lower_char CHR ''m'' = CHR ''m''" "to_lower_char CHR ''n'' = CHR ''n''" "to_lower_char CHR ''o'' = CHR ''o''"
  "to_lower_char CHR ''p'' = CHR ''p''" "to_lower_char CHR ''q'' = CHR ''q''" "to_lower_char CHR ''r'' = CHR ''r''"
  "to_lower_char CHR ''s'' = CHR ''s''" "to_lower_char CHR ''t'' = CHR ''t''" "to_lower_char CHR ''u'' = CHR ''u''"
  "to_lower_char CHR ''v'' = CHR ''v''" "to_lower_char CHR ''w'' = CHR ''w''" "to_lower_char CHR ''x'' = CHR ''x''"
  "to_lower_char CHR ''y'' = CHR ''y''" "to_lower_char CHR ''z'' = CHR ''z''" "to_lower_char CHR ''0'' = CHR ''0''"
  "to_lower_char CHR ''1'' = CHR ''1''" "to_lower_char CHR ''2'' = CHR ''2''" "to_lower_char CHR ''3'' = CHR ''3''"
  "to_lower_char CHR ''4'' = CHR ''4''" "to_lower_char CHR ''5'' = CHR ''5''" "to_lower_char CHR ''6'' = CHR ''6''"
  "to_lower_char CHR ''7'' = CHR ''7''" "to_lower_char CHR ''8'' = CHR ''8''" "to_lower_char CHR ''9'' = CHR ''9''"
  "to_lower_char CHR ''-'' = CHR ''-''"
  by (simp_all add: to_lower_char_def is_upper_def ascii_def)

lemma alnum_header_byte: "is_alnum c \<Longrightarrow> validHeaderFieldByte c"
  by (simp add: validHeaderFieldByte_def)

lemma letter_header_byte [simp]:
  "validHeaderFieldByte CHR ''a''" "validHeaderFieldByte CHR ''b''" "validHeaderFieldByte CHR ''c''" "validHeaderFieldByte CHR ''d''"
  "validHeaderFieldByte CHR ''e''" "validHeaderFieldByte CHR ''f''" "validHeaderFieldByte CHR ''g''" "validHeaderFieldByte CHR ''h''"
  "validHeaderFieldByte CHR ''i''" "validHeaderFieldByte CHR ''j''" "validHeaderFieldByte CHR ''k''" "validHeaderFieldByte CHR ''l''"
  "validHeaderFieldByte CHR ''m''" "validHeaderFieldByte CHR ''n''" "validHeaderFieldByte CHR ''o''" "validHeaderFieldByte CHR ''p''"
  "validHeaderFieldByte CHR ''q''" "validHeaderFieldByte CHR ''r''" "validHeaderFieldByte CHR ''s''" "validHeaderFieldByte CHR ''t''"
  "validHeaderFieldByte CHR ''u''" "validHeaderFieldByte CHR ''v''" "validHeaderFieldByte CHR ''w''" "validHeaderFieldByte CHR ''x''"
  "validHeaderFieldByte CHR ''y''" "validHeaderFieldByte CHR ''z''" "validHeaderFieldByte CHR ''A''" "validHeaderFieldByte CHR ''B''"
  "validHeaderFieldByte CHR ''C''" "validHeaderFieldByte CHR ''D''" "validHeaderFieldByte CHR ''E''" "validHeaderFieldByte CHR ''F''"
  "validHeaderFieldByte CHR ''G''" "validHeaderFieldByte CHR ''H''" "validHeaderFieldByte CHR ''I''" "validHeaderFieldByte CHR ''J''"
  "validHeaderFieldByte CHR ''K''" "validHeaderFieldByte CHR ''L''" "validHeaderFieldByte CHR ''M''" "validHeaderFieldByte CHR ''N''"
  "validHeaderFieldByte CHR ''O''" "validHeaderFieldByte CHR ''P''" "validHeaderFieldByte CHR ''Q''" "validHeaderFieldByte CHR ''R''"
  "validHeaderFieldByte CHR ''S''" "validHeaderFieldByte CHR ''T''" "validHeaderFieldByte CHR ''U''" "validHeaderFieldByte CHR ''V''"
  "validHeaderFieldByte CHR ''W''" "validHeaderFieldByte CHR ''X''" "validHeaderFieldByte CHR ''Y''" "validHeaderFieldByte CHR ''Z''"
  "validHeaderFieldByte CHR ''0''" "validHeaderFieldByte CHR ''1''" "validHeaderFieldByte CHR ''2''" "validHeaderFieldByte CHR ''3''"
  "validHeaderFieldByte CHR ''4''" "validHeaderFieldByte CHR ''5''" "validHeaderFieldByte CHR ''6''" "validHeaderFieldByte CHR ''7''"
  "validHeaderFieldByte CHR ''8''" "validHeaderFieldByte CHR ''9''"
  by (rule alnum_header_byte, simp add: is_alnum_def is_upper_def is_lower_def is_digit_def ascii_def)+

lemma minus_header_byte [simp]: "validHeaderFieldByte CHR ''-''"
  by (simp add: validHeaderFieldByte_def)

lemmas canonical_simps = CanonicalHeaderKey_def Let_def

section \<open>headers.go\<close>

definition ContentMD5 :: string where "ContentMD5 = ''Content-Md5''"
definition AmzDate :: string where "AmzDate = ''X-Amz-Date''"
definition HeaderDate :: string where "HeaderDate = ''Date''"
definition ContentType :: string where "ContentType = ''Content-Type''"
definition Authorization :: string where "Authorization = ''Authorization''"
definition xAction :: string where "xAction = ''Action''"
definition AmzObjectLockMode :: string where "AmzObjectLockMode = ''X-Amz-Object-Lock-Mode''"
definition AmzObjectLockRetainUntilDate :: string where
  "AmzObjectLockRetainUntilDate = ''X-Amz-Object-Lock-Retain-Until-Date''"
definition AmzObjectLockLegalHold :: string where "AmzObjectLockLegalHold = ''X-Amz-Object-Lock-Legal-Hold''"
definition AmzObjectLockBypassGovernance :: string where
  "AmzObjectLockBypassGovernance = ''X-Amz-Bypass-Governance-Retention''"
definition AmzContentSha256 :: string where "AmzContentSha256 = ''X-Amz-Content-Sha256''"
definition AmzSecurityToken :: string where "AmzSecurityToken = ''X-Amz-Security-Token''"
definition AmzCredential :: string where "AmzCredential = ''X-Amz-Credential''"
definition AmzAccessKeyID :: string where "AmzAccessKeyID = ''AWSAccessKeyId''"

lemmas header_defs = ContentMD5_def AmzDate_def HeaderDate_def ContentType_def Authorization_def xAction_def AmzObjectLockMode_def
  AmzObjectLockRetainUntilDate_def AmzObjectLockLegalHold_def AmzObjectLockBypassGovernance_def
  AmzContentSha256_def AmzSecurityToken_def AmzCredential_def AmzAccessKeyID_def

lemma lock_headers_canonical [simp]:
  "CanonicalHeaderKey AmzObjectLockMode = AmzObjectLockMode"
  "CanonicalHeaderKey AmzObjectLockRetainUntilDate = AmzObjectLockRetainUntilDate"
  "CanonicalHeaderKey AmzObjectLockLegalHold = AmzObjectLockLegalHold"
  by (simp_all add: header_defs canonical_simps)

section \<open>net.SplitHostPort\<close>

definition LastIndexChar :: "char \<Rightarrow> string \<Rightarrow> nat option" where
  "LastIndexChar c s =
     (case Index (rev s) [c] of None \<Rightarrow> None | Some i \<Rightarrow> Some (length s - 1 - i))"

text \<open>The host and the port; \<open>None\<close> is the error, with which both results are empty.\<close>

definition SplitHostPort :: "string \<Rightarrow> (string \<times> string) option" where
  "SplitHostPort hostport =
     (case LastIndexChar CHR '':'' hostport of
        None \<Rightarrow> None
      | Some i \<Rightarrow>
          (case
             (if HasPrefix hostport ''['' then
                (case Index hostport '']'' of
                   None \<Rightarrow> None
                 | Some e \<Rightarrow> if e + 1 = i then Some (take (e - 1) (drop 1 hostport), 1, e + 1) else None)
              else
                (let host = take i hostport in if Contains host '':'' then None else Some (host, 0, 0)))
           of
             None \<Rightarrow> None
           | Some (host, j, k) \<Rightarrow>
               if Contains (drop j hostport) ''['' then None
               else if Contains (drop k hostport) '']'' then None
               else Some (host, drop (i + 1) hostport)))"

section \<open>proxy.go\<close>

definition xForwardedFor :: string where "xForwardedFor = CanonicalHeaderKey ''X-Forwarded-For''"
definition xForwardedProto :: string where "xForwardedProto = CanonicalHeaderKey ''X-Forwarded-Proto''"
definition xForwardedScheme :: string where "xForwardedScheme = CanonicalHeaderKey ''X-Forwarded-Scheme''"
definition xRealIP :: string where "xRealIP = CanonicalHeaderKey ''X-Real-IP''"
definition forwarded :: string where "forwarded = CanonicalHeaderKey ''Forwarded''"

text \<open>\<open>(?i)(?:for=)([^(;|,| )]+)(.*)\<close>: the two groups of the leftmost match.\<close>

definition for_delimiter :: "char \<Rightarrow> bool" where
  "for_delimiter c \<longleftrightarrow> c \<in> set ''(;|, )''"

fun forRegex :: "string \<Rightarrow> (string \<times> string) option" where
  "forRegex [] = None"
| "forRegex (c # s) =
     (let group1 = takeWhile (\<lambda>d. \<not> for_delimiter d) (drop 3 s) in
      if map to_lower_char (take 4 (c # s)) = ''for='' \<and> group1 \<noteq> [] then
        Some (group1, takeWhile (\<lambda>d. ascii d \<noteq> 10) (dropWhile (\<lambda>d. \<not> for_delimiter d) (drop 3 s)))
      else forRegex s)"

text \<open>\<open>(?i)^(;|,| )+(?:proto=)(https|http)\<close>: the second group.  Without regard to case, an
  \<open>s\<close> is also the long s, U+017F.\<close>

definition protoRegex :: "string \<Rightarrow> string option" where
  "protoRegex s =
     (let rest = dropWhile (\<lambda>c. c \<in> set '';, '') s; p = drop 6 rest in
      if rest = s \<or> map to_lower_char (take 6 rest) \<noteq> ''proto='' \<or> map to_lower_char (take 4 p) \<noteq> ''http'' then None
      else if map to_lower_char (take 1 (drop 4 p)) = ''s'' then Some (take 5 p)
      else if map ascii (take 2 (drop 4 p)) = [197, 191] then Some (take 6 p)
      else Some (take 4 p))"

definition Trim_char :: "char \<Rightarrow> string \<Rightarrow> string" where
  "Trim_char c s = rev (dropWhile (\<lambda>d. d = c) (rev (dropWhile (\<lambda>d. d = c) s)))"

text \<open>\<open>lw\<close> is the table of Unicode for lower case.\<close>

definition GetSourceScheme :: "(nat \<Rightarrow> nat) \<Rightarrow> http_request \<Rightarrow> string" where
  "GetSourceScheme lw r =
     (if Header_Get r xForwardedProto \<noteq> [] then ToLower lw (Header_Get r xForwardedProto)
      else if Header_Get r xForwardedScheme \<noteq> [] then ToLower lw (Header_Get r xForwardedScheme)
      else if Header_Get r forwarded \<noteq> [] then
        (case forRegex (Header_Get r forwarded) of
           None \<Rightarrow> []
         | Some (_, group2) \<Rightarrow>
             (case protoRegex group2 of None \<Rightarrow> [] | Some scheme \<Rightarrow> ToLower lw scheme))
      else [])"

definition source_addr :: "http_request \<Rightarrow> string" where
  "source_addr r =
     (if Header_Get r xForwardedFor \<noteq> [] then
        (let fwd = Header_Get r xForwardedFor in
         case Index fwd '', '' of None \<Rightarrow> fwd | Some s \<Rightarrow> take s fwd)
      else if Header_Get r xRealIP \<noteq> [] then Header_Get r xRealIP
      else if Header_Get r forwarded \<noteq> [] then
        (case forRegex (Header_Get r forwarded) of
           None \<Rightarrow> []
         | Some (group1, _) \<Rightarrow> Trim_char (char_of (34 :: nat)) group1)
      else [])"

definition GetSourceIP :: "http_request \<Rightarrow> string" where
  "GetSourceIP r =
     (if source_addr r \<noteq> [] then source_addr r
      else case SplitHostPort (RemoteAddr r) of None \<Rightarrow> [] | Some (addr, _) \<Rightarrow> addr)"

lemma Index_rev_char:
  "c \<notin> set b \<Longrightarrow> LastIndexChar c (a @ c # b) = Some (length a)"
  using Index_char_append [of c "rev b" "rev a"] by (simp add: LastIndexChar_def)

lemma SplitHostPort_plain:
  assumes "CHR '':'' \<notin> set (host @ port)" and "CHR ''['' \<notin> set (host @ port)" and "CHR '']'' \<notin> set (host @ port)"
  shows "SplitHostPort (host @ '':'' @ port) = Some (host, port)"
proof -
  have "LastIndexChar CHR '':'' (host @ '':'' @ port) = Some (length host)"
    using assms(1) Index_rev_char [of "CHR '':''" port host] by simp
  moreover have "\<not> HasPrefix (host @ '':'' @ port) ''[''" using assms(2) by (cases host) auto
  moreover have "\<not> Contains host '':''" using assms(1) by (simp add: Contains_single)
  moreover have "\<not> Contains (host @ '':'' @ port) ''[''" "\<not> Contains (host @ '':'' @ port) '']''"
    using assms by (simp_all add: Contains_single)
  ultimately show ?thesis by (simp add: SplitHostPort_def)
qed

lemma SplitHostPort_brackets:
  assumes "CHR '':'' \<notin> set port" and "CHR ''['' \<notin> set (host @ port)" and "CHR '']'' \<notin> set (host @ port)"
  shows "SplitHostPort (''['' @ host @ '']:'' @ port) = Some (host, port)"
proof -
  have "LastIndexChar CHR '':'' ((''['' @ host @ '']'') @ CHR '':'' # port) = Some (length (''['' @ host @ '']''))"
    using assms(1) by (rule Index_rev_char)
  then have "LastIndexChar CHR '':'' (''['' @ host @ '']:'' @ port) = Some (length host + 2)" by simp
  moreover have "Index ((''['' @ host) @ CHR '']'' # '':'' @ port) '']'' = Some (length (''['' @ host))"
    using assms(3) by (intro Index_char_append) simp
  then have "Index (''['' @ host @ '']:'' @ port) '']'' = Some (length host + 1)" by simp
  moreover have "\<not> Contains (host @ '']:'' @ port) ''[''" "\<not> Contains ('':'' @ port) '']''"
    using assms by (simp_all add: Contains_single)
  ultimately show ?thesis by (simp add: SplitHostPort_def)
qed

lemma Index_comma_space: "CHR '','' \<notin> set a \<Longrightarrow> Index (a @ '', '' @ rest) '', '' = Some (length a)"
  by (induction a) (auto simp: HasPrefix_def)

section \<open>Properties\<close>

text \<open>Without a forwarding header the address is the host of the connection, for the
  forms \<open>host:port\<close> and \<open>[host]:port\<close>; with \<open>X-Forwarded-For\<close> it is whatever that header
  has before the first comma and space, and without that header \<open>X-Real-Ip\<close> decides.\<close>

theorem GetSourceIP_cases:
  assumes "CHR '':'' \<notin> set port" and "CHR ''['' \<notin> set (host @ port)" and "CHR '']'' \<notin> set (host @ port)"
  shows "(Header_Get r xForwardedFor = [] \<and> Header_Get r xRealIP = [] \<and> Header_Get r forwarded = [] \<longrightarrow>
      (RemoteAddr r = ''['' @ host @ '']:'' @ port \<or> RemoteAddr r = host @ '':'' @ port \<and> CHR '':'' \<notin> set host \<longrightarrow>
       GetSourceIP r = host)) \<and>
    (Header_Get r xForwardedFor = a @ '', '' @ rest \<and> a \<noteq> [] \<and> CHR '','' \<notin> set a \<longrightarrow> GetSourceIP r = a) \<and>
    (Header_Get r xForwardedFor = [] \<and> Header_Get r xRealIP \<noteq> [] \<longrightarrow> GetSourceIP r = Header_Get r xRealIP)"
proof (intro conjI impI)
  assume "Header_Get r xForwardedFor = [] \<and> Header_Get r xRealIP = [] \<and> Header_Get r forwarded = []"
  then have no: "source_addr r = []" by (simp add: source_addr_def)
  assume "RemoteAddr r = ''['' @ host @ '']:'' @ port \<or> RemoteAddr r = host @ '':'' @ port \<and> CHR '':'' \<notin> set host"
  then have "SplitHostPort (RemoteAddr r) = Some (host, port)"
  proof
    assume "RemoteAddr r = ''['' @ host @ '']:'' @ port"
    with SplitHostPort_brackets [OF assms] show ?thesis by simp
  next
    assume "RemoteAddr r = host @ '':'' @ port \<and> CHR '':'' \<notin> set host"
    with SplitHostPort_plain [of host port] assms show ?thesis by simp
  qed
  with no show "GetSourceIP r = host" by (simp add: GetSourceIP_def)
next
  assume a: "Header_Get r xForwardedFor = a @ '', '' @ rest \<and> a \<noteq> [] \<and> CHR '','' \<notin> set a"
  then have "Index (a @ '', '' @ rest) '', '' = Some (length a)" using Index_comma_space by blast
  with a show "GetSourceIP r = a" by (simp add: GetSourceIP_def source_addr_def)
next
  assume "Header_Get r xForwardedFor = [] \<and> Header_Get r xRealIP \<noteq> []"
  then show "GetSourceIP r = Header_Get r xRealIP" by (simp add: GetSourceIP_def source_addr_def)
qed

definition ex_request :: http_request where
  "ex_request = \<lparr>Method = ''GET'', Header = (\<lambda>_. None), Query = (\<lambda>_. None),
     RemoteAddr = ''[::1]:80'', TLS = False, Path = ''/b/o'', Host = ''ipos'', TransferEncoding = [], ContentLength = 0\<rparr>"

theorem GetSourceIP_cases_witness: "GetSourceIP ex_request = ''::1''"
  using GetSourceIP_cases [of "''80''" "''::1''" ex_request]
  by (simp add: ex_request_def Header_Get_def first_value_def)

end
