(* ===== verification/PolicySys.thy ===== *)
theory PolicySys
  imports IamPolicy HttpRequest GoTime
begin

text \<open>
  \<open>cmd/ipos/cmd/policy.go\<close>: the table of bucket policies of the server, and the values of a
  request that policy conditions look at.  The object layer that stores the policies is an
  argument of \<open>load\<close>.
\<close>

section \<open>PolicySys\<close>

record PolicySys =
  bucketPolicyMap :: "string \<Rightarrow> Policy option"

definition NewPolicySys :: PolicySys where
  "NewPolicySys = \<lparr>bucketPolicyMap = (\<lambda>_. None)\<rparr>"

definition PolicySys_Set :: "PolicySys \<Rightarrow> string \<Rightarrow> Policy \<Rightarrow> PolicySys" where
  "PolicySys_Set sys bucketName policy =
     (if Policy_IsEmpty policy then sys\<lparr>bucketPolicyMap := (bucketPolicyMap sys)(bucketName := None)\<rparr>
      else sys\<lparr>bucketPolicyMap := (bucketPolicyMap sys)(bucketName \<mapsto> policy)\<rparr>)"

definition PolicySys_Remove :: "PolicySys \<Rightarrow> string \<Rightarrow> PolicySys" where
  "PolicySys_Remove sys bucketName = sys\<lparr>bucketPolicyMap := (bucketPolicyMap sys)(bucketName := None)\<rparr>"

definition PolicySys_IsAllowed :: "(nat \<Rightarrow> nat) \<Rightarrow> PolicySys \<Rightarrow> Args \<Rightarrow> bool go" where
  "PolicySys_IsAllowed uf sys args =
     (case bucketPolicyMap sys (args_BucketName args) of
        Some p \<Rightarrow> Policy_IsAllowed uf p args
      | None \<Rightarrow> Some (IsOwner args))"

text \<open>What \<open>GetBucketPolicy\<close> of the object layer answers, and the loop of \<open>load\<close> over the buckets.
  \<open>save\<close> is the error of \<open>savePolicyConfig\<close>, which migrates a policy without a version.\<close>

datatype load_result =
    Loaded Policy
  | PolicyNotFound
  | LoadFailed

fun PolicySys_load :: "(string \<Rightarrow> load_result) \<Rightarrow> (string \<Rightarrow> Policy \<Rightarrow> 'e option) \<Rightarrow> string list \<Rightarrow> PolicySys \<Rightarrow>
    PolicySys \<times> 'e option" where
  "PolicySys_load getPolicy save [] sys = (sys, None)"
| "PolicySys_load getPolicy save (bucket # buckets) sys =
     (case getPolicy bucket of
        PolicyNotFound \<Rightarrow> PolicySys_load getPolicy save buckets (PolicySys_Remove sys bucket)
      | LoadFailed \<Rightarrow> PolicySys_load getPolicy save buckets sys
      | Loaded config \<Rightarrow>
          if Version config = [] then
            (let config' = config\<lparr>Version := DefaultVersion\<rparr> in
             case save bucket config' of
               Some err \<Rightarrow> (sys, Some err)
             | None \<Rightarrow> PolicySys_load getPolicy save buckets (PolicySys_Set sys bucket config'))
          else PolicySys_load getPolicy save buckets (PolicySys_Set sys bucket config))"

definition PolicySys_Init where
  "PolicySys_Init objAPI buckets sys invalid =
     (case objAPI of
        None \<Rightarrow> (sys, Some invalid)
      | Some (getPolicy, save) \<Rightarrow> PolicySys_load getPolicy save buckets sys)"

section \<open>The values of a request\<close>

text \<open>\<open>for key, values := range m\<close> with the append to what is there already; each key of the map is
  met once, so the order does not matter.\<close>

definition append_values :: "values_map \<Rightarrow> req_values \<Rightarrow> req_values" where
  "append_values m args =
     (\<lambda>key. case m key of
        None \<Rightarrow> args key
      | Some vs \<Rightarrow> (case args key of Some existing \<Rightarrow> Some (existing @ vs) | None \<Rightarrow> Some vs))"

definition lock_names :: "string list" where
  "lock_names = [AmzObjectLockMode, AmzObjectLockLegalHold, AmzObjectLockRetainUntilDate]"

text \<open>The object lock names move to a name without their prefix; \<open>del\<close> is what \<open>Del\<close> of headers or of
  query values makes of a name.\<close>

fun take_locks :: "(string \<Rightarrow> string) \<Rightarrow> string list \<Rightarrow> values_map \<times> req_values \<Rightarrow> values_map \<times> req_values" where
  "take_locks del [] (m, args) = (m, args)"
| "take_locks del (objLock # rest) (m, args) =
     take_locks del rest
       (m(del objLock := None),
        (case m objLock of Some vs \<Rightarrow> args(TrimPrefix objLock ''X-Amz-'' \<mapsto> vs) | None \<Rightarrow> args))"

definition base_values :: "http_request \<Rightarrow> string \<Rightarrow> string \<Rightarrow> gotime \<Rightarrow> req_values" where
  "base_values r lc username currTime =
     (let principalType = (if username \<noteq> [] then ''User'' else ''Anonymous'');
          args = [''CurrentTime'' \<mapsto> [FormatRFC3339 currTime],
                  ''EpochTime'' \<mapsto> [Itoa (instant currTime div 10 ^ 9)],
                  ''SecureTransport'' \<mapsto> [FormatBool (TLS r)],
                  ''SourceIp'' \<mapsto> [GetSourceIP r],
                  ''UserAgent'' \<mapsto> [Header_Get r ''User-Agent''],
                  ''Referer'' \<mapsto> [Header_Get r ''Referer''],
                  ''principaltype'' \<mapsto> [principalType],
                  ''userid'' \<mapsto> [username],
                  ''username'' \<mapsto> [username]]
      in if lc \<noteq> [] then args(''LocationConstraint'' \<mapsto> [lc]) else args)"

definition add_claims :: "(string \<Rightarrow> claim option) \<Rightarrow> req_values \<Rightarrow> req_values" where
  "add_claims claims args =
     (\<lambda>k. case claims k of Some (ClaimString v) \<Rightarrow> Some [v] | _ \<Rightarrow> args k)"

definition getConditionValues ::
    "http_request \<Rightarrow> string \<Rightarrow> string \<Rightarrow> (string \<Rightarrow> claim option) \<Rightarrow> gotime \<Rightarrow> req_values" where
  "getConditionValues r lc username claims currTime =
     (let (header, args1) = take_locks CanonicalHeaderKey lock_names (Header r, base_values r lc username currTime);
          args2 = append_values header args1;
          (query, args3) = take_locks id lock_names (Query r, args2);
          args4 = append_values query args3
      in add_claims claims args4)"

section \<open>What the values are\<close>

definition opt_append :: "'a list option \<Rightarrow> 'a list option \<Rightarrow> 'a list option" where
  "opt_append a b = (case b of None \<Rightarrow> a | Some y \<Rightarrow> (case a of Some x \<Rightarrow> Some (x @ y) | None \<Rightarrow> Some y))"

lemma opt_append_simps [simp]:
  "opt_append a None = a" "opt_append None b = b" "opt_append (Some x) (Some y) = Some (x @ y)"
  by (simp_all add: opt_append_def split: option.split)

lemma append_values_opt: "append_values m args k = opt_append (args k) (m k)"
  by (simp add: append_values_def opt_append_def)

lemma take_locks_other:
  "(\<forall>n \<in> set names. del n = n) \<Longrightarrow> take_locks del names (m, args) = (m', args') \<Longrightarrow>
   m' k = (if k \<in> set names then None else m k) \<and>
   ((\<forall>n \<in> set names. k \<noteq> TrimPrefix n ''X-Amz-'') \<longrightarrow> args' k = args k)"
proof (induction names arbitrary: m args)
  case (Cons n ns)
  have "m' k = (if k \<in> set ns then None else (m(del n := None)) k) \<and>
    ((\<forall>n \<in> set ns. k \<noteq> TrimPrefix n ''X-Amz-'') \<longrightarrow>
     args' k = (case m n of Some vs \<Rightarrow> args(TrimPrefix n ''X-Amz-'' \<mapsto> vs) | None \<Rightarrow> args) k)"
    by (rule Cons.IH) (use Cons.prems in \<open>auto simp only: take_locks.simps list.set insert_iff\<close>)
  with Cons.prems(1) show ?case by (auto split: option.split)
qed simp

text \<open>A key that has nothing to do with object locks: claims first, then everything else appended.\<close>

definition ordinary :: "string \<Rightarrow> bool" where
  "ordinary k \<longleftrightarrow> k \<notin> set lock_names \<and> (\<forall>n \<in> set lock_names. k \<noteq> TrimPrefix n ''X-Amz-'')"

lemma getConditionValues_ordinary:
  assumes "ordinary k"
  shows "getConditionValues r lc username claims now k =
    (case claims k of
       Some (ClaimString v) \<Rightarrow> Some [v]
     | _ \<Rightarrow> opt_append (opt_append (base_values r lc username now k) (Header r k)) (Query r k))"
proof -
  obtain h a1 where h: "take_locks CanonicalHeaderKey lock_names (Header r, base_values r lc username now) = (h, a1)"
    by fastforce
  obtain q a3 where q: "take_locks id lock_names (Query r, append_values h a1) = (q, a3)" by fastforce
  have "h k = Header r k \<and> a1 k = base_values r lc username now k"
    using take_locks_other [OF _ h, of k] assms by (auto simp: ordinary_def lock_names_def)
  moreover have "q k = Query r k \<and> a3 k = append_values h a1 k"
    using take_locks_other [OF _ q, of k] assms by (auto simp: ordinary_def)
  ultimately show ?thesis
    by (simp add: getConditionValues_def Let_def h q add_claims_def append_values_opt split: option.split claim.split)
qed

text \<open>The keys that speak about the caller or the connection, and their canonical names.\<close>

definition caller_keys :: "Key list" where
  "caller_keys = [AWSUsername, AWSUserID, AWSPrincipalType, AWSSourceIP, AWSCurrentTime, AWSEpochTime, AWSSecureTransport]"

lemma caller_names:
  "map Key_Name caller_keys =
     [''username'', ''userid'', ''principaltype'', ''SourceIp'', ''CurrentTime'', ''EpochTime'', ''SecureTransport'']"
  by (simp add: caller_keys_def key_defs Key_Name_def TrimPrefix_def HasPrefix_def)

lemma caller_canonical:
  "map CanonicalHeaderKey (map Key_Name caller_keys) =
     [''Username'', ''Userid'', ''Principaltype'', ''Sourceip'', ''Currenttime'', ''Epochtime'', ''Securetransport'']"
  by (simp add: caller_names canonical_simps)

lemma caller_ordinary: "k \<in> set caller_keys \<Longrightarrow> ordinary (CanonicalHeaderKey (Key_Name k)) \<and> ordinary (Key_Name k)"
proof -
  have "list_all ordinary (map CanonicalHeaderKey (map Key_Name caller_keys))"
    unfolding caller_canonical by (simp add: ordinary_def lock_names_def header_defs TrimPrefix_def HasPrefix_def)
  moreover have "list_all ordinary (map Key_Name caller_keys)"
    unfolding caller_names by (simp add: ordinary_def lock_names_def header_defs TrimPrefix_def HasPrefix_def)
  moreover assume "k \<in> set caller_keys"
  ultimately show ?thesis by (simp add: list_all_iff)
qed

lemma caller_base: "k \<in> set caller_keys \<Longrightarrow> base_values r lc username now (CanonicalHeaderKey (Key_Name k)) = None"
proof -
  have "list_all (\<lambda>c. base_values r lc username now c = None) (map CanonicalHeaderKey (map Key_Name caller_keys))"
    unfolding caller_canonical by (simp add: base_values_def Let_def)
  moreover assume "k \<in> set caller_keys"
  ultimately show ?thesis by (simp add: list_all_iff)
qed

lemma requestValue_forged:
  assumes k: "k \<in> set caller_keys" and h: "Header r (CanonicalHeaderKey (Key_Name k)) = Some vs"
    and c: "\<forall>v. claims (CanonicalHeaderKey (Key_Name k)) \<noteq> Some (ClaimString v)"
  shows "requestValue k (getConditionValues r lc username claims now) =
    vs @ (case Query r (CanonicalHeaderKey (Key_Name k)) of Some q \<Rightarrow> q | None \<Rightarrow> [])"
  using getConditionValues_ordinary [OF conjunct1 [OF caller_ordinary [OF k]], of r lc username claims now] c
  by (auto simp: requestValue_def caller_base [OF k] h split: option.splits claim.splits)

lemma requestValue_honest:
  assumes k: "k \<in> set caller_keys"
    and none: "\<And>n. n \<in> {Key_Name k, CanonicalHeaderKey (Key_Name k)} \<Longrightarrow>
      Header r n = None \<and> Query r n = None \<and> (\<forall>v. claims n \<noteq> Some (ClaimString v))"
  shows "requestValue k (getConditionValues r lc username claims now) =
    (case base_values r lc username now (Key_Name k) of Some v \<Rightarrow> v | None \<Rightarrow> [])"
  using getConditionValues_ordinary [OF conjunct1 [OF caller_ordinary [OF k]], of r lc username claims now]
    getConditionValues_ordinary [OF conjunct2 [OF caller_ordinary [OF k]], of r lc username claims now]
    none [of "Key_Name k"] none [of "CanonicalHeaderKey (Key_Name k)"]
  by (auto simp: requestValue_def caller_base [OF k] split: option.splits claim.splits)

text \<open>No list of a request is empty, so none of the values is.\<close>

definition no_empty :: "('a \<Rightarrow> 'b list option) \<Rightarrow> bool" where
  "no_empty m \<longleftrightarrow> (\<forall>k. m k \<noteq> Some [])"

lemma take_locks_no_empty:
  "take_locks del names (m, args) = (m', args') \<Longrightarrow> no_empty m \<Longrightarrow> no_empty args \<Longrightarrow> no_empty m' \<and> no_empty args'"
proof (induction names arbitrary: m args)
  case (Cons n ns)
  have "no_empty (m(del n := None))" using Cons.prems(2) by (simp add: no_empty_def)
  moreover have "no_empty (case m n of Some vs \<Rightarrow> args(TrimPrefix n ''X-Amz-'' \<mapsto> vs) | None \<Rightarrow> args)"
    using Cons.prems(2,3) by (auto simp: no_empty_def split: option.split)
  ultimately show ?case using Cons.IH Cons.prems(1) by simp
qed simp

lemma append_values_no_empty: "no_empty m \<Longrightarrow> no_empty args \<Longrightarrow> no_empty (append_values m args)"
  by (auto simp: no_empty_def append_values_def split: option.split)

lemma add_claims_no_empty: "no_empty args \<Longrightarrow> no_empty (add_claims claims args)"
  by (auto simp: no_empty_def add_claims_def split: option.split claim.split)

lemma base_values_no_empty: "no_empty (base_values r lc username now)"
  by (auto simp: no_empty_def base_values_def Let_def)

lemma getConditionValues_no_empty:
  assumes "no_empty (Header r)" and "no_empty (Query r)"
  shows "no_empty (getConditionValues r lc username claims now)"
proof -
  obtain h a1 where h: "take_locks CanonicalHeaderKey lock_names (Header r, base_values r lc username now) = (h, a1)"
    by fastforce
  obtain q a3 where q: "take_locks id lock_names (Query r, append_values h a1) = (q, a3)" by fastforce
  from take_locks_no_empty [OF h assms(1) base_values_no_empty] have 1: "no_empty h" "no_empty a1" by auto
  then have "no_empty (append_values h a1)" by (rule append_values_no_empty)
  from take_locks_no_empty [OF q assms(2) this] show ?thesis
    by (simp add: getConditionValues_def Let_def h q append_values_no_empty add_claims_no_empty)
qed

lemma no_empty_common: "no_empty values \<Longrightarrow> common_values_ok values"
  by (simp add: no_empty_def common_values_ok_def list_all_iff)

section \<open>Properties\<close>

text \<open>C38: A condition on the name, the id or the type of the caller, on the source address, on the
  time or on the use of TLS looks at the header with the canonical form of its key first: the
  client chooses the value by sending that header, whoever it is.\<close>

theorem conditions_forged_by_header:
  assumes "k \<in> set caller_keys" and "Header r (CanonicalHeaderKey (Key_Name k)) = Some [v]"
    and "Query r (CanonicalHeaderKey (Key_Name k)) = None"
    and "\<forall>w. claims (CanonicalHeaderKey (Key_Name k)) \<noteq> Some (ClaimString w)"
    and "no_empty (Header r)" and "no_empty (Query r)" and "\<not> Contains v ''${''"
  shows "requestValue k (getConditionValues r lc username claims now) = [v] \<and>
    stringEqualsFunc_evaluate (StringEqualsFunc k {|v|}) (getConditionValues r lc username claims now) = Some True"
proof -
  let ?vals = "getConditionValues r lc username claims now"
  have val: "requestValue k ?vals = [v]" using requestValue_forged [of k r "[v]" claims, OF assms(1,2,4)] assms(3) by simp
  have ok: "common_values_ok ?vals"
    by (rule no_empty_common, rule getConditionValues_no_empty) (rule assms)+
  then have "substFuncFromValues ?vals v = Some v" using assms(7) by (intro substFuncFromValues_absent)
  with val show ?thesis unfolding stringEquals_iff [OF ok] by simp
qed

definition forged_request :: http_request where
  "forged_request = ex_request\<lparr>Header := [''Username'' \<mapsto> [''admin'']]\<rparr>"

theorem conditions_forged_by_header_witness:
  "stringEqualsFunc_evaluate (StringEqualsFunc AWSUsername {|''admin''|})
     (getConditionValues forged_request [] [] Map.empty zero_time) = Some True"
proof -
  have "CanonicalHeaderKey (Key_Name AWSUsername) = ''Username''"
    by (simp add: AWSUsername_def Key_Name_def TrimPrefix_def HasPrefix_def canonical_simps)
  moreover have "\<not> Contains ''admin'' ''${''" by (simp add: Contains_def HasPrefix_def)
  ultimately show ?thesis
    using conditions_forged_by_header [of AWSUsername forged_request "''admin''" Map.empty "[]" "[]" zero_time]
    by (simp add: caller_keys_def forged_request_def ex_request_def no_empty_def del: stringEqualsFunc_evaluate.simps)
qed

text \<open>When neither a header, nor a query parameter, nor a claim has the name of such a key or its
  canonical form, conditions see the facts of the server.\<close>

theorem conditions_see_the_caller:
  assumes "\<And>k n. k \<in> set caller_keys \<Longrightarrow> n \<in> {Key_Name k, CanonicalHeaderKey (Key_Name k)} \<Longrightarrow>
      Header r n = None \<and> Query r n = None \<and> (\<forall>v. claims n \<noteq> Some (ClaimString v))"
  shows "map (\<lambda>k. requestValue k (getConditionValues r lc username claims now)) caller_keys =
    [[username], [username], [if username \<noteq> [] then ''User'' else ''Anonymous''], [GetSourceIP r],
     [FormatRFC3339 now], [Itoa (instant now div 10 ^ 9)], [FormatBool (TLS r)]]"
proof -
  have "map (\<lambda>k. requestValue k (getConditionValues r lc username claims now)) caller_keys =
      map (\<lambda>k. case base_values r lc username now (Key_Name k) of Some v \<Rightarrow> v | None \<Rightarrow> []) caller_keys"
  proof (rule map_cong [OF refl])
    fix k assume k: "k \<in> set caller_keys"
    show "requestValue k (getConditionValues r lc username claims now) =
        (case base_values r lc username now (Key_Name k) of Some v \<Rightarrow> v | None \<Rightarrow> [])"
      by (rule requestValue_honest [OF k]) (rule assms [OF k])
  qed
  also have "\<dots> = map (\<lambda>n. case base_values r lc username now n of Some v \<Rightarrow> v | None \<Rightarrow> []) (map Key_Name caller_keys)"
    by simp
  finally show ?thesis unfolding caller_names by (simp add: base_values_def Let_def)
qed

theorem conditions_see_the_caller_witness:
  "map (\<lambda>k. requestValue k (getConditionValues ex_request [] ''bob'' Map.empty zero_time)) caller_keys =
    [[''bob''], [''bob''], [''User''], [GetSourceIP ex_request], [FormatRFC3339 zero_time],
     [Itoa (instant zero_time div 10 ^ 9)], [''false'']]"
proof -
  have "Header ex_request n = None \<and> Query ex_request n = None \<and> (\<forall>v. (Map.empty :: string \<Rightarrow> claim option) n \<noteq> Some (ClaimString v))" for n
    by (simp add: ex_request_def)
  from conditions_see_the_caller [of ex_request Map.empty "[]" "''bob''" zero_time, OF this]
  show ?thesis by (simp add: FormatBool_def ex_request_def)
qed

text \<open>An address that does not parse, which any client can send as \<open>X-Forwarded-For\<close> or
  \<open>X-Real-Ip\<close>, makes every condition on addresses panic instead of failing; with addresses that
  parse and lists that are not empty no condition can panic.\<close>

theorem address_conditions_panic:
  assumes "\<And>n. n \<in> {''SourceIp'', ''Sourceip''} \<Longrightarrow>
      Header r n = None \<and> Query r n = None \<and> (\<forall>v. claims n \<noteq> Some (ClaimString v))"
    and "no_empty (Header r)" and "no_empty (Query r)"
  shows "(ParseIP (GetSourceIP r) = None \<longrightarrow>
      ipAddressFunc_evaluate (IPAddressFunc AWSSourceIP nets) (getConditionValues r lc username claims now) = None \<and>
      notIPAddressFunc_evaluate (NotIPAddressFunc (IPAddressFunc AWSSourceIP nets)) (getConditionValues r lc username claims now) = None) \<and>
    (ParseIP (GetSourceIP r) \<noteq> None \<longrightarrow> request_ok (getConditionValues r lc username claims now))"
proof -
  have k: "AWSSourceIP \<in> set caller_keys" by (simp add: caller_keys_def)
  have n: "Key_Name AWSSourceIP = ''SourceIp''"
    by (simp add: AWSSourceIP_def Key_Name_def TrimPrefix_def HasPrefix_def)
  have c: "CanonicalHeaderKey (Key_Name AWSSourceIP) = ''Sourceip''" by (simp add: n canonical_simps)
  have "requestValue AWSSourceIP (getConditionValues r lc username claims now) =
      (case base_values r lc username now (Key_Name AWSSourceIP) of Some v \<Rightarrow> v | None \<Rightarrow> [])"
    by (rule requestValue_honest [OF k]) (rule assms(1), use c n in simp)
  then have "requestValue AWSSourceIP (getConditionValues r lc username claims now) = [GetSourceIP r]"
    by (simp add: base_values_def n Let_def)
  moreover have "common_values_ok (getConditionValues r lc username claims now)"
    by (rule no_empty_common, rule getConditionValues_no_empty) (rule assms)+
  ultimately show ?thesis by (simp add: request_ok_def)
qed

definition garbled_request :: http_request where
  "garbled_request = ex_request\<lparr>Header := [''X-Forwarded-For'' \<mapsto> [''x'']]\<rparr>"

lemma garbled_address: "ParseIP (GetSourceIP garbled_request) = None"
proof -
  have "CanonicalHeaderKey ''X-Forwarded-For'' = ''X-Forwarded-For''" by (simp add: canonical_simps)
  then have "GetSourceIP garbled_request = ''x''"
    by (simp add: GetSourceIP_def source_addr_def Header_Get_def first_value_def xForwardedFor_def garbled_request_def
        ex_request_def HasPrefix_def)
  then show ?thesis by (simp add: ParseIP_def)
qed

theorem address_conditions_panic_witness:
  "ipAddressFunc_evaluate (IPAddressFunc AWSSourceIP []) (getConditionValues garbled_request [] [] Map.empty zero_time) = None"
proof -
  have "Header garbled_request n = None \<and> Query garbled_request n = None \<and>
      (\<forall>v. (Map.empty :: string \<Rightarrow> claim option) n \<noteq> Some (ClaimString v))"
    if "n \<in> {''SourceIp'', ''Sourceip''}" for n
    using that by (auto simp: garbled_request_def ex_request_def)
  moreover have "no_empty (Header garbled_request)" "no_empty (Query garbled_request)"
    by (simp_all add: no_empty_def garbled_request_def ex_request_def)
  ultimately show ?thesis
    using address_conditions_panic [of garbled_request Map.empty "[]" "[]" "[]" zero_time] garbled_address
    by (simp del: ipAddressFunc_evaluate.simps)
qed

text \<open>The server refuses or allows a request on a bucket with a policy as that policy decides, and
  without one it allows the owner only; \<open>Set\<close> replaces the policy of its bucket and no other, a
  policy without statements is removed.\<close>

theorem PolicySys_decision:
  assumes "\<And>p. bucketPolicyMap sys (args_BucketName args) = Some p \<Longrightarrow> list_all Statement_safe (Statements p)"
    and "request_ok (ConditionValues args)" and "list_all Statement_safe (Statements policy)"
  shows "PolicySys_IsAllowed uf (PolicySys_Set sys b policy) args = Some
      (let ss = (if b = args_BucketName args then Statements policy
                 else case bucketPolicyMap sys (args_BucketName args) of Some p \<Rightarrow> Statements p | None \<Rightarrow> []) in
       \<not> (\<exists>s \<in> set ss. stmt_Effect s = Deny \<and> applies uf s args) \<and>
       (IsOwner args \<or> (\<exists>s \<in> set ss. stmt_Effect s = Allow \<and> applies uf s args))) \<and>
    PolicySys_IsAllowed uf (PolicySys_Remove sys (args_BucketName args)) args = Some (IsOwner args)"
proof -
  have dec: "Policy_IsAllowed uf p args = Some
      (\<not> (\<exists>s \<in> set (Statements p). stmt_Effect s = Deny \<and> applies uf s args) \<and>
       (IsOwner args \<or> (\<exists>s \<in> set (Statements p). stmt_Effect s = Allow \<and> applies uf s args)))"
    if "list_all Statement_safe (Statements p)" for p
    unfolding Policy_IsAllowed_def using that assms(2) by (rule statements_allowed_applies)
  show ?thesis
  proof (cases "b = args_BucketName args")
    case True
    with dec [OF assms(3)] show ?thesis
      by (auto simp: PolicySys_IsAllowed_def PolicySys_Set_def PolicySys_Remove_def Policy_IsEmpty_def Let_def)
  next
    case False
    then show ?thesis using dec [OF assms(1)]
      by (auto simp: PolicySys_IsAllowed_def PolicySys_Set_def PolicySys_Remove_def Let_def split: option.split)
  qed
qed

theorem PolicySys_decision_witness:
  "PolicySys_IsAllowed id (PolicySys_Set NewPolicySys ''b'' (ex_policy [ex_allow])) (ex_args ''x'') = Some True"
proof -
  have "args_BucketName (ex_args ''x'') = ''b''" by (simp add: ex_args_def)
  then show ?thesis
    using PolicySys_decision [of NewPolicySys "ex_args ''x''" "ex_policy [ex_allow]" id "''b''"] ex_applies [of id]
    by (simp add: NewPolicySys_def ex_policy_def ex_safe ex_request_ok ex_fields)
qed

text \<open>After a start without an error the table has, for every bucket of the object layer, the
  stored policy with its version filled in, nothing for a bucket without one, and what was there
  before when the policy could not be read; it is not changed for other buckets.\<close>

theorem PolicySys_load_table:
  assumes "PolicySys_load getPolicy save buckets sys = (sys', None)"
  shows "bucketPolicyMap sys' b =
    (if b \<notin> set buckets then bucketPolicyMap sys b
     else case getPolicy b of
       PolicyNotFound \<Rightarrow> None
     | LoadFailed \<Rightarrow> bucketPolicyMap sys b
     | Loaded p \<Rightarrow>
         let p' = (if Version p = [] then p\<lparr>Version := DefaultVersion\<rparr> else p) in
         if Policy_IsEmpty p' then None else Some p')"
  using assms
proof (induction getPolicy save buckets sys rule: PolicySys_load.induct)
  case (2 getPolicy save bucket buckets sys)
  show ?case
  proof (cases "getPolicy bucket")
    case (Loaded p)
    with 2 show ?thesis
      by (auto simp: Let_def PolicySys_Set_def split: if_splits option.splits load_result.splits)
  qed (use 2 in \<open>auto simp: PolicySys_Remove_def split: load_result.splits\<close>)
qed simp

theorem PolicySys_load_table_witness:
  "bucketPolicyMap (fst (PolicySys_load (\<lambda>_. Loaded (ex_policy [ex_allow])) (\<lambda>_ _. (None :: unit option)) [''b''] NewPolicySys)) ''b''
     = Some (ex_policy [ex_allow])"
  using PolicySys_load_table [of "\<lambda>_. Loaded (ex_policy [ex_allow])" "\<lambda>_ _. (None :: unit option)" "[''b'']" NewPolicySys _ "''b''"]
  by (simp add: ex_policy_def DefaultVersion_def Policy_IsEmpty_def Let_def)

end
