(* ===== verification/LRWMutex.thy ===== *)
theory LRWMutex
  imports Prelude
begin

text \<open>
  \<open>pkg/lsync/lrwmutex.go\<close>: the lock with many readers or one writer.  \<open>state\<close> is -1 with a
  writer and otherwise the number of readers.  Every access to it happens under the inner mutex
  \<open>m\<close>, so a critical section is one step here; the waiting between two attempts of
  \<open>lockLoop\<close> is an argument of the loop.  The state is an \<open>int\<close>: it counts readers and stays far
  from the ends of \<open>int64\<close>.
\<close>

section \<open>The interface of a lock for readers and writers\<close>

locale rw_lock =
  fixes readers :: "'l \<Rightarrow> nat"
    and writer :: "'l \<Rightarrow> bool"
    and valid :: "'l \<Rightarrow> bool"
    and fresh :: "'l"
    and acquire :: "bool \<Rightarrow> 'l \<Rightarrow> 'l \<times> bool"
    and release :: "bool \<Rightarrow> 'l \<Rightarrow> 'l \<times> bool"
  assumes fresh_free: "valid fresh" "readers fresh = 0" "\<not> writer fresh"
    and valid_exclusive: "valid l \<Longrightarrow> writer l \<Longrightarrow> readers l = 0"
    and acquire_valid: "valid l \<Longrightarrow> valid (fst (acquire w l))"
    and acquire_write: "valid l \<Longrightarrow> acquire True l = (l', ok) \<Longrightarrow>
      ok = (\<not> writer l \<and> readers l = 0) \<and> writer l' = (writer l \<or> ok) \<and> readers l' = readers l"
    and acquire_read: "valid l \<Longrightarrow> acquire False l = (l', ok) \<Longrightarrow>
      ok = (\<not> writer l) \<and> writer l' = writer l \<and> readers l' = readers l + (if ok then 1 else 0)"
    and release_valid: "valid l \<Longrightarrow> valid (fst (release w l))"
    and release_write: "valid l \<Longrightarrow> release True l = (l', ok) \<Longrightarrow>
      ok = writer l \<and> \<not> writer l' \<and> readers l' = readers l"
    and release_read: "valid l \<Longrightarrow> release False l = (l', ok) \<Longrightarrow>
      ok = (0 < readers l) \<and> writer l' = writer l \<and> readers l' = readers l - 1"
begin

lemma write_then_blocked:
  assumes "valid l" and "acquire True l = (l', True)"
  shows "\<not> snd (acquire w l')"
proof -
  from acquire_write [OF assms] have w: "writer l'" by simp
  from acquire_valid [OF assms(1), of True] assms(2) have v: "valid l'" by simp
  show ?thesis
  proof (cases w)
    case True
    obtain l2 ok where "acquire True l' = (l2, ok)" by (cases "acquire True l'")
    with acquire_write [OF v this] w True show ?thesis by simp
  next
    case False
    obtain l2 ok where "acquire False l' = (l2, ok)" by (cases "acquire False l'")
    with acquire_read [OF v this] w False show ?thesis by simp
  qed
qed

lemma read_blocks_writers:
  assumes "valid l" and "acquire False l = (l', True)"
  shows "\<not> snd (acquire True l') \<and> snd (acquire False l')"
proof -
  from acquire_read [OF assms] have r: "\<not> writer l'" "readers l' = readers l + 1" by simp_all
  from acquire_valid [OF assms(1), of False] assms(2) have v: "valid l'" by simp
  obtain l2 ok where a: "acquire True l' = (l2, ok)" by (cases "acquire True l'")
  obtain l3 ok3 where b: "acquire False l' = (l3, ok3)" by (cases "acquire False l'")
  from acquire_write [OF v a] acquire_read [OF v b] r a b show ?thesis by simp
qed

lemma acquire_release:
  assumes "valid l" and "acquire w l = (l', True)"
  shows "\<exists>l2. release w l' = (l2, True) \<and> valid l2 \<and> readers l2 = readers l \<and> writer l2 = writer l"
proof -
  from acquire_valid [OF assms(1), of w] assms(2) have v: "valid l'" by simp
  obtain l2 ok where r: "release w l' = (l2, ok)" by (cases "release w l'")
  from release_valid [OF v, of w] r have v2: "valid l2" by simp
  show ?thesis
  proof (cases w)
    case True
    from True assms(2) have "acquire True l = (l', True)" by simp
    note a = acquire_write [OF assms(1) this]
    from True r have "release True l' = (l2, ok)" by simp
    with release_write [OF v this] a r v2 True show ?thesis by auto
  next
    case False
    from False assms(2) have "acquire False l = (l', True)" by simp
    note a = acquire_read [OF assms(1) this]
    from False r have "release False l' = (l2, ok)" by simp
    with release_read [OF v this] a r v2 False show ?thesis by auto
  qed
qed

end

section \<open>lrwmutex.go\<close>

definition WRITELOCK :: int where "WRITELOCK = -1"
definition NOLOCKS :: int where "NOLOCKS = 0"
definition READLOCKS :: int where "READLOCKS = 1"

lemmas lock_consts = WRITELOCK_def NOLOCKS_def READLOCKS_def

record LRWMutex =
  lm_id :: string
  lm_source :: string
  lm_state :: int

definition NewLRWMutex :: LRWMutex where
  "NewLRWMutex = \<lparr>lm_id = [], lm_source = [], lm_state = 0\<rparr>"

text \<open>One round of \<open>lockLoop\<close> under the mutex.\<close>

definition lock_attempt :: "string \<Rightarrow> string \<Rightarrow> bool \<Rightarrow> LRWMutex \<Rightarrow> LRWMutex \<times> bool" where
  "lock_attempt i source isWriteLock lm =
     (let lm' = lm\<lparr>lm_id := i, lm_source := source\<rparr> in
      if isWriteLock then
        (if lm_state lm' = NOLOCKS then (lm'\<lparr>lm_state := WRITELOCK\<rparr>, True) else (lm', False))
      else
        (if lm_state lm' \<noteq> WRITELOCK then (lm'\<lparr>lm_state := lm_state lm' + 1\<rparr>, True) else (lm', False)))"

text \<open>
  The loop.  Each element of the list is one tick of the retry timer: what the other users of the
  lock do before the attempt, whether the context is cancelled by then, and whether the timeout
  has passed after a failed attempt.  \<open>None\<close> is a loop that has not returned when the ticks are
  over.  The \<open>break\<close> under the cancelled context leaves the \<open>select\<close> only: both cases of it go on
  with the attempt.
\<close>

record tick =
  others :: "LRWMutex \<Rightarrow> LRWMutex"
  cancelled :: bool
  expired :: bool

definition select_ctx :: "bool \<Rightarrow> 'a \<Rightarrow> 'a" where
  "select_ctx isDone rest = (if isDone then rest else rest)"

fun lockLoop :: "tick list \<Rightarrow> string \<Rightarrow> string \<Rightarrow> bool \<Rightarrow> LRWMutex \<Rightarrow> (LRWMutex \<times> bool) option" where
  "lockLoop [] i source isWriteLock lm = None"
| "lockLoop (t # ticks) i source isWriteLock lm =
     select_ctx (cancelled t)
       (case lock_attempt i source isWriteLock (others t lm) of
          (lm', True) \<Rightarrow> Some (lm', True)
        | (lm', False) \<Rightarrow>
            if expired t then Some (lm', False) else lockLoop ticks i source isWriteLock lm')"

definition GetLock where
  "GetLock ticks i source lm = lockLoop ticks i source True lm"

definition GetRLock where
  "GetRLock ticks i source lm = lockLoop ticks i source False lm"

text \<open>\<open>Lock\<close> and \<open>RLock\<close> wait with the largest duration, so no tick of theirs has expired.\<close>

definition LRWMutex_Lock where
  "LRWMutex_Lock ticks lm =
     lockLoop (map (\<lambda>t. t\<lparr>expired := False\<rparr>) ticks) (lm_id lm) (lm_source lm) True lm"

definition LRWMutex_RLock where
  "LRWMutex_RLock ticks lm =
     lockLoop (map (\<lambda>t. t\<lparr>expired := False\<rparr>) ticks) (lm_id lm) (lm_source lm) False lm"

definition lm_unlock :: "bool \<Rightarrow> LRWMutex \<Rightarrow> LRWMutex \<times> bool" where
  "lm_unlock isWriteLock lm =
     (if isWriteLock then
        (if lm_state lm = WRITELOCK then (lm\<lparr>lm_state := NOLOCKS\<rparr>, True) else (lm, False))
      else
        (if lm_state lm = WRITELOCK \<or> lm_state lm = NOLOCKS then (lm, False)
         else (lm\<lparr>lm_state := lm_state lm - 1\<rparr>, True)))"

definition LRWMutex_Unlock :: "LRWMutex \<Rightarrow> LRWMutex go" where
  "LRWMutex_Unlock lm = (case lm_unlock True lm of (lm', ok) \<Rightarrow> if \<not> ok then None else Some lm')"

definition LRWMutex_RUnlock :: "LRWMutex \<Rightarrow> LRWMutex go" where
  "LRWMutex_RUnlock lm = (case lm_unlock False lm of (lm', ok) \<Rightarrow> if \<not> ok then None else Some lm')"

definition ForceUnlock :: "LRWMutex \<Rightarrow> LRWMutex" where
  "ForceUnlock lm = lm\<lparr>lm_state := NOLOCKS\<rparr>"

section \<open>It is a lock for readers and writers\<close>

definition lm_readers :: "LRWMutex \<Rightarrow> nat" where
  "lm_readers lm = nat (lm_state lm)"

definition lm_writer :: "LRWMutex \<Rightarrow> bool" where
  "lm_writer lm \<longleftrightarrow> lm_state lm = -1"

definition lm_valid :: "LRWMutex \<Rightarrow> bool" where
  "lm_valid lm \<longleftrightarrow> -1 \<le> lm_state lm"

lemmas lm_defs = lm_readers_def lm_writer_def lm_valid_def lock_consts

interpretation lm: rw_lock lm_readers lm_writer lm_valid NewLRWMutex "lock_attempt i source" lm_unlock for i source
  by unfold_locales
    (auto simp: lm_defs NewLRWMutex_def lock_attempt_def lm_unlock_def Let_def nat_add_distrib nat_diff_distrib
      split: if_splits)

text \<open>The cancelled context is looked at and ignored.\<close>

lemma select_ctx [simp]: "select_ctx b x = x"
  by (simp add: select_ctx_def)

lemma lockLoop_attempts:
  "lockLoop ticks i source w lm = Some (lm', ok) \<Longrightarrow> \<exists>lm0. lock_attempt i source w lm0 = (lm', ok)"
proof (induction ticks i source w lm rule: lockLoop.induct)
  case (2 t ticks i source w lm)
  then show ?case by (auto split: prod.splits bool.splits if_splits)
qed simp

lemma lockLoop_returns:
  "\<exists>t \<in> set ticks. expired t \<Longrightarrow> \<exists>lm' ok. lockLoop ticks i source w lm = Some (lm', ok)"
proof (induction ticks i source w lm rule: lockLoop.induct)
  case (2 t ticks i source w lm)
  obtain lm' ok where att: "lock_attempt i source w (others t lm) = (lm', ok)" by fastforce
  with 2 show ?case by (cases ok; cases "expired t") auto
qed simp

lemma lockLoop_cancelled:
  "lockLoop (map (\<lambda>t. t\<lparr>cancelled := b\<rparr>) ticks) i source w lm = lockLoop ticks i source w lm"
  by (induction ticks i source w lm rule: lockLoop.induct) (auto split: prod.split bool.split)

text \<open>The names given in an attempt play no part in its success.\<close>

lemma lock_attempt_snd: "snd (lock_attempt i source w lm) = snd (lock_attempt i' source' w lm)"
  by (simp add: lock_attempt_def Let_def)

section \<open>Properties\<close>

text \<open>While one caller of \<open>GetLock\<close> has the lock, no attempt of another one succeeds, reading or
  writing; while a reader has it, writers fail and readers succeed; releasing in the mode of the
  acquisition never fails and gives back the readers and the writer of before.\<close>

theorem LRWMutex_exclusion:
  assumes "lm_valid lm" and "lock_attempt i source w lm = (lm', True)"
  shows "snd (lock_attempt i' source' w' lm') = (\<not> w \<and> \<not> w') \<and>
    (\<exists>lm2. lm_unlock w lm' = (lm2, True) \<and> lm_valid lm2 \<and>
      lm_readers lm2 = lm_readers lm \<and> lm_writer lm2 = lm_writer lm)"
proof
  show "snd (lock_attempt i' source' w' lm') = (\<not> w \<and> \<not> w')"
  proof (cases w)
    case True
    with assms have "lock_attempt i source True lm = (lm', True)" by simp
    with True show ?thesis
      using lm.write_then_blocked [OF assms(1)] lock_attempt_snd [of i' source' w' lm' i source] by simp
  next
    case False
    with assms have "lock_attempt i source False lm = (lm', True)" by simp
    with False show ?thesis
      using lm.read_blocks_writers [OF assms(1)] lock_attempt_snd [of i' source' w' lm' i source] by (cases w') simp_all
  qed
qed (rule lm.acquire_release [OF assms])

theorem LRWMutex_exclusion_witness:
  "snd (lock_attempt ''b'' ''s'' True (fst (lock_attempt ''a'' ''s'' True NewLRWMutex))) = False"
  using LRWMutex_exclusion [of NewLRWMutex "''a''" "''s''" True _ "''b''" "''s''" True]
  by (simp add: lm_valid_def NewLRWMutex_def lock_attempt_def NOLOCKS_def)

text \<open>C40: \<open>lockLoop\<close> returns once a tick comes after the timeout; it returns the answer of an attempt
  on the lock as the others left it, and whether the context is cancelled makes no difference.\<close>

theorem lockLoop_timeout:
  assumes "\<exists>t \<in> set ticks. expired t"
  shows "\<exists>lm0 lm' ok. lockLoop ticks i source w lm = Some (lm', ok) \<and>
    lock_attempt i source w lm0 = (lm', ok) \<and>
    lockLoop (map (\<lambda>t. t\<lparr>cancelled := True\<rparr>) ticks) i source w lm = Some (lm', ok)"
proof -
  from lockLoop_returns [OF assms] obtain lm' ok where "lockLoop ticks i source w lm = Some (lm', ok)" by blast
  with lockLoop_attempts [OF this] lockLoop_cancelled [of True ticks i source w lm] show ?thesis by simp
qed

theorem lockLoop_timeout_witness:
  "\<exists>lm'. lockLoop [\<lparr>others = \<lambda>l. l\<lparr>lm_state := -1\<rparr>, cancelled = False, expired = True\<rparr>] ''a'' ''s'' True NewLRWMutex
     = Some (lm', False)"
  using lockLoop_timeout [of "[\<lparr>others = \<lambda>l. l\<lparr>lm_state := -1\<rparr>, cancelled = False, expired = True\<rparr>]" "''a''" "''s''" True NewLRWMutex]
  by (auto simp: lock_attempt_def lock_consts)

end
