(* ===== verification/NSLock.thy ===== *)
theory NSLock
  imports LRWMutex GoPath
begin

text \<open>
  \<open>cmd/ipos/cmd/namespace-lock.go\<close>: the map from resources to reference counted locks, used by
  many goroutines.  Every critical section of \<open>lockMapMutex\<close> and of a lock's own mutex is one
  step; the steps of different goroutines interleave in any order.  A lock object keeps its
  identity while the map forgets and recreates entries, so the objects live in a list and the
  map holds their positions.
\<close>

section \<open>State\<close>

record nsLock =
  mutex :: LRWMutex
  ref :: nat

text \<open>
  Where a goroutine stands: inside \<open>lock\<close> with the object it found (\<open>Trying\<close>), after a timeout
  (\<open>GaveUp\<close>), between \<open>lock\<close> and \<open>unlock\<close> (\<open>Holding\<close>), inside \<open>unlock\<close> after the lookup
  (\<open>Releasing\<close>) and after the lock was released (\<open>Released\<close>).  The code does not keep the object
  between \<open>lock\<close> and \<open>unlock\<close>; the position in \<open>Holding\<close> is there for the proof only.
\<close>

datatype goroutine =
    Idle
  | Trying nat string bool
  | GaveUp nat string bool
  | Holding nat string bool
  | Releasing nat string bool
  | Released nat string

record nsLockMap =
  lockMap :: "string \<Rightarrow> nat option"
  locks :: "nsLock list"
  goroutines :: "goroutine list"

definition newNSLock :: "nat \<Rightarrow> nsLockMap" where
  "newNSLock n = \<lparr>lockMap = Map.empty, locks = [], goroutines = replicate n Idle\<rparr>"

text \<open>\<open>ref\<close> is a \<open>uint\<close>: the decrement of zero wraps.\<close>

definition uint_inc :: "nat \<Rightarrow> nat" where
  "uint_inc n = (n + 1) mod 2 ^ 64"

definition uint_dec :: "nat \<Rightarrow> nat" where
  "uint_dec n = (if n = 0 then 2 ^ 64 - 1 else n - 1)"

section \<open>The critical sections of lock\<close>

definition lock_enter :: "nat \<Rightarrow> string \<Rightarrow> bool \<Rightarrow> nsLockMap \<Rightarrow> nsLockMap" where
  "lock_enter g resource readLock n =
     (case lockMap n resource of
        None \<Rightarrow>
          n\<lparr>lockMap := (lockMap n)(resource \<mapsto> length (locks n)),
            locks := locks n @ [\<lparr>mutex = NewLRWMutex, ref = 1\<rparr>],
            goroutines := (goroutines n)[g := Trying (length (locks n)) resource readLock]\<rparr>
      | Some a \<Rightarrow>
          n\<lparr>locks := (locks n)[a := (locks n ! a)\<lparr>ref := uint_inc (ref (locks n ! a))\<rparr>],
            goroutines := (goroutines n)[g := Trying a resource readLock]\<rparr>)"

text \<open>One attempt of \<open>GetLock\<close> or \<open>GetRLock\<close>; after a failed one the timeout may have passed.\<close>

definition lock_try :: "nat \<Rightarrow> nat \<Rightarrow> string \<Rightarrow> bool \<Rightarrow> string \<Rightarrow> string \<Rightarrow> bool \<Rightarrow> nsLockMap \<Rightarrow> nsLockMap" where
  "lock_try g a resource readLock opsID source timedOut n =
     (case lock_attempt opsID source (\<not> readLock) (mutex (locks n ! a)) of (lm', locked) \<Rightarrow>
        n\<lparr>locks := (locks n)[a := (locks n ! a)\<lparr>mutex := lm'\<rparr>],
          goroutines := (goroutines n)[g :=
            if locked then Holding a resource readLock
            else if timedOut then GaveUp a resource readLock
            else Trying a resource readLock]\<rparr>)"

definition drop_ref :: "nat \<Rightarrow> string \<Rightarrow> nsLockMap \<Rightarrow> nsLockMap" where
  "drop_ref a resource n =
     (let r = uint_dec (ref (locks n ! a)) in
      n\<lparr>locks := (locks n)[a := (locks n ! a)\<lparr>ref := r\<rparr>],
        lockMap := (if r = 0 then (lockMap n)(resource := None) else lockMap n)\<rparr>)"

definition lock_cleanup :: "nat \<Rightarrow> nat \<Rightarrow> string \<Rightarrow> nsLockMap \<Rightarrow> nsLockMap" where
  "lock_cleanup g a resource n = (drop_ref a resource n)\<lparr>goroutines := (goroutines n)[g := Idle]\<rparr>"

section \<open>The critical sections of unlock\<close>

definition unlock_lookup :: "nat \<Rightarrow> string \<Rightarrow> bool \<Rightarrow> nsLockMap \<Rightarrow> nsLockMap" where
  "unlock_lookup g resource readLock n =
     n\<lparr>goroutines := (goroutines n)[g :=
        (case lockMap n resource of None \<Rightarrow> Idle | Some a \<Rightarrow> Releasing a resource readLock)]\<rparr>"

text \<open>\<open>RUnlock\<close> and \<open>Unlock\<close> panic when the lock is not held that way.\<close>

definition unlock_mutex :: "nat \<Rightarrow> nat \<Rightarrow> string \<Rightarrow> bool \<Rightarrow> nsLockMap \<Rightarrow> nsLockMap go" where
  "unlock_mutex g a resource readLock n =
     map_option (\<lambda>lm'. n\<lparr>locks := (locks n)[a := (locks n ! a)\<lparr>mutex := lm'\<rparr>],
                         goroutines := (goroutines n)[g := Released a resource]\<rparr>)
       (if readLock then LRWMutex_RUnlock (mutex (locks n ! a)) else LRWMutex_Unlock (mutex (locks n ! a)))"

definition unlock_ref :: "nat \<Rightarrow> nat \<Rightarrow> string \<Rightarrow> nsLockMap \<Rightarrow> nsLockMap" where
  "unlock_ref g a resource n =
     (if ref (locks n ! a) = 0 then n\<lparr>goroutines := (goroutines n)[g := Idle]\<rparr>
      else (drop_ref a resource n)\<lparr>goroutines := (goroutines n)[g := Idle]\<rparr>)"

section \<open>Steps\<close>

text \<open>A caller unlocks what it has locked, in the mode it has locked it; the rest is the code.\<close>

inductive ns_step :: "nsLockMap \<Rightarrow> nsLockMap \<Rightarrow> bool" where
  enter: "g < length (goroutines n) \<Longrightarrow> goroutines n ! g = Idle \<Longrightarrow>
    ns_step n (lock_enter g (pathJoin [volume, path]) readLock n)"
| attempt: "g < length (goroutines n) \<Longrightarrow> goroutines n ! g = Trying a resource readLock \<Longrightarrow>
    ns_step n (lock_try g a resource readLock opsID source timedOut n)"
| cleanup: "g < length (goroutines n) \<Longrightarrow> goroutines n ! g = GaveUp a resource readLock \<Longrightarrow>
    ns_step n (lock_cleanup g a resource n)"
| lookup: "g < length (goroutines n) \<Longrightarrow> goroutines n ! g = Holding a resource readLock \<Longrightarrow>
    ns_step n (unlock_lookup g resource readLock n)"
| release_mutex: "g < length (goroutines n) \<Longrightarrow> goroutines n ! g = Releasing a resource readLock \<Longrightarrow>
    unlock_mutex g a resource readLock n = Some n' \<Longrightarrow> ns_step n n'"
| release_ref: "g < length (goroutines n) \<Longrightarrow> goroutines n ! g = Released a resource \<Longrightarrow>
    ns_step n (unlock_ref g a resource n)"

inductive ns_reachable :: "nat \<Rightarrow> nsLockMap \<Rightarrow> bool" for k where
  ns_start: "ns_reachable k (newNSLock k)"
| ns_next: "ns_reachable k n \<Longrightarrow> ns_step n n' \<Longrightarrow> ns_reachable k n'"

text \<open>A goroutine that would panic.\<close>

definition ns_panics :: "nsLockMap \<Rightarrow> bool" where
  "ns_panics n \<longleftrightarrow> (\<exists>g < length (goroutines n). \<exists>a resource readLock.
     goroutines n ! g = Releasing a resource readLock \<and> unlock_mutex g a resource readLock n = None)"

section \<open>Counting goroutines\<close>

fun position :: "goroutine \<Rightarrow> (nat \<times> string) option" where
  "position Idle = None"
| "position (Trying a r m) = Some (a, r)"
| "position (GaveUp a r m) = Some (a, r)"
| "position (Holding a r m) = Some (a, r)"
| "position (Releasing a r m) = Some (a, r)"
| "position (Released a r) = Some (a, r)"

text \<open>The mode in which a goroutine has the lock.\<close>

fun holds :: "goroutine \<Rightarrow> (nat \<times> bool) option" where
  "holds (Holding a r m) = Some (a, m)"
| "holds (Releasing a r m) = Some (a, m)"
| "holds _ = None"

definition count :: "('a \<Rightarrow> bool) \<Rightarrow> 'a list \<Rightarrow> nat" where
  "count P xs = length (filter P xs)"

definition refs :: "nat \<Rightarrow> goroutine list \<Rightarrow> nat" where
  "refs a = count (\<lambda>g. \<exists>r. position g = Some (a, r))"

definition holders :: "bool \<Rightarrow> nat \<Rightarrow> goroutine list \<Rightarrow> nat" where
  "holders m a = count (\<lambda>g. holds g = Some (a, m))"

lemma count_update:
  "i < length xs \<Longrightarrow> count P (xs[i := x]) + (if P (xs ! i) then 1 else 0) = count P xs + (if P x then 1 else 0)"
proof (induction xs arbitrary: i)
  case (Cons y ys)
  then show ?case by (cases i) (auto simp: count_def)
qed simp

lemma refs_update:
  "i < length gs \<Longrightarrow> refs a (gs[i := g]) + (if \<exists>r. position (gs ! i) = Some (a, r) then 1 else 0) =
     refs a gs + (if \<exists>r. position g = Some (a, r) then 1 else 0)"
  unfolding refs_def by (rule count_update)

lemma holders_update:
  "i < length gs \<Longrightarrow> holders m a (gs[i := g]) + (if holds (gs ! i) = Some (a, m) then 1 else 0) =
     holders m a gs + (if holds g = Some (a, m) then 1 else 0)"
  unfolding holders_def by (rule count_update)

lemma count_pos: "i < length xs \<Longrightarrow> P (xs ! i) \<Longrightarrow> 0 < count P xs"
  by (auto simp: count_def filter_empty_conv)

lemma count_le: "count P xs \<le> length xs"
  by (simp add: count_def)

lemma refs_le: "refs a gs \<le> length gs"
  unfolding refs_def by (rule count_le)

section \<open>The invariant\<close>

text \<open>
  An object in the map is referenced as often as it says, its state is what its holders make of
  it, and a goroutine that works on an object finds it in the map under its resource.
\<close>

definition lock_ok :: "goroutine list \<Rightarrow> nat \<Rightarrow> nsLock \<Rightarrow> bool" where
  "lock_ok gs a lk \<longleftrightarrow>
     ref lk = refs a gs \<and> 0 < refs a gs \<and>
     (lm_state (mutex lk) = -1 \<and> holders False a gs = 1 \<and> holders True a gs = 0 \<or>
      lm_state (mutex lk) = int (holders True a gs) \<and> holders False a gs = 0)"

definition ns_inv :: "nsLockMap \<Rightarrow> bool" where
  "ns_inv n \<longleftrightarrow>
     length (goroutines n) < 2 ^ 64 \<and>
     (\<forall>g < length (goroutines n). \<forall>a r. position (goroutines n ! g) = Some (a, r) \<longrightarrow> lockMap n r = Some a) \<and>
     (\<forall>r a. lockMap n r = Some a \<longrightarrow> a < length (locks n) \<and> lock_ok (goroutines n) a (locks n ! a)) \<and>
     (\<forall>r r' a. lockMap n r = Some a \<longrightarrow> lockMap n r' = Some a \<longrightarrow> r = r')"

lemma ns_invI:
  assumes "length (goroutines n) < 2 ^ 64"
    and "\<And>g a r. g < length (goroutines n) \<Longrightarrow> position (goroutines n ! g) = Some (a, r) \<Longrightarrow> lockMap n r = Some a"
    and "\<And>r a. lockMap n r = Some a \<Longrightarrow> a < length (locks n) \<and> lock_ok (goroutines n) a (locks n ! a)"
    and "\<And>r r' a. lockMap n r = Some a \<Longrightarrow> lockMap n r' = Some a \<Longrightarrow> r = r'"
  shows "ns_inv n"
  using assms unfolding ns_inv_def by blast

lemma ns_invD:
  assumes "ns_inv n"
  shows "length (goroutines n) < 2 ^ 64"
    and "g < length (goroutines n) \<Longrightarrow> position (goroutines n ! g) = Some (a, r) \<Longrightarrow> lockMap n r = Some a"
    and "lockMap n r = Some a \<Longrightarrow> a < length (locks n) \<and> lock_ok (goroutines n) a (locks n ! a)"
    and "lockMap n r = Some a \<Longrightarrow> lockMap n r' = Some a \<Longrightarrow> r = r'"
  using assms unfolding ns_inv_def by blast+

text \<open>A goroutine that moves and touches one object leaves the others as they were.\<close>

lemma lock_ok_other:
  assumes "lock_ok gs b lk" and "i < length gs"
    and "\<And>r. position (gs ! i) \<noteq> Some (b, r)" and "\<And>r. position g \<noteq> Some (b, r)"
  shows "lock_ok (gs[i := g]) b lk"
proof -
  have hold: "holds x \<noteq> Some (b, m)" if "\<And>r. position x \<noteq> Some (b, r)" for x m
    using that by (cases x) auto
  have "refs b (gs[i := g]) = refs b gs"
    using refs_update [OF assms(2), of b g] assms(3,4) by simp
  moreover have "holders m b (gs[i := g]) = holders m b gs" for m
    using holders_update [OF assms(2), of m b g] hold [OF assms(3)] hold [OF assms(4)] by simp
  ultimately show ?thesis using assms(1) by (simp add: lock_ok_def)
qed

text \<open>The steps that keep a goroutine on its object: the map stays, one object changes.\<close>

lemma stay_inv:
  assumes inv: "ns_inv n" and g: "g < length (goroutines n)"
    and pos: "position (goroutines n ! g) = Some (a, r)" and pos': "position x = Some (a, r)"
    and ok: "lock_ok ((goroutines n)[g := x]) a lk"
    and n': "lockMap n' = lockMap n" "locks n' = (locks n)[a := lk]" "goroutines n' = (goroutines n)[g := x]"
  shows "ns_inv n'"
proof (rule ns_invI)
  note D = ns_invD [OF inv]
  from D(2) [OF g pos] have ra: "lockMap n r = Some a" .
  show "length (goroutines n') < 2 ^ 64" using D(1) by (simp add: n')
  show "lockMap n' r' = Some b" if "h < length (goroutines n')" "position (goroutines n' ! h) = Some (b, r')" for h b r'
    using that D(2) [of h b r'] ra pos' by (cases "h = g") (auto simp: n')
  show "b < length (locks n') \<and> lock_ok (goroutines n') b (locks n' ! b)" if "lockMap n' r' = Some b" for r' b
  proof (cases "b = a")
    case True
    with ok D(3) [OF ra] show ?thesis by (simp add: n')
  next
    case False
    have b: "b < length (locks n)" "lock_ok (goroutines n) b (locks n ! b)" using D(3) that by (auto simp: n')
    have "lock_ok ((goroutines n)[g := x]) b (locks n ! b)"
      using b(2) g by (rule lock_ok_other) (use pos pos' False in auto)
    with b(1) False show ?thesis by (simp add: n')
  qed
  show "\<And>r r' a. lockMap n' r = Some a \<Longrightarrow> lockMap n' r' = Some a \<Longrightarrow> r = r'" using D(4) by (simp add: n')
qed

lemma refs_fresh:
  assumes "ns_inv n"
  shows "refs (length (locks n)) (goroutines n) = 0 \<and> holders m (length (locks n)) (goroutines n) = 0"
proof -
  have no: "position x \<noteq> Some (length (locks n), r)" if "x \<in> set (goroutines n)" for x r
  proof
    assume pos: "position x = Some (length (locks n), r)"
    from that obtain g where "g < length (goroutines n)" "x = goroutines n ! g" by (metis in_set_conv_nth)
    with ns_invD(2) [OF assms] pos have "lockMap n r = Some (length (locks n))" by blast
    with ns_invD(3) [OF assms] show False by blast
  qed
  moreover have "holds x \<noteq> Some (length (locks n), m)" if "x \<in> set (goroutines n)" for x
    using no [OF that] by (cases x) auto
  ultimately show ?thesis by (auto simp: refs_def holders_def count_def filter_empty_conv)
qed

lemma enter_inv:
  assumes inv: "ns_inv n" and g: "g < length (goroutines n)" and idle: "goroutines n ! g = Idle"
  shows "ns_inv (lock_enter g resource readLock n)"
proof (cases "lockMap n resource")
  case None
  note D = ns_invD [OF inv]
  let ?a = "length (locks n)" and ?x = "Trying (length (locks n)) resource readLock"
  let ?n = "lock_enter g resource readLock n"
  have n': "lockMap ?n = (lockMap n)(resource \<mapsto> ?a)" "goroutines ?n = (goroutines n)[g := ?x]"
    "locks ?n = locks n @ [\<lparr>mutex = NewLRWMutex, ref = 1\<rparr>]"
    using None by (simp_all add: lock_enter_def)
  show ?thesis
  proof (rule ns_invI)
    show "length (goroutines ?n) < 2 ^ 64" using D(1) by (simp add: n')
    show "lockMap ?n r = Some b" if h: "h < length (goroutines ?n)" "position (goroutines ?n ! h) = Some (b, r)" for h b r
    proof (cases "h = g")
      case True
      with h g have "r = resource \<and> b = ?a" by (simp add: n')
      then show ?thesis by (simp only: n' fun_upd_same)
    next
      case False
      with h have "h < length (goroutines n)" "position (goroutines n ! h) = Some (b, r)" by (simp_all add: n')
      then have "lockMap n r = Some b" by (rule D(2))
      with None show ?thesis by (auto simp: n')
    qed
    show "b < length (locks ?n) \<and> lock_ok (goroutines ?n) b (locks ?n ! b)" if b: "lockMap ?n r = Some b" for r b
    proof (cases "r = resource")
      case True
      with b have "b = ?a" by (simp add: n')
      moreover have "refs ?a (goroutines ?n) = 1" "holders m ?a (goroutines ?n) = 0" for m
        using refs_fresh [OF inv, of m] refs_update [OF g, of ?a ?x] holders_update [OF g, of m ?a ?x]
        by (simp_all add: n' idle)
      ultimately show ?thesis by (simp add: n' lock_ok_def NewLRWMutex_def)
    next
      case False
      with b have "lockMap n r = Some b" by (simp add: n')
      note old = D(3) [OF this]
      have "lock_ok ((goroutines n)[g := ?x]) b (locks n ! b)"
        using conjunct2 [OF old] g by (rule lock_ok_other) (use idle old in auto)
      with old show ?thesis by (simp add: n' nth_append)
    qed
    show "r = r'" if "lockMap ?n r = Some b" "lockMap ?n r' = Some b" for r r' b
      using that D(4) [of r b r'] D(3) [of r b] D(3) [of r' b] by (auto simp: n' split: if_splits)
  qed
next
  case (Some a)
  note D = ns_invD [OF inv]
  let ?x = "Trying a resource readLock"
  let ?lk = "(locks n ! a)\<lparr>ref := uint_inc (ref (locks n ! a))\<rparr>"
  let ?n = "lock_enter g resource readLock n"
  have n': "lockMap ?n = lockMap n" "goroutines ?n = (goroutines n)[g := ?x]" "locks ?n = (locks n)[a := ?lk]"
    using Some by (simp_all add: lock_enter_def)
  have refs: "refs a (goroutines ?n) = refs a (goroutines n) + 1" "holders m a (goroutines ?n) = holders m a (goroutines n)" for m
    using refs_update [OF g, of a ?x] holders_update [OF g, of m a ?x] by (simp_all add: n' idle)
  show ?thesis
  proof (rule ns_invI)
    show "length (goroutines ?n) < 2 ^ 64" using D(1) by (simp add: n')
    show "lockMap ?n r = Some b" if h: "h < length (goroutines ?n)" "position (goroutines ?n ! h) = Some (b, r)" for h b r
    proof (cases "h = g")
      case True
      with h g have "r = resource \<and> b = a" by (simp add: n')
      with Some show ?thesis by (simp only: n')
    next
      case False
      with h D(2) [of h b r] show ?thesis by (simp add: n')
    qed
    show "b < length (locks ?n) \<and> lock_ok (goroutines ?n) b (locks ?n ! b)" if "lockMap ?n r = Some b" for r b
    proof (cases "b = a")
      case True
      have "refs a (goroutines ?n) < 2 ^ 64"
        using refs_le [of a "goroutines ?n"] D(1) by (simp add: n')
      with D(3) [OF Some] refs True show ?thesis by (simp add: n' lock_ok_def uint_inc_def)
    next
      case False
      with that have old: "b < length (locks n)" "lock_ok (goroutines n) b (locks n ! b)" using D(3) by (auto simp: n')
      have "lock_ok ((goroutines n)[g := ?x]) b (locks n ! b)"
        using old(2) g by (rule lock_ok_other) (use idle False in auto)
      with old(1) False show ?thesis by (simp add: n')
    qed
    show "\<And>r r' a. lockMap ?n r = Some a \<Longrightarrow> lockMap ?n r' = Some a \<Longrightarrow> r = r'" using D(4) by (simp add: n')
  qed
qed

text \<open>A goroutine without the lock lets go of its object.\<close>

lemma leave_inv:
  assumes inv: "ns_inv n" and g: "g < length (goroutines n)"
    and pos: "position (goroutines n ! g) = Some (a, r)" and free: "\<And>m. holds (goroutines n ! g) \<noteq> Some (a, m)"
  shows "ns_inv ((drop_ref a r n)\<lparr>goroutines := (goroutines n)[g := Idle]\<rparr>)" (is "ns_inv ?n")
proof -
  note D = ns_invD [OF inv]
  from D(2) [OF g pos] have ra: "lockMap n r = Some a" .
  note lk = D(3) [OF ra]
  have refs: "refs a ((goroutines n)[g := Idle]) + 1 = refs a (goroutines n)"
    "holders m a ((goroutines n)[g := Idle]) = holders m a (goroutines n)" for m
    using refs_update [OF g, of a Idle] holders_update [OF g, of m a Idle] pos free by simp_all
  have dec: "uint_dec (ref (locks n ! a)) = refs a ((goroutines n)[g := Idle])"
    using lk refs(1) by (simp add: lock_ok_def uint_dec_def)
  have n': "goroutines ?n = (goroutines n)[g := Idle]"
    "locks ?n = (locks n)[a := (locks n ! a)\<lparr>ref := refs a ((goroutines n)[g := Idle])\<rparr>]"
    "lockMap ?n = (if refs a ((goroutines n)[g := Idle]) = 0 then (lockMap n)(r := None) else lockMap n)"
    by (simp_all add: drop_ref_def Let_def dec)
  show ?thesis
  proof (rule ns_invI)
    show "length (goroutines ?n) < 2 ^ 64" using D(1) by (simp add: n')
    show "lockMap ?n r' = Some b" if h: "h < length (goroutines ?n)" "position (goroutines ?n ! h) = Some (b, r')" for h b r'
    proof -
      have "h \<noteq> g" using h(2) g by (auto simp: n')
      with h have h': "h < length (goroutines n)" "position (goroutines n ! h) = Some (b, r')" by (simp_all add: n')
      have "refs a ((goroutines n)[g := Idle]) \<noteq> 0" if "b = a"
      proof -
        have "(goroutines n)[g := Idle] ! h = goroutines n ! h" using \<open>h \<noteq> g\<close> by simp
        then have "\<exists>r. position ((goroutines n)[g := Idle] ! h) = Some (a, r)" using h' that by simp
        then have "0 < refs a ((goroutines n)[g := Idle])"
          unfolding refs_def using h'(1) by (intro count_pos [of h]) simp_all
        then show ?thesis by simp
      qed
      moreover have "r' \<noteq> r" if "b \<noteq> a" using D(2) [OF h'] ra that by auto
      ultimately show ?thesis using D(2) [OF h'] by (auto simp: n')
    qed
    show "b < length (locks ?n) \<and> lock_ok (goroutines ?n) b (locks ?n ! b)" if b: "lockMap ?n r' = Some b" for r' b
    proof (cases "b = a")
      case True
      with b D(4) [OF ra, of r'] have "refs a ((goroutines n)[g := Idle]) \<noteq> 0" by (auto simp: n' split: if_splits)
      with True lk refs(2) show ?thesis by (auto simp: n' lock_ok_def)
    next
      case False
      from b have "lockMap n r' = Some b" by (simp add: n' split: if_splits)
      note old = D(3) [OF this]
      have "lock_ok ((goroutines n)[g := Idle]) b (locks n ! b)"
        using conjunct2 [OF old] g by (rule lock_ok_other) (use pos False in auto)
      with old False show ?thesis by (simp add: n')
    qed
    show "r1 = r2" if "lockMap ?n r1 = Some b" "lockMap ?n r2 = Some b" for r1 r2 b
      using that D(4) [of r1 b r2] by (auto simp: n' split: if_splits)
  qed
qed

lemma lock_ok_attempt:
  assumes "lock_ok gs a lk" and "refs a gs' = refs a gs"
    and "holders True a gs' = holders True a gs + (if ok \<and> True = rd then 1 else 0)"
    and "holders False a gs' = holders False a gs + (if ok \<and> False = rd then 1 else 0)"
    and "lock_attempt i source (\<not> rd) (mutex lk) = (lm', ok)"
  shows "lock_ok gs' a (lk\<lparr>mutex := lm'\<rparr>)"
proof (cases rd)
  case True
  with assms show ?thesis
    by (cases "lm_state (mutex lk) = -1") (auto simp: lock_ok_def lock_attempt_def Let_def lock_consts)
next
  case False
  with assms show ?thesis
    by (cases "lm_state (mutex lk) = 0") (auto simp: lock_ok_def lock_attempt_def Let_def lock_consts)
qed

lemma try_inv:
  assumes inv: "ns_inv n" and g: "g < length (goroutines n)" and at: "goroutines n ! g = Trying a r rd"
  shows "ns_inv (lock_try g a r rd opsID source timedOut n)"
proof -
  note D = ns_invD [OF inv]
  from D(2) [OF g] at have ra: "lockMap n r = Some a" by simp
  obtain lm' ok where att: "lock_attempt opsID source (\<not> rd) (mutex (locks n ! a)) = (lm', ok)"
    by (cases "lock_attempt opsID source (\<not> rd) (mutex (locks n ! a))")
  let ?x = "if ok then Holding a r rd else if timedOut then GaveUp a r rd else Trying a r rd"
  have refs: "refs a ((goroutines n)[g := ?x]) = refs a (goroutines n)"
    "holders m a ((goroutines n)[g := ?x]) = holders m a (goroutines n) + (if ok \<and> m = rd then 1 else 0)" for m
    using refs_update [OF g, of a ?x] holders_update [OF g, of m a ?x] by (auto simp: at split: if_splits)
  have ok: "lock_ok ((goroutines n)[g := ?x]) a ((locks n ! a)\<lparr>mutex := lm'\<rparr>)"
    using conjunct2 [OF D(3) [OF ra]] refs(1) refs(2) [of True] refs(2) [of False] att
    by (rule lock_ok_attempt)
  have "position ?x = Some (a, r)" by simp
  from stay_inv [OF inv g _ this ok] show ?thesis by (simp add: lock_try_def att at)
qed

lemma unlock_mutex_inv:
  assumes inv: "ns_inv n" and g: "g < length (goroutines n)" and at: "goroutines n ! g = Releasing a r rd"
  shows "\<exists>n'. unlock_mutex g a r rd n = Some n' \<and> ns_inv n'"
proof -
  note D = ns_invD [OF inv]
  from D(2) [OF g] at have ra: "lockMap n r = Some a" by simp
  note lk = conjunct2 [OF D(3) [OF ra]]
  let ?x = "Released a r"
  have held: "0 < holders rd a (goroutines n)"
    unfolding holders_def using g by (rule count_pos) (simp add: at)
  have refs: "refs a ((goroutines n)[g := ?x]) = refs a (goroutines n)"
    "holders m a ((goroutines n)[g := ?x]) = holders m a (goroutines n) - (if m = rd then 1 else 0)" for m
    using refs_update [OF g, of a ?x] holders_update [OF g, of m a ?x] by (auto simp: at split: if_splits)
  let ?lm = "mutex (locks n ! a)"
  define lm' where "lm' = ?lm\<lparr>lm_state := if rd then lm_state ?lm - 1 else 0\<rparr>"
  have state: "if rd then lm_state ?lm = int (holders True a (goroutines n)) \<and> holders False a (goroutines n) = 0
      else lm_state ?lm = -1 \<and> holders False a (goroutines n) = 1 \<and> holders True a (goroutines n) = 0"
    using lk held by (cases rd) (auto simp: lock_ok_def)
  have lm': "(if rd then LRWMutex_RUnlock ?lm else LRWMutex_Unlock ?lm) = Some lm'"
    using state held
    by (cases rd) (simp_all add: LRWMutex_RUnlock_def LRWMutex_Unlock_def lm_unlock_def lock_consts lm'_def)
  have ok: "lock_ok ((goroutines n)[g := ?x]) a ((locks n ! a)\<lparr>mutex := lm'\<rparr>)"
    using lk state held by (cases rd) (simp_all add: lock_ok_def refs lm'_def of_nat_diff)
  have "ns_inv (n\<lparr>locks := (locks n)[a := (locks n ! a)\<lparr>mutex := lm'\<rparr>], goroutines := (goroutines n)[g := ?x]\<rparr>)"
    by (rule stay_inv [OF inv g _ _ ok]) (simp_all add: at)
  then show ?thesis by (simp add: unlock_mutex_def lm')
qed

lemma lookup_inv:
  assumes inv: "ns_inv n" and g: "g < length (goroutines n)" and at: "goroutines n ! g = Holding a r rd"
  shows "ns_inv (unlock_lookup g r rd n)"
proof -
  note D = ns_invD [OF inv]
  from D(2) [OF g] at have ra: "lockMap n r = Some a" by simp
  let ?x = "Releasing a r rd"
  have "refs a ((goroutines n)[g := ?x]) = refs a (goroutines n)"
    "holders m a ((goroutines n)[g := ?x]) = holders m a (goroutines n)" for m
    using refs_update [OF g, of a ?x] holders_update [OF g, of m a ?x] by (auto simp: at split: if_splits)
  with D(3) [OF ra] have "lock_ok ((goroutines n)[g := ?x]) a (locks n ! a)" by (simp add: lock_ok_def)
  then show ?thesis
    by (rule stay_inv [OF inv g, rotated 2]) (simp_all add: unlock_lookup_def ra at)
qed

lemma ns_step_inv: "ns_step n n' \<Longrightarrow> ns_inv n \<Longrightarrow> ns_inv n'"
proof (induction rule: ns_step.induct)
  case (enter g n volume path readLock)
  then show ?case by (simp add: enter_inv)
next
  case (attempt g n a resource readLock opsID source timedOut)
  then show ?case by (simp add: try_inv)
next
  case (cleanup g n a resource readLock)
  then show ?case unfolding lock_cleanup_def by (intro leave_inv) simp_all
next
  case (lookup g n a resource readLock)
  then show ?case by (simp add: lookup_inv)
next
  case (release_mutex g n a resource readLock n')
  then show ?case using unlock_mutex_inv [of n g a resource readLock] by simp
next
  case (release_ref g n a resource)
  have "ref (locks n ! a) \<noteq> 0"
    using release_ref ns_invD(2,3) [of n] by (fastforce simp: lock_ok_def)
  with release_ref show ?case unfolding unlock_ref_def by (simp add: leave_inv)
qed

lemma ns_start_inv: "k < 2 ^ 64 \<Longrightarrow> ns_inv (newNSLock k)"
  by (auto simp: ns_inv_def newNSLock_def)

lemma ns_reachable_inv: "ns_reachable k n \<Longrightarrow> k < 2 ^ 64 \<Longrightarrow> ns_inv n"
  by (induction rule: ns_reachable.induct) (auto simp: ns_start_inv ns_step_inv)

lemma ns_step_length: "ns_step n n' \<Longrightarrow> length (goroutines n') = length (goroutines n)"
  by (induction rule: ns_step.induct)
    (auto simp: lock_enter_def lock_try_def lock_cleanup_def unlock_lookup_def unlock_mutex_def unlock_ref_def
      drop_ref_def Let_def split: option.splits prod.splits)

lemma ns_reachable_length: "ns_reachable k n \<Longrightarrow> length (goroutines n) = k"
  by (induction rule: ns_reachable.induct) (simp_all add: newNSLock_def ns_step_length)

text \<open>Two different goroutines among those that satisfy a predicate.\<close>

lemma count_two:
  assumes "i < length xs" and "j < length xs" and "i \<noteq> j" and "P (xs ! i)" and "P (xs ! j)"
  shows "2 \<le> count P xs"
proof -
  have "card {i, j} \<le> card {k. k < length xs \<and> P (xs ! k)}"
    using assms by (intro card_mono) auto
  with assms(3) show ?thesis by (simp add: count_def length_filter_conv_card)
qed

lemma holders_pos:
  "g < length gs \<Longrightarrow> holds (gs ! g) = Some (a, m) \<Longrightarrow> 0 < holders m a gs"
  unfolding holders_def by (rule count_pos)

lemma holds_position: "holds g = Some (a, m) \<Longrightarrow> \<exists>r. position g = Some (a, r)"
  by (cases g) auto

lemma writer_alone:
  assumes inv: "ns_inv n" and g: "g < length (goroutines n)" and h: "h < length (goroutines n)" and gh: "g \<noteq> h"
    and w: "holds (goroutines n ! g) = Some (a, False)" and o: "holds (goroutines n ! h) = Some (a, m)"
  shows False
proof -
  from holds_position [OF w] obtain r where "position (goroutines n ! g) = Some (a, r)" ..
  from ns_invD(2) [OF inv g this] have "lockMap n r = Some a" .
  from ns_invD(3) [OF inv this] have lk: "lock_ok (goroutines n) a (locks n ! a)" ..
  from holders_pos [OF g w] lk have one: "holders False a (goroutines n) = 1" "holders True a (goroutines n) = 0"
    by (auto simp: lock_ok_def)
  show False
  proof (cases m)
    case True
    with holders_pos [OF h, of a True] o one show False by simp
  next
    case False
    have "2 \<le> holders False a (goroutines n)"
      unfolding holders_def by (rule count_two [OF g h gh]) (use w o False in simp_all)
    with one show False by simp
  qed
qed

lemma map_idle:
  assumes inv: "ns_inv n" and r: "lockMap n r = Some a"
  shows "\<exists>g < length (goroutines n). position (goroutines n ! g) = Some (a, r)"
proof -
  from ns_invD(3) [OF inv r] have "0 < refs a (goroutines n)" by (simp add: lock_ok_def)
  then obtain x r' where x: "x \<in> set (goroutines n)" "position x = Some (a, r')"
    by (auto simp: refs_def count_def filter_empty_conv)
  then obtain g where g: "g < length (goroutines n)" "x = goroutines n ! g" by (metis in_set_conv_nth)
  with x ns_invD(2) [OF inv g(1), of a r'] have "lockMap n r' = Some a" by simp
  with ns_invD(4) [OF inv r] have "r = r'" by blast
  with g x show ?thesis by blast
qed

section \<open>localLockInstance\<close>

text \<open>
  A request locks several paths of a volume, in sorted order.  What \<open>ns.lock\<close> answers depends on
  the other goroutines: the answer for the \<open>i\<close>-th path is \<open>outcome i\<close>.  The result is the calls
  made on the lock map and whether all of the paths are locked.
\<close>

datatype ns_call =
    Call_lock string string bool
  | Call_unlock string string bool

record localLockInstance =
  volume :: string
  paths :: "string list"

definition NewNSLock :: "string \<Rightarrow> string list \<Rightarrow> localLockInstance" where
  "NewNSLock vol ps = \<lparr>volume = vol, paths = sort ps\<rparr>"

fun lock_paths :: "bool \<Rightarrow> (nat \<Rightarrow> bool) \<Rightarrow> string \<Rightarrow> string list \<Rightarrow> nat list \<Rightarrow> nat \<Rightarrow> string list \<Rightarrow> ns_call list \<times> bool" where
  "lock_paths readLock outcome vol all success i [] = ([], True)"
| "lock_paths readLock outcome vol all success i (path # rest) =
     (if \<not> outcome i
      then (Call_lock vol path readLock # map (\<lambda>sint. Call_unlock vol (all ! sint) readLock) success, False)
      else (case lock_paths readLock outcome vol all (success @ [i]) (i + 1) rest of
              (calls, ok) \<Rightarrow> (Call_lock vol path readLock # calls, ok)))"

definition local_GetLock :: "(nat \<Rightarrow> bool) \<Rightarrow> localLockInstance \<Rightarrow> ns_call list \<times> bool" where
  "local_GetLock outcome li = (let readLock = False in lock_paths readLock outcome (volume li) (paths li) [] 0 (paths li))"

definition local_GetRLock :: "(nat \<Rightarrow> bool) \<Rightarrow> localLockInstance \<Rightarrow> ns_call list \<times> bool" where
  "local_GetRLock outcome li = (let readLock = True in lock_paths readLock outcome (volume li) (paths li) [] 0 (paths li))"

definition local_Unlock :: "localLockInstance \<Rightarrow> ns_call list" where
  "local_Unlock li = (let readLock = False in map (\<lambda>path. Call_unlock (volume li) path readLock) (paths li))"

definition local_RUnlock :: "localLockInstance \<Rightarrow> ns_call list" where
  "local_RUnlock li = (let readLock = True in map (\<lambda>path. Call_unlock (volume li) path readLock) (paths li))"

lemma lock_paths_calls:
  assumes "all = done1 @ rest" and "length done1 = i"
  shows "lock_paths m outcome vol all [0..<i] i rest =
    (case filter (\<lambda>k. \<not> outcome k) [i..<i + length rest] of
       [] \<Rightarrow> (map (\<lambda>p. Call_lock vol p m) rest, True)
     | k # _ \<Rightarrow> (map (\<lambda>p. Call_lock vol p m) (take (Suc k - i) rest) @
                 map (\<lambda>p. Call_unlock vol p m) (take k all), False))"
  using assms
proof (induction rest arbitrary: done1 i)
  case (Cons p ps)
  have upt: "[i..<i + length (p # ps)] = i # [Suc i..<Suc i + length ps]" by (simp add: upt_conv_Cons del: upt_Suc)
  show ?case
  proof (cases "outcome i")
    case False
    have "map (\<lambda>sint. Call_unlock vol (all ! sint) m) [0..<i] = map (\<lambda>p. Call_unlock vol p m) (take i all)"
      using Cons.prems by (intro nth_equalityI) (simp_all add: nth_append)
    with False Cons.prems show ?thesis unfolding upt by simp
  next
    case True
    let ?ks = "filter (\<lambda>k. \<not> outcome k) [Suc i..<Suc i + length ps]"
    have IH: "lock_paths m outcome vol all [0..<Suc i] (Suc i) ps =
      (case ?ks of
         [] \<Rightarrow> (map (\<lambda>p. Call_lock vol p m) ps, True)
       | k # _ \<Rightarrow> (map (\<lambda>p. Call_lock vol p m) (take (Suc k - Suc i) ps) @
                   map (\<lambda>p. Call_unlock vol p m) (take k all), False))"
      by (rule Cons.IH [of "done1 @ [p]"]) (use Cons.prems in simp_all)
    show ?thesis
    proof (cases ?ks)
      case Nil
      with IH True show ?thesis unfolding upt by simp
    next
      case (Cons k ks)
      then have "k \<in> set ?ks" by simp
      then have "Suc k - i = Suc (Suc k - Suc i)" by auto
      with IH True Cons show ?thesis unfolding upt by simp
    qed
  qed
qed simp

text \<open>A run: two readers of one resource.\<close>

definition two_readers :: nsLockMap where
  "two_readers =
     (let r = pathJoin [''v'', ''p''] in
      lock_try 1 0 r True ''b'' ''s'' True (lock_enter 1 r True
        (lock_try 0 0 r True ''a'' ''s'' True (lock_enter 0 r True (newNSLock 2)))))"

lemma pathJoin_example: "pathJoin [''v'', ''p''] = ''v/p''"
  by (simp add: pathJoin_def path_Join_def path_Clean_def Let_def HasPrefix_def HasSuffix_def)

lemmas ns_run_defs = two_readers_def pathJoin_example lock_enter_def lock_try_def newNSLock_def lock_attempt_def
  NewLRWMutex_def lock_consts uint_inc_def Let_def numeral_2_eq_2

lemma two_readers_reachable: "ns_reachable 2 two_readers"
proof -
  let ?r = "pathJoin [''v'', ''p'']"
  let ?n1 = "lock_enter 0 ?r True (newNSLock 2)"
  let ?n2 = "lock_try 0 0 ?r True ''a'' ''s'' True ?n1"
  let ?n3 = "lock_enter 1 ?r True ?n2"
  have "ns_reachable 2 ?n1" by (rule ns_next [OF ns_start enter]) (simp_all add: newNSLock_def)
  then have "ns_reachable 2 ?n2" by (rule ns_next [OF _ attempt]) (simp_all add: ns_run_defs)
  then have "ns_reachable 2 ?n3" by (rule ns_next [OF _ enter]) (simp_all add: ns_run_defs)
  then have "ns_reachable 2 (lock_try 1 0 ?r True ''b'' ''s'' True ?n3)"
    by (rule ns_next [OF _ attempt]) (simp_all add: ns_run_defs)
  then show ?thesis by (simp add: two_readers_def Let_def)
qed

lemma two_readers_state: "goroutines two_readers = [Holding 0 ''v/p'' True, Holding 0 ''v/p'' True]"
  by (simp add: ns_run_defs)

section \<open>Properties\<close>

text \<open>C23: However the goroutines interleave, two of them that hold a resource both hold it for
  reading, and an attempt at a resource that somebody else holds for writing fails.\<close>

theorem ns_mutual_exclusion:
  assumes "ns_reachable k n" and "k < 2 ^ 64" and "g < k" and "h < k" and "g \<noteq> h"
    and "goroutines n ! g = Holding a r m" and "goroutines n ! h = Holding b r m'"
  shows "m \<and> m'"
proof -
  note inv = ns_reachable_inv [OF assms(1,2)] and len = ns_reachable_length [OF assms(1)]
  from ns_invD(2) [OF inv, of g a r] ns_invD(2) [OF inv, of h b r] assms len have "a = b" by simp
  with writer_alone [OF inv, of g h a m'] writer_alone [OF inv, of h g a m] assms len
  show ?thesis by (cases m; cases m') simp_all
qed

theorem ns_mutual_exclusion_witness: "goroutines two_readers ! 0 = Holding 0 ''v/p'' True \<and> (True \<and> True)"
  using ns_mutual_exclusion [OF two_readers_reachable, of 0 1 0 "''v/p''" True 0 True] by (simp add: two_readers_state)

text \<open>C24: No interleaving makes an unlock panic, or finds the reference count at zero, and every unlock
  finds its lock in the map.\<close>

theorem ns_no_panic:
  assumes "ns_reachable k n" and "k < 2 ^ 64"
  shows "\<not> ns_panics n \<and>
    (\<forall>g < k. \<forall>a r. goroutines n ! g = Released a r \<longrightarrow> lockMap n r = Some a \<and> ref (locks n ! a) \<noteq> 0) \<and>
    (\<forall>g < k. \<forall>a r m. goroutines n ! g = Holding a r m \<longrightarrow> lockMap n r = Some a)"
proof -
  note inv = ns_reachable_inv [OF assms] and len = ns_reachable_length [OF assms(1)]
  have "\<not> ns_panics n" using unlock_mutex_inv [OF inv] by (fastforce simp: ns_panics_def)
  moreover have "lockMap n r = Some a \<and> ref (locks n ! a) \<noteq> 0" if "g < k" "goroutines n ! g = Released a r" for g a r
  proof -
    from ns_invD(2) [OF inv, of g a r] that len have "lockMap n r = Some a" by simp
    with ns_invD(3) [OF inv this] show ?thesis by (simp add: lock_ok_def)
  qed
  moreover have "lockMap n r = Some a" if "g < k" "goroutines n ! g = Holding a r m" for g a r m
    using ns_invD(2) [OF inv, of g a r] that len by simp
  ultimately show ?thesis by blast
qed

theorem ns_no_panic_witness: "\<not> ns_panics two_readers"
  using ns_no_panic [OF two_readers_reachable] by simp

text \<open>C37: The map holds exactly the resources somebody works on, each with the number of the
  goroutines on it; when all are done the map is empty.\<close>

theorem ns_reference_counts:
  assumes "ns_reachable k n" and "k < 2 ^ 64"
  shows "(lockMap n r = Some a) = (\<exists>g < k. position (goroutines n ! g) = Some (a, r)) \<and>
    (lockMap n r = Some a \<longrightarrow> ref (locks n ! a) = card {g. g < k \<and> position (goroutines n ! g) = Some (a, r)}) \<and>
    ((\<forall>g < k. goroutines n ! g = Idle) \<longrightarrow> lockMap n = Map.empty)"
proof -
  note inv = ns_reachable_inv [OF assms] and len = ns_reachable_length [OF assms(1)]
  have iff: "(lockMap n r = Some a) = (\<exists>g < k. position (goroutines n ! g) = Some (a, r))" for r a
    using map_idle [OF inv] ns_invD(2) [OF inv] len by blast
  moreover have "ref (locks n ! a) = card {g. g < k \<and> position (goroutines n ! g) = Some (a, r)}"
    if r: "lockMap n r = Some a"
  proof -
    have "{g. g < k \<and> (\<exists>r'. position (goroutines n ! g) = Some (a, r'))} =
        {g. g < k \<and> position (goroutines n ! g) = Some (a, r)}"
      using iff ns_invD(4) [OF inv r] by blast
    with ns_invD(3) [OF inv r] show ?thesis
      by (simp add: lock_ok_def refs_def count_def length_filter_conv_card len)
  qed
  moreover have "lockMap n = Map.empty" if "\<forall>g < k. goroutines n ! g = Idle"
  proof
    fix r show "lockMap n r = None"
    proof (cases "lockMap n r")
      case (Some a)
      with iff [of r a] obtain g where "g < k" "position (goroutines n ! g) = Some (a, r)" by blast
      with that show ?thesis by simp
    qed
  qed
  ultimately show ?thesis by blast
qed

theorem ns_reference_counts_witness: "lockMap two_readers ''v/p'' = Some 0"
proof -
  have "\<exists>g < 2. position (goroutines two_readers ! g) = Some (0, ''v/p'')"
    by (rule exI [of _ 0]) (simp add: two_readers_state)
  then show ?thesis using ns_reference_counts [OF two_readers_reachable, of "''v/p''" 0] by simp
qed

text \<open>A goroutine that tries gets the lock at its next attempt unless another one holds the
  resource in a mode that excludes its own.\<close>

theorem ns_attempt_succeeds:
  assumes "ns_reachable k n" and "k < 2 ^ 64" and "g < k" and "goroutines n ! g = Trying a r rd"
  shows "(goroutines (lock_try g a r rd opsID source timedOut n) ! g = Holding a r rd) =
    (\<not> (\<exists>h < k. \<exists>m. holds (goroutines n ! h) = Some (a, m) \<and> \<not> (m \<and> rd)))"
proof -
  note inv = ns_reachable_inv [OF assms(1,2)] and len = ns_reachable_length [OF assms(1)]
  from ns_invD(2) [OF inv, of g a r] assms(3,4) len have "lockMap n r = Some a" by simp
  from ns_invD(3) [OF inv this] have lk: "lock_ok (goroutines n) a (locks n ! a)" ..
  have some: "(\<exists>h < k. holds (goroutines n ! h) = Some (a, m)) = (holders m a (goroutines n) \<noteq> 0)" for m
    using len by (simp add: holders_def count_def filter_empty_conv) (metis in_set_conv_nth)
  have "(\<exists>h < k. \<exists>m. holds (goroutines n ! h) = Some (a, m) \<and> \<not> (m \<and> rd)) =
      (holders False a (goroutines n) \<noteq> 0 \<or> \<not> rd \<and> holders True a (goroutines n) \<noteq> 0)"
    unfolding some [symmetric] ex_bool_eq by blast
  moreover have "snd (lock_attempt opsID source (\<not> rd) (mutex (locks n ! a))) =
      (\<not> (holders False a (goroutines n) \<noteq> 0 \<or> \<not> rd \<and> holders True a (goroutines n) \<noteq> 0))"
    using lk by (cases rd) (auto simp: lock_ok_def lock_attempt_def Let_def lock_consts)
  moreover have "(goroutines (lock_try g a r rd opsID source timedOut n) ! g = Holding a r rd) =
      snd (lock_attempt opsID source (\<not> rd) (mutex (locks n ! a)))"
    using assms(3) len by (cases "lock_attempt opsID source (\<not> rd) (mutex (locks n ! a))") (simp add: lock_try_def)
  ultimately show ?thesis by simp
qed

theorem ns_attempt_succeeds_witness:
  "goroutines (lock_try 0 0 ''v/p'' True ''a'' ''s'' False (lock_enter 0 ''v/p'' True (newNSLock 2))) ! 0 =
     Holding 0 ''v/p'' True"
proof -
  have "ns_reachable 2 (lock_enter 0 (pathJoin [''v'', ''p'']) True (newNSLock 2))"
    by (rule ns_next [OF ns_start enter]) (simp_all add: newNSLock_def)
  from ns_attempt_succeeds [OF this [unfolded pathJoin_example], of 0 0 "''v/p''" True "''a''" "''s''" False]
  show ?thesis by (simp add: ns_run_defs less_Suc_eq)
qed

text \<open>A request locks its paths in sorted order.  If the lock of one is not granted, it has
  unlocked exactly the ones before it, in the mode of the request, and answers with a timeout;
  otherwise all are locked, once each.\<close>

theorem local_locks_roll_back:
  "sorted (paths (NewNSLock vol ps)) \<and> mset (paths (NewNSLock vol ps)) = mset ps \<and>
   lock_paths m outcome (volume li) (paths li) [] 0 (paths li) =
     (case filter (\<lambda>k. \<not> outcome k) [0..<length (paths li)] of
        [] \<Rightarrow> (map (\<lambda>p. Call_lock (volume li) p m) (paths li), True)
      | k # _ \<Rightarrow> (map (\<lambda>p. Call_lock (volume li) p m) (take (Suc k) (paths li)) @
                  map (\<lambda>p. Call_unlock (volume li) p m) (take k (paths li)), False)) \<and>
   local_GetLock outcome li = lock_paths False outcome (volume li) (paths li) [] 0 (paths li) \<and>
   local_GetRLock outcome li = lock_paths True outcome (volume li) (paths li) [] 0 (paths li)"
  using lock_paths_calls [of "paths li" "[]" "paths li" 0 m outcome "volume li"]
  by (simp add: NewNSLock_def local_GetLock_def local_GetRLock_def split: list.split)

end
