(* ===== verification/HTTPRange.thy ===== *)
theory HTTPRange
  imports GoStrings
begin

text \<open>
  \<open>cmd/ipos/cmd/httprange.go\<close>: the \<open>Range\<close> header of a request.  The arithmetic is that of
  \<open>int64\<close>: every sum and difference of the code is wrapped, and the properties show that none of
  them leaves the range for a specification that came from a header.
\<close>

section \<open>Ranges\<close>

datatype range_error =
    NegativeSize
  | InvalidRange
  | UnexpectedCase
  | NoPrefix
  | NoRangeValue
  | SignedPosition string
  | BadFirstPosition
  | NegativeFirst int
  | BadLastPosition
  | NegativeLast int

record HTTPRangeSpec =
  IsSuffixLength :: bool
  Start :: int
  End :: int

definition wrap64 :: "int \<Rightarrow> int" where
  "wrap64 x = (x + 2 ^ 63) mod 2 ^ 64 - 2 ^ 63"

lemma wrap64_id [simp]: "in_int64 x \<Longrightarrow> wrap64 x = x"
  by (simp add: wrap64_def in_int64_def int64_min_def int64_max_def)

lemma wrap64_range: "in_int64 (wrap64 x)"
proof -
  have "0 \<le> (x + 2 ^ 63) mod 2 ^ 64" "(x + 2 ^ 63) mod 2 ^ 64 < 2 ^ 64" by simp_all
  then show ?thesis by (simp add: wrap64_def in_int64_def int64_min_def int64_max_def)
qed

text \<open>A nil specification stands for the whole resource.\<close>

definition GetLength :: "HTTPRangeSpec option \<Rightarrow> int \<Rightarrow> range_error + int" where
  "GetLength h resourceSize =
     (if resourceSize < 0 then Inl NegativeSize
      else case h of
        None \<Rightarrow> Inr resourceSize
      | Some h \<Rightarrow>
          if IsSuffixLength h then
            (let specifiedLen = wrap64 (- Start h) in
             if resourceSize < specifiedLen then Inr resourceSize else Inr specifiedLen)
          else if resourceSize \<le> Start h then Inl InvalidRange
          else if -1 < End h then
            (let endd = (if resourceSize \<le> End h then wrap64 (resourceSize - 1) else End h) in
             Inr (wrap64 (wrap64 (endd - Start h) + 1)))
          else if End h = -1 then Inr (wrap64 (resourceSize - Start h))
          else Inl UnexpectedCase)"

definition GetOffsetLength :: "HTTPRangeSpec option \<Rightarrow> int \<Rightarrow> range_error + int \<times> int" where
  "GetOffsetLength h resourceSize =
     (case h of
        None \<Rightarrow> Inr (0, resourceSize)
      | Some hs \<Rightarrow>
          (case GetLength h resourceSize of
             Inl err \<Rightarrow> Inl err
           | Inr len \<Rightarrow>
               let start = (if IsSuffixLength hs then
                              (let s = wrap64 (resourceSize + Start hs) in if s < 0 then 0 else s)
                            else Start hs)
               in Inr (start, len)))"

section \<open>Parsing\<close>

definition byteRangePrefix :: string where "byteRangePrefix = ''bytes=''"

text \<open>One of the two positions: -1 stands for a missing one.\<close>

definition parse_position :: "range_error \<Rightarrow> (int \<Rightarrow> range_error) \<Rightarrow> string \<Rightarrow> range_error + int" where
  "parse_position bad neg s =
     (if s = [] then Inr (-1)
      else if hd s = CHR ''+'' then Inl (SignedPosition s)
      else case ParseInt s of
             None \<Rightarrow> Inl bad
           | Some offset \<Rightarrow> if offset < 0 then Inl (neg offset) else Inr offset)"

definition range_of_positions :: "int \<Rightarrow> int \<Rightarrow> range_error + HTTPRangeSpec" where
  "range_of_positions offsetBegin offsetEnd =
     (if -1 < offsetBegin \<and> -1 < offsetEnd then
        (if offsetEnd < offsetBegin then Inl InvalidRange
         else Inr \<lparr>IsSuffixLength = False, Start = offsetBegin, End = offsetEnd\<rparr>)
      else if -1 < offsetBegin then Inr \<lparr>IsSuffixLength = False, Start = offsetBegin, End = -1\<rparr>
      else if -1 < offsetEnd then
        (if offsetEnd = 0 then Inl InvalidRange
         else Inr \<lparr>IsSuffixLength = True, Start = wrap64 (- offsetEnd), End = -1\<rparr>)
      else Inl NoRangeValue)"

definition parseRequestRangeSpec :: "string \<Rightarrow> range_error + HTTPRangeSpec" where
  "parseRequestRangeSpec rangeString =
     (if \<not> HasPrefix rangeString byteRangePrefix then Inl NoPrefix
      else
        (let byteRangeString = TrimPrefix rangeString byteRangePrefix in
         case Index byteRangeString ''-'' of
           None \<Rightarrow> Inl NoRangeValue
         | Some sepIndex \<Rightarrow>
             (case parse_position BadFirstPosition NegativeFirst (take sepIndex byteRangeString) of
                Inl err \<Rightarrow> Inl err
              | Inr offsetBegin \<Rightarrow>
                  (case parse_position BadLastPosition NegativeLast (drop (sepIndex + 1) byteRangeString) of
                     Inl err \<Rightarrow> Inl err
                   | Inr offsetEnd \<Rightarrow> range_of_positions offsetBegin offsetEnd))))"

definition HTTPRangeSpec_String :: "HTTPRangeSpec option \<Rightarrow> int \<Rightarrow> string" where
  "HTTPRangeSpec_String h resourceSize =
     (case h of
        None \<Rightarrow> []
      | Some _ \<Rightarrow>
          (case GetOffsetLength h resourceSize of
             Inl _ \<Rightarrow> []
           | Inr (off, len) \<Rightarrow> Itoa off @ ''-'' @ Itoa (wrap64 (wrap64 (off + len) - 1))))"

section \<open>Specifications that come from a header\<close>

definition range_ok :: "HTTPRangeSpec \<Rightarrow> bool" where
  "range_ok h \<longleftrightarrow>
     (if IsSuffixLength h then - int64_max \<le> Start h \<and> Start h < 0 \<and> End h = -1
      else 0 \<le> Start h \<and> Start h \<le> int64_max \<and> End h \<le> int64_max \<and> (End h = -1 \<or> Start h \<le> End h))"

text \<open>The bytes of a resource that a header asks for (RFC 7233, 2.1).\<close>

definition asked :: "HTTPRangeSpec \<Rightarrow> int \<Rightarrow> int set" where
  "asked h resourceSize =
     (if IsSuffixLength h then {i. 0 \<le> i \<and> resourceSize + Start h \<le> i \<and> i < resourceSize}
      else if End h = -1 then {i. Start h \<le> i \<and> i < resourceSize}
      else {i. Start h \<le> i \<and> i \<le> End h \<and> i < resourceSize})"

lemma parse_position_range:
  "parse_position bad neg s = Inr i \<Longrightarrow> -1 \<le> i \<and> i \<le> int64_max \<and> (i = -1 \<longleftrightarrow> s = [])"
  using ParseInt_range [of s]
  by (auto simp: parse_position_def in_int64_def int64_max_def split: if_splits option.splits)

lemma range_of_positions_ok:
  assumes "range_of_positions b e = Inr h"
    and "-1 \<le> b" "b \<le> int64_max" and "-1 \<le> e" "e \<le> int64_max"
  shows "range_ok h"
proof -
  have "wrap64 (- e) = - e" using assms by (intro wrap64_id) (simp add: in_int64_def int64_min_def int64_max_def)
  with assms show ?thesis by (auto simp: range_of_positions_def range_ok_def split: if_splits)
qed

lemma parse_range_ok: "parseRequestRangeSpec s = Inr h \<Longrightarrow> range_ok h"
  by (auto simp: parseRequestRangeSpec_def Let_def split: if_splits option.splits sum.splits
      dest!: parse_position_range intro: range_of_positions_ok)

text \<open>Without a wrap.\<close>

definition plain_offset_length :: "HTTPRangeSpec \<Rightarrow> int \<Rightarrow> range_error + int \<times> int" where
  "plain_offset_length h n =
     (if IsSuffixLength h then Inr (max 0 (n + Start h), min n (- Start h))
      else if n \<le> Start h then Inl InvalidRange
      else if End h = -1 then Inr (Start h, n - Start h)
      else Inr (Start h, min (n - 1) (End h) - Start h + 1))"

lemma GetOffsetLength_plain:
  assumes h: "range_ok h" and n: "0 \<le> n" "n \<le> int64_max"
  shows "GetOffsetLength (Some h) n = plain_offset_length h n"
proof (cases "IsSuffixLength h")
  case True
  with h have s: "- int64_max \<le> Start h" "Start h < 0" by (simp_all add: range_ok_def)
  with n have "wrap64 (- Start h) = - Start h" "wrap64 (n + Start h) = n + Start h"
    by (simp_all add: in_int64_def int64_min_def int64_max_def)
  with True n s show ?thesis
    by (auto simp: GetOffsetLength_def GetLength_def plain_offset_length_def Let_def min_def max_def)
next
  case False
  note F = False
  with h have s: "0 \<le> Start h" "End h \<le> int64_max" "End h = -1 \<or> Start h \<le> End h" by (simp_all add: range_ok_def)
  show ?thesis
  proof (cases "n \<le> Start h")
    case True
    with F n show ?thesis by (simp add: GetOffsetLength_def GetLength_def plain_offset_length_def)
  next
    case False
    let ?e = "if n \<le> End h then n - 1 else End h"
    have w: "wrap64 (n - Start h) = n - Start h" "wrap64 (n - 1) = n - 1"
      using n s False by (simp_all add: in_int64_def int64_min_def int64_max_def)
    show ?thesis
    proof (cases "End h = -1")
      case True
      with F False n w show ?thesis by (simp add: GetOffsetLength_def GetLength_def plain_offset_length_def)
    next
      case range: False
      with s have "Start h \<le> End h" by simp
      with n s False have "wrap64 (?e - Start h) = ?e - Start h" "wrap64 (?e - Start h + 1) = ?e - Start h + 1"
        by (simp_all add: in_int64_def int64_min_def int64_max_def)
      moreover have "?e = min (n - 1) (End h)" by (simp add: min_def)
      ultimately show ?thesis using F False n w range \<open>Start h \<le> End h\<close> s
        by (cases "n \<le> End h") (simp_all add: GetOffsetLength_def GetLength_def plain_offset_length_def)
    qed
  qed
qed

lemma Itoa_chars:
  assumes "0 \<le> i"
  shows "Itoa i \<noteq> [] \<and> list_all is_digit (Itoa i)"
  using assms nat_digits_props [of "nat i"] by (simp add: Itoa_def)

lemma Itoa_no_minus: "0 \<le> i \<Longrightarrow> CHR ''-'' \<notin> set (Itoa i)"
  using Itoa_chars [of i] is_digit_not_sign by (auto simp: list_all_iff)

lemma parse_position_Itoa:
  assumes "0 \<le> i" and "i \<le> int64_max"
  shows "parse_position bad neg (Itoa i) = Inr i"
proof -
  from assms have "Atoi (Itoa i) = Some i" by (intro Atoi_Itoa) (simp add: in_int64_def int64_min_def)
  moreover obtain c t where "Itoa i = c # t" using Itoa_chars [OF assms(1)] by (cases "Itoa i") auto
  moreover from this Itoa_chars [OF assms(1)] have "c \<noteq> CHR ''+''" by (auto dest: is_digit_not_sign)
  ultimately show ?thesis using assms by (simp add: parse_position_def Atoi_def)
qed

lemma parse_position_Nil: "parse_position bad neg [] = Inr (-1)"
  by (simp add: parse_position_def)

lemma parse_range_parts:
  assumes "CHR ''-'' \<notin> set a"
  shows "parseRequestRangeSpec (byteRangePrefix @ a @ ''-'' @ b) =
    (case parse_position BadFirstPosition NegativeFirst a of
       Inl err \<Rightarrow> Inl err
     | Inr offsetBegin \<Rightarrow>
         (case parse_position BadLastPosition NegativeLast b of
            Inl err \<Rightarrow> Inl err
          | Inr offsetEnd \<Rightarrow> range_of_positions offsetBegin offsetEnd))"
  using Index_char_append [OF assms, of b]
  by (simp add: parseRequestRangeSpec_def Let_def split: sum.split)

lemma parse_range_both:
  assumes "0 \<le> a" and "a \<le> b" and "b \<le> int64_max"
  shows "parseRequestRangeSpec (byteRangePrefix @ Itoa a @ ''-'' @ Itoa b) =
    Inr \<lparr>IsSuffixLength = False, Start = a, End = b\<rparr>"
  unfolding parse_range_parts [OF Itoa_no_minus [OF assms(1)]]
  using assms by (simp add: parse_position_Itoa range_of_positions_def)

section \<open>Properties\<close>

text \<open>C39: For every header that parses and every size of a resource, the offset and the length that
  \<open>GetOffsetLength\<close> computes in \<open>int64\<close> lie inside the resource and cover exactly the bytes the
  header asks for; the only error is a first position behind the end, and no sum wraps.\<close>

theorem parsed_range_bounds:
  assumes "parseRequestRangeSpec s = Inr h" and "0 \<le> n" and "n \<le> int64_max"
  shows "case GetOffsetLength (Some h) n of
      Inl err \<Rightarrow> err = InvalidRange \<and> \<not> IsSuffixLength h \<and> n \<le> Start h
    | Inr (off, len) \<Rightarrow> 0 \<le> off \<and> 0 \<le> len \<and> off + len \<le> n \<and> {off ..< off + len} = asked h n"
proof -
  note ok = parse_range_ok [OF assms(1)]
  have "GetOffsetLength (Some h) n = plain_offset_length h n"
    by (rule GetOffsetLength_plain [OF ok assms(2,3)])
  with ok assms(2) show ?thesis
    by (auto simp: plain_offset_length_def asked_def range_ok_def split: if_splits)
qed

theorem parsed_range_bounds_witness:
  "GetOffsetLength (Some \<lparr>IsSuffixLength = False, Start = 2, End = 5\<rparr>) 4 = Inr (2, 2) \<and>
   {2 ..< 2 + 2} = asked \<lparr>IsSuffixLength = False, Start = 2, End = 5\<rparr> 4"
proof -
  have p: "parseRequestRangeSpec (byteRangePrefix @ Itoa 2 @ ''-'' @ Itoa 5) =
      Inr \<lparr>IsSuffixLength = False, Start = 2, End = 5\<rparr>"
    by (rule parse_range_both) (simp_all add: int64_max_def)
  have g: "GetOffsetLength (Some \<lparr>IsSuffixLength = False, Start = 2, End = 5\<rparr>) 4 = Inr (2, 2)"
    by (simp add: GetOffsetLength_def GetLength_def wrap64_def)
  have "(0 :: int) \<le> 4" "4 \<le> int64_max" by (simp_all add: int64_max_def)
  from parsed_range_bounds [OF p this] g show ?thesis by (simp only: sum.case prod.case)
qed

text \<open>The three forms of a header, printed from positions in the range of \<open>int64\<close>, parse to
  their positions; a last position before the first and a suffix of no bytes are refused.\<close>

theorem parse_range_forms:
  assumes "0 \<le> a" and "a \<le> int64_max" and "0 \<le> b" and "b \<le> int64_max"
  shows "parseRequestRangeSpec (byteRangePrefix @ Itoa a @ ''-'' @ Itoa b) =
      (if b < a then Inl InvalidRange else Inr \<lparr>IsSuffixLength = False, Start = a, End = b\<rparr>) \<and>
    parseRequestRangeSpec (byteRangePrefix @ Itoa a @ ''-'') = Inr \<lparr>IsSuffixLength = False, Start = a, End = -1\<rparr> \<and>
    parseRequestRangeSpec (byteRangePrefix @ ''-'' @ Itoa b) =
      (if b = 0 then Inl InvalidRange else Inr \<lparr>IsSuffixLength = True, Start = - b, End = -1\<rparr>) \<and>
    parseRequestRangeSpec (byteRangePrefix @ ''-'') = Inl NoRangeValue"
proof -
  note pos = parse_position_Itoa [OF assms(1,2)] parse_position_Itoa [OF assms(3,4)] parse_position_Nil
  note parts = parse_range_parts [OF Itoa_no_minus [OF assms(1)], of "Itoa b"]
    parse_range_parts [OF Itoa_no_minus [OF assms(1)], of "[]"]
    parse_range_parts [of "[]" "Itoa b"] parse_range_parts [of "[]" "[]"]
  have "wrap64 (- b) = - b" using assms by (intro wrap64_id) (simp add: in_int64_def int64_min_def int64_max_def)
  with parts assms show ?thesis by (simp add: pos range_of_positions_def)
qed

theorem parse_range_forms_witness:
  "parseRequestRangeSpec (byteRangePrefix @ ''-'' @ Itoa 7) = Inr \<lparr>IsSuffixLength = True, Start = -7, End = -1\<rparr>"
  using parse_range_forms [of 0 7] by (simp add: int64_max_def)

text \<open>The range printed for the response, read as a request again, asks for the same bytes,
  except for a suffix of an empty resource, for which \<open>0--1\<close> is printed.\<close>

theorem range_String_roundtrip:
  assumes "parseRequestRangeSpec s = Inr h" and "0 \<le> n" and "n \<le> int64_max"
    and "GetOffsetLength (Some h) n = Inr (off, len)"
  shows "if len = 0 then n = 0 \<and> IsSuffixLength h \<and> HTTPRangeSpec_String (Some h) n = Itoa 0 @ ''-'' @ Itoa (-1)
    else parseRequestRangeSpec (byteRangePrefix @ HTTPRangeSpec_String (Some h) n) =
           Inr \<lparr>IsSuffixLength = False, Start = off, End = off + len - 1\<rparr> \<and>
         GetOffsetLength (Some \<lparr>IsSuffixLength = False, Start = off, End = off + len - 1\<rparr>) n = Inr (off, len)"
proof -
  note ok = parse_range_ok [OF assms(1)]
  have plain: "plain_offset_length h n = Inr (off, len)"
    using GetOffsetLength_plain [OF ok assms(2,3)] assms(4) by simp
  with ok assms(2) have b: "0 \<le> off" "0 \<le> len" "off + len \<le> n" and e: "len = 0 \<Longrightarrow> n = 0 \<and> IsSuffixLength h \<and> off = 0"
    by (auto simp: plain_offset_length_def range_ok_def split: if_splits)
  have w: "wrap64 (off + len) = off + len" "wrap64 (off + len - 1) = off + len - 1"
    using b assms(2,3) by (simp_all add: in_int64_def int64_min_def int64_max_def)
  have str: "HTTPRangeSpec_String (Some h) n = Itoa off @ ''-'' @ Itoa (off + len - 1)"
    using assms(4) w by (simp add: HTTPRangeSpec_String_def)
  show ?thesis
  proof (cases "len = 0")
    case True
    with e str show ?thesis by simp
  next
    case False
    let ?h = "\<lparr>IsSuffixLength = False, Start = off, End = off + len - 1\<rparr>"
    have "parseRequestRangeSpec (byteRangePrefix @ Itoa off @ ''-'' @ Itoa (off + len - 1)) = Inr ?h"
      by (rule parse_range_both) (use False b assms(3) in simp_all)
    moreover have "range_ok ?h" using False b assms(3) by (simp add: range_ok_def)
    then have "GetOffsetLength (Some ?h) n = Inr (off, len)"
      using GetOffsetLength_plain [of ?h n] assms(2,3) b False by (simp add: plain_offset_length_def)
    ultimately show ?thesis using False str by simp
  qed
qed

theorem range_String_roundtrip_witness:
  "HTTPRangeSpec_String (Some \<lparr>IsSuffixLength = True, Start = -7, End = -1\<rparr>) 0 = Itoa 0 @ ''-'' @ Itoa (-1)"
  using range_String_roundtrip [of "byteRangePrefix @ ''-'' @ Itoa 7" "\<lparr>IsSuffixLength = True, Start = -7, End = -1\<rparr>" 0 0 0]
    parse_range_parts [of "[]" "Itoa 7"]
  by (simp add: parse_position_Itoa parse_position_Nil int64_max_def range_of_positions_def GetOffsetLength_def GetLength_def wrap64_def)

end
