(* ===== verification/Credentials.thy ===== *)
theory Credentials
  imports GoNet GoTime
begin

text \<open>
  \<open>pkg/auth/credentials.go\<close>: access keys and secret keys of users, temporary users and service
  accounts.  The clock, the random bytes and the signing of a token are arguments.
\<close>

section \<open>Credentials\<close>

definition accessKeyMinLen :: nat where "accessKeyMinLen = 3"
definition accessKeyMaxLen :: nat where "accessKeyMaxLen = 20"
definition secretKeyMinLen :: nat where "secretKeyMinLen = 8"
definition secretKeyMaxLen :: nat where "secretKeyMaxLen = 40"

definition alphaNumericTable :: string where
  "alphaNumericTable = ''0123456789ABCDEFGHIJKLMNOPQRSTUVWXYZ''"

definition alphaNumericTableLen :: nat where
  "alphaNumericTableLen = length alphaNumericTable"

lemmas key_lens = accessKeyMinLen_def accessKeyMaxLen_def secretKeyMinLen_def secretKeyMaxLen_def

datatype cred_err =
    ErrInvalidAccessKeyLength
  | ErrInvalidSecretKeyLength
  | ErrInvalidDuration
  | ErrRandom
  | ErrSigning

definition IsAccessKeyValid :: "string \<Rightarrow> bool" where
  "IsAccessKeyValid accessKey \<longleftrightarrow> accessKeyMinLen \<le> length accessKey"

definition IsSecretKeyValid :: "string \<Rightarrow> bool" where
  "IsSecretKeyValid secretKey \<longleftrightarrow> secretKeyMinLen \<le> length secretKey"

record Credentials =
  AccessKey :: string
  SecretKey :: string
  Expiration :: gotime
  SessionToken :: string
  Status :: string
  ParentUser :: string

definition zero_cred :: Credentials where
  "zero_cred = \<lparr>AccessKey = [], SecretKey = [], Expiration = zero_time, SessionToken = [], Status = [], ParentUser = []\<rparr>"

definition unix_time :: "int \<Rightarrow> gotime" where
  "unix_time secs = \<lparr>instant = secs * 10 ^ 9, loc = UTC\<rparr>"

definition timeSentinel :: gotime where
  "timeSentinel = unix_time 0"

definition IsExpired :: "gotime \<Rightarrow> Credentials \<Rightarrow> bool" where
  "IsExpired now cred =
     (if time_IsZero (Expiration cred) \<or> time_Equal (Expiration cred) timeSentinel then False
      else time_Before (Expiration cred) now)"

definition IsTemp :: "Credentials \<Rightarrow> bool" where
  "IsTemp cred \<longleftrightarrow>
     SessionToken cred \<noteq> [] \<and> ParentUser cred = [] \<and>
     \<not> time_IsZero (Expiration cred) \<and> \<not> time_Equal (Expiration cred) timeSentinel"

definition cred_IsServiceAccount :: "Credentials \<Rightarrow> bool" where
  "cred_IsServiceAccount cred \<longleftrightarrow>
     ParentUser cred \<noteq> [] \<and> (time_IsZero (Expiration cred) \<or> time_Equal (Expiration cred) timeSentinel)"

definition cred_IsValid :: "gotime \<Rightarrow> Credentials \<Rightarrow> bool" where
  "cred_IsValid now cred =
     (if Status cred = ''off'' then False
      else IsAccessKeyValid (AccessKey cred) \<and> IsSecretKeyValid (SecretKey cred) \<and> \<not> IsExpired now cred)"

definition cred_Equal :: "gotime \<Rightarrow> Credentials \<Rightarrow> Credentials \<Rightarrow> bool" where
  "cred_Equal now cred ccred =
     (if \<not> cred_IsValid now ccred then False
      else AccessKey cred = AccessKey ccred \<and> SecretKey cred = SecretKey ccred \<and>
           SessionToken cred = SessionToken ccred)"

section \<open>New credentials\<close>

text \<open>The dynamic types that \<open>ExpToInt64\<close> looks at.  Conversions wrap as in Go; the truncation of a
  floating point number is an argument.\<close>

datatype 'f exp_value =
    ExpString string
  | ExpFloat 'f
  | ExpInt int
  | ExpUint nat
  | ExpNumber string
  | ExpDuration int
  | ExpNil
  | ExpOther

definition int64_of :: "int \<Rightarrow> int" where
  "int64_of x = (x + 2 ^ 63) mod 2 ^ 64 - 2 ^ 63"

fun exp_int64 :: "gotime \<Rightarrow> ('f \<Rightarrow> int) \<Rightarrow> 'f exp_value \<Rightarrow> int option" where
  "exp_int64 now trunc (ExpString s) = ParseInt s"
| "exp_int64 now trunc (ExpFloat f) = Some (trunc f)"
| "exp_int64 now trunc (ExpInt i) = Some i"
| "exp_int64 now trunc (ExpUint n) = Some (int64_of (int n))"
| "exp_int64 now trunc (ExpNumber s) = ParseInt s"
| "exp_int64 now trunc (ExpDuration d) = Some ((instant now + d) div 10 ^ 9)"
| "exp_int64 now trunc ExpNil = Some 0"
| "exp_int64 now trunc ExpOther = None"

text \<open>\<open>Inl\<close> is the error of the conversion; a number that \<open>ParseInt\<close> refuses for its range keeps the
  error as well, so the value beside an error is never used.\<close>

definition ExpToInt64 :: "gotime \<Rightarrow> ('f \<Rightarrow> int) \<Rightarrow> 'f exp_value \<Rightarrow> cred_err + int" where
  "ExpToInt64 now trunc expI =
     (case exp_int64 now trunc expI of
        None \<Rightarrow> Inl ErrInvalidDuration
      | Some expAt \<Rightarrow> if expAt < 0 then Inl ErrInvalidDuration else Inr expAt)"

definition table_char :: "nat \<Rightarrow> char" where
  "table_char b = alphaNumericTable ! (b mod alphaNumericTableLen)"

text \<open>\<open>strings.Replace(s, "/", "+", -1)\<close>.\<close>

definition slash_to_plus :: "string \<Rightarrow> string" where
  "slash_to_plus = map (\<lambda>c. if c = CHR ''/'' then CHR ''+'' else c)"

text \<open>The random reads are the two lists of bytes, or \<open>None\<close> for a failed read; \<open>sign\<close> is the signing
  of the claims with the access key added.\<close>

definition GetNewCredentialsWithMetadata ::
    "gotime \<Rightarrow> ('f \<Rightarrow> int) \<Rightarrow> (string \<Rightarrow> string \<Rightarrow> string option) \<Rightarrow> nat list option \<Rightarrow> nat list option \<Rightarrow>
     'f exp_value \<Rightarrow> string \<Rightarrow> cred_err + Credentials" where
  "GetNewCredentialsWithMetadata now trunc sign rand1 rand2 exp tokenSecret =
     (case rand1 of
        None \<Rightarrow> Inl ErrRandom
      | Some keyBytes1 \<Rightarrow>
          (case rand2 of
             None \<Rightarrow> Inl ErrRandom
           | Some keyBytes2 \<Rightarrow>
               let cred = zero_cred\<lparr>AccessKey := map table_char keyBytes1,
                            SecretKey := slash_to_plus (take secretKeyMaxLen (b64_enc keyBytes2)),
                            Status := ''on''\<rparr> in
               if tokenSecret = [] then Inr (cred\<lparr>Expiration := timeSentinel\<rparr>)
               else
                 (case ExpToInt64 now trunc exp of
                    Inl err \<Rightarrow> Inl err
                  | Inr expiry \<Rightarrow>
                      (case sign (AccessKey cred) tokenSecret of
                         None \<Rightarrow> Inl ErrSigning
                       | Some token \<Rightarrow>
                           Inr (cred\<lparr>Expiration := unix_time expiry, SessionToken := token\<rparr>)))))"

definition GetNewCredentials where
  "GetNewCredentials now trunc sign rand1 rand2 =
     GetNewCredentialsWithMetadata now trunc sign rand1 rand2 ExpNil []"

definition CreateCredentials :: "string \<Rightarrow> string \<Rightarrow> cred_err + Credentials" where
  "CreateCredentials accessKey secretKey =
     (if \<not> IsAccessKeyValid accessKey then Inl ErrInvalidAccessKeyLength
      else if \<not> IsSecretKeyValid secretKey then Inl ErrInvalidSecretKeyLength
      else Inr (zero_cred\<lparr>AccessKey := accessKey, SecretKey := secretKey, Expiration := timeSentinel, Status := ''on''\<rparr>))"

section \<open>Facts\<close>

lemmas cred_defs = IsExpired_def IsTemp_def cred_IsServiceAccount_def cred_IsValid_def IsAccessKeyValid_def
  IsSecretKeyValid_def

lemma timeSentinel_simps [simp]: "time_Equal timeSentinel timeSentinel" "\<not> time_IsZero timeSentinel"
  by (simp_all add: time_Equal_def time_IsZero_def timeSentinel_def unix_time_def zero_time_def)

lemma zero_time_simps [simp]: "time_IsZero zero_time"
  by (simp add: time_IsZero_def)

lemma b64_enc_length: "length (b64_enc bs) = 4 * ((length bs + 2) div 3)"
proof (induction bs rule: b64_enc.induct)
  case (4 a b c r)
  have "(length (a # b # c # r) + 2) div 3 = Suc ((length r + 2) div 3)" by simp
  with 4 show ?case by simp
qed simp_all

text \<open>No user is temporary and a service account at once.\<close>

lemma temp_not_service: "IsTemp cred \<Longrightarrow> \<not> cred_IsServiceAccount cred"
  by (simp add: cred_defs)

section \<open>Properties\<close>

text \<open>New credentials have an access key of 20 characters of the table and a secret key of 40
  characters without a slash, and they are valid unless they expire before now; without an expiry
  they never expire, and naming a parent makes them a service account, not a temporary user.\<close>

theorem new_credentials:
  assumes "GetNewCredentialsWithMetadata now trunc sign (Some bs1) (Some bs2) exp secret = Inr cred"
    and "length bs1 = accessKeyMaxLen" and "length bs2 = secretKeyMaxLen"
  shows "length (AccessKey cred) = accessKeyMaxLen \<and> set (AccessKey cred) \<subseteq> set alphaNumericTable \<and>
    length (SecretKey cred) = secretKeyMaxLen \<and> CHR ''/'' \<notin> set (SecretKey cred) \<and>
    cred_IsValid now cred = (\<not> IsExpired now cred) \<and>
    (exp = ExpNil \<or> secret = [] \<longrightarrow> \<not> IsExpired now cred \<and> \<not> IsTemp cred \<and>
      (p \<noteq> [] \<longrightarrow> cred_IsServiceAccount (cred\<lparr>ParentUser := p\<rparr>)))"
proof -
  have "table_char b \<in> set alphaNumericTable" for b
    unfolding table_char_def by (rule nth_mem) (simp add: alphaNumericTableLen_def alphaNumericTable_def)
  then have tab: "set (map table_char bs1) \<subseteq> set alphaNumericTable" by auto
  have sec: "length (slash_to_plus (take secretKeyMaxLen (b64_enc bs2))) = secretKeyMaxLen"
    using assms(3) by (simp add: slash_to_plus_def b64_enc_length key_lens)
  have no: "CHR ''/'' \<notin> set (slash_to_plus s)" for s by (auto simp: slash_to_plus_def)
  have "\<exists>e t. cred = \<lparr>AccessKey = map table_char bs1,
      SecretKey = slash_to_plus (take secretKeyMaxLen (b64_enc bs2)), Expiration = e, SessionToken = t,
      Status = ''on'', ParentUser = []\<rparr> \<and> (exp = ExpNil \<or> secret = [] \<longrightarrow> e = timeSentinel)"
    using assms(1)
    by (auto simp: GetNewCredentialsWithMetadata_def Let_def zero_cred_def ExpToInt64_def timeSentinel_def
        split: if_splits sum.splits option.splits)
  then obtain e t where cred: "cred = \<lparr>AccessKey = map table_char bs1,
      SecretKey = slash_to_plus (take secretKeyMaxLen (b64_enc bs2)), Expiration = e, SessionToken = t,
      Status = ''on'', ParentUser = []\<rparr>" and e: "exp = ExpNil \<or> secret = [] \<Longrightarrow> e = timeSentinel" by blast
  show ?thesis
    using tab sec no [of "take secretKeyMaxLen (b64_enc bs2)"] assms(2) e
    by (auto simp: cred cred_defs key_lens zero_cred_def)
qed

theorem new_credentials_witness:
  "\<exists>cred. GetNewCredentialsWithMetadata zero_time id (\<lambda>_ t. Some t) (Some (replicate 20 0)) (Some (replicate 40 0)) ExpNil ''s'' = Inr cred \<and>
     cred_IsServiceAccount (cred\<lparr>ParentUser := ''bob''\<rparr>)"
proof -
  have "\<exists>cred. GetNewCredentialsWithMetadata zero_time id (\<lambda>_ t. Some t) (Some (replicate 20 0)) (Some (replicate 40 0)) ExpNil ''s'' = Inr cred"
    by (simp add: GetNewCredentialsWithMetadata_def Let_def ExpToInt64_def)
  then obtain cred where c: "GetNewCredentialsWithMetadata zero_time id (\<lambda>_ t. Some t) (Some (replicate 20 0)) (Some (replicate 40 0)) ExpNil ''s'' = Inr cred" ..
  with new_credentials [OF c, of "''bob''"] show ?thesis by (simp add: key_lens)
qed

end
