(* ===== verification/IAMStore.thy ===== *)
theory IAMStore
  imports IamPolicy Credentials GoPath
begin

text \<open>
  The records of \<open>cmd/ipos/cmd/iam.go\<close>, the paths they are kept under, and
  \<open>cmd/ipos/cmd/iam-object-store.go\<close>.  The object layer is a table from paths to data whose calls
  may fail; which of them fail, the encoding of the records (JSON, encrypted when the server has
  encrypted its configuration), the clock and the signing of tokens are the environment.
\<close>

section \<open>Errors and records\<close>

datatype iam_err =
    errServerNotInitialized
  | errInvalidArgument
  | errNoSuchUser
  | errNoSuchGroup
  | errNoSuchPolicy
  | errNoSuchServiceAccount
  | errIAMActionNotAllowed
  | errGroupNotEmpty
  | errConfigNotFound
  | errEncoding
  | errPolicyInvalid policy_err
  | errSessionPolicyTooLong
  | errCredentials cred_err
  | errObjectLayer string

datatype IAMUserType = regularUser | stsUser | srvAccUser

record UserIdentity =
  ui_Version :: int
  ui_Credentials :: Credentials

definition newUserIdentity :: "Credentials \<Rightarrow> UserIdentity" where
  "newUserIdentity creds = \<lparr>ui_Version = 1, ui_Credentials = creds\<rparr>"

definition statusEnabled :: string where "statusEnabled = ''enabled''"
definition statusDisabled :: string where "statusDisabled = ''disabled''"

record GroupInfo =
  gi_Version :: int
  gi_Status :: string
  gi_Members :: "string list"

definition newGroupInfo :: "string list \<Rightarrow> GroupInfo" where
  "newGroupInfo members = \<lparr>gi_Version = 1, gi_Status = statusEnabled, gi_Members = members\<rparr>"

record MappedPolicy =
  mp_Version :: int
  mp_Policy :: string

definition newMappedPolicy :: "string \<Rightarrow> MappedPolicy" where
  "newMappedPolicy policy = \<lparr>mp_Version = 1, mp_Policy = policy\<rparr>"

section \<open>Paths\<close>

definition iamConfigPrefix :: string where "iamConfigPrefix = ''config/iam''"
definition iamConfigUsersPrefix :: string where "iamConfigUsersPrefix = iamConfigPrefix @ ''/users/''"
definition iamConfigServiceAccountsPrefix :: string where
  "iamConfigServiceAccountsPrefix = iamConfigPrefix @ ''/service-accounts/''"
definition iamConfigGroupsPrefix :: string where "iamConfigGroupsPrefix = iamConfigPrefix @ ''/groups/''"
definition iamConfigPoliciesPrefix :: string where "iamConfigPoliciesPrefix = iamConfigPrefix @ ''/policies/''"
definition iamConfigSTSPrefix :: string where "iamConfigSTSPrefix = iamConfigPrefix @ ''/sts/''"
definition iamConfigPolicyDBPrefix :: string where "iamConfigPolicyDBPrefix = iamConfigPrefix @ ''/policydb/''"
definition iamConfigPolicyDBUsersPrefix :: string where
  "iamConfigPolicyDBUsersPrefix = iamConfigPolicyDBPrefix @ ''users/''"
definition iamConfigPolicyDBSTSUsersPrefix :: string where
  "iamConfigPolicyDBSTSUsersPrefix = iamConfigPolicyDBPrefix @ ''sts-users/''"
definition iamConfigPolicyDBServiceAccountsPrefix :: string where
  "iamConfigPolicyDBServiceAccountsPrefix = iamConfigPolicyDBPrefix @ ''service-accounts/''"
definition iamConfigPolicyDBGroupsPrefix :: string where
  "iamConfigPolicyDBGroupsPrefix = iamConfigPolicyDBPrefix @ ''groups/''"
definition iamIdentityFile :: string where "iamIdentityFile = ''identity.json''"
definition iamPolicyFile :: string where "iamPolicyFile = ''policy.json''"
definition iamGroupMembersFile :: string where "iamGroupMembersFile = ''members.json''"

lemmas iam_prefix_defs = iamConfigPrefix_def iamConfigUsersPrefix_def iamConfigServiceAccountsPrefix_def
  iamConfigGroupsPrefix_def iamConfigPoliciesPrefix_def iamConfigSTSPrefix_def iamConfigPolicyDBPrefix_def
  iamConfigPolicyDBUsersPrefix_def iamConfigPolicyDBSTSUsersPrefix_def
  iamConfigPolicyDBServiceAccountsPrefix_def iamConfigPolicyDBGroupsPrefix_def iamIdentityFile_def
  iamPolicyFile_def iamGroupMembersFile_def

definition getUserIdentityPath :: "string \<Rightarrow> IAMUserType \<Rightarrow> string" where
  "getUserIdentityPath user userType =
     (let basePath = (case userType of
          srvAccUser \<Rightarrow> iamConfigServiceAccountsPrefix
        | stsUser \<Rightarrow> iamConfigSTSPrefix
        | regularUser \<Rightarrow> iamConfigUsersPrefix)
      in pathJoin [basePath, user, iamIdentityFile])"

definition getGroupInfoPath :: "string \<Rightarrow> string" where
  "getGroupInfoPath grp = pathJoin [iamConfigGroupsPrefix, grp, iamGroupMembersFile]"

definition getPolicyDocPath :: "string \<Rightarrow> string" where
  "getPolicyDocPath name = pathJoin [iamConfigPoliciesPrefix, name, iamPolicyFile]"

definition getMappedPolicyPath :: "string \<Rightarrow> IAMUserType \<Rightarrow> bool \<Rightarrow> string" where
  "getMappedPolicyPath name userType isGroup =
     (if isGroup then pathJoin [iamConfigPolicyDBGroupsPrefix, name @ ''.json'']
      else case userType of
          srvAccUser \<Rightarrow> pathJoin [iamConfigPolicyDBServiceAccountsPrefix, name @ ''.json'']
        | stsUser \<Rightarrow> pathJoin [iamConfigPolicyDBSTSUsersPrefix, name @ ''.json'']
        | regularUser \<Rightarrow> pathJoin [iamConfigPolicyDBUsersPrefix, name @ ''.json''])"

section \<open>The object store\<close>

text \<open>
  The environment of a call: the failures of the object layer by path, the codec of every kind of
  record, the clock, the credentials of the server before and after a change, and the new token
  of a service account when the old one verifies.
\<close>

record iam_env =
  env_get :: "string \<Rightarrow> iam_err option"
  env_put :: "string \<Rightarrow> iam_err option"
  env_del :: "string \<Rightarrow> iam_err option"
  enc_policy :: "iam_Policy \<Rightarrow> string option"
  dec_policy :: "string \<Rightarrow> iam_Policy option"
  enc_user :: "UserIdentity \<Rightarrow> string option"
  dec_user :: "string \<Rightarrow> UserIdentity option"
  enc_group :: "GroupInfo \<Rightarrow> string option"
  dec_group :: "string \<Rightarrow> GroupInfo option"
  enc_mapped :: "MappedPolicy \<Rightarrow> string option"
  dec_mapped :: "string \<Rightarrow> MappedPolicy option"
  env_now :: gotime
  globalActiveCred :: Credentials
  globalOldCred :: Credentials
  env_resign :: "string \<Rightarrow> string option"

type_synonym disk = "string \<Rightarrow> string option"

definition readConfig :: "iam_env \<Rightarrow> disk \<Rightarrow> string \<Rightarrow> iam_err + string" where
  "readConfig env d configFile =
     (case env_get env configFile of
        Some err \<Rightarrow> Inl err
      | None \<Rightarrow>
          (case d configFile of
             None \<Rightarrow> Inl errConfigNotFound
           | Some data \<Rightarrow> if length data = 0 then Inl errConfigNotFound else Inr data))"

definition saveConfig :: "iam_env \<Rightarrow> disk \<Rightarrow> string \<Rightarrow> string \<Rightarrow> disk \<times> iam_err option" where
  "saveConfig env d configFile data =
     (case env_put env configFile of Some err \<Rightarrow> (d, Some err) | None \<Rightarrow> (d(configFile \<mapsto> data), None))"

definition deleteConfig :: "iam_env \<Rightarrow> disk \<Rightarrow> string \<Rightarrow> disk \<times> iam_err option" where
  "deleteConfig env d configFile =
     (case env_del env configFile of
        Some err \<Rightarrow> (d, Some err)
      | None \<Rightarrow> if d configFile = None then (d, Some errConfigNotFound) else (d(configFile := None), None))"

definition saveIAMConfig :: "iam_env \<Rightarrow> disk \<Rightarrow> string option \<Rightarrow> string \<Rightarrow> disk \<times> iam_err option" where
  "saveIAMConfig env d item path =
     (case item of None \<Rightarrow> (d, Some errEncoding) | Some data \<Rightarrow> saveConfig env d path data)"

definition loadIAMConfig :: "iam_env \<Rightarrow> disk \<Rightarrow> (string \<Rightarrow> 'a option) \<Rightarrow> string \<Rightarrow> iam_err + 'a" where
  "loadIAMConfig env d dec path =
     (case readConfig env d path of
        Inl err \<Rightarrow> Inl err
      | Inr data \<Rightarrow> (case dec data of None \<Rightarrow> Inl errEncoding | Some x \<Rightarrow> Inr x))"

text \<open>A missing file is reported as the error of its kind.\<close>

definition not_found_as :: "iam_err \<Rightarrow> iam_err \<Rightarrow> iam_err" where
  "not_found_as e err = (if err = errConfigNotFound then e else err)"

definition loadPolicyDoc where
  "loadPolicyDoc env d policy m =
     (case loadIAMConfig env d (dec_policy env) (getPolicyDocPath policy) of
        Inl err \<Rightarrow> (m, Some (not_found_as errNoSuchPolicy err))
      | Inr p \<Rightarrow> (m(policy \<mapsto> p), None))"

definition loadGroup where
  "loadGroup env d grp m =
     (case loadIAMConfig env d (dec_group env) (getGroupInfoPath grp) of
        Inl err \<Rightarrow> (m, Some (not_found_as errNoSuchGroup err))
      | Inr g \<Rightarrow> (m(grp \<mapsto> g), None))"

definition loadMappedPolicy where
  "loadMappedPolicy env d name userType isGroup m =
     (case loadIAMConfig env d (dec_mapped env) (getMappedPolicyPath name userType isGroup) of
        Inl err \<Rightarrow> (m, Some (not_found_as errNoSuchPolicy err))
      | Inr p \<Rightarrow> (m(name \<mapsto> p), None))"

text \<open>
  \<open>loadUser\<close>: an expired user is deleted; after a change of the server's credentials the token of
  a service account is signed anew and saved.
\<close>

definition resigned :: "iam_env \<Rightarrow> Credentials \<Rightarrow> Credentials option" where
  "resigned env cred =
     (if cred_IsValid (env_now env) (globalOldCred env) \<and> cred_IsServiceAccount cred \<and>
         \<not> cred_Equal (env_now env) (globalOldCred env) (globalActiveCred env)
      then map_option (\<lambda>token. cred\<lparr>SessionToken := token\<rparr>) (env_resign env (SessionToken cred))
      else None)"

definition loadUser where
  "loadUser env d user userType m =
     (case loadIAMConfig env d (dec_user env) (getUserIdentityPath user userType) of
        Inl err \<Rightarrow> (d, m, Some (not_found_as errNoSuchUser err))
      | Inr u \<Rightarrow>
          if IsExpired (env_now env) (ui_Credentials u) then
            (let d1 = fst (deleteConfig env d (getUserIdentityPath user userType));
                 d2 = fst (deleteConfig env d1 (getMappedPolicyPath user userType False))
             in (d2, m, None))
          else
            (let (d1, cred, err) =
               (case resigned env (ui_Credentials u) of
                  None \<Rightarrow> (d, ui_Credentials u, None)
                | Some cred \<Rightarrow>
                    (case saveIAMConfig env d (enc_user env (u\<lparr>ui_Credentials := cred\<rparr>)) (getUserIdentityPath user userType) of
                       (d1, err) \<Rightarrow> (d1, cred, err)))
             in case err of
                  Some e \<Rightarrow> (d1, m, Some e)
                | None \<Rightarrow> (d1, m(user \<mapsto> (if AccessKey cred = [] then cred\<lparr>AccessKey := user\<rparr> else cred)), None)))"

definition savePolicyDoc where
  "savePolicyDoc env d policyName p = saveIAMConfig env d (enc_policy env p) (getPolicyDocPath policyName)"

definition saveMappedPolicy where
  "saveMappedPolicy env d name userType isGroup mp =
     saveIAMConfig env d (enc_mapped env mp) (getMappedPolicyPath name userType isGroup)"

definition saveUserIdentity where
  "saveUserIdentity env d name userType u =
     saveIAMConfig env d (enc_user env u) (getUserIdentityPath name userType)"

definition saveGroupInfo where
  "saveGroupInfo env d name gi = saveIAMConfig env d (enc_group env gi) (getGroupInfoPath name)"

definition deleteIAMConfig where
  "deleteIAMConfig env d path = deleteConfig env d path"

definition deletePolicyDoc where
  "deletePolicyDoc env d name =
     map_prod id (map_option (not_found_as errNoSuchPolicy)) (deleteIAMConfig env d (getPolicyDocPath name))"

definition deleteMappedPolicy where
  "deleteMappedPolicy env d name userType isGroup =
     map_prod id (map_option (not_found_as errNoSuchPolicy))
       (deleteIAMConfig env d (getMappedPolicyPath name userType isGroup))"

definition deleteUserIdentity where
  "deleteUserIdentity env d name userType =
     map_prod id (map_option (not_found_as errNoSuchUser)) (deleteIAMConfig env d (getUserIdentityPath name userType))"

definition deleteGroupInfo where
  "deleteGroupInfo env d name =
     map_prod id (map_option (not_found_as errNoSuchGroup)) (deleteIAMConfig env d (getGroupInfoPath name))"

end
