(* ===== verification/IAMSys.thy ===== *)
theory IAMSys
  imports IAMStore
begin

text \<open>
  \<open>cmd/ipos/cmd/iam.go\<close>: users, groups, policies and their mappings.  The maps of the struct and
  the store are one state; an operation returns the new state and the error.  A failed call of
  the store leaves the maps as the code leaves them at that point.  The order in which Go visits
  the keys of a map is an argument where it can be seen.
\<close>

section \<open>State\<close>

definition IPOSUsersSysType :: string where "IPOSUsersSysType = ''IPOSUsersSys''"

text \<open>\<open>sys_ready\<close> is false while the object layer or the store is nil.  \<open>NewIAMSys\<close> does not make the
  map of group policies; until \<open>loadAll\<close> has made it, a write to it panics.\<close>

record IAMSys =
  sys_ready :: bool
  usersSysType :: string
  iamPolicyDocsMap :: "string \<Rightarrow> iam_Policy option"
  iamUsersMap :: "string \<Rightarrow> Credentials option"
  iamGroupsMap :: "string \<Rightarrow> GroupInfo option"
  iamUserGroupMemberships :: "string \<Rightarrow> StringSet option"
  iamUserPolicyMap :: "string \<Rightarrow> MappedPolicy option"
  iamGroupPolicyMap :: "string \<Rightarrow> MappedPolicy option"
  groupPolicyMap_made :: bool
  iam_disk :: disk

definition NewIAMSys :: "disk \<Rightarrow> IAMSys" where
  "NewIAMSys d =
     \<lparr>sys_ready = False, usersSysType = IPOSUsersSysType, iamPolicyDocsMap = Map.empty, iamUsersMap = Map.empty,
      iamGroupsMap = Map.empty, iamUserGroupMemberships = Map.empty, iamUserPolicyMap = Map.empty,
      iamGroupPolicyMap = Map.empty, groupPolicyMap_made = False, iam_disk = d\<rparr>"

type_synonym iam_result = "IAMSys \<times> iam_err option"

text \<open>A call of the store that only changes the disk, followed by the rest on success.\<close>

definition on_disk :: "IAMSys \<Rightarrow> disk \<times> iam_err option \<Rightarrow> IAMSys \<times> iam_err option" where
  "on_disk sys r = (sys\<lparr>iam_disk := fst r\<rparr>, snd r)"

definition if_saved :: "IAMSys \<Rightarrow> disk \<times> iam_err option \<Rightarrow> (IAMSys \<Rightarrow> iam_result) \<Rightarrow> iam_result" where
  "if_saved sys r rest =
     (case on_disk sys r of (sys', Some err) \<Rightarrow> (sys', Some err) | (sys', None) \<Rightarrow> rest sys')"

section \<open>Memberships\<close>

definition member_groups :: "IAMSys \<Rightarrow> string \<Rightarrow> StringSet" where
  "member_groups sys u = (case iamUserGroupMemberships sys u of None \<Rightarrow> {||} | Some gs \<Rightarrow> gs)"

definition add_membership :: "string \<Rightarrow> string \<Rightarrow> (string \<Rightarrow> StringSet option) \<Rightarrow> string \<Rightarrow> StringSet option" where
  "add_membership grp member m =
     m(member \<mapsto> (case m member of None \<Rightarrow> CreateStringSet [grp] | Some gset \<Rightarrow> StringSet_Add gset grp))"

definition updateGroupMembershipsMap :: "string \<Rightarrow> GroupInfo \<Rightarrow> IAMSys \<Rightarrow> IAMSys" where
  "updateGroupMembershipsMap grp gi sys =
     sys\<lparr>iamUserGroupMemberships := fold (add_membership grp) (gi_Members gi) (iamUserGroupMemberships sys)\<rparr>"

definition buildUserGroupMemberships :: "string list \<Rightarrow> IAMSys \<Rightarrow> IAMSys" where
  "buildUserGroupMemberships groups sys =
     fold (\<lambda>grp s. case iamGroupsMap sys grp of None \<Rightarrow> s | Some gi \<Rightarrow> updateGroupMembershipsMap grp gi s) groups sys"

definition removeGroupFromMembershipsMap :: "string \<Rightarrow> IAMSys \<Rightarrow> IAMSys" where
  "removeGroupFromMembershipsMap grp sys =
     sys\<lparr>iamUserGroupMemberships := (\<lambda>member. case iamUserGroupMemberships sys member of
            None \<Rightarrow> None
          | Some groups \<Rightarrow>
              if \<not> StringSet_Contains groups grp then Some groups else Some (StringSet_Remove groups grp))\<rparr>"

section \<open>Loading\<close>

definition LoadGroup :: "iam_env \<Rightarrow> string \<Rightarrow> IAMSys \<Rightarrow> iam_result" where
  "LoadGroup env grp sys =
     (if \<not> sys_ready sys then (sys, Some errServerNotInitialized)
      else
        (case loadGroup env (iam_disk sys) grp (iamGroupsMap sys) of
           (m, Some err) \<Rightarrow>
             if err \<noteq> errConfigNotFound then (sys\<lparr>iamGroupsMap := m\<rparr>, Some err)
             else
               (let s = removeGroupFromMembershipsMap grp (sys\<lparr>iamGroupsMap := m\<rparr>) in
                (s\<lparr>iamGroupsMap := (iamGroupsMap s)(grp := None), iamGroupPolicyMap := (iamGroupPolicyMap s)(grp := None)\<rparr>,
                 None))
         | (m, None) \<Rightarrow>
             (let s = sys\<lparr>iamGroupsMap := m\<rparr> in
              case m grp of
                None \<Rightarrow> (removeGroupFromMembershipsMap grp s, None)
              | Some gi \<Rightarrow> (updateGroupMembershipsMap grp gi (removeGroupFromMembershipsMap grp s), None))))"

definition LoadPolicy :: "iam_env \<Rightarrow> string \<Rightarrow> IAMSys \<Rightarrow> iam_result" where
  "LoadPolicy env policyName sys =
     (if \<not> sys_ready sys then (sys, Some errServerNotInitialized)
      else (case loadPolicyDoc env (iam_disk sys) policyName (iamPolicyDocsMap sys) of
              (m, err) \<Rightarrow> (sys\<lparr>iamPolicyDocsMap := m\<rparr>, err)))"

definition unless_not_found :: "iam_err option \<Rightarrow> iam_err option" where
  "unless_not_found err = (if err = Some errConfigNotFound then None else err)"

definition LoadPolicyMapping :: "iam_env \<Rightarrow> string \<Rightarrow> bool \<Rightarrow> IAMSys \<Rightarrow> iam_result" where
  "LoadPolicyMapping env userOrGroup isGroup sys =
     (if \<not> sys_ready sys then (sys, Some errServerNotInitialized)
      else if isGroup then
        (case loadMappedPolicy env (iam_disk sys) userOrGroup regularUser isGroup (iamGroupPolicyMap sys) of
           (m, err) \<Rightarrow> (sys\<lparr>iamGroupPolicyMap := m\<rparr>, unless_not_found err))
      else
        (case loadMappedPolicy env (iam_disk sys) userOrGroup regularUser isGroup (iamUserPolicyMap sys) of
           (m, err) \<Rightarrow> (sys\<lparr>iamUserPolicyMap := m\<rparr>, unless_not_found err)))"

definition LoadUser :: "iam_env \<Rightarrow> string \<Rightarrow> IAMUserType \<Rightarrow> IAMSys \<Rightarrow> iam_result" where
  "LoadUser env accessKey userType sys =
     (if \<not> sys_ready sys then (sys, Some errServerNotInitialized)
      else
        (case loadUser env (iam_disk sys) accessKey userType (iamUsersMap sys) of
           (d, m, Some err) \<Rightarrow> (sys\<lparr>iam_disk := d, iamUsersMap := m\<rparr>, Some err)
         | (d, m, None) \<Rightarrow>
             (case loadMappedPolicy env d accessKey userType False (iamUserPolicyMap sys) of
                (pm, err) \<Rightarrow>
                  (sys\<lparr>iam_disk := d, iamUsersMap := m, iamUserPolicyMap := pm\<rparr>, unless_not_found err))))"

definition LoadServiceAccount :: "iam_env \<Rightarrow> string \<Rightarrow> IAMSys \<Rightarrow> iam_result" where
  "LoadServiceAccount env accessKey sys =
     (if \<not> sys_ready sys then (sys, Some errServerNotInitialized)
      else
        (case loadUser env (iam_disk sys) accessKey srvAccUser (iamUsersMap sys) of
           (d, m, err) \<Rightarrow> (sys\<lparr>iam_disk := d, iamUsersMap := m\<rparr>, err)))"

definition setDefaultCannedPolicies :: "(string \<Rightarrow> iam_Policy option) \<Rightarrow> string \<Rightarrow> iam_Policy option" where
  "setDefaultCannedPolicies policies =
     (let add = (\<lambda>n p m. if m n = None then m(n \<mapsto> p) else m) in
      add ''diagnostics'' AdminDiagnostics (add ''readwrite'' ReadWrite
        (add ''readonly'' ReadOnly (add ''writeonly'' WriteOnly policies))))"

text \<open>The items a listing sends, and the loop that loads each of them; a page of a listing is the
  result of one \<open>ListObjects\<close>.\<close>

record list_page =
  page_Prefixes :: "string list"
  page_Objects :: "string list"
  page_IsTruncated :: bool

fun listIAMConfigItems :: "string \<Rightarrow> bool \<Rightarrow> (iam_err + list_page) list \<Rightarrow> (iam_err + string) list" where
  "listIAMConfigItems pathPrefix dirs [] = []"
| "listIAMConfigItems pathPrefix dirs (Inl err # pages) = [Inl err]"
| "listIAMConfigItems pathPrefix dirs (Inr lo # pages) =
     map (\<lambda>item. Inr (TrimSuffix (TrimPrefix item pathPrefix) ''/'')) (if dirs then page_Prefixes lo else page_Objects lo) @
     (if page_IsTruncated lo then listIAMConfigItems pathPrefix dirs pages else [])"

fun load_items :: "(string \<Rightarrow> 's \<Rightarrow> 's \<times> iam_err option) \<Rightarrow> (iam_err + string) list \<Rightarrow> 's \<Rightarrow> 's \<times> iam_err option" where
  "load_items step [] s = (s, None)"
| "load_items step (Inl err # items) s = (s, Some err)"
| "load_items step (Inr item # items) s =
     (case step item s of (s', Some err) \<Rightarrow> (s', Some err) | (s', None) \<Rightarrow> load_items step items s')"

definition loadPolicyDocs where
  "loadPolicyDocs env d items m = load_items (\<lambda>policyName m. loadPolicyDoc env d policyName m) items m"

definition loadUsers where
  "loadUsers env userType items dm =
     load_items (\<lambda>userName (d, m). case loadUser env d userName userType m of (d', m', err) \<Rightarrow> ((d', m'), err)) items dm"

definition loadGroups where
  "loadGroups env d items m = load_items (\<lambda>grp m. loadGroup env d grp m) items m"

definition loadMappedPolicies where
  "loadMappedPolicies env d userType isGroup items m =
     load_items (\<lambda>policyFile m. loadMappedPolicy env d (TrimSuffix policyFile ''.json'') userType isGroup m) items m"

text \<open>The listings of \<open>loadAll\<close>, one per prefix.\<close>

record iam_listings =
  ls_policies :: "(iam_err + string) list"
  ls_sts :: "(iam_err + string) list"
  ls_users :: "(iam_err + string) list"
  ls_service :: "(iam_err + string) list"
  ls_groups :: "(iam_err + string) list"
  ls_userPolicies :: "(iam_err + string) list"
  ls_stsPolicies :: "(iam_err + string) list"
  ls_groupPolicies :: "(iam_err + string) list"

text \<open>The maps are built aside and put in place at the end; the memberships are added to the ones
  that are there.  \<open>groups\<close> is the order of the keys of the new map of groups.\<close>

definition loadAll :: "iam_env \<Rightarrow> iam_listings \<Rightarrow> string list \<Rightarrow> IAMSys \<Rightarrow> iam_result" where
  "loadAll env ls groups sys =
     (let isIPOSUsersSys = (usersSysType sys = IPOSUsersSysType); d0 = iam_disk sys in
      case loadPolicyDocs env d0 (ls_policies ls) Map.empty of
        (_, Some err) \<Rightarrow> (sys, Some err)
      | (docs, None) \<Rightarrow>
      (case loadUsers env stsUser (ls_sts ls) (d0, Map.empty) of
        ((d1, _), Some err) \<Rightarrow> (sys\<lparr>iam_disk := d1\<rparr>, Some err)
      | ((d1, users1), None) \<Rightarrow>
      (case (if isIPOSUsersSys then loadUsers env regularUser (ls_users ls) (d1, users1) else ((d1, users1), None)) of
        ((d2, _), Some err) \<Rightarrow> (sys\<lparr>iam_disk := d2\<rparr>, Some err)
      | ((d2, users2), None) \<Rightarrow>
      (case (if isIPOSUsersSys then loadUsers env srvAccUser (ls_service ls) (d2, users2) else ((d2, users2), None)) of
        ((d3, _), Some err) \<Rightarrow> (sys\<lparr>iam_disk := d3\<rparr>, Some err)
      | ((d3, users3), None) \<Rightarrow>
      (case (if isIPOSUsersSys then loadGroups env d3 (ls_groups ls) Map.empty else (Map.empty, None)) of
        (_, Some err) \<Rightarrow> (sys\<lparr>iam_disk := d3\<rparr>, Some err)
      | (grps, None) \<Rightarrow>
      (case loadMappedPolicies env d3 regularUser False (ls_userPolicies ls) Map.empty of
        (_, Some err) \<Rightarrow> (sys\<lparr>iam_disk := d3\<rparr>, Some err)
      | (up1, None) \<Rightarrow>
      (case loadMappedPolicies env d3 stsUser False (ls_stsPolicies ls) up1 of
        (_, Some err) \<Rightarrow> (sys\<lparr>iam_disk := d3\<rparr>, Some err)
      | (up2, None) \<Rightarrow>
      (case loadMappedPolicies env d3 regularUser True (ls_groupPolicies ls) Map.empty of
        (_, Some err) \<Rightarrow> (sys\<lparr>iam_disk := d3\<rparr>, Some err)
      | (gp, None) \<Rightarrow>
          (buildUserGroupMemberships groups
             (sys\<lparr>iam_disk := d3, iamUsersMap := users3, iamPolicyDocsMap := setDefaultCannedPolicies docs,
                  iamUserPolicyMap := up2, iamGroupPolicyMap := gp, groupPolicyMap_made := True,
                  iamGroupsMap := grps\<rparr>), None)))))))))"

end
