(* ===== verification/IAMAdmin.thy ===== *)
theory IAMAdmin
  imports IAMSys
begin

text \<open>
  The operations of \<open>cmd/ipos/cmd/iam.go\<close> that the administration calls: policies, users, service
  accounts, groups and the mapping of policies.
\<close>

section \<open>Mapping of policies\<close>

text \<open>\<open>None\<close> is the panic of the write to the map that was never made.\<close>

definition policyDBSet :: "iam_env \<Rightarrow> string \<Rightarrow> string \<Rightarrow> IAMUserType \<Rightarrow> bool \<Rightarrow> IAMSys \<Rightarrow> iam_result go" where
  "policyDBSet env name policy userType isGroup sys =
     (if name = [] then Some (sys, Some errInvalidArgument)
      else if iamPolicyDocsMap sys policy = None \<and> policy \<noteq> [] then Some (sys, Some errNoSuchPolicy)
      else if usersSysType sys = IPOSUsersSysType \<and> \<not> isGroup \<and> iamUsersMap sys name = None then
        Some (sys, Some errNoSuchUser)
      else if usersSysType sys = IPOSUsersSysType \<and> isGroup \<and> iamGroupsMap sys name = None then
        Some (sys, Some errNoSuchGroup)
      else if policy = [] then
        (case on_disk sys (deleteMappedPolicy env (iam_disk sys) name userType isGroup) of
           (s, err) \<Rightarrow>
             if err \<noteq> None \<and> err \<noteq> Some errNoSuchPolicy then Some (s, err)
             else if \<not> isGroup then Some (s\<lparr>iamUserPolicyMap := (iamUserPolicyMap s)(name := None)\<rparr>, None)
             else Some (s\<lparr>iamGroupPolicyMap := (iamGroupPolicyMap s)(name := None)\<rparr>, None))
      else
        (let mp = newMappedPolicy policy in
         case on_disk sys (saveMappedPolicy env (iam_disk sys) name userType isGroup mp) of
           (s, Some err) \<Rightarrow> Some (s, Some err)
         | (s, None) \<Rightarrow>
             if \<not> isGroup then Some (s\<lparr>iamUserPolicyMap := (iamUserPolicyMap s)(name \<mapsto> mp)\<rparr>, None)
             else if groupPolicyMap_made s then
               Some (s\<lparr>iamGroupPolicyMap := (iamGroupPolicyMap s)(name \<mapsto> mp)\<rparr>, None)
             else None))"

definition PolicyDBSet :: "iam_env \<Rightarrow> string \<Rightarrow> string \<Rightarrow> bool \<Rightarrow> IAMSys \<Rightarrow> iam_result go" where
  "PolicyDBSet env name policy isGroup sys =
     (if \<not> sys_ready sys then Some (sys, Some errServerNotInitialized)
      else policyDBSet env name policy regularUser isGroup sys)"

section \<open>Policies\<close>

text \<open>The removal of a mapping ignores the error; it writes to no map, so it does not panic.\<close>

definition unmap_user :: "iam_env \<Rightarrow> string \<Rightarrow> IAMSys \<Rightarrow> IAMSys" where
  "unmap_user env u sys =
     (let userType = (case iamUsersMap sys u of
          Some cr \<Rightarrow> if IsTemp cr then stsUser else regularUser | None \<Rightarrow> regularUser)
      in case policyDBSet env u [] userType False sys of Some (s, _) \<Rightarrow> s | None \<Rightarrow> sys)"

definition unmap_group :: "iam_env \<Rightarrow> string \<Rightarrow> IAMSys \<Rightarrow> IAMSys" where
  "unmap_group env g sys = (case policyDBSet env g [] regularUser True sys of Some (s, _) \<Rightarrow> s | None \<Rightarrow> sys)"

definition mapped_to :: "(string \<Rightarrow> MappedPolicy option) \<Rightarrow> string \<Rightarrow> string \<Rightarrow> bool" where
  "mapped_to m policyName u = (case m u of Some mp \<Rightarrow> mp_Policy mp = policyName | None \<Rightarrow> False)"

text \<open>\<open>users\<close> and \<open>groups\<close> are the keys of the two maps in the order they are visited.\<close>

definition DeletePolicy :: "iam_env \<Rightarrow> string list \<Rightarrow> string list \<Rightarrow> string \<Rightarrow> IAMSys \<Rightarrow> iam_result" where
  "DeletePolicy env users groups policyName sys =
     (if \<not> sys_ready sys then (sys, Some errServerNotInitialized)
      else if policyName = [] then (sys, Some errInvalidArgument)
      else
        (case on_disk sys (deletePolicyDoc env (iam_disk sys) policyName) of
           (s, err0) \<Rightarrow>
             let err = (if err0 = Some errNoSuchPolicy then None else err0);
                 s1 = s\<lparr>iamPolicyDocsMap := (iamPolicyDocsMap s)(policyName := None)\<rparr>;
                 usersToDel = filter (mapped_to (iamUserPolicyMap s1) policyName) users
             in if list_ex (\<lambda>u. iamUsersMap s1 u = None) usersToDel then (s1, Some errNoSuchUser)
                else
                  (let s2 = fold (unmap_user env) usersToDel s1;
                       groupsToDel = filter (mapped_to (iamGroupPolicyMap s2) policyName) groups
                   in (fold (unmap_group env) groupsToDel s2, err))))"

definition InfoPolicy :: "string \<Rightarrow> IAMSys \<Rightarrow> iam_err + iam_Policy" where
  "InfoPolicy policyName sys =
     (if \<not> sys_ready sys then Inl errServerNotInitialized
      else case iamPolicyDocsMap sys policyName of None \<Rightarrow> Inl errNoSuchPolicy | Some v \<Rightarrow> Inr v)"

definition ListPolicies :: "IAMSys \<Rightarrow> iam_err + (string \<Rightarrow> iam_Policy option)" where
  "ListPolicies sys =
     (if \<not> sys_ready sys then Inl errServerNotInitialized else Inr (iamPolicyDocsMap sys))"

definition SetPolicy :: "iam_env \<Rightarrow> string \<Rightarrow> iam_Policy \<Rightarrow> IAMSys \<Rightarrow> iam_result" where
  "SetPolicy env policyName p sys =
     (if \<not> sys_ready sys then (sys, Some errServerNotInitialized)
      else if iam_Policy_IsEmpty p \<or> policyName = [] then (sys, Some errInvalidArgument)
      else if_saved sys (savePolicyDoc env (iam_disk sys) policyName p)
        (\<lambda>s. (s\<lparr>iamPolicyDocsMap := (iamPolicyDocsMap s)(policyName \<mapsto> p)\<rparr>, None)))"

section \<open>Groups\<close>

text \<open>The check of the members at the start of \<open>AddUsersToGroup\<close> and \<open>RemoveUsersFromGroup\<close>.\<close>

definition check_members :: "IAMSys \<Rightarrow> string list \<Rightarrow> iam_err option" where
  "check_members sys members =
     first_err (\<lambda>member. case iamUsersMap sys member of
         None \<Rightarrow> Some errNoSuchUser
       | Some cr \<Rightarrow> if IsTemp cr then Some errIAMActionNotAllowed else None) members"

definition AddUsersToGroup :: "iam_env \<Rightarrow> string \<Rightarrow> string list \<Rightarrow> IAMSys \<Rightarrow> iam_result" where
  "AddUsersToGroup env grp members sys =
     (if \<not> sys_ready sys then (sys, Some errServerNotInitialized)
      else if grp = [] then (sys, Some errInvalidArgument)
      else if usersSysType sys \<noteq> IPOSUsersSysType then (sys, Some errIAMActionNotAllowed)
      else case check_members sys members of
        Some err \<Rightarrow> (sys, Some err)
      | None \<Rightarrow>
          let gi = (case iamGroupsMap sys grp of
              None \<Rightarrow> newGroupInfo members
            | Some gi \<Rightarrow> gi\<lparr>gi_Members := StringSet_ToSlice (CreateStringSet (gi_Members gi @ members))\<rparr>)
          in if_saved sys (saveGroupInfo env (iam_disk sys) grp gi)
               (\<lambda>s. (s\<lparr>iamGroupsMap := (iamGroupsMap s)(grp \<mapsto> gi),
                       iamUserGroupMemberships := fold (add_membership grp) members (iamUserGroupMemberships s)\<rparr>,
                     None)))"

definition remove_membership :: "string \<Rightarrow> string \<Rightarrow> (string \<Rightarrow> StringSet option) \<Rightarrow> string \<Rightarrow> StringSet option" where
  "remove_membership grp member m =
     (case m member of None \<Rightarrow> m | Some gset \<Rightarrow> m(member \<mapsto> StringSet_Remove gset grp))"

definition RemoveUsersFromGroup :: "iam_env \<Rightarrow> string \<Rightarrow> string list \<Rightarrow> IAMSys \<Rightarrow> iam_result" where
  "RemoveUsersFromGroup env grp members sys =
     (if \<not> sys_ready sys then (sys, Some errServerNotInitialized)
      else if grp = [] then (sys, Some errInvalidArgument)
      else if usersSysType sys \<noteq> IPOSUsersSysType then (sys, Some errIAMActionNotAllowed)
      else case check_members sys members of
        Some err \<Rightarrow> (sys, Some err)
      | None \<Rightarrow>
         (case iamGroupsMap sys grp of
            None \<Rightarrow> (sys, Some errNoSuchGroup)
          | Some gi \<Rightarrow>
              if length members = 0 \<and> length (gi_Members gi) \<noteq> 0 then (sys, Some errGroupNotEmpty)
              else if length members = 0 then
                (case on_disk sys (deleteMappedPolicy env (iam_disk sys) grp regularUser True) of
                   (s, err) \<Rightarrow>
                     if err \<noteq> None \<and> err \<noteq> Some errNoSuchPolicy then (s, err)
                     else
                       (case on_disk s (deleteGroupInfo env (iam_disk s) grp) of
                          (s, err) \<Rightarrow>
                            if err \<noteq> None \<and> err \<noteq> Some errNoSuchGroup then (s, err)
                            else (s\<lparr>iamGroupsMap := (iamGroupsMap s)(grp := None),
                                    iamGroupPolicyMap := (iamGroupPolicyMap s)(grp := None)\<rparr>, None)))
              else
                (let gi' = gi\<lparr>gi_Members := StringSet_ToSlice
                        (StringSet_Difference (CreateStringSet (gi_Members gi)) (CreateStringSet members))\<rparr>
                 in if_saved sys (saveGroupInfo env (iam_disk sys) grp gi')
                      (\<lambda>s. (s\<lparr>iamGroupsMap := (iamGroupsMap s)(grp \<mapsto> gi'),
                              iamUserGroupMemberships := fold (remove_membership grp) members (iamUserGroupMemberships s)\<rparr>,
                            None)))))"

definition SetGroupStatus :: "iam_env \<Rightarrow> string \<Rightarrow> bool \<Rightarrow> IAMSys \<Rightarrow> iam_result" where
  "SetGroupStatus env grp enabled sys =
     (if \<not> sys_ready sys then (sys, Some errServerNotInitialized)
      else if usersSysType sys \<noteq> IPOSUsersSysType then (sys, Some errIAMActionNotAllowed)
      else if grp = [] then (sys, Some errInvalidArgument)
      else case iamGroupsMap sys grp of
        None \<Rightarrow> (sys, Some errNoSuchGroup)
      | Some gi \<Rightarrow>
          let gi' = gi\<lparr>gi_Status := (if enabled then statusEnabled else statusDisabled)\<rparr> in
          if_saved sys (saveGroupInfo env (iam_disk sys) grp gi')
            (\<lambda>s. (s\<lparr>iamGroupsMap := (iamGroupsMap s)(grp \<mapsto> gi')\<rparr>, None)))"

text \<open>The keys of the map, in the order of the iteration.\<close>

definition ListGroups :: "string list \<Rightarrow> IAMSys \<Rightarrow> iam_err + string list" where
  "ListGroups groups sys =
     (if \<not> sys_ready sys then Inl errServerNotInitialized
      else if usersSysType sys \<noteq> IPOSUsersSysType then Inl errIAMActionNotAllowed
      else Inr (filter (\<lambda>k. iamGroupsMap sys k \<noteq> None) groups))"

section \<open>Users\<close>

definition AccountEnabled :: string where "AccountEnabled = ''enabled''"
definition AccountDisabled :: string where "AccountDisabled = ''disabled''"
definition EnableOn :: string where "EnableOn = ''on''"
definition EnableOff :: string where "EnableOff = ''off''"

record UserInfo =
  info_SecretKey :: string
  info_PolicyName :: string
  info_Status :: string
  info_MemberOf :: "string list"

definition mapped_policy :: "(string \<Rightarrow> MappedPolicy option) \<Rightarrow> string \<Rightarrow> string" where
  "mapped_policy m name = (case m name of None \<Rightarrow> [] | Some mp \<Rightarrow> mp_Policy mp)"

definition account_status :: "gotime \<Rightarrow> Credentials \<Rightarrow> string" where
  "account_status now cred = (if cred_IsValid now cred then AccountEnabled else AccountDisabled)"

definition GetUserInfo :: "iam_env \<Rightarrow> string \<Rightarrow> IAMSys \<Rightarrow> iam_err + UserInfo" where
  "GetUserInfo env name sys =
     (if \<not> sys_ready sys then Inl errServerNotInitialized
      else if usersSysType sys \<noteq> IPOSUsersSysType then
        (if iamUserPolicyMap sys name = None \<and> iamUserGroupMemberships sys name = None then Inl errNoSuchUser
         else Inr \<lparr>info_SecretKey = [], info_PolicyName = mapped_policy (iamUserPolicyMap sys) name,
                   info_Status = [], info_MemberOf = StringSet_ToSlice (member_groups sys name)\<rparr>)
      else case iamUsersMap sys name of
        None \<Rightarrow> Inl errNoSuchUser
      | Some creds \<Rightarrow>
          if IsTemp creds then Inl errIAMActionNotAllowed
          else Inr \<lparr>info_SecretKey = [], info_PolicyName = mapped_policy (iamUserPolicyMap sys) name,
                    info_Status = account_status (env_now env) creds,
                    info_MemberOf = StringSet_ToSlice (member_groups sys name)\<rparr>)"

definition ListUsers :: "iam_env \<Rightarrow> IAMSys \<Rightarrow> iam_err + (string \<Rightarrow> UserInfo option)" where
  "ListUsers env sys =
     (if \<not> sys_ready sys then Inl errServerNotInitialized
      else if usersSysType sys \<noteq> IPOSUsersSysType then Inl errIAMActionNotAllowed
      else Inr (\<lambda>k. case iamUsersMap sys k of
          None \<Rightarrow> None
        | Some v \<Rightarrow>
            if \<not> IsTemp v \<and> \<not> cred_IsServiceAccount v
            then Some \<lparr>info_SecretKey = [], info_PolicyName = mapped_policy (iamUserPolicyMap sys) k,
                       info_Status = account_status (env_now env) v, info_MemberOf = []\<rparr>
            else None))"

text \<open>\<open>RemoveUsersFromGroup\<close> for every group of the user, up to the first error.\<close>

fun leave_groups :: "iam_env \<Rightarrow> string \<Rightarrow> string list \<Rightarrow> IAMSys \<Rightarrow> iam_result" where
  "leave_groups env accessKey [] sys = (sys, None)"
| "leave_groups env accessKey (grp # groups) sys =
     (case RemoveUsersFromGroup env grp [accessKey] sys of
        (s, Some err) \<Rightarrow> (s, Some err)
      | (s, None) \<Rightarrow> leave_groups env accessKey groups s)"

definition delete_service_account :: "iam_env \<Rightarrow> string \<Rightarrow> string \<Rightarrow> IAMSys \<Rightarrow> IAMSys" where
  "delete_service_account env accessKey k sys =
     (case iamUsersMap sys k of
        None \<Rightarrow> sys
      | Some u \<Rightarrow>
          if cred_IsServiceAccount u \<and> ParentUser u = accessKey then
            (let s = fst (on_disk sys (deleteUserIdentity env (iam_disk sys) (AccessKey u) srvAccUser)) in
             s\<lparr>iamUsersMap := (iamUsersMap s)(AccessKey u := None)\<rparr>)
          else sys)"

text \<open>\<open>users\<close> are the keys of the map of users in the order of the last loop.\<close>

definition DeleteUser :: "iam_env \<Rightarrow> string list \<Rightarrow> string \<Rightarrow> IAMSys \<Rightarrow> iam_result" where
  "DeleteUser env users accessKey sys =
     (if \<not> sys_ready sys then (sys, Some errServerNotInitialized)
      else case GetUserInfo env accessKey sys of
        Inl getErr \<Rightarrow> (sys, Some getErr)
      | Inr userInfo \<Rightarrow>
         (case leave_groups env accessKey (info_MemberOf userInfo) sys of
            (s, Some removeErr) \<Rightarrow> (s, Some removeErr)
          | (s, None) \<Rightarrow>
              if usersSysType s \<noteq> IPOSUsersSysType then (s, Some errIAMActionNotAllowed)
              else
                (let s1 = fst (on_disk s (deleteMappedPolicy env (iam_disk s) accessKey regularUser False)) in
                 case on_disk s1 (deleteUserIdentity env (iam_disk s1) accessKey regularUser) of
                   (s2, err0) \<Rightarrow>
                     let err = (if err0 = Some errNoSuchUser then None else err0);
                         s3 = s2\<lparr>iamUsersMap := (iamUsersMap s2)(accessKey := None),
                                 iamUserPolicyMap := (iamUserPolicyMap s2)(accessKey := None)\<rparr>
                     in (fold (delete_service_account env accessKey) users s3, err))))"

text \<open>The argument \<open>policyName\<close> of \<open>SetTempUser\<close> is not used.\<close>

definition SetTempUser :: "iam_env \<Rightarrow> string \<Rightarrow> Credentials \<Rightarrow> string \<Rightarrow> IAMSys \<Rightarrow> iam_result" where
  "SetTempUser env accessKey cred policyName sys =
     (if \<not> sys_ready sys then (sys, Some errServerNotInitialized)
      else
        (let u = newUserIdentity cred in
         if_saved sys (saveUserIdentity env (iam_disk sys) accessKey stsUser u)
           (\<lambda>s. (s\<lparr>iamUsersMap := (iamUsersMap s)(accessKey \<mapsto> cred)\<rparr>, None))))"

definition IsTempUser :: "string \<Rightarrow> IAMSys \<Rightarrow> iam_err + bool" where
  "IsTempUser name sys =
     (if \<not> sys_ready sys then Inl errServerNotInitialized
      else case iamUsersMap sys name of None \<Rightarrow> Inl errNoSuchUser | Some creds \<Rightarrow> Inr (IsTemp creds))"

definition IsServiceAccount :: "string \<Rightarrow> IAMSys \<Rightarrow> iam_err + bool \<times> string" where
  "IsServiceAccount name sys =
     (if \<not> sys_ready sys then Inl errServerNotInitialized
      else case iamUsersMap sys name of
        None \<Rightarrow> Inl errNoSuchUser
      | Some creds \<Rightarrow> if cred_IsServiceAccount creds then Inr (True, ParentUser creds) else Inr (False, []))"

definition SetUserStatus :: "iam_env \<Rightarrow> string \<Rightarrow> string \<Rightarrow> IAMSys \<Rightarrow> iam_result" where
  "SetUserStatus env accessKey status sys =
     (if \<not> sys_ready sys then (sys, Some errServerNotInitialized)
      else if status \<noteq> AccountEnabled \<and> status \<noteq> AccountDisabled then (sys, Some errInvalidArgument)
      else if usersSysType sys \<noteq> IPOSUsersSysType then (sys, Some errIAMActionNotAllowed)
      else case iamUsersMap sys accessKey of
        None \<Rightarrow> (sys, Some errNoSuchUser)
      | Some cred \<Rightarrow>
          if IsTemp cred then (sys, Some errIAMActionNotAllowed)
          else
            (let uinfo = newUserIdentity (zero_cred\<lparr>AccessKey := accessKey, SecretKey := SecretKey cred,
                    Status := (if status = AccountEnabled then EnableOn else EnableOff)\<rparr>) in
             if_saved sys (saveUserIdentity env (iam_disk sys) accessKey regularUser uinfo)
               (\<lambda>s. (s\<lparr>iamUsersMap := (iamUsersMap s)(accessKey \<mapsto> ui_Credentials uinfo)\<rparr>, None))))"

definition SetUser :: "iam_env \<Rightarrow> string \<Rightarrow> UserInfo \<Rightarrow> IAMSys \<Rightarrow> iam_result go" where
  "SetUser env accessKey uinfo sys =
     (if \<not> sys_ready sys then Some (sys, Some errServerNotInitialized)
      else
        (let u = newUserIdentity (zero_cred\<lparr>AccessKey := accessKey, SecretKey := info_SecretKey uinfo,
                Status := info_Status uinfo\<rparr>) in
         if usersSysType sys \<noteq> IPOSUsersSysType then Some (sys, Some errIAMActionNotAllowed)
         else if (case iamUsersMap sys accessKey of Some cr \<Rightarrow> IsTemp cr | None \<Rightarrow> False) then
           Some (sys, Some errIAMActionNotAllowed)
         else
           (case on_disk sys (saveUserIdentity env (iam_disk sys) accessKey regularUser u) of
              (s, Some err) \<Rightarrow> Some (s, Some err)
            | (s, None) \<Rightarrow>
                let s1 = s\<lparr>iamUsersMap := (iamUsersMap s)(accessKey \<mapsto> ui_Credentials u)\<rparr> in
                if info_PolicyName uinfo \<noteq> [] then policyDBSet env accessKey (info_PolicyName uinfo) regularUser False s1
                else Some (s1, None))))"

definition SetUserSecretKey :: "iam_env \<Rightarrow> string \<Rightarrow> string \<Rightarrow> IAMSys \<Rightarrow> iam_result" where
  "SetUserSecretKey env accessKey secretKey sys =
     (if \<not> sys_ready sys then (sys, Some errServerNotInitialized)
      else if usersSysType sys \<noteq> IPOSUsersSysType then (sys, Some errIAMActionNotAllowed)
      else case iamUsersMap sys accessKey of
        None \<Rightarrow> (sys, Some errNoSuchUser)
      | Some cred0 \<Rightarrow>
          let cred = cred0\<lparr>SecretKey := secretKey\<rparr> in
          if_saved sys (saveUserIdentity env (iam_disk sys) accessKey regularUser (newUserIdentity cred))
            (\<lambda>s. (s\<lparr>iamUsersMap := (iamUsersMap s)(accessKey \<mapsto> cred)\<rparr>, None)))"

definition GetUser :: "iam_env \<Rightarrow> string \<Rightarrow> IAMSys \<Rightarrow> Credentials \<times> bool" where
  "GetUser env accessKey sys =
     (if \<not> sys_ready sys then (zero_cred, False)
      else case iamUsersMap sys accessKey of
        None \<Rightarrow> (zero_cred, False)
      | Some cred \<Rightarrow> (cred, cred_IsValid (env_now env) cred))"

section \<open>Service accounts\<close>

definition SessionPolicyName :: string where "SessionPolicyName = ''sessionPolicy''"
definition iamPolicyClaimNameSA :: string where "iamPolicyClaimNameSA = ''sa-policy''"

text \<open>The policy document of a session: validated, encoded, and at most 16 KiB long.\<close>

definition session_policy_bytes :: "iam_env \<Rightarrow> iam_Policy option \<Rightarrow> iam_err + string" where
  "session_policy_bytes env sessionPolicy =
     (case sessionPolicy of
        None \<Rightarrow> Inr []
      | Some p \<Rightarrow>
          (case iam_Policy_Validate p of
             Some err \<Rightarrow> Inl (errPolicyInvalid err)
           | None \<Rightarrow>
               (case enc_policy env p of
                  None \<Rightarrow> Inl errEncoding
                | Some policyBuf \<Rightarrow>
                    if 16 * 1024 < length policyBuf then Inl errSessionPolicyTooLong else Inr policyBuf)))"

definition service_account_claims :: "string \<Rightarrow> string \<Rightarrow> string option" where
  "service_account_claims policyBuf =
     (if 0 < length policyBuf
      then [SessionPolicyName \<mapsto> b64_EncodeToString policyBuf, iamPolicyClaimNameSA \<mapsto> ''embedded-policy'']
      else [iamPolicyClaimNameSA \<mapsto> ''inherited-policy''])"

text \<open>\<open>sign\<close> signs claims and the access key; \<open>rand1\<close> and \<open>rand2\<close> are the random bytes of the keys.\<close>

definition NewServiceAccount ::
    "iam_env \<Rightarrow> ((string \<Rightarrow> string option) \<Rightarrow> string \<Rightarrow> string \<Rightarrow> string option) \<Rightarrow> nat list option \<Rightarrow> nat list option \<Rightarrow>
     string \<Rightarrow> iam_Policy option \<Rightarrow> IAMSys \<Rightarrow> IAMSys \<times> (iam_err + Credentials)" where
  "NewServiceAccount env sign rand1 rand2 parentUser sessionPolicy sys =
     (if \<not> sys_ready sys then (sys, Inl errServerNotInitialized)
      else case session_policy_bytes env sessionPolicy of
        Inl err \<Rightarrow> (sys, Inl err)
      | Inr policyBuf \<Rightarrow>
          if usersSysType sys \<noteq> IPOSUsersSysType then (sys, Inl errIAMActionNotAllowed)
          else if parentUser = AccessKey (globalActiveCred env) then (sys, Inl errIAMActionNotAllowed)
          else case iamUsersMap sys parentUser of
            None \<Rightarrow> (sys, Inl errNoSuchUser)
          | Some cr \<Rightarrow>
              if IsTemp cr then (sys, Inl errIAMActionNotAllowed)
              else
                (case GetNewCredentialsWithMetadata (env_now env) id (sign (service_account_claims policyBuf)) rand1 rand2
                        ExpNil (SecretKey (globalActiveCred env)) of
                   Inl err \<Rightarrow> (sys, Inl (errCredentials err))
                 | Inr cred0 \<Rightarrow>
                     let cred = cred0\<lparr>ParentUser := parentUser\<rparr>; u = newUserIdentity cred in
                     (case on_disk sys (saveUserIdentity env (iam_disk sys) (AccessKey cred) srvAccUser u) of
                        (s, Some err) \<Rightarrow> (s, Inl err)
                      | (s, None) \<Rightarrow>
                          (s\<lparr>iamUsersMap := (iamUsersMap s)(AccessKey cred \<mapsto> cred)\<rparr>, Inr cred))))"

definition ListServiceAccounts :: "string list \<Rightarrow> string \<Rightarrow> IAMSys \<Rightarrow> iam_err + string list" where
  "ListServiceAccounts users accessKey sys =
     (if \<not> sys_ready sys then Inl errServerNotInitialized
      else if usersSysType sys \<noteq> IPOSUsersSysType then Inl errIAMActionNotAllowed
      else Inr (filter (\<lambda>k. case iamUsersMap sys k of
          None \<Rightarrow> False | Some v \<Rightarrow> cred_IsServiceAccount v \<and> ParentUser v = accessKey) users))"

definition GetServiceAccountParent :: "string \<Rightarrow> IAMSys \<Rightarrow> iam_err + string" where
  "GetServiceAccountParent accessKey sys =
     (if \<not> sys_ready sys then Inl errServerNotInitialized
      else if usersSysType sys \<noteq> IPOSUsersSysType then Inl errIAMActionNotAllowed
      else case iamUsersMap sys accessKey of
        None \<Rightarrow> Inl errNoSuchServiceAccount
      | Some sa \<Rightarrow> if \<not> cred_IsServiceAccount sa then Inl errNoSuchServiceAccount else Inr (ParentUser sa))"

definition DeleteServiceAccount :: "iam_env \<Rightarrow> string \<Rightarrow> IAMSys \<Rightarrow> iam_result" where
  "DeleteServiceAccount env accessKey sys =
     (if \<not> sys_ready sys then (sys, Some errServerNotInitialized)
      else if usersSysType sys \<noteq> IPOSUsersSysType then (sys, Some errIAMActionNotAllowed)
      else case iamUsersMap sys accessKey of
        None \<Rightarrow> (sys, Some errNoSuchServiceAccount)
      | Some sa \<Rightarrow>
          if \<not> cred_IsServiceAccount sa then (sys, Some errNoSuchServiceAccount)
          else
            (case on_disk sys (deleteUserIdentity env (iam_disk sys) accessKey srvAccUser) of
               (s, Some err) \<Rightarrow> if err = errNoSuchUser then (s, None) else (s, Some err)
             | (s, None) \<Rightarrow> (s\<lparr>iamUsersMap := (iamUsersMap s)(accessKey := None)\<rparr>, None)))"

end
