(* ===== verification/IAMAccess.thy ===== *)
theory IAMAccess
  imports IAMAdmin
begin

text \<open>
  The decisions of \<open>cmd/ipos/cmd/iam.go\<close>: which policies apply to a caller, and what they allow.
\<close>

section \<open>The policies of a user or a group\<close>

text \<open>The loop over the groups of a user.\<close>

definition group_policy :: "IAMSys \<Rightarrow> string \<Rightarrow> string list" where
  "group_policy sys grp =
     (case iamGroupsMap sys grp of
        None \<Rightarrow> []
      | Some gi \<Rightarrow>
          if gi_Status gi = statusDisabled then []
          else case iamGroupPolicyMap sys grp of
            None \<Rightarrow> []
          | Some p \<Rightarrow> if mp_Policy p \<noteq> [] then [mp_Policy p] else [])"

definition group_policies :: "IAMSys \<Rightarrow> string list \<Rightarrow> string list" where
  "group_policies sys groups = concat (map (group_policy sys) groups)"

definition policyDBGet :: "string \<Rightarrow> bool \<Rightarrow> IAMSys \<Rightarrow> iam_err + string list" where
  "policyDBGet name isGroup sys =
     (if isGroup then
        (if iamGroupsMap sys name = None then Inl errNoSuchGroup
         else let policy = mapped_policy (iamGroupPolicyMap sys) name in
              if policy = [] then Inr [] else Inr [policy])
      else
        (case iamUsersMap sys name of
           None \<Rightarrow> Inl errNoSuchUser
         | Some u \<Rightarrow>
             if Status u = statusDisabled then Inr []
             else
               (let policy = mapped_policy (iamUserPolicyMap sys) name;
                    result = (if policy \<noteq> [] then [policy] else [])
                in Inr (result @ group_policies sys (StringSet_ToSlice (member_groups sys name))))))"

definition PolicyDBGet :: "string \<Rightarrow> bool \<Rightarrow> IAMSys \<Rightarrow> iam_err + string list" where
  "PolicyDBGet name isGroup sys =
     (if \<not> sys_ready sys then Inl errServerNotInitialized
      else if name = [] then Inl errInvalidArgument
      else policyDBGet name isGroup sys)"

record GroupDesc =
  gd_Name :: string
  gd_Status :: string
  gd_Members :: "string list"
  gd_Policy :: string

definition GetGroupDescription :: "string \<Rightarrow> IAMSys \<Rightarrow> iam_err + GroupDesc" where
  "GetGroupDescription grp sys =
     (if \<not> sys_ready sys then Inl errServerNotInitialized
      else case PolicyDBGet grp True sys of
        Inl err \<Rightarrow> Inl err
      | Inr ps \<Rightarrow>
          let policy = (if 0 < length ps then ps ! 0 else []) in
          if usersSysType sys \<noteq> IPOSUsersSysType
          then Inr \<lparr>gd_Name = grp, gd_Status = [], gd_Members = [], gd_Policy = policy\<rparr>
          else case iamGroupsMap sys grp of
            None \<Rightarrow> Inl errNoSuchGroup
          | Some gi \<Rightarrow> Inr \<lparr>gd_Name = grp, gd_Status = gi_Status gi, gd_Members = gi_Members gi, gd_Policy = policy\<rparr>)"

text \<open>The documents behind the names, and the first of them with the statements of all.\<close>

definition availablePolicies :: "IAMSys \<Rightarrow> string list \<Rightarrow> iam_Policy list" where
  "availablePolicies sys policies = List.map_filter (iamPolicyDocsMap sys) policies"

definition combinedPolicy :: "iam_Policy \<Rightarrow> iam_Policy list \<Rightarrow> iam_Policy" where
  "combinedPolicy p ps = fold (\<lambda>q c. c\<lparr>ip_Statements := ip_Statements c @ ip_Statements q\<rparr>) ps p"

section \<open>Decisions\<close>

definition iamPolicyClaimNameOpenID :: string where
  "iamPolicyClaimNameOpenID = ''claim_prefix'' @ ''claim_name''"

definition IsAllowedServiceAccount :: "iam_Args \<Rightarrow> string \<Rightarrow> bool" where
  "IsAllowedServiceAccount args parent = False"

text \<open>\<open>parse\<close> is the reading of a policy document from the text of a claim.\<close>

definition IsAllowedSTS :: "(nat \<Rightarrow> nat) \<Rightarrow> (string \<Rightarrow> iam_Policy option) \<Rightarrow> iam_Args \<Rightarrow> IAMSys \<Rightarrow> bool go" where
  "IsAllowedSTS uf parse args sys =
     (case Args_GetPolicies args iamPolicyClaimNameOpenID of
        (pnameSlice, ok) \<Rightarrow>
          if \<not> ok then Some False
          else if length pnameSlice = 0 then Some False
          else case iamUserPolicyMap sys (ia_AccountName args) of
            None \<Rightarrow> Some False
          | Some mp \<Rightarrow>
              if pnameSlice ! 0 \<noteq> mp_Policy mp then Some False
              else
                (let stored = (case iamPolicyDocsMap sys (pnameSlice ! 0) of
                       None \<Rightarrow> Some False | Some p \<Rightarrow> iam_Policy_IsAllowed uf p args)
                 in case ia_Claims args SessionPolicyName of
                      None \<Rightarrow> stored
                    | Some (ClaimString spolicyStr) \<Rightarrow>
                        (case parse spolicyStr of
                           None \<Rightarrow> Some False
                         | Some subPolicy \<Rightarrow>
                             if ip_Version subPolicy = [] then Some False
                             else case stored of
                               Some True \<Rightarrow> iam_Policy_IsAllowed uf subPolicy args
                             | r \<Rightarrow> r)
                    | Some _ \<Rightarrow> Some False))"

definition IAMSys_IsAllowed :: "(nat \<Rightarrow> nat) \<Rightarrow> (string \<Rightarrow> iam_Policy option) \<Rightarrow> iam_Args \<Rightarrow> IAMSys \<Rightarrow> bool go" where
  "IAMSys_IsAllowed uf parse args sys =
     (if ia_IsOwner args then Some True
      else case IsTempUser (ia_AccountName args) sys of
        Inl err \<Rightarrow> Some False
      | Inr True \<Rightarrow> IsAllowedSTS uf parse args sys
      | Inr False \<Rightarrow>
         (case IsServiceAccount (ia_AccountName args) sys of
            Inl err \<Rightarrow> Some False
          | Inr (True, parentUser) \<Rightarrow> Some (IsAllowedServiceAccount args parentUser)
          | Inr (False, _) \<Rightarrow>
             (case PolicyDBGet (ia_AccountName args) False sys of
                Inl err \<Rightarrow> Some False
              | Inr policies \<Rightarrow>
                  if length policies = 0 then Some False
                  else case availablePolicies sys policies of
                    [] \<Rightarrow> Some False
                  | p # ps \<Rightarrow> iam_Policy_IsAllowed uf (combinedPolicy p ps) args)))"

definition iamAccountReadAccessActions :: ActionSet where
  "iamAccountReadAccessActions = NewActionSet
     [ListMultipartUploadPartsAction, ListBucketMultipartUploadsAction, ListBucketAction, HeadBucketAction,
      GetObjectAction, GetBucketLocationAction]"

definition iamAccountWriteAccessActions :: ActionSet where
  "iamAccountWriteAccessActions = NewActionSet
     [AbortMultipartUploadAction, CreateBucketAction, PutObjectAction, DeleteObjectAction, DeleteBucketAction]"

definition iamAccountOtherAccessActions :: ActionSet where
  "iamAccountOtherAccessActions = NewActionSet
     [BypassGovernanceRetentionAction, PutObjectRetentionAction, GetObjectRetentionAction, GetObjectLegalHoldAction,
      PutObjectLegalHoldAction, GetBucketObjectLockConfigurationAction, PutBucketObjectLockConfigurationAction,
      ListenBucketNotificationAction, iam_PutBucketLifecycleAction, iam_GetBucketLifecycleAction,
      PutBucketNotificationAction, GetBucketNotificationAction, PutBucketPolicyAction, DeleteBucketPolicyAction,
      GetBucketPolicyAction, PutBucketEncryptionAction, GetBucketEncryptionAction]"

text \<open>The loop over the statements, with its early end.\<close>

fun account_access :: "iam_Statement list \<Rightarrow> bool \<times> bool \<times> bool \<Rightarrow> bool \<times> bool \<times> bool" where
  "account_access [] acc = acc"
| "account_access (st # sts) (rd, wr, other) =
     (if ist_Effect st \<noteq> Allow then account_access sts (rd, wr, other)
      else if \<not> iam_ActionSet_IsEmpty (ActionSet_Intersection (ist_Actions st) (NewActionSet [AllActions]))
      then (True, True, True)
      else account_access sts
        (rd \<or> \<not> iam_ActionSet_IsEmpty (ActionSet_Intersection (ist_Actions st) iamAccountReadAccessActions),
         wr \<or> \<not> iam_ActionSet_IsEmpty (ActionSet_Intersection (ist_Actions st) iamAccountWriteAccessActions),
         other \<or> \<not> iam_ActionSet_IsEmpty (ActionSet_Intersection (ist_Actions st) iamAccountOtherAccessActions)))"

definition GetAccountAccess :: "string \<Rightarrow> IAMSys \<Rightarrow> bool \<times> bool \<times> bool" where
  "GetAccountAccess accountName sys =
     (case PolicyDBGet accountName False sys of
        Inl err \<Rightarrow> (False, False, False)
      | Inr policies \<Rightarrow>
          if length policies = 0 then (False, False, False)
          else case availablePolicies sys policies of
            [] \<Rightarrow> (False, False, False)
          | p # ps \<Rightarrow> account_access (ip_Statements (combinedPolicy p ps)) (False, False, False))"

end
