(* ===== verification/IAMProps.thy ===== *)
theory IAMProps
  imports IAMAccess
begin

text \<open>
  What the user management keeps and decides: group memberships agree with the groups through
  every operation, a decision is that of the documents behind the names, and where the code does
  something else.
\<close>

section \<open>Memberships\<close>

definition groups_of :: "(string \<Rightarrow> StringSet option) \<Rightarrow> string \<Rightarrow> string set" where
  "groups_of m u = (case m u of None \<Rightarrow> {} | Some gs \<Rightarrow> fset gs)"

lemma fset_member_groups: "fset (member_groups sys u) = groups_of (iamUserGroupMemberships sys) u"
  by (simp add: member_groups_def groups_of_def split: option.split)

lemma groups_of_add: "groups_of (add_membership grp member m) u = groups_of m u \<union> (if u = member then {grp} else {})"
  by (auto simp: groups_of_def add_membership_def StringSet_Add_def split: option.split)

lemma groups_of_fold_add:
  "groups_of (fold (add_membership grp) ms m) u = groups_of m u \<union> (if u \<in> set ms then {grp} else {})"
  by (induction ms arbitrary: m) (auto simp: groups_of_add)

lemma groups_of_remove: "groups_of (remove_membership grp member m) u = groups_of m u - (if u = member then {grp} else {})"
  by (auto simp: groups_of_def remove_membership_def StringSet_Remove_def split: option.split)

lemma groups_of_fold_remove:
  "groups_of (fold (remove_membership grp) ms m) u = groups_of m u - (if u \<in> set ms then {grp} else {})"
  by (induction ms arbitrary: m) (auto simp: groups_of_remove)

lemma groups_of_removeGroup:
  "groups_of (iamUserGroupMemberships (removeGroupFromMembershipsMap grp sys)) u =
   groups_of (iamUserGroupMemberships sys) u - {grp}"
  by (auto simp: groups_of_def removeGroupFromMembershipsMap_def StringSet_Contains_def StringSet_Remove_def
      split: option.split)

definition members_of :: "(string \<Rightarrow> GroupInfo option) \<Rightarrow> string \<Rightarrow> string set" where
  "members_of m g = (case m g of None \<Rightarrow> {} | Some gi \<Rightarrow> set (gi_Members gi))"

definition membership_inv :: "IAMSys \<Rightarrow> bool" where
  "membership_inv sys \<longleftrightarrow>
     (\<forall>u g. g \<in> groups_of (iamUserGroupMemberships sys) u \<longleftrightarrow> u \<in> members_of (iamGroupsMap sys) g)"

lemma membership_inv_cong:
  "iamGroupsMap s' = iamGroupsMap s \<Longrightarrow> iamUserGroupMemberships s' = iamUserGroupMemberships s \<Longrightarrow>
   membership_inv s' = membership_inv s"
  by (simp add: membership_inv_def)

lemma fset_CreateStringSet [simp]: "fset (CreateStringSet xs) = set xs"
  using fmember_CreateStringSet by blast

text \<open>What calls of the store leave alone.\<close>

lemma on_disk_simps [simp]:
  "iamGroupsMap (fst (on_disk sys r)) = iamGroupsMap sys"
  "iamUserGroupMemberships (fst (on_disk sys r)) = iamUserGroupMemberships sys"
  "iamUsersMap (fst (on_disk sys r)) = iamUsersMap sys"
  "iamUserPolicyMap (fst (on_disk sys r)) = iamUserPolicyMap sys"
  "iamGroupPolicyMap (fst (on_disk sys r)) = iamGroupPolicyMap sys"
  "iamPolicyDocsMap (fst (on_disk sys r)) = iamPolicyDocsMap sys"
  "usersSysType (fst (on_disk sys r)) = usersSysType sys"
  "sys_ready (fst (on_disk sys r)) = sys_ready sys"
  "groupPolicyMap_made (fst (on_disk sys r)) = groupPolicyMap_made sys"
  "iam_disk (fst (on_disk sys r)) = fst r"
  "snd (on_disk sys r) = snd r"
  by (simp_all add: on_disk_def)

lemma on_disk_eq: "on_disk sys r = (s, e) \<Longrightarrow> s = sys\<lparr>iam_disk := fst r\<rparr> \<and> e = snd r"
  by (simp add: on_disk_def)

lemma if_saved_cases:
  "if_saved sys r rest =
     (case snd r of Some err \<Rightarrow> (sys\<lparr>iam_disk := fst r\<rparr>, Some err) | None \<Rightarrow> rest (sys\<lparr>iam_disk := fst r\<rparr>))"
  by (cases "snd r") (simp_all add: if_saved_def on_disk_def)

lemma AddUsersToGroup_inv: "membership_inv sys \<Longrightarrow> membership_inv (fst (AddUsersToGroup env grp members sys))"
  by (auto simp: AddUsersToGroup_def Let_def if_saved_cases membership_inv_def groups_of_fold_add members_of_def
      newGroupInfo_def split: option.split)

lemma RemoveUsersFromGroup_inv:
  assumes "membership_inv sys"
  shows "membership_inv (fst (RemoveUsersFromGroup env grp members sys))"
proof (cases "iamGroupsMap sys grp")
  case None
  then show ?thesis using assms by (simp add: RemoveUsersFromGroup_def split: option.split)
next
  case (Some gi)
  note group = Some
  show ?thesis
  proof (cases "length members = 0")
    case False
    with assms Some show ?thesis
      by (auto simp: RemoveUsersFromGroup_def Let_def if_saved_cases membership_inv_def groups_of_fold_remove
          members_of_def StringSet_Difference_def split: option.split)
  next
    case True
    show ?thesis
    proof (cases "length (gi_Members gi) = 0")
      case False
      with True Some assms show ?thesis by (simp add: RemoveUsersFromGroup_def split: option.split)
    next
      case empty: True
      with Some have "members_of (iamGroupsMap sys) grp = {}" by (simp add: members_of_def)
      then have "members_of ((iamGroupsMap sys)(grp := None)) = members_of (iamGroupsMap sys)"
        by (auto simp: members_of_def fun_eq_iff)
      with assms True empty group show ?thesis
        by (auto simp: RemoveUsersFromGroup_def on_disk_def membership_inv_def split: option.split prod.split)
    qed
  qed
qed

text \<open>The mapping of policies touches the mappings and the disk.\<close>

definition same_groups :: "IAMSys \<Rightarrow> IAMSys \<Rightarrow> bool" where
  "same_groups s s' \<longleftrightarrow>
     iamGroupsMap s' = iamGroupsMap s \<and> iamUserGroupMemberships s' = iamUserGroupMemberships s"

lemma same_groups_inv: "same_groups s s' \<Longrightarrow> membership_inv s \<Longrightarrow> membership_inv s'"
  by (simp add: same_groups_def membership_inv_def)

lemma same_groups_refl [simp]: "same_groups s s"
  by (simp add: same_groups_def)

lemma same_groups_trans: "same_groups s t \<Longrightarrow> same_groups t v \<Longrightarrow> same_groups s v"
  by (simp add: same_groups_def)

lemma fold_same_groups: "(\<And>x s. same_groups s (f x s)) \<Longrightarrow> same_groups s (fold f xs s)"
  by (induction xs arbitrary: s) (auto intro: same_groups_trans)

lemma policyDBSet_same:
  assumes "policyDBSet env name policy userType isGroup sys = Some (s, e)"
  shows "same_groups sys s \<and> iamUsersMap s = iamUsersMap sys \<and> iamPolicyDocsMap s = iamPolicyDocsMap sys \<and>
    usersSysType s = usersSysType sys \<and> sys_ready s = sys_ready sys"
  using assms
  by (auto simp: policyDBSet_def Let_def on_disk_def same_groups_def split: if_splits prod.splits option.splits)

lemma unmap_user_same: "same_groups s (unmap_user env u s)"
  using policyDBSet_same by (fastforce simp: unmap_user_def Let_def split: option.split prod.split)

lemma unmap_group_same: "same_groups s (unmap_group env g s)"
  using policyDBSet_same by (fastforce simp: unmap_group_def split: option.split prod.split)

lemma DeletePolicy_same: "same_groups sys (fst (DeletePolicy env users groups policyName sys))"
proof -
  let ?s1 = "\<lambda>d. sys\<lparr>iam_disk := d, iamPolicyDocsMap := (iamPolicyDocsMap sys)(policyName := None)\<rparr>"
  have "same_groups sys (fold (unmap_group env) gs (fold (unmap_user env) us (?s1 d)))" for gs us d
  proof -
    have "same_groups sys (?s1 d)" by (simp add: same_groups_def)
    moreover have "same_groups (?s1 d) (fold (unmap_user env) us (?s1 d))"
      by (rule fold_same_groups) (rule unmap_user_same)
    moreover have "same_groups (fold (unmap_user env) us (?s1 d)) (fold (unmap_group env) gs (fold (unmap_user env) us (?s1 d)))"
      by (rule fold_same_groups) (rule unmap_group_same)
    ultimately show ?thesis using same_groups_trans by blast
  qed
  then show ?thesis
    by (auto simp: DeletePolicy_def Let_def on_disk_def same_groups_def)
qed

lemma delete_service_account_same: "same_groups s (delete_service_account env accessKey k s)"
  by (simp add: delete_service_account_def on_disk_def same_groups_def Let_def split: option.split)

lemma SetPolicy_same: "same_groups sys (fst (SetPolicy env policyName p sys))"
  by (simp add: SetPolicy_def if_saved_cases same_groups_def split: option.split)

lemma SetTempUser_same: "same_groups sys (fst (SetTempUser env accessKey cred policyName sys))"
  by (simp add: SetTempUser_def if_saved_cases same_groups_def Let_def split: option.split)

lemma SetUserStatus_same: "same_groups sys (fst (SetUserStatus env accessKey status sys))"
  by (simp add: SetUserStatus_def if_saved_cases same_groups_def Let_def split: option.split)

lemma SetUserSecretKey_same: "same_groups sys (fst (SetUserSecretKey env accessKey secretKey sys))"
  by (simp add: SetUserSecretKey_def if_saved_cases same_groups_def Let_def split: option.split)

lemma SetUser_same:
  assumes "SetUser env accessKey uinfo sys = Some (s, e)"
  shows "same_groups sys s"
proof -
  let ?s1 = "\<lambda>d m. sys\<lparr>iam_disk := d, iamUsersMap := m\<rparr>"
  have "same_groups sys s" if "policyDBSet env a p t b (?s1 d m) = Some (s, e)" for a p t b d m
    using policyDBSet_same [OF that] by (simp add: same_groups_def)
  with assms show ?thesis
    by (fastforce simp: SetUser_def Let_def on_disk_def same_groups_def split: if_splits prod.splits option.splits)
qed

lemma NewServiceAccount_same: "same_groups sys (fst (NewServiceAccount env sign r1 r2 parentUser sp sys))"
  by (simp add: NewServiceAccount_def on_disk_def same_groups_def Let_def split: option.split sum.split prod.split)

lemma DeleteServiceAccount_same: "same_groups sys (fst (DeleteServiceAccount env accessKey sys))"
  by (simp add: DeleteServiceAccount_def on_disk_def same_groups_def Let_def split: option.split prod.split)

lemma LoadPolicy_same: "same_groups sys (fst (LoadPolicy env policyName sys))"
  by (simp add: LoadPolicy_def same_groups_def split: prod.split)

lemma LoadPolicyMapping_same: "same_groups sys (fst (LoadPolicyMapping env n b sys))"
  by (simp add: LoadPolicyMapping_def same_groups_def split: prod.split)

lemma LoadUser_same: "same_groups sys (fst (LoadUser env accessKey t sys))"
  by (simp add: LoadUser_def same_groups_def split: prod.split option.split)

lemma LoadServiceAccount_same: "same_groups sys (fst (LoadServiceAccount env accessKey sys))"
  by (simp add: LoadServiceAccount_def same_groups_def split: prod.split)

lemma SetGroupStatus_inv: "membership_inv sys \<Longrightarrow> membership_inv (fst (SetGroupStatus env grp enabled sys))"
  by (auto simp: SetGroupStatus_def Let_def if_saved_cases membership_inv_def members_of_def split: option.split)

lemma leave_groups_inv: "membership_inv sys \<Longrightarrow> membership_inv (fst (leave_groups env a gs sys))"
proof (induction gs arbitrary: sys)
  case (Cons g gs)
  have "membership_inv (fst (RemoveUsersFromGroup env g [a] sys))" using Cons.prems by (rule RemoveUsersFromGroup_inv)
  then show ?case using Cons.IH by (cases "RemoveUsersFromGroup env g [a] sys") (auto split: option.split)
qed simp

lemma DeleteUser_inv:
  assumes "membership_inv sys"
  shows "membership_inv (fst (DeleteUser env users accessKey sys))"
proof (cases "\<exists>info. GetUserInfo env accessKey sys = Inr info \<and> sys_ready sys")
  case False
  with assms show ?thesis by (auto simp: DeleteUser_def split: sum.split)
next
  case True
  then obtain info where info: "GetUserInfo env accessKey sys = Inr info" "sys_ready sys" by blast
  obtain s e where l: "leave_groups env accessKey (info_MemberOf info) sys = (s, e)" by fastforce
  with leave_groups_inv [OF assms, of env accessKey "info_MemberOf info"] have inv: "membership_inv s" by simp
  have "membership_inv (fold (delete_service_account env accessKey) users
      (s\<lparr>iam_disk := d, iamUsersMap := m1, iamUserPolicyMap := m2\<rparr>))" for d m1 m2
  proof (rule same_groups_inv [OF fold_same_groups])
    show "membership_inv (s\<lparr>iam_disk := d, iamUsersMap := m1, iamUserPolicyMap := m2\<rparr>)"
      using inv by (simp add: membership_inv_def)
  qed (rule delete_service_account_same)
  with inv info l show ?thesis
    by (auto simp: DeleteUser_def on_disk_def Let_def split: option.split)
qed

lemma loadGroup_frame:
  "loadGroup env d grp m = (m', e) \<Longrightarrow> (\<exists>gi. m' = m(grp \<mapsto> gi) \<and> e = None) \<or> (m' = m \<and> e \<noteq> None \<and> e \<noteq> Some errConfigNotFound)"
  by (auto simp: loadGroup_def not_found_as_def split: sum.splits if_splits)

lemma LoadGroup_inv:
  assumes "membership_inv sys"
  shows "membership_inv (fst (LoadGroup env grp sys))"
proof -
  obtain m e where l: "loadGroup env (iam_disk sys) grp (iamGroupsMap sys) = (m, e)" by fastforce
  from loadGroup_frame [OF l] show ?thesis
  proof (elim disjE exE conjE)
    fix gi assume "m = (iamGroupsMap sys)(grp \<mapsto> gi)" "e = None"
    define r where "r = updateGroupMembershipsMap grp gi (removeGroupFromMembershipsMap grp (sys\<lparr>iamGroupsMap := m\<rparr>))"
    have "groups_of (iamUserGroupMemberships r) u =
        groups_of (iamUserGroupMemberships sys) u - {grp} \<union> (if u \<in> set (gi_Members gi) then {grp} else {})" for u
      using groups_of_removeGroup [of grp "sys\<lparr>iamGroupsMap := m\<rparr>" u]
      by (simp add: r_def updateGroupMembershipsMap_def groups_of_fold_add)
    moreover have "iamGroupsMap r = m"
      by (simp add: r_def updateGroupMembershipsMap_def removeGroupFromMembershipsMap_def)
    ultimately have "membership_inv r"
      using assms \<open>m = _\<close> by (auto simp: membership_inv_def members_of_def)
    with assms l \<open>m = _\<close> \<open>e = None\<close> show ?thesis by (simp add: LoadGroup_def r_def)
  next
    assume "m = iamGroupsMap sys" "e \<noteq> None" "e \<noteq> Some errConfigNotFound"
    with assms l show ?thesis by (auto simp: LoadGroup_def membership_inv_def split: option.split)
  qed
qed

section \<open>Steps\<close>

text \<open>The operations of the user management, in any order, in any environment.  A refresh from the
  store is a step of its own, below.\<close>

inductive iam_step :: "IAMSys \<Rightarrow> IAMSys \<Rightarrow> bool" where
  "iam_step sys (fst (LoadGroup env grp sys))"
| "iam_step sys (fst (LoadPolicy env p sys))"
| "iam_step sys (fst (LoadPolicyMapping env n b sys))"
| "iam_step sys (fst (LoadUser env a t sys))"
| "iam_step sys (fst (LoadServiceAccount env a sys))"
| "iam_step sys (fst (DeletePolicy env us gs p sys))"
| "iam_step sys (fst (SetPolicy env p doc sys))"
| "iam_step sys (fst (DeleteUser env us a sys))"
| "iam_step sys (fst (SetTempUser env a cred p sys))"
| "iam_step sys (fst (SetUserStatus env a st sys))"
| "iam_step sys (fst (NewServiceAccount env sign r1 r2 parent sp sys))"
| "iam_step sys (fst (DeleteServiceAccount env a sys))"
| "SetUser env a info sys = Some (sys', e) \<Longrightarrow> iam_step sys sys'"
| "iam_step sys (fst (SetUserSecretKey env a k sys))"
| "iam_step sys (fst (AddUsersToGroup env grp ms sys))"
| "iam_step sys (fst (RemoveUsersFromGroup env grp ms sys))"
| "iam_step sys (fst (SetGroupStatus env grp b sys))"
| "PolicyDBSet env n p b sys = Some (sys', e) \<Longrightarrow> iam_step sys sys'"

lemma iam_step_inv: "iam_step sys sys' \<Longrightarrow> membership_inv sys \<Longrightarrow> membership_inv sys'"
proof (induction rule: iam_step.induct)
  case (13 env a info sys sys' e)
  then show ?case using SetUser_same same_groups_inv by blast
next
  case (18 env n p b sys sys' e)
  then show ?case using policyDBSet_same [of env n p regularUser b sys sys' e]
    by (auto simp: PolicyDBSet_def membership_inv_def same_groups_def split: if_splits)
qed (blast intro: LoadGroup_inv AddUsersToGroup_inv RemoveUsersFromGroup_inv SetGroupStatus_inv DeleteUser_inv
    same_groups_inv LoadPolicy_same LoadPolicyMapping_same LoadUser_same LoadServiceAccount_same
    DeletePolicy_same SetPolicy_same SetTempUser_same SetUserStatus_same NewServiceAccount_same
    DeleteServiceAccount_same SetUserSecretKey_same)+

lemma buildUserGroupMemberships_groups:
  "iamGroupsMap (buildUserGroupMemberships gs sys) = iamGroupsMap sys \<and>
   groups_of (iamUserGroupMemberships (buildUserGroupMemberships gs sys)) u =
     groups_of (iamUserGroupMemberships sys) u \<union> {g \<in> set gs. u \<in> members_of (iamGroupsMap sys) g}"
proof -
  have "iamGroupsMap (fold (\<lambda>grp s. case G grp of None \<Rightarrow> s | Some gi \<Rightarrow> updateGroupMembershipsMap grp gi s) gs s) = iamGroupsMap s \<and>
    groups_of (iamUserGroupMemberships (fold (\<lambda>grp s. case G grp of None \<Rightarrow> s | Some gi \<Rightarrow> updateGroupMembershipsMap grp gi s) gs s)) u =
     groups_of (iamUserGroupMemberships s) u \<union> {g \<in> set gs. u \<in> members_of G g}" for G s
    by (induction gs arbitrary: s)
      (auto simp: updateGroupMembershipsMap_def groups_of_fold_add members_of_def split: option.split)
  then show ?thesis by (simp add: buildUserGroupMemberships_def)
qed

text \<open>A refresh either fails and leaves the maps alone, or adds to the memberships.\<close>

lemma loadAll_frame:
  assumes "loadAll env ls gs sys = (sys', e)"
  shows "same_groups sys sys' \<and> e \<noteq> None \<or>
    (\<exists>s. sys' = buildUserGroupMemberships gs s \<and> iamUserGroupMemberships s = iamUserGroupMemberships sys \<and> e = None)"
  using assms
  by (auto simp: loadAll_def Let_def same_groups_def split: prod.splits option.splits if_splits)

text \<open>The states after a start: the maps as loaded, and every step since.\<close>

inductive iam_reachable :: "IAMSys \<Rightarrow> bool" where
  iam_start: "loadAll env ls gs ((NewIAMSys d)\<lparr>sys_ready := True\<rparr>) = (sys, None) \<Longrightarrow>
    (\<And>g. iamGroupsMap sys g \<noteq> None \<Longrightarrow> g \<in> set gs) \<Longrightarrow> iam_reachable sys"
| iam_next: "iam_reachable sys \<Longrightarrow> iam_step sys sys' \<Longrightarrow> iam_reachable sys'"

lemma iam_reachable_inv: "iam_reachable sys \<Longrightarrow> membership_inv sys"
proof (induction rule: iam_reachable.induct)
  case (iam_start env ls gs d sys)
  from loadAll_frame [OF iam_start(1)] obtain s where s: "sys = buildUserGroupMemberships gs s"
    "iamUserGroupMemberships s = Map.empty" by (auto simp: NewIAMSys_def)
  have groups: "iamGroupsMap sys = iamGroupsMap s" unfolding s(1) using buildUserGroupMemberships_groups by blast
  have "groups_of (iamUserGroupMemberships sys) u = {g \<in> set gs. u \<in> members_of (iamGroupsMap sys) g}" for u
    using buildUserGroupMemberships_groups [of gs s u] s by (simp add: groups_of_def)
  moreover have "g \<in> set gs" if "u \<in> members_of (iamGroupsMap sys) g" for u g
    using that iam_start(2) [of g] by (auto simp: members_of_def split: option.splits)
  ultimately show ?case by (auto simp: membership_inv_def)
qed (blast intro: iam_step_inv)

section \<open>The policies of a user\<close>

definition effective_policies :: "IAMSys \<Rightarrow> string \<Rightarrow> string set" where
  "effective_policies sys u =
     {p. p \<noteq> [] \<and>
        (mapped_policy (iamUserPolicyMap sys) u = p \<or>
         (\<exists>g gi. g |\<in>| member_groups sys u \<and> iamGroupsMap sys g = Some gi \<and> gi_Status gi \<noteq> statusDisabled \<and>
            mapped_policy (iamGroupPolicyMap sys) g = p))}"

lemma group_policies_set:
  "set (group_policies sys gs) = {p. p \<noteq> [] \<and> (\<exists>g \<in> set gs. \<exists>gi. iamGroupsMap sys g = Some gi \<and>
     gi_Status gi \<noteq> statusDisabled \<and> mapped_policy (iamGroupPolicyMap sys) g = p)}"
proof -
  have "p \<in> set (group_policy sys g) \<longleftrightarrow>
      p \<noteq> [] \<and> (\<exists>gi. iamGroupsMap sys g = Some gi \<and> gi_Status gi \<noteq> statusDisabled \<and>
        mapped_policy (iamGroupPolicyMap sys) g = p)" for p g
    by (cases "iamGroupsMap sys g"; cases "iamGroupPolicyMap sys g"; simp add: group_policy_def mapped_policy_def; metis)
  then show ?thesis by (simp only: group_policies_def set_concat set_map set_eq_iff UN_iff image_iff mem_Collect_eq) blast
qed

lemma policyDBGet_effective:
  assumes "iamUsersMap sys u = Some cr" and "Status cr \<noteq> statusDisabled"
  shows "\<exists>ps. policyDBGet u False sys = Inr ps \<and> set ps = effective_policies sys u"
  using assms by (auto simp: policyDBGet_def Let_def group_policies_set effective_policies_def)

definition user_statements :: "IAMSys \<Rightarrow> string \<Rightarrow> iam_Statement set" where
  "user_statements sys u =
     {st. \<exists>p \<in> effective_policies sys u. \<exists>doc. iamPolicyDocsMap sys p = Some doc \<and> st \<in> set (ip_Statements doc)}"

lemma combinedPolicy_statements:
  "ip_Statements (combinedPolicy p ps) = ip_Statements p @ concat (map ip_Statements ps)"
proof -
  have "ip_Statements (fold (\<lambda>q c. c\<lparr>ip_Statements := ip_Statements c @ ip_Statements q\<rparr>) ps c) =
      ip_Statements c @ concat (map ip_Statements ps)" for c
    by (induction ps arbitrary: c) simp_all
  then show ?thesis by (simp add: combinedPolicy_def)
qed

lemma set_availablePolicies: "set (availablePolicies sys ps) = {doc. \<exists>p \<in> set ps. iamPolicyDocsMap sys p = Some doc}"
  by (induction ps) (auto simp: availablePolicies_def map_filter_simps split: option.splits)

lemma available_statements:
  assumes "availablePolicies sys ps = p # qs" and "set ps = effective_policies sys u"
  shows "set (ip_Statements (combinedPolicy p qs)) = user_statements sys u"
proof -
  have "set (ip_Statements (combinedPolicy p qs)) = (\<Union>doc \<in> set (availablePolicies sys ps). set (ip_Statements doc))"
    unfolding combinedPolicy_statements assms(1) by auto
  also have "\<dots> = user_statements sys u" unfolding set_availablePolicies user_statements_def assms(2) by blast
  finally show ?thesis .
qed

lemma available_none:
  assumes "availablePolicies sys ps = []" and "set ps = effective_policies sys u"
  shows "user_statements sys u = {}"
  using assms set_availablePolicies [of sys ps] by (auto simp: user_statements_def)

end
