(* ===== verification/IAMDecide.thy ===== *)
theory IAMDecide
  imports IAMProps
begin

text \<open>
  The properties of the user management of \<open>cmd/ipos/cmd/iam.go\<close>.
\<close>

section \<open>Decisions\<close>

lemma IAMSys_IsAllowed_regular:
  assumes "sys_ready sys" and "ia_AccountName args = u" and "u \<noteq> []"
    and "iamUsersMap sys u = Some cr" and "\<not> IsTemp cr" and "\<not> ia_IsOwner args"
    and docs: "\<And>n doc. iamPolicyDocsMap sys n = Some doc \<Longrightarrow> list_all (\<lambda>s. list_all Function_wf (ist_Conditions s)) (ip_Statements doc)"
    and ok: "request_ok (ia_ConditionValues args)"
  shows "IAMSys_IsAllowed uf parse args sys =
    Some (\<not> cred_IsServiceAccount cr \<and> Status cr \<noteq> statusDisabled \<and>
      \<not> (\<exists>st \<in> user_statements sys u. ist_Effect st = Deny \<and> iam_applies uf st args) \<and>
      (\<exists>st \<in> user_statements sys u. ist_Effect st = Allow \<and> iam_applies uf st args))"
proof (cases "cred_IsServiceAccount cr \<or> Status cr = statusDisabled")
  case True
  with assms(1-6) show ?thesis
    by (auto simp: IAMSys_IsAllowed_def IsTempUser_def IsServiceAccount_def IsAllowedServiceAccount_def PolicyDBGet_def policyDBGet_def)
next
  case False
  from policyDBGet_effective [OF assms(4)] False obtain ps
    where ps: "policyDBGet u False sys = Inr ps" "set ps = effective_policies sys u" by blast
  have start: "IAMSys_IsAllowed uf parse args sys =
      (if length ps = 0 then Some False
       else case availablePolicies sys ps of [] \<Rightarrow> Some False
         | p # qs \<Rightarrow> iam_Policy_IsAllowed uf (combinedPolicy p qs) args)"
    using assms(1-6) False ps(1) by (simp add: IAMSys_IsAllowed_def IsTempUser_def IsServiceAccount_def PolicyDBGet_def)
  show ?thesis
  proof (cases "availablePolicies sys ps")
    case Nil
    then have "user_statements sys u = {}" using ps(2) by (rule available_none)
    with start Nil show ?thesis by simp
  next
    case (Cons p qs)
    have stmts: "set (ip_Statements (combinedPolicy p qs)) = user_statements sys u"
      using Cons ps(2) by (rule available_statements)
    have "\<forall>doc \<in> set (p # qs). list_all (\<lambda>s. list_all Function_wf (ist_Conditions s)) (ip_Statements doc)"
      using set_availablePolicies [of sys ps] docs unfolding Cons by blast
    then have "list_all (\<lambda>s. list_all Function_wf (ist_Conditions s)) (ip_Statements (combinedPolicy p qs))"
      by (auto simp: combinedPolicy_statements list_all_iff)
    from iam_statements_allowed_applies [OF this ok]
    have "iam_Policy_IsAllowed uf (combinedPolicy p qs) args =
      Some (\<not> (\<exists>st \<in> user_statements sys u. ist_Effect st = Deny \<and> iam_applies uf st args) \<and>
        (\<exists>st \<in> user_statements sys u. ist_Effect st = Allow \<and> iam_applies uf st args))"
      using assms(6) by (simp add: iam_Policy_IsAllowed_def stmts)
    moreover have "ps \<noteq> []" using Cons by (auto simp: availablePolicies_def)
    ultimately show ?thesis using start Cons False by simp
  qed
qed

section \<open>Properties\<close>

text \<open>C13: A request of a known user that is neither the owner nor temporary is allowed exactly when
  the user is no service account, is not disabled, and among the statements of all documents that
  are mapped to the user or to an enabled group of the user none with effect Deny applies and one
  with effect Allow does.\<close>

theorem IAMSys_IsAllowed_decision:
  assumes "sys_ready sys" and "ia_AccountName args = u" and "u \<noteq> []"
    and "iamUsersMap sys u = Some cr" and "\<not> IsTemp cr" and "\<not> ia_IsOwner args"
    and "\<And>n doc. iamPolicyDocsMap sys n = Some doc \<Longrightarrow> list_all (\<lambda>s. list_all Function_wf (ist_Conditions s)) (ip_Statements doc)"
    and "request_ok (ia_ConditionValues args)"
  shows "IAMSys_IsAllowed uf parse args sys =
    Some (\<not> cred_IsServiceAccount cr \<and> Status cr \<noteq> statusDisabled \<and>
      \<not> (\<exists>st \<in> user_statements sys u. ist_Effect st = Deny \<and> iam_applies uf st args) \<and>
      (\<exists>st \<in> user_statements sys u. ist_Effect st = Allow \<and> iam_applies uf st args))"
  using assms by (rule IAMSys_IsAllowed_regular)

definition ex_cred :: Credentials where
  "ex_cred = zero_cred\<lparr>AccessKey := ''alice'', SecretKey := ''12345678''\<rparr>"

definition ex_sys :: IAMSys where
  "ex_sys = (NewIAMSys Map.empty)\<lparr>sys_ready := True, iamUsersMap := [''alice'' \<mapsto> ex_cred],
     iamPolicyDocsMap := [''admin'' \<mapsto> \<lparr>ip_ID = [], ip_Version = [], ip_Statements = [ex_iam_allow]\<rparr>],
     iamUserPolicyMap := [''alice'' \<mapsto> newMappedPolicy ''admin'']\<rparr>"

lemma ex_cred_simps [simp]: "\<not> IsTemp ex_cred" "\<not> cred_IsServiceAccount ex_cred" "Status ex_cred = []"
  by (simp_all add: ex_cred_def zero_cred_def cred_defs)

definition ex_env :: iam_env where
  "ex_env = \<lparr>env_get = \<lambda>_. None, env_put = \<lambda>_. None, env_del = \<lambda>_. None,
     enc_policy = \<lambda>_. Some ''p'', dec_policy = \<lambda>_. None, enc_user = \<lambda>_. Some ''u'', dec_user = \<lambda>_. None,
     enc_group = \<lambda>_. Some ''g'', dec_group = \<lambda>_. None, enc_mapped = \<lambda>_. Some ''m'', dec_mapped = \<lambda>_. None,
     env_now = unix_time 0, globalActiveCred = zero_cred, globalOldCred = zero_cred, env_resign = \<lambda>_. None\<rparr>"

lemma ex_sys_statements: "user_statements ex_sys ''alice'' = {ex_iam_allow}"
  by (auto simp: user_statements_def effective_policies_def ex_sys_def mapped_policy_def newMappedPolicy_def
      member_groups_def NewIAMSys_def)

theorem IAMSys_IsAllowed_decision_witness:
  "IAMSys_IsAllowed id (\<lambda>_. None) (ex_iam_args ServerInfoAdminAction []) ex_sys = Some True"
proof -
  have wf: "list_all (\<lambda>s. list_all Function_wf (ist_Conditions s)) (ip_Statements doc)"
    if "iamPolicyDocsMap ex_sys n = Some doc" for n doc
    using that by (auto simp: ex_sys_def NewIAMSys_def ex_iam_statement_fields split: if_splits)
  have "sys_ready ex_sys" "iamUsersMap ex_sys ''alice'' = Some ex_cred" by (simp_all add: ex_sys_def)
  moreover have "ia_AccountName (ex_iam_args ServerInfoAdminAction []) = ''alice''" by (simp add: ex_iam_args_def)
  ultimately show ?thesis
    using IAMSys_IsAllowed_decision [where sys = ex_sys and u = "''alice''" and cr = ex_cred and uf = id
        and parse = "\<lambda>_. None", OF _ _ _ _ _ ex_iam_fields(1) wf ex_iam_ok(1)] ex_iam_applies(1)
    by (simp add: ex_sys_statements ex_iam_statement_fields statusDisabled_def)
qed


definition ex_empty_listings :: iam_listings where
  "ex_empty_listings = \<lparr>ls_policies = [], ls_sts = [], ls_users = [], ls_service = [], ls_groups = [],
     ls_userPolicies = [], ls_stsPolicies = [], ls_groupPolicies = []\<rparr>"

definition ex_start :: IAMSys where
  "ex_start = (NewIAMSys Map.empty)\<lparr>sys_ready := True, iamPolicyDocsMap := setDefaultCannedPolicies Map.empty,
     groupPolicyMap_made := True\<rparr>"

lemma ex_start_load: "loadAll ex_env ex_empty_listings [] ((NewIAMSys Map.empty)\<lparr>sys_ready := True\<rparr>) = (ex_start, None)"
  by (simp add: loadAll_def ex_empty_listings_def NewIAMSys_def IPOSUsersSysType_def loadPolicyDocs_def loadUsers_def
      loadGroups_def loadMappedPolicies_def buildUserGroupMemberships_def ex_start_def)

definition ex_dev :: IAMSys where
  "ex_dev = fst (AddUsersToGroup ex_env ''dev'' [''alice'']
     (fst (SetTempUser ex_env ''alice'' ex_cred [] ex_start)))"

lemma ex_dev_reachable: "iam_reachable ex_dev"
proof -
  have "iam_reachable ex_start" by (rule iam_start [OF ex_start_load]) (simp add: ex_start_def NewIAMSys_def)
  then show ?thesis unfolding ex_dev_def by (blast intro: iam_next iam_step.intros)
qed

lemma ex_dev_simps:
  "iamGroupsMap ex_dev = [''dev'' \<mapsto> newGroupInfo [''alice'']]"
  "iamUserGroupMemberships ex_dev = [''alice'' \<mapsto> {|''dev''|}]"
  "usersSysType ex_dev = IPOSUsersSysType"
  by (simp_all add: ex_dev_def AddUsersToGroup_def SetTempUser_def if_saved_cases saveUserIdentity_def saveGroupInfo_def
      saveIAMConfig_def saveConfig_def ex_env_def ex_start_def NewIAMSys_def Let_def check_members_def IPOSUsersSysType_def
      add_membership_def CreateStringSet_def StringSet_Add_def NewStringSet_def)


text \<open>C29: A refresh from the store adds memberships and takes none away: a user who was taken out of a
  group by another server keeps the group's policy.\<close>

theorem refresh_keeps_memberships:
  assumes "loadAll env ls gs sys = (sys', e)" and "g |\<in>| member_groups sys u"
  shows "g |\<in>| member_groups sys' u \<and>
    (iamGroupsMap sys' g = Some gi \<and> u \<notin> set (gi_Members gi) \<and> gi_Status gi \<noteq> statusDisabled \<and>
     mapped_policy (iamGroupPolicyMap sys') g = p \<and> p \<noteq> [] \<longrightarrow> p \<in> effective_policies sys' u)"
proof -
  have "g |\<in>| member_groups sys' u"
    using loadAll_frame [OF assms(1)] assms(2) buildUserGroupMemberships_groups [of gs _ u]
    by (auto simp: fset_member_groups same_groups_def)
  then show ?thesis by (auto simp: effective_policies_def)
qed

definition ex_shrunk_env :: iam_env where
  "ex_shrunk_env = ex_env\<lparr>dec_group := \<lambda>_. Some (newGroupInfo []),
     dec_mapped := \<lambda>_. Some (newMappedPolicy ''readwrite'')\<rparr>"

definition ex_dev_listings :: iam_listings where
  "ex_dev_listings = ex_empty_listings\<lparr>ls_groups := [Inr ''dev''], ls_groupPolicies := [Inr ''dev.json'']\<rparr>"

definition ex_dev_disk :: IAMSys where
  "ex_dev_disk = ex_dev\<lparr>iam_disk := \<lambda>_. Some ''x''\<rparr>"

theorem refresh_keeps_memberships_witness:
  "let r = loadAll ex_shrunk_env ex_dev_listings [''dev''] ex_dev_disk
   in snd r = None \<and> iamGroupsMap (fst r) ''dev'' = Some (newGroupInfo []) \<and>
      ''readwrite'' \<in> effective_policies (fst r) ''alice''"
proof -
  let ?r = "loadAll ex_shrunk_env ex_dev_listings [''dev''] ex_dev_disk"
  have trim: "TrimSuffix ''dev.json'' ''.json'' = ''dev''" by (simp add: TrimSuffix_def HasSuffix_def)
  have r: "snd ?r = None \<and> iamGroupsMap (fst ?r) ''dev'' = Some (newGroupInfo []) \<and>
      mapped_policy (iamGroupPolicyMap (fst ?r)) ''dev'' = ''readwrite''"
    by (simp add: loadAll_def ex_dev_listings_def ex_empty_listings_def ex_dev_disk_def ex_shrunk_env_def ex_env_def
        loadPolicyDocs_def loadUsers_def loadGroups_def loadMappedPolicies_def loadGroup_def loadMappedPolicy_def
        loadIAMConfig_def readConfig_def buildUserGroupMemberships_def updateGroupMembershipsMap_def trim Let_def
        mapped_policy_def newMappedPolicy_def newGroupInfo_def ex_dev_simps)
  have in_dev: "''dev'' |\<in>| member_groups ex_dev_disk ''alice''"
    by (simp add: ex_dev_disk_def member_groups_def ex_dev_simps)
  have load: "?r = (fst ?r, None)" using r by (simp add: prod_eq_iff)
  from refresh_keeps_memberships [OF load in_dev, of "newGroupInfo []" "''readwrite''"] r
  show ?thesis by (simp add: newGroupInfo_def statusEnabled_def statusDisabled_def Let_def)
qed

text \<open>C30: A temporary user that \<open>SetTempUser\<close> has made can do nothing: the policy it was called with
  is not mapped, and without a mapping the decision is no.\<close>

theorem temporary_users_refused:
  assumes "SetTempUser env a cred policyName sys = (sys', None)" and "IsTemp cred"
    and "iamUserPolicyMap sys a = None" and "ia_AccountName args = a" and "\<not> ia_IsOwner args"
  shows "IAMSys_IsAllowed uf parse args sys' = Some False"
proof -
  from assms(1) have "iamUsersMap sys' a = Some cred" "iamUserPolicyMap sys' = iamUserPolicyMap sys" "sys_ready sys'"
    by (auto simp: SetTempUser_def if_saved_cases Let_def split: if_splits option.splits)
  with assms(2-5) show ?thesis
    by (simp add: IAMSys_IsAllowed_def IsTempUser_def IsAllowedSTS_def split: prod.split)
qed

definition ex_temp :: Credentials where
  "ex_temp = zero_cred\<lparr>AccessKey := ''temp'', SecretKey := ''12345678'', SessionToken := ''t'', Expiration := unix_time 1\<rparr>"

lemma ex_temp_temp: "IsTemp ex_temp"
  by (simp add: ex_temp_def zero_cred_def cred_defs unix_time_def time_IsZero_def zero_time_def time_Equal_def timeSentinel_def)

theorem temporary_users_refused_witness:
  "IAMSys_IsAllowed id (\<lambda>_. None) ((ex_iam_args GetObjectAction ''o'')\<lparr>ia_AccountName := ''temp''\<rparr>)
     (fst (SetTempUser ex_env ''temp'' ex_temp ''admin'' ex_sys)) = Some False"
proof -
  have "SetTempUser ex_env ''temp'' ex_temp ''admin'' ex_sys = (fst (SetTempUser ex_env ''temp'' ex_temp ''admin'' ex_sys), None)"
    by (simp add: SetTempUser_def if_saved_cases saveUserIdentity_def saveIAMConfig_def saveConfig_def ex_env_def ex_sys_def Let_def)
  from temporary_users_refused [OF this ex_temp_temp] show ?thesis
    by (simp add: ex_sys_def NewIAMSys_def ex_iam_args_def)
qed

text \<open>\<open>SetUserStatus\<close> and \<open>SetUser\<close> write different words for a disabled user.  After
  \<open>SetUserStatus\<close> the user cannot sign in, but the policies still apply; a user that \<open>SetUser\<close> made
  disabled signs in, and no policy applies.\<close>

theorem disabled_means_two_things:
  assumes "sys_ready sys" and "SetUserStatus env a AccountDisabled sys = (sys1, None)"
    and "SetUser env a \<lparr>info_SecretKey = k, info_PolicyName = [], info_Status = AccountDisabled, info_MemberOf = []\<rparr> sys =
      Some (sys2, None)"
    and "secretKeyMinLen \<le> length k" and "accessKeyMinLen \<le> length a"
  shows "\<not> snd (GetUser env a sys1) \<and>
    (\<exists>ps. policyDBGet a False sys1 = Inr ps \<and> set ps = effective_policies sys a) \<and>
    snd (GetUser env a sys2) \<and> policyDBGet a False sys2 = Inr []"
proof -
  from assms(2) obtain cred where cred: "iamUsersMap sys a = Some cred"
    by (auto simp: SetUserStatus_def split: if_splits option.splits)
  with assms(2) have s1: "sys1 = sys\<lparr>iam_disk := iam_disk sys1, iamUsersMap := (iamUsersMap sys)(a \<mapsto>
      zero_cred\<lparr>AccessKey := a, SecretKey := SecretKey cred, Status := EnableOff\<rparr>)\<rparr>"
    by (auto simp: SetUserStatus_def if_saved_cases Let_def newUserIdentity_def AccountEnabled_def AccountDisabled_def
        split: if_splits option.splits)
  from assms(3) have s2: "sys2 = sys\<lparr>iam_disk := iam_disk sys2, iamUsersMap := (iamUsersMap sys)(a \<mapsto>
      zero_cred\<lparr>AccessKey := a, SecretKey := k, Status := AccountDisabled\<rparr>)\<rparr>"
    by (auto simp: SetUser_def on_disk_def Let_def newUserIdentity_def assms(1) split: if_splits option.splits prod.splits)
  have u1: "iamUsersMap sys1 a = Some (zero_cred\<lparr>AccessKey := a, SecretKey := SecretKey cred, Status := EnableOff\<rparr>)"
    and u2: "iamUsersMap sys2 a = Some (zero_cred\<lparr>AccessKey := a, SecretKey := k, Status := AccountDisabled\<rparr>)"
    and ready: "sys_ready sys2"
    by (subst s1, simp) (subst s2, simp add: assms(1))+
  have "iamUserPolicyMap sys1 = iamUserPolicyMap sys" "iamGroupsMap sys1 = iamGroupsMap sys"
    "iamGroupPolicyMap sys1 = iamGroupPolicyMap sys" "iamUserGroupMemberships sys1 = iamUserGroupMemberships sys"
    by (subst s1, simp)+
  then have "effective_policies sys1 a = effective_policies sys a"
    by (simp add: effective_policies_def member_groups_def)
  with policyDBGet_effective [OF u1] have "\<exists>ps. policyDBGet a False sys1 = Inr ps \<and> set ps = effective_policies sys a"
    by (simp add: EnableOff_def statusDisabled_def)
  moreover have "\<not> snd (GetUser env a sys1)"
    by (simp add: u1 GetUser_def cred_IsValid_def EnableOff_def)
  moreover have "snd (GetUser env a sys2)"
    using ready assms(4,5) by (simp add: u2 GetUser_def cred_defs AccountDisabled_def zero_cred_def)
  moreover have "policyDBGet a False sys2 = Inr []"
    by (simp add: u2 policyDBGet_def AccountDisabled_def statusDisabled_def)
  ultimately show ?thesis by blast
qed

theorem disabled_means_two_things_witness:
  "\<not> snd (GetUser ex_env ''alice'' (fst (SetUserStatus ex_env ''alice'' AccountDisabled ex_sys)))"
proof -
  let ?info = "\<lparr>info_SecretKey = ''12345678'', info_PolicyName = [], info_Status = AccountDisabled, info_MemberOf = []\<rparr>"
  have 1: "SetUserStatus ex_env ''alice'' AccountDisabled ex_sys = (fst (SetUserStatus ex_env ''alice'' AccountDisabled ex_sys), None)"
    by (simp add: SetUserStatus_def if_saved_cases saveUserIdentity_def saveIAMConfig_def saveConfig_def ex_env_def ex_sys_def
        Let_def AccountDisabled_def AccountEnabled_def NewIAMSys_def)
  have "\<exists>s. SetUser ex_env ''alice'' ?info ex_sys = Some (s, None)"
    by (simp add: SetUser_def on_disk_def saveUserIdentity_def saveIAMConfig_def saveConfig_def ex_env_def ex_sys_def
        Let_def NewIAMSys_def)
  then obtain s where 2: "SetUser ex_env ''alice'' ?info ex_sys = Some (s, None)" ..
  from disabled_means_two_things [OF _ 1 2] show ?thesis by (simp add: ex_sys_def key_lens)
qed

end
