(* ===== verification/IAMOps.thy ===== *)
theory IAMOps
  imports IAMDecide
begin

text \<open>
  The operations of the user management of \<open>cmd/ipos/cmd/iam.go\<close> from end to end: what a deletion
  removes, what a load from the store sees, and what becomes of service accounts.
\<close>

section \<open>Deleting a policy\<close>

definition deletes_work :: "iam_env \<Rightarrow> bool" where
  "deletes_work env \<longleftrightarrow> env_del env = (\<lambda>_. None)"

lemma deleteMappedPolicy_result:
  "deletes_work env \<Longrightarrow> snd (deleteMappedPolicy env d n t b) = None \<or> snd (deleteMappedPolicy env d n t b) = Some errNoSuchPolicy"
  by (simp add: deletes_work_def deleteMappedPolicy_def deleteIAMConfig_def deleteConfig_def not_found_as_def)

lemma unset_user:
  assumes "deletes_work env" and "u \<noteq> []" and "iamUsersMap s u \<noteq> None"
  shows "\<exists>d. policyDBSet env u [] t False s =
    Some (s\<lparr>iam_disk := d, iamUserPolicyMap := (iamUserPolicyMap s)(u := None)\<rparr>, None)"
  using deleteMappedPolicy_result [OF assms(1), of "iam_disk s" u t False] assms(2,3)
  by (auto simp: policyDBSet_def on_disk_def)

lemma unset_group:
  assumes "deletes_work env" and "g \<noteq> []" and "iamGroupsMap s g \<noteq> None"
  shows "\<exists>d. policyDBSet env g [] t True s =
    Some (s\<lparr>iam_disk := d, iamGroupPolicyMap := (iamGroupPolicyMap s)(g := None)\<rparr>, None)"
  using deleteMappedPolicy_result [OF assms(1), of "iam_disk s" g t True] assms(2,3)
  by (auto simp: policyDBSet_def on_disk_def)

lemma unmap_user_eq:
  assumes "deletes_work env" and "u \<noteq> []" and "iamUsersMap s u \<noteq> None"
  shows "\<exists>d. unmap_user env u s = s\<lparr>iam_disk := d, iamUserPolicyMap := (iamUserPolicyMap s)(u := None)\<rparr>"
proof -
  define t where "t = (case iamUsersMap s u of Some cr \<Rightarrow> if IsTemp cr then stsUser else regularUser | None \<Rightarrow> regularUser)"
  obtain d where "policyDBSet env u [] t False s =
      Some (s\<lparr>iam_disk := d, iamUserPolicyMap := (iamUserPolicyMap s)(u := None)\<rparr>, None)"
    using unset_user [OF assms] by blast
  then have "unmap_user env u s = s\<lparr>iam_disk := d, iamUserPolicyMap := (iamUserPolicyMap s)(u := None)\<rparr>"
    by (simp add: unmap_user_def t_def [symmetric])
  then show ?thesis by (rule exI [of _ d])
qed

lemma unmap_group_eq:
  assumes "deletes_work env" and "g \<noteq> []" and "iamGroupsMap s g \<noteq> None"
  shows "\<exists>d. unmap_group env g s = s\<lparr>iam_disk := d, iamGroupPolicyMap := (iamGroupPolicyMap s)(g := None)\<rparr>"
proof -
  obtain d where "policyDBSet env g [] regularUser True s =
      Some (s\<lparr>iam_disk := d, iamGroupPolicyMap := (iamGroupPolicyMap s)(g := None)\<rparr>, None)"
    using unset_group [OF assms] by blast
  then have "unmap_group env g s = s\<lparr>iam_disk := d, iamGroupPolicyMap := (iamGroupPolicyMap s)(g := None)\<rparr>"
    by (simp add: unmap_group_def)
  then show ?thesis by (rule exI [of _ d])
qed

definition without :: "(string \<Rightarrow> 'a option) \<Rightarrow> string set \<Rightarrow> string \<Rightarrow> 'a option" where
  "without m A = (\<lambda>x. if x \<in> A then None else m x)"

lemma without_insert: "without (m(x := None)) A = without m (insert x A)"
  by (auto simp: without_def fun_eq_iff)

lemma without_empty [simp]: "without m {} = m"
  by (simp add: without_def)

lemma unmap_users_eq:
  assumes "deletes_work env" and "\<And>u. u \<in> set us \<Longrightarrow> u \<noteq> [] \<and> iamUsersMap s u \<noteq> None"
  shows "\<exists>d. fold (unmap_user env) us s = s\<lparr>iam_disk := d, iamUserPolicyMap := without (iamUserPolicyMap s) (set us)\<rparr>"
  using assms(2)
proof (induction us arbitrary: s)
  case Nil
  have "s = s\<lparr>iam_disk := iam_disk s, iamUserPolicyMap := without (iamUserPolicyMap s) (set [])\<rparr>" by simp
  then show ?case by (metis fold_simps(1))
next
  case (Cons u us)
  obtain d where d: "unmap_user env u s = s\<lparr>iam_disk := d, iamUserPolicyMap := (iamUserPolicyMap s)(u := None)\<rparr>"
    using unmap_user_eq [OF assms(1)] Cons.prems by (meson list.set_intros(1))
  have "\<exists>d'. fold (unmap_user env) us (unmap_user env u s) = (unmap_user env u s)\<lparr>iam_disk := d',
      iamUserPolicyMap := without (iamUserPolicyMap (unmap_user env u s)) (set us)\<rparr>"
    using Cons.prems by (intro Cons.IH) (simp add: d)
  then show ?case by (auto simp: d without_insert)
qed

lemma unmap_groups_eq:
  assumes "deletes_work env" and "\<And>g. g \<in> set gs \<Longrightarrow> g \<noteq> [] \<and> iamGroupsMap s g \<noteq> None"
  shows "\<exists>d. fold (unmap_group env) gs s = s\<lparr>iam_disk := d, iamGroupPolicyMap := without (iamGroupPolicyMap s) (set gs)\<rparr>"
  using assms(2)
proof (induction gs arbitrary: s)
  case Nil
  have "s = s\<lparr>iam_disk := iam_disk s, iamGroupPolicyMap := without (iamGroupPolicyMap s) (set [])\<rparr>" by simp
  then show ?case by (metis fold_simps(1))
next
  case (Cons g gs)
  obtain d where d: "unmap_group env g s = s\<lparr>iam_disk := d, iamGroupPolicyMap := (iamGroupPolicyMap s)(g := None)\<rparr>"
    using unmap_group_eq [OF assms(1)] Cons.prems by (meson list.set_intros(1))
  have "\<exists>d'. fold (unmap_group env) gs (unmap_group env g s) = (unmap_group env g s)\<lparr>iam_disk := d',
      iamGroupPolicyMap := without (iamGroupPolicyMap (unmap_group env g s)) (set gs)\<rparr>"
    using Cons.prems by (intro Cons.IH) (simp add: d)
  then show ?case by (auto simp: d without_insert)
qed

text \<open>The loop of \<open>DeletePolicy\<close> when every mapped user and group is known.\<close>

lemma DeletePolicy_known:
  assumes "sys_ready sys" and "p \<noteq> []" and "deletes_work env"
    and us: "\<And>u. mapped_to (iamUserPolicyMap sys) p u \<Longrightarrow> u \<in> set users \<and> u \<noteq> [] \<and> iamUsersMap sys u \<noteq> None"
    and gs: "\<And>g. mapped_to (iamGroupPolicyMap sys) p g \<Longrightarrow> g \<in> set groups \<and> g \<noteq> [] \<and> iamGroupsMap sys g \<noteq> None"
  shows "\<exists>d. DeletePolicy env users groups p sys =
    (sys\<lparr>iam_disk := d, iamPolicyDocsMap := (iamPolicyDocsMap sys)(p := None),
       iamUserPolicyMap := without (iamUserPolicyMap sys) {u. mapped_to (iamUserPolicyMap sys) p u},
       iamGroupPolicyMap := without (iamGroupPolicyMap sys) {g. mapped_to (iamGroupPolicyMap sys) p g}\<rparr>, None)"
proof -
  let ?usersToDel = "filter (mapped_to (iamUserPolicyMap sys) p) users"
  let ?groupsToDel = "filter (mapped_to (iamGroupPolicyMap sys) p) groups"
  have users: "set ?usersToDel = {u. mapped_to (iamUserPolicyMap sys) p u}" using us by auto
  have groups: "set ?groupsToDel = {g. mapped_to (iamGroupPolicyMap sys) p g}" using gs by auto
  obtain d e where del: "deletePolicyDoc env (iam_disk sys) p = (d, e)" by fastforce
  then have e: "e = None \<or> e = Some errNoSuchPolicy"
    using assms(3) by (auto simp: deletes_work_def deletePolicyDoc_def deleteIAMConfig_def deleteConfig_def not_found_as_def
        split: if_splits)
  define s1 where "s1 = sys\<lparr>iam_disk := d, iamPolicyDocsMap := (iamPolicyDocsMap sys)(p := None)\<rparr>"
  have known: "\<not> list_ex (\<lambda>u. iamUsersMap s1 u = None) ?usersToDel" using us by (auto simp: list_ex_iff s1_def)
  obtain d2 where d2: "fold (unmap_user env) ?usersToDel s1 =
      s1\<lparr>iam_disk := d2, iamUserPolicyMap := without (iamUserPolicyMap s1) (set ?usersToDel)\<rparr>"
    using unmap_users_eq [OF assms(3), of ?usersToDel s1] us by (auto simp: s1_def)
  let ?s2 = "s1\<lparr>iam_disk := d2, iamUserPolicyMap := without (iamUserPolicyMap s1) (set ?usersToDel)\<rparr>"
  obtain d3 where d3: "fold (unmap_group env) ?groupsToDel ?s2 =
      ?s2\<lparr>iam_disk := d3, iamGroupPolicyMap := without (iamGroupPolicyMap ?s2) (set ?groupsToDel)\<rparr>"
    using unmap_groups_eq [OF assms(3), of ?groupsToDel ?s2] gs by (auto simp: s1_def)
  have "DeletePolicy env users groups p sys =
      (fold (unmap_group env) ?groupsToDel (fold (unmap_user env) ?usersToDel s1), None)"
    using assms(1,2) del e known d2 by (auto simp: DeletePolicy_def on_disk_def Let_def s1_def)
  also have "fold (unmap_group env) ?groupsToDel (fold (unmap_user env) ?usersToDel s1) =
      sys\<lparr>iam_disk := d3, iamPolicyDocsMap := (iamPolicyDocsMap sys)(p := None),
       iamUserPolicyMap := without (iamUserPolicyMap sys) {u. mapped_to (iamUserPolicyMap sys) p u},
       iamGroupPolicyMap := without (iamGroupPolicyMap sys) {g. mapped_to (iamGroupPolicyMap sys) p g}\<rparr>"
    unfolding d2 unfolding d3 unfolding users groups by (simp add: s1_def)
  finally show ?thesis by blast
qed

section \<open>Deleting a user\<close>

definition saves_work :: "iam_env \<Rightarrow> bool" where
  "saves_work env \<longleftrightarrow> env_put env = (\<lambda>_. None) \<and> (\<forall>gi. enc_group env gi \<noteq> None)"

lemma leave_one:
  assumes "saves_work env" and "sys_ready s" and "usersSysType s = IPOSUsersSysType" and "g \<noteq> []"
    and "iamUsersMap s a = Some cr" and "\<not> IsTemp cr" and "iamGroupsMap s g = Some gi"
  shows "\<exists>d gi'. set (gi_Members gi') = set (gi_Members gi) - {a} \<and>
    RemoveUsersFromGroup env g [a] s =
      (s\<lparr>iam_disk := d, iamGroupsMap := (iamGroupsMap s)(g \<mapsto> gi'),
         iamUserGroupMemberships := remove_membership g a (iamUserGroupMemberships s)\<rparr>, None)"
proof -
  let ?gi = "gi\<lparr>gi_Members := StringSet_ToSlice (StringSet_Difference (CreateStringSet (gi_Members gi)) (CreateStringSet [a]))\<rparr>"
  obtain data where "enc_group env ?gi = Some data" using assms(1) unfolding saves_work_def by blast
  then obtain d where save: "saveGroupInfo env (iam_disk s) g ?gi = (d, None)"
    using assms(1) by (simp add: saves_work_def saveGroupInfo_def saveIAMConfig_def saveConfig_def)
  have "RemoveUsersFromGroup env g [a] s =
      (s\<lparr>iam_disk := d, iamGroupsMap := (iamGroupsMap s)(g \<mapsto> ?gi),
         iamUserGroupMemberships := remove_membership g a (iamUserGroupMemberships s)\<rparr>, None)"
    using assms(2-7) save by (simp add: RemoveUsersFromGroup_def check_members_def if_saved_cases Let_def)
  moreover have "set (gi_Members ?gi) = set (gi_Members gi) - {a}" by (auto simp: StringSet_Difference_def)
  ultimately show ?thesis by blast
qed

text \<open>What a state keeps while a user leaves groups.\<close>

definition same_users :: "IAMSys \<Rightarrow> IAMSys \<Rightarrow> bool" where
  "same_users s s' \<longleftrightarrow> iamUsersMap s' = iamUsersMap s \<and> iamUserPolicyMap s' = iamUserPolicyMap s \<and>
     iamPolicyDocsMap s' = iamPolicyDocsMap s \<and> usersSysType s' = usersSysType s \<and> sys_ready s' = sys_ready s"

lemma leave_groups_all:
  assumes "saves_work env" and "sys_ready s" and "usersSysType s = IPOSUsersSysType"
    and "iamUsersMap s a = Some cr" and "\<not> IsTemp cr"
    and "\<And>g. g \<in> set gs \<Longrightarrow> g \<noteq> [] \<and> iamGroupsMap s g \<noteq> None"
  shows "\<exists>s'. leave_groups env a gs s = (s', None) \<and> same_users s s' \<and>
    (\<forall>u. groups_of (iamUserGroupMemberships s') u = groups_of (iamUserGroupMemberships s) u - (if u = a then set gs else {})) \<and>
    (\<forall>g. members_of (iamGroupsMap s') g = members_of (iamGroupsMap s) g - (if g \<in> set gs then {a} else {}))"
  using assms(2-6)
proof (induction gs arbitrary: s)
  case Nil
  then show ?case by (simp add: same_users_def)
next
  case (Cons g gs)
  from Cons.prems(5) [of g] obtain gi where g: "g \<noteq> []" "iamGroupsMap s g = Some gi" by auto
  from leave_one [OF assms(1) Cons.prems(1,2) g(1) Cons.prems(3,4) g(2)] obtain d gi'
    where gi': "set (gi_Members gi') = set (gi_Members gi) - {a}"
      and r: "RemoveUsersFromGroup env g [a] s = (s\<lparr>iam_disk := d, iamGroupsMap := (iamGroupsMap s)(g \<mapsto> gi'),
         iamUserGroupMemberships := remove_membership g a (iamUserGroupMemberships s)\<rparr>, None)" by blast
  define s1 where "s1 = s\<lparr>iam_disk := d, iamGroupsMap := (iamGroupsMap s)(g \<mapsto> gi'),
         iamUserGroupMemberships := remove_membership g a (iamUserGroupMemberships s)\<rparr>"
  have s1: "same_users s s1" by (simp add: same_users_def s1_def)
  have "\<exists>s'. leave_groups env a gs s1 = (s', None) \<and> same_users s1 s' \<and>
    (\<forall>u. groups_of (iamUserGroupMemberships s') u = groups_of (iamUserGroupMemberships s1) u - (if u = a then set gs else {})) \<and>
    (\<forall>g. members_of (iamGroupsMap s') g = members_of (iamGroupsMap s1) g - (if g \<in> set gs then {a} else {}))"
    using Cons.prems s1 by (intro Cons.IH) (auto simp: same_users_def s1_def)
  then obtain s' where s': "leave_groups env a gs s1 = (s', None)" "same_users s1 s'"
    "\<And>u. groups_of (iamUserGroupMemberships s') u = groups_of (iamUserGroupMemberships s1) u - (if u = a then set gs else {})"
    "\<And>g. members_of (iamGroupsMap s') g = members_of (iamGroupsMap s1) g - (if g \<in> set gs then {a} else {})" by blast
  have "leave_groups env a (g # gs) s = (s', None)" using r s'(1) by (simp add: s1_def)
  moreover have "same_users s s'" using s1 s'(2) by (simp add: same_users_def)
  moreover have "groups_of (iamUserGroupMemberships s') u =
      groups_of (iamUserGroupMemberships s) u - (if u = a then set (g # gs) else {})" for u
    unfolding s'(3) by (auto simp: s1_def groups_of_remove)
  moreover have "members_of (iamGroupsMap s1) h = members_of (iamGroupsMap s) h - (if h = g then {a} else {})" for h
    using g(2) gi' by (simp add: members_of_def s1_def)
  then have "members_of (iamGroupsMap s') h = members_of (iamGroupsMap s) h - (if h \<in> set (g # gs) then {a} else {})" for h
    unfolding s'(4) by auto
  ultimately show ?case by blast
qed

definition service_account_of :: "IAMSys \<Rightarrow> string \<Rightarrow> string \<Rightarrow> bool" where
  "service_account_of sys a k \<longleftrightarrow>
     (\<exists>u. iamUsersMap sys k = Some u \<and> cred_IsServiceAccount u \<and> ParentUser u = a)"

lemma delete_service_accounts:
  assumes "\<And>k u. iamUsersMap s k = Some u \<Longrightarrow> cred_IsServiceAccount u \<Longrightarrow> ParentUser u = a \<Longrightarrow> AccessKey u = k"
  shows "\<exists>d. fold (delete_service_account env a) users s =
    s\<lparr>iam_disk := d, iamUsersMap := without (iamUsersMap s) {k \<in> set users. service_account_of s a k}\<rparr>"
  using assms
proof (induction users arbitrary: s)
  case Nil
  have "s = s\<lparr>iam_disk := iam_disk s, iamUsersMap := without (iamUsersMap s) {}\<rparr>" by simp
  then have "fold (delete_service_account env a) [] s =
    s\<lparr>iam_disk := iam_disk s, iamUsersMap := without (iamUsersMap s) {k \<in> set []. service_account_of s a k}\<rparr>" by simp
  then show ?case by (rule exI [of _ "iam_disk s"])
next
  case (Cons k users)
  have "\<exists>d. delete_service_account env a k s =
      s\<lparr>iam_disk := d, iamUsersMap := without (iamUsersMap s) (if service_account_of s a k then {k} else {})\<rparr>"
  proof (cases "service_account_of s a k")
    case False
    have "s = s\<lparr>iam_disk := iam_disk s, iamUsersMap := without (iamUsersMap s) {}\<rparr>" by simp
    moreover have "delete_service_account env a k s = s"
      using False by (auto simp: delete_service_account_def service_account_of_def split: option.split)
    ultimately show ?thesis using False by metis
  next
    case True
    then obtain u where u: "iamUsersMap s k = Some u" "cred_IsServiceAccount u" "ParentUser u = a"
      by (auto simp: service_account_of_def)
    have "without (iamUsersMap s) {k} = (iamUsersMap s)(k := None)" by (auto simp: without_def)
    then have "delete_service_account env a k s = s\<lparr>iam_disk := fst (deleteUserIdentity env (iam_disk s) k srvAccUser),
        iamUsersMap := without (iamUsersMap s) {k}\<rparr>"
      using u Cons.prems [OF u] by (simp add: delete_service_account_def on_disk_def Let_def)
    with True show ?thesis by auto
  qed
  then obtain d where d: "delete_service_account env a k s =
      s\<lparr>iam_disk := d, iamUsersMap := without (iamUsersMap s) (if service_account_of s a k then {k} else {})\<rparr>" by blast
  define s1 where "s1 = delete_service_account env a k s"
  have sub: "iamUsersMap s1 x = Some u \<Longrightarrow> iamUsersMap s x = Some u" for x u
    by (simp add: s1_def d without_def split: if_splits)
  have "\<exists>d. fold (delete_service_account env a) users s1 =
      s1\<lparr>iam_disk := d, iamUsersMap := without (iamUsersMap s1) {k \<in> set users. service_account_of s1 a k}\<rparr>"
    using Cons.prems sub by (intro Cons.IH) blast
  then obtain d2 where d2: "fold (delete_service_account env a) users s1 =
      s1\<lparr>iam_disk := d2, iamUsersMap := without (iamUsersMap s1) {k \<in> set users. service_account_of s1 a k}\<rparr>" by blast
  have "without (iamUsersMap s1) {k \<in> set users. service_account_of s1 a k} =
      without (iamUsersMap s) {x \<in> set (k # users). service_account_of s a x}"
    by (auto simp: s1_def d without_def service_account_of_def fun_eq_iff)
  then have "fold (delete_service_account env a) (k # users) s =
      s\<lparr>iam_disk := d2, iamUsersMap := without (iamUsersMap s) {x \<in> set (k # users). service_account_of s a x}\<rparr>"
    using d2 by (simp add: s1_def [symmetric]) (simp add: s1_def d)
  then show ?case by (rule exI [of _ d2])
qed

lemma DeleteUser_complete:
  assumes inv: "membership_inv sys" and "sys_ready sys" and "usersSysType sys = IPOSUsersSysType"
    and "deletes_work env" and "saves_work env" and "iamUsersMap sys a = Some cr" and "\<not> IsTemp cr"
    and "iamGroupsMap sys [] = None"
    and sa: "\<And>k u. iamUsersMap sys k = Some u \<Longrightarrow> cred_IsServiceAccount u \<Longrightarrow> ParentUser u = a \<Longrightarrow>
      AccessKey u = k \<and> k \<in> set users"
  shows "\<exists>sys'. DeleteUser env users a sys = (sys', None) \<and>
    iamUsersMap sys' = without (iamUsersMap sys) (insert a {k. service_account_of sys a k}) \<and>
    iamUserPolicyMap sys' = (iamUserPolicyMap sys)(a := None) \<and>
    (\<forall>u. groups_of (iamUserGroupMemberships sys') u = (if u = a then {} else groups_of (iamUserGroupMemberships sys) u)) \<and>
    (\<forall>g. members_of (iamGroupsMap sys') g = members_of (iamGroupsMap sys) g - {a})"
proof -
  let ?gs = "StringSet_ToSlice (member_groups sys a)"
  have gs: "set ?gs = groups_of (iamUserGroupMemberships sys) a" by (simp add: fset_member_groups)
  have info: "\<exists>info. GetUserInfo env a sys = Inr info \<and> info_MemberOf info = ?gs"
    using assms by (simp add: GetUserInfo_def)
  have known: "g \<noteq> [] \<and> iamGroupsMap sys g \<noteq> None" if "g \<in> set ?gs" for g
  proof -
    have "a \<in> members_of (iamGroupsMap sys) g" using inv that gs by (simp add: membership_inv_def)
    then show ?thesis using assms(8) by (auto simp: members_of_def split: option.splits)
  qed
  from leave_groups_all [OF assms(5) assms(2) assms(3) assms(6) assms(7) known] obtain s
    where s: "leave_groups env a ?gs sys = (s, None)" "same_users sys s"
      "\<And>u. groups_of (iamUserGroupMemberships s) u = groups_of (iamUserGroupMemberships sys) u - (if u = a then set ?gs else {})"
      "\<And>g. members_of (iamGroupsMap s) g = members_of (iamGroupsMap sys) g - (if g \<in> set ?gs then {a} else {})" by blast
  define d1 where "d1 = fst (deleteMappedPolicy env (iam_disk s) a regularUser False)"
  obtain d e where del: "deleteUserIdentity env d1 a regularUser = (d, e)" by fastforce
  then have e: "e = None \<or> e = Some errNoSuchUser"
    using assms(4) by (auto simp: deletes_work_def deleteUserIdentity_def deleteIAMConfig_def deleteConfig_def not_found_as_def
        split: if_splits)
  define s3 where "s3 = s\<lparr>iam_disk := d, iamUsersMap := (iamUsersMap s)(a := None), iamUserPolicyMap := (iamUserPolicyMap s)(a := None)\<rparr>"
  have s3: "iamUsersMap s3 = (iamUsersMap sys)(a := None)" "iamUserPolicyMap s3 = (iamUserPolicyMap sys)(a := None)"
    "iamGroupsMap s3 = iamGroupsMap s" "iamUserGroupMemberships s3 = iamUserGroupMemberships s"
    using s(2) by (simp_all add: s3_def same_users_def)
  have run: "DeleteUser env users a sys = (fold (delete_service_account env a) users s3, None)"
  proof -
    obtain info where i: "GetUserInfo env a sys = Inr info" "info_MemberOf info = ?gs" using info by blast
    have "usersSysType s = IPOSUsersSysType" using s(2) assms(3) by (simp add: same_users_def)
    with i s(1) assms(2) del e show ?thesis
      by (auto simp: DeleteUser_def on_disk_def d1_def s3_def)
  qed
  have "AccessKey u = k" if "iamUsersMap s3 k = Some u" "cred_IsServiceAccount u" "ParentUser u = a" for k u
    using that sa by (auto simp: s3 split: if_splits)
  from delete_service_accounts [of s3 a env users, OF this] obtain d2
    where d2: "fold (delete_service_account env a) users s3 =
      s3\<lparr>iam_disk := d2, iamUsersMap := without (iamUsersMap s3) {k \<in> set users. service_account_of s3 a k}\<rparr>" by blast
  define sys' where "sys' = s3\<lparr>iam_disk := d2, iamUsersMap := without (iamUsersMap s3) {k \<in> set users. service_account_of s3 a k}\<rparr>"
  have "iamUsersMap sys' = without (iamUsersMap sys) (insert a {k. service_account_of sys a k})"
  proof (rule ext)
    fix k
    have "k \<in> set users" if "service_account_of sys a k" using that sa [of k] unfolding service_account_of_def by blast
    moreover have "service_account_of s3 a k \<longleftrightarrow> k \<noteq> a \<and> service_account_of sys a k"
      by (simp add: service_account_of_def s3)
    ultimately show "iamUsersMap sys' k = without (iamUsersMap sys) (insert a {k. service_account_of sys a k}) k"
      by (simp add: sys'_def s3 without_def)
  qed
  moreover have "iamUserPolicyMap sys' = (iamUserPolicyMap sys)(a := None)" by (simp add: sys'_def s3)
  moreover have "groups_of (iamUserGroupMemberships sys') u = (if u = a then {} else groups_of (iamUserGroupMemberships sys) u)" for u
    using s(3) [of u] gs by (auto simp: sys'_def s3)
  moreover have "members_of (iamGroupsMap sys') g = members_of (iamGroupsMap sys) g - {a}" for g
  proof -
    have "a \<notin> members_of (iamGroupsMap sys) g" if "g \<notin> set ?gs"
      using inv that gs by (auto simp: membership_inv_def)
    then show ?thesis using s(4) [of g] by (auto simp: sys'_def s3)
  qed
  ultimately show ?thesis using run d2 by (auto simp: sys'_def)
qed

section \<open>Properties\<close>




lemma ex_dev_users: "iamUsersMap ex_dev = [''alice'' \<mapsto> ex_cred]" "sys_ready ex_dev"
  by (simp_all add: ex_dev_def AddUsersToGroup_def SetTempUser_def if_saved_cases saveUserIdentity_def saveGroupInfo_def
      saveIAMConfig_def saveConfig_def ex_env_def ex_start_def NewIAMSys_def Let_def check_members_def IPOSUsersSysType_def)


text \<open>C31: A service account is of no use.  Its credentials sign in, and the server refuses every
  request of it; and once its status has been set it is an ordinary user without a parent, which
  the operations on service accounts no longer find.\<close>

theorem service_accounts_refused:
  assumes "NewServiceAccount env sign (Some bs1) (Some bs2) parent policy sys = (sys1, Inr cred)" and "parent \<noteq> []"
    and "length bs1 = accessKeyMaxLen" and "length bs2 = secretKeyMaxLen"
    and "ia_AccountName args = AccessKey cred" and "\<not> ia_IsOwner args"
    and "SetUserStatus env (AccessKey cred) status sys1 = (sys2, None)"
  shows "GetUser env (AccessKey cred) sys1 = (cred, True) \<and>
    IAMSys_IsAllowed uf parse args sys1 = Some False \<and>
    GetServiceAccountParent (AccessKey cred) sys1 = Inr parent \<and>
    GetServiceAccountParent (AccessKey cred) sys2 = Inl errNoSuchServiceAccount \<and>
    DeleteServiceAccount env (AccessKey cred) sys2 = (sys2, Some errNoSuchServiceAccount)"
proof -
  from assms(1) obtain cred0 claims secret where
    new: "GetNewCredentialsWithMetadata (env_now env) id (sign claims) (Some bs1) (Some bs2) ExpNil secret = Inr cred0"
    and cred: "cred = cred0\<lparr>ParentUser := parent\<rparr>"
    and sys1: "iamUsersMap sys1 (AccessKey cred) = Some cred" "sys_ready sys1" "usersSysType sys1 = IPOSUsersSysType"
    by (auto simp: NewServiceAccount_def on_disk_def Let_def split: if_splits sum.splits option.splits prod.splits)
  from new have "Expiration cred0 = timeSentinel" "Status cred0 = ''on''" "length (AccessKey cred0) = length bs1"
    "length (SecretKey cred0) = min secretKeyMaxLen (4 * ((length bs2 + 2) div 3))"
    by (auto simp: GetNewCredentialsWithMetadata_def Let_def zero_cred_def ExpToInt64_def timeSentinel_def
        slash_to_plus_def b64_enc_length split: if_splits sum.splits option.splits)
  with assms(2-4) cred have c: "cred_IsServiceAccount cred" "\<not> IsTemp cred" "cred_IsValid (env_now env) cred" "ParentUser cred = parent"
    by (simp_all add: cred_defs key_lens)
  from assms(7) sys1 have sys2: "iamUsersMap sys2 (AccessKey cred) = Some (zero_cred\<lparr>AccessKey := AccessKey cred, SecretKey := SecretKey cred,
      Status := (if status = AccountEnabled then EnableOn else EnableOff)\<rparr>)" "sys_ready sys2" "usersSysType sys2 = IPOSUsersSysType"
    by (auto simp: SetUserStatus_def if_saved_cases Let_def newUserIdentity_def split: if_splits option.splits)
  have "GetUser env (AccessKey cred) sys1 = (cred, True)" using sys1 c by (simp add: GetUser_def)
  moreover have "IAMSys_IsAllowed uf parse args sys1 = Some False"
    using sys1 c assms(5,6) by (simp add: IAMSys_IsAllowed_def IsTempUser_def IsServiceAccount_def IsAllowedServiceAccount_def)
  moreover have "GetServiceAccountParent (AccessKey cred) sys1 = Inr parent"
    using sys1 c by (simp add: GetServiceAccountParent_def)
  moreover have "GetServiceAccountParent (AccessKey cred) sys2 = Inl errNoSuchServiceAccount"
    "DeleteServiceAccount env (AccessKey cred) sys2 = (sys2, Some errNoSuchServiceAccount)"
    using sys2 by (simp_all add: GetServiceAccountParent_def DeleteServiceAccount_def cred_defs zero_cred_def)
  ultimately show ?thesis by blast
qed

theorem service_accounts_refused_witness:
  "\<exists>sys1 cred. NewServiceAccount ex_env (\<lambda>_ _ _. Some ''t'') (Some (replicate 20 0)) (Some (replicate 40 0)) ''alice'' None ex_sys =
       (sys1, Inr cred) \<and>
     IAMSys_IsAllowed id (\<lambda>_. None) ((ex_iam_args GetObjectAction ''o'')\<lparr>ia_AccountName := AccessKey cred\<rparr>) sys1 = Some False"
proof -
  have "\<exists>sys1 cred. NewServiceAccount ex_env (\<lambda>_ _ _. Some ''t'') (Some (replicate 20 0)) (Some (replicate 40 0)) ''alice'' None ex_sys =
       (sys1, Inr cred)"
    by (simp add: NewServiceAccount_def session_policy_bytes_def ex_sys_def NewIAMSys_def ex_env_def on_disk_def
        saveUserIdentity_def saveIAMConfig_def saveConfig_def GetNewCredentialsWithMetadata_def ExpToInt64_def zero_cred_def Let_def
        split: if_splits)
  then obtain sys1 cred where new: "NewServiceAccount ex_env (\<lambda>_ _ _. Some ''t'') (Some (replicate 20 0)) (Some (replicate 40 0))
      ''alice'' None ex_sys = (sys1, Inr cred)" by blast
  then have s1: "sys_ready sys1" "usersSysType sys1 = IPOSUsersSysType" "iamUsersMap sys1 (AccessKey cred) = Some cred" "ParentUser cred = ''alice''"
    by (auto simp: NewServiceAccount_def on_disk_def Let_def split: if_splits sum.splits option.splits prod.splits)
  then have "SetUserStatus ex_env (AccessKey cred) AccountEnabled sys1 = (fst (SetUserStatus ex_env (AccessKey cred) AccountEnabled sys1), None)"
    by (simp add: SetUserStatus_def if_saved_cases saveUserIdentity_def saveIAMConfig_def saveConfig_def ex_env_def Let_def IsTemp_def)
  from service_accounts_refused [OF new _ _ _ _ _ this, of "(ex_iam_args GetObjectAction ''o'')\<lparr>ia_AccountName := AccessKey cred\<rparr>"] new
  show ?thesis by (simp add: key_lens ex_iam_args_def)
qed

text \<open>C32: What another server deleted is not seen.  A group, a mapping or the mapping of a user whose
  file is gone is an error of the load, and the group with its members and policies, or the mapping,
  stays as it was.\<close>

theorem deletions_not_loaded:
  assumes "sys_ready sys" and "env_get env = (\<lambda>_. None)"
  shows "(iam_disk sys (getGroupInfoPath g) = None \<longrightarrow> LoadGroup env g sys = (sys, Some errNoSuchGroup)) \<and>
    (iam_disk sys (getMappedPolicyPath n regularUser b) = None \<longrightarrow>
       LoadPolicyMapping env n b sys = (sys, Some errNoSuchPolicy)) \<and>
    (iam_disk sys (getUserIdentityPath n t) = None \<longrightarrow> LoadUser env n t sys = (sys, Some errNoSuchUser)) \<and>
    (iam_disk sys (getPolicyDocPath n) = None \<longrightarrow> LoadPolicy env n sys = (sys, Some errNoSuchPolicy))"
proof -
  have gone: "loadIAMConfig env (iam_disk sys) dec p = Inl errConfigNotFound" if "iam_disk sys p = None" for dec p
    using that assms(2) by (simp add: loadIAMConfig_def readConfig_def)
  have "LoadGroup env g sys = (sys, Some errNoSuchGroup)" if "iam_disk sys (getGroupInfoPath g) = None"
    using assms(1) by (simp add: LoadGroup_def loadGroup_def gone [OF that] not_found_as_def)
  moreover have "LoadPolicyMapping env n b sys = (sys, Some errNoSuchPolicy)"
    if "iam_disk sys (getMappedPolicyPath n regularUser b) = None"
    using assms(1) gone [OF that, of "dec_mapped env"]
    by (cases b) (simp_all add: LoadPolicyMapping_def loadMappedPolicy_def not_found_as_def unless_not_found_def)
  moreover have "LoadUser env n t sys = (sys, Some errNoSuchUser)" if "iam_disk sys (getUserIdentityPath n t) = None"
    using assms(1) by (simp add: LoadUser_def loadUser_def gone [OF that] not_found_as_def)
  moreover have "LoadPolicy env n sys = (sys, Some errNoSuchPolicy)" if "iam_disk sys (getPolicyDocPath n) = None"
    using assms(1) by (simp add: LoadPolicy_def loadPolicyDoc_def gone [OF that] not_found_as_def)
  ultimately show ?thesis by blast
qed

theorem deletions_not_loaded_witness:
  "LoadGroup ex_env ''dev'' (ex_dev\<lparr>iam_disk := Map.empty\<rparr>) = (ex_dev\<lparr>iam_disk := Map.empty\<rparr>, Some errNoSuchGroup) \<and>
   ''dev'' |\<in>| member_groups ex_dev ''alice''"
  using deletions_not_loaded [of "ex_dev\<lparr>iam_disk := Map.empty\<rparr>" ex_env "''dev''"]
  by (simp add: ex_env_def ex_dev_users ex_dev_simps member_groups_def)

end
