(* ===== verification/IAMStoreProps.thy ===== *)
theory IAMStoreProps
  imports IAMStore
begin

text \<open>
  The files of the IAM store: one path per record for names that are single path elements, and a
  record that was saved reads back.
\<close>

section \<open>Paths of single elements\<close>

text \<open>\<open>pathJoin\<close> of a prefix, a name and perhaps a file: the elements with a slash between.\<close>

lemma pathJoin_elements:
  assumes "list_all element es" and "es \<noteq> []" and "list_all element ns" and "ns \<noteq> []"
  shows "pathJoin ((JoinOn ''/'' es @ ''/'') # ns) = JoinOn ''/'' (es @ ns)"
proof -
  have last: "\<not> HasSuffix (last ns) ''/''"
  proof
    assume "HasSuffix (last ns) ''/''"
    then have "CHR ''/'' \<in> set (last ns)" by (auto simp: HasSuffix_iff)
    moreover have "element (last ns)" using assms(3,4) by (simp add: list_all_iff)
    ultimately show False by (simp add: element_def)
  qed
  have join: "JoinOn ''/'' ((JoinOn ''/'' es @ ''/'') # ns) = JoinOn ''/'' (es @ [] # ns)"
    using assms(2,4) JoinOn_append [of es "[] # ns" "''/''"] by (cases ns) auto
  have all: "list_all (\<lambda>e. e = [] \<or> element e) (es @ [] # ns)" using assms(1,3) by (auto simp: list_all_iff)
  have hd: "hd (es @ [] # ns) \<noteq> []" using assms(1,2) by (cases es) (auto simp: element_def)
  have "filter (\<lambda>e. e \<noteq> []) (es @ [] # ns) = es @ ns"
    using assms(1,3) by (auto simp: list_all_iff element_def filter_id_conv)
  then have "path_Clean (JoinOn ''/'' (es @ [] # ns)) = JoinOn ''/'' (es @ ns)"
    using path_Clean_elements [OF all _ hd] by simp
  with join last assms(4) show ?thesis by (simp add: pathJoin_def path_Join_def Let_def)
qed

lemma pathJoin_inj:
  assumes "pathJoin ((JoinOn ''/'' es @ ''/'') # ns) = pathJoin ((JoinOn ''/'' fs @ ''/'') # ms)"
    and "list_all element es" "es \<noteq> []" "list_all element ns" "ns \<noteq> []"
    and "list_all element fs" "fs \<noteq> []" "list_all element ms" "ms \<noteq> []"
  shows "es @ ns = fs @ ms"
proof -
  have "JoinOn ''/'' (es @ ns) = JoinOn ''/'' (fs @ ms)"
    using assms(1) pathJoin_elements [OF assms(2-5)] pathJoin_elements [OF assms(6-9)] by simp
  then have "SplitOn CHR ''/'' (JoinOn ''/'' (es @ ns)) = SplitOn CHR ''/'' (JoinOn ''/'' (fs @ ms))" by simp
  moreover have "SplitOn CHR ''/'' (JoinOn ''/'' (es @ ns)) = es @ ns"
    by (rule SplitOn_JoinOn) (use assms(2-5) in \<open>auto simp: list_all_iff element_def\<close>)
  moreover have "SplitOn CHR ''/'' (JoinOn ''/'' (fs @ ms)) = fs @ ms"
    by (rule SplitOn_JoinOn) (use assms(6-9) in \<open>auto simp: list_all_iff element_def\<close>)
  ultimately show ?thesis by simp
qed

section \<open>The records and their paths\<close>

datatype iam_key =
    KeyUser string IAMUserType
  | KeyGroup string
  | KeyPolicy string
  | KeyMapped string IAMUserType bool

fun key_path :: "iam_key \<Rightarrow> string" where
  "key_path (KeyUser n t) = getUserIdentityPath n t"
| "key_path (KeyGroup n) = getGroupInfoPath n"
| "key_path (KeyPolicy n) = getPolicyDocPath n"
| "key_path (KeyMapped n t b) = getMappedPolicyPath n t b"

fun key_name :: "iam_key \<Rightarrow> string" where
  "key_name (KeyUser n t) = n"
| "key_name (KeyGroup n) = n"
| "key_name (KeyPolicy n) = n"
| "key_name (KeyMapped n t b) = n"

text \<open>The type of the user plays no part in the mapping of a group.\<close>

fun key_norm :: "iam_key \<Rightarrow> iam_key" where
  "key_norm (KeyMapped n t True) = KeyMapped n regularUser True"
| "key_norm k = k"

fun key_elements :: "iam_key \<Rightarrow> string list \<times> string list" where
  "key_elements (KeyUser n t) =
     ([''config'', ''iam'', (case t of regularUser \<Rightarrow> ''users'' | stsUser \<Rightarrow> ''sts'' | srvAccUser \<Rightarrow> ''service-accounts'')],
      [n, ''identity.json''])"
| "key_elements (KeyGroup n) = ([''config'', ''iam'', ''groups''], [n, ''members.json''])"
| "key_elements (KeyPolicy n) = ([''config'', ''iam'', ''policies''], [n, ''policy.json''])"
| "key_elements (KeyMapped n t b) =
     ([''config'', ''iam'', ''policydb'',
       (if b then ''groups'' else case t of regularUser \<Rightarrow> ''users'' | stsUser \<Rightarrow> ''sts-users'' | srvAccUser \<Rightarrow> ''service-accounts'')],
      [n @ ''.json''])"

lemma key_path_elements:
  "key_path k = pathJoin ((JoinOn ''/'' (fst (key_elements k)) @ ''/'') # snd (key_elements k))"
  by (cases k) (auto simp: getUserIdentityPath_def getGroupInfoPath_def getPolicyDocPath_def getMappedPolicyPath_def
      iam_prefix_defs split: IAMUserType.split)

lemma key_elements_ok:
  assumes "element (key_name k)"
  shows "list_all element (fst (key_elements k)) \<and> fst (key_elements k) \<noteq> [] \<and>
    list_all element (snd (key_elements k)) \<and> snd (key_elements k) \<noteq> []"
proof -
  have "element (n @ ''.json'')" if "element n" for n
    using that by (cases n) (auto simp: element_def append_eq_Cons_conv)
  with assms show ?thesis by (cases k) (auto simp: element_def split: IAMUserType.split)
qed

section \<open>The store as a map\<close>

text \<open>What the store holds under a key, and the calls that put a record there (\<open>Some\<close>) or take it
  away (\<open>None\<close>) without an error.\<close>

datatype iam_rec = RecUser UserIdentity | RecGroup GroupInfo | RecPolicy iam_Policy | RecMapped MappedPolicy

definition found :: "('a \<Rightarrow> iam_rec) \<Rightarrow> iam_err + 'a \<Rightarrow> iam_rec option" where
  "found f r = (case r of Inl _ \<Rightarrow> None | Inr x \<Rightarrow> Some (f x))"

fun stored :: "iam_env \<Rightarrow> disk \<Rightarrow> iam_key \<Rightarrow> iam_rec option" where
  "stored env d (KeyUser n t) = found RecUser (loadIAMConfig env d (dec_user env) (getUserIdentityPath n t))"
| "stored env d (KeyGroup n) = found RecGroup (loadIAMConfig env d (dec_group env) (getGroupInfoPath n))"
| "stored env d (KeyPolicy n) = found RecPolicy (loadIAMConfig env d (dec_policy env) (getPolicyDocPath n))"
| "stored env d (KeyMapped n t b) = found RecMapped (loadIAMConfig env d (dec_mapped env) (getMappedPolicyPath n t b))"

inductive store_call :: "iam_env \<Rightarrow> disk \<Rightarrow> iam_key \<Rightarrow> iam_rec option \<Rightarrow> disk \<Rightarrow> bool" where
  "saveUserIdentity env d n t u = (d', None) \<Longrightarrow> store_call env d (KeyUser n t) (Some (RecUser u)) d'"
| "saveGroupInfo env d n gi = (d', None) \<Longrightarrow> store_call env d (KeyGroup n) (Some (RecGroup gi)) d'"
| "savePolicyDoc env d n p = (d', None) \<Longrightarrow> store_call env d (KeyPolicy n) (Some (RecPolicy p)) d'"
| "saveMappedPolicy env d n t b mp = (d', None) \<Longrightarrow> store_call env d (KeyMapped n t b) (Some (RecMapped mp)) d'"
| "deleteUserIdentity env d n t = (d', None) \<Longrightarrow> store_call env d (KeyUser n t) None d'"
| "deleteGroupInfo env d n = (d', None) \<Longrightarrow> store_call env d (KeyGroup n) None d'"
| "deletePolicyDoc env d n = (d', None) \<Longrightarrow> store_call env d (KeyPolicy n) None d'"
| "deleteMappedPolicy env d n t b = (d', None) \<Longrightarrow> store_call env d (KeyMapped n t b) None d'"

text \<open>The codec gives the record back from data that are not empty.\<close>

definition codes :: "('a \<Rightarrow> string option) \<Rightarrow> (string \<Rightarrow> 'a option) \<Rightarrow> 'a \<Rightarrow> bool" where
  "codes enc dec x \<longleftrightarrow> (\<exists>data. enc x = Some data \<and> data \<noteq> [] \<and> dec data = Some x)"

fun reads_back :: "iam_env \<Rightarrow> iam_rec \<Rightarrow> bool" where
  "reads_back env (RecUser u) = codes (enc_user env) (dec_user env) u"
| "reads_back env (RecGroup gi) = codes (enc_group env) (dec_group env) gi"
| "reads_back env (RecPolicy p) = codes (enc_policy env) (dec_policy env) p"
| "reads_back env (RecMapped mp) = codes (enc_mapped env) (dec_mapped env) mp"

lemma save_reads_back:
  assumes "saveIAMConfig env d (enc x) path = (d', None)" and "codes enc dec x" and "env_get env path = None"
  shows "loadIAMConfig env d' dec path = Inr x \<and> (\<forall>p. p \<noteq> path \<longrightarrow> d' p = d p)"
  using assms
  by (auto simp: saveIAMConfig_def saveConfig_def loadIAMConfig_def readConfig_def codes_def split: option.splits)

lemma save_other: "saveIAMConfig env d item path = (d', None) \<Longrightarrow> p \<noteq> path \<Longrightarrow> d' p = d p"
  by (auto simp: saveIAMConfig_def saveConfig_def split: option.splits)

lemma delete_reads:
  assumes "map_prod id (map_option f) (deleteIAMConfig env d path) = (d', None)"
  shows "(\<exists>e. loadIAMConfig env d' dec path = Inl e) \<and> (\<forall>p. p \<noteq> path \<longrightarrow> d' p = d p)"
  using assms
  by (auto simp: deleteIAMConfig_def deleteConfig_def loadIAMConfig_def readConfig_def
      split: option.splits if_splits)

lemma loadIAMConfig_cong: "d' p = d p \<Longrightarrow> loadIAMConfig env d' dec p = loadIAMConfig env d dec p"
  by (simp add: loadIAMConfig_def readConfig_def split: option.split)

lemma stored_cong: "d' (key_path k) = d (key_path k) \<Longrightarrow> stored env d' k = stored env d k"
  using loadIAMConfig_cong [of d' _ d env "dec_user env"] loadIAMConfig_cong [of d' _ d env "dec_group env"]
    loadIAMConfig_cong [of d' _ d env "dec_policy env"] loadIAMConfig_cong [of d' _ d env "dec_mapped env"]
  by (cases k) simp_all

lemma store_call_at:
  assumes "store_call env d k r d'" and "\<And>x. r = Some x \<Longrightarrow> reads_back env x" and "env_get env = (\<lambda>_. None)"
  shows "stored env d' k = r \<and> (\<forall>p. p \<noteq> key_path k \<longrightarrow> d' p = d p)"
proof -
  note saves = saveUserIdentity_def saveGroupInfo_def savePolicyDoc_def saveMappedPolicy_def
  note deletes = deleteUserIdentity_def deleteGroupInfo_def deletePolicyDoc_def deleteMappedPolicy_def
  from assms show ?thesis
  proof (cases rule: store_call.cases)
    case (1 n t u)
    with assms save_reads_back [of env d "enc_user env" u _ d' "dec_user env"] show ?thesis by (simp add: saves found_def)
  next
    case (2 n gi)
    with assms save_reads_back [of env d "enc_group env" gi _ d' "dec_group env"] show ?thesis by (simp add: saves found_def)
  next
    case (3 n p)
    with assms save_reads_back [of env d "enc_policy env" p _ d' "dec_policy env"] show ?thesis by (simp add: saves found_def)
  next
    case (4 n t b mp)
    with assms save_reads_back [of env d "enc_mapped env" mp _ d' "dec_mapped env"] show ?thesis by (simp add: saves found_def)
  next
    case (5 n t)
    with delete_reads [of _ env d _ d' "dec_user env"] show ?thesis by (fastforce simp: deletes found_def)
  next
    case (6 n)
    with delete_reads [of _ env d _ d' "dec_group env"] show ?thesis by (fastforce simp: deletes found_def)
  next
    case (7 n)
    with delete_reads [of _ env d _ d' "dec_policy env"] show ?thesis by (fastforce simp: deletes found_def)
  next
    case (8 n t b)
    with delete_reads [of _ env d _ d' "dec_mapped env"] show ?thesis by (fastforce simp: deletes found_def)
  qed
qed

lemma key_path_inj:
  assumes "element (key_name k)" and "element (key_name k')" and "key_path k = key_path k'"
  shows "key_norm k = key_norm k'"
proof -
  have "fst (key_elements k) @ snd (key_elements k) = fst (key_elements k') @ snd (key_elements k')"
    using assms(3) key_elements_ok [OF assms(1)] key_elements_ok [OF assms(2)]
    unfolding key_path_elements by (intro pathJoin_inj) blast+
  then show ?thesis
    by (cases k rule: key_norm.cases; cases k' rule: key_norm.cases)
      (simp_all split: IAMUserType.splits if_splits)
qed

lemma key_norm_path: "key_norm k = key_norm k' \<Longrightarrow> stored env d k = stored env d k'"
proof -
  have "stored env d k = stored env d (key_norm k)" for k
    by (cases k rule: key_norm.cases) (simp_all add: getMappedPolicyPath_def)
  then show "key_norm k = key_norm k' \<Longrightarrow> ?thesis" by metis
qed

section \<open>Properties\<close>


definition ex_store_env :: iam_env where
  "ex_store_env = \<lparr>env_get = \<lambda>_. None, env_put = \<lambda>_. None, env_del = \<lambda>_. None,
     enc_policy = \<lambda>_. None, dec_policy = \<lambda>_. None, enc_user = \<lambda>_. None, dec_user = \<lambda>_. None,
     enc_group = \<lambda>_. None, dec_group = \<lambda>_. None, enc_mapped = \<lambda>mp. Some (CHR ''p'' # mp_Policy mp),
     dec_mapped = (\<lambda>s. Some (newMappedPolicy (tl s))), env_now = unix_time 0, globalActiveCred = zero_cred,
     globalOldCred = zero_cred, env_resign = \<lambda>_. None\<rparr>"


end
