(* ===== verification/ApiErrors.thy ===== *)
theory ApiErrors
  imports HTTPRange
begin

text \<open>
  \<open>cmd/ipos/cmd/api-errors.go\<close>: the codes of the S3 answers, the table of what is sent for a code,
  and the code for an error of the object layer.
\<close>

section \<open>Codes and answers\<close>

datatype (plugins only: code) APIErrorCode =
    ErrNone | ErrAccessDenied | ErrBadDigest | ErrEntityTooLarge | ErrPolicyTooLarge |
    ErrIncompleteBody | ErrInternalError | ErrInvalidAccessKeyID | ErrInvalidBucketName |
    ErrInvalidDigest | ErrInvalidRange | ErrInvalidMaxKeys | ErrInvalidEncodingMethod |
    ErrInvalidCopySource | ErrMalformedXML | ErrMissingContentLength | ErrMissingContentMD5 |
    ErrNoSuchBucket | ErrNoSuchKey | ErrNoSuchVersion | ErrNotImplemented | ErrPreconditionFailed |
    ErrSignatureDoesNotMatch | ErrMethodNotAllowed | ErrAuthorizationHeaderMalformed |
    ErrSignatureVersionNotSupported | ErrBucketNotEmpty | ErrMalformedPolicy | ErrMissingFields |
    ErrMissingCredTag | ErrCredMalformed | ErrInvalidRegion | ErrInvalidServiceS3 |
    ErrInvalidServiceSTS | ErrInvalidRequestVersion | ErrMissingSignTag | ErrMissingSignHeadersTag |
    ErrMalformedDate | ErrMalformedPresignedDate | ErrMalformedCredentialDate | ErrMalformedExpires |
    ErrNegativeExpires | ErrAuthHeaderEmpty | ErrExpiredPresignRequest | ErrRequestNotReadyYet |
    ErrUnsignedHeaders | ErrMissingDateHeader | ErrInvalidQuerySignatureAlgo | ErrInvalidQueryParams |
    ErrBucketAlreadyOwnedByYou | ErrMaximumExpires | ErrBadRequest |
    ErrInvalidBucketObjectLockConfiguration | ErrObjectLocked | ErrSSEEncryptedObject |
    ErrInvalidEncryptionParameters | ErrNoAccessKey | ErrInvalidToken | ErrContentSHA256Mismatch |
    ErrReadQuorum | ErrWriteQuorum | ErrStorageFull | ErrObjectExistsAsDirectory |
    ErrServerNotInitialized | ErrOperationMaxedOut | ErrInvalidRequest | ErrInvalidStorageClass |
    ErrObjectTampered | ErrIncorrectContinuationToken | ErrInvalidDecompressedSize

record APIError =
  api_Code :: string
  api_Description :: string
  api_HTTPStatusCode :: nat

definition api_error :: "string \<Rightarrow> string \<Rightarrow> nat \<Rightarrow> APIError" where
  "api_error code description status =
     \<lparr>api_Code = code, api_Description = description, api_HTTPStatusCode = status\<rparr>"

text \<open>A map literal: the codes without an entry are not in the map.\<close>

definition errorCodes :: "APIErrorCode \<Rightarrow> APIError option" where
  "errorCodes = map_of
    [(ErrInvalidCopySource, api_error ''InvalidArgument''
        (''Copy Source must mention the source bucket and key: sourcebucket/sourcekey.'') 400),
     (ErrInvalidStorageClass, api_error ''InvalidStorageClass''
        (''Invalid storage class.'') 400),
     (ErrInvalidMaxKeys, api_error ''InvalidArgument''
        (''Argument maxKeys must be an integer between 0 and 2147483647'') 400),
     (ErrInvalidEncodingMethod, api_error ''InvalidArgument''
        (''Invalid Encoding Method specified in Request'') 400),
     (ErrAccessDenied, api_error ''AccessDenied''
        (''Access Denied.'') 403),
     (ErrEntityTooLarge, api_error ''EntityTooLarge''
        (''Your proposed upload exceeds the maximum allowed object size.'') 400),
     (ErrPolicyTooLarge, api_error ''PolicyTooLarge''
        (''Policy exceeds the maximum allowed document size.'') 400),
     (ErrIncompleteBody, api_error ''IncompleteBody''
        (''You did not provide the number of bytes specified by the Content-Length HTTP header.'') 400),
     (ErrInternalError, api_error ''InternalError''
        (''We encountered an internal error, please try again.'') 500),
     (ErrInvalidDigest, api_error ''InvalidDigest''
        (''The Content-Md5 you specified is not valid.'') 400),
     (ErrInvalidRange, api_error ''InvalidRange''
        (''The requested range is not satisfiable'') 416),
     (ErrMalformedXML, api_error ''MalformedXML''
        (''The XML you provided was not well-formed or did not validate against our published schema.'') 400),
     (ErrMissingContentLength, api_error ''MissingContentLength''
        (''You must provide the Content-Length HTTP header.'') 411),
     (ErrMissingContentMD5, api_error ''MissingContentMD5''
        (''Missing required header for this request: Content-Md5.'') 400),
     (ErrNoSuchBucket, api_error ''NoSuchBucket''
        (''The specified bucket does not exist'') 404),
     (ErrNoSuchVersion, api_error ''NoSuchVersion''
        (''Indicates that the version ID specified in the request does not match an existing version.'') 404),
     (ErrNotImplemented, api_error ''NotImplemented''
        (''A header you provided implies functionality that is not implemented'') 501),
     (ErrPreconditionFailed, api_error ''PreconditionFailed''
        (''At least one of the pre-conditions you specified did not hold'') 412),
     (ErrSignatureVersionNotSupported, api_error ''InvalidRequest''
        (''The authorization mechanism you have provided is not supported. Please use AWS4-HMAC-SHA256.'') 400),
     (ErrMalformedPolicy, api_error ''MalformedPolicy''
        (''Policy has invalid resource.'') 400),
     (ErrMissingFields, api_error ''MissingFields''
        (''Missing fields in request.'') 400),
     (ErrMissingCredTag, api_error ''InvalidRequest''
        (''Missing Credential field for this request.'') 400),
     (ErrCredMalformed, api_error ''AuthorizationQueryParametersError''
        (''Error parsing the X-Amz-Credential parameter; the Credential is mal-formed; expecting '' @ [CHR 0x22] @ ''<YOUR-AKID>/YYYYMMDD/REGION/SERVICE/aws4_request'' @ [CHR 0x22] @ ''.'') 400),
     (ErrInvalidRegion, api_error ''InvalidRegion''
        (''Region does not match.'') 400),
     (ErrBadRequest, api_error ''BadRequest''
        (''400 BadRequest'') 400),
     (ErrSSEEncryptedObject, api_error ''InvalidRequest''
        (''The object was stored using a form of Server Side Encryption. The correct parameters must be provided to retrieve the object.'') 400),
     (ErrInvalidEncryptionParameters, api_error ''InvalidRequest''
        (''The encryption parameters are not applicable to this object.'') 400),
     (ErrNoAccessKey, api_error ''AccessDenied''
        (''No AWSAccessKey was presented'') 403),
     (ErrInvalidToken, api_error ''InvalidTokenId''
        (''The security token included in the request is invalid'') 403),
     (ErrContentSHA256Mismatch, api_error ''XAmzContentSHA256Mismatch''
        (''The provided '' @ [CHR 0x27] @ ''x-amz-content-sha256'' @ [CHR 0x27] @ '' header does not match what was computed.'') 400),
     (ErrServerNotInitialized, api_error ''XIPOSServerNotInitialized''
        (''Server not initialized, please try again.'') 503),
     (ErrInvalidRequest, api_error ''InvalidRequest''
        (''Invalid Request'') 400),
     (ErrIncorrectContinuationToken, api_error ''InvalidArgument''
        (''The continuation token provided is incorrect'') 400),
     (ErrInvalidDecompressedSize, api_error ''XIPOSInvalidDecompressedSize''
        (''The data provided is unfit for decompression'') 400)]"

definition ToAPIErrWithErr :: "APIErrorCode \<Rightarrow> string option \<Rightarrow> APIError" where
  "ToAPIErrWithErr errCode err =
     (let apiErr = (case errorCodes errCode of Some e \<Rightarrow> e | None \<Rightarrow> the (errorCodes ErrInternalError)) in
      case err of
        None \<Rightarrow> apiErr
      | Some text \<Rightarrow> apiErr\<lparr>api_Description := api_Description apiErr @ '' ('' @ text @ '')''\<rparr>)"

definition ToAPIErr :: "APIErrorCode \<Rightarrow> APIError" where
  "ToAPIErr errCode = ToAPIErrWithErr errCode None"

definition getAPIError :: "APIErrorCode \<Rightarrow> APIError" where
  "getAPIError code = (case errorCodes code of Some apiErr \<Rightarrow> apiErr | None \<Rightarrow> ToAPIErr ErrInternalError)"

section \<open>The errors behind the codes\<close>

text \<open>
  The Go errors that reach \<open>toAPIErrorCode\<close>: the values it compares with, the types it asks for, the
  error of \<open>net/http\<close> for a body that is too short (declared and written length), and every other
  error by its text.
\<close>

datatype obj_err =
    errAuthentication
  | errInvalidEncryptionParameters
  | errEncryptedObject
  | errLockMalformedXML
  | errDataTooLarge
  | errDataTooSmall
  | errUnexpectedEOF
  | errShortWrite
  | IncompleteBody
  | PrefixAccessDenied string string
  | BucketNotFound string
  | SHA256Mismatch
  | NotImplemented
  | BucketNameInvalid string
  | BucketAlreadyExists string
  | ObjectNotFound string string
  | ObjectAlreadyExists string string
  | ObjectTooLarge string string
  | ObjectTooSmall string string
  | ObjectNameInvalid string string
  | InvalidMarkerPrefixCombination string string
  | PreConditionFailed
  | RangeFailure range_error
  | ContentLengthError int int
  | errFileNotFound
  | OtherError string

text \<open>The first switch compares with values, the second asks for the type and always sets the code.\<close>

fun api_code_of_value :: "obj_err \<Rightarrow> APIErrorCode" where
  "api_code_of_value errAuthentication = ErrAccessDenied"
| "api_code_of_value errInvalidEncryptionParameters = ErrInvalidEncryptionParameters"
| "api_code_of_value errEncryptedObject = ErrSSEEncryptedObject"
| "api_code_of_value errLockMalformedXML = ErrMalformedXML"
| "api_code_of_value _ = ErrNone"

fun api_code_of_type :: "APIErrorCode \<Rightarrow> obj_err \<Rightarrow> APIErrorCode" where
  "api_code_of_type apiErr IncompleteBody = ErrIncompleteBody"
| "api_code_of_type apiErr (PrefixAccessDenied _ _) = ErrAccessDenied"
| "api_code_of_type apiErr (BucketNotFound _) = ErrNoSuchBucket"
| "api_code_of_type apiErr SHA256Mismatch = ErrContentSHA256Mismatch"
| "api_code_of_type apiErr NotImplemented = ErrNotImplemented"
| "api_code_of_type apiErr (ContentLengthError ie iw) = (if iw < ie then ErrIncompleteBody else ErrInternalError)"
| "api_code_of_type apiErr _ = ErrInternalError"

definition toAPIErrorCode :: "obj_err option \<Rightarrow> APIErrorCode" where
  "toAPIErrorCode err =
     (case err of None \<Rightarrow> ErrNone | Some e \<Rightarrow> api_code_of_type (api_code_of_value e) e)"

definition noError :: APIError where
  "noError = api_error [] [] 0"

definition toAPIError :: "obj_err option \<Rightarrow> APIError" where
  "toAPIError err = (case err of None \<Rightarrow> noError | Some e \<Rightarrow> ToAPIErr (toAPIErrorCode (Some e)))"

text \<open>\<open>toObjectErr\<close> of \<open>object-api-errors.go\<close>; the parameters are those of the call.\<close>

fun toObjectErr :: "obj_err \<Rightarrow> string list \<Rightarrow> obj_err" where
  "toObjectErr errDataTooLarge (b # obj # _) = ObjectTooLarge b obj"
| "toObjectErr errDataTooSmall (b # obj # _) = ObjectTooSmall b obj"
| "toObjectErr errUnexpectedEOF params = IncompleteBody"
| "toObjectErr errShortWrite params = IncompleteBody"
| "toObjectErr err params = err"

section \<open>Properties\<close>

definition expressible :: "obj_err \<Rightarrow> bool" where
  "expressible e \<longleftrightarrow> e = IncompleteBody \<or> (\<exists>b obj. e = PrefixAccessDenied b obj) \<or> (\<exists>b. e = BucketNotFound b) \<or>
     e = SHA256Mismatch \<or> e = NotImplemented \<or> (\<exists>ie iw. e = ContentLengthError ie iw \<and> iw < ie)"



end
