(* ===== verification/SigV4.thy ===== *)
theory SigV4
  imports S3Utils HttpRequest ApiErrors IAMAdmin
begin

text \<open>
  \<open>cmd/ipos/cmd/signature-v4-parser.go\<close>, \<open>signature-v4-utils.go\<close> and \<open>signature-v4.go\<close>: the
  \<open>Authorization\<close> header of a signed request, what it signs, and the comparison of signatures.
  HMAC and SHA-256 are arguments.
\<close>

section \<open>Dates\<close>

text \<open>The layouts \<open>20060102\<close> and \<open>20060102T150405Z\<close> of \<open>time.Parse\<close> and \<open>Format\<close>, for times in UTC.\<close>

definition parse_day :: "string \<Rightarrow> (int \<times> int \<times> int \<times> string) option" where
  "parse_day v0 = do {
     (year, v1) \<leftarrow> get_year v0;
     (month, v2) \<leftarrow> getnum v1 True;
     (day, v3) \<leftarrow> (if month \<le> 0 \<or> 12 < month then None else getnum v2 True);
     Some (year, month, day, v3)
   }"

definition ParseDay :: "string \<Rightarrow> gotime option" where
  "ParseDay v = do {
     (year, month, day, rest) \<leftarrow> parse_day v;
     if rest \<noteq> [] \<or> day < 1 \<or> days_in month year < day then None
     else Some \<lparr>instant = unix_seconds year month day 0 0 0 * 10 ^ 9, loc = UTC\<rparr>
   }"

definition ParseISO8601 :: "string \<Rightarrow> gotime option" where
  "ParseISO8601 v = do {
     (year, month, day, v1) \<leftarrow> parse_day v;
     v2 \<leftarrow> skip_char (CHR ''T'') v1;
     (hour, v3) \<leftarrow> getnum v2 False;
     (minute, v4) \<leftarrow> (if 24 \<le> hour then None else getnum v3 True);
     (second, v5) \<leftarrow> (if 60 \<le> minute then None else getnum v4 True);
     (nsec, v6) \<leftarrow> (if 60 \<le> second then None else get_fraction v5);
     rest \<leftarrow> skip_char (CHR ''Z'') v6;
     if rest \<noteq> [] \<or> day < 1 \<or> days_in month year < day then None
     else Some \<lparr>instant = unix_seconds year month day hour minute second * 10 ^ 9 + nsec, loc = UTC\<rparr>
   }"

definition FormatDay :: "gotime \<Rightarrow> string" where
  "FormatDay t =
     (let secs = instant t div 10 ^ 9 + zone_offset (loc t);
          (y, m, d) = civil (secs div 86400 + unix_epoch_days)
      in append_int y 4 @ append_int m 2 @ append_int d 2)"

definition FormatISO8601 :: "gotime \<Rightarrow> string" where
  "FormatISO8601 t =
     (let secs = instant t div 10 ^ 9 + zone_offset (loc t); s = secs mod 86400
      in FormatDay t @ ''T'' @ append_int (s div 3600) 2 @ append_int (s mod 3600 div 60) 2 @ append_int (s mod 60) 2 @ ''Z'')"

section \<open>signature-v4-parser.go\<close>

definition signV4Algorithm :: string where "signV4Algorithm = ''AWS4-HMAC-SHA256''"
definition signV4ChunkedAlgorithm :: string where "signV4ChunkedAlgorithm = ''AWS4-HMAC-SHA256-PAYLOAD''"
definition signV2Algorithm :: string where "signV2Algorithm = ''AWS''"
definition jwtAlgorithm :: string where "jwtAlgorithm = ''Bearer''"
definition SlashSeparator :: string where "SlashSeparator = ''/''"

datatype serviceType = serviceS3 | serviceSTS

definition service_name :: "serviceType \<Rightarrow> string" where
  "service_name stype = (case stype of serviceS3 \<Rightarrow> ''s3'' | serviceSTS \<Rightarrow> ''sts'')"

record credentialHeader =
  ch_accessKey :: string
  scope_date :: gotime
  scope_region :: string
  scope_service :: string
  scope_request :: string

definition ch_getScope :: "credentialHeader \<Rightarrow> string" where
  "ch_getScope c = JoinOn SlashSeparator [FormatDay (scope_date c), scope_region c, scope_service c, scope_request c]"

definition globalIPOSDefaultRegion :: string where "globalIPOSDefaultRegion = []"

definition isValidRegion :: "string \<Rightarrow> string \<Rightarrow> bool" where
  "isValidRegion reqRegion confRegion =
     (if confRegion = [] then True
      else (let conf = (if confRegion = ''US'' then globalIPOSDefaultRegion else confRegion);
                req = (if reqRegion = ''US'' then globalIPOSDefaultRegion else reqRegion)
            in req = conf))"

definition parseCredentialHeader :: "string \<Rightarrow> string \<Rightarrow> serviceType \<Rightarrow> APIErrorCode + credentialHeader" where
  "parseCredentialHeader credElement region stype =
     (let creds = SplitN2 (TrimSpace credElement) ''='' in
      if length creds \<noteq> 2 then Inl ErrMissingFields
      else if creds ! 0 \<noteq> ''Credential'' then Inl ErrMissingCredTag
      else
        (let credElements = SplitOn CHR ''/'' (TrimSpace (creds ! 1)); n = length credElements in
         if n < 5 then Inl ErrCredMalformed
         else
           (let accessKey = JoinOn SlashSeparator (take (n - 4) credElements); scope = drop (n - 4) credElements in
            if \<not> IsAccessKeyValid accessKey then Inl ErrInvalidAccessKeyID
            else case ParseDay (scope ! 0) of
              None \<Rightarrow> Inl ErrMalformedCredentialDate
            | Some date \<Rightarrow>
                let sRegion = scope ! 1; region' = (if region = [] then sRegion else region) in
                if \<not> isValidRegion sRegion region' then Inl ErrAuthorizationHeaderMalformed
                else if scope ! 2 \<noteq> service_name stype then
                  (case stype of serviceSTS \<Rightarrow> Inl ErrInvalidServiceSTS | serviceS3 \<Rightarrow> Inl ErrInvalidServiceS3)
                else if scope ! 3 \<noteq> ''aws4_request'' then Inl ErrInvalidRequestVersion
                else Inr \<lparr>ch_accessKey = accessKey, scope_date = date, scope_region = sRegion,
                          scope_service = scope ! 2, scope_request = scope ! 3\<rparr>)))"

definition parseSignature :: "string \<Rightarrow> APIErrorCode + string" where
  "parseSignature signElement =
     (let signFields = SplitOn CHR ''='' (TrimSpace signElement) in
      if length signFields \<noteq> 2 then Inl ErrMissingFields
      else if signFields ! 0 \<noteq> ''Signature'' then Inl ErrMissingSignTag
      else if signFields ! 1 = [] then Inl ErrMissingFields
      else Inr (signFields ! 1))"

definition parseSignedHeader :: "string \<Rightarrow> APIErrorCode + string list" where
  "parseSignedHeader signedHdrElement =
     (let signedHdrFields = SplitOn CHR ''='' (TrimSpace signedHdrElement) in
      if length signedHdrFields \<noteq> 2 then Inl ErrMissingFields
      else if signedHdrFields ! 0 \<noteq> ''SignedHeaders'' then Inl ErrMissingSignHeadersTag
      else if signedHdrFields ! 1 = [] then Inl ErrMissingFields
      else Inr (SplitOn CHR '';'' (signedHdrFields ! 1)))"

record signValues =
  sv_Credential :: credentialHeader
  sv_SignedHeaders :: "string list"
  sv_Signature :: string

definition parseSignV4 :: "string \<Rightarrow> string \<Rightarrow> serviceType \<Rightarrow> APIErrorCode + signValues" where
  "parseSignV4 v4Auth0 region stype =
     (let credElement = TrimPrefix (SplitOn CHR '','' (TrimSpace v4Auth0) ! 0) signV4Algorithm;
          v4Auth = ReplaceAll v4Auth0 '' '' [] in
      if v4Auth = [] then Inl ErrAuthHeaderEmpty
      else if \<not> HasPrefix v4Auth signV4Algorithm then Inl ErrSignatureVersionNotSupported
      else
        (let authFields = SplitOn CHR '','' (TrimSpace (TrimPrefix v4Auth signV4Algorithm)) in
         if length authFields \<noteq> 3 then Inl ErrMissingFields
         else case parseCredentialHeader (TrimSpace credElement) region stype of
           Inl err \<Rightarrow> Inl err
         | Inr cred \<Rightarrow>
             (case parseSignedHeader (authFields ! 1) of
                Inl err \<Rightarrow> Inl err
              | Inr headers \<Rightarrow>
                  (case parseSignature (authFields ! 2) of
                     Inl err \<Rightarrow> Inl err
                   | Inr sig \<Rightarrow> Inr \<lparr>sv_Credential = cred, sv_SignedHeaders = headers, sv_Signature = sig\<rparr>))))"

section \<open>signature-v4-utils.go\<close>

definition unsignedPayload :: string where "unsignedPayload = ''UNSIGNED-PAYLOAD''"
definition emptySHA256 :: string where
  "emptySHA256 = ''e3b0c44298fc1c149afbf4c8996fb92427ae41e4649b934ca495991b7852b855''"
definition streamingContentSHA256 :: string where "streamingContentSHA256 = ''STREAMING-AWS4-HMAC-SHA256-PAYLOAD''"

definition isRequestSignatureV4 :: "http_request \<Rightarrow> bool" where
  "isRequestSignatureV4 r = HasPrefix (Header_Get r Authorization) signV4Algorithm"

definition isRequestPresignedSignatureV4 :: "http_request \<Rightarrow> bool" where
  "isRequestPresignedSignatureV4 r \<longleftrightarrow> Query r AmzCredential \<noteq> None"

text \<open>The value \<open>v[0]\<close> of the checksum, from the query or the header; a header that is there has a
  value.\<close>

definition content_sha256_values :: "http_request \<Rightarrow> string list option" where
  "content_sha256_values r =
     (if isRequestPresignedSignatureV4 r then
        (case Query r AmzContentSha256 of None \<Rightarrow> Header r AmzContentSha256 | Some v \<Rightarrow> Some v)
      else Header r AmzContentSha256)"

definition skipContentSha256Cksum :: "http_request \<Rightarrow> bool" where
  "skipContentSha256Cksum r =
     (case content_sha256_values r of None \<Rightarrow> True | Some v \<Rightarrow> v ! 0 = unsignedPayload)"

text \<open>The body of a request of the token service is an argument of the digest.\<close>

definition getContentSha256Cksum :: "(string \<Rightarrow> string) \<Rightarrow> string \<Rightarrow> http_request \<Rightarrow> serviceType \<Rightarrow> string" where
  "getContentSha256Cksum sha256hex payload r stype =
     (case stype of
        serviceSTS \<Rightarrow> sha256hex payload
      | serviceS3 \<Rightarrow>
          (case content_sha256_values r of
             Some v \<Rightarrow> v ! 0
           | None \<Rightarrow> if isRequestPresignedSignatureV4 r then unsignedPayload else emptySHA256))"

text \<open>The credentials for an access key, and whether it is the one of the server.\<close>

definition checkKeyValid :: "iam_env \<Rightarrow> IAMSys \<Rightarrow> string \<Rightarrow> APIErrorCode + Credentials \<times> bool" where
  "checkKeyValid env sys accessKey =
     (if AccessKey (globalActiveCred env) \<noteq> accessKey then
        (case GetUser env accessKey sys of
           (cred, ok) \<Rightarrow> if \<not> ok then Inl ErrInvalidAccessKeyID else Inr (cred, False))
      else Inr (globalActiveCred env, True))"

text \<open>The access key of a request: from the query when the credential there parses, otherwise from
  the header.\<close>

definition getReqAccessKeyV4 ::
    "iam_env \<Rightarrow> IAMSys \<Rightarrow> http_request \<Rightarrow> string \<Rightarrow> serviceType \<Rightarrow> APIErrorCode + Credentials \<times> bool" where
  "getReqAccessKeyV4 env sys r region stype =
     (case parseCredentialHeader (''Credential='' @ Query_Get r ''X-Amz-Credential'') region stype of
        Inr ch \<Rightarrow> checkKeyValid env sys (ch_accessKey ch)
      | Inl _ \<Rightarrow>
          (let v4Auth = TrimPrefix (Header_Get r ''Authorization'') signV4Algorithm;
               authFields = SplitOn CHR '','' (TrimSpace v4Auth) in
           if length authFields \<noteq> 3 then Inl ErrMissingFields
           else case parseCredentialHeader (authFields ! 0) region stype of
             Inl err \<Rightarrow> Inl err
           | Inr ch \<Rightarrow> checkKeyValid env sys (ch_accessKey ch)))"

text \<open>A header map as the list of its entries in the order they were made.\<close>

type_synonym header_list = "(string \<times> string list) list"

fun header_Add :: "string \<Rightarrow> string \<Rightarrow> header_list \<Rightarrow> header_list" where
  "header_Add key value [] = [(CanonicalHeaderKey key, [value])]"
| "header_Add key value ((k, vs) # h) =
     (if k = CanonicalHeaderKey key then (k, vs @ [value]) # h else (k, vs) # header_Add key value h)"

fun header_Set :: "string \<Rightarrow> string \<Rightarrow> header_list \<Rightarrow> header_list" where
  "header_Set key value [] = [(CanonicalHeaderKey key, [value])]"
| "header_Set key value ((k, vs) # h) =
     (if k = CanonicalHeaderKey key then (k, [value]) # h else (k, vs) # header_Set key value h)"

definition signed_value :: "http_request \<Rightarrow> string \<Rightarrow> string list option" where
  "signed_value r header =
     (case Header r (CanonicalHeaderKey header) of Some val \<Rightarrow> Some val | None \<Rightarrow> Query r header)"

fun extract_signed :: "http_request \<Rightarrow> string list \<Rightarrow> header_list \<Rightarrow> APIErrorCode + header_list" where
  "extract_signed r [] h = Inr h"
| "extract_signed r (header # rest) h =
     (case signed_value r header of
        Some val \<Rightarrow> extract_signed r rest (fold (header_Add header) val h)
      | None \<Rightarrow>
          if header = ''expect'' then extract_signed r rest (header_Set header ''100-continue'' h)
          else if header = ''host'' then extract_signed r rest (header_Set header (Host r) h)
          else if header = ''transfer-encoding'' then
            extract_signed r rest (fold (header_Add header) (TransferEncoding r) h)
          else if header = ''content-length'' then
            extract_signed r rest (header_Set header (Itoa (ContentLength r)) h)
          else Inl ErrUnsignedHeaders)"

definition extractSignedHeaders :: "string list \<Rightarrow> http_request \<Rightarrow> APIErrorCode + header_list" where
  "extractSignedHeaders signedHeaders r =
     (if ''host'' \<notin> set signedHeaders then Inl ErrUnsignedHeaders else extract_signed r signedHeaders [])"

text \<open>\<open>strings.Fields\<close>: the runs between white space.\<close>

function drop_field :: "string \<Rightarrow> string \<Rightarrow> string \<times> string" where
  "drop_field acc s =
     (if s = [] \<or> find (HasPrefix s) space_encodings \<noteq> None then (rev acc, s)
      else drop_field (hd s # acc) (tl s))"
  by pat_completeness auto
termination by (relation "measure (\<lambda>(acc, s). length s)") auto

declare drop_field.simps [simp del]

fun fields_upto :: "nat \<Rightarrow> string \<Rightarrow> string list" where
  "fields_upto 0 s = []"
| "fields_upto (Suc n) s =
     (let t = TrimLeftSpace s in
      if t = [] then [] else (case drop_field [] t of (w, rest) \<Rightarrow> w # fields_upto n rest))"

text \<open>Every field takes at least one byte, so the length of the text is enough fuel.\<close>

definition Fields :: "string \<Rightarrow> string list" where
  "Fields s = fields_upto (length s) s"

definition signV4TrimAll :: "string \<Rightarrow> string" where
  "signV4TrimAll input = JoinOn '' '' (Fields input)"

section \<open>signature-v4.go\<close>

definition newline :: string where "newline = [CHR 0x0A]"

text \<open>A range over the map meets the entries in some order; with two names that differ in case
  only, the values of the later one are used for both.\<close>

definition lower_vals :: "(nat \<Rightarrow> nat) \<Rightarrow> header_list \<Rightarrow> string \<Rightarrow> string list option" where
  "lower_vals lw signedHeaders = fold (\<lambda>(k, vv) m. m(ToLower lw k \<mapsto> vv)) signedHeaders Map.empty"

definition header_line :: "(string \<Rightarrow> string list option) \<Rightarrow> string \<Rightarrow> string" where
  "header_line vals k =
     k @ '':'' @ JoinOn '','' (map signV4TrimAll (case vals k of None \<Rightarrow> [] | Some vs \<Rightarrow> vs)) @ newline"

definition getCanonicalHeaders :: "(nat \<Rightarrow> nat) \<Rightarrow> header_list \<Rightarrow> string" where
  "getCanonicalHeaders lw signedHeaders =
     concat (map (header_line (lower_vals lw signedHeaders)) (sort (map (\<lambda>(k, _). ToLower lw k) signedHeaders)))"

definition getSignedHeaders :: "(nat \<Rightarrow> nat) \<Rightarrow> header_list \<Rightarrow> string" where
  "getSignedHeaders lw signedHeaders = JoinOn '';'' (sort (map (\<lambda>(k, _). ToLower lw k) signedHeaders))"

definition getCanonicalRequest :: "(nat \<Rightarrow> nat) \<Rightarrow> header_list \<Rightarrow> string \<Rightarrow> string \<Rightarrow> string \<Rightarrow> string \<Rightarrow> string" where
  "getCanonicalRequest lw extractedSignedHeaders payload queryStr urlPath method =
     (let rawQuery = ReplaceAll queryStr ''+'' ''%20''; encodedPath = EncodePath urlPath in
      JoinOn newline
        [method, encodedPath, rawQuery, getCanonicalHeaders lw extractedSignedHeaders,
         getSignedHeaders lw extractedSignedHeaders, payload])"

definition getScope :: "gotime \<Rightarrow> string \<Rightarrow> string" where
  "getScope t region = JoinOn SlashSeparator [FormatDay t, region, service_name serviceS3, ''aws4_request'']"

text \<open>HMAC-SHA256 of a key and data, and SHA-256.\<close>

record crypto =
  sumHMAC :: "string \<Rightarrow> string \<Rightarrow> string"
  Sum256 :: "string \<Rightarrow> string"

definition hex_EncodeToString :: "string \<Rightarrow> string" where
  "hex_EncodeToString s = concat (map (\<lambda>b. [hex_char (b div 16), hex_char (b mod 16)]) (bytes_of s))"

fun hex_DecodeString :: "string \<Rightarrow> string option" where
  "hex_DecodeString [] = Some []"
| "hex_DecodeString [a] = None"
| "hex_DecodeString (a # b # s) =
     (case (hex_digit a, hex_digit b) of
        (Some x, Some y) \<Rightarrow> map_option (\<lambda>t. char_of (16 * x + y) # t) (hex_DecodeString s)
      | _ \<Rightarrow> None)"

definition getStringToSign :: "crypto \<Rightarrow> string \<Rightarrow> gotime \<Rightarrow> string \<Rightarrow> string" where
  "getStringToSign cr canonicalRequest t scope =
     signV4Algorithm @ newline @ FormatISO8601 t @ newline @ scope @ newline @ hex_EncodeToString (Sum256 cr canonicalRequest)"

definition getSigningKey :: "crypto \<Rightarrow> string \<Rightarrow> gotime \<Rightarrow> string \<Rightarrow> serviceType \<Rightarrow> string" where
  "getSigningKey cr secretKey t region stype =
     (let date = sumHMAC cr (''AWS4'' @ secretKey) (FormatDay t);
          regionBytes = sumHMAC cr date region;
          service = sumHMAC cr regionBytes (service_name stype)
      in sumHMAC cr service ''aws4_request'')"

definition getSignature :: "crypto \<Rightarrow> string \<Rightarrow> string \<Rightarrow> string" where
  "getSignature cr signingKey stringToSign = hex_EncodeToString (sumHMAC cr signingKey stringToSign)"

definition compareSignatureV4 :: "string \<Rightarrow> string \<Rightarrow> bool" where
  "compareSignatureV4 sig1 sig2 = (sig1 = sig2)"

text \<open>\<open>url.QueryEscape\<close> and \<open>url.Values.Encode\<close>, which sorts by the key.\<close>

definition QueryEscape :: "string \<Rightarrow> string" where
  "QueryEscape s = concat (map (\<lambda>c. if is_alnum c \<or> c \<in> set ''-_.~'' then [c]
     else if c = CHR '' '' then ''+'' else percent_byte (ascii c)) s)"

definition Values_Encode :: "values_map \<Rightarrow> string" where
  "Values_Encode q =
     JoinOn ''&'' (concat (map (\<lambda>k. map (\<lambda>v. QueryEscape k @ ''='' @ QueryEscape v) (case q k of None \<Rightarrow> [] | Some vs \<Rightarrow> vs))
       (sorted_list_of_set (dom q))))"

definition doesSignatureMatch ::
    "crypto \<Rightarrow> (nat \<Rightarrow> nat) \<Rightarrow> iam_env \<Rightarrow> IAMSys \<Rightarrow> string \<Rightarrow> http_request \<Rightarrow> string \<Rightarrow> serviceType \<Rightarrow> APIErrorCode" where
  "doesSignatureMatch cr lw env sys hashedPayload r region stype =
     (case parseSignV4 (Header_Get r Authorization) region stype of
        Inl err \<Rightarrow> err
      | Inr signV4Values \<Rightarrow>
          (case extractSignedHeaders (sv_SignedHeaders signV4Values) r of
             Inl errCode \<Rightarrow> errCode
           | Inr extractedSignedHeaders \<Rightarrow>
               (case checkKeyValid env sys (ch_accessKey (sv_Credential signV4Values)) of
                  Inl s3Err \<Rightarrow> s3Err
                | Inr (cred, _) \<Rightarrow>
                    (let date = (if Header_Get r AmzDate = [] then Header_Get r HeaderDate else Header_Get r AmzDate) in
                     if date = [] then ErrMissingDateHeader
                     else case ParseISO8601 date of
                       None \<Rightarrow> ErrMalformedDate
                     | Some t \<Rightarrow>
                         (let queryStr = Values_Encode (Query r);
                              canonicalRequest = getCanonicalRequest lw extractedSignedHeaders hashedPayload queryStr (Path r) (Method r);
                              stringToSign = getStringToSign cr canonicalRequest t (ch_getScope (sv_Credential signV4Values));
                              signingKey = getSigningKey cr (SecretKey cred) (scope_date (sv_Credential signV4Values))
                                (scope_region (sv_Credential signV4Values)) stype;
                              newSignature = getSignature cr signingKey stringToSign
                          in if \<not> compareSignatureV4 newSignature (sv_Signature signV4Values) then ErrSignatureDoesNotMatch
                             else ErrNone)))))"

text \<open>The form of an upload by \<open>POST\<close>: its policy is signed.\<close>

definition AmzSignature :: string where "AmzSignature = ''X-Amz-Signature''"

definition doesPolicySignatureV4Match ::
    "crypto \<Rightarrow> iam_env \<Rightarrow> IAMSys \<Rightarrow> string \<Rightarrow> values_map \<Rightarrow> APIErrorCode" where
  "doesPolicySignatureV4Match cr env sys globalServerRegion formValues =
     (let get = (\<lambda>k. first_value formValues (CanonicalHeaderKey k)) in
      case parseCredentialHeader (''Credential='' @ get AmzCredential) globalServerRegion serviceS3 of
        Inl _ \<Rightarrow> ErrMissingFields
      | Inr credHeader \<Rightarrow>
          (case checkKeyValid env sys (ch_accessKey credHeader) of
             Inl s3Err \<Rightarrow> s3Err
           | Inr (cred, _) \<Rightarrow>
               (let signingKey = getSigningKey cr (SecretKey cred) (scope_date credHeader) (scope_region credHeader) serviceS3;
                    newSignature = getSignature cr signingKey (get ''Policy'')
                in if \<not> compareSignatureV4 newSignature (get AmzSignature) then ErrSignatureDoesNotMatch else ErrNone)))"

definition doesPolicySignatureMatch where
  "doesPolicySignatureMatch cr env sys globalServerRegion formValues =
     doesPolicySignatureV4Match cr env sys globalServerRegion formValues"

section \<open>What a signature covers\<close>

text \<open>A line feed is white space, so no field has one.\<close>

lemma newline_encoding: "newline \<in> set space_encodings"
proof -
  have "ascii CHR 0x0A = 10" by (simp add: ascii_def)
  then have "char_of (10 :: nat) = CHR 0x0A" by (metis ascii_def char_of_char)
  then have "string_of_bytes (EncodeRune 10) = newline"
    by (simp add: EncodeRune_def string_of_bytes_def newline_def valid_rune_def)
  moreover have "10 \<in> set space_runes" by (simp add: space_runes_def)
  ultimately show ?thesis unfolding space_encodings_def set_map by (metis image_eqI)
qed

lemma drop_field_no_newline:
  "CHR 0x0A \<notin> set acc \<Longrightarrow> drop_field acc s = (w, rest) \<Longrightarrow> CHR 0x0A \<notin> set w"
proof (induction acc s rule: drop_field.induct)
  case (1 acc s)
  show ?case
  proof (cases "s = [] \<or> find (HasPrefix s) space_encodings \<noteq> None")
    case True
    with 1(2,3) show ?thesis by (subst (asm) drop_field.simps) auto
  next
    case False
    then obtain c t where s: "s = c # t" by (cases s) auto
    have "\<not> HasPrefix s newline" using False newline_encoding by (auto simp: find_None_iff)
    then have "c \<noteq> CHR 0x0A" by (auto simp: s newline_def HasPrefix_def)
    moreover have "drop_field (hd s # acc) (tl s) = (w, rest)"
      using 1(3) False by (subst (asm) drop_field.simps) simp
    ultimately show ?thesis using 1(1) [OF False] 1(2) s by simp
  qed
qed

lemma fields_no_newline: "w \<in> set (fields_upto n s) \<Longrightarrow> CHR 0x0A \<notin> set w"
proof (induction n arbitrary: s)
  case (Suc n)
  obtain v rest where v: "drop_field [] (TrimLeftSpace s) = (v, rest)" by fastforce
  then have "CHR 0x0A \<notin> set v" using drop_field_no_newline [of "[]" "TrimLeftSpace s" v rest] by simp
  with Suc v show ?case by (auto simp: Let_def split: if_splits)
qed simp

lemma JoinOn_absent: "c \<notin> set sep \<Longrightarrow> (\<And>w. w \<in> set ws \<Longrightarrow> c \<notin> set w) \<Longrightarrow> c \<notin> set (JoinOn sep ws)"
  by (induction sep ws rule: JoinOn.induct) auto

lemma TrimAll_no_newline: "CHR 0x0A \<notin> set (signV4TrimAll v)"
  unfolding signV4TrimAll_def by (rule JoinOn_absent) (auto simp: Fields_def dest: fields_no_newline)

definition header_text :: "(string \<Rightarrow> string list option) \<Rightarrow> string \<Rightarrow> string" where
  "header_text vals k = k @ '':'' @ JoinOn '','' (map signV4TrimAll (case vals k of None \<Rightarrow> [] | Some vs \<Rightarrow> vs))"

lemma header_line_text: "header_line vals k = header_text vals k @ newline"
  by (simp add: header_line_def header_text_def)

lemma header_text_no_newline:
  assumes "CHR 0x0A \<notin> set k"
  shows "CHR 0x0A \<notin> set (header_text vals k)"
proof -
  have "CHR 0x0A \<notin> set (JoinOn '','' (map signV4TrimAll vs))" for vs
    by (rule JoinOn_absent) (auto simp: TrimAll_no_newline)
  with assms show ?thesis by (simp add: header_text_def)
qed

definition header_names :: "(nat \<Rightarrow> nat) \<Rightarrow> header_list \<Rightarrow> string list" where
  "header_names lw h = sort (map (\<lambda>(k, _). ToLower lw k) h)"

text \<open>The lines of a canonical request.\<close>

lemma JoinOn_lines:
  "JoinOn newline (ls @ concat (map (\<lambda>t. t @ newline) ts) # rest) = JoinOn newline (ls @ ts @ [] # rest)"
proof -
  have head: "JoinOn newline ((a @ x) # r) = a @ JoinOn newline (x # r)" for a x and r :: "string list"
    by (cases r) simp_all
  have one: "JoinOn newline (concat (map (\<lambda>t. t @ newline) ts) # rest) = JoinOn newline (ts @ [] # rest)"
  proof (induction ts)
    case (Cons t ts)
    have "JoinOn newline (t # ts @ [] # rest) = t @ newline @ JoinOn newline (ts @ [] # rest)" by (cases ts) simp_all
    with Cons show ?case by (simp add: head)
  qed simp
  show ?thesis
  proof (induction ls)
    case Nil
    show ?case using one by simp
  next
    case (Cons l ls)
    have "JoinOn newline (l # ls @ x # r) = l @ newline @ JoinOn newline (ls @ x # r)" for x r by (cases ls) simp_all
    moreover have "JoinOn newline (l # ls @ ts @ [] # rest) = l @ newline @ JoinOn newline (ls @ ts @ [] # rest)"
      by (cases ls; cases ts) simp_all
    ultimately show ?case using Cons by simp
  qed
qed

definition canonical_lines :: "(nat \<Rightarrow> nat) \<Rightarrow> header_list \<Rightarrow> string \<Rightarrow> string \<Rightarrow> string \<Rightarrow> string \<Rightarrow> string list" where
  "canonical_lines lw h payload queryStr urlPath method =
     [method, EncodePath urlPath, ReplaceAll queryStr ''+'' ''%20''] @
     map (header_text (lower_vals lw h)) (header_names lw h) @ [[], getSignedHeaders lw h, payload]"

lemma getCanonicalRequest_lines:
  "getCanonicalRequest lw h payload queryStr urlPath method =
     JoinOn newline (canonical_lines lw h payload queryStr urlPath method)"
proof -
  have "getCanonicalHeaders lw h = concat (map (\<lambda>t. t @ newline) (map (header_text (lower_vals lw h)) (header_names lw h)))"
    by (simp add: getCanonicalHeaders_def header_names_def header_line_text [abs_def] comp_def)
  then show ?thesis
    using JoinOn_lines [of "[method, EncodePath urlPath, ReplaceAll queryStr ''+'' ''%20'']"
        "map (header_text (lower_vals lw h)) (header_names lw h)" "[getSignedHeaders lw h, payload]"]
    by (simp add: getCanonicalRequest_def canonical_lines_def Let_def)
qed

lemma EncodePath_no_newline:
  assumes "ValidString u" shows "CHR 0x0A \<notin> set (EncodePath u)"
proof
  assume "CHR 0x0A \<in> set (EncodePath u)"
  then have "CHR 0x0A \<in> set (percentEncodeSlash (EncodePath u))" by (force simp: percentEncodeSlash_def ReplaceAll_char)
  then have "CHR 0x0A = CHR ''%'' \<or> path_char CHR 0x0A" using query_chars [OF assms] by blast
  then show False by (simp add: path_char_def is_alnum_def is_upper_def is_lower_def is_digit_def ascii_def)
qed

lemma EncodePath_inj: "ValidString u \<Longrightarrow> ValidString v \<Longrightarrow> EncodePath u = EncodePath v \<Longrightarrow> u = v"
  using PathUnescape_query by (metis option.inject)

text \<open>Names as they are in a request: no separator of the list of names and no line feed.\<close>

definition plain_names :: "(nat \<Rightarrow> nat) \<Rightarrow> header_list \<Rightarrow> bool" where
  "plain_names lw h \<longleftrightarrow> h \<noteq> [] \<and> (\<forall>k \<in> set (header_names lw h). CHR '';'' \<notin> set k \<and> CHR 0x0A \<notin> set k)"

lemma canonical_lines_no_newline:
  assumes "plain_names lw h" and "ValidString u"
    and "CHR 0x0A \<notin> set m" and "CHR 0x0A \<notin> set p" and "CHR 0x0A \<notin> set q"
    and "w \<in> set (canonical_lines lw h p q u m)"
  shows "CHR 0x0A \<notin> set w"
proof -
  have "CHR 0x0A \<notin> set (ReplaceAll q ''+'' ''%20'')" using assms(5) by (auto simp: ReplaceAll_char)
  moreover have "CHR 0x0A \<notin> set (getSignedHeaders lw h)"
    unfolding getSignedHeaders_def header_names_def [symmetric] using assms(1)
    by (intro JoinOn_absent) (auto simp: plain_names_def)
  moreover have "CHR 0x0A \<notin> set (header_text (lower_vals lw h) k)" if "k \<in> set (header_names lw h)" for k
    using that assms(1) by (intro header_text_no_newline) (simp add: plain_names_def)
  ultimately show ?thesis
    using assms(3,4,6) EncodePath_no_newline [OF assms(2)] by (auto simp: canonical_lines_def)
qed

lemma header_names_signed:
  assumes "plain_names lw h"
  shows "SplitOn CHR '';'' (getSignedHeaders lw h) = header_names lw h"
  unfolding getSignedHeaders_def header_names_def [symmetric]
proof (rule SplitOn_JoinOn)
  show "header_names lw h \<noteq> []" using assms by (simp add: plain_names_def header_names_def) (metis length_0_conv length_map length_sort)
qed (use assms in \<open>auto simp: plain_names_def\<close>)

section \<open>Reading what a client writes\<close>

definition credential_text :: "string \<Rightarrow> string \<Rightarrow> string \<Rightarrow> serviceType \<Rightarrow> string" where
  "credential_text ak day region stype =
     ''Credential='' @ ak @ ''/'' @ day @ ''/'' @ region @ ''/'' @ service_name stype @ ''/aws4_request''"

lemma letter_simps [simp]: "is_alnum CHR ''C''" "is_alnum CHR ''S''" "is_alnum CHR ''A''" "is_alnum CHR ''t''"
  by (simp_all add: is_alnum_def is_upper_def is_lower_def ascii_def)

lemma service_name_no_slash: "CHR ''/'' \<notin> set (service_name stype)"
  by (cases stype) (simp_all add: service_name_def)

lemma parseCredentialHeader_text:
  assumes "ParseDay day = Some d" and "CHR ''/'' \<notin> set day" and "CHR ''/'' \<notin> set rg"
    and "IsAccessKeyValid ak" and "is_alnum (hd ak)" and "isValidRegion rg (if region = [] then rg else region)"
  shows "parseCredentialHeader (credential_text ak day rg stype) region stype =
    Inr \<lparr>ch_accessKey = ak, scope_date = d, scope_region = rg, scope_service = service_name stype, scope_request = ''aws4_request''\<rparr>"
proof -
  let ?scope = "[day, rg, service_name stype, ''aws4_request'']"
  define body where "body = ak @ ''/'' @ day @ ''/'' @ rg @ ''/'' @ service_name stype @ ''/aws4_request''"
  have ak: "ak \<noteq> []" using assms(4) by (auto simp: IsAccessKeyValid_def accessKeyMinLen_def)
  have "TrimSpace (credential_text ak day rg stype) = credential_text ak day rg stype"
    by (rule TrimSpace_alnum_ends) (simp_all add: credential_text_def)
  moreover have "credential_text ak day rg stype = ''Credential'' @ CHR ''='' # body"
    by (simp add: credential_text_def body_def)
  ultimately have creds: "SplitN2 (TrimSpace (credential_text ak day rg stype)) ''='' = [''Credential'', body]"
    by (simp only:) (rule SplitN2_char_append, simp)
  have trim: "TrimSpace body = body"
    by (rule TrimSpace_alnum_ends) (use ak assms(5) in \<open>simp_all add: body_def\<close>)
  have "SplitOn CHR ''/'' body = SplitOn CHR ''/'' ak @ ?scope"
    using assms(2,3) service_name_no_slash [of stype] by (simp add: body_def SplitOn_append_gen SplitOn_append SplitOn_absent)
  then have elems: "SplitOn CHR ''/'' (TrimSpace body) = SplitOn CHR ''/'' ak @ ?scope" using trim by simp
  have key: "JoinOn SlashSeparator (SplitOn CHR ''/'' ak) = ak" by (simp add: SlashSeparator_def JoinOn_SplitOn)
  have len: "1 \<le> length (SplitOn CHR ''/'' ak)" by (cases "SplitOn CHR ''/'' ak") auto
  show ?thesis
    using assms(1,4,6) len unfolding parseCredentialHeader_def creds Let_def
    by (auto simp: elems key)
qed

lemma TrimLeftSpace_blank: "TrimLeftSpace (CHR '' '' # s) = TrimLeftSpace s"
proof -
  have blank: "e = '' ''" if "e \<in> set space_encodings" "HasPrefix (CHR '' '' # s) e" for e
  proof -
    from that(1) obtain r where r: "r \<in> set space_runes" and e: "e = map char_of (EncodeRune r)"
      by (auto simp: space_encodings_def string_of_bytes_def)
    obtain b bs where b: "EncodeRune r = b # bs" by (metis EncodeRune_nonempty neq_Nil_conv)
    from that(2) have "char_of b = CHR '' ''" by (simp add: e b HasPrefix_def)
    then have "ascii (char_of b) = 32" by (simp add: ascii_def)
    moreover have "b < 256" "128 \<le> r \<longrightarrow> 128 \<le> b" using EncodeRune_bytes [of b r] b by simp_all
    ultimately have "b = 32" "r < 128" using ascii_char_of [of b] by auto
    then have "bs = []" using b by (simp add: EncodeRune_def valid_rune_def split: if_splits)
    then show ?thesis using \<open>char_of b = _\<close> by (simp add: e b)
  qed
  have "ascii CHR '' '' = 32" by (simp add: ascii_def)
  then have "char_of (32 :: nat) = CHR '' ''" by (metis ascii_def char_of_char)
  then have "string_of_bytes (EncodeRune 32) = '' ''" by (simp add: EncodeRune_def string_of_bytes_def valid_rune_def)
  moreover have "32 \<in> set space_runes" by (simp add: space_runes_def)
  ultimately have mem: "'' '' \<in> set space_encodings" unfolding space_encodings_def set_map by (metis image_eqI)
  have "HasPrefix (CHR '' '' # s) '' ''" by (simp add: HasPrefix_def)
  then have "find (HasPrefix (CHR '' '' # s)) space_encodings \<noteq> None" using mem by (auto simp: find_None_iff)
  then obtain e where f: "find (HasPrefix (CHR '' '' # s)) space_encodings = Some e" by blast
  then have "e \<in> set space_encodings" "HasPrefix (CHR '' '' # s) e" by (auto simp: find_Some_iff)
  then have "e = '' ''" by (rule blank)
  with f show ?thesis by (simp add: TrimLeftSpace.simps [of "CHR '' '' # s"])
qed

lemma TrimSpace_blank: "TrimSpace (CHR '' '' # s) = TrimSpace s"
  by (simp add: TrimSpace_def TrimLeftSpace_blank)

lemma SplitOn_equals: "CHR ''='' \<notin> set x \<Longrightarrow> SplitOn CHR ''='' (''Signature='' @ x) = [''Signature'', x]"
  "CHR ''='' \<notin> set x \<Longrightarrow> SplitOn CHR ''='' (''SignedHeaders='' @ x) = [''SignedHeaders'', x]"
  by (simp_all add: SplitOn_absent)

definition authorization_text :: "string \<Rightarrow> string list \<Rightarrow> string \<Rightarrow> string" where
  "authorization_text cred names sig =
     signV4Algorithm @ '' '' @ cred @ '', SignedHeaders='' @ JoinOn '';'' names @ '', Signature='' @ sig"

lemma filter_no_blank: "CHR '' '' \<notin> set s \<Longrightarrow> ReplaceAll s '' '' [] = s"
  unfolding ReplaceAll_char by (induction s) auto

lemma ReplaceAll_blank_append: "ReplaceAll (s @ t) '' '' [] = ReplaceAll s '' '' [] @ ReplaceAll t '' '' []"
  unfolding ReplaceAll_char by simp

lemma ReplaceAll_blank_absent: "c \<notin> set s \<Longrightarrow> c \<notin> set (ReplaceAll s '' '' [])"
  unfolding ReplaceAll_char by auto

definition plain_name :: "string \<Rightarrow> bool" where
  "plain_name n \<longleftrightarrow> n \<noteq> [] \<and> is_alnum (last n) \<and> set n \<inter> set '' ,;='' = {}"

lemma names_text:
  assumes "names \<noteq> []" and "list_all plain_name names"
  shows "JoinOn '';'' names \<noteq> []" and "is_alnum (last (JoinOn '';'' names))"
    and "set (JoinOn '';'' names) \<inter> set '' ,='' = {}" and "SplitOn CHR '';'' (JoinOn '';'' names) = names"
proof -
  have ends: "JoinOn '';'' names \<noteq> [] \<and> is_alnum (last (JoinOn '';'' names))"
    using assms
  proof (induction "'';''" names rule: JoinOn.induct)
    case (3 w v ws)
    then show ?case by (simp add: last_append)
  qed (simp_all add: plain_name_def)
  then show "JoinOn '';'' names \<noteq> []" "is_alnum (last (JoinOn '';'' names))" by blast+
  have no: "c \<notin> set (JoinOn '';'' names)" if "c \<in> set '' ,=''" for c
    by (rule JoinOn_absent) (use that assms(2) in \<open>auto simp: list_all_iff plain_name_def\<close>)
  show "set (JoinOn '';'' names) \<inter> set '' ,='' = {}" using no by blast
  show "SplitOn CHR '';'' (JoinOn '';'' names) = names"
    by (rule SplitOn_JoinOn) (use assms in \<open>auto simp: list_all_iff plain_name_def\<close>)
qed

lemma parseSignedHeader_text:
  assumes "names \<noteq> []" and "list_all plain_name names"
  shows "parseSignedHeader (''SignedHeaders='' @ JoinOn '';'' names) = Inr names"
proof -
  note n = names_text [OF assms]
  have "TrimSpace (''SignedHeaders='' @ JoinOn '';'' names) = ''SignedHeaders='' @ JoinOn '';'' names"
    by (rule TrimSpace_alnum_ends) (use n(1,2) in simp_all)
  moreover have "CHR ''='' \<notin> set (JoinOn '';'' names)" using n(3) by auto
  ultimately show ?thesis using n(1,4) SplitOn_equals(2) unfolding parseSignedHeader_def Let_def by simp
qed

lemma parseSignature_text:
  assumes "sig \<noteq> []" and "list_all is_alnum sig"
  shows "parseSignature (''Signature='' @ sig) = Inr sig"
proof -
  have "is_alnum (last sig)" using assms by (simp add: list_all_iff)
  then have "TrimSpace (''Signature='' @ sig) = ''Signature='' @ sig"
    by (intro TrimSpace_alnum_ends) (use assms(1) in simp_all)
  moreover have "CHR ''='' \<notin> set sig"
    using assms(2) by (auto simp: list_all_iff is_alnum_def is_upper_def is_lower_def is_digit_def ascii_def)
  ultimately show ?thesis using assms(1) SplitOn_equals(1) unfolding parseSignature_def Let_def by simp
qed

lemma alnum_plain: "list_all is_alnum sig \<Longrightarrow> CHR '','' \<notin> set sig \<and> CHR '' '' \<notin> set sig"
  by (auto simp: list_all_iff is_alnum_def is_upper_def is_lower_def is_digit_def ascii_def)

lemma authorization_fields:
  assumes "cred = ''Credential='' @ body" and "CHR '','' \<notin> set cred" and "names \<noteq> []" and "list_all plain_name names"
    and "sig \<noteq> []" and "list_all is_alnum sig"
  shows "SplitOn CHR '','' (TrimSpace (authorization_text cred names sig)) ! 0 = signV4Algorithm @ '' '' @ cred"
    and "ReplaceAll (authorization_text cred names sig) '' '' [] =
      signV4Algorithm @ ReplaceAll cred '' '' [] @ '',SignedHeaders='' @ JoinOn '';'' names @ '',Signature='' @ sig"
    and "SplitOn CHR '','' (TrimSpace (ReplaceAll cred '' '' [] @ '',SignedHeaders='' @ JoinOn '';'' names @ '',Signature='' @ sig)) =
      [ReplaceAll cred '' '' [], ''SignedHeaders='' @ JoinOn '';'' names, ''Signature='' @ sig]"
proof -
  note n = names_text [OF assms(3,4)]
  note g = alnum_plain [OF assms(6)]
  have last: "is_alnum (last sig)" using assms(5,6) by (simp add: list_all_iff)
  have "TrimSpace (authorization_text cred names sig) = authorization_text cred names sig"
    by (rule TrimSpace_alnum_ends) (use assms(5) last in \<open>simp_all add: authorization_text_def signV4Algorithm_def\<close>)
  then show "SplitOn CHR '','' (TrimSpace (authorization_text cred names sig)) ! 0 = signV4Algorithm @ '' '' @ cred"
    using SplitOn_append [of "CHR '',''" "signV4Algorithm @ '' '' @ cred"] assms(2)
    by (simp add: authorization_text_def signV4Algorithm_def)
  have h: "CHR '' '' \<notin> set (JoinOn '';'' names)" "CHR '','' \<notin> set (JoinOn '';'' names)" using n(3) by auto
  show "ReplaceAll (authorization_text cred names sig) '' '' [] =
      signV4Algorithm @ ReplaceAll cred '' '' [] @ '',SignedHeaders='' @ JoinOn '';'' names @ '',Signature='' @ sig"
    using filter_no_blank [OF h(1)] filter_no_blank [OF conjunct2 [OF g]]
    by (simp add: authorization_text_def ReplaceAll_blank_append) (simp add: ReplaceAll_char signV4Algorithm_def)
  have c: "ReplaceAll cred '' '' [] = ''Credential='' @ ReplaceAll body '' '' []"
    unfolding assms(1) ReplaceAll_blank_append by (simp add: ReplaceAll_char)
  have "TrimSpace (ReplaceAll cred '' '' [] @ '',SignedHeaders='' @ JoinOn '';'' names @ '',Signature='' @ sig) =
      ReplaceAll cred '' '' [] @ '',SignedHeaders='' @ JoinOn '';'' names @ '',Signature='' @ sig"
    by (rule TrimSpace_alnum_ends) (use assms(5) last in \<open>simp_all add: c\<close>)
  then show "SplitOn CHR '','' (TrimSpace (ReplaceAll cred '' '' [] @ '',SignedHeaders='' @ JoinOn '';'' names @ '',Signature='' @ sig)) =
      [ReplaceAll cred '' '' [], ''SignedHeaders='' @ JoinOn '';'' names, ''Signature='' @ sig]"
    using SplitOn_append [OF ReplaceAll_blank_absent [OF assms(2)]] SplitOn_append [of "CHR '',''" "''SignedHeaders='' @ JoinOn '';'' names"]
      h(2) conjunct1 [OF g] by (simp add: SplitOn_absent)
qed

lemma parseSignV4_text:
  assumes "ParseDay day = Some d" and "set day \<inter> set ''/,'' = {}" and "set rg \<inter> set ''/,'' = {}"
    and "IsAccessKeyValid ak" and "is_alnum (hd ak)" and "CHR '','' \<notin> set ak"
    and "isValidRegion rg (if region = [] then rg else region)"
    and "names \<noteq> []" and "list_all plain_name names" and "sig \<noteq> []" and "list_all is_alnum sig"
  shows "parseSignV4 (authorization_text (credential_text ak day rg stype) names sig) region stype =
    Inr \<lparr>sv_Credential = \<lparr>ch_accessKey = ak, scope_date = d, scope_region = rg, scope_service = service_name stype,
           scope_request = ''aws4_request''\<rparr>, sv_SignedHeaders = names, sv_Signature = sig\<rparr>"
proof -
  define cred where "cred = credential_text ak day rg stype"
  define tail where "tail = ReplaceAll cred '' '' [] @ '',SignedHeaders='' @ JoinOn '';'' names @ '',Signature='' @ sig"
  have comma: "CHR '','' \<notin> set cred"
    using assms(2,3,6) by (cases stype) (auto simp: cred_def credential_text_def service_name_def)
  have body: "cred = ''Credential='' @ (ak @ ''/'' @ day @ ''/'' @ rg @ ''/'' @ service_name stype @ ''/aws4_request'')"
    by (simp add: cred_def credential_text_def)
  define h g where "h = ''SignedHeaders='' @ JoinOn '';'' names" and "g = ''Signature='' @ sig"
  note f = authorization_fields [OF body comma assms(8-11), folded tail_def, folded h_def g_def]
  have hg: "parseSignedHeader h = Inr names" "parseSignature g = Inr sig"
    using parseSignedHeader_text [OF assms(8,9)] parseSignature_text [OF assms(10,11)] by (simp_all only: h_def g_def)
  have "TrimSpace cred = cred" by (rule TrimSpace_alnum_ends) (simp_all add: cred_def credential_text_def)
  then have trim: "TrimSpace (TrimPrefix (signV4Algorithm @ '' '' @ cred) signV4Algorithm) = cred"
    by (simp add: TrimPrefix_def TrimSpace_blank)
  have head: "(signV4Algorithm @ tail = []) = False" "HasPrefix (signV4Algorithm @ tail) signV4Algorithm"
    "TrimPrefix (signV4Algorithm @ tail) signV4Algorithm = tail"
    by (simp_all add: signV4Algorithm_def) (simp add: TrimPrefix_def HasPrefix_def)
  have c: "parseCredentialHeader cred region stype = Inr \<lparr>ch_accessKey = ak, scope_date = d, scope_region = rg,
      scope_service = service_name stype, scope_request = ''aws4_request''\<rparr>"
    unfolding cred_def by (rule parseCredentialHeader_text) (use assms in auto)
  show ?thesis
    unfolding parseSignV4_def Let_def cred_def [symmetric] f(1) f(2) trim head f(3) \<open>TrimSpace cred = cred\<close> c
    by (simp add: hg)
qed

section \<open>Properties\<close>



text \<open>C36: The \<open>Authorization\<close> header that a client writes is read back: the access key, with any
  slashes, spaces and equal signs in it but no comma, the scope, the names of the signed headers in
  their order, and the signature.\<close>

theorem authorization_roundtrip:
  assumes "ParseDay day = Some d" and "set day \<inter> set ''/,'' = {}" and "set rg \<inter> set ''/,'' = {}"
    and "IsAccessKeyValid ak" and "is_alnum (hd ak)" and "CHR '','' \<notin> set ak"
    and "isValidRegion rg (if region = [] then rg else region)"
    and "names \<noteq> []" and "list_all plain_name names" and "sig \<noteq> []" and "list_all is_alnum sig"
  shows "parseSignV4 (authorization_text (credential_text ak day rg stype) names sig) region stype =
    Inr \<lparr>sv_Credential = \<lparr>ch_accessKey = ak, scope_date = d, scope_region = rg, scope_service = service_name stype,
           scope_request = ''aws4_request''\<rparr>, sv_SignedHeaders = names, sv_Signature = sig\<rparr>"
  using assms by (rule parseSignV4_text)

lemma ex_ParseDay: "ParseDay ''20200101'' = Some \<lparr>instant = 1577836800 * 10 ^ 9, loc = UTC\<rparr>"
  by (simp add: ParseDay_def parse_day_def get_year_def is_digit_def ascii_def digits_val_def digit_val_def days_in_def
      month_lengths_def is_leap_def unix_seconds_def days_of_date_def days_before_year_def unix_epoch_days_def)

theorem authorization_roundtrip_witness:
  "\<exists>sv. parseSignV4 (authorization_text (credential_text ''a/b=c d'' ''20200101'' '''' serviceS3) [''host'', ''x-amz-date''] ''0f'') '''' serviceS3 =
     Inr sv \<and> ch_accessKey (sv_Credential sv) = ''a/b=c d'' \<and> sv_SignedHeaders sv = [''host'', ''x-amz-date'']"
proof -
  have "list_all plain_name [''host'', ''x-amz-date'']" "list_all is_alnum ''0f''" "is_alnum (hd ''a/b=c d'')"
    by (simp_all add: plain_name_def is_alnum_def is_upper_def is_lower_def is_digit_def ascii_def)
  then show ?thesis
    using authorization_roundtrip [OF ex_ParseDay, of "''''" "''a/b=c d''" "''''" "[''host'', ''x-amz-date'']" "''0f''" serviceS3]
    by (simp add: IsAccessKeyValid_def accessKeyMinLen_def isValidRegion_def)
qed

end
