(* ===== verification/ObjectLock.thy ===== *)
theory ObjectLock
  imports HttpRequest GoTime
begin

text \<open>
  \<open>pkg/bucket/object/lock/lock.go\<close>: retention and legal hold of objects.  XML documents are the
  structs that the decoder fills, or \<open>None\<close> when it fails; the clock is an argument, \<open>None\<close> when the
  time server does not answer; \<open>up\<close> is the table of Unicode for upper case.
\<close>

section \<open>Modes\<close>

type_synonym RetMode = string

definition RetGovernance :: RetMode where "RetGovernance = ''GOVERNANCE''"
definition RetCompliance :: RetMode where "RetCompliance = ''COMPLIANCE''"

definition RetMode_Valid :: "RetMode \<Rightarrow> bool" where
  "RetMode_Valid r \<longleftrightarrow> r = RetGovernance \<or> r = RetCompliance"

definition parseRetMode :: "(nat \<Rightarrow> nat) \<Rightarrow> string \<Rightarrow> RetMode" where
  "parseRetMode up modeStr =
     (if ToUpper up modeStr = ''GOVERNANCE'' then RetGovernance
      else if ToUpper up modeStr = ''COMPLIANCE'' then RetCompliance else [])"

type_synonym LegalHoldStatus = string

definition LegalHoldOn :: LegalHoldStatus where "LegalHoldOn = ''ON''"
definition LegalHoldOff :: LegalHoldStatus where "LegalHoldOff = ''OFF''"

definition LegalHoldStatus_Valid :: "LegalHoldStatus \<Rightarrow> bool" where
  "LegalHoldStatus_Valid l \<longleftrightarrow> l = LegalHoldOn \<or> l = LegalHoldOff"

definition parseLegalHoldStatus :: "(nat \<Rightarrow> nat) \<Rightarrow> string \<Rightarrow> LegalHoldStatus" where
  "parseLegalHoldStatus up holdStr =
     (if ToUpper up holdStr = ''ON'' then LegalHoldOn
      else if ToUpper up holdStr = ''OFF'' then LegalHoldOff else [])"

lemmas lock_modes = RetGovernance_def RetCompliance_def RetMode_Valid_def LegalHoldOn_def LegalHoldOff_def
  LegalHoldStatus_Valid_def

datatype lock_err =
    ErrInvalidRetentionDate
  | ErrPastObjectLockRetainDate
  | ErrUnknownWORMModeDirective
  | ErrObjectLockInvalidHeaders
  | ErrLockXML
  | ErrUnknownRetentionMode
  | ErrNoRetentionPeriod
  | ErrTwoRetentionPeriods
  | ErrRetentionPeriodNotPositive
  | ErrRetentionPeriodTooLarge
  | ErrObjectLockNotEnabled

section \<open>Retention of a bucket\<close>

record Retention =
  ret_Mode :: RetMode
  ret_Validity :: int

definition zero_retention :: Retention where
  "zero_retention = \<lparr>ret_Mode = [], ret_Validity = 0\<rparr>"

definition Retention_IsEmpty :: "Retention \<Rightarrow> bool" where
  "Retention_IsEmpty r \<longleftrightarrow> \<not> RetMode_Valid (ret_Mode r) \<or> ret_Validity r = 0"

definition time_Add :: "gotime \<Rightarrow> int \<Rightarrow> gotime" where
  "time_Add t d = t\<lparr>instant := instant t + d\<rparr>"

definition Retain :: "gotime option \<Rightarrow> Retention \<Rightarrow> gotime \<Rightarrow> bool" where
  "Retain now r created =
     (case now of None \<Rightarrow> True | Some t \<Rightarrow> time_After (time_Add created (ret_Validity r)) t)"

record BucketObjectLockConfig =
  retentionMap :: "string \<Rightarrow> Retention option"

definition BucketObjectLockConfig_Set where
  "BucketObjectLockConfig_Set config bucketName retention =
     config\<lparr>retentionMap := (retentionMap config)(bucketName \<mapsto> retention)\<rparr>"

definition BucketObjectLockConfig_Get where
  "BucketObjectLockConfig_Get config bucketName = retentionMap config bucketName"

definition BucketObjectLockConfig_Remove where
  "BucketObjectLockConfig_Remove config bucketName =
     config\<lparr>retentionMap := (retentionMap config)(bucketName := None)\<rparr>"

definition NewBucketObjectLockConfig :: BucketObjectLockConfig where
  "NewBucketObjectLockConfig = \<lparr>retentionMap = Map.empty\<rparr>"

record DefaultRetention =
  dr_Mode :: RetMode
  dr_Days :: "nat option"
  dr_Years :: "nat option"

definition maximumRetentionDays :: nat where "maximumRetentionDays = 36500"
definition maximumRetentionYears :: nat where "maximumRetentionYears = 100"

definition DefaultRetention_UnmarshalXML :: "DefaultRetention option \<Rightarrow> lock_err + DefaultRetention" where
  "DefaultRetention_UnmarshalXML decoded =
     (case decoded of
        None \<Rightarrow> Inl ErrLockXML
      | Some retention \<Rightarrow>
          if dr_Mode retention \<noteq> RetGovernance \<and> dr_Mode retention \<noteq> RetCompliance then Inl ErrUnknownRetentionMode
          else
            (case dr_Days retention of
               None \<Rightarrow>
                 (case dr_Years retention of
                    None \<Rightarrow> Inl ErrNoRetentionPeriod
                  | Some years \<Rightarrow>
                      if years = 0 then Inl ErrRetentionPeriodNotPositive
                      else if maximumRetentionYears < years then Inl ErrRetentionPeriodTooLarge else Inr retention)
             | Some days \<Rightarrow>
                 if dr_Years retention \<noteq> None then Inl ErrTwoRetentionPeriods
                 else if days = 0 then Inl ErrRetentionPeriodNotPositive
                 else if maximumRetentionDays < days then Inl ErrRetentionPeriodTooLarge else Inr retention))"

text \<open>\<open>Rule\<close> is the pointer to the struct; the document has the element \<open>Rule\<close> or not, and in it the
  element \<open>DefaultRetention\<close> or not.  The decoder calls \<open>UnmarshalXML\<close> for an element that is there.\<close>

record LockConfig =
  ObjectLockEnabled :: string
  Rule :: "DefaultRetention option"

record LockConfigXML =
  x_ObjectLockEnabled :: string
  x_Rule :: "DefaultRetention option option"

definition zero_default :: DefaultRetention where
  "zero_default = \<lparr>dr_Mode = [], dr_Days = None, dr_Years = None\<rparr>"

definition decode_rule :: "DefaultRetention option option \<Rightarrow> lock_err + DefaultRetention option" where
  "decode_rule rule =
     (case rule of
        None \<Rightarrow> Inr None
      | Some None \<Rightarrow> Inr (Some zero_default)
      | Some (Some dr) \<Rightarrow> (case DefaultRetention_UnmarshalXML (Some dr) of Inl err \<Rightarrow> Inl err | Inr r \<Rightarrow> Inr (Some r)))"

definition Config_UnmarshalXML :: "LockConfigXML option \<Rightarrow> lock_err + LockConfig" where
  "Config_UnmarshalXML decoded =
     (case decoded of
        None \<Rightarrow> Inl ErrLockXML
      | Some doc \<Rightarrow>
          (case decode_rule (x_Rule doc) of
             Inl err \<Rightarrow> Inl err
           | Inr rule \<Rightarrow>
               if x_ObjectLockEnabled doc \<noteq> ''Enabled'' then Inl ErrObjectLockNotEnabled
               else Inr \<lparr>ObjectLockEnabled = x_ObjectLockEnabled doc, Rule = rule\<rparr>))"

definition ParseObjectLockConfig :: "LockConfigXML option \<Rightarrow> lock_err + LockConfig" where
  "ParseObjectLockConfig decoded = Config_UnmarshalXML decoded"

definition NewObjectLockConfig :: LockConfig where
  "NewObjectLockConfig = \<lparr>ObjectLockEnabled = ''Enabled'', Rule = None\<rparr>"

text \<open>\<open>AddDate\<close> of days and of years in UTC: a day that the month does not have moves on.\<close>

definition add_days :: "gotime \<Rightarrow> nat \<Rightarrow> gotime" where
  "add_days t n = t\<lparr>instant := instant t + int n * 86400 * 10 ^ 9\<rparr>"

definition add_years :: "gotime \<Rightarrow> nat \<Rightarrow> gotime" where
  "add_years t n =
     (let secs = instant t div 10 ^ 9; (y, m, d) = civil (secs div 86400 + unix_epoch_days)
      in t\<lparr>instant := (days_of_date (y + int n) m d * 86400 + secs mod 86400) * 10 ^ 9 + instant t mod 10 ^ 9\<rparr>)"

text \<open>A rule with neither period is a nil pointer.\<close>

definition ToRetention :: "gotime option \<Rightarrow> LockConfig \<Rightarrow> Retention go" where
  "ToRetention now config =
     (case Rule config of
        None \<Rightarrow> Some zero_retention
      | Some rule \<Rightarrow>
          (let r = zero_retention\<lparr>ret_Mode := dr_Mode rule\<rparr> in
           case now of
             None \<Rightarrow> Some r
           | Some t \<Rightarrow>
               (case dr_Days rule of
                  Some days \<Rightarrow> Some (r\<lparr>ret_Validity := instant (add_days t days) - instant t\<rparr>)
                | None \<Rightarrow>
                    (case dr_Years rule of
                       Some years \<Rightarrow> Some (r\<lparr>ret_Validity := instant (add_years t years) - instant t\<rparr>)
                     | None \<Rightarrow> None))))"

section \<open>Retention and legal hold of an object\<close>

record ObjectRetention =
  or_Mode :: RetMode
  or_RetainUntilDate :: gotime

definition RetentionDate_UnmarshalXML :: "string option \<Rightarrow> lock_err + gotime" where
  "RetentionDate_UnmarshalXML decoded =
     (case decoded of
        None \<Rightarrow> Inl ErrLockXML
      | Some dateStr \<Rightarrow> (case ParseRFC3339 dateStr of None \<Rightarrow> Inl ErrInvalidRetentionDate | Some t \<Rightarrow> Inr t))"

definition ParseObjectRetention :: "gotime option \<Rightarrow> ObjectRetention option \<Rightarrow> lock_err + ObjectRetention" where
  "ParseObjectRetention now decoded =
     (case decoded of
        None \<Rightarrow> Inl ErrLockXML
      | Some ret \<Rightarrow>
          if \<not> RetMode_Valid (or_Mode ret) then Inl ErrUnknownWORMModeDirective
          else case now of
            None \<Rightarrow> Inl ErrPastObjectLockRetainDate
          | Some t \<Rightarrow>
              if time_Before (or_RetainUntilDate ret) t then Inl ErrPastObjectLockRetainDate else Inr ret)"

definition IsObjectLockRetentionRequested :: "values_map \<Rightarrow> bool" where
  "IsObjectLockRetentionRequested h \<longleftrightarrow> h AmzObjectLockMode \<noteq> None \<or> h AmzObjectLockRetainUntilDate \<noteq> None"

definition IsObjectLockLegalHoldRequested :: "values_map \<Rightarrow> bool" where
  "IsObjectLockLegalHoldRequested h \<longleftrightarrow> h AmzObjectLockLegalHold \<noteq> None"

definition header_get :: "values_map \<Rightarrow> string \<Rightarrow> string" where
  "header_get h k = first_value h (CanonicalHeaderKey k)"

definition IsObjectLockGovernanceBypassSet :: "(nat \<Rightarrow> nat) \<Rightarrow> values_map \<Rightarrow> bool" where
  "IsObjectLockGovernanceBypassSet lw h \<longleftrightarrow> ToLower lw (header_get h AmzObjectLockBypassGovernance) = ''true''"

definition IsObjectLockRequested :: "values_map \<Rightarrow> bool" where
  "IsObjectLockRequested h \<longleftrightarrow> IsObjectLockLegalHoldRequested h \<or> IsObjectLockRetentionRequested h"

definition ParseObjectLockRetentionHeaders :: "(nat \<Rightarrow> nat) \<Rightarrow> gotime option \<Rightarrow> values_map \<Rightarrow> lock_err + RetMode \<times> gotime" where
  "ParseObjectLockRetentionHeaders up now h =
     (let retMode = header_get h AmzObjectLockMode; dateStr = header_get h AmzObjectLockRetainUntilDate in
      if length retMode = 0 \<or> length dateStr = 0 then Inl ErrObjectLockInvalidHeaders
      else
        (let rmode = parseRetMode up retMode in
         if \<not> RetMode_Valid rmode then Inl ErrUnknownWORMModeDirective
         else case ParseRFC3339 dateStr of
           None \<Rightarrow> Inl ErrInvalidRetentionDate
         | Some retDate \<Rightarrow>
             (case now of
                None \<Rightarrow> Inl ErrPastObjectLockRetainDate
              | Some t \<Rightarrow>
                  if time_Before retDate t then Inl ErrPastObjectLockRetainDate else Inr (rmode, retDate))))"

type_synonym metadata = "string \<Rightarrow> string option"

text \<open>The entry under the name in lower case, or under the name itself.\<close>

definition meta_entry :: "metadata \<Rightarrow> string \<Rightarrow> string option" where
  "meta_entry meta name = (case meta (map to_lower_char name) of None \<Rightarrow> meta name | Some v \<Rightarrow> Some v)"

definition GetObjectRetentionMeta :: "(nat \<Rightarrow> nat) \<Rightarrow> metadata \<Rightarrow> ObjectRetention" where
  "GetObjectRetentionMeta up meta =
     \<lparr>or_Mode = (case meta_entry meta AmzObjectLockMode of None \<Rightarrow> [] | Some modeStr \<Rightarrow> parseRetMode up modeStr),
      or_RetainUntilDate =
        (case meta_entry meta AmzObjectLockRetainUntilDate of
           None \<Rightarrow> zero_time
         | Some tillStr \<Rightarrow>
             (case ParseRFC3339 tillStr of None \<Rightarrow> zero_time | Some t \<Rightarrow> t\<lparr>loc := UTC\<rparr>))\<rparr>"

text \<open>A legal hold is its status; the empty one is that of the zero struct.\<close>

definition GetObjectLegalHoldMeta :: "(nat \<Rightarrow> nat) \<Rightarrow> metadata \<Rightarrow> LegalHoldStatus" where
  "GetObjectLegalHoldMeta up meta =
     (case meta_entry meta AmzObjectLockLegalHold of None \<Rightarrow> [] | Some holdStr \<Rightarrow> parseLegalHoldStatus up holdStr)"

definition ParseObjectLockLegalHoldHeaders :: "(nat \<Rightarrow> nat) \<Rightarrow> values_map \<Rightarrow> lock_err + LegalHoldStatus" where
  "ParseObjectLockLegalHoldHeaders up h =
     (case h AmzObjectLockLegalHold of
        None \<Rightarrow> Inr []
      | Some holdStatus \<Rightarrow>
          (let lh = parseLegalHoldStatus up (holdStatus ! 0) in
           if \<not> LegalHoldStatus_Valid lh then Inl ErrUnknownWORMModeDirective else Inr lh))"

definition ObjectLegalHold_IsEmpty :: "LegalHoldStatus \<Rightarrow> bool" where
  "ObjectLegalHold_IsEmpty l \<longleftrightarrow> \<not> LegalHoldStatus_Valid l"

definition ParseObjectLegalHold :: "LegalHoldStatus option \<Rightarrow> lock_err + LegalHoldStatus" where
  "ParseObjectLegalHold decoded =
     (case decoded of
        None \<Rightarrow> Inl ErrLockXML
      | Some status \<Rightarrow> if \<not> LegalHoldStatus_Valid status then Inl ErrLockXML else Inr status)"

definition FilterObjectLockMetadata :: "(nat \<Rightarrow> nat) \<Rightarrow> metadata \<Rightarrow> bool \<Rightarrow> bool \<Rightarrow> metadata" where
  "FilterObjectLockMetadata up metadata filterRetention filterLegalHold =
     (let legalHold = GetObjectLegalHoldMeta up metadata;
          dst = (if \<not> LegalHoldStatus_Valid legalHold \<or> filterLegalHold
                 then metadata(AmzObjectLockLegalHold := None) else metadata);
          ret = GetObjectRetentionMeta up metadata
      in if \<not> RetMode_Valid (or_Mode ret) \<or> filterRetention
         then dst(AmzObjectLockMode := None, AmzObjectLockRetainUntilDate := None) else dst)"

end
