(* ===== verification/AuthHandler.thy ===== *)
theory AuthHandler
  imports SigV4 ObjectLock PolicySys IAMAccess
begin

text \<open>
  \<open>cmd/ipos/cmd/auth-handler.go\<close>: how a request says who sends it, and the decision whether the
  sender may do what the request asks for.  The verification of tokens (\<open>cmd/ipos/jwt\<close>), the
  reading of policy documents and of XML, HMAC and SHA-256 are part of the server.
\<close>

section \<open>The server\<close>

record server =
  srv_env :: iam_env
  srv_iam :: IAMSys
  srv_policies :: PolicySys
  srv_region :: string
  srv_crypto :: crypto
  srv_lower :: "nat \<Rightarrow> nat"
  srv_fold :: "nat \<Rightarrow> nat"
  srv_token :: "string \<Rightarrow> string \<Rightarrow> (string \<Rightarrow> claim option) option"
  srv_parsePolicy :: "string \<Rightarrow> iam_Policy option"

section \<open>Kinds of authentication\<close>

definition isRequestJWT :: "http_request \<Rightarrow> bool" where
  "isRequestJWT r = HasPrefix (Header_Get r Authorization) jwtAlgorithm"

definition isRequestSignatureV2 :: "http_request \<Rightarrow> bool" where
  "isRequestSignatureV2 r \<longleftrightarrow>
     \<not> HasPrefix (Header_Get r Authorization) signV4Algorithm \<and> HasPrefix (Header_Get r Authorization) signV2Algorithm"

definition isRequestPresignedSignatureV2 :: "http_request \<Rightarrow> bool" where
  "isRequestPresignedSignatureV2 r \<longleftrightarrow> Query r AmzAccessKeyID \<noteq> None"

definition isRequestPostPolicySignatureV4 :: "http_request \<Rightarrow> bool" where
  "isRequestPostPolicySignatureV4 r \<longleftrightarrow>
     Contains (Header_Get r ContentType) ''multipart/form-data'' \<and> Method r = ''POST''"

definition isRequestSignStreamingV4 :: "http_request \<Rightarrow> bool" where
  "isRequestSignStreamingV4 r \<longleftrightarrow> Header_Get r AmzContentSha256 = streamingContentSHA256 \<and> Method r = ''PUT''"

datatype authType =
    authTypeUnknown
  | authTypeAnonymous
  | authTypePresigned
  | authTypePresignedV2
  | authTypePostPolicy
  | authTypeStreamingSigned
  | authTypeSigned
  | authTypeSignedV2
  | authTypeJWT
  | authTypeSTS

definition getRequestAuthType :: "http_request \<Rightarrow> authType" where
  "getRequestAuthType r =
     (if isRequestSignatureV2 r then authTypeSignedV2
      else if isRequestPresignedSignatureV2 r then authTypePresignedV2
      else if isRequestSignStreamingV4 r then authTypeStreamingSigned
      else if isRequestSignatureV4 r then authTypeSigned
      else if isRequestPresignedSignatureV4 r then authTypePresigned
      else if isRequestJWT r then authTypeJWT
      else if isRequestPostPolicySignatureV4 r then authTypePostPolicy
      else if Query r xAction \<noteq> None then authTypeSTS
      else if Header r Authorization = None then authTypeAnonymous
      else authTypeUnknown)"

section \<open>Signatures and sums\<close>

text \<open>\<open>presigned\<close> is the check of a signature in the query, which is not modelled; requests of the
  signed types do not come there.\<close>

definition reqSignatureV4Verify ::
    "server \<Rightarrow> (string \<Rightarrow> http_request \<Rightarrow> string \<Rightarrow> serviceType \<Rightarrow> APIErrorCode) \<Rightarrow> string \<Rightarrow> http_request \<Rightarrow> string \<Rightarrow>
     serviceType \<Rightarrow> APIErrorCode" where
  "reqSignatureV4Verify srv presigned body r region stype =
     (let sha256sum = getContentSha256Cksum (\<lambda>s. hex_EncodeToString (Sum256 (srv_crypto srv) s)) body r stype in
      if isRequestSignatureV4 r then
        doesSignatureMatch (srv_crypto srv) (srv_lower srv) (srv_env srv) (srv_iam srv) sha256sum r region stype
      else if isRequestPresignedSignatureV4 r then presigned sha256sum r region stype
      else ErrAccessDenied)"

text \<open>\<open>base64.StdEncoding.Strict()\<close> refuses unused bits that are not zero.\<close>

definition b64_strict :: "string \<Rightarrow> string option" where
  "b64_strict s =
     (case b64_DecodeString s of
        None \<Rightarrow> None
      | Some d \<Rightarrow>
          if b64_EncodeToString d = filter (\<lambda>c. ascii c \<noteq> 10 \<and> ascii c \<noteq> 13) s then Some d else None)"

definition checkValidMD5 :: "values_map \<Rightarrow> string option" where
  "checkValidMD5 h =
     (case h ContentMD5 of
        None \<Rightarrow> Some []
      | Some md5B64 \<Rightarrow> if md5B64 ! 0 = [] then None else b64_strict (md5B64 ! 0))"

text \<open>The sums that the reader of the body compares with; \<open>hash.NewReader\<close> gets hexadecimal text of
  bytes and does not fail.\<close>

definition content_sha256 :: "http_request \<Rightarrow> APIErrorCode + string" where
  "content_sha256 r =
     (let skipSHA256 = skipContentSha256Cksum r in
      if \<not> skipSHA256 \<and> isRequestPresignedSignatureV4 r then
        (case Query r AmzContentSha256 of
           Some (s # _) \<Rightarrow> (case hex_DecodeString s of None \<Rightarrow> Inl ErrContentSHA256Mismatch | Some d \<Rightarrow> Inr d)
         | _ \<Rightarrow> Inr [])
      else if \<not> skipSHA256 \<and> Header r AmzContentSha256 \<noteq> None then
        (case hex_DecodeString (Header_Get r AmzContentSha256) of
           None \<Rightarrow> Inl ErrContentSHA256Mismatch
         | Some d \<Rightarrow> if length d = 0 then Inl ErrContentSHA256Mismatch else Inr d)
      else Inr [])"

definition isReqAuthenticated where
  "isReqAuthenticated srv presigned body r region stype =
     (let errCode = reqSignatureV4Verify srv presigned body r region stype in
      if errCode \<noteq> ErrNone then Inl errCode
      else case checkValidMD5 (Header r) of
        None \<Rightarrow> Inl ErrInvalidDigest
      | Some contentMD5 \<Rightarrow>
          (case content_sha256 r of Inl err \<Rightarrow> Inl err | Inr contentSHA256 \<Rightarrow> Inr (contentMD5, contentSHA256)))"

section \<open>Tokens\<close>

definition getSessionToken :: "http_request \<Rightarrow> string" where
  "getSessionToken r =
     (if Header_Get r AmzSecurityToken \<noteq> [] then Header_Get r AmzSecurityToken else Query_Get r AmzSecurityToken)"

definition getClaimsFromToken :: "server \<Rightarrow> string \<Rightarrow> obj_err + (string \<Rightarrow> claim option)" where
  "getClaimsFromToken srv token =
     (if token = [] then Inr Map.empty
      else case srv_token srv (SecretKey (globalActiveCred (srv_env srv))) token of
        None \<Rightarrow> Inl errAuthentication
      | Some claims \<Rightarrow> Inr claims)"

definition mustGetClaimsFromToken :: "server \<Rightarrow> http_request \<Rightarrow> string \<Rightarrow> claim option" where
  "mustGetClaimsFromToken srv r =
     (case getClaimsFromToken srv (getSessionToken r) of Inl _ \<Rightarrow> Map.empty | Inr claims \<Rightarrow> claims)"

definition checkClaimsFromToken :: "server \<Rightarrow> http_request \<Rightarrow> Credentials \<Rightarrow> APIErrorCode + (string \<Rightarrow> claim option)" where
  "checkClaimsFromToken srv r cred =
     (let token0 = getSessionToken r in
      if token0 \<noteq> [] \<and> AccessKey cred = [] then Inl ErrNoAccessKey
      else
        (let token = (if cred_IsServiceAccount cred \<and> token0 = [] then SessionToken cred else token0) in
         if token \<noteq> SessionToken cred then Inl ErrInvalidToken
         else case getClaimsFromToken srv token of
           Inl err \<Rightarrow> Inl (toAPIErrorCode (Some err))
         | Inr claims \<Rightarrow> Inr claims))"

section \<open>Decisions\<close>

definition policy_allows :: "server \<Rightarrow> Args \<Rightarrow> bool go" where
  "policy_allows srv args = PolicySys_IsAllowed (srv_fold srv) (srv_policies srv) args"

definition iam_allows :: "server \<Rightarrow> iam_Args \<Rightarrow> bool go" where
  "iam_allows srv args = IAMSys_IsAllowed (srv_fold srv) (srv_parsePolicy srv) args (srv_iam srv)"

definition anonymous_args :: "Action \<Rightarrow> string \<Rightarrow> string \<Rightarrow> req_values \<Rightarrow> Args" where
  "anonymous_args action bucketName objectName conditions =
     \<lparr>AccountName = [], args_Action = action, args_BucketName = bucketName, ConditionValues = conditions,
      IsOwner = False, args_ObjectName = objectName\<rparr>"

definition user_args ::
    "Credentials \<Rightarrow> bool \<Rightarrow> (string \<Rightarrow> claim option) \<Rightarrow> Action \<Rightarrow> string \<Rightarrow> string \<Rightarrow> req_values \<Rightarrow> iam_Args" where
  "user_args cred owner claims action bucketName objectName conditions =
     \<lparr>ia_AccountName = AccessKey cred, ia_Action = action, ia_BucketName = bucketName, ia_ConditionValues = conditions,
      ia_IsOwner = owner, ia_ObjectName = objectName, ia_Claims = claims\<rparr>"

definition now_of :: "server \<Rightarrow> gotime" where
  "now_of srv = env_now (srv_env srv)"

text \<open>\<open>ErrNone\<close> or \<open>ErrAccessDenied\<close> by an answer; a panic stays one.\<close>

definition access_code :: "bool go \<Rightarrow> APIErrorCode go" where
  "access_code = map_option (\<lambda>b. if b then ErrNone else ErrAccessDenied)"

text \<open>The body of a request that makes a bucket: \<open>None\<close> when it cannot be read, \<open>Some None\<close> when it is
  not the XML document, otherwise the location in it.\<close>

definition parseLocationConstraint :: "http_request \<Rightarrow> string option \<Rightarrow> string \<Rightarrow> APIErrorCode + string" where
  "parseLocationConstraint r document region =
     (if document = None \<and> ContentLength r \<noteq> 0 then Inl ErrMalformedXML
      else case document of
        None \<Rightarrow> Inr region
      | Some location \<Rightarrow> Inr (if location = [] then region else location))"

definition authenticate where
  "authenticate srv presigned body r region =
     (case isReqAuthenticated srv presigned body r region serviceS3 of
        Inl err \<Rightarrow> Inl err
      | Inr _ \<Rightarrow> getReqAccessKeyV4 (srv_env srv) (srv_iam srv) r region serviceS3)"

definition checkRequestAuthTypeToAccessKey where
  "checkRequestAuthTypeToAccessKey srv presigned body location r action bucketName objectName =
     (let atype = getRequestAuthType r;
          region = (if action = GetBucketLocationAction \<or> action = ListAllMyBucketsAction then [] else srv_region srv)
      in if atype = authTypeUnknown \<or> atype = authTypeStreamingSigned then Some ([], False, ErrSignatureVersionNotSupported)
         else case (if atype = authTypeSigned then authenticate srv presigned body r region else Inr (zero_cred, False)) of
           Inl err \<Rightarrow> Some ([], False, err)
         | Inr (cred, owner) \<Rightarrow>
             (case checkClaimsFromToken srv r cred of
                Inl err \<Rightarrow> Some ([], owner, err)
              | Inr claims \<Rightarrow>
                  (case (if action = CreateBucketAction then
                           (case location of
                              None \<Rightarrow> Inl ErrMalformedXML
                            | Some document \<Rightarrow> parseLocationConstraint r document (srv_region srv))
                         else Inr []) of
                     Inl err \<Rightarrow> Some ([], owner, err)
                   | Inr locationConstraint \<Rightarrow>
                       if AccessKey cred = [] then
                         map_option (\<lambda>code. (AccessKey cred, owner, code))
                           (access_code (policy_allows srv (anonymous_args action bucketName objectName
                              (getConditionValues r locationConstraint [] Map.empty (now_of srv)))))
                       else
                         map_option (\<lambda>code. (AccessKey cred, owner, code))
                           (access_code (iam_allows srv (user_args cred owner claims action bucketName objectName
                              (getConditionValues r [] (AccessKey cred) claims (now_of srv))))))))"

definition checkRequestAuthType where
  "checkRequestAuthType srv presigned body location r action bucketName objectName =
     map_option (\<lambda>(_, _, s3Err). s3Err)
       (checkRequestAuthTypeToAccessKey srv presigned body location r action bucketName objectName)"

definition validateSignature where
  "validateSignature srv presigned body atype r =
     (if atype = authTypeUnknown \<or> atype = authTypeStreamingSigned then Inl ErrSignatureVersionNotSupported
      else case (if atype = authTypeSigned then authenticate srv presigned body r (srv_region srv) else Inr (zero_cred, False)) of
        Inl err \<Rightarrow> Inl err
      | Inr (cred, owner) \<Rightarrow>
          (case checkClaimsFromToken srv r cred of Inl err \<Rightarrow> Inl err | Inr claims \<Rightarrow> Inr (cred, owner, claims)))"

text \<open>For the administration the access key is looked up first and the signature checked after.\<close>

definition validateAdminSignature where
  "validateAdminSignature srv presigned body r region =
     (if Header r AmzContentSha256 \<noteq> None \<and> getRequestAuthType r = authTypeSigned \<and> \<not> skipContentSha256Cksum r then
        (case getReqAccessKeyV4 (srv_env srv) (srv_iam srv) r region serviceS3 of
           Inl err \<Rightarrow> Inl err
         | Inr (cred, owner) \<Rightarrow>
             (case isReqAuthenticated srv presigned body r region serviceS3 of
                Inl err \<Rightarrow> Inl err
              | Inr _ \<Rightarrow>
                  (case checkClaimsFromToken srv r cred of Inl err \<Rightarrow> Inl err | Inr claims \<Rightarrow> Inr (cred, owner, claims))))
      else Inl ErrAccessDenied)"

definition checkAdminRequestAuthType where
  "checkAdminRequestAuthType srv presigned body r action region =
     (case validateAdminSignature srv presigned body r region of
        Inl err \<Rightarrow> Some (zero_cred, err)
      | Inr (cred, owner, claims) \<Rightarrow>
          map_option (Pair cred)
            (access_code (iam_allows srv (user_args cred owner claims action [] []
               (getConditionValues r [] (AccessKey cred) claims (now_of srv))))))"

section \<open>The handler and the permissions of uploads\<close>

datatype auth_outcome = Handled | Unauthorized | NotSupported

definition isSupportedS3AuthType :: "authType \<Rightarrow> bool" where
  "isSupportedS3AuthType aType \<longleftrightarrow> aType = authTypeSigned \<or> aType = authTypeStreamingSigned"

text \<open>\<open>web_ok\<close> is the check of the token of the browser.\<close>

definition authHandler_ServeHTTP :: "(http_request \<Rightarrow> bool) \<Rightarrow> http_request \<Rightarrow> auth_outcome" where
  "authHandler_ServeHTTP web_ok r =
     (let aType = getRequestAuthType r in
      if isSupportedS3AuthType aType then Handled
      else if aType = authTypeJWT then (if web_ok r then Handled else Unauthorized)
      else if aType = authTypeSTS then Handled
      else NotSupported)"

definition retention_conditions :: "req_values \<Rightarrow> RetMode \<Rightarrow> gotime \<Rightarrow> int \<Rightarrow> req_values" where
  "retention_conditions conditions retMode retDate retDays =
     (let c = conditions(''object-lock-mode'' \<mapsto> [retMode], ''object-lock-retain-until-date'' \<mapsto> [FormatRFC3339 retDate])
      in if 0 < retDays then c(''object-lock-remaining-retention-days'' \<mapsto> [Itoa retDays]) else c)"

text \<open>The two questions of \<open>isPutRetentionAllowed\<close>, by the function that answers them.\<close>

definition retention_answer :: "(Action \<Rightarrow> bool go) \<Rightarrow> RetMode \<Rightarrow> bool \<Rightarrow> APIErrorCode go" where
  "retention_answer allowed retMode byPassSet0 = do {
     byPassSet \<leftarrow> (if retMode = RetGovernance \<and> byPassSet0 then allowed BypassGovernanceRetentionAction else Some byPassSet0);
     retSet \<leftarrow> allowed PutObjectRetentionAction;
     Some (if byPassSet \<or> retSet then ErrNone else ErrAccessDenied)
   }"

definition isPutRetentionAllowed where
  "isPutRetentionAllowed srv bucketName objectName retDays retDate retMode byPassSet r cred owner claims =
     (if AccessKey cred = [] then
        (let conditions = retention_conditions (getConditionValues r [] [] Map.empty (now_of srv)) retMode retDate retDays
         in retention_answer (\<lambda>action. policy_allows srv (anonymous_args action bucketName objectName conditions))
              retMode byPassSet)
      else
        (let conditions = retention_conditions (getConditionValues r [] (AccessKey cred) claims (now_of srv)) retMode retDate retDays
         in retention_answer (\<lambda>action. iam_allows srv (user_args cred owner claims action bucketName objectName conditions))
              retMode byPassSet))"

text \<open>The signature of the upload is checked when its body is read.\<close>

definition isPutActionAllowed where
  "isPutActionAllowed srv atype bucketName objectName r action =
     (if atype = authTypeUnknown then Some ErrSignatureVersionNotSupported
      else case (if atype = authTypeStreamingSigned \<or> atype = authTypeSigned
                 then getReqAccessKeyV4 (srv_env srv) (srv_iam srv) r (srv_region srv) serviceS3 else Inr (zero_cred, False)) of
        Inl err \<Rightarrow> Some err
      | Inr (cred, owner) \<Rightarrow>
          (case checkClaimsFromToken srv r cred of
             Inl err \<Rightarrow> Some err
           | Inr claims \<Rightarrow>
               if action = PutObjectRetentionAction \<and> Header_Get r AmzObjectLockMode = [] \<and>
                  Header_Get r AmzObjectLockRetainUntilDate = [] then Some ErrNone
               else if AccessKey cred = [] then
                 access_code (policy_allows srv (anonymous_args action bucketName objectName
                   (getConditionValues r [] [] Map.empty (now_of srv))))
               else
                 access_code (iam_allows srv (user_args cred owner claims action bucketName objectName
                   (getConditionValues r [] (AccessKey cred) claims (now_of srv))))))"

end
