(* ===== verification/AuthProps.thy ===== *)
theory AuthProps
  imports AuthHandler IAMDecide
begin

text \<open>
  What the authentication of \<open>cmd/ipos/cmd/auth-handler.go\<close> and \<open>signature-v4.go\<close> guarantees, and
  where it does not.
\<close>

section \<open>Access keys\<close>

lemma checkKeyValid_key:
  assumes "checkKeyValid env sys ak = Inr (cred, owner)" and "IsAccessKeyValid ak"
  shows "AccessKey cred \<noteq> [] \<and> (owner \<longleftrightarrow> ak = AccessKey (globalActiveCred env)) \<and>
    (owner \<longrightarrow> cred = globalActiveCred env) \<and> (\<not> owner \<longrightarrow> GetUser env ak sys = (cred, True))"
proof (cases "AccessKey (globalActiveCred env) = ak")
  case True
  with assms show ?thesis by (auto simp: checkKeyValid_def IsAccessKeyValid_def accessKeyMinLen_def)
next
  case False
  obtain c ok where u: "GetUser env ak sys = (c, ok)" by fastforce
  with False assms(1) have "c = cred" "ok" "\<not> owner" by (auto simp: checkKeyValid_def split: if_splits)
  moreover from u this have "cred_IsValid (env_now env) cred"
    by (auto simp: GetUser_def split: if_splits option.splits)
  then have "AccessKey cred \<noteq> []" by (auto simp: cred_IsValid_def IsAccessKeyValid_def accessKeyMinLen_def split: if_splits)
  ultimately show ?thesis using u False by auto
qed

lemma parseCredentialHeader_valid: "parseCredentialHeader c region stype = Inr ch \<Longrightarrow> IsAccessKeyValid (ch_accessKey ch)"
  by (auto simp: parseCredentialHeader_def Let_def split: if_splits option.splits serviceType.splits)

lemma getReqAccessKeyV4_key:
  assumes "getReqAccessKeyV4 env sys r region stype = Inr (cred, owner)"
  shows "AccessKey cred \<noteq> [] \<and> (owner \<longrightarrow> cred = globalActiveCred env)"
proof -
  from assms obtain c ch where "parseCredentialHeader c region stype = Inr ch"
    and "checkKeyValid env sys (ch_accessKey ch) = Inr (cred, owner)"
    by (auto simp: getReqAccessKeyV4_def Let_def split: sum.splits if_splits)
  with checkKeyValid_key parseCredentialHeader_valid show ?thesis by blast
qed

section \<open>An example\<close>

text \<open>A user \<open>mallory\<close> signs a request with the own secret key; the query names the access key of the
  server.  The key of the HMAC stands for its value, so the signature shows whose secret made it.\<close>

definition ex_root :: Credentials where
  "ex_root = zero_cred\<lparr>AccessKey := ''root'', SecretKey := ''rootsecret''\<rparr>"

definition ex_mallory :: Credentials where
  "ex_mallory = zero_cred\<lparr>AccessKey := ''mallory'', SecretKey := ''mallorys''\<rparr>"

definition ex_srv :: server where
  "ex_srv = \<lparr>srv_env = ex_env\<lparr>globalActiveCred := ex_root\<rparr>,
     srv_iam = (NewIAMSys Map.empty)\<lparr>sys_ready := True, iamUsersMap := [''mallory'' \<mapsto> ex_mallory]\<rparr>,
     srv_policies = NewPolicySys, srv_region = [],
     srv_crypto = \<lparr>sumHMAC = \<lambda>k _. k, Sum256 = id\<rparr>, srv_lower = id, srv_fold = id,
     srv_token = \<lambda>_ _. None, srv_parsePolicy = \<lambda>_. None\<rparr>"

definition ex_sig :: string where
  "ex_sig = hex_EncodeToString (''AWS4'' @ SecretKey ex_mallory)"

definition ex_auth :: string where
  "ex_auth = authorization_text (credential_text ''mallory'' ''20200101'' [] serviceS3) [''host''] ex_sig"

definition ex_req :: http_request where
  "ex_req = \<lparr>Method = ''GET'',
     Header = [''Authorization'' \<mapsto> [ex_auth], ''X-Amz-Date'' \<mapsto> [''20200101T000000Z''], ''X-Amz-Content-Sha256'' \<mapsto> [''00'']],
     Query = [''X-Amz-Credential'' \<mapsto> [''root/20200101//s3/aws4_request'']],
     RemoteAddr = ''192.0.2.1:80'', TLS = False, Path = ''/b/o'', Host = ''ipos'', TransferEncoding = [], ContentLength = 0\<rparr>"

lemma hex_char_alnum: "n < 16 \<Longrightarrow> is_alnum (hex_char n)"
  by (auto simp: hex_char_def is_alnum_def is_digit_def is_lower_def ascii_char_of)

lemma hex_alnum: "list_all is_alnum (hex_EncodeToString s)"
  using bytes_of_bound by (force simp: hex_EncodeToString_def list_all_iff intro!: hex_char_alnum)

lemma ex_headers [simp]:
  "Header_Get ex_req Authorization = ex_auth" "Header_Get ex_req AmzDate = ''20200101T000000Z''"
  "Header_Get ex_req AmzContentSha256 = ''00''" "Header_Get ex_req AmzSecurityToken = []"
  "Query_Get ex_req AmzSecurityToken = []" "Query ex_req AmzAccessKeyID = None" "Query ex_req AmzContentSha256 = None"
  "Header ex_req AmzContentSha256 = Some [''00'']" "Query ex_req AmzCredential \<noteq> None" "Header ex_req ContentMD5 = None"
  "Query_Get ex_req ''X-Amz-Credential'' = ''root/20200101//s3/aws4_request''"
  by (simp_all add: Header_Get_def Query_Get_def first_value_def header_defs canonical_simps ex_req_def)

lemma ex_auth_prefix: "HasPrefix ex_auth signV4Algorithm"
  by (simp add: ex_auth_def authorization_text_def signV4Algorithm_def HasPrefix_def)

lemma ex_type: "getRequestAuthType ex_req = authTypeSigned"
  by (simp add: getRequestAuthType_def isRequestSignatureV2_def isRequestPresignedSignatureV2_def isRequestSignStreamingV4_def
      isRequestSignatureV4_def ex_auth_prefix streamingContentSHA256_def)

lemma ex_not_skip: "\<not> skipContentSha256Cksum ex_req"
  by (simp add: skipContentSha256Cksum_def content_sha256_values_def isRequestPresignedSignatureV4_def unsignedPayload_def)

lemma ex_parse: "\<exists>d. parseSignV4 ex_auth [] serviceS3 = Inr \<lparr>sv_Credential = \<lparr>ch_accessKey = ''mallory'', scope_date = d,
    scope_region = [], scope_service = ''s3'', scope_request = ''aws4_request''\<rparr>, sv_SignedHeaders = [''host''], sv_Signature = ex_sig\<rparr>"
proof -
  have "list_all plain_name [''host'']" "is_alnum (hd ''mallory'')"
    by (simp_all add: plain_name_def is_alnum_def is_upper_def is_lower_def is_digit_def ascii_def)
  then show ?thesis
    unfolding ex_auth_def
    using parseSignV4_text [OF ex_ParseDay, of "[]" "''mallory''" "[]" "[''host'']" ex_sig serviceS3] hex_alnum [of "''AWS4'' @ SecretKey ex_mallory"]
    by (simp add: IsAccessKeyValid_def accessKeyMinLen_def isValidRegion_def ex_sig_def service_name_def hex_EncodeToString_def bytes_of_def)
qed

lemma ex_iso: "\<exists>t. ParseISO8601 ''20200101T000000Z'' = Some t"
  by (simp add: ParseISO8601_def parse_day_def get_year_def is_digit_def ascii_def digits_val_def digit_val_def days_in_def
      month_lengths_def is_leap_def get_fraction_def)

lemma ex_match: "doesSignatureMatch (srv_crypto ex_srv) (srv_lower ex_srv) (srv_env ex_srv) (srv_iam ex_srv) h ex_req [] serviceS3 = ErrNone"
proof -
  obtain d where parse: "parseSignV4 ex_auth [] serviceS3 = Inr \<lparr>sv_Credential = \<lparr>ch_accessKey = ''mallory'', scope_date = d,
    scope_region = [], scope_service = ''s3'', scope_request = ''aws4_request''\<rparr>, sv_SignedHeaders = [''host''], sv_Signature = ex_sig\<rparr>"
    using ex_parse by blast
  have "signed_value ex_req ''host'' = None" by (simp add: signed_value_def canonical_simps ex_req_def)
  then have headers: "extractSignedHeaders [''host''] ex_req = Inr [(CanonicalHeaderKey ''host'', [''ipos''])]"
    by (simp add: extractSignedHeaders_def ex_req_def)
  have key: "checkKeyValid (srv_env ex_srv) (srv_iam ex_srv) ''mallory'' = Inr (ex_mallory, False)"
    by (simp add: checkKeyValid_def GetUser_def ex_srv_def ex_root_def ex_mallory_def zero_cred_def cred_defs ex_env_def key_lens)
  obtain t where t: "ParseISO8601 ''20200101T000000Z'' = Some t" using ex_iso by blast
  have "getSignature (srv_crypto ex_srv) (getSigningKey (srv_crypto ex_srv) (SecretKey ex_mallory) d' rg serviceS3) x = ex_sig" for d' rg x
    by (simp add: getSignature_def getSigningKey_def ex_srv_def ex_sig_def)
  then show ?thesis
    by (simp add: doesSignatureMatch_def parse headers key t compareSignatureV4_def Let_def)
qed


section \<open>Who may do what\<close>

lemma authenticate_signed:
  assumes "authenticate srv presigned body r region = Inr (cred, owner)"
  shows "reqSignatureV4Verify srv presigned body r region serviceS3 = ErrNone \<and>
    getReqAccessKeyV4 (srv_env srv) (srv_iam srv) r region serviceS3 = Inr (cred, owner)"
  using assms by (auto simp: authenticate_def isReqAuthenticated_def Let_def split: sum.splits if_splits option.splits)

lemma signed_type: "getRequestAuthType r = authTypeSigned \<Longrightarrow> isRequestSignatureV4 r"
  by (auto simp: getRequestAuthType_def split: if_splits)

lemma access_code_none: "access_code a = Some ErrNone \<longleftrightarrow> a = Some True"
  by (auto simp: access_code_def)

text \<open>Errors are never the code of success.\<close>

lemma parseCredentialHeader_err: "parseCredentialHeader c region stype \<noteq> Inl ErrNone"
  by (auto simp: parseCredentialHeader_def Let_def split: if_splits option.splits serviceType.splits)

lemma getReqAccessKeyV4_err: "getReqAccessKeyV4 env sys r region stype \<noteq> Inl ErrNone"
  using parseCredentialHeader_err
  by (auto simp: getReqAccessKeyV4_def checkKeyValid_def Let_def split: if_splits sum.splits prod.splits)

lemma content_sha256_err: "content_sha256 r \<noteq> Inl ErrNone"
  by (auto simp: content_sha256_def Let_def split: if_splits option.splits list.splits)

lemma isReqAuthenticated_err: "isReqAuthenticated srv presigned body r region stype \<noteq> Inl ErrNone"
  using content_sha256_err [of r]
  by (auto simp: isReqAuthenticated_def Let_def split: if_splits option.splits sum.splits)

lemma authenticate_err: "authenticate srv presigned body r region \<noteq> Inl ErrNone"
  using isReqAuthenticated_err getReqAccessKeyV4_err by (auto simp: authenticate_def split: sum.splits)

lemma checkClaimsFromToken_err: "checkClaimsFromToken srv r cred \<noteq> Inl ErrNone"
  by (auto simp: checkClaimsFromToken_def getClaimsFromToken_def toAPIErrorCode_def Let_def
      split: if_splits option.splits sum.splits)

lemma ex_authenticated: "\<exists>sums. isReqAuthenticated ex_srv presigned body ex_req (srv_region ex_srv) serviceS3 = Inr sums"
proof -
  have "isRequestSignatureV4 ex_req" "srv_region ex_srv = []" by (simp_all add: isRequestSignatureV4_def ex_auth_prefix ex_srv_def)
  then show ?thesis
    by (simp add: isReqAuthenticated_def reqSignatureV4Verify_def ex_match checkValidMD5_def content_sha256_def ex_not_skip
        isRequestPresignedSignatureV4_def)
qed

lemma ex_query: "\<exists>ch. parseCredentialHeader (''Credential='' @ Query_Get ex_req ''X-Amz-Credential'') (srv_region ex_srv) serviceS3 = Inr ch \<and>
    ch_accessKey ch = AccessKey (globalActiveCred (srv_env ex_srv))"
proof -
  have "is_alnum CHR ''r''" by (simp add: is_alnum_def is_lower_def ascii_def)
  then show ?thesis
    using parseCredentialHeader_text [OF ex_ParseDay, of "[]" "''root''" "[]" serviceS3]
    by (simp add: ex_srv_def ex_root_def credential_text_def service_name_def IsAccessKeyValid_def accessKeyMinLen_def isValidRegion_def)
qed

text \<open>The decision of \<open>checkRequestAuthTypeToAccessKey\<close> for known credentials.\<close>

definition allowed_as :: "server \<Rightarrow> http_request \<Rightarrow> Action \<Rightarrow> string \<Rightarrow> string \<Rightarrow> Credentials \<Rightarrow> bool \<Rightarrow> bool" where
  "allowed_as srv r action bucketName objectName cred owner \<longleftrightarrow>
     (if AccessKey cred = [] then
        \<exists>lc. policy_allows srv (anonymous_args action bucketName objectName
          (getConditionValues r lc [] Map.empty (now_of srv))) = Some True
      else \<exists>claims. checkClaimsFromToken srv r cred = Inr claims \<and>
        iam_allows srv (user_args cred owner claims action bucketName objectName
          (getConditionValues r [] (AccessKey cred) claims (now_of srv))) = Some True)"

lemma decision_step:
  assumes "(case checkClaimsFromToken srv r cred of
              Inl err \<Rightarrow> Some ([], owner, err)
            | Inr claims \<Rightarrow>
                (case location of
                   Inl err \<Rightarrow> Some ([], owner, err)
                 | Inr lc \<Rightarrow>
                     if AccessKey cred = [] then
                       map_option (\<lambda>code. (AccessKey cred, owner, code))
                         (access_code (policy_allows srv (anonymous_args action bucketName objectName
                            (getConditionValues r lc [] Map.empty (now_of srv)))))
                     else
                       map_option (\<lambda>code. (AccessKey cred, owner, code))
                         (access_code (iam_allows srv (user_args cred owner claims action bucketName objectName
                            (getConditionValues r [] (AccessKey cred) claims (now_of srv))))))) = Some (ak, o', ErrNone)"
    and "location \<noteq> Inl ErrNone"
  shows "ak = AccessKey cred \<and> o' = owner \<and> allowed_as srv r action bucketName objectName cred owner"
proof (cases "checkClaimsFromToken srv r cred")
  case (Inl err)
  with assms(1) checkClaimsFromToken_err [of srv r cred] show ?thesis by auto
next
  case (Inr claims)
  with assms obtain lc where lc: "location = Inr lc" by (cases location) auto
  show ?thesis
  proof (cases "AccessKey cred = []")
    case True
    with assms(1) Inr lc show ?thesis by (auto simp: access_code_none allowed_as_def)
  next
    case False
    with assms(1) Inr lc show ?thesis by (auto simp: access_code_none allowed_as_def)
  qed
qed

lemma parseLocationConstraint_err: "parseLocationConstraint r d region \<noteq> Inl ErrNone"
  by (auto simp: parseLocationConstraint_def split: option.splits)

definition location_of :: "http_request \<Rightarrow> Action \<Rightarrow> string option option \<Rightarrow> string \<Rightarrow> APIErrorCode + string" where
  "location_of r action location region =
     (if action = CreateBucketAction then
        (case location of None \<Rightarrow> Inl ErrMalformedXML | Some document \<Rightarrow> parseLocationConstraint r document region)
      else Inr [])"

lemma location_of_err: "location_of r action location region \<noteq> Inl ErrNone"
  using parseLocationConstraint_err by (auto simp: location_of_def split: option.splits)

definition check_region :: "server \<Rightarrow> Action \<Rightarrow> string" where
  "check_region srv action = (if action = GetBucketLocationAction \<or> action = ListAllMyBucketsAction then [] else srv_region srv)"

lemma request_allowed_by:
  assumes "checkRequestAuthTypeToAccessKey srv presigned body location r action bucketName objectName = Some (ak, owner, ErrNone)"
  shows "\<exists>cred. ak = AccessKey cred \<and> getRequestAuthType r \<noteq> authTypeUnknown \<and> getRequestAuthType r \<noteq> authTypeStreamingSigned \<and>
    (if getRequestAuthType r = authTypeSigned
     then authenticate srv presigned body r (check_region srv action) = Inr (cred, owner)
     else cred = zero_cred \<and> \<not> owner) \<and>
    allowed_as srv r action bucketName objectName cred owner"
proof -
  define who where "who = (if getRequestAuthType r = authTypeSigned
    then authenticate srv presigned body r (check_region srv action) else Inr (zero_cred, False))"
  note check = assms [unfolded checkRequestAuthTypeToAccessKey_def check_region_def [symmetric] location_of_def [symmetric]
      Let_def, folded who_def]
  have type: "getRequestAuthType r \<noteq> authTypeUnknown" "getRequestAuthType r \<noteq> authTypeStreamingSigned"
    using check by (auto split: if_splits)
  then have "(getRequestAuthType r = authTypeUnknown \<or> getRequestAuthType r = authTypeStreamingSigned) = False" by simp
  note check1 = check [unfolded this if_False]
  have "who \<noteq> Inl ErrNone" using authenticate_err by (simp add: who_def)
  with check1 obtain cred o' where who: "who = Inr (cred, o')" by (auto split: sum.splits)
  have "ak = AccessKey cred \<and> owner = o' \<and> allowed_as srv r action bucketName objectName cred o'"
    by (rule decision_step [OF check1 [unfolded who sum.case prod.case] location_of_err])
  with type who show ?thesis by (intro exI [of _ cred]) (auto simp: who_def split: if_splits)
qed

lemma query_first:
  assumes "parseCredentialHeader (''Credential='' @ Query_Get r ''X-Amz-Credential'') region stype = Inr ch"
    and "ch_accessKey ch = AccessKey (globalActiveCred env)"
  shows "getReqAccessKeyV4 env sys r region stype = Inr (globalActiveCred env, True)"
  using assms by (simp add: getReqAccessKeyV4_def checkKeyValid_def)

lemma no_token:
  assumes "getSessionToken r = []" and "SessionToken cred = []"
  shows "checkClaimsFromToken srv r cred = Inr Map.empty"
  using assms by (simp add: checkClaimsFromToken_def getClaimsFromToken_def Let_def)

lemma owner_allowed: "iam_allows srv (user_args cred True claims action b obj conds) = Some True"
  by (simp add: iam_allows_def IAMSys_IsAllowed_def user_args_def)

lemma query_owner:
  assumes "getRequestAuthType r = authTypeSigned"
    and "isReqAuthenticated srv presigned body r (srv_region srv) serviceS3 = Inr sums"
    and "parseCredentialHeader (''Credential='' @ Query_Get r ''X-Amz-Credential'') (srv_region srv) serviceS3 = Inr ch"
    and "ch_accessKey ch = AccessKey (globalActiveCred (srv_env srv))"
    and "getSessionToken r = []" and "SessionToken (globalActiveCred (srv_env srv)) = []"
    and "AccessKey (globalActiveCred (srv_env srv)) \<noteq> []"
    and "action \<notin> {CreateBucketAction, GetBucketLocationAction, ListAllMyBucketsAction}"
    and "Header r AmzContentSha256 \<noteq> None" and "\<not> skipContentSha256Cksum r"
  shows "checkRequestAuthTypeToAccessKey srv presigned body location r action bucketName objectName =
      Some (AccessKey (globalActiveCred (srv_env srv)), True, ErrNone) \<and>
    checkAdminRequestAuthType srv presigned body r adminAction (srv_region srv) = Some (globalActiveCred (srv_env srv), ErrNone)"
proof -
  define root where "root = globalActiveCred (srv_env srv)"
  note key = query_first [OF assms(3,4), of "srv_iam srv", folded root_def]
  have auth: "authenticate srv presigned body r (srv_region srv) = Inr (root, True)"
    by (simp add: authenticate_def assms(2) key)
  have claims: "checkClaimsFromToken srv r root = Inr Map.empty"
    using assms(5,6) by (simp add: no_token root_def)
  have "checkRequestAuthTypeToAccessKey srv presigned body location r action bucketName objectName = Some (AccessKey root, True, ErrNone)"
    using assms(7,8) by (simp add: checkRequestAuthTypeToAccessKey_def assms(1) auth claims owner_allowed access_code_def root_def [symmetric])
  moreover have "checkAdminRequestAuthType srv presigned body r adminAction (srv_region srv) = Some (root, ErrNone)"
    using assms(9,10) by (simp add: checkAdminRequestAuthType_def validateAdminSignature_def assms(1,2) key claims owner_allowed
        access_code_def)
  ultimately show ?thesis by (simp add: root_def)
qed

lemma ex_allowed: "checkRequestAuthTypeToAccessKey ex_srv (\<lambda>_ _ _ _. ErrAccessDenied) [] None ex_req DeleteObjectAction ''b'' ''o'' =
     Some (AccessKey ex_root, True, ErrNone)"
proof -
  obtain sums where sums: "isReqAuthenticated ex_srv (\<lambda>_ _ _ _. ErrAccessDenied) [] ex_req (srv_region ex_srv) serviceS3 = Inr sums"
    using ex_authenticated by blast
  obtain ch where ch: "parseCredentialHeader (''Credential='' @ Query_Get ex_req ''X-Amz-Credential'') (srv_region ex_srv) serviceS3 = Inr ch"
      and who: "ch_accessKey ch = AccessKey (globalActiveCred (srv_env ex_srv))"
    using ex_query by blast
  have root: "globalActiveCred (srv_env ex_srv) = ex_root" "srv_region ex_srv = []" by (simp_all add: ex_srv_def)
  have "DeleteObjectAction \<notin> {CreateBucketAction, GetBucketLocationAction, ListAllMyBucketsAction}" by (simp add: action_defs)
  with query_owner [OF ex_type sums ch who, of DeleteObjectAction None "''b''" "''o''"] show ?thesis
    by (simp add: root ex_not_skip getSessionToken_def ex_root_def zero_cred_def)
qed

text \<open>C2: A request is answered \<open>ErrNone\<close> with an access key only when it is signed, the signature in its
  header is the one of the credential named there, and the IAM decision for that access key allows
  it; the owner is told by the access key of the server.  Without an access key it is never the owner,
  and the policy of the bucket has to allow it to everybody.\<close>

theorem allowed_requests:
  assumes "checkRequestAuthTypeToAccessKey srv presigned body location r action bucketName objectName = Some (ak, owner, ErrNone)"
  shows "getRequestAuthType r \<noteq> authTypeUnknown \<and> getRequestAuthType r \<noteq> authTypeStreamingSigned \<and>
    (ak \<noteq> [] \<longrightarrow> getRequestAuthType r = authTypeSigned \<and>
      doesSignatureMatch (srv_crypto srv) (srv_lower srv) (srv_env srv) (srv_iam srv)
        (getContentSha256Cksum (\<lambda>s. hex_EncodeToString (Sum256 (srv_crypto srv) s)) body r serviceS3)
        r (check_region srv action) serviceS3 = ErrNone \<and>
      (owner \<longrightarrow> ak = AccessKey (globalActiveCred (srv_env srv))) \<and>
      (\<exists>cred claims. AccessKey cred = ak \<and> checkClaimsFromToken srv r cred = Inr claims \<and>
        iam_allows srv (user_args cred owner claims action bucketName objectName
          (getConditionValues r [] ak claims (now_of srv))) = Some True)) \<and>
    (ak = [] \<longrightarrow> \<not> owner \<and> getRequestAuthType r \<noteq> authTypeSigned \<and>
      (\<exists>lc. policy_allows srv (anonymous_args action bucketName objectName
        (getConditionValues r lc [] Map.empty (now_of srv))) = Some True))"
proof -
  from request_allowed_by [OF assms] obtain cred where type: "getRequestAuthType r \<noteq> authTypeUnknown"
      "getRequestAuthType r \<noteq> authTypeStreamingSigned"
    and ak: "ak = AccessKey cred" and may: "allowed_as srv r action bucketName objectName cred owner"
    and who: "if getRequestAuthType r = authTypeSigned
      then authenticate srv presigned body r (check_region srv action) = Inr (cred, owner) else cred = zero_cred \<and> \<not> owner"
    by blast
  show ?thesis
  proof (cases "getRequestAuthType r = authTypeSigned")
    case True
    with who have "authenticate srv presigned body r (check_region srv action) = Inr (cred, owner)" by simp
    from authenticate_signed [OF this]
    have sig: "reqSignatureV4Verify srv presigned body r (check_region srv action) serviceS3 = ErrNone"
      and key: "getReqAccessKeyV4 (srv_env srv) (srv_iam srv) r (check_region srv action) serviceS3 = Inr (cred, owner)"
      by blast+
    from sig signed_type [OF True] have "doesSignatureMatch (srv_crypto srv) (srv_lower srv) (srv_env srv) (srv_iam srv)
        (getContentSha256Cksum (\<lambda>s. hex_EncodeToString (Sum256 (srv_crypto srv) s)) body r serviceS3)
        r (check_region srv action) serviceS3 = ErrNone"
      by (simp add: reqSignatureV4Verify_def Let_def)
    moreover from may getReqAccessKeyV4_key [OF key] have "\<exists>cred claims. AccessKey cred = ak \<and>
        checkClaimsFromToken srv r cred = Inr claims \<and> iam_allows srv (user_args cred owner claims action bucketName objectName
          (getConditionValues r [] ak claims (now_of srv))) = Some True"
      by (auto simp: allowed_as_def ak)
    moreover from getReqAccessKeyV4_key [OF key] have "ak \<noteq> []" "owner \<longrightarrow> ak = AccessKey (globalActiveCred (srv_env srv))"
      by (auto simp: ak)
    ultimately show ?thesis using type(2) True by simp
  next
    case False
    with who have "cred = zero_cred" "\<not> owner" by auto
    with may type ak False show ?thesis by (simp add: allowed_as_def zero_cred_def)
  qed
qed

theorem allowed_requests_witness:
  "doesSignatureMatch (srv_crypto ex_srv) (srv_lower ex_srv) (srv_env ex_srv) (srv_iam ex_srv)
     (getContentSha256Cksum (\<lambda>s. hex_EncodeToString (Sum256 (srv_crypto ex_srv) s)) [] ex_req serviceS3)
     ex_req (check_region ex_srv DeleteObjectAction) serviceS3 = ErrNone"
  using allowed_requests [OF ex_allowed] by (simp add: ex_root_def zero_cred_def)

text \<open>C1: The signature is checked for the credential in the header, but who asks is read from the query
  first.  Whoever can sign a request at all becomes the owner by naming the access key of the server
  in \<open>X-Amz-Credential\<close> of the query, for the operations on objects and for the administration.\<close>

theorem query_names_the_caller:
  assumes "getRequestAuthType r = authTypeSigned"
    and "isReqAuthenticated srv presigned body r (srv_region srv) serviceS3 = Inr sums"
    and "parseCredentialHeader (''Credential='' @ Query_Get r ''X-Amz-Credential'') (srv_region srv) serviceS3 = Inr ch"
    and "ch_accessKey ch = AccessKey (globalActiveCred (srv_env srv))"
    and "getSessionToken r = []" and "SessionToken (globalActiveCred (srv_env srv)) = []"
    and "AccessKey (globalActiveCred (srv_env srv)) \<noteq> []"
    and "action \<notin> {CreateBucketAction, GetBucketLocationAction, ListAllMyBucketsAction}"
    and "Header r AmzContentSha256 \<noteq> None" and "\<not> skipContentSha256Cksum r"
  shows "checkRequestAuthTypeToAccessKey srv presigned body location r action bucketName objectName =
      Some (AccessKey (globalActiveCred (srv_env srv)), True, ErrNone) \<and>
    checkAdminRequestAuthType srv presigned body r adminAction (srv_region srv) = Some (globalActiveCred (srv_env srv), ErrNone)"
  using assms by (rule query_owner)

theorem query_names_the_caller_witness:
  "checkRequestAuthTypeToAccessKey ex_srv (\<lambda>_ _ _ _. ErrAccessDenied) [] None ex_req DeleteObjectAction ''b'' ''o'' =
     Some (''root'', True, ErrNone) \<and>
   checkAdminRequestAuthType ex_srv (\<lambda>_ _ _ _. ErrAccessDenied) [] ex_req CreateUserAdminAction [] = Some (ex_root, ErrNone)"
proof -
  obtain sums where sums: "isReqAuthenticated ex_srv (\<lambda>_ _ _ _. ErrAccessDenied) [] ex_req (srv_region ex_srv) serviceS3 = Inr sums"
    using ex_authenticated by blast
  obtain ch where ch: "parseCredentialHeader (''Credential='' @ Query_Get ex_req ''X-Amz-Credential'') (srv_region ex_srv) serviceS3 = Inr ch"
      and who: "ch_accessKey ch = AccessKey (globalActiveCred (srv_env ex_srv))"
    using ex_query by blast
  have root: "globalActiveCred (srv_env ex_srv) = ex_root" "srv_region ex_srv = []" by (simp_all add: ex_srv_def)
  have "DeleteObjectAction \<notin> {CreateBucketAction, GetBucketLocationAction, ListAllMyBucketsAction}" by (simp add: action_defs)
  with query_names_the_caller [OF ex_type sums ch who, of DeleteObjectAction None "''b''" "''o''" CreateUserAdminAction] show ?thesis
    by (simp add: root ex_not_skip getSessionToken_def ex_root_def zero_cred_def)
qed

text \<open>C33: Nothing in the check of a signed request looks at the clock: two servers that differ in the
  time only, and that still know the user, give the same answer, so a signed request can be sent again
  at any later time.\<close>

theorem signature_ignores_the_clock:
  assumes "\<And>ak cred. iamUsersMap sys ak = Some cred \<Longrightarrow> cred_IsValid t cred = cred_IsValid (env_now env) cred"
  shows "doesSignatureMatch cr lw (env\<lparr>env_now := t\<rparr>) sys h r region stype = doesSignatureMatch cr lw env sys h r region stype"
proof -
  have "checkKeyValid (env\<lparr>env_now := t\<rparr>) sys ak = checkKeyValid env sys ak" for ak
    using assms by (auto simp: checkKeyValid_def GetUser_def split: option.splits)
  then have "checkKeyValid (env\<lparr>env_now := t\<rparr>) sys = checkKeyValid env sys" by (rule ext)
  then show ?thesis unfolding doesSignatureMatch_def by (simp only:)
qed

theorem signature_ignores_the_clock_witness:
  "doesSignatureMatch (srv_crypto ex_srv) (srv_lower ex_srv) ((srv_env ex_srv)\<lparr>env_now := unix_time 4102444800\<rparr>) (srv_iam ex_srv) ''00'' ex_req [] serviceS3 = ErrNone"
proof -
  have "cred_IsValid (unix_time 4102444800) cred = cred_IsValid (env_now (srv_env ex_srv)) cred" if "iamUsersMap (srv_iam ex_srv) ak = Some cred" for ak cred
    using that by (auto simp: ex_srv_def ex_mallory_def zero_cred_def cred_defs split: if_splits)
  from signature_ignores_the_clock [OF this] ex_match show ?thesis by simp
qed



end
