(* ===== verification/Sio.thy ===== *)
theory Sio
  imports Prelude "HOL-Library.Word"
begin

text \<open>
  \<open>pkg/sio\<close>: the DARE formats that encrypt a stream as packages of a header of 16 bytes, at most 64 KiB of
  ciphertext and a tag of 16 bytes.  The ciphers (AES-GCM and ChaCha20-Poly1305) are an argument, a table
  from the cipher number and the key to the two calls of \<open>cipher.AEAD\<close>.  Bytes are characters.
  A reader is the bytes it still gives and what it reports after them, a writer the bytes it got and its
  answer to the next ones; a call \<open>Read(p)\<close> has \<open>len(p)\<close> as argument and returns the bytes it wrote to \<open>p\<close>.
\<close>

unbundle bit_operations_syntax

section \<open>sio.go: constants and errors\<close>

definition dare_Version20 :: nat where "dare_Version20 = 0x20"
definition dare_Version10 :: nat where "dare_Version10 = 0x10"
definition AES_256_GCM :: nat where "AES_256_GCM = 0"
definition CHACHA20_POLY1305 :: nat where "CHACHA20_POLY1305 = 1"
definition keySize :: nat where "keySize = 32"
definition headerSize :: nat where "headerSize = 16"
definition maxPayloadSize :: nat where "maxPayloadSize = 2 ^ 16"
definition tagSize :: nat where "tagSize = 16"
definition maxPackageSize :: nat where "maxPackageSize = headerSize + maxPayloadSize + tagSize"
definition maxDecryptedSize :: nat where "maxDecryptedSize = 2 ^ 48"
definition maxEncryptedSize :: nat where "maxEncryptedSize = maxDecryptedSize + (headerSize + tagSize) * 1 * 2 ^ 32"

datatype sio_err =
    sio_UnsupportedVersion
  | sio_UnsupportedCipher
  | sio_InvalidPayloadSize
  | sio_TagMismatch
  | sio_UnexpectedSize
  | sio_PackageOutOfOrder
  | sio_NonceMismatch
  | sio_UnexpectedEOF
  | sio_UnexpectedData
  | sio_SizeNotValid
  | sio_UnknownMinVersion
  | sio_UnknownMaxVersion
  | sio_InvalidKeySize
  | sio_TooManyCiphers
  | sio_UnknownCipher
  | sio_PayloadTooLarge
  | sio_MinAboveMax
  | sio_CipherFails
  | io_EOF
  | io_UnexpectedEOF
  | io_ShortWrite
  | io_Other string

definition sio_EncryptedSize :: "64 word \<Rightarrow> sio_err + 64 word" where
  "sio_EncryptedSize size' =
     (if of_nat maxDecryptedSize < size' then Inl sio_UnexpectedSize
      else
        let encSize = (size' div of_nat maxPayloadSize) * of_nat maxPackageSize;
            md = size' mod of_nat maxPayloadSize in
        Inr (if 0 < md then encSize + (md + of_nat (headerSize + tagSize)) else encSize))"

definition sio_DecryptedSize :: "64 word \<Rightarrow> sio_err + 64 word" where
  "sio_DecryptedSize size' =
     (if of_nat maxEncryptedSize < size' then Inl sio_UnexpectedSize
      else
        let decSize = (size' div of_nat maxPackageSize) * of_nat maxPayloadSize;
            md = size' mod of_nat maxPackageSize in
        if 0 < md then
          if md \<le> of_nat (headerSize + tagSize) then Inl sio_SizeNotValid
          else Inr (decSize + (md - of_nat (headerSize + tagSize)))
        else Inr decSize)"

section \<open>Readers and writers\<close>

text \<open>\<open>src_fault\<close> is the error that follows the data, \<open>None\<close> is the end of the file.\<close>

record io_source =
  src_rest :: string
  src_fault :: "sio_err option"

definition ReadFull :: "io_source \<Rightarrow> nat \<Rightarrow> io_source \<times> string \<times> sio_err option" where
  "ReadFull s n =
     (if n \<le> length (src_rest s) then (s\<lparr>src_rest := drop n (src_rest s)\<rparr>, take n (src_rest s), None)
      else (s\<lparr>src_rest := []\<rparr>, src_rest s,
        case src_fault s of
          Some e \<Rightarrow> Some e
        | None \<Rightarrow> Some (if src_rest s = [] then io_EOF else io_UnexpectedEOF)))"

text \<open>What \<open>Write\<close> answers for the next bytes, given those written before, and what \<open>Close\<close> answers.\<close>

record sink =
  snk_written :: string
  snk_answers :: "string \<Rightarrow> string \<Rightarrow> nat \<times> sio_err option"
  snk_closing :: "sio_err option"

definition sio_flush :: "sink \<Rightarrow> string \<Rightarrow> sink \<times> sio_err option" where
  "sio_flush w p =
     (case snk_answers w (snk_written w) p of (n, err) \<Rightarrow>
        (w\<lparr>snk_written := snk_written w @ take n p\<rparr>,
         if err \<noteq> None then err else if n \<noteq> length p then Some io_ShortWrite else None))"

section \<open>sio.go: the configuration\<close>

text \<open>\<open>aead_Seal\<close> and \<open>aead_Open\<close> take the nonce, the text and the additional data.\<close>

record aead =
  aead_Seal :: "string \<Rightarrow> string \<Rightarrow> string \<Rightarrow> string"
  aead_Open :: "string \<Rightarrow> string \<Rightarrow> string \<Rightarrow> string option"

type_synonym ciphers = "nat \<Rightarrow> string \<Rightarrow> aead option"

text \<open>\<open>cfg_Rand = None\<close> is the nil reader, which the defaults replace by the system's.\<close>

record Config =
  cfg_MinVersion :: nat
  cfg_MaxVersion :: nat
  cfg_CipherSuites :: "nat list"
  cfg_Key :: string
  cfg_SequenceNumber :: "32 word"
  cfg_Rand :: "io_source option"
  cfg_PayloadSize :: nat

definition defaultCipherSuites :: "bool \<Rightarrow> nat list" where
  "defaultCipherSuites supportsAES =
     (if supportsAES then [AES_256_GCM, CHACHA20_POLY1305] else [CHACHA20_POLY1305, AES_256_GCM])"

definition setConfigDefaults :: "bool \<Rightarrow> io_source \<Rightarrow> Config \<Rightarrow> sio_err + Config" where
  "setConfigDefaults supportsAES system c =
     (if dare_Version20 < cfg_MinVersion c then Inl sio_UnknownMinVersion
      else if dare_Version20 < cfg_MaxVersion c then Inl sio_UnknownMaxVersion
      else if length (cfg_Key c) \<noteq> keySize then Inl sio_InvalidKeySize
      else if 2 < length (cfg_CipherSuites c) then Inl sio_TooManyCiphers
      else if \<not> list_all (\<lambda>s. s < 2) (cfg_CipherSuites c) then Inl sio_UnknownCipher
      else if maxPayloadSize < cfg_PayloadSize c then Inl sio_PayloadTooLarge
      else
        let minv = if cfg_MinVersion c < dare_Version10 then dare_Version10 else cfg_MinVersion c;
            maxv = if cfg_MaxVersion c < dare_Version10 then dare_Version20 else cfg_MaxVersion c in
        if maxv < minv then Inl sio_MinAboveMax
        else Inr (c\<lparr>cfg_MinVersion := minv, cfg_MaxVersion := maxv,
          cfg_CipherSuites := if cfg_CipherSuites c = [] then defaultCipherSuites supportsAES else cfg_CipherSuites c,
          cfg_Rand := Some (case cfg_Rand c of None \<Rightarrow> system | Some r \<Rightarrow> r),
          cfg_PayloadSize := if cfg_PayloadSize c = 0 then maxPayloadSize else cfg_PayloadSize c\<rparr>))"

section \<open>dare.go: headers\<close>

definition put_byte :: "nat \<Rightarrow> char" where "put_byte n = char_of (n mod 256)"

definition PutUint16 :: "nat \<Rightarrow> string" where
  "PutUint16 n = [put_byte n, put_byte (n div 256)]"

definition Uint16 :: "string \<Rightarrow> nat" where
  "Uint16 b = of_char (b ! 0) + 256 * of_char (b ! 1)"

definition PutUint32 :: "32 word \<Rightarrow> string" where
  "PutUint32 w = (let n = unat w in [put_byte n, put_byte (n div 256), put_byte (n div 256 ^ 2), put_byte (n div 256 ^ 3)])"

definition Uint32 :: "string \<Rightarrow> 32 word" where
  "Uint32 b = of_nat (of_char (b ! 0) + 256 * of_char (b ! 1) + 256 ^ 2 * of_char (b ! 2) + 256 ^ 3 * of_char (b ! 3))"

text \<open>\<open>uint16(length-1)\<close> of an empty payload is 65535.\<close>

definition length_field :: "nat \<Rightarrow> string" where
  "length_field n = PutUint16 ((n + 65535) mod 65536)"

definition header_Version :: "string \<Rightarrow> nat" where "header_Version h = of_char (h ! 0)"
definition header_Cipher :: "string \<Rightarrow> nat" where "header_Cipher h = of_char (h ! 1)"
definition header_Length :: "string \<Rightarrow> nat" where "header_Length h = Uint16 (drop 2 h) + 1"
definition header_SequenceNumber :: "string \<Rightarrow> 32 word" where "header_SequenceNumber h = Uint32 (drop 4 h)"
definition header_Nonce :: "string \<Rightarrow> string" where "header_Nonce h = take (headerSize - 4) (drop 4 h)"
definition header_AddData :: "string \<Rightarrow> string" where "header_AddData h = take 4 h"
definition IsFinal :: "string \<Rightarrow> bool" where "IsFinal h \<longleftrightarrow> 128 \<le> (of_char (h ! 4) :: nat)"

definition set_final :: "string \<Rightarrow> string" where
  "set_final nonce = nonce[0 := put_byte (of_char (nonce ! 0) mod 128 + 128)]"

definition clear_final :: "string \<Rightarrow> string" where
  "clear_final nonce = nonce[0 := put_byte (of_char (nonce ! 0) mod 128)]"

definition package_Length :: "string \<Rightarrow> nat" where
  "package_Length p = headerSize + tagSize + header_Length (take headerSize p)"

section \<open>dare.go: packages\<close>

record authEnc =
  CipherID :: nat
  SeqNum :: "32 word"
  Cipher :: aead
  RandVal :: string

record authDec =
  dec_SeqNum :: "32 word"
  Ciphers :: "nat \<Rightarrow> aead option"

definition newAuthEnc :: "ciphers \<Rightarrow> nat \<Rightarrow> Config \<Rightarrow> sio_err + authEnc" where
  "newAuthEnc env_suites randoms cfg =
     (let cipherID = cfg_CipherSuites cfg ! 0 in
      case env_suites cipherID (cfg_Key cfg) of
        None \<Rightarrow> Inl sio_CipherFails
      | Some cipher \<Rightarrow>
          (case ReadFull (the (cfg_Rand cfg)) randoms of
             (_, _, Some err) \<Rightarrow> Inl err
           | (_, randVal, None) \<Rightarrow>
               Inr \<lparr>CipherID = cipherID, SeqNum = cfg_SequenceNumber cfg, Cipher = cipher, RandVal = randVal\<rparr>))"

definition newAuthEncV10 :: "ciphers \<Rightarrow> Config \<Rightarrow> sio_err + authEnc" where
  "newAuthEncV10 env_suites cfg = newAuthEnc env_suites 8 cfg"

text \<open>The table of the ciphers that the suites name; a suite that fails ends the call.\<close>

definition newAuthDec :: "ciphers \<Rightarrow> Config \<Rightarrow> sio_err + authDec" where
  "newAuthDec env_suites cfg =
     (if \<not> list_all (\<lambda>v. env_suites v (cfg_Key cfg) \<noteq> None) (cfg_CipherSuites cfg) then Inl sio_CipherFails
      else Inr \<lparr>dec_SeqNum = cfg_SequenceNumber cfg,
        Ciphers = (\<lambda>v. if v \<in> set (cfg_CipherSuites cfg) then env_suites v (cfg_Key cfg) else None)\<rparr>)"

definition sealV10 :: "authEnc \<Rightarrow> string \<Rightarrow> authEnc \<times> string" where
  "sealV10 ae src =
     (let header = [put_byte dare_Version10, put_byte (CipherID ae)] @ length_field (length src) @ PutUint32 (SeqNum ae) @
            take 8 (RandVal ae) in
      (ae\<lparr>SeqNum := SeqNum ae + 1\<rparr>,
       header @ aead_Seal (Cipher ae) (header_Nonce header) src (header_AddData header)))"

definition openV10 :: "authDec \<Rightarrow> string \<Rightarrow> authDec \<times> (sio_err + string)" where
  "openV10 ad src =
     (let header = take headerSize src in
      if header_Version header \<noteq> dare_Version10 then (ad, Inl sio_UnsupportedVersion)
      else if CHACHA20_POLY1305 < header_Cipher header then (ad, Inl sio_UnsupportedCipher)
      else case Ciphers ad (header_Cipher header) of
        None \<Rightarrow> (ad, Inl sio_UnsupportedCipher)
      | Some cipher \<Rightarrow>
          if headerSize + header_Length header + tagSize \<noteq> length src then (ad, Inl sio_InvalidPayloadSize)
          else if header_SequenceNumber header \<noteq> dec_SeqNum ad then (ad, Inl sio_PackageOutOfOrder)
          else case aead_Open cipher (header_Nonce header) (drop headerSize src) (header_AddData header) of
            None \<Rightarrow> (ad, Inl sio_TagMismatch)
          | Some dst \<Rightarrow> (ad\<lparr>dec_SeqNum := dec_SeqNum ad + 1\<rparr>, Inr dst))"

record authEncV20 = authEnc +
  enc_finalized :: bool

definition newAuthEncV20 :: "ciphers \<Rightarrow> Config \<Rightarrow> sio_err + authEncV20" where
  "newAuthEncV20 env_suites cfg =
     (case newAuthEnc env_suites 12 cfg of
        Inl err \<Rightarrow> Inl err
      | Inr ae \<Rightarrow> Inr (authEnc.extend ae (authEncV20.fields False)))"

text \<open>The last four bytes of the nonce of a package are combined with its number.\<close>

definition package_nonce :: "string \<Rightarrow> 32 word \<Rightarrow> string" where
  "package_nonce nonce num = take 8 nonce @ PutUint32 (Uint32 (drop 8 nonce) XOR num)"

definition headerV20 :: "nat \<Rightarrow> nat \<Rightarrow> string \<Rightarrow> bool \<Rightarrow> string" where
  "headerV20 cipher len randVal final =
     [put_byte dare_Version20, put_byte cipher] @ length_field len @
     (if final then set_final (take 12 randVal) else clear_final (take 12 randVal))"

definition sealV20 :: "authEncV20 \<Rightarrow> string \<Rightarrow> bool \<Rightarrow> (authEncV20 \<times> string) go" where
  "sealV20 ae src finalize =
     (if enc_finalized ae then None
      else
        let header = headerV20 (CipherID ae) (length src) (RandVal ae) finalize;
            nonce = package_nonce (header_Nonce header) (SeqNum ae) in
        Some (ae\<lparr>enc_finalized := finalize, SeqNum := SeqNum ae + 1\<rparr>,
              header @ aead_Seal (Cipher ae) nonce src (header_AddData header)))"

record authDecV20 = authDec +
  refHeader :: "string option"
  dec_finalized :: bool

definition newAuthDecV20 :: "ciphers \<Rightarrow> Config \<Rightarrow> sio_err + authDecV20" where
  "newAuthDecV20 env_suites cfg =
     (case newAuthDec env_suites cfg of
        Inl err \<Rightarrow> Inl err
      | Inr ad \<Rightarrow> Inr (authDec.extend ad (authDecV20.fields None False)))"

text \<open>\<open>refNonce\<close> is a slice of the reference header, so that the flag of the final package is set there too.\<close>

definition openV20 :: "authDecV20 \<Rightarrow> string \<Rightarrow> authDecV20 \<times> (sio_err + string)" where
  "openV20 ad src =
     (if dec_finalized ad then (ad, Inl sio_UnexpectedData)
      else if length src \<le> headerSize + tagSize then (ad, Inl sio_InvalidPayloadSize)
      else
        let header = take headerSize src;
            ref = (case refHeader ad of None \<Rightarrow> header | Some r \<Rightarrow> r);
            ad1 = ad\<lparr>refHeader := Some ref\<rparr>;
            c = header_Cipher header in
        if header_Version header \<noteq> dare_Version20 then (ad1, Inl sio_UnsupportedVersion)
        else if CHACHA20_POLY1305 < c \<or> Ciphers ad c = None \<or> c \<noteq> header_Cipher ref
        then (ad1, Inl sio_UnsupportedCipher)
        else if headerSize + header_Length header + tagSize \<noteq> length src then (ad1, Inl sio_InvalidPayloadSize)
        else if \<not> IsFinal header \<and> header_Length header \<noteq> maxPayloadSize then (ad1, Inl sio_InvalidPayloadSize)
        else
          let refNonce = (if IsFinal header then set_final (header_Nonce ref) else header_Nonce ref);
              ad2 = (if IsFinal header then ad1\<lparr>dec_finalized := True, refHeader := Some (take 4 ref @ refNonce)\<rparr> else ad1) in
          if header_Nonce header \<noteq> refNonce then (ad2, Inl sio_NonceMismatch)
          else case aead_Open (the (Ciphers ad c)) (package_nonce (header_Nonce header) (dec_SeqNum ad))
              (drop headerSize src) (header_AddData header) of
            None \<Rightarrow> (ad2, Inl sio_TagMismatch)
          | Some dst \<Rightarrow> (ad2\<lparr>dec_SeqNum := dec_SeqNum ad + 1\<rparr>, Inr dst))"
end
