(* ===== verification/SioStream.thy ===== *)
theory SioStream
  imports Sio
begin

text \<open>
  The readers and writers of \<open>pkg/sio\<close>, both formats.  A buffer holds the bytes that the code has written to it:
  the package (or its payload) at the front of the array.  \<open>Read(p)\<close> is a function of \<open>len(p)\<close>; its first
  phase gives out what is left of the buffered package, a loop handles whole packages, and the rest of \<open>p\<close>
  is served through the buffer.
\<close>

section \<open>reader-v2.go: encryption\<close>

record encReaderV20 =
  er_ae :: authEncV20
  er_src :: io_source
  er_buffer :: string
  er_offset :: nat
  er_lastByte :: char
  er_firstRead :: bool

definition encryptReaderV20 :: "ciphers \<Rightarrow> io_source \<Rightarrow> Config \<Rightarrow> sio_err + encReaderV20" where
  "encryptReaderV20 env_suites src cfg =
     (case newAuthEncV20 env_suites cfg of
        Inl err \<Rightarrow> Inl err
      | Inr ae \<Rightarrow> Inr \<lparr>er_ae = ae, er_src = src, er_buffer = [], er_offset = 0, er_lastByte = CHR 0x00, er_firstRead = True\<rparr>)"

definition is_end :: "sio_err option \<Rightarrow> bool" where
  "is_end err \<longleftrightarrow> err = Some io_EOF \<or> err = Some io_UnexpectedEOF"

text \<open>The loop over whole packages and the last part; \<open>out\<close> is what has been written to \<open>p\<close>, \<open>k\<close> the room left.\<close>

function encV20_packages :: "encReaderV20 \<Rightarrow> string \<Rightarrow> nat \<Rightarrow> (encReaderV20 \<times> string \<times> sio_err option) go" where
  "encV20_packages r out k =
     (if k = 0 then Some (r, out, None)
      else case ReadFull (er_src r) maxPayloadSize of (src, bs, err) \<Rightarrow>
        let r1 = r\<lparr>er_src := src\<rparr> in
        if err \<noteq> None \<and> \<not> is_end err then Some (r1, out, err)
        else if maxPackageSize \<le> k then
          (if is_end err then
             (case sealV20 (er_ae r) (er_lastByte r # bs) True of
                None \<Rightarrow> None
              | Some (ae, dare_package) \<Rightarrow> Some (r1\<lparr>er_ae := ae\<rparr>, out @ dare_package, Some io_EOF))
           else
             (case sealV20 (er_ae r) (er_lastByte r # butlast bs) False of
                None \<Rightarrow> None
              | Some (ae, dare_package) \<Rightarrow>
                  encV20_packages (r1\<lparr>er_ae := ae, er_lastByte := last bs\<rparr>) (out @ dare_package) (k - maxPackageSize)))
        else if is_end err then
          (case sealV20 (er_ae r) (er_lastByte r # bs) True of
             None \<Rightarrow> None
           | Some (ae, dare_package) \<Rightarrow>
               if package_Length dare_package < k
               then Some (r1\<lparr>er_ae := ae, er_buffer := dare_package\<rparr>, out @ take (package_Length dare_package) dare_package, Some io_EOF)
               else Some (r1\<lparr>er_ae := ae, er_buffer := dare_package, er_offset := k\<rparr>, out @ take k dare_package, None))
        else
          (case sealV20 (er_ae r) (er_lastByte r # butlast bs) False of
             None \<Rightarrow> None
           | Some (ae, dare_package) \<Rightarrow>
               Some (r1\<lparr>er_ae := ae, er_lastByte := last bs, er_buffer := dare_package, er_offset := k\<rparr>,
                 out @ take k dare_package, None)))"
  by pat_completeness auto
termination
  by (relation "measure (\<lambda>(r, out, k). k)") (auto simp: maxPackageSize_def headerSize_def)

definition encV20_buffered :: "encReaderV20 \<Rightarrow> nat \<Rightarrow> (encReaderV20 \<times> string \<times> sio_err option) go" where
  "encV20_buffered r k =
     (if 0 < er_offset r then
        let remaining = package_Length (er_buffer r) - er_offset r in
        if k < remaining
        then Some (r\<lparr>er_offset := er_offset r + k\<rparr>, take k (drop (er_offset r) (er_buffer r)), None)
        else
          let out = take remaining (drop (er_offset r) (er_buffer r)); r1 = r\<lparr>er_offset := 0\<rparr> in
          if enc_finalized (er_ae r1) then Some (r1, out, Some io_EOF) else encV20_packages r1 out (k - remaining)
      else if enc_finalized (er_ae r) then Some (r, [], Some io_EOF) else encV20_packages r [] k)"

definition encReaderV20_Read :: "encReaderV20 \<Rightarrow> nat \<Rightarrow> (encReaderV20 \<times> string \<times> sio_err option) go" where
  "encReaderV20_Read r k =
     (if er_firstRead r then
        case ReadFull (er_src r) 1 of (src, bs, err) \<Rightarrow>
          let r1 = r\<lparr>er_firstRead := False, er_src := src\<rparr> in
          if err = Some io_EOF then Some (r1\<lparr>er_ae := er_ae r\<lparr>enc_finalized := True\<rparr>\<rparr>, [], Some io_EOF)
          else if err \<noteq> None then Some (r1, [], err)
          else encV20_buffered (r1\<lparr>er_lastByte := hd bs\<rparr>) k
      else encV20_buffered r k)"

section \<open>reader-v2.go: decryption\<close>

text \<open>\<open>dr_payload\<close> is the decrypted payload in the buffer.\<close>

record decReaderV20 =
  dr_ad :: authDecV20
  dr_src :: io_source
  dr_payload :: string
  dr_offset :: nat

definition decryptReaderV20 :: "ciphers \<Rightarrow> io_source \<Rightarrow> Config \<Rightarrow> sio_err + decReaderV20" where
  "decryptReaderV20 env_suites src cfg =
     (case newAuthDecV20 env_suites cfg of
        Inl err \<Rightarrow> Inl err
      | Inr ad \<Rightarrow> Inr \<lparr>dr_ad = ad, dr_src = src, dr_payload = [], dr_offset = 0\<rparr>)"

function decV20_packages :: "decReaderV20 \<Rightarrow> string \<Rightarrow> nat \<Rightarrow> decReaderV20 \<times> string \<times> sio_err option" where
  "decV20_packages r out k =
     (if k = 0 then (r, out, None)
      else case ReadFull (dr_src r) maxPackageSize of (src, bs, err) \<Rightarrow>
        let r1 = r\<lparr>dr_src := src\<rparr> in
        if err = Some io_EOF \<and> \<not> dec_finalized (dr_ad r) then (r1, out, Some sio_UnexpectedEOF)
        else if err \<noteq> None \<and> err \<noteq> Some io_UnexpectedEOF then (r1, out, err)
        else case openV20 (dr_ad r) bs of
          (ad, Inl e) \<Rightarrow> (r1\<lparr>dr_ad := ad\<rparr>, out, Some e)
        | (ad, Inr payload) \<Rightarrow>
            let r2 = r1\<lparr>dr_ad := ad, dr_payload := payload\<rparr> in
            if maxPayloadSize \<le> k then
              decV20_packages r2 (out @ payload) (k - header_Length (take headerSize bs))
            else if k < length payload then (r2\<lparr>dr_offset := k\<rparr>, out @ take k payload, None)
            else (r2, out @ payload, None))"
  by pat_completeness auto
termination
  by (relation "measure (\<lambda>(r, out, k). k)") (auto simp: header_Length_def)

definition decReaderV20_Read :: "decReaderV20 \<Rightarrow> nat \<Rightarrow> decReaderV20 \<times> string \<times> sio_err option" where
  "decReaderV20_Read r k =
     (if 0 < dr_offset r then
        let remaining = length (dr_payload r) - dr_offset r in
        if k < remaining
        then (r\<lparr>dr_offset := dr_offset r + k\<rparr>, take k (drop (dr_offset r) (dr_payload r)), None)
        else decV20_packages (r\<lparr>dr_offset := 0\<rparr>) (drop (dr_offset r) (dr_payload r)) (k - remaining)
      else decV20_packages r [] k)"

section \<open>reader-v1.go\<close>

record encReaderV10 =
  er1_ae :: authEnc
  er1_src :: io_source
  er1_buffer :: string
  er1_offset :: nat
  er1_payloadSize :: nat

definition encryptReaderV10 :: "ciphers \<Rightarrow> io_source \<Rightarrow> Config \<Rightarrow> sio_err + encReaderV10" where
  "encryptReaderV10 env_suites src cfg =
     (case newAuthEncV10 env_suites cfg of
        Inl err \<Rightarrow> Inl err
      | Inr ae \<Rightarrow> Inr \<lparr>er1_ae = ae, er1_src = src, er1_buffer = [], er1_offset = 0,
          er1_payloadSize = cfg_PayloadSize cfg\<rparr>)"

function encV10_packages :: "encReaderV10 \<Rightarrow> string \<Rightarrow> nat \<Rightarrow> encReaderV10 \<times> string \<times> sio_err option" where
  "encV10_packages r out k =
     (if k = 0 then (r, out, None)
      else case ReadFull (er1_src r) (er1_payloadSize r) of (src, bs, err) \<Rightarrow>
        let r1 = r\<lparr>er1_src := src\<rparr> in
        if err \<noteq> None \<and> err \<noteq> Some io_UnexpectedEOF then (r1, out, err)
        else case sealV10 (er1_ae r) bs of (ae, dare_package) \<Rightarrow>
          if headerSize + er1_payloadSize r + tagSize \<le> k
          then encV10_packages (r1\<lparr>er1_ae := ae\<rparr>) (out @ dare_package) (k - (headerSize + length bs + tagSize))
          else let n = min k (package_Length dare_package) in
            (r1\<lparr>er1_ae := ae, er1_buffer := dare_package, er1_offset := n\<rparr>, out @ take n dare_package, None))"
  by pat_completeness auto
termination
  by (relation "measure (\<lambda>(r, out, k). k)") (auto simp: headerSize_def)

definition encReaderV10_Read :: "encReaderV10 \<Rightarrow> nat \<Rightarrow> encReaderV10 \<times> string \<times> sio_err option" where
  "encReaderV10_Read r k =
     (if 0 < er1_offset r then
        let remaining = package_Length (er1_buffer r) - er1_offset r in
        if k < remaining
        then (r\<lparr>er1_offset := er1_offset r + k\<rparr>, take k (drop (er1_offset r) (er1_buffer r)), None)
        else encV10_packages (r\<lparr>er1_offset := 0\<rparr>) (take remaining (drop (er1_offset r) (er1_buffer r))) (k - remaining)
      else encV10_packages r [] k)"

record decReaderV10 =
  dr1_ad :: authDec
  dr1_src :: io_source
  dr1_payload :: string
  dr1_offset :: nat

definition decryptReaderV10 :: "ciphers \<Rightarrow> io_source \<Rightarrow> Config \<Rightarrow> sio_err + decReaderV10" where
  "decryptReaderV10 env_suites src cfg =
     (case newAuthDec env_suites cfg of
        Inl err \<Rightarrow> Inl err
      | Inr ad \<Rightarrow> Inr \<lparr>dr1_ad = ad, dr1_src = src, dr1_payload = [], dr1_offset = 0\<rparr>)"

definition readPackage :: "io_source \<Rightarrow> io_source \<times> (sio_err + string)" where
  "readPackage src =
     (case ReadFull src headerSize of
        (src1, header, Some err) \<Rightarrow> (src1, Inl (if err = io_UnexpectedEOF then sio_InvalidPayloadSize else err))
      | (src1, header, None) \<Rightarrow>
          (case ReadFull src1 (header_Length header + tagSize) of
             (src2, bs, Some err) \<Rightarrow>
               (src2, Inl (if err = io_EOF \<or> err = io_UnexpectedEOF then sio_InvalidPayloadSize else err))
           | (src2, bs, None) \<Rightarrow> (src2, Inr (header @ bs))))"

function decV10_packages :: "decReaderV10 \<Rightarrow> string \<Rightarrow> nat \<Rightarrow> decReaderV10 \<times> string \<times> sio_err option" where
  "decV10_packages r out k =
     (if k = 0 then (r, out, None)
      else case readPackage (dr1_src r) of
        (src, Inl err) \<Rightarrow> (r\<lparr>dr1_src := src\<rparr>, out, Some err)
      | (src, Inr dare_package) \<Rightarrow>
          let r1 = r\<lparr>dr1_src := src\<rparr> in
          case openV10 (dr1_ad r) dare_package of
            (ad, Inl err) \<Rightarrow> (r1\<lparr>dr1_ad := ad\<rparr>, out, Some err)
          | (ad, Inr payload) \<Rightarrow>
              let r2 = r1\<lparr>dr1_ad := ad, dr1_payload := payload\<rparr> in
              if maxPayloadSize \<le> k
              then decV10_packages r2 (out @ payload) (k - header_Length (take headerSize dare_package))
              else let n = min k (length payload) in (r2\<lparr>dr1_offset := n\<rparr>, out @ take n payload, None))"
  by pat_completeness auto
termination
  by (relation "measure (\<lambda>(r, out, k). k)") (auto simp: header_Length_def)

definition decReaderV10_Read :: "decReaderV10 \<Rightarrow> nat \<Rightarrow> decReaderV10 \<times> string \<times> sio_err option" where
  "decReaderV10_Read r k =
     (if 0 < dr1_offset r then
        let remaining = length (dr1_payload r) - dr1_offset r in
        if k < remaining
        then (r\<lparr>dr1_offset := dr1_offset r + k\<rparr>, take k (drop (dr1_offset r) (dr1_payload r)), None)
        else decV10_packages (r\<lparr>dr1_offset := 0\<rparr>) (drop (dr1_offset r) (dr1_payload r)) (k - remaining)
      else decV10_packages r [] k)"

section \<open>writer-v2.go\<close>

text \<open>The buffer of a writer up to its offset: the payload (encryption) or the package (decryption) that is not
  complete yet.  When \<open>flush\<close> fails, the offset stays and the sealed or opened package is what the buffer
  holds; the buffer after a package that does not open is not looked at again.\<close>

record encWriterV20 =
  ew_ae :: authEncV20
  ew_dst :: sink
  ew_pending :: string

definition encryptWriterV20 :: "ciphers \<Rightarrow> sink \<Rightarrow> Config \<Rightarrow> sio_err + encWriterV20" where
  "encryptWriterV20 env_suites dst cfg =
     (case newAuthEncV20 env_suites cfg of
        Inl err \<Rightarrow> Inl err
      | Inr ae \<Rightarrow> Inr \<lparr>ew_ae = ae, ew_dst = dst, ew_pending = []\<rparr>)"

function encW20_packages :: "encWriterV20 \<Rightarrow> nat \<Rightarrow> string \<Rightarrow> (encWriterV20 \<times> nat \<times> sio_err option) go" where
  "encW20_packages w n p =
     (if maxPayloadSize < length p then
        case sealV20 (ew_ae w) (take maxPayloadSize p) False of
          None \<Rightarrow> None
        | Some (ae, dare_package) \<Rightarrow>
            (case sio_flush (ew_dst w) dare_package of
               (dst, Some err) \<Rightarrow> Some (w\<lparr>ew_ae := ae, ew_dst := dst\<rparr>, n, Some err)
             | (dst, None) \<Rightarrow>
                 encW20_packages (w\<lparr>ew_ae := ae, ew_dst := dst\<rparr>) (n + maxPayloadSize) (drop maxPayloadSize p))
      else Some (w\<lparr>ew_pending := p\<rparr>, n + length p, None))"
  by pat_completeness auto
termination
  by (relation "measure (\<lambda>(w, n, p). length p)") (auto simp: maxPayloadSize_def)

definition encWriterV20_Write :: "encWriterV20 \<Rightarrow> string \<Rightarrow> (encWriterV20 \<times> nat \<times> sio_err option) go" where
  "encWriterV20_Write w p =
     (if enc_finalized (ew_ae w) then None
      else if ew_pending w \<noteq> [] then
        let remaining = maxPayloadSize - length (ew_pending w) in
        if length p \<le> remaining then Some (w\<lparr>ew_pending := ew_pending w @ p\<rparr>, length p, None)
        else case sealV20 (ew_ae w) (ew_pending w @ take remaining p) False of
          None \<Rightarrow> None
        | Some (ae, dare_package) \<Rightarrow>
            (case sio_flush (ew_dst w) dare_package of
               (dst, Some err) \<Rightarrow>
                 Some (w\<lparr>ew_ae := ae, ew_dst := dst,
                   ew_pending := take (length (ew_pending w)) (drop headerSize dare_package)\<rparr>, remaining, Some err)
             | (dst, None) \<Rightarrow>
                 encW20_packages (w\<lparr>ew_ae := ae, ew_dst := dst, ew_pending := []\<rparr>) remaining (drop remaining p))
      else encW20_packages w 0 p)"

definition encWriterV20_Close :: "encWriterV20 \<Rightarrow> (encWriterV20 \<times> sio_err option) go" where
  "encWriterV20_Close w =
     (if ew_pending w \<noteq> [] then
        case sealV20 (ew_ae w) (ew_pending w) True of
          None \<Rightarrow> None
        | Some (ae, dare_package) \<Rightarrow>
            (case sio_flush (ew_dst w) dare_package of
               (dst, Some err) \<Rightarrow>
                 Some (w\<lparr>ew_ae := ae, ew_dst := dst,
                   ew_pending := take (length (ew_pending w)) (drop headerSize dare_package)\<rparr>, Some err)
             | (dst, None) \<Rightarrow> Some (w\<lparr>ew_ae := ae, ew_dst := dst, ew_pending := []\<rparr>, snk_closing dst))
      else Some (w, snk_closing (ew_dst w)))"

record decWriterV20 =
  dw_ad :: authDecV20
  dw_dst :: sink
  dw_pending :: string

definition decryptWriterV20 :: "ciphers \<Rightarrow> sink \<Rightarrow> Config \<Rightarrow> sio_err + decWriterV20" where
  "decryptWriterV20 env_suites dst cfg =
     (case newAuthDecV20 env_suites cfg of
        Inl err \<Rightarrow> Inl err
      | Inr ad \<Rightarrow> Inr \<lparr>dw_ad = ad, dw_dst = dst, dw_pending = []\<rparr>)"

text \<open>A package is opened and its payload written; \<open>Inl\<close> is the error of either call.\<close>

definition open_and_flush :: "decWriterV20 \<Rightarrow> string \<Rightarrow> decWriterV20 \<times> (sio_err + string) \<times> sio_err option" where
  "open_and_flush w dare_package =
     (case openV20 (dw_ad w) dare_package of
        (ad, Inl err) \<Rightarrow> (w\<lparr>dw_ad := ad\<rparr>, Inl err, Some err)
      | (ad, Inr plaintext) \<Rightarrow>
          (case sio_flush (dw_dst w) plaintext of
             (dst, err) \<Rightarrow> (w\<lparr>dw_ad := ad, dw_dst := dst\<rparr>, Inr plaintext, err)))"

function decW20_packages :: "decWriterV20 \<Rightarrow> nat \<Rightarrow> string \<Rightarrow> decWriterV20 \<times> nat \<times> sio_err option" where
  "decW20_packages w n p =
     (if maxPackageSize \<le> length p then
        case open_and_flush w (take maxPackageSize p) of
          (w1, _, Some err) \<Rightarrow> (w1, n, Some err)
        | (w1, _, None) \<Rightarrow> decW20_packages w1 (n + maxPackageSize) (drop maxPackageSize p)
      else if p = [] then (w, n, None)
      else if dec_finalized (dw_ad w) then (w, n, Some sio_UnexpectedData)
      else (w\<lparr>dw_pending := p\<rparr>, n + length p, None))"
  by pat_completeness auto
termination
  by (relation "measure (\<lambda>(w, n, p). length p)") (auto simp: maxPackageSize_def headerSize_def)

text \<open>The buffer after a package was opened in place.\<close>

definition opened_buffer :: "string \<Rightarrow> string \<Rightarrow> string" where
  "opened_buffer dare_package plaintext =
     take headerSize dare_package @ plaintext @ drop (headerSize + length plaintext) dare_package"

definition decWriterV20_Write :: "decWriterV20 \<Rightarrow> string \<Rightarrow> decWriterV20 \<times> nat \<times> sio_err option" where
  "decWriterV20_Write w p =
     (if dw_pending w \<noteq> [] then
        let remaining = headerSize + maxPayloadSize + tagSize - length (dw_pending w) in
        if length p < remaining then (w\<lparr>dw_pending := dw_pending w @ p\<rparr>, length p, None)
        else let dare_package = dw_pending w @ take remaining p in
          (case open_and_flush w dare_package of
             (w1, Inr plaintext, Some err) \<Rightarrow>
               (w1\<lparr>dw_pending := take (length (dw_pending w)) (opened_buffer dare_package plaintext)\<rparr>, remaining, Some err)
           | (w1, _, Some err) \<Rightarrow> (w1, remaining, Some err)
           | (w1, _, None) \<Rightarrow> decW20_packages (w1\<lparr>dw_pending := []\<rparr>) remaining (drop remaining p))
      else decW20_packages w 0 p)"

definition decWriterV20_Close :: "decWriterV20 \<Rightarrow> decWriterV20 \<times> sio_err option" where
  "decWriterV20_Close w =
     (if dw_pending w \<noteq> [] then
        if length (dw_pending w) \<le> headerSize + tagSize then (w, Some sio_InvalidPayloadSize)
        else case open_and_flush w (dw_pending w) of
          (w1, Inr plaintext, Some err) \<Rightarrow>
            (w1\<lparr>dw_pending := opened_buffer (dw_pending w) plaintext\<rparr>, Some err)
        | (w1, _, Some err) \<Rightarrow> (w1, Some err)
        | (w1, _, None) \<Rightarrow> (w1\<lparr>dw_pending := []\<rparr>, snk_closing (dw_dst w1))
      else (w, snk_closing (dw_dst w)))"

section \<open>writer-v1.go\<close>

record encWriterV10 =
  ew1_ae :: authEnc
  ew1_dst :: sink
  ew1_pending :: string
  ew1_payloadSize :: nat

definition encryptWriterV10 :: "ciphers \<Rightarrow> sink \<Rightarrow> Config \<Rightarrow> sio_err + encWriterV10" where
  "encryptWriterV10 env_suites dst cfg =
     (case newAuthEncV10 env_suites cfg of
        Inl err \<Rightarrow> Inl err
      | Inr ae \<Rightarrow> Inr \<lparr>ew1_ae = ae, ew1_dst = dst, ew1_pending = [], ew1_payloadSize = cfg_PayloadSize cfg\<rparr>)"

definition seal_and_flush10 :: "encWriterV10 \<Rightarrow> string \<Rightarrow> encWriterV10 \<times> string \<times> sio_err option" where
  "seal_and_flush10 w payload =
     (case sealV10 (ew1_ae w) payload of (ae, dare_package) \<Rightarrow>
        (case sio_flush (ew1_dst w) dare_package of (dst, err) \<Rightarrow> (w\<lparr>ew1_ae := ae, ew1_dst := dst\<rparr>, dare_package, err)))"

function encW10_packages :: "encWriterV10 \<Rightarrow> nat \<Rightarrow> string \<Rightarrow> encWriterV10 \<times> nat \<times> sio_err option" where
  "encW10_packages w n p =
     (if 0 < ew1_payloadSize w \<and> ew1_payloadSize w \<le> length p then
        case seal_and_flush10 w (take (ew1_payloadSize w) p) of
          (w1, _, Some err) \<Rightarrow> (w1, n, Some err)
        | (w1, _, None) \<Rightarrow> encW10_packages w1 (n + ew1_payloadSize w) (drop (ew1_payloadSize w) p)
      else if p = [] then (w, n, None)
      else (w\<lparr>ew1_pending := p\<rparr>, n + length p, None))"
  by pat_completeness auto
termination
  by (relation "measure (\<lambda>(w, n, p). length p)") auto

definition encWriterV10_Write :: "encWriterV10 \<Rightarrow> string \<Rightarrow> encWriterV10 \<times> nat \<times> sio_err option" where
  "encWriterV10_Write w p =
     (if ew1_pending w \<noteq> [] then
        let remaining = ew1_payloadSize w - length (ew1_pending w) in
        if length p < remaining then (w\<lparr>ew1_pending := ew1_pending w @ p\<rparr>, length p, None)
        else case seal_and_flush10 w (ew1_pending w @ take remaining p) of
          (w1, dare_package, Some err) \<Rightarrow>
            (w1\<lparr>ew1_pending := take (length (ew1_pending w)) (drop headerSize dare_package)\<rparr>, remaining, Some err)
        | (w1, _, None) \<Rightarrow> encW10_packages (w1\<lparr>ew1_pending := []\<rparr>) remaining (drop remaining p)
      else encW10_packages w 0 p)"

text \<open>The offset is not reset: a second call of \<open>Close\<close> writes one package more.\<close>

definition encWriterV10_Close :: "encWriterV10 \<Rightarrow> encWriterV10 \<times> sio_err option" where
  "encWriterV10_Close w =
     (if ew1_pending w \<noteq> [] then
        case seal_and_flush10 w (ew1_pending w) of
          (w1, dare_package, err) \<Rightarrow>
            (w1\<lparr>ew1_pending := take (length (ew1_pending w)) (drop headerSize dare_package)\<rparr>,
             if err \<noteq> None then err else snk_closing (ew1_dst w1))
      else (w, snk_closing (ew1_dst w)))"

record decWriterV10 =
  dw1_ad :: authDec
  dw1_dst :: sink
  dw1_pending :: string

definition decryptWriterV10 :: "ciphers \<Rightarrow> sink \<Rightarrow> Config \<Rightarrow> sio_err + decWriterV10" where
  "decryptWriterV10 env_suites dst cfg =
     (case newAuthDec env_suites cfg of
        Inl err \<Rightarrow> Inl err
      | Inr ad \<Rightarrow> Inr \<lparr>dw1_ad = ad, dw1_dst = dst, dw1_pending = []\<rparr>)"

definition open_and_flush10 :: "decWriterV10 \<Rightarrow> string \<Rightarrow> decWriterV10 \<times> (sio_err + string) \<times> sio_err option" where
  "open_and_flush10 w dare_package =
     (case openV10 (dw1_ad w) dare_package of
        (ad, Inl err) \<Rightarrow> (w\<lparr>dw1_ad := ad\<rparr>, Inl err, Some err)
      | (ad, Inr plaintext) \<Rightarrow>
          (case sio_flush (dw1_dst w) plaintext of
             (dst, err) \<Rightarrow> (w\<lparr>dw1_ad := ad, dw1_dst := dst\<rparr>, Inr plaintext, err)))"

function decW10_packages :: "decWriterV10 \<Rightarrow> nat \<Rightarrow> string \<Rightarrow> decWriterV10 \<times> nat \<times> sio_err option" where
  "decW10_packages w n p =
     (if headerSize < length p then
        let packageLen = headerSize + tagSize + header_Length p in
        if length p < packageLen then (w\<lparr>dw1_pending := p\<rparr>, n + length p, None)
        else case open_and_flush10 w (take packageLen p) of
          (w1, _, Some err) \<Rightarrow> (w1, n, Some err)
        | (w1, _, None) \<Rightarrow> decW10_packages w1 (n + packageLen) (drop packageLen p)
      else if p = [] then (w, n, None)
      else (w\<lparr>dw1_pending := p\<rparr>, n + length p, None))"
  by pat_completeness auto
termination
  by (relation "measure (\<lambda>(w, n, p). length p)") (auto simp: headerSize_def)

text \<open>What is pending is completed to a header first, then to a package.\<close>

definition decWriterV10_complete :: "decWriterV10 \<Rightarrow> nat \<Rightarrow> string \<Rightarrow> decWriterV10 \<times> nat \<times> sio_err option" where
  "decWriterV10_complete w n p =
     (if headerSize \<le> length (dw1_pending w) then
        let remaining = package_Length (dw1_pending w) - length (dw1_pending w) in
        if length p < remaining then (w\<lparr>dw1_pending := dw1_pending w @ p\<rparr>, n + length p, None)
        else let dare_package = dw1_pending w @ take remaining p in
          (case open_and_flush10 w dare_package of
             (w1, Inr plaintext, Some err) \<Rightarrow>
               (w1\<lparr>dw1_pending := take (length (dw1_pending w)) (opened_buffer dare_package plaintext)\<rparr>, n + remaining, Some err)
           | (w1, _, Some err) \<Rightarrow> (w1, n + remaining, Some err)
           | (w1, _, None) \<Rightarrow> decW10_packages (w1\<lparr>dw1_pending := []\<rparr>) (n + remaining) (drop remaining p))
      else decW10_packages w n p)"

definition decWriterV10_Write :: "decWriterV10 \<Rightarrow> string \<Rightarrow> decWriterV10 \<times> nat \<times> sio_err option" where
  "decWriterV10_Write w p =
     (if dw1_pending w \<noteq> [] \<and> length (dw1_pending w) < headerSize then
        let remaining = headerSize - length (dw1_pending w) in
        if length p < remaining then (w\<lparr>dw1_pending := dw1_pending w @ p\<rparr>, length p, None)
        else decWriterV10_complete (w\<lparr>dw1_pending := dw1_pending w @ take remaining p\<rparr>) remaining (drop remaining p)
      else decWriterV10_complete w 0 p)"

definition decWriterV10_Close :: "decWriterV10 \<Rightarrow> decWriterV10 \<times> sio_err option" where
  "decWriterV10_Close w =
     (if dw1_pending w \<noteq> [] then
        if length (dw1_pending w) \<le> headerSize + tagSize then (w, Some sio_InvalidPayloadSize)
        else if length (dw1_pending w) < headerSize + header_Length (take headerSize (dw1_pending w)) + tagSize
        then (w, Some sio_InvalidPayloadSize)
        else case open_and_flush10 w (take (package_Length (dw1_pending w)) (dw1_pending w)) of
          (w1, Inr plaintext, err) \<Rightarrow>
            (w1\<lparr>dw1_pending := opened_buffer (dw1_pending w) plaintext\<rparr>, if err \<noteq> None then err else snk_closing (dw1_dst w1))
        | (w1, Inl _, err) \<Rightarrow> (w1, err)
      else (w, snk_closing (dw1_dst w)))"

end
