(* ===== verification/SioApi.thy ===== *)
theory SioApi
  imports SioStream
begin

text \<open>
  The entry points of \<open>pkg/sio\<close>: readers and writers for the versions of a configuration, the ones of
  \<open>generic.go\<close> that look at the first byte, and \<open>Encrypt\<close> and \<open>Decrypt\<close>, which copy a reader to a buffer.
\<close>

section \<open>generic.go\<close>

text \<open>A call on the nil pointer that a failed constructor leaves panics.\<close>

datatype dec_source = src_Raw io_source | src_V10 decReaderV10 | src_V20 decReaderV20 | src_Nil
datatype dec_sink = dst_Raw sink | dst_V10 decWriterV10 | dst_V20 decWriterV20 | dst_Nil

text \<open>A plain reader gives all it has; it may also give less.\<close>

definition source_Read :: "io_source \<Rightarrow> nat \<Rightarrow> io_source \<times> string \<times> sio_err option" where
  "source_Read s k =
     (s\<lparr>src_rest := drop k (src_rest s)\<rparr>, take k (src_rest s),
      if src_rest s = [] \<and> 0 < k then Some (case src_fault s of None \<Rightarrow> io_EOF | Some e \<Rightarrow> e) else None)"

record decReader =
  gr_config :: Config
  gr_src :: dec_source
  gr_firstRead :: bool

definition decryptReader :: "io_source \<Rightarrow> Config \<Rightarrow> decReader" where
  "decryptReader r config = \<lparr>gr_config = config, gr_src = src_Raw r, gr_firstRead = True\<rparr>"

definition dec_source_Read :: "decReader \<Rightarrow> nat \<Rightarrow> (decReader \<times> string \<times> sio_err option) go" where
  "dec_source_Read r k =
     (case gr_src r of
        src_Raw s \<Rightarrow> (case source_Read s k of (s', p, err) \<Rightarrow> Some (r\<lparr>gr_src := src_Raw s'\<rparr>, p, err))
      | src_V10 d \<Rightarrow> (case decReaderV10_Read d k of (d', p, err) \<Rightarrow> Some (r\<lparr>gr_src := src_V10 d'\<rparr>, p, err))
      | src_V20 d \<Rightarrow> (case decReaderV20_Read d k of (d', p, err) \<Rightarrow> Some (r\<lparr>gr_src := src_V20 d'\<rparr>, p, err))
      | src_Nil \<Rightarrow> None)"

text \<open>The byte that was read to find the version is put in front of the rest.\<close>

definition decReader_first :: "ciphers \<Rightarrow> decReader \<Rightarrow> io_source \<Rightarrow> char \<Rightarrow> decReader \<times> sio_err option" where
  "decReader_first env_suites r s version =
     (let r1 = r\<lparr>gr_firstRead := False, gr_src := src_Raw (s\<lparr>src_rest := version # src_rest s\<rparr>)\<rparr> in
      if of_char version = dare_Version10 then
        (case decryptReaderV10 env_suites (s\<lparr>src_rest := version # src_rest s\<rparr>) (gr_config r) of
           Inl err \<Rightarrow> (r1\<lparr>gr_src := src_Nil\<rparr>, Some err)
         | Inr d \<Rightarrow> (r1\<lparr>gr_src := src_V10 d\<rparr>, None))
      else if of_char version = dare_Version20 then
        (case decryptReaderV20 env_suites (s\<lparr>src_rest := version # src_rest s\<rparr>) (gr_config r) of
           Inl err \<Rightarrow> (r1\<lparr>gr_src := src_Nil\<rparr>, Some err)
         | Inr d \<Rightarrow> (r1\<lparr>gr_src := src_V20 d\<rparr>, None))
      else (r1, Some sio_UnsupportedVersion))"

definition decReader_Read :: "ciphers \<Rightarrow> decReader \<Rightarrow> nat \<Rightarrow> (decReader \<times> string \<times> sio_err option) go" where
  "decReader_Read env_suites r k =
     (case gr_src r of
        src_Raw s \<Rightarrow>
          if gr_firstRead r then
            if k = 0 then Some (r, [], None)
            else case ReadFull s 1 of
              (s', _, Some err) \<Rightarrow> Some (r\<lparr>gr_src := src_Raw s'\<rparr>, [], Some err)
            | (s', version, None) \<Rightarrow>
                (case decReader_first env_suites r s' (hd version) of
                   (r1, Some err) \<Rightarrow> Some (r1, [], Some err)
                 | (r1, None) \<Rightarrow> dec_source_Read r1 k)
          else dec_source_Read r k
      | _ \<Rightarrow> dec_source_Read r k)"

record decWriter =
  gw_config :: Config
  gw_dst :: dec_sink
  gw_firstWrite :: bool

definition decryptWriter :: "sink \<Rightarrow> Config \<Rightarrow> decWriter" where
  "decryptWriter w config = \<lparr>gw_config = config, gw_dst = dst_Raw w, gw_firstWrite = True\<rparr>"

definition dec_sink_Write :: "decWriter \<Rightarrow> string \<Rightarrow> (decWriter \<times> nat \<times> sio_err option) go" where
  "dec_sink_Write w p =
     (case gw_dst w of
        dst_Raw s \<Rightarrow>
          (case snk_answers s (snk_written s) p of
             (n, err) \<Rightarrow> Some (w\<lparr>gw_dst := dst_Raw (s\<lparr>snk_written := snk_written s @ take n p\<rparr>)\<rparr>, n, err))
      | dst_V10 d \<Rightarrow> (case decWriterV10_Write d p of (d', n, err) \<Rightarrow> Some (w\<lparr>gw_dst := dst_V10 d'\<rparr>, n, err))
      | dst_V20 d \<Rightarrow> (case decWriterV20_Write d p of (d', n, err) \<Rightarrow> Some (w\<lparr>gw_dst := dst_V20 d'\<rparr>, n, err))
      | dst_Nil \<Rightarrow> None)"

definition decWriter_first :: "ciphers \<Rightarrow> decWriter \<Rightarrow> sink \<Rightarrow> char \<Rightarrow> decWriter \<times> sio_err option" where
  "decWriter_first env_suites w s version =
     (let w1 = w\<lparr>gw_firstWrite := False\<rparr> in
      if of_char version = dare_Version10 then
        (case decryptWriterV10 env_suites s (gw_config w) of
           Inl err \<Rightarrow> (w1\<lparr>gw_dst := dst_Nil\<rparr>, Some err)
         | Inr d \<Rightarrow> (w1\<lparr>gw_dst := dst_V10 d\<rparr>, None))
      else if of_char version = dare_Version20 then
        (case decryptWriterV20 env_suites s (gw_config w) of
           Inl err \<Rightarrow> (w1\<lparr>gw_dst := dst_Nil\<rparr>, Some err)
         | Inr d \<Rightarrow> (w1\<lparr>gw_dst := dst_V20 d\<rparr>, None))
      else (w1, Some sio_UnsupportedVersion))"

definition decWriter_Write :: "ciphers \<Rightarrow> decWriter \<Rightarrow> string \<Rightarrow> (decWriter \<times> nat \<times> sio_err option) go" where
  "decWriter_Write env_suites w p =
     (case gw_dst w of
        dst_Raw s \<Rightarrow>
          if gw_firstWrite w then
            if p = [] then Some (w, 0, None)
            else case decWriter_first env_suites w s (hd p) of
              (w1, Some err) \<Rightarrow> Some (w1, 0, Some err)
            | (w1, None) \<Rightarrow> dec_sink_Write w1 p
          else dec_sink_Write w p
      | _ \<Rightarrow> dec_sink_Write w p)"

definition decWriter_Close :: "decWriter \<Rightarrow> (decWriter \<times> sio_err option) go" where
  "decWriter_Close w =
     (case gw_dst w of
        dst_Raw s \<Rightarrow> Some (w, snk_closing s)
      | dst_V10 d \<Rightarrow> (case decWriterV10_Close d of (d', err) \<Rightarrow> Some (w\<lparr>gw_dst := dst_V10 d'\<rparr>, err))
      | dst_V20 d \<Rightarrow> (case decWriterV20_Close d of (d', err) \<Rightarrow> Some (w\<lparr>gw_dst := dst_V20 d'\<rparr>, err))
      | dst_Nil \<Rightarrow> None)"

section \<open>sio.go: readers and writers\<close>

text \<open>The environment of the package: the ciphers, whether the processor supports AES, the system's random bytes.\<close>

record sio_env =
  env_suites :: ciphers
  supportsAES :: bool
  system_rand :: io_source

datatype enc_reader = encR10 encReaderV10 | encR20 encReaderV20
datatype enc_writer = encW10 encWriterV10 | encW20 encWriterV20
datatype dec_reader = decR10 decReaderV10 | decR20 decReaderV20 | decR decReader
datatype dec_writer = decW10 decWriterV10 | decW20 decWriterV20 | decW decWriter

definition or_else :: "'e + 'a \<Rightarrow> ('a \<Rightarrow> 'b) \<Rightarrow> 'e + 'b" where
  "or_else x f = (case x of Inl e \<Rightarrow> Inl e | Inr a \<Rightarrow> Inr (f a))"

definition EncryptReader :: "sio_env \<Rightarrow> io_source \<Rightarrow> Config \<Rightarrow> sio_err + enc_reader" where
  "EncryptReader env src config =
     (case setConfigDefaults (supportsAES env) (system_rand env) config of
        Inl err \<Rightarrow> Inl err
      | Inr c \<Rightarrow>
          if cfg_MaxVersion c = dare_Version20 then or_else (encryptReaderV20 (env_suites env) src c) encR20
          else or_else (encryptReaderV10 (env_suites env) src c) encR10)"

definition DecryptReader :: "sio_env \<Rightarrow> io_source \<Rightarrow> Config \<Rightarrow> sio_err + dec_reader" where
  "DecryptReader env src config =
     (case setConfigDefaults (supportsAES env) (system_rand env) config of
        Inl err \<Rightarrow> Inl err
      | Inr c \<Rightarrow>
          if cfg_MinVersion c = dare_Version10 \<and> cfg_MaxVersion c = dare_Version10
          then or_else (decryptReaderV10 (env_suites env) src c) decR10
          else if cfg_MinVersion c = dare_Version20 \<and> cfg_MaxVersion c = dare_Version20
          then or_else (decryptReaderV20 (env_suites env) src c) decR20
          else Inr (decR (decryptReader src c)))"

definition EncryptWriter :: "sio_env \<Rightarrow> sink \<Rightarrow> Config \<Rightarrow> sio_err + enc_writer" where
  "EncryptWriter env dst config =
     (case setConfigDefaults (supportsAES env) (system_rand env) config of
        Inl err \<Rightarrow> Inl err
      | Inr c \<Rightarrow>
          if cfg_MaxVersion c = dare_Version20 then or_else (encryptWriterV20 (env_suites env) dst c) encW20
          else or_else (encryptWriterV10 (env_suites env) dst c) encW10)"

definition DecryptWriter :: "sio_env \<Rightarrow> sink \<Rightarrow> Config \<Rightarrow> sio_err + dec_writer" where
  "DecryptWriter env dst config =
     (case setConfigDefaults (supportsAES env) (system_rand env) config of
        Inl err \<Rightarrow> Inl err
      | Inr c \<Rightarrow>
          if cfg_MinVersion c = dare_Version10 \<and> cfg_MaxVersion c = dare_Version10
          then or_else (decryptWriterV10 (env_suites env) dst c) decW10
          else if cfg_MinVersion c = dare_Version20 \<and> cfg_MaxVersion c = dare_Version20
          then or_else (decryptWriterV20 (env_suites env) dst c) decW20
          else Inr (decW (decryptWriter dst c)))"

fun enc_reader_Read :: "enc_reader \<Rightarrow> nat \<Rightarrow> (enc_reader \<times> string \<times> sio_err option) go" where
  "enc_reader_Read (encR10 r) k = (case encReaderV10_Read r k of (r', p, err) \<Rightarrow> Some (encR10 r', p, err))"
| "enc_reader_Read (encR20 r) k =
     (case encReaderV20_Read r k of None \<Rightarrow> None | Some (r', p, err) \<Rightarrow> Some (encR20 r', p, err))"

fun dec_reader_Read :: "sio_env \<Rightarrow> dec_reader \<Rightarrow> nat \<Rightarrow> (dec_reader \<times> string \<times> sio_err option) go" where
  "dec_reader_Read env (decR10 r) k = (case decReaderV10_Read r k of (r', p, err) \<Rightarrow> Some (decR10 r', p, err))"
| "dec_reader_Read env (decR20 r) k = (case decReaderV20_Read r k of (r', p, err) \<Rightarrow> Some (decR20 r', p, err))"
| "dec_reader_Read env (decR r) k =
     (case decReader_Read (env_suites env) r k of None \<Rightarrow> None | Some (r', p, err) \<Rightarrow> Some (decR r', p, err))"

fun enc_writer_Write :: "enc_writer \<Rightarrow> string \<Rightarrow> (enc_writer \<times> nat \<times> sio_err option) go" where
  "enc_writer_Write (encW10 w) p = (case encWriterV10_Write w p of (w', n, err) \<Rightarrow> Some (encW10 w', n, err))"
| "enc_writer_Write (encW20 w) p =
     (case encWriterV20_Write w p of None \<Rightarrow> None | Some (w', n, err) \<Rightarrow> Some (encW20 w', n, err))"

fun enc_writer_Close :: "enc_writer \<Rightarrow> (enc_writer \<times> sio_err option) go" where
  "enc_writer_Close (encW10 w) = (case encWriterV10_Close w of (w', err) \<Rightarrow> Some (encW10 w', err))"
| "enc_writer_Close (encW20 w) = (case encWriterV20_Close w of None \<Rightarrow> None | Some (w', err) \<Rightarrow> Some (encW20 w', err))"

fun dec_writer_Write :: "sio_env \<Rightarrow> dec_writer \<Rightarrow> string \<Rightarrow> (dec_writer \<times> nat \<times> sio_err option) go" where
  "dec_writer_Write env (decW10 w) p = (case decWriterV10_Write w p of (w', n, err) \<Rightarrow> Some (decW10 w', n, err))"
| "dec_writer_Write env (decW20 w) p = (case decWriterV20_Write w p of (w', n, err) \<Rightarrow> Some (decW20 w', n, err))"
| "dec_writer_Write env (decW w) p =
     (case decWriter_Write (env_suites env) w p of None \<Rightarrow> None | Some (w', n, err) \<Rightarrow> Some (decW w', n, err))"

fun dec_writer_Close :: "dec_writer \<Rightarrow> (dec_writer \<times> sio_err option) go" where
  "dec_writer_Close (decW10 w) = (case decWriterV10_Close w of (w', err) \<Rightarrow> Some (decW10 w', err))"
| "dec_writer_Close (decW20 w) = (case decWriterV20_Close w of (w', err) \<Rightarrow> Some (decW20 w', err))"
| "dec_writer_Close (decW w) = (case decWriter_Close w of None \<Rightarrow> None | Some (w', err) \<Rightarrow> Some (decW w', err))"

text \<open>The bytes that have reached the destination of a writer.\<close>

fun enc_written :: "enc_writer \<Rightarrow> string" where
  "enc_written (encW10 w) = snk_written (ew1_dst w)"
| "enc_written (encW20 w) = snk_written (ew_dst w)"

fun dec_written :: "dec_writer \<Rightarrow> string" where
  "dec_written (decW10 w) = snk_written (dw1_dst w)"
| "dec_written (decW20 w) = snk_written (dw_dst w)"
| "dec_written (decW w) =
     (case gw_dst w of dst_Raw s \<Rightarrow> snk_written s | dst_V10 d \<Rightarrow> snk_written (dw1_dst d) | dst_V20 d \<Rightarrow> snk_written (dw_dst d) | dst_Nil \<Rightarrow> [])"

text \<open>A caller that writes pieces, stops at the first error, and closes the writer.\<close>

fun write_pieces :: "('w \<Rightarrow> string \<Rightarrow> ('w \<times> nat \<times> sio_err option) go) \<Rightarrow> ('w \<Rightarrow> ('w \<times> sio_err option) go) \<Rightarrow>
    string list \<Rightarrow> 'w \<Rightarrow> ('w \<times> sio_err option) go" where
  "write_pieces write close [] w = close w"
| "write_pieces write close (p # ps) w =
     (case write w p of
        None \<Rightarrow> None
      | Some (w', n, Some err) \<Rightarrow> Some (w', Some err)
      | Some (w', n, None) \<Rightarrow> write_pieces write close ps w')"

text \<open>
  \<open>io.CopyBuffer\<close> to a \<open>bytes.Buffer\<close>: it reads until the end of the file; the room for call \<open>i\<close> is that of the
  given buffer or of the growing \<open>bytes.Buffer\<close>, any number above zero.  \<open>None\<close>: a panic, or no end.
\<close>

partial_function (option) copy_loop ::
    "('s \<Rightarrow> nat \<Rightarrow> ('s \<times> string \<times> sio_err option) go) \<Rightarrow> (nat \<Rightarrow> nat) \<Rightarrow> nat \<Rightarrow> 's \<Rightarrow> string \<Rightarrow>
     (string \<times> sio_err option) option" where
  "copy_loop read room i s dst =
     (case read s (room i) of
        None \<Rightarrow> None
      | Some (s', p, err) \<Rightarrow>
          if err = Some io_EOF then Some (dst @ p, None)
          else if err \<noteq> None then Some (dst @ p, err)
          else copy_loop read room (Suc i) s' (dst @ p))"

text \<open>The number \<open>n\<close> that is returned is the length of what was written.\<close>

definition dare_Encrypt :: "sio_env \<Rightarrow> (nat \<Rightarrow> nat) \<Rightarrow> io_source \<Rightarrow> Config \<Rightarrow> (string \<times> sio_err option) option" where
  "dare_Encrypt env room src config =
     (case EncryptReader env src config of
        Inl err \<Rightarrow> Some ([], Some err)
      | Inr r \<Rightarrow> copy_loop enc_reader_Read room 0 r [])"

definition dare_Decrypt :: "sio_env \<Rightarrow> (nat \<Rightarrow> nat) \<Rightarrow> io_source \<Rightarrow> Config \<Rightarrow> (string \<times> sio_err option) option" where
  "dare_Decrypt env room src config =
     (case DecryptReader env src config of
        Inl err \<Rightarrow> Some ([], Some err)
      | Inr r \<Rightarrow> copy_loop (dec_reader_Read env) room 0 r [])"

end
