(* ===== verification/SioProps.thy ===== *)
theory SioProps
  imports SioApi
begin

text \<open>
  What the DARE 2.0 readers and writers do with a whole stream: the format as a function \<open>coded\<close> on the
  plaintext and the opening of a stream as a function \<open>dare_decode\<close>; every reader gives out that stream for any
  sizes of the buffers it is read with, every writer takes it in any pieces.
\<close>

section \<open>The ciphers\<close>

text \<open>What is documented of \<open>cipher.AEAD\<close>: opening undoes sealing, nothing else opens, and the tag has 16 bytes.\<close>

definition aead_works :: "aead \<Rightarrow> bool" where
  "aead_works a \<longleftrightarrow>
     (\<forall>n d ad. length (aead_Seal a n d ad) = length d + tagSize \<and> aead_Open a n (aead_Seal a n d ad) ad = Some d) \<and>
     (\<forall>n c ad d. aead_Open a n c ad = Some d \<longrightarrow> c = aead_Seal a n d ad)"

lemma aead_seal:
  assumes "aead_works a"
  shows "length (aead_Seal a n d ad) = length d + tagSize" and "aead_Open a n (aead_Seal a n d ad) ad = Some d"
  using assms unfolding aead_works_def by blast+

lemma aead_open:
  assumes "aead_works a" and "aead_Open a n c ad = Some d"
  shows "c = aead_Seal a n d ad" and "length c = length d + tagSize"
  using assms unfolding aead_works_def by blast+

section \<open>Headers\<close>

lemmas sizes = headerSize_def tagSize_def maxPackageSize_def

lemma maxPayload_pos [simp]: "0 < maxPayloadSize" by (simp add: maxPayloadSize_def)
lemma maxPackage_pos [simp]: "0 < maxPackageSize" by (simp add: sizes)

lemma byte_value: "(of_char (put_byte n) :: nat) = n mod 256"
  by (simp add: put_byte_def)

lemma length_set_final [simp]: "length (set_final x) = length x" by (simp add: set_final_def)
lemma length_clear_final [simp]: "length (clear_final x) = length x" by (simp add: clear_final_def)

lemma final_bits:
  assumes "x \<noteq> []"
  shows "set_final (clear_final x) = set_final x" and "set_final (set_final x) = set_final x"
    and "128 \<le> (of_char (set_final x ! 0) :: nat)" and "(of_char (clear_final x ! 0) :: nat) < 128"
  using assms by (simp_all add: set_final_def clear_final_def byte_value)

lemma length_header: "length rand = 12 \<Longrightarrow> length (headerV20 c len rand f) = headerSize"
  by (simp add: headerV20_def length_field_def PutUint16_def headerSize_def)

lemma header_fields:
  assumes "length rand = 12" and "c < 256" and "0 < len" and "len \<le> maxPayloadSize"
  shows "header_Version (headerV20 c len rand f) = dare_Version20"
    and "header_Cipher (headerV20 c len rand f) = c"
    and "header_Length (headerV20 c len rand f) = len"
    and "header_Nonce (headerV20 c len rand f) = (if f then set_final rand else clear_final rand)"
    and "IsFinal (headerV20 c len rand f) \<longleftrightarrow> f"
proof -
  obtain m where len: "len = Suc m" and m: "m < 65536"
    using assms(3,4) by (cases len) (auto simp: maxPayloadSize_def)
  have "(len + 65535) mod 65536 = (m + 65536) mod 65536" by (simp add: len)
  also have "\<dots> = m" by (simp only: mod_add_self2 mod_less [OF m])
  finally have "length_field len = PutUint16 m" by (simp add: length_field_def)
  moreover have "Uint16 (PutUint16 m @ x) = m" for x
    using m by (simp add: PutUint16_def Uint16_def byte_value)
  ultimately show "header_Length (headerV20 c len rand f) = len"
    by (simp add: headerV20_def header_Length_def len)
  show "header_Version (headerV20 c len rand f) = dare_Version20" and "header_Cipher (headerV20 c len rand f) = c"
    using assms(2) by (simp_all add: headerV20_def header_Version_def header_Cipher_def byte_value dare_Version20_def)
  show "header_Nonce (headerV20 c len rand f) = (if f then set_final rand else clear_final rand)"
    using assms(1) by (simp add: headerV20_def header_Nonce_def length_field_def PutUint16_def headerSize_def)
  have "rand \<noteq> []" using assms(1) by auto
  from final_bits(3,4) [OF this] show "IsFinal (headerV20 c len rand f) \<longleftrightarrow> f"
    using assms(1) by (auto simp: IsFinal_def headerV20_def length_field_def PutUint16_def nth_append)
qed

section \<open>The format\<close>

definition dare_package :: "authEncV20 \<Rightarrow> string \<Rightarrow> bool \<Rightarrow> string" where
  "dare_package ae d f =
     (let header = headerV20 (CipherID ae) (length d) (RandVal ae) f in
      header @ aead_Seal (Cipher ae) (package_nonce (header_Nonce header) (SeqNum ae)) d (header_AddData header))"

definition next_ae :: "authEncV20 \<Rightarrow> authEncV20" where
  "next_ae ae = ae\<lparr>SeqNum := SeqNum ae + 1\<rparr>"

text \<open>The stream of a plaintext: packages of full size and the rest in the last one, which has the final flag when
  \<open>fin\<close> holds; without it the stream is cut after full packages.\<close>

function coded :: "authEncV20 \<Rightarrow> string \<Rightarrow> bool \<Rightarrow> string" where
  "coded ae d fin =
     (if d = [] then []
      else if length d \<le> maxPayloadSize then dare_package ae d fin
      else dare_package ae (take maxPayloadSize d) False @ coded (next_ae ae) (drop maxPayloadSize d) fin)"
  by pat_completeness auto
termination
  by (relation "measure (\<lambda>(ae, d, fin). length d)") auto

declare coded.simps [simp del]

definition ae_ok :: "authEncV20 \<Rightarrow> bool" where
  "ae_ok ae \<longleftrightarrow> aead_works (Cipher ae) \<and> length (RandVal ae) = 12 \<and> CipherID ae < 2"

lemma next_ae [simp]: "ae_ok (next_ae ae) = ae_ok ae" "SeqNum (next_ae ae) = SeqNum ae + 1"
  "Cipher (next_ae ae) = Cipher ae" "CipherID (next_ae ae) = CipherID ae" "RandVal (next_ae ae) = RandVal ae"
  "enc_finalized (next_ae ae) = enc_finalized ae"
  by (simp_all add: next_ae_def ae_ok_def)

lemma package_finalized [simp]: "dare_package (ae\<lparr>enc_finalized := x\<rparr>) d f = dare_package ae d f"
  by (simp add: dare_package_def)

lemma coded_finalized [simp]: "coded (ae\<lparr>enc_finalized := x\<rparr>) d fin = coded ae d fin"
proof (induction ae d fin rule: coded.induct)
  case (1 ae d fin)
  have *: "next_ae (ae\<lparr>enc_finalized := x\<rparr>) = (next_ae ae)\<lparr>enc_finalized := x\<rparr>" by (simp add: next_ae_def)
  show ?case
    unfolding coded.simps [of "ae\<lparr>enc_finalized := x\<rparr>"] coded.simps [of ae] * package_finalized
    using 1 by auto
qed

lemma sealV20_package:
  "\<not> enc_finalized ae \<Longrightarrow> sealV20 ae d f = Some ((next_ae ae)\<lparr>enc_finalized := f\<rparr>, dare_package ae d f)"
  by (simp add: sealV20_def dare_package_def next_ae_def Let_def)

lemma length_package:
  "ae_ok ae \<Longrightarrow> length (dare_package ae d f) = headerSize + length d + tagSize"
  by (simp add: ae_ok_def dare_package_def Let_def length_header aead_seal(1))

lemma take_package: "ae_ok ae \<Longrightarrow> take headerSize (dare_package ae d f) = headerV20 (CipherID ae) (length d) (RandVal ae) f"
  by (simp add: ae_ok_def dare_package_def Let_def length_header)

lemma package_Length_package:
  assumes "ae_ok ae" and "0 < length d" and "length d \<le> maxPayloadSize"
  shows "package_Length (dare_package ae d f) = length (dare_package ae d f)"
proof -
  from assms have "header_Length (take headerSize (dare_package ae d f)) = length d"
    unfolding take_package [OF assms(1)] by (simp add: header_fields(3) ae_ok_def)
  then show ?thesis by (simp add: package_Length_def length_package [OF assms(1)])
qed

section \<open>Opening a package\<close>

text \<open>What a decrypter knows when it comes to the packages of \<open>ae\<close>: the cipher, the number of the next package,
  and, after the first package, the random value of the stream.\<close>

definition follows :: "authDecV20 \<Rightarrow> authEncV20 \<Rightarrow> bool" where
  "follows ad ae \<longleftrightarrow> ae_ok ae \<and> \<not> dec_finalized ad \<and> Ciphers ad (CipherID ae) = Some (Cipher ae) \<and>
     dec_SeqNum ad = SeqNum ae \<and>
     (case refHeader ad of
        None \<Rightarrow> True
      | Some ref \<Rightarrow> header_Cipher ref = CipherID ae \<and> header_Nonce ref = clear_final (RandVal ae))"

lemma open_package:
  assumes ad: "follows ad ae" and d: "0 < length d" "length d \<le> maxPayloadSize" and f: "f \<or> length d = maxPayloadSize"
  obtains ad' where "openV20 ad (dare_package ae d f) = (ad', Inr d)" and "dec_finalized ad' = f"
    and "\<not> f \<Longrightarrow> follows ad' (next_ae ae)"
proof -
  from ad have ok: "ae_ok ae" "aead_works (Cipher ae)" "length (RandVal ae) = 12" "CipherID ae < 2"
    by (simp_all add: follows_def ae_ok_def)
  define h where "h = headerV20 (CipherID ae) (length d) (RandVal ae) f"
  define ref where "ref = (case refHeader ad of None \<Rightarrow> h | Some r \<Rightarrow> r)"
  from ok d have h: "header_Version h = dare_Version20" "header_Cipher h = CipherID ae" "header_Length h = length d"
    "header_Nonce h = (if f then set_final (RandVal ae) else clear_final (RandVal ae))" "IsFinal h = f"
    by (simp_all add: h_def header_fields)
  have r: "RandVal ae \<noteq> []" using ok(3) by auto
  have ref: "header_Cipher ref = CipherID ae"
    "header_Nonce h = (if f then set_final (header_Nonce ref) else header_Nonce ref)"
    using ad h(2,4) final_bits(1,2) [OF r] by (auto simp: ref_def follows_def split: option.splits)
  have hd: "take headerSize (dare_package ae d f) = h" by (simp add: take_package [OF ok(1)] h_def)
  have tl: "aead_Open (Cipher ae) (package_nonce (header_Nonce h) (dec_SeqNum ad)) (drop headerSize (dare_package ae d f)) (header_AddData h)
      = Some d"
  proof -
    have "drop headerSize (dare_package ae d f) = aead_Seal (Cipher ae) (package_nonce (header_Nonce h) (SeqNum ae)) d (header_AddData h)"
      using ok(3) by (simp add: dare_package_def Let_def length_header h_def)
    moreover have "dec_SeqNum ad = SeqNum ae" using ad by (simp add: follows_def)
    ultimately show ?thesis by (simp add: aead_seal(2) [OF ok(2)])
  qed
  have len: "length (dare_package ae d f) = headerSize + length d + tagSize" by (rule length_package [OF ok(1)])
  have c: "\<not> CHACHA20_POLY1305 < CipherID ae" "Ciphers ad (CipherID ae) = Some (Cipher ae)" "\<not> dec_finalized ad"
    using ok(4) ad by (simp_all add: CHACHA20_POLY1305_def follows_def)
  let ?ad' = "(if f then ad\<lparr>refHeader := Some (take 4 ref @ header_Nonce h), dec_finalized := True\<rparr>
    else ad\<lparr>refHeader := Some ref\<rparr>)\<lparr>dec_SeqNum := dec_SeqNum ad + 1\<rparr>"
  have "openV20 ad (dare_package ae d f) = (?ad', Inr d)"
    unfolding openV20_def Let_def hd len ref_def [symmetric] using c d f h ref tl
    by (cases f) (simp_all add: sizes)
  moreover have "dec_finalized ?ad' = f" using c(3) by simp
  moreover have "\<not> f \<Longrightarrow> follows ?ad' (next_ae ae)"
    using ad ref h(4) by (simp add: follows_def)
  ultimately show ?thesis using that by blast
qed

section \<open>Readers\<close>

text \<open>The contract of \<open>io.Reader\<close>: a state \<open>holds\<close> the bytes that are still to come and the error after
  them; a call gives the next ones, at least one when there is room and no error, and the error only
  with the last of them.\<close>

locale io_reader =
  fixes read :: "'s \<Rightarrow> nat \<Rightarrow> ('s \<times> string \<times> sio_err option) go"
    and holds :: "'s \<Rightarrow> string \<Rightarrow> sio_err \<Rightarrow> bool"
  assumes read_some: "holds s R e \<Longrightarrow>
    \<exists>s' n err. read s k = Some (s', take n R, err) \<and> n \<le> k \<and> n \<le> length R \<and>
      (err = None \<and> holds s' (drop n R) e \<or> err = Some e \<and> n = length R \<and> (e = io_EOF \<or> n < k)) \<and>
      (0 < k \<longrightarrow> 0 < n \<or> err \<noteq> None)"
begin

text \<open>A loop that copies the reader returns with all of it, whatever room each call has.\<close>

lemma copy_loop_reads:
  assumes "holds s R e" and "\<And>i. 0 < room i"
  shows "copy_loop read room i s dst = Some (dst @ R, if e = io_EOF then None else Some e)"
  using assms(1)
proof (induction "length R" arbitrary: s R i dst rule: less_induct)
  case less
  obtain s' n err where r: "read s (room i) = Some (s', take n R, err)" "n \<le> length R" "0 < n \<or> err \<noteq> None"
    and c: "err = None \<and> holds s' (drop n R) e \<or> err = Some e \<and> n = length R"
    using read_some [OF less.prems, of "room i"] assms(2) [of i] by blast
  show ?case
  proof (cases "err = None")
    case True
    with c r(2,3) have h: "holds s' (drop n R) e" "length (drop n R) < length R" by auto
    show ?thesis
      using less.hyps [OF h(2,1), of "Suc i" "dst @ take n R"] by (simp add: copy_loop.simps [of _ _ i] r(1) True)
  next
    case False
    with c show ?thesis by (auto simp: copy_loop.simps [of _ _ i] r(1))
  qed
qed

end

section \<open>The decrypting reader\<close>

text \<open>What a stream of packages opens to, and the error after it.\<close>

function dare_decode :: "authDecV20 \<Rightarrow> string \<Rightarrow> string \<times> sio_err" where
  "dare_decode ad s =
     (if s = [] then ([], if dec_finalized ad then io_EOF else sio_UnexpectedEOF)
      else case openV20 ad (take maxPackageSize s) of
        (ad', Inl e) \<Rightarrow> ([], e)
      | (ad', Inr d) \<Rightarrow> (case dare_decode ad' (drop maxPackageSize s) of (q, e) \<Rightarrow> (d @ q, e)))"
  by pat_completeness auto
termination
  by (relation "measure (\<lambda>(ad, s). length s)") auto

declare dare_decode.simps [simp del]

definition ciphers_ok :: "authDecV20 \<Rightarrow> bool" where
  "ciphers_ok ad \<longleftrightarrow> (\<forall>c a. Ciphers ad c = Some a \<longrightarrow> aead_works a)"

lemma opened:
  assumes "openV20 ad s = (ad', Inr d)"
  shows "Ciphers ad' = Ciphers ad" and "headerSize + header_Length (take headerSize s) + tagSize = length s"
    and "\<exists>a n. Ciphers ad (header_Cipher (take headerSize s)) = Some a \<and>
      aead_Open a n (drop headerSize s) (header_AddData (take headerSize s)) = Some d"
  using assms by (auto simp: openV20_def Let_def split: if_splits option.splits)

lemma opened_length:
  assumes "openV20 ad s = (ad', Inr d)" and "ciphers_ok ad"
  shows "length d = header_Length (take headerSize s)" and "length s = headerSize + length d + tagSize"
    and "0 < length d" and "ciphers_ok ad'"
proof -
  from opened(3) [OF assms(1)] obtain a n where a: "Ciphers ad (header_Cipher (take headerSize s)) = Some a"
    "aead_Open a n (drop headerSize s) (header_AddData (take headerSize s)) = Some d" by blast
  from assms(2) a(1) have "aead_works a" by (simp add: ciphers_ok_def)
  from aead_open(2) [OF this a(2)] have len: "length s - headerSize = length d + tagSize" by simp
  with opened(2) [OF assms(1)] show "length d = header_Length (take headerSize s)"
    by simp
  then show "0 < length d" "length s = headerSize + length d + tagSize"
    using opened(2) [OF assms(1)] by (simp_all add: header_Length_def)
  show "ciphers_ok ad'" using assms(2) by (simp add: ciphers_ok_def opened(1) [OF assms(1)])
qed

definition decV20_holds :: "decReaderV20 \<Rightarrow> string \<Rightarrow> sio_err \<Rightarrow> bool" where
  "decV20_holds r R e \<longleftrightarrow> src_fault (dr_src r) = None \<and> ciphers_ok (dr_ad r) \<and> dr_offset r \<le> length (dr_payload r) \<and>
     (\<exists>q. dare_decode (dr_ad r) (src_rest (dr_src r)) = (q, e) \<and>
       R = (if 0 < dr_offset r then drop (dr_offset r) (dr_payload r) else []) @ q)"

lemma decV20_packages_reads:
  assumes "src_fault (dr_src r) = None" and "ciphers_ok (dr_ad r)" and "dr_offset r = 0"
    and "dare_decode (dr_ad r) (src_rest (dr_src r)) = (q, e)"
  shows "\<exists>r' n err. decV20_packages r out k = (r', out @ take n q, err) \<and> n \<le> k \<and> n \<le> length q \<and>
    (err = None \<and> decV20_holds r' (drop n q) e \<or> err = Some e \<and> n = length q \<and> n < k) \<and> (0 < k \<longrightarrow> 0 < n \<or> err \<noteq> None)"
  using assms
proof (induction k arbitrary: r q out rule: less_induct)
  case (less k)
  let ?s = "src_rest (dr_src r)"
  let ?r1 = "r\<lparr>dr_src := dr_src r\<lparr>src_rest := drop maxPackageSize ?s\<rparr>\<rparr>"
  consider "k = 0" | "0 < k" "?s = []" | "0 < k" "?s \<noteq> []" by blast
  then show ?case
  proof cases
    case 1
    have "decV20_holds r q e" using less.prems by (simp add: decV20_holds_def)
    with 1 show ?thesis by (intro exI [of _ r] exI [of _ 0] exI [of _ None]) simp
  next
    case 2
    then have "ReadFull (dr_src r) maxPackageSize = (dr_src r\<lparr>src_rest := []\<rparr>, [], Some io_EOF)"
      using less.prems(1) by (simp add: ReadFull_def)
    moreover have "q = []" "e = (if dec_finalized (dr_ad r) then io_EOF else sio_UnexpectedEOF)"
      using less.prems(4) 2 by (simp_all add: dare_decode.simps)
    ultimately show ?thesis
      using 2(1) by (intro exI [of _ "r\<lparr>dr_src := dr_src r\<lparr>src_rest := []\<rparr>\<rparr>"] exI [of _ 0] exI [of _ "Some e"]) simp
  next
    case 3
    obtain err where read: "ReadFull (dr_src r) maxPackageSize =
        (dr_src r\<lparr>src_rest := drop maxPackageSize ?s\<rparr>, take maxPackageSize ?s, err)"
      and err: "err = None \<or> err = Some io_UnexpectedEOF"
      using 3 less.prems(1) by (cases "maxPackageSize \<le> length ?s") (auto simp: ReadFull_def)
    obtain ad' x where op: "openV20 (dr_ad r) (take maxPackageSize ?s) = (ad', x)" by fastforce
    show ?thesis
    proof (cases x)
      case (Inl e')
      have "q = []" "e = e'" using less.prems(4) 3 op Inl by (simp_all add: dare_decode.simps [of "dr_ad r"])
      then show ?thesis
        using 3 err Inl by (intro exI [of _ "?r1\<lparr>dr_ad := ad'\<rparr>"] exI [of _ 0] exI [of _ "Some e"])
          (auto simp: decV20_packages.simps [of r] read op)
    next
      case (Inr d)
      note op = op [unfolded Inr]
      note len = opened_length [OF op less.prems(2)]
      let ?r2 = "?r1\<lparr>dr_ad := ad', dr_payload := d\<rparr>"
      obtain q' where dec: "dare_decode ad' (drop maxPackageSize ?s) = (q', e)" and q: "q = d @ q'"
        using less.prems(4) 3 op by (auto simp: dare_decode.simps [of "dr_ad r"] split: prod.splits)
      have dmax: "length d \<le> maxPayloadSize" using len(2) by (auto simp: sizes)
      have step: "decV20_packages r out k =
          (if maxPayloadSize \<le> k then decV20_packages ?r2 (out @ d) (k - length d)
           else if k < length d then (?r2\<lparr>dr_offset := k\<rparr>, out @ take k d, None) else (?r2, out @ d, None))"
        using 3 err unfolding decV20_packages.simps [of r] read Let_def prod.case op sum.case len(1) [symmetric] by auto
      have ok: "src_fault (dr_src ?r2) = None" "ciphers_ok (dr_ad ?r2)" "dr_offset ?r2 = 0"
        "dare_decode (dr_ad ?r2) (src_rest (dr_src ?r2)) = (q', e)"
        using less.prems len(4) dec by simp_all
      consider (big) "maxPayloadSize \<le> k" | (part) "k < length d" | (whole) "length d \<le> k" "k < maxPayloadSize" by linarith
      then show ?thesis
      proof cases
        case big
        have "k - length d < k" using 3 len(3) by simp
        from less.IH [OF this ok, of "out @ d"] obtain r' n err' where
          r': "decV20_packages ?r2 (out @ d) (k - length d) = (r', (out @ d) @ take n q', err')" "n \<le> k - length d"
            "n \<le> length q'" "err' = None \<and> decV20_holds r' (drop n q') e \<or> err' = Some e \<and> n = length q' \<and> n < k - length d"
          by blast
        show ?thesis
          using r' big dmax len(3) step
          by (intro exI [of _ r'] exI [of _ "length d + n"] exI [of _ err']) (auto simp: q)
      next
        case part
        with dmax have "\<not> maxPayloadSize \<le> k" by simp
        moreover have "decV20_holds (?r2\<lparr>dr_offset := k\<rparr>) (drop k q) e"
          using ok part 3 by (simp add: decV20_holds_def q)
        ultimately show ?thesis
          using part 3 step by (intro exI [of _ "?r2\<lparr>dr_offset := k\<rparr>"] exI [of _ k] exI [of _ None]) (simp add: q)
      next
        case whole
        moreover have "decV20_holds ?r2 q' e" using ok by (simp add: decV20_holds_def)
        ultimately show ?thesis
          using len(3) step by (intro exI [of _ ?r2] exI [of _ "length d"] exI [of _ None]) (simp add: q)
      qed
    qed
  qed
qed

lemma decReaderV20_reads:
  assumes "decV20_holds r R e"
  shows "\<exists>r' n err. decReaderV20_Read r k = (r', take n R, err) \<and> n \<le> k \<and> n \<le> length R \<and>
    (err = None \<and> decV20_holds r' (drop n R) e \<or> err = Some e \<and> n = length R \<and> n < k) \<and> (0 < k \<longrightarrow> 0 < n \<or> err \<noteq> None)"
proof -
  obtain q where q: "src_fault (dr_src r) = None" "ciphers_ok (dr_ad r)" "dr_offset r \<le> length (dr_payload r)"
    "dare_decode (dr_ad r) (src_rest (dr_src r)) = (q, e)"
    and R: "R = (if 0 < dr_offset r then drop (dr_offset r) (dr_payload r) else []) @ q"
    using assms unfolding decV20_holds_def by blast
  define m where "m = length (dr_payload r) - dr_offset r"
  consider (none) "dr_offset r = 0" | (part) "0 < dr_offset r" "k < m" | (all) "0 < dr_offset r" "m \<le> k" by linarith
  then show ?thesis
  proof cases
    case none
    then show ?thesis
      using decV20_packages_reads [OF q(1,2) none q(4), of "[]" k] R unfolding decReaderV20_Read_def by simp
  next
    case part
    have "decV20_holds (r\<lparr>dr_offset := dr_offset r + k\<rparr>) (drop k R) e"
      using q part by (simp add: decV20_holds_def R m_def add.commute)
    then show ?thesis
      using part by (intro exI [of _ "r\<lparr>dr_offset := dr_offset r + k\<rparr>"] exI [of _ k] exI [of _ None])
        (auto simp: decReaderV20_Read_def R m_def)
  next
    case all
    let ?p = "drop (dr_offset r) (dr_payload r)"
    have p: "length ?p = m" by (simp add: m_def)
    obtain r' n err where r': "decV20_packages (r\<lparr>dr_offset := 0\<rparr>) ?p (k - m) = (r', ?p @ take n q, err)" "n \<le> k - m"
      "n \<le> length q" "err = None \<and> decV20_holds r' (drop n q) e \<or> err = Some e \<and> n = length q \<and> n < k - m"
      "0 < k - m \<longrightarrow> 0 < n \<or> err \<noteq> None"
      using decV20_packages_reads [of "r\<lparr>dr_offset := 0\<rparr>" q e ?p "k - m"] q by auto
    have "decReaderV20_Read r k = (r', ?p @ take n q, err)"
      using all r'(1) by (simp add: decReaderV20_Read_def Let_def m_def)
    then show ?thesis
      using r' all p by (intro exI [of _ r'] exI [of _ "m + n"] exI [of _ err]) (auto simp: R)
  qed
qed

interpretation decV20: io_reader "\<lambda>r k. Some (decReaderV20_Read r k)" decV20_holds
proof
  fix r R e k assume "decV20_holds r R e"
  from decReaderV20_reads [OF this, of k]
  show "\<exists>s' n err. Some (decReaderV20_Read r k) = Some (s', take n R, err) \<and> n \<le> k \<and> n \<le> length R \<and>
      (err = None \<and> decV20_holds s' (drop n R) e \<or> err = Some e \<and> n = length R \<and> (e = io_EOF \<or> n < k)) \<and>
      (0 < k \<longrightarrow> 0 < n \<or> err \<noteq> None)" by force
qed

lemma decode_coded:
  assumes "follows ad ae" and "d \<noteq> []" and "fin \<or> maxPayloadSize dvd length d"
  shows "dare_decode ad (coded ae d fin) = (d, if fin then io_EOF else sio_UnexpectedEOF)"
  using assms
proof (induction ae d fin arbitrary: ad rule: coded.induct)
  case (1 ae d fin)
  have ok: "ae_ok ae" using 1(2) by (simp add: follows_def)
  show ?case
  proof (cases "length d \<le> maxPayloadSize")
    case True
    have "fin \<or> length d = maxPayloadSize"
      using 1(3,4) True by (metis dvd_imp_le length_greater_0_conv order_antisym)
    then obtain ad' where "openV20 ad (dare_package ae d fin) = (ad', Inr d)" and "dec_finalized ad' = fin"
      using open_package [OF 1(2), of d fin] 1(3) True by blast
    moreover have "dare_package ae d fin \<noteq> []" "length (dare_package ae d fin) \<le> maxPackageSize"
      using length_package [OF ok, of d fin] True 1(3) by (auto simp: sizes)
    ultimately show ?thesis
      using True 1(3) by (simp add: coded.simps [of ae] dare_decode.simps [of ad] dare_decode.simps [of ad'])
  next
    case False
    let ?t = "take maxPayloadSize d" and ?r = "drop maxPayloadSize d"
    obtain ad' where op: "openV20 ad (dare_package ae ?t False) = (ad', Inr ?t)" and ad': "follows ad' (next_ae ae)"
      using open_package [OF 1(2), of ?t False] False by (auto simp: min_def)
    have len: "length (dare_package ae ?t False) = maxPackageSize"
      using length_package [OF ok, of ?t False] False by (simp add: sizes)
    then have "dare_package ae ?t False \<noteq> []" by (metis length_0_conv maxPackage_pos less_irrefl)
    have "fin \<or> maxPayloadSize dvd length ?r" using 1(4) by (auto intro: dvd_diff_nat)
    then have IH: "dare_decode ad' (coded (next_ae ae) ?r fin) = (?r, if fin then io_EOF else sio_UnexpectedEOF)"
      using 1(1) [OF 1(3) False ad'] False by simp
    show ?thesis
      using False 1(3) op len IH \<open>dare_package ae ?t False \<noteq> []\<close>
      by (simp add: coded.simps [of ae] dare_decode.simps [of ad])
  qed
qed

section \<open>Only encryptions open\<close>

lemma byte_of_char: "put_byte (of_char c) = c"
proof -
  have "(of_char c :: nat) < 256" by (rule nat_of_char_less_256)
  then show ?thesis by (simp add: put_byte_def)
qed

lemma PutUint16_Uint16: "PutUint16 (of_char a + 256 * of_char b) = [a, b]"
proof -
  have a: "(of_char a :: nat) < 256" by (rule nat_of_char_less_256)
  have "put_byte (of_char a + 256 * of_char b) = put_byte (of_char a)" by (simp add: put_byte_def)
  moreover have "((of_char a :: nat) + 256 * of_char b) div 256 = of_char b" using a by simp
  ultimately show ?thesis by (simp add: PutUint16_def byte_of_char)
qed

lemma list16:
  assumes "length h = headerSize"
  shows "h = [h ! 0, h ! 1, h ! 2, h ! 3] @ header_Nonce h"
proof -
  have "h = take 4 h @ drop 4 h" by simp
  also have "take 4 h = [h ! 0, h ! 1, h ! 2, h ! 3]"
    using assms by (intro nth_equalityI) (auto simp: headerSize_def less_Suc_eq numeral_eq_Suc)
  finally show ?thesis using assms by (simp add: header_Nonce_def headerSize_def)
qed

lemma header_again:
  assumes "length h = headerSize" and "header_Version h = dare_Version20"
    and "header_Nonce h = (if IsFinal h then set_final r else clear_final r)" and "length r = 12"
  shows "h = headerV20 (header_Cipher h) (header_Length h) r (IsFinal h)"
proof -
  have len: "length_field (header_Length h) = [h ! 2, h ! 3]"
  proof -
    have "header_Length h = Suc (of_char (h ! 2) + 256 * of_char (h ! 3))"
      using assms(1) by (simp add: header_Length_def Uint16_def headerSize_def)
    moreover have "(of_char (h ! 2) + 256 * of_char (h ! 3) :: nat) < 65536"
    proof -
      have "(of_char (h ! 2) :: nat) < 256" "(of_char (h ! 3) :: nat) < 256" by (rule nat_of_char_less_256)+
      then show ?thesis by linarith
    qed
    ultimately have "length_field (header_Length h) = PutUint16 (of_char (h ! 2) + 256 * of_char (h ! 3))"
      by (simp add: length_field_def)
    then show ?thesis by (simp only: PutUint16_Uint16)
  qed
  have "[put_byte dare_Version20, put_byte (header_Cipher h)] = [h ! 0, h ! 1]"
    using byte_of_char [of "h ! 0"] byte_of_char [of "h ! 1"] assms(2) by (simp add: header_Version_def header_Cipher_def)
  then have "headerV20 (header_Cipher h) (header_Length h) r (IsFinal h) = [h ! 0, h ! 1, h ! 2, h ! 3] @ header_Nonce h"
    using assms(3,4) len by (simp add: headerV20_def)
  with list16 [OF assms(1)] show ?thesis by simp
qed

lemma opened_checks:
  assumes op: "openV20 ad s = (ad', Inr d)"
  defines "h \<equiv> take headerSize s" and "ref \<equiv> (case refHeader ad of None \<Rightarrow> take headerSize s | Some r \<Rightarrow> r)"
  shows "\<not> dec_finalized ad \<and> headerSize + tagSize < length s" and "header_Version h = dare_Version20"
    and "header_Cipher h < 2 \<and> header_Cipher h = header_Cipher ref"
    and "dec_finalized ad' = IsFinal h"
    and "IsFinal h \<or> header_Length h = maxPayloadSize"
    and "header_Nonce h = (if IsFinal h then set_final (header_Nonce ref) else header_Nonce ref)"
    and "aead_Open (the (Ciphers ad (header_Cipher h))) (package_nonce (header_Nonce h) (dec_SeqNum ad))
      (drop headerSize s) (header_AddData h) = Some d"
    and "refHeader ad' = Some (if IsFinal h then take 4 ref @ header_Nonce h else ref)"
    and "dec_SeqNum ad' = dec_SeqNum ad + 1"
proof -
  have start: "\<not> dec_finalized ad \<and> headerSize + tagSize < length s"
    using op unfolding openV20_def by (simp split: if_splits)
  then have e: "openV20 ad s =
      (let ad1 = ad\<lparr>refHeader := Some ref\<rparr>; c = header_Cipher h in
        if header_Version h \<noteq> dare_Version20 then (ad1, Inl sio_UnsupportedVersion)
        else if CHACHA20_POLY1305 < c \<or> Ciphers ad c = None \<or> c \<noteq> header_Cipher ref
        then (ad1, Inl sio_UnsupportedCipher)
        else if headerSize + header_Length h + tagSize \<noteq> length s then (ad1, Inl sio_InvalidPayloadSize)
        else if \<not> IsFinal h \<and> header_Length h \<noteq> maxPayloadSize then (ad1, Inl sio_InvalidPayloadSize)
        else
          let refNonce = (if IsFinal h then set_final (header_Nonce ref) else header_Nonce ref);
              ad2 = (if IsFinal h then ad1\<lparr>dec_finalized := True, refHeader := Some (take 4 ref @ refNonce)\<rparr> else ad1) in
          if header_Nonce h \<noteq> refNonce then (ad2, Inl sio_NonceMismatch)
          else case aead_Open (the (Ciphers ad c)) (package_nonce (header_Nonce h) (dec_SeqNum ad))
              (drop headerSize s) (header_AddData h) of
            None \<Rightarrow> (ad2, Inl sio_TagMismatch)
          | Some dst \<Rightarrow> (ad2\<lparr>dec_SeqNum := dec_SeqNum ad + 1\<rparr>, Inr dst))"
    unfolding openV20_def h_def ref_def Let_def by simp
  note u = op [unfolded e Let_def]
  show "\<not> dec_finalized ad \<and> headerSize + tagSize < length s" by (rule start)
  show v: "header_Version h = dare_Version20" using u by (simp split: if_splits)
  note u = u [unfolded v, simplified]
  show c: "header_Cipher h < 2 \<and> header_Cipher h = header_Cipher ref"
    using u by (simp add: CHACHA20_POLY1305_def split: if_splits)
  show l: "IsFinal h \<or> header_Length h = maxPayloadSize" using u by (simp split: if_splits)
  show n: "header_Nonce h = (if IsFinal h then set_final (header_Nonce ref) else header_Nonce ref)"
    using u by (cases "IsFinal h") (simp_all split: if_splits)
  show o: "aead_Open (the (Ciphers ad (header_Cipher h))) (package_nonce (header_Nonce h) (dec_SeqNum ad))
      (drop headerSize s) (header_AddData h) = Some d"
    using u by (simp split: if_splits option.splits)
  have ad': "ad' = (if IsFinal h then ad\<lparr>dec_finalized := True, refHeader := Some (take 4 ref @ header_Nonce h)\<rparr>
      else ad\<lparr>refHeader := Some ref\<rparr>)\<lparr>dec_SeqNum := dec_SeqNum ad + 1\<rparr>"
    using u n o by (cases "IsFinal h") (simp_all split: if_splits)
  show "dec_finalized ad' = IsFinal h" and "refHeader ad' = Some (if IsFinal h then take 4 ref @ header_Nonce h else ref)"
    and "dec_SeqNum ad' = dec_SeqNum ad + 1"
    using start by (simp_all add: ad')
qed

lemma opened_is_package:
  assumes op: "openV20 ad s = (ad', Inr d)" and ad: "ciphers_ok ad"
    and ae: "CipherID ae = header_Cipher (take headerSize s)" "Ciphers ad (CipherID ae) = Some (Cipher ae)"
      "SeqNum ae = dec_SeqNum ad" "length (RandVal ae) = 12"
      "header_Nonce (take headerSize s) = (if dec_finalized ad' then set_final (RandVal ae) else clear_final (RandVal ae))"
  shows "s = dare_package ae d (dec_finalized ad')"
proof -
  note c = opened_checks [OF op]
  let ?h = "take headerSize s"
  have "length ?h = headerSize" using c(1) by (simp add: sizes)
  from header_again [OF this c(2) _ ae(4)] ae(5) c(4)
  have h: "?h = headerV20 (CipherID ae) (length d) (RandVal ae) (dec_finalized ad')"
    using opened_length(1) [OF op ad] ae(1) by simp
  have "aead_works (Cipher ae)" using ad ae(2) by (simp add: ciphers_ok_def)
  from aead_open(1) [OF this] c(7) ae(1-3)
  have "drop headerSize s = aead_Seal (Cipher ae) (package_nonce (header_Nonce ?h) (SeqNum ae)) d (header_AddData ?h)"
    by simp
  then have "s = ?h @ aead_Seal (Cipher ae) (package_nonce (header_Nonce ?h) (SeqNum ae)) d (header_AddData ?h)"
    by (metis append_take_drop_id)
  then show ?thesis unfolding dare_package_def Let_def h [symmetric] .
qed


lemma follows_next:
  assumes op: "openV20 ad (dare_package ae d f) = (ad', Inr d')" and "follows ad ae"
    and "0 < length d" and "length d \<le> maxPayloadSize" and "f \<or> length d = maxPayloadSize" and "\<not> f"
  shows "follows ad' (next_ae ae)"
  using open_package [OF assms(2-5)] assms(1,6) by (metis prod.inject)

lemma decode_head:
  assumes dec: "dare_decode ad s = (d, io_EOF)" and ad: "ciphers_ok ad" "\<not> dec_finalized ad"
  obtains ad' p q where "openV20 ad (take maxPackageSize s) = (ad', Inr p)"
    and "dare_decode ad' (drop maxPackageSize s) = (q, io_EOF)" and "d = p @ q" and "s \<noteq> []" and "length p \<le> maxPayloadSize"
    and "dec_finalized ad' \<Longrightarrow> drop maxPackageSize s = [] \<and> q = []"
proof -
  have s: "s \<noteq> []" using dec ad(2) by (auto simp: dare_decode.simps)
  obtain ad' x where op: "openV20 ad (take maxPackageSize s) = (ad', x)" by fastforce
  obtain p where x: "x = Inr p"
    using dec s op by (cases x) (auto simp: dare_decode.simps [of ad] openV20_def Let_def split: if_splits option.splits)
  note op = op [unfolded x]
  obtain q where q: "dare_decode ad' (drop maxPackageSize s) = (q, io_EOF)" and d: "d = p @ q"
    using dec s op by (auto simp: dare_decode.simps [of ad] split: prod.splits)
  have "length p \<le> maxPayloadSize" using opened_length(2) [OF op ad(1)] by (auto simp: sizes)
  moreover have "dec_finalized ad' \<Longrightarrow> drop maxPackageSize s = [] \<and> q = []"
    using q by (cases "drop maxPackageSize s = []") (auto simp: dare_decode.simps [of ad'] openV20_def)
  ultimately show ?thesis using that op q d s by blast
qed

text \<open>A stream that opens to the end is the encryption of what it opens to: first for a decrypter that knows the
  random value of the stream, then for a new one.\<close>

lemma package_step:
  assumes op: "openV20 ad (take maxPackageSize s) = (ad', Inr p)" and ad: "ciphers_ok ad" and ae: "follows ad ae"
    and h: "header_Cipher (take headerSize (take maxPackageSize s)) = CipherID ae"
      "header_Nonce (take headerSize (take maxPackageSize s)) =
        (if dec_finalized ad' then set_final (RandVal ae) else clear_final (RandVal ae))"
    and len: "length p \<le> maxPayloadSize"
  shows "take maxPackageSize s = dare_package ae p (dec_finalized ad')"
    and "\<not> dec_finalized ad' \<Longrightarrow> length p = maxPayloadSize \<and> follows ad' (next_ae ae) \<and> refHeader ad' \<noteq> None"
proof -
  have ok: "Ciphers ad (CipherID ae) = Some (Cipher ae)" "SeqNum ae = dec_SeqNum ad" "length (RandVal ae) = 12"
    using ae by (simp_all add: follows_def ae_ok_def)
  note c = opened_checks [OF op] and l = opened_length [OF op ad]
  show p: "take maxPackageSize s = dare_package ae p (dec_finalized ad')"
    by (rule opened_is_package [OF op ad h(1) [symmetric] ok h(2)])
  assume n: "\<not> dec_finalized ad'"
  then have "length p = maxPayloadSize" using c(4,5) l(1) by simp
  with follows_next [OF op [unfolded p] ae l(3) len _ n] show "length p = maxPayloadSize \<and> follows ad' (next_ae ae) \<and> refHeader ad' \<noteq> None"
    using c(8) by simp
qed

lemma decode_follows:
  assumes "dare_decode ad s = (d, io_EOF)" and "ciphers_ok ad" and "follows ad ae" and "refHeader ad \<noteq> None"
  shows "s = coded ae d True \<and> d \<noteq> []"
  using assms
proof (induction "length s" arbitrary: ad s ae d rule: less_induct)
  case less
  have fin: "\<not> dec_finalized ad" using less(4) by (simp add: follows_def)
  obtain ad' p q where h: "openV20 ad (take maxPackageSize s) = (ad', Inr p)"
      "dare_decode ad' (drop maxPackageSize s) = (q, io_EOF)" "d = p @ q" "s \<noteq> []" "length p \<le> maxPayloadSize"
    and end': "dec_finalized ad' \<Longrightarrow> drop maxPackageSize s = [] \<and> q = []"
    using decode_head [OF less(2,3) fin] by blast
  note c = opened_checks [OF h(1)] and l = opened_length [OF h(1) less(3)]
  obtain ref where ref: "refHeader ad = Some ref" "header_Cipher ref = CipherID ae" "header_Nonce ref = clear_final (RandVal ae)"
    using less(4,5) by (auto simp: follows_def)
  have "RandVal ae \<noteq> []" using less(4) by (auto simp: follows_def ae_ok_def)
  then have "header_Nonce (take headerSize (take maxPackageSize s)) =
      (if dec_finalized ad' then set_final (RandVal ae) else clear_final (RandVal ae))"
    using c(4,6) ref final_bits(1) by simp
  note step = package_step [OF h(1) less(3,4) _ this h(5)]
  have cid: "header_Cipher (take headerSize (take maxPackageSize s)) = CipherID ae" using c(3) ref by simp
  have p: "0 < length p" by (rule l(3))
  show ?case
  proof (cases "dec_finalized ad'")
    case True
    then have "s = take maxPackageSize s" using end' by (metis append_Nil2 append_take_drop_id)
    then have "s = dare_package ae p True" using step(1) [OF cid] True by simp
    then show ?thesis using end' True p h(3,5) by (auto simp: coded.simps [of ae])
  next
    case False
    note n = step(2) [OF cid False]
    have "length (drop maxPackageSize s) < length s" using h(4) by (cases s) (auto simp: sizes)
    from less(1) [OF this h(2) l(4)] n have IH: "drop maxPackageSize s = coded (next_ae ae) q True" "q \<noteq> []" by blast+
    have "s = dare_package ae p False @ coded (next_ae ae) q True"
      using step(1) [OF cid] False IH(1) by (metis append_take_drop_id)
    then show ?thesis using n IH(2) by (simp add: h(3) coded.simps [of ae])
  qed
qed

lemma decode_only_coded:
  assumes dec: "dare_decode ad s = (d, io_EOF)" and ad: "ciphers_ok ad" "\<not> dec_finalized ad" "refHeader ad = None"
  obtains ae where "follows ad ae" and "s = coded ae d True" and "d \<noteq> []"
proof -
  obtain ad' p q where h: "openV20 ad (take maxPackageSize s) = (ad', Inr p)"
      "dare_decode ad' (drop maxPackageSize s) = (q, io_EOF)" "d = p @ q" "s \<noteq> []" "length p \<le> maxPayloadSize"
    and end': "dec_finalized ad' \<Longrightarrow> drop maxPackageSize s = [] \<and> q = []"
    using decode_head [OF dec ad(1,2)] by blast
  note c = opened_checks [OF h(1)] and l = opened_length [OF h(1) ad(1)]
  let ?h = "take headerSize (take maxPackageSize s)"
  obtain a where a: "Ciphers ad (header_Cipher ?h) = Some a" using opened(3) [OF h(1)] by blast
  define ae where "ae = \<lparr>CipherID = header_Cipher ?h, SeqNum = dec_SeqNum ad, Cipher = a, RandVal = header_Nonce ?h, enc_finalized = False\<rparr>"
  have nonce: "length (header_Nonce ?h) = 12" using c(1) by (simp add: header_Nonce_def sizes)
  have ae: "follows ad ae"
    using ad a c(3) nonce by (simp add: follows_def ae_def ae_ok_def ciphers_ok_def)
  have "header_Nonce ?h = (if dec_finalized ad' then set_final (RandVal ae) else clear_final (RandVal ae))"
  proof (cases "IsFinal ?h")
    case True
    then show ?thesis using c(4,6) ad(3) by (simp add: ae_def)
  next
    case False
    then have "(of_char (header_Nonce ?h ! 0) :: nat) < 128" using c(1) by (simp add: IsFinal_def header_Nonce_def sizes)
    then have "clear_final (header_Nonce ?h) = header_Nonce ?h" by (simp add: clear_final_def byte_of_char)
    then show ?thesis using c(4) False by (simp add: ae_def)
  qed
  note step = package_step [OF h(1) ad(1) ae _ this h(5)]
  have cid: "header_Cipher ?h = CipherID ae" by (simp add: ae_def)
  show ?thesis
  proof (cases "dec_finalized ad'")
    case True
    then have "s = take maxPackageSize s" using end' by (metis append_Nil2 append_take_drop_id)
    then have "s = dare_package ae p True" using step(1) [OF cid] True by simp
    then have "s = coded ae d True" "d \<noteq> []" using end' True l(3) h(3,5) by (auto simp: coded.simps [of ae])
    with ae show ?thesis by (rule that)
  next
    case False
    note n = step(2) [OF cid False]
    from decode_follows [OF h(2) l(4)] n have IH: "drop maxPackageSize s = coded (next_ae ae) q True" "q \<noteq> []" by blast+
    have "s = dare_package ae p False @ coded (next_ae ae) q True"
      using step(1) [OF cid] False IH(1) by (metis append_take_drop_id)
    then have "s = coded ae d True" "d \<noteq> []" using n IH(2) by (simp_all add: h(3) coded.simps [of ae])
    with ae show ?thesis by (rule that)
  qed
qed

end
