(* ===== verification/SioStreams.thy ===== *)
theory SioStreams
  imports SioProps
begin

text \<open>
  The encrypting reader, the writers and the entry points of \<open>pkg/sio\<close> against the format \<open>coded\<close> and the
  opening \<open>dare_decode\<close> of the theory before.
\<close>

section \<open>The encrypting reader\<close>

definition encV20_rest :: "encReaderV20 \<Rightarrow> string" where
  "encV20_rest r =
     (if 0 < er_offset r then drop (er_offset r) (er_buffer r) else []) @
     (if enc_finalized (er_ae r) then [] else coded (er_ae r) (er_lastByte r # src_rest (er_src r)) True)"

definition encV20_holds :: "encReaderV20 \<Rightarrow> string \<Rightarrow> sio_err \<Rightarrow> bool" where
  "encV20_holds r R e \<longleftrightarrow> e = io_EOF \<and> src_fault (er_src r) = None \<and> ae_ok (er_ae r) \<and>
     (if er_firstRead r then er_offset r = 0 \<and> \<not> enc_finalized (er_ae r) \<and> R = coded (er_ae r) (src_rest (er_src r)) True
      else R = encV20_rest r \<and>
        (0 < er_offset r \<longrightarrow> er_offset r \<le> length (er_buffer r) \<and> package_Length (er_buffer r) = length (er_buffer r)))"

lemma sizes_not_zero [simp]: "maxPayloadSize \<noteq> 0" "maxPackageSize \<noteq> 0"
  by (simp_all add: sizes maxPayloadSize_def)

lemma coded_short:
  "d \<noteq> [] \<Longrightarrow> length d \<le> maxPayloadSize \<Longrightarrow> coded ae d fin = dare_package ae d fin"
  by (simp add: coded.simps)

lemma coded_long:
  "maxPayloadSize < length d \<Longrightarrow>
    coded ae d fin = dare_package ae (take maxPayloadSize d) False @ coded (next_ae ae) (drop maxPayloadSize d) fin"
  using maxPayload_pos by (cases d) (auto simp: coded.simps [of ae])

lemma take_shift:
  assumes "maxPayloadSize \<le> length s"
  shows "x # butlast (take maxPayloadSize s) = take maxPayloadSize (x # s)"
    and "last (take maxPayloadSize s) # drop maxPayloadSize s = drop maxPayloadSize (x # s)"
proof -
  obtain m where m: "maxPayloadSize = Suc m" using maxPayload_pos by (cases maxPayloadSize) auto
  show "x # butlast (take maxPayloadSize s) = take maxPayloadSize (x # s)"
    using assms by (simp add: m butlast_take)
  have "last (take maxPayloadSize s) = s ! m" using assms by (simp add: m take_Suc_conv_app_nth)
  moreover have "s ! m # drop (Suc m) s = drop m s" using assms by (simp add: m Cons_nth_drop_Suc)
  ultimately show "last (take maxPayloadSize s) # drop maxPayloadSize s = drop maxPayloadSize (x # s)"
    by (simp add: m)
qed

lemma encV20_packages_reads:
  assumes "src_fault (er_src r) = None" and "ae_ok (er_ae r)" and "\<not> enc_finalized (er_ae r)" and "er_offset r = 0"
    and "\<not> er_firstRead r" and "Q = coded (er_ae r) (er_lastByte r # src_rest (er_src r)) True"
  shows "\<exists>r' n err. encV20_packages r out k = Some (r', out @ take n Q, err) \<and> n \<le> k \<and> n \<le> length Q \<and>
    (err = None \<and> encV20_holds r' (drop n Q) io_EOF \<or> err = Some io_EOF \<and> n = length Q) \<and> (0 < k \<longrightarrow> 0 < n)"
  using assms
proof (induction k arbitrary: r Q out rule: less_induct)
  case (less k)
  let ?s = "src_rest (er_src r)" and ?d = "er_lastByte r # src_rest (er_src r)"
  show ?case
  proof (cases "k = 0")
    case True
    have "encV20_holds r Q io_EOF" using less.prems by (simp add: encV20_holds_def encV20_rest_def)
    with True show ?thesis by (intro exI [of _ r] exI [of _ 0] exI [of _ None]) simp
  next
    case k: False
    show ?thesis
    proof (cases "maxPayloadSize \<le> length ?s")
      case False
      let ?p = "dare_package (er_ae r) ?d True"
      obtain err where read: "ReadFull (er_src r) maxPayloadSize = (er_src r\<lparr>src_rest := []\<rparr>, ?s, err)" and err: "is_end err"
        using False less.prems(1) by (auto simp: ReadFull_def is_end_def)
      have d: "length ?d \<le> maxPayloadSize" using False by simp
      have Q: "Q = ?p" using less.prems(6) coded_short [OF _ d] by simp
      have len: "length ?p = headerSize + length ?d + tagSize" "package_Length ?p = length ?p"
        using length_package [OF less.prems(2)] package_Length_package [OF less.prems(2) _ d] by simp_all
      have seal: "sealV20 (er_ae r) ?d True = Some ((next_ae (er_ae r))\<lparr>enc_finalized := True\<rparr>, ?p)"
        by (rule sealV20_package [OF less.prems(3)])
      let ?r1 = "r\<lparr>er_src := er_src r\<lparr>src_rest := []\<rparr>, er_ae := (next_ae (er_ae r))\<lparr>enc_finalized := True\<rparr>\<rparr>"
      have step: "encV20_packages r out k =
          (if maxPackageSize \<le> k then Some (?r1, out @ ?p, Some io_EOF)
           else if length ?p < k then Some (?r1\<lparr>er_buffer := ?p\<rparr>, out @ ?p, Some io_EOF)
           else Some (?r1\<lparr>er_buffer := ?p, er_offset := k\<rparr>, out @ take k ?p, None))"
        using k err unfolding encV20_packages.simps [of r] read Let_def prod.case seal option.case len(2) by simp
      consider "maxPackageSize \<le> k \<or> length ?p < k" | "k \<le> length ?p" "\<not> maxPackageSize \<le> k" by linarith
      then show ?thesis
      proof cases
        case 1
        then have "length ?p \<le> k" using d len(1) by (auto simp: sizes)
        then obtain r' where "encV20_packages r out k = Some (r', out @ ?p, Some io_EOF)" using step 1 by (auto split: if_splits)
        then show ?thesis using \<open>length ?p \<le> k\<close> len(1)
          by (intro exI [of _ r'] exI [of _ "length ?p"] exI [of _ "Some io_EOF"]) (simp add: Q sizes)
      next
        case 2
        let ?r' = "?r1\<lparr>er_buffer := ?p, er_offset := k\<rparr>"
        have "encV20_holds ?r' (drop k Q) io_EOF"
          using less.prems 2 k len by (simp add: encV20_holds_def encV20_rest_def Q ae_ok_def)
        then show ?thesis using step 2 k
          by (intro exI [of _ ?r'] exI [of _ k] exI [of _ None]) (simp add: Q)
      qed
    next
      case True
      let ?p = "dare_package (er_ae r) (take maxPayloadSize ?d) False"
      let ?Q' = "coded (next_ae (er_ae r)) (drop maxPayloadSize ?d) True"
      have read: "ReadFull (er_src r) maxPayloadSize = (er_src r\<lparr>src_rest := drop maxPayloadSize ?s\<rparr>, take maxPayloadSize ?s, None)"
        using True by (simp add: ReadFull_def)
      have Q: "Q = ?p @ ?Q'" using less.prems(6) coded_long [of ?d] True by simp
      have len: "length ?p = maxPackageSize" using length_package [OF less.prems(2)] True by (simp add: sizes min_def)
      have seal: "sealV20 (er_ae r) (take maxPayloadSize ?d) False = Some ((next_ae (er_ae r))\<lparr>enc_finalized := False\<rparr>, ?p)"
        by (rule sealV20_package [OF less.prems(3)])
      let ?r1 = "r\<lparr>er_src := er_src r\<lparr>src_rest := drop maxPayloadSize ?s\<rparr>, er_ae := (next_ae (er_ae r))\<lparr>enc_finalized := False\<rparr>,
        er_lastByte := last (take maxPayloadSize ?s)\<rparr>"
      have step: "encV20_packages r out k =
          (if maxPackageSize \<le> k then encV20_packages ?r1 (out @ ?p) (k - maxPackageSize)
           else Some (?r1\<lparr>er_buffer := ?p, er_offset := k\<rparr>, out @ take k ?p, None))"
        using k unfolding encV20_packages.simps [of r] read Let_def prod.case take_shift(1) [OF True] seal option.case
        by (simp add: is_end_def)
      have r1: "src_fault (er_src ?r1) = None" "ae_ok (er_ae ?r1)" "\<not> enc_finalized (er_ae ?r1)" "er_offset ?r1 = 0"
        "\<not> er_firstRead ?r1" "?Q' = coded (er_ae ?r1) (er_lastByte ?r1 # src_rest (er_src ?r1)) True"
        using less.prems take_shift(2) [OF True] by (simp_all add: ae_ok_def)
      show ?thesis
      proof (cases "maxPackageSize \<le> k")
        case big: True
        have "k - maxPackageSize < k" using k by simp
        from less.IH [OF this r1, of "out @ ?p"] obtain r' n err where
          r': "encV20_packages ?r1 (out @ ?p) (k - maxPackageSize) = Some (r', (out @ ?p) @ take n ?Q', err)"
            "n \<le> k - maxPackageSize" "n \<le> length ?Q'"
            "err = None \<and> encV20_holds r' (drop n ?Q') io_EOF \<or> err = Some io_EOF \<and> n = length ?Q'" by blast
        show ?thesis
          using step big r' len by (intro exI [of _ r'] exI [of _ "maxPackageSize + n"] exI [of _ err]) (auto simp: Q)
      next
        case False
        let ?r' = "?r1\<lparr>er_buffer := ?p, er_offset := k\<rparr>"
        have "package_Length ?p = length ?p"
          using package_Length_package [OF less.prems(2), of "take maxPayloadSize ?d" False] by simp
        then have "encV20_holds ?r' (drop k Q) io_EOF"
          using r1 False k len by (simp add: encV20_holds_def encV20_rest_def Q)
        then show ?thesis using step False k len
          by (intro exI [of _ ?r'] exI [of _ k] exI [of _ None]) (simp add: Q)
      qed
    qed
  qed
qed

lemma encV20_buffered_reads:
  assumes h: "encV20_holds r R io_EOF" and f: "\<not> er_firstRead r"
  shows "\<exists>r' n err. encV20_buffered r k = Some (r', take n R, err) \<and> n \<le> k \<and> n \<le> length R \<and>
    (err = None \<and> encV20_holds r' (drop n R) io_EOF \<or> err = Some io_EOF \<and> n = length R) \<and> (0 < k \<longrightarrow> 0 < n \<or> err \<noteq> None)"
proof -
  let ?b = "drop (er_offset r) (er_buffer r)" and ?fin = "enc_finalized (er_ae r)"
  define Q where "Q = coded (er_ae r) (er_lastByte r # src_rest (er_src r)) True"
  have ok: "src_fault (er_src r) = None" "ae_ok (er_ae r)"
    and R: "R = (if 0 < er_offset r then ?b else []) @ (if ?fin then [] else Q)"
    and b: "0 < er_offset r \<Longrightarrow> er_offset r \<le> length (er_buffer r) \<and> package_Length (er_buffer r) - er_offset r = length ?b"
    using h f by (auto simp: encV20_holds_def encV20_rest_def Q_def)
  show ?thesis
  proof (cases "er_offset r = 0")
    case True
    show ?thesis
    proof (cases ?fin)
      case fin: True
      then show ?thesis
        using True R by (intro exI [of _ r] exI [of _ 0] exI [of _ "Some io_EOF"]) (simp add: encV20_buffered_def)
    next
      case False
      from encV20_packages_reads [OF ok False True f Q_def, of "[]" k] show ?thesis
        using True False R by (auto simp: encV20_buffered_def)
    qed
  next
    case off: False
    then have blen: "package_Length (er_buffer r) - er_offset r = length ?b" using b by simp
    let ?r0 = "r\<lparr>er_offset := 0\<rparr>"
    consider (part) "k < length ?b" | (end') "length ?b \<le> k" ?fin | (more) "length ?b \<le> k" "\<not> ?fin" by linarith
    then show ?thesis
    proof cases
      case part
      have "encV20_holds (r\<lparr>er_offset := er_offset r + k\<rparr>) (drop k R) io_EOF"
        using h f off part b by (auto simp: encV20_holds_def encV20_rest_def R Q_def add.commute)
      then show ?thesis using off part
        by (intro exI [of _ "r\<lparr>er_offset := er_offset r + k\<rparr>"] exI [of _ k] exI [of _ None])
          (simp add: encV20_buffered_def R Let_def blen)
    next
      case end'
      then show ?thesis using off
        by (intro exI [of _ ?r0] exI [of _ "length ?b"] exI [of _ "Some io_EOF"])
          (simp add: encV20_buffered_def R Let_def blen)
    next
      case more
      obtain r' n err where r': "encV20_packages ?r0 ?b (k - length ?b) = Some (r', ?b @ take n Q, err)" "n \<le> k - length ?b"
        "n \<le> length Q" "err = None \<and> encV20_holds r' (drop n Q) io_EOF \<or> err = Some io_EOF \<and> n = length Q"
        "0 < k - length ?b \<longrightarrow> 0 < n"
        using encV20_packages_reads [of ?r0 Q ?b "k - length ?b"] ok more f by (auto simp: Q_def)
      have "encV20_buffered r k = Some (r', ?b @ take n Q, err)"
        using off more r'(1) by (simp add: encV20_buffered_def Let_def blen)
      then show ?thesis using r' more off
        by (intro exI [of _ r'] exI [of _ "length ?b + n"] exI [of _ err]) (auto simp: R)
    qed
  qed
qed

interpretation encV20: io_reader encReaderV20_Read encV20_holds
proof
  fix r R e k assume h: "encV20_holds r R e"
  have e: "e = io_EOF" using h by (simp add: encV20_holds_def)
  note goal = encV20_buffered_reads [where k = k]
  have "\<exists>r' n err. encReaderV20_Read r k = Some (r', take n R, err) \<and> n \<le> k \<and> n \<le> length R \<and>
    (err = None \<and> encV20_holds r' (drop n R) io_EOF \<or> err = Some io_EOF \<and> n = length R) \<and> (0 < k \<longrightarrow> 0 < n \<or> err \<noteq> None)"
  proof (cases "er_firstRead r")
    case False
    with goal [of r R] h e show ?thesis by (simp add: encReaderV20_Read_def)
  next
    case True
    with h have R: "src_fault (er_src r) = None" "ae_ok (er_ae r)" "er_offset r = 0" "\<not> enc_finalized (er_ae r)"
      "R = coded (er_ae r) (src_rest (er_src r)) True" by (simp_all add: encV20_holds_def)
    show ?thesis
    proof (cases "src_rest (er_src r)")
      case Nil
      let ?r' = "r\<lparr>er_firstRead := False, er_src := er_src r\<lparr>src_rest := []\<rparr>, er_ae := er_ae r\<lparr>enc_finalized := True\<rparr>\<rparr>"
      have "encReaderV20_Read r k = Some (?r', [], Some io_EOF)"
        using True R(1) Nil by (simp add: encReaderV20_Read_def ReadFull_def)
      then show ?thesis using R(5) Nil
        by (intro exI [of _ ?r'] exI [of _ 0] exI [of _ "Some io_EOF"]) (simp add: coded.simps)
    next
      case (Cons c s)
      let ?r' = "r\<lparr>er_firstRead := False, er_src := er_src r\<lparr>src_rest := s\<rparr>, er_lastByte := c\<rparr>"
      have "encReaderV20_Read r k = encV20_buffered ?r' k"
        using True Cons by (simp add: encReaderV20_Read_def ReadFull_def)
      moreover have "encV20_holds ?r' R io_EOF" using R Cons by (simp add: encV20_holds_def encV20_rest_def)
      ultimately show ?thesis using goal [of ?r' R] by simp
    qed
  qed
  then show "\<exists>s' n err. encReaderV20_Read r k = Some (s', take n R, err) \<and> n \<le> k \<and> n \<le> length R \<and>
      (err = None \<and> encV20_holds s' (drop n R) e \<or> err = Some e \<and> n = length R \<and> (e = io_EOF \<or> n < k)) \<and>
      (0 < k \<longrightarrow> 0 < n \<or> err \<noteq> None)"
    using e by blast
qed

section \<open>The encrypting writer\<close>

definition takes_all :: "sink \<Rightarrow> bool" where
  "takes_all w \<longleftrightarrow> (\<forall>x p. snk_answers w x p = (length p, None)) \<and> snk_closing w = None"

lemma flush_takes_all:
  "takes_all w \<Longrightarrow> sio_flush w p = (w\<lparr>snk_written := snk_written w @ p\<rparr>, None)"
  by (simp add: takes_all_def sio_flush_def)

definition encW20_ok :: "encWriterV20 \<Rightarrow> bool" where
  "encW20_ok w \<longleftrightarrow> ae_ok (ew_ae w) \<and> \<not> enc_finalized (ew_ae w) \<and> takes_all (ew_dst w) \<and> length (ew_pending w) \<le> maxPayloadSize"

text \<open>What will have been written in the end, if the bytes \<open>x\<close> are still to come.\<close>

definition encW20_total :: "encWriterV20 \<Rightarrow> string \<Rightarrow> string" where
  "encW20_total w x = snk_written (ew_dst w) @ coded (ew_ae w) (ew_pending w @ x) True"

lemma encW20_sealed:
  assumes "encW20_ok w" and "length d = maxPayloadSize" and "p \<noteq> [] \<or> x \<noteq> []"
  defines "w' \<equiv> w\<lparr>ew_ae := (next_ae (ew_ae w))\<lparr>enc_finalized := False\<rparr>,
    ew_dst := (ew_dst w)\<lparr>snk_written := snk_written (ew_dst w) @ dare_package (ew_ae w) d False\<rparr>, ew_pending := []\<rparr>"
  shows "encW20_ok w'" and "encW20_total w' (p @ x) = snk_written (ew_dst w) @ coded (ew_ae w) (d @ p @ x) True"
proof -
  show "encW20_ok w'" using assms(1) by (simp add: encW20_ok_def w'_def takes_all_def ae_ok_def)
  have "maxPayloadSize < length (d @ p @ x)" using assms(2,3) by (auto simp: neq_Nil_conv)
  from coded_long [OF this] assms(2) show "encW20_total w' (p @ x) = snk_written (ew_dst w) @ coded (ew_ae w) (d @ p @ x) True"
    by (simp add: encW20_total_def w'_def)
qed

lemma encW20_packages_writes:
  assumes "encW20_ok w" and "ew_pending w = []"
  shows "\<exists>w'. encW20_packages w n p = Some (w', n + length p, None) \<and> encW20_ok w' \<and>
    (\<forall>x. encW20_total w' x = encW20_total w (p @ x))"
  using assms
proof (induction "length p" arbitrary: w n p rule: less_induct)
  case less
  show ?case
  proof (cases "maxPayloadSize < length p")
    case False
    with less.prems show ?thesis by (simp add: encW20_packages.simps [of w] encW20_ok_def encW20_total_def)
  next
    case True
    let ?d = "take maxPayloadSize p" and ?q = "drop maxPayloadSize p"
    let ?w' = "w\<lparr>ew_ae := (next_ae (ew_ae w))\<lparr>enc_finalized := False\<rparr>,
      ew_dst := (ew_dst w)\<lparr>snk_written := snk_written (ew_dst w) @ dare_package (ew_ae w) ?d False\<rparr>\<rparr>"
    have w: "\<not> enc_finalized (ew_ae w)" "takes_all (ew_dst w)" using less.prems(1) by (simp_all add: encW20_ok_def)
    have d: "length ?d = maxPayloadSize" and q0: "?q \<noteq> []" using True by auto
    have q: "length ?q < length p" unfolding length_drop using True maxPayload_pos by linarith
    have pend: "?w'\<lparr>ew_pending := []\<rparr> = ?w'" using less.prems(2) by simp
    have step: "encW20_packages w n p = encW20_packages ?w' (n + maxPayloadSize) ?q"
      using True unfolding encW20_packages.simps [of w] sealV20_package [OF w(1)] option.case prod.case flush_takes_all [OF w(2)]
      by simp
    note s = encW20_sealed [OF less.prems(1) d, of ?q, unfolded pend]
    have "ew_pending ?w' = []" using less.prems(2) by simp
    from less.hyps [OF q _ this, of "n + maxPayloadSize"] s(1) q0 obtain w'' where
      w'': "encW20_packages ?w' (n + maxPayloadSize) ?q = Some (w'', n + maxPayloadSize + length ?q, None)" "encW20_ok w''"
        "\<forall>x. encW20_total w'' x = encW20_total ?w' (?q @ x)" by blast
    moreover have "encW20_total ?w' (?q @ x) = encW20_total w (p @ x)" for x
      using s(2) [of x] q0 less.prems(2) by (simp add: encW20_total_def flip: append_assoc)
    ultimately show ?thesis using step True by simp
  qed
qed

lemma encWriterV20_writes:
  assumes "encW20_ok w"
  shows "\<exists>w'. encWriterV20_Write w p = Some (w', length p, None) \<and> encW20_ok w' \<and>
    (\<forall>x. encW20_total w' x = encW20_total w (p @ x))"
proof (cases "ew_pending w = []")
  case True
  from encW20_packages_writes [OF assms True, of 0 p] show ?thesis
    using assms True by (simp add: encWriterV20_Write_def encW20_ok_def)
next
  case False
  define m where "m = maxPayloadSize - length (ew_pending w)"
  have w: "\<not> enc_finalized (ew_ae w)" "takes_all (ew_dst w)" "length (ew_pending w) \<le> maxPayloadSize"
    using assms by (simp_all add: encW20_ok_def)
  show ?thesis
  proof (cases "length p \<le> m")
    case True
    then have "encWriterV20_Write w p = Some (w\<lparr>ew_pending := ew_pending w @ p\<rparr>, length p, None)"
      using False w(1) by (simp add: encWriterV20_Write_def m_def)
    moreover have "encW20_ok (w\<lparr>ew_pending := ew_pending w @ p\<rparr>)" using assms True w(3) by (auto simp: encW20_ok_def m_def)
    ultimately show ?thesis by (simp add: encW20_total_def)
  next
    case long: False
    let ?d = "ew_pending w @ take m p" and ?q = "drop m p"
    let ?w' = "w\<lparr>ew_ae := (next_ae (ew_ae w))\<lparr>enc_finalized := False\<rparr>,
      ew_dst := (ew_dst w)\<lparr>snk_written := snk_written (ew_dst w) @ dare_package (ew_ae w) ?d False\<rparr>, ew_pending := []\<rparr>"
    have d: "length ?d = maxPayloadSize" and q0: "?q \<noteq> []" using long w(3) by (auto simp: m_def)
    have step: "encWriterV20_Write w p = encW20_packages ?w' m ?q"
      using False long w(1) unfolding encWriterV20_Write_def Let_def m_def [symmetric] sealV20_package [OF w(1)] option.case
        prod.case flush_takes_all [OF w(2)] by simp
    note s = encW20_sealed [OF assms d, of ?q]
    obtain w'' where "encW20_packages ?w' m ?q = Some (w'', m + length ?q, None)" "encW20_ok w''"
        "\<forall>x. encW20_total w'' x = encW20_total ?w' (?q @ x)"
      using encW20_packages_writes [of ?w' m ?q] s(1) q0 by auto
    moreover have "encW20_total ?w' (?q @ x) = encW20_total w (p @ x)" for x
    proof -
      have e: "take m p @ drop m p @ x = p @ x" by (simp flip: append_assoc)
      show ?thesis using s(2) [of x] q0 by (simp add: encW20_total_def e)
    qed
    ultimately show ?thesis using step long by simp
  qed
qed

lemma encWriterV20_closes:
  assumes "encW20_ok w"
  shows "\<exists>w'. encWriterV20_Close w = Some (w', None) \<and> snk_written (ew_dst w') = encW20_total w []"
  using assms coded_short [of "ew_pending w" "ew_ae w" True]
  by (auto simp: encWriterV20_Close_def encW20_ok_def encW20_total_def sealV20_package flush_takes_all takes_all_def coded.simps)

section \<open>The decrypting writer\<close>

lemma coded_Nil_iff: "ae_ok ae \<Longrightarrow> coded ae d fin = [] \<longleftrightarrow> d = []"
  using length_package [of ae d fin] length_package [of ae "take maxPayloadSize d" False]
  by (auto simp: coded.simps [of ae] headerSize_def)

text \<open>The first whole package of a stream.\<close>

lemma coded_split:
  assumes ok: "ae_ok ae" and d: "coded ae d fin = s @ z" and s: "length s = maxPackageSize"
  obtains f where "maxPayloadSize \<le> length d" and "s = dare_package ae (take maxPayloadSize d) f"
    and "z = coded (next_ae ae) (drop maxPayloadSize d) fin" and "f \<Longrightarrow> drop maxPayloadSize d = []"
    and "drop maxPayloadSize d = [] \<Longrightarrow> f = fin"
proof -
  have d0: "d \<noteq> []" using d s by (auto simp: coded.simps)
  show ?thesis
  proof (cases "length d \<le> maxPayloadSize")
    case True
    then have "dare_package ae d fin = s @ z" using d coded_short [OF d0 True] by simp
    moreover from this have "headerSize + length d + tagSize = maxPackageSize + length z"
      using length_package [OF ok, of d fin] s by simp
    ultimately have "length d = maxPayloadSize" "z = []" "s = dare_package ae d fin" using True by (auto simp: sizes)
    then show ?thesis by (intro that [of fin]) (auto simp: coded.simps)
  next
    case False
    have "length (dare_package ae (take maxPayloadSize d) False) = length s"
      using length_package [OF ok, of "take maxPayloadSize d" False] False s by (simp add: sizes)
    moreover have "dare_package ae (take maxPayloadSize d) False @ coded (next_ae ae) (drop maxPayloadSize d) fin = s @ z"
      using coded_long [of d ae fin] False d by simp
    ultimately have "s = dare_package ae (take maxPayloadSize d) False" "z = coded (next_ae ae) (drop maxPayloadSize d) fin"
      by (simp_all add: append_eq_append_conv)
    then show ?thesis using False by (intro that [of False]) simp_all
  qed
qed

text \<open>The bytes \<open>z\<close> are still to come and the payload \<open>d\<close> still to be written.\<close>

definition decW20_expects :: "bool \<Rightarrow> decWriterV20 \<Rightarrow> string \<Rightarrow> string \<Rightarrow> bool" where
  "decW20_expects fin w z d \<longleftrightarrow> takes_all (dw_dst w) \<and> length (dw_pending w) < maxPackageSize \<and>
     (fin \<or> maxPayloadSize dvd length d) \<and>
     (\<exists>ae. ae_ok ae \<and> dw_pending w @ z = coded ae d fin \<and> (d \<noteq> [] \<longrightarrow> follows (dw_ad w) ae))"

lemma open_and_flush_package:
  assumes w: "takes_all (dw_dst w)" and ae: "follows (dw_ad w) ae" and d: "0 < length d" "length d \<le> maxPayloadSize"
    and f: "f \<or> length d = maxPayloadSize"
  obtains ad' where "open_and_flush w (dare_package ae d f) =
      (w\<lparr>dw_ad := ad', dw_dst := (dw_dst w)\<lparr>snk_written := snk_written (dw_dst w) @ d\<rparr>\<rparr>, Inr d, None)"
    and "\<not> f \<Longrightarrow> follows ad' (next_ae ae)"
proof -
  obtain ad' where "openV20 (dw_ad w) (dare_package ae d f) = (ad', Inr d)" and "\<not> f \<Longrightarrow> follows ad' (next_ae ae)"
    using open_package [OF ae d f] by blast
  then show ?thesis using that by (simp add: open_and_flush_def flush_takes_all [OF w])
qed

lemma decW20_whole:
  assumes w: "decW20_expects fin w z d" and s: "dw_pending w @ z = s @ z'" "length s = maxPackageSize"
  obtains w' x where "open_and_flush w s = (w', Inr x, None)" and "decW20_expects fin (w'\<lparr>dw_pending := []\<rparr>) z' (drop maxPayloadSize d)"
    and "snk_written (dw_dst w') @ drop maxPayloadSize d = snk_written (dw_dst w) @ d" and "dw_pending w' = dw_pending w"
proof -
  obtain ae where ae: "ae_ok ae" "s @ z' = coded ae d fin" and fo: "d \<noteq> [] \<longrightarrow> follows (dw_ad w) ae"
    using w s(1) by (auto simp: decW20_expects_def)
  obtain f where f: "maxPayloadSize \<le> length d" "s = dare_package ae (take maxPayloadSize d) f"
      "z' = coded (next_ae ae) (drop maxPayloadSize d) fin" "f \<Longrightarrow> drop maxPayloadSize d = []"
    using coded_split [OF ae(1) ae(2) [symmetric] s(2)] by blast
  have "d \<noteq> []" using f(1) maxPayload_pos by auto
  with fo have fo': "follows (dw_ad w) ae" by simp
  let ?d = "take maxPayloadSize d"
  have d: "0 < length ?d" "length ?d \<le> maxPayloadSize" "f \<or> length ?d = maxPayloadSize"
    using f(1) \<open>d \<noteq> []\<close> maxPayload_pos by auto
  have t: "takes_all (dw_dst w)" using w by (simp add: decW20_expects_def)
  obtain ad' where o: "open_and_flush w (dare_package ae ?d f) =
      (w\<lparr>dw_ad := ad', dw_dst := (dw_dst w)\<lparr>snk_written := snk_written (dw_dst w) @ ?d\<rparr>\<rparr>, Inr ?d, None)"
    and n: "\<not> f \<Longrightarrow> follows ad' (next_ae ae)"
    using open_and_flush_package [OF t fo' d] by blast
  let ?w' = "w\<lparr>dw_ad := ad', dw_dst := (dw_dst w)\<lparr>snk_written := snk_written (dw_dst w) @ ?d\<rparr>\<rparr>"
  have "decW20_expects fin (?w'\<lparr>dw_pending := []\<rparr>) z' (drop maxPayloadSize d)"
    unfolding decW20_expects_def using w f(3,4) n ae(1)
    by (auto simp: decW20_expects_def takes_all_def intro!: exI [of _ "next_ae ae"] dvd_diff_nat)
  then show ?thesis using that [of ?w' ?d] o f(2) by simp
qed

lemma decW20_packages_writes:
  assumes "decW20_expects fin w (p @ z) d" and "dw_pending w = []"
  shows "\<exists>w' d'. decW20_packages w n p = (w', n + length p, None) \<and> decW20_expects fin w' z d' \<and>
    snk_written (dw_dst w') @ d' = snk_written (dw_dst w) @ d"
  using assms
proof (induction "length p" arbitrary: w n p d rule: less_induct)
  case less
  show ?case
  proof (cases "maxPackageSize \<le> length p")
    case False
    show ?thesis
    proof (cases "p = []")
      case True
      then show ?thesis using less.prems by (auto simp: decW20_packages.simps [of w])
    next
      case p: False
      then have "d \<noteq> []" using less.prems by (auto simp: decW20_expects_def coded.simps)
      then have "\<not> dec_finalized (dw_ad w)" using less.prems(1) by (auto simp: decW20_expects_def follows_def)
      moreover have "decW20_expects fin (w\<lparr>dw_pending := p\<rparr>) z d"
        using less.prems False by (auto simp: decW20_expects_def)
      ultimately show ?thesis using False p
        by (intro exI [of _ "w\<lparr>dw_pending := p\<rparr>"] exI [of _ d]) (simp add: decW20_packages.simps [of w])
    qed
  next
    case True
    let ?s = "take maxPackageSize p" and ?q = "drop maxPackageSize p"
    have "?s @ ?q @ z = (?s @ ?q) @ z" by (simp only: append_assoc)
    then have s: "dw_pending w @ p @ z = ?s @ ?q @ z" using less.prems(2) by simp
    have l: "length ?s = maxPackageSize" using True by simp
    obtain w' x where o: "open_and_flush w ?s = (w', Inr x, None)"
      and w': "decW20_expects fin (w'\<lparr>dw_pending := []\<rparr>) (?q @ z) (drop maxPayloadSize d)"
        "snk_written (dw_dst w') @ drop maxPayloadSize d = snk_written (dw_dst w) @ d" "dw_pending w' = dw_pending w"
      using decW20_whole [OF less.prems(1) s l] by blast
    have e: "w'\<lparr>dw_pending := []\<rparr> = w'" using w'(3) less.prems(2) by simp
    have "length ?q < length p" unfolding length_drop using True maxPackage_pos by linarith
    from less.hyps [OF this w'(1) [unfolded e], of "n + maxPackageSize"] obtain w'' d' where
      "decW20_packages w' (n + maxPackageSize) ?q = (w'', n + maxPackageSize + length ?q, None)" "decW20_expects fin w'' z d'"
      "snk_written (dw_dst w'') @ d' = snk_written (dw_dst w) @ d"
      using w' less.prems(2) by auto
    then show ?thesis using True o by (auto simp: decW20_packages.simps [of w])
  qed
qed

lemma decWriterV20_writes:
  assumes "decW20_expects fin w (p @ z) d"
  shows "\<exists>w' d'. decWriterV20_Write w p = (w', length p, None) \<and> decW20_expects fin w' z d' \<and>
    snk_written (dw_dst w') @ d' = snk_written (dw_dst w) @ d"
proof (cases "dw_pending w = []")
  case True
  from decW20_packages_writes [OF assms True, of 0] True show ?thesis by (simp add: decWriterV20_Write_def)
next
  case False
  define m where "m = maxPackageSize - length (dw_pending w)"
  have m: "headerSize + maxPayloadSize + tagSize - length (dw_pending w) = m" by (simp add: m_def maxPackageSize_def)
  have pend: "length (dw_pending w) < maxPackageSize" using assms by (simp add: decW20_expects_def)
  show ?thesis
  proof (cases "length p < m")
    case True
    have "decW20_expects fin (w\<lparr>dw_pending := dw_pending w @ p\<rparr>) z d"
      using assms True by (auto simp: decW20_expects_def m_def)
    then show ?thesis using False True
      by (intro exI [of _ "w\<lparr>dw_pending := dw_pending w @ p\<rparr>"] exI [of _ d]) (simp add: decWriterV20_Write_def m)
  next
    case long: False
    let ?s = "dw_pending w @ take m p" and ?q = "drop m p"
    have "?s @ ?q @ z = dw_pending w @ (take m p @ drop m p) @ z" by (simp only: append_assoc)
    then have s: "dw_pending w @ p @ z = ?s @ ?q @ z" by simp
    have l: "length ?s = maxPackageSize" using long pend by (simp add: m_def)
    obtain w' x where o: "open_and_flush w ?s = (w', Inr x, None)"
      and w': "decW20_expects fin (w'\<lparr>dw_pending := []\<rparr>) (?q @ z) (drop maxPayloadSize d)"
        "snk_written (dw_dst w') @ drop maxPayloadSize d = snk_written (dw_dst w) @ d"
      using decW20_whole [OF assms s l] by blast
    have step: "decWriterV20_Write w p = decW20_packages (w'\<lparr>dw_pending := []\<rparr>) m ?q"
      using False long unfolding decWriterV20_Write_def m Let_def o by simp
    from decW20_packages_writes [OF w'(1), of m] w'(2) long show ?thesis by (auto simp: step)
  qed
qed

text \<open>The writer is closed without an error after every whole stream, and after a stream that ends with a full
  package without the final flag.\<close>

lemma decWriterV20_closes:
  assumes "decW20_expects fin w [] d"
  shows "\<exists>w'. decWriterV20_Close w = (w', None) \<and> snk_written (dw_dst w') = snk_written (dw_dst w) @ d"
proof -
  obtain ae where ae: "ae_ok ae" "dw_pending w = coded ae d fin" and fo: "d \<noteq> [] \<longrightarrow> follows (dw_ad w) ae"
    and w: "takes_all (dw_dst w)" "length (dw_pending w) < maxPackageSize" "fin \<or> maxPayloadSize dvd length d"
    using assms unfolding decW20_expects_def append_Nil2 by blast
  show ?thesis
  proof (cases "d = []")
    case True
    then show ?thesis using ae w(1) by (simp add: decWriterV20_Close_def takes_all_def coded.simps)
  next
    case False
    have short: "length d < maxPayloadSize"
    proof (rule ccontr)
      assume "\<not> length d < maxPayloadSize"
      then have "maxPackageSize \<le> length (coded ae d fin)"
        using length_package [OF ae(1), of d fin] length_package [OF ae(1), of "take maxPayloadSize d" False] False
        by (auto simp: coded.simps [of ae] sizes)
      with ae(2) w(2) show False by simp
    qed
    have f: fin using w(3) short False by (auto dest: nat_dvd_not_less)
    have p: "dw_pending w = dare_package ae d True" using ae(2) coded_short [OF False] short f by simp
    have len: "\<not> length (dw_pending w) \<le> headerSize + tagSize" "dw_pending w \<noteq> []"
      using length_package [OF ae(1), of d True] False p by (auto simp: sizes)
    obtain ad' where "open_and_flush w (dare_package ae d True) =
        (w\<lparr>dw_ad := ad', dw_dst := (dw_dst w)\<lparr>snk_written := snk_written (dw_dst w) @ d\<rparr>\<rparr>, Inr d, None)"
      using open_and_flush_package [OF w(1), of ae d True] fo False short by auto
    then show ?thesis using len w(1) unfolding decWriterV20_Close_def by (simp add: p takes_all_def)
  qed
qed

end
