(* ===== verification/DareProps.thy ===== *)
theory DareProps
  imports SioStreams
begin

text \<open>
  The entry points of \<open>pkg/sio\<close> for the configurations that the server uses: a key, a smallest version and a
  first package number, everything else by default.
\<close>

section \<open>Sizes\<close>

definition encoded_length :: "nat \<Rightarrow> nat" where
  "encoded_length n = n div maxPayloadSize * maxPackageSize +
     (if n mod maxPayloadSize = 0 then 0 else n mod maxPayloadSize + (headerSize + tagSize))"

lemma length_coded:
  assumes "ae_ok ae"
  shows "length (coded ae d fin) = encoded_length (length d)"
  using assms
proof (induction ae d fin rule: coded.induct)
  case (1 ae d fin)
  consider "d = []" | "d \<noteq> []" "length d \<le> maxPayloadSize" | "maxPayloadSize < length d" by linarith
  then show ?case
  proof cases
    case 1 then show ?thesis by (simp add: coded.simps encoded_length_def)
  next
    case 2
    then have l: "length (coded ae d fin) = headerSize + length d + tagSize"
      using length_package [OF 1(2)] by (simp add: coded_short)
    show ?thesis
    proof (cases "length d = maxPayloadSize")
      case True
      then show ?thesis using l by (simp add: encoded_length_def maxPackageSize_def)
    next
      case False
      then show ?thesis using l 2 by (simp add: encoded_length_def)
    qed
  next
    case 3
    have "length (coded (next_ae ae) (drop maxPayloadSize d) fin) = encoded_length (length (drop maxPayloadSize d))"
      using 1 3 maxPayload_pos by (cases d) auto
    moreover have "length (dare_package ae (take maxPayloadSize d) False) = maxPackageSize"
      using length_package [OF 1(2)] 3 by (simp add: maxPackageSize_def)
    moreover have "encoded_length (length d) = maxPackageSize + encoded_length (length d - maxPayloadSize)"
      using 3 by (simp add: encoded_length_def le_div_geq le_mod_geq)
    ultimately show ?thesis using coded_long [OF 3, of ae fin] by simp
  qed
qed

lemma encoded_length_bound: "n \<le> maxDecryptedSize \<Longrightarrow> encoded_length n \<le> maxEncryptedSize"
proof -
  assume n: "n \<le> maxDecryptedSize"
  have s: "maxPayloadSize = 65536" "maxPackageSize = 65568" "headerSize + tagSize = 32"
    "maxDecryptedSize = 65536 * 4294967296" "maxEncryptedSize = 65568 * 4294967296"
    by (simp_all add: maxPayloadSize_def sizes maxDecryptedSize_def maxEncryptedSize_def)
  show ?thesis
  proof (cases "n mod 65536 = 0")
    case True
    have "n div 65536 \<le> 4294967296" using div_le_mono [of n "65536 * 4294967296" 65536] n s(4) by simp
    then show ?thesis using True unfolding encoded_length_def s by simp
  next
    case False
    have "n < 65536 * 4294967296" using n False by (cases "n = 65536 * 4294967296") (auto simp: s)
    then have "n div 65536 < 4294967296" by (simp add: div_less_iff_less_mult)
    moreover have "n mod 65536 < 65536" by simp
    ultimately show ?thesis using False unfolding encoded_length_def s by simp
  qed
qed

lemma unat64: "n < 2 ^ 64 \<Longrightarrow> unat (of_nat n :: 64 word) = n"
  by (simp add: unat_of_nat take_bit_nat_eq_self)

lemma word64_arith:
  assumes "m < 2 ^ 64" and "n < 2 ^ 64"
  shows "(of_nat m :: 64 word) < of_nat n \<longleftrightarrow> m < n" and "(of_nat m :: 64 word) \<le> of_nat n \<longleftrightarrow> m \<le> n"
    and "(of_nat m :: 64 word) div of_nat n = of_nat (m div n)" and "(of_nat m :: 64 word) mod of_nat n = of_nat (m mod n)"
  using assms by (simp_all add: word_less_nat_alt word_le_nat_alt unat64 word_arith_nat_div word_arith_nat_mod)

lemma size_constants:
  "maxPayloadSize < 2 ^ 64" "maxPackageSize < 2 ^ 64" "headerSize + tagSize < 2 ^ 64" "maxDecryptedSize < 2 ^ 64"
  "maxEncryptedSize < 2 ^ 64"
  by (simp_all add: sizes maxPayloadSize_def maxDecryptedSize_def maxEncryptedSize_def)

lemma EncryptedSize_of_nat:
  assumes n: "n < 2 ^ 64"
  shows "sio_EncryptedSize (of_nat n) =
    (if maxDecryptedSize < n then Inl sio_UnexpectedSize else Inr (of_nat (encoded_length n)))"
proof -
  note c = size_constants
  have m: "n mod maxPayloadSize < 2 ^ 64" using n by (meson le_less_trans mod_less_eq_dividend)
  have z: "(0 :: 64 word) < of_nat (n mod maxPayloadSize) \<longleftrightarrow> 0 < n mod maxPayloadSize"
    using word64_arith(1) [of 0 "n mod maxPayloadSize"] m by simp
  show ?thesis
    unfolding sio_EncryptedSize_def Let_def word64_arith(1) [OF c(4) n] word64_arith(3,4) [OF n c(1)] z encoded_length_def
    by simp
qed

lemma DecryptedSize_of_nat:
  assumes n: "n < 2 ^ 64"
  shows "sio_DecryptedSize (of_nat n) =
    (let md = n mod maxPackageSize; d = n div maxPackageSize * maxPayloadSize in
     if maxEncryptedSize < n then Inl sio_UnexpectedSize
     else if 0 < md \<and> md \<le> headerSize + tagSize then Inl sio_SizeNotValid
     else Inr (of_nat (if 0 < md then d + (md - (headerSize + tagSize)) else d)))"
proof -
  note c = size_constants
  have m: "n mod maxPackageSize < 2 ^ 64" using n by (meson le_less_trans mod_less_eq_dividend)
  have z: "(0 :: 64 word) < of_nat (n mod maxPackageSize) \<longleftrightarrow> 0 < n mod maxPackageSize"
    using word64_arith(1) [of 0 "n mod maxPackageSize"] m by simp
  show ?thesis
    unfolding sio_DecryptedSize_def Let_def word64_arith(1) [OF c(5) n] word64_arith(3,4) [OF n c(2)] z
      word64_arith(2) [OF m c(3)]
    by (auto simp: of_nat_diff)
qed

lemma decoded_length:
  assumes "n \<le> maxDecryptedSize"
  shows "sio_DecryptedSize (of_nat (encoded_length n)) = Inr (of_nat n)"
proof -
  let ?q = "n div maxPayloadSize" and ?r = "n mod maxPayloadSize"
  have e: "encoded_length n \<le> maxEncryptedSize" by (rule encoded_length_bound [OF assms])
  then have l: "encoded_length n < 2 ^ 64" using size_constants(5) by linarith
  have n: "n = ?q * maxPayloadSize + ?r" by simp
  show ?thesis
  proof (cases "?r = 0")
    case True
    then have "encoded_length n = ?q * maxPackageSize" by (simp add: encoded_length_def)
    then have "encoded_length n mod maxPackageSize = 0" "encoded_length n div maxPackageSize = ?q"
      using sizes_not_zero by simp_all
    then show ?thesis using e n True by (simp add: DecryptedSize_of_nat [OF l] Let_def)
  next
    case False
    let ?m = "?r + (headerSize + tagSize)"
    have enc: "encoded_length n = ?m + ?q * maxPackageSize" using False by (simp add: encoded_length_def)
    have "?r < maxPayloadSize" by simp
    then have m: "?m < maxPackageSize" by (simp add: maxPackageSize_def)
    then have "encoded_length n mod maxPackageSize = ?m" "encoded_length n div maxPackageSize = ?q"
      unfolding enc by simp_all
    then show ?thesis using e n False by (simp add: DecryptedSize_of_nat [OF l] Let_def)
  qed
qed

section \<open>The configurations of the server\<close>

definition key_config :: "nat \<Rightarrow> string \<Rightarrow> 32 word \<Rightarrow> Config" where
  "key_config v key num = \<lparr>cfg_MinVersion = v, cfg_MaxVersion = 0, cfg_CipherSuites = [], cfg_Key = key,
     cfg_SequenceNumber = num, cfg_Rand = None, cfg_PayloadSize = 0\<rparr>"

definition source_of :: "string \<Rightarrow> io_source" where
  "source_of d = \<lparr>src_rest = d, src_fault = None\<rparr>"

definition mem_buffer :: sink where
  "mem_buffer = \<lparr>snk_written = [], snk_answers = (\<lambda>_ p. (length p, None)), snk_closing = None\<rparr>"

text \<open>Both ciphers take a key of 32 bytes, and the system gives random bytes.\<close>

definition env_ok :: "sio_env \<Rightarrow> bool" where
  "env_ok env \<longleftrightarrow> (\<forall>c key. c < 2 \<longrightarrow> length key = keySize \<longrightarrow> (\<exists>a. env_suites env c key = Some a \<and> aead_works a)) \<and>
     12 \<le> length (src_rest (system_rand env))"

definition full_config :: "sio_env \<Rightarrow> nat \<Rightarrow> string \<Rightarrow> 32 word \<Rightarrow> Config" where
  "full_config env v key num = \<lparr>cfg_MinVersion = if v = dare_Version20 then dare_Version20 else dare_Version10,
     cfg_MaxVersion = dare_Version20, cfg_CipherSuites = defaultCipherSuites (supportsAES env), cfg_Key = key,
     cfg_SequenceNumber = num, cfg_Rand = Some (system_rand env), cfg_PayloadSize = maxPayloadSize\<rparr>"

lemma defaults:
  assumes "length key = keySize" and "v = 0 \<or> v = dare_Version20"
  shows "setConfigDefaults (supportsAES env) (system_rand env) (key_config v key num) = Inr (full_config env v key num)"
  using assms by (auto simp: setConfigDefaults_def key_config_def full_config_def dare_Version10_def dare_Version20_def Let_def)

lemma versions: "dare_Version10 \<noteq> dare_Version20" by (simp add: dare_Version10_def dare_Version20_def)

text \<open>The state of a new encrypter.\<close>

definition new_ae :: "sio_env \<Rightarrow> string \<Rightarrow> 32 word \<Rightarrow> authEncV20" where
  "new_ae env key num = (let c = hd (defaultCipherSuites (supportsAES env)) in
     \<lparr>CipherID = c, SeqNum = num, Cipher = the (env_suites env c key), RandVal = take 12 (src_rest (system_rand env)),
      enc_finalized = False\<rparr>)"

lemma suites_lt: "c \<in> set (defaultCipherSuites b) \<longleftrightarrow> c < 2"
  by (auto simp: defaultCipherSuites_def AES_256_GCM_def CHACHA20_POLY1305_def)

lemma hd_suites: "hd (defaultCipherSuites b) < 2" "defaultCipherSuites b ! 0 = hd (defaultCipherSuites b)"
  by (auto simp: defaultCipherSuites_def AES_256_GCM_def CHACHA20_POLY1305_def)

lemma env_suite:
  assumes "env_ok env" and "length key = keySize" and "c < 2"
  obtains a where "env_suites env c key = Some a" and "aead_works a"
  using assms unfolding env_ok_def by blast

lemma new_ae_ok:
  assumes "env_ok env" and "length key = keySize"
  shows "ae_ok (new_ae env key num)" and "newAuthEncV20 (env_suites env) (full_config env v key num) = Inr (new_ae env key num)"
    and "env_suites env (CipherID (new_ae env key num)) key = Some (Cipher (new_ae env key num))" and "SeqNum (new_ae env key num) = num"
proof -
  obtain a where a: "env_suites env (hd (defaultCipherSuites (supportsAES env))) key = Some a" "aead_works a"
    using env_suite [OF assms hd_suites(1)] by blast
  have r: "12 \<le> length (src_rest (system_rand env))" using assms(1) by (simp add: env_ok_def)
  show "ae_ok (new_ae env key num)" using a r hd_suites(1) by (simp add: ae_ok_def new_ae_def Let_def)
  show "newAuthEncV20 (env_suites env) (full_config env v key num) = Inr (new_ae env key num)"
    using a r by (simp add: newAuthEncV20_def newAuthEnc_def full_config_def hd_suites(2) Let_def ReadFull_def new_ae_def
        authEnc.defs authEncV20.defs)
  show "env_suites env (CipherID (new_ae env key num)) key = Some (Cipher (new_ae env key num))"
    using a by (simp add: new_ae_def Let_def)
  show "SeqNum (new_ae env key num) = num" by (simp add: new_ae_def Let_def)
qed

lemma new_ad_ok:
  assumes "env_ok env" and "length key = keySize"
  obtains ad where "newAuthDecV20 (env_suites env) (full_config env v key num) = Inr ad" and "ciphers_ok ad"
    and "\<not> dec_finalized ad" and "refHeader ad = None" and "dec_SeqNum ad = num"
    and "\<And>c. c < 2 \<Longrightarrow> Ciphers ad c = env_suites env c key"
    and "\<And>ae. ae_ok ae \<Longrightarrow> SeqNum ae = num \<Longrightarrow> env_suites env (CipherID ae) key = Some (Cipher ae) \<Longrightarrow> follows ad ae"
proof -
  let ?ad = "\<lparr>dec_SeqNum = num, Ciphers = (\<lambda>v. if v < 2 then env_suites env v key else None), refHeader = None, dec_finalized = False\<rparr>"
  have "list_all (\<lambda>v. env_suites env v key \<noteq> None) (defaultCipherSuites (supportsAES env))"
    unfolding list_all_iff using env_suite [OF assms] suites_lt by (metis option.distinct(1))
  then have "newAuthDecV20 (env_suites env) (full_config env v key num) = Inr ?ad"
    by (simp add: newAuthDecV20_def newAuthDec_def full_config_def suites_lt authDec.defs authDecV20.defs cong: if_cong)
  moreover have "ciphers_ok ?ad"
  proof -
    have "aead_works a" if "c < 2" "env_suites env c key = Some a" for c a
      using env_suite [OF assms that(1)] that(2) by (metis option.inject)
    then show ?thesis by (simp add: ciphers_ok_def)
  qed
  moreover have "follows ?ad ae" if "ae_ok ae" "SeqNum ae = num" "env_suites env (CipherID ae) key = Some (Cipher ae)" for ae
    using that by (simp add: follows_def ae_ok_def)
  ultimately show ?thesis using that [of ?ad] by simp
qed

section \<open>The readers of the entry points\<close>

definition enc_holds :: "enc_reader \<Rightarrow> string \<Rightarrow> sio_err \<Rightarrow> bool" where
  "enc_holds r R e = (case r of encR20 x \<Rightarrow> encV20_holds x R e | _ \<Rightarrow> False)"

interpretation enc_api: io_reader enc_reader_Read enc_holds
proof
  fix s R e k assume h: "enc_holds s R e"
  then obtain x where x: "s = encR20 x" "encV20_holds x R e" by (cases s) (auto simp: enc_holds_def)
  from encV20.read_some [OF x(2), of k]
  show "\<exists>s' n err. enc_reader_Read s k = Some (s', take n R, err) \<and> n \<le> k \<and> n \<le> length R \<and>
      (err = None \<and> enc_holds s' (drop n R) e \<or> err = Some e \<and> n = length R \<and> (e = io_EOF \<or> n < k)) \<and>
      (0 < k \<longrightarrow> 0 < n \<or> err \<noteq> None)"
  proof (elim exE conjE)
    fix x' n err assume "encReaderV20_Read x k = Some (x', take n R, err)"
    then have "enc_reader_Read s k = Some (encR20 x', take n R, err)" by (simp add: x(1))
    moreover assume "n \<le> k" "n \<le> length R" "0 < k \<longrightarrow> 0 < n \<or> err \<noteq> None"
      "err = None \<and> encV20_holds x' (drop n R) e \<or> err = Some e \<and> n = length R \<and> (e = io_EOF \<or> n < k)"
    ultimately show ?thesis by (intro exI [of _ "encR20 x'"] exI [of _ n] exI [of _ err]) (simp add: enc_holds_def)
  qed
qed

text \<open>The reader that looks at the version: before the first byte it holds what the reader of that version holds.\<close>

definition decR_holds :: "ciphers \<Rightarrow> decReader \<Rightarrow> string \<Rightarrow> sio_err \<Rightarrow> bool" where
  "decR_holds su r R e =
     (case gr_src r of
        src_Raw s \<Rightarrow> gr_firstRead r \<and> src_fault s = None \<and>
          (if src_rest s = [] then R = [] \<and> e = io_EOF
           else of_char (hd (src_rest s)) = dare_Version20 \<and>
             (\<exists>d. decryptReaderV20 su s (gr_config r) = Inr d \<and> decV20_holds d R e))
      | src_V20 d \<Rightarrow> decV20_holds d R e
      | _ \<Rightarrow> False)"

lemma dec_source_V20:
  assumes "gr_src r = src_V20 d" and "decV20_holds d R e"
  shows "\<exists>r' n err. dec_source_Read r k = Some (r', take n R, err) \<and> n \<le> k \<and> n \<le> length R \<and>
    (err = None \<and> decR_holds su r' (drop n R) e \<or> err = Some e \<and> n = length R \<and> (e = io_EOF \<or> n < k)) \<and>
    (0 < k \<longrightarrow> 0 < n \<or> err \<noteq> None)"
proof -
  obtain d' n err where d': "decReaderV20_Read d k = (d', take n R, err)" "n \<le> k" "n \<le> length R"
    "err = None \<and> decV20_holds d' (drop n R) e \<or> err = Some e \<and> n = length R \<and> n < k" "0 < k \<longrightarrow> 0 < n \<or> err \<noteq> None"
    using decReaderV20_reads [OF assms(2), of k] by blast
  have "dec_source_Read r k = Some (r\<lparr>gr_src := src_V20 d'\<rparr>, take n R, err)"
    by (simp add: dec_source_Read_def assms(1) d'(1))
  then show ?thesis using d'
    by (intro exI [of _ "r\<lparr>gr_src := src_V20 d'\<rparr>"] exI [of _ n] exI [of _ err]) (auto simp: decR_holds_def)
qed

lemma decR_reads:
  assumes "decR_holds su r R e"
  shows "\<exists>r' n err. decReader_Read su r k = Some (r', take n R, err) \<and> n \<le> k \<and> n \<le> length R \<and>
    (err = None \<and> decR_holds su r' (drop n R) e \<or> err = Some e \<and> n = length R \<and> (e = io_EOF \<or> n < k)) \<and>
    (0 < k \<longrightarrow> 0 < n \<or> err \<noteq> None)"
proof (cases "gr_src r")
  case (src_V20 d)
  with assms have "decV20_holds d R e" by (simp add: decR_holds_def)
  from dec_source_V20 [OF src_V20 this, of k su] show ?thesis by (simp add: decReader_Read_def src_V20)
next
  case (src_Raw s)
  note raw = src_Raw
  have s: "gr_firstRead r" "src_fault s = None" using assms raw by (simp_all add: decR_holds_def)
  consider "k = 0" | "0 < k" "src_rest s = []" | c t where "0 < k" "src_rest s = c # t" by (cases "src_rest s") auto
  then show ?thesis
  proof cases
    case 1
    then show ?thesis using assms s by (intro exI [of _ r] exI [of _ 0] exI [of _ None]) (simp add: decReader_Read_def raw)
  next
    case 2
    let ?r' = "r\<lparr>gr_src := src_Raw (s\<lparr>src_rest := []\<rparr>)\<rparr>"
    have "R = []" "e = io_EOF" using assms raw 2 by (simp_all add: decR_holds_def)
    then show ?thesis using s 2
      by (intro exI [of _ ?r'] exI [of _ 0] exI [of _ "Some io_EOF"]) (simp add: decReader_Read_def raw ReadFull_def)
  next
    case 3
    obtain d where d: "decryptReaderV20 su s (gr_config r) = Inr d" "decV20_holds d R e" and v: "of_char c = dare_Version20"
      using assms raw 3 by (auto simp: decR_holds_def)
    let ?r1 = "r\<lparr>gr_firstRead := False, gr_src := src_V20 d\<rparr>"
    have "s\<lparr>src_rest := c # t\<rparr> = s" using 3(2) by simp
    then have "decReader_first su r (s\<lparr>src_rest := t\<rparr>) c = (?r1, None)"
      using v d(1) versions by (simp add: decReader_first_def Let_def)
    then have "decReader_Read su r k = dec_source_Read ?r1 k"
      using s 3 by (simp add: decReader_Read_def raw ReadFull_def)
    with dec_source_V20 [of ?r1 d R e k su] d(2) show ?thesis by simp
  qed
qed (use assms in \<open>auto simp: decR_holds_def\<close>)

definition dec_holds :: "sio_env \<Rightarrow> dec_reader \<Rightarrow> string \<Rightarrow> sio_err \<Rightarrow> bool" where
  "dec_holds env r R e = (case r of decR20 x \<Rightarrow> decV20_holds x R e | decR x \<Rightarrow> decR_holds (env_suites env) x R e | _ \<Rightarrow> False)"

interpretation dec_api: io_reader "dec_reader_Read env" "dec_holds env" for env
proof
  fix s R e k assume h: "dec_holds env s R e"
  show "\<exists>s' n err. dec_reader_Read env s k = Some (s', take n R, err) \<and> n \<le> k \<and> n \<le> length R \<and>
      (err = None \<and> dec_holds env s' (drop n R) e \<or> err = Some e \<and> n = length R \<and> (e = io_EOF \<or> n < k)) \<and>
      (0 < k \<longrightarrow> 0 < n \<or> err \<noteq> None)"
  proof (cases s)
    case (decR20 x)
    with h have x: "decV20_holds x R e" by (simp add: dec_holds_def)
    obtain x' n err where x': "decReaderV20_Read x k = (x', take n R, err)" "n \<le> k" "n \<le> length R"
      "err = None \<and> decV20_holds x' (drop n R) e \<or> err = Some e \<and> n = length R \<and> n < k" "0 < k \<longrightarrow> 0 < n \<or> err \<noteq> None"
      using decReaderV20_reads [OF x, of k] by blast
    then show ?thesis
      by (intro exI [of _ "decR20 x'"] exI [of _ n] exI [of _ err]) (auto simp: decR20 dec_holds_def)
  next
    case (decR x)
    with h have x: "decR_holds (env_suites env) x R e" by (simp add: dec_holds_def)
    obtain x' n err where x': "decReader_Read (env_suites env) x k = Some (x', take n R, err)" "n \<le> k" "n \<le> length R"
      "err = None \<and> decR_holds (env_suites env) x' (drop n R) e \<or> err = Some e \<and> n = length R \<and> (e = io_EOF \<or> n < k)"
      "0 < k \<longrightarrow> 0 < n \<or> err \<noteq> None"
      using decR_reads [OF x, of k] by blast
    then show ?thesis
      by (intro exI [of _ "decR x'"] exI [of _ n] exI [of _ err]) (auto simp: decR dec_holds_def)
  qed (use h in \<open>auto simp: dec_holds_def\<close>)
qed

section \<open>Streams through the entry points\<close>

lemma EncryptReader_holds:
  assumes env: "env_ok env" and key: "length key = keySize" and v: "v = 0 \<or> v = dare_Version20"
  obtains r where "EncryptReader env (source_of d) (key_config v key num) = Inr r"
    and "enc_holds r (coded (new_ae env key num) d True) io_EOF"
proof -
  let ?r = "\<lparr>er_ae = new_ae env key num, er_src = source_of d, er_buffer = [], er_offset = 0, er_lastByte = CHR 0x00, er_firstRead = True\<rparr>"
  have "EncryptReader env (source_of d) (key_config v key num) = Inr (encR20 ?r)"
    unfolding EncryptReader_def defaults [OF key v] by (simp add: full_config_def [symmetric] encryptReaderV20_def
        new_ae_ok(2) [OF env key] or_else_def, simp add: full_config_def)
  moreover have "enc_holds (encR20 ?r) (coded (new_ae env key num) d True) io_EOF"
    using new_ae_ok(1) [OF env key] by (simp add: enc_holds_def encV20_holds_def source_of_def new_ae_def Let_def)
  ultimately show ?thesis by (rule that)
qed

lemma Encrypt_coded:
  assumes "env_ok env" and "length key = keySize" and "v = 0 \<or> v = dare_Version20" and "\<And>i. 0 < room i"
  shows "dare_Encrypt env room (source_of d) (key_config v key num) = Some (coded (new_ae env key num) d True, None)"
proof -
  obtain r where "EncryptReader env (source_of d) (key_config v key num) = Inr r"
    and "enc_holds r (coded (new_ae env key num) d True) io_EOF"
    using EncryptReader_holds [OF assms(1-3)] by blast
  then show ?thesis using enc_api.copy_loop_reads [of r _ io_EOF room 0 "[]"] assms(4) by (simp add: dare_Encrypt_def)
qed

lemma decryptReaderV20_holds:
  assumes "env_ok env" and "length key = keySize"
  obtains d ad where "decryptReaderV20 (env_suites env) (source_of s) (full_config env v key num) = Inr d"
    and "newAuthDecV20 (env_suites env) (full_config env v key num) = Inr ad"
    and "\<And>R e. dare_decode ad s = (R, e) \<Longrightarrow> decV20_holds d R e"
proof -
  obtain ad where ad: "newAuthDecV20 (env_suites env) (full_config env v key num) = Inr ad" "ciphers_ok ad"
    using new_ad_ok [OF assms] by blast
  let ?d = "\<lparr>dr_ad = ad, dr_src = source_of s, dr_payload = [], dr_offset = 0\<rparr>"
  have "decryptReaderV20 (env_suites env) (source_of s) (full_config env v key num) = Inr ?d"
    by (simp add: decryptReaderV20_def ad(1))
  then show ?thesis using that [OF _ ad(1)] ad(2) by (simp add: decV20_holds_def source_of_def)
qed

lemma hd_coded:
  assumes "ae_ok ae" and "d \<noteq> []"
  shows "coded ae d fin \<noteq> []" and "of_char (hd (coded ae d fin)) = dare_Version20"
proof -
  show "coded ae d fin \<noteq> []" using coded_Nil_iff [OF assms(1)] assms(2) by simp
  have "hd (dare_package ae x f) = put_byte dare_Version20" for x f by (simp add: dare_package_def headerV20_def Let_def)
  moreover have "dare_package ae x f \<noteq> []" for x f by (simp add: dare_package_def headerV20_def Let_def)
  ultimately have "hd (coded ae d fin) = put_byte dare_Version20" using assms(2) by (simp add: coded.simps [of ae])
  then show "of_char (hd (coded ae d fin)) = dare_Version20" by (simp add: byte_value dare_Version20_def)
qed

text \<open>Reading a stream of the 2.0 format through the entry point gives what \<open>dare_decode\<close> gives.\<close>

lemma Decrypt_decode:
  assumes env: "env_ok env" and key: "length key = keySize" and v: "v = dare_Version20 \<or> v = 0 \<and> s \<noteq> [] \<and> of_char (hd s) = dare_Version20"
    and room: "\<And>i. 0 < room i" and ad: "newAuthDecV20 (env_suites env) (full_config env v key num) = Inr ad"
    and s: "dare_decode ad s = (R, e)"
  shows "dare_Decrypt env room (source_of s) (key_config v key num) = Some (R, if e = io_EOF then None else Some e)"
proof -
  obtain d where d: "decryptReaderV20 (env_suites env) (source_of s) (full_config env v key num) = Inr d" "decV20_holds d R e"
    using decryptReaderV20_holds [OF env key, of s v num] ad s by (metis sum.inject(2))
  have v': "v = 0 \<or> v = dare_Version20" using v by blast
  obtain r where "DecryptReader env (source_of s) (key_config v key num) = Inr r" and "dec_holds env r R e"
  proof (cases "v = dare_Version20")
    case True
    then have "DecryptReader env (source_of s) (key_config v key num) = Inr (decR20 d)"
      unfolding DecryptReader_def defaults [OF key v'] using d(1) versions
      by (simp add: full_config_def or_else_def)
    with d(2) that [of "decR20 d"] show ?thesis by (simp add: dec_holds_def)
  next
    case False
    then have "DecryptReader env (source_of s) (key_config v key num) = Inr (decR (decryptReader (source_of s) (full_config env v key num)))"
      unfolding DecryptReader_def defaults [OF key v'] using versions
      by (simp add: full_config_def)
    moreover have "dec_holds env (decR (decryptReader (source_of s) (full_config env v key num))) R e"
      using d v False by (simp add: dec_holds_def decR_holds_def decryptReader_def source_of_def)
    ultimately show ?thesis by (rule that)
  qed
  then show ?thesis using dec_api.copy_loop_reads [of env r R e room 0 "[]"] room by (simp add: dare_Decrypt_def)
qed

lemma Decrypt_empty:
  assumes "length key = keySize" and "\<And>i. 0 < room i"
  shows "dare_Decrypt env room (source_of []) (key_config 0 key num) = Some ([], None)"
proof -
  have v: "(0::nat) = 0 \<or> 0 = dare_Version20" by simp
  have "DecryptReader env (source_of []) (key_config 0 key num) = Inr (decR (decryptReader (source_of []) (full_config env 0 key num)))"
    unfolding DecryptReader_def defaults [OF assms(1) v] using versions by (simp add: full_config_def dare_Version20_def)
  moreover have "dec_holds env (decR (decryptReader (source_of []) (full_config env 0 key num))) [] io_EOF"
    by (simp add: dec_holds_def decR_holds_def decryptReader_def source_of_def)
  ultimately show ?thesis
    using dec_api.copy_loop_reads [of env _ "[]" io_EOF room 0 "[]"] assms(2) by (simp add: dare_Decrypt_def)
qed

section \<open>The writers of the entry points\<close>

definition decW_expects :: "sio_env \<Rightarrow> bool \<Rightarrow> dec_writer \<Rightarrow> string \<Rightarrow> string \<Rightarrow> bool" where
  "decW_expects env fin w z d =
     (case w of
        decW20 x \<Rightarrow> decW20_expects fin x z d
      | decW x \<Rightarrow>
          (case gw_dst x of
             dst_Raw s \<Rightarrow> gw_firstWrite x \<and> takes_all s \<and>
               (if z = [] then d = []
                else of_char (hd z) = dare_Version20 \<and>
                  (\<exists>y. decryptWriterV20 (env_suites env) s (gw_config x) = Inr y \<and> dw_dst y = s \<and> decW20_expects fin y z d))
           | dst_V20 y \<Rightarrow> decW20_expects fin y z d
           | _ \<Rightarrow> False)
      | _ \<Rightarrow> False)"

lemma dec_sink_V20:
  assumes "gw_dst x = dst_V20 y" and "decW20_expects fin y (p @ z) d"
  shows "\<exists>x' d'. dec_sink_Write x p = Some (x', length p, None) \<and> decW_expects env fin (decW x') z d' \<and>
    dec_written (decW x') @ d' = snk_written (dw_dst y) @ d"
proof -
  obtain y' d' where "decWriterV20_Write y p = (y', length p, None)" "decW20_expects fin y' z d'"
    "snk_written (dw_dst y') @ d' = snk_written (dw_dst y) @ d" using decWriterV20_writes [OF assms(2)] by blast
  then show ?thesis using assms(1)
    by (intro exI [of _ "x\<lparr>gw_dst := dst_V20 y'\<rparr>"] exI [of _ d']) (simp add: dec_sink_Write_def decW_expects_def)
qed

lemma decW_writes:
  assumes "decW_expects env fin w (p @ z) d"
  shows "\<exists>w' d'. dec_writer_Write env w p = Some (w', length p, None) \<and> decW_expects env fin w' z d' \<and>
    dec_written w' @ d' = dec_written w @ d"
proof (cases w)
  case (decW20 x)
  with assms have "decW20_expects fin x (p @ z) d" by (simp add: decW_expects_def)
  from decWriterV20_writes [OF this] obtain x' d' where "decWriterV20_Write x p = (x', length p, None)"
    "decW20_expects fin x' z d'" "snk_written (dw_dst x') @ d' = snk_written (dw_dst x) @ d" by blast
  then show ?thesis by (intro exI [of _ "decW20 x'"] exI [of _ d']) (simp add: decW20 decW_expects_def)
next
  case (decW x)
  show ?thesis
  proof (cases "gw_dst x")
    case (dst_V20 y)
    with assms decW have "decW20_expects fin y (p @ z) d" by (simp add: decW_expects_def)
    from dec_sink_V20 [OF dst_V20 this, of env] obtain x' d' where "dec_sink_Write x p = Some (x', length p, None)"
      "decW_expects env fin (decW x') z d'" "dec_written (decW x') @ d' = snk_written (dw_dst y) @ d" by blast
    then show ?thesis by (intro exI [of _ "decW x'"] exI [of _ d']) (simp add: decW dst_V20 decWriter_Write_def)
  next
    case (dst_Raw s)
    note raw = dst_Raw
    have f: "gw_firstWrite x" using assms decW raw by (simp add: decW_expects_def)
    show ?thesis
    proof (cases p)
      case Nil
      then show ?thesis using assms f by (intro exI [of _ w] exI [of _ d]) (simp add: decW raw decWriter_Write_def)
    next
      case (Cons c t)
      then obtain y where y: "decryptWriterV20 (env_suites env) s (gw_config x) = Inr y" "dw_dst y = s"
          "decW20_expects fin y (p @ z) d" and c: "of_char c = dare_Version20"
        using assms decW raw by (auto simp: decW_expects_def)
      let ?x1 = "x\<lparr>gw_firstWrite := False, gw_dst := dst_V20 y\<rparr>"
      have "decWriter_first (env_suites env) x s c = (?x1, None)"
        using c y(1) versions by (simp add: decWriter_first_def Let_def)
      then have "decWriter_Write (env_suites env) x p = dec_sink_Write ?x1 p"
        using f Cons by (simp add: decWriter_Write_def raw)
      moreover obtain x' d' where "dec_sink_Write ?x1 p = Some (x', length p, None)" "decW_expects env fin (decW x') z d'"
        "dec_written (decW x') @ d' = snk_written (dw_dst y) @ d" using dec_sink_V20 [of ?x1 y fin p z d env] y(3) by auto
      ultimately show ?thesis
        by (intro exI [of _ "decW x'"] exI [of _ d']) (simp add: decW raw y(2))
    qed
  qed (use assms decW in \<open>auto simp: decW_expects_def\<close>)
qed (use assms in \<open>auto simp: decW_expects_def\<close>)

lemma decW_closes:
  assumes "decW_expects env fin w [] d"
  shows "\<exists>w'. dec_writer_Close w = Some (w', None) \<and> dec_written w' = dec_written w @ d"
proof (cases w)
  case (decW20 x)
  with assms have "decW20_expects fin x [] d" by (simp add: decW_expects_def)
  from decWriterV20_closes [OF this] show ?thesis by (auto simp: decW20)
next
  case (decW x)
  show ?thesis
  proof (cases "gw_dst x")
    case (dst_V20 y)
    with assms decW have "decW20_expects fin y [] d" by (simp add: decW_expects_def)
    from decWriterV20_closes [OF this] obtain y' where "decWriterV20_Close y = (y', None)"
      "snk_written (dw_dst y') = snk_written (dw_dst y) @ d" by blast
    then show ?thesis by (simp add: decW dst_V20 decWriter_Close_def)
  next
    case (dst_Raw s)
    with assms decW have "d = []" "snk_closing s = None" by (simp_all add: decW_expects_def takes_all_def)
    then show ?thesis by (simp add: decW dst_Raw decWriter_Close_def)
  qed (use assms decW in \<open>auto simp: decW_expects_def\<close>)
qed (use assms in \<open>auto simp: decW_expects_def\<close>)

lemma decW_pieces:
  "decW_expects env fin w (concat ps) d \<Longrightarrow>
    \<exists>w'. write_pieces (dec_writer_Write env) dec_writer_Close ps w = Some (w', None) \<and> dec_written w' = dec_written w @ d"
proof (induction ps arbitrary: w d)
  case Nil
  then show ?case using decW_closes by simp
next
  case (Cons p ps)
  then obtain w' d' where w': "dec_writer_Write env w p = Some (w', length p, None)" "decW_expects env fin w' (concat ps) d'"
    "dec_written w' @ d' = dec_written w @ d" using decW_writes [of env fin w p "concat ps" d] by auto
  from Cons.IH [OF w'(2)] w'(3) show ?case by (simp add: w'(1))
qed

definition encW_total :: "enc_writer \<Rightarrow> string \<Rightarrow> string" where
  "encW_total w x = (case w of encW20 y \<Rightarrow> encW20_total y x | _ \<Rightarrow> [])"

definition encW_ok :: "enc_writer \<Rightarrow> bool" where
  "encW_ok w = (case w of encW20 y \<Rightarrow> encW20_ok y | _ \<Rightarrow> False)"

lemma encW_pieces:
  "encW_ok w \<Longrightarrow>
    \<exists>w'. write_pieces enc_writer_Write enc_writer_Close ps w = Some (w', None) \<and> enc_written w' = encW_total w (concat ps)"
proof (induction ps arbitrary: w)
  case Nil
  then obtain x where x: "w = encW20 x" "encW20_ok x" by (cases w) (auto simp: encW_ok_def)
  from encWriterV20_closes [OF x(2)] show ?case by (auto simp: x(1) encW_total_def)
next
  case (Cons p ps)
  then obtain x where x: "w = encW20 x" "encW20_ok x" by (cases w) (auto simp: encW_ok_def)
  from encWriterV20_writes [OF x(2), of p] obtain x' where x': "encWriterV20_Write x p = Some (x', length p, None)" "encW20_ok x'"
    "\<forall>y. encW20_total x' y = encW20_total x (p @ y)" by blast
  have ok': "encW_ok (encW20 x')" using x'(2) by (simp add: encW_ok_def)
  obtain w' where "write_pieces enc_writer_Write enc_writer_Close ps (encW20 x') = Some (w', None)"
    "enc_written w' = encW_total (encW20 x') (concat ps)" using Cons.IH [OF ok'] by blast
  then show ?case using x' by (simp add: x(1) encW_total_def)
qed

lemma EncryptWriter_pieces:
  assumes env: "env_ok env" and key: "length key = keySize" and v: "v = 0 \<or> v = dare_Version20"
  obtains w w' where "EncryptWriter env mem_buffer (key_config v key num) = Inr w"
    and "write_pieces enc_writer_Write enc_writer_Close ps w = Some (w', None)"
    and "enc_written w' = coded (new_ae env key num) (concat ps) True"
proof -
  let ?w = "\<lparr>ew_ae = new_ae env key num, ew_dst = mem_buffer, ew_pending = []\<rparr>"
  have "EncryptWriter env mem_buffer (key_config v key num) = Inr (encW20 ?w)"
    unfolding EncryptWriter_def defaults [OF key v] by (simp add: full_config_def [symmetric] encryptWriterV20_def
        new_ae_ok(2) [OF env key] or_else_def, simp add: full_config_def)
  moreover have ok: "encW_ok (encW20 ?w)"
    using new_ae_ok(1) [OF env key] by (simp add: encW_ok_def encW20_ok_def mem_buffer_def takes_all_def new_ae_def Let_def)
  ultimately show ?thesis
    using encW_pieces [OF ok, of ps] that by (auto simp: encW_total_def encW20_total_def mem_buffer_def)
qed

lemma DecryptWriter_pieces:
  assumes env: "env_ok env" and key: "length key = keySize" and v: "v = 0 \<or> v = dare_Version20"
    and ae: "ae_ok ae" "SeqNum ae = num" "env_suites env (CipherID ae) key = Some (Cipher ae)"
    and d: "concat ps = coded ae d fin" "fin \<or> maxPayloadSize dvd length d"
  obtains w w' where "DecryptWriter env mem_buffer (key_config v key num) = Inr w"
    and "write_pieces (dec_writer_Write env) dec_writer_Close ps w = Some (w', None)" and "dec_written w' = d"
proof -
  obtain ad where ad: "newAuthDecV20 (env_suites env) (full_config env v key num) = Inr ad" "follows ad ae"
    using new_ad_ok [OF env key] ae by metis
  let ?w = "\<lparr>dw_ad = ad, dw_dst = mem_buffer, dw_pending = []\<rparr>"
  have w: "decryptWriterV20 (env_suites env) mem_buffer (full_config env v key num) = Inr ?w" by (simp add: decryptWriterV20_def ad(1))
  have t: "takes_all mem_buffer" by (simp add: takes_all_def mem_buffer_def)
  have e: "decW20_expects fin ?w (concat ps) d" using ad(2) ae(1) d t by (auto simp: decW20_expects_def)
  have b: "snk_written mem_buffer = []" by (simp add: mem_buffer_def)
  show ?thesis
  proof (cases "v = dare_Version20")
    case True
    then have "DecryptWriter env mem_buffer (key_config v key num) = Inr (decW20 ?w)"
      unfolding DecryptWriter_def defaults [OF key v] using w versions by (simp add: full_config_def or_else_def)
    moreover have "decW_expects env fin (decW20 ?w) (concat ps) d" using e by (simp add: decW_expects_def)
    ultimately show ?thesis using decW_pieces [of env fin "decW20 ?w" ps d] that b by auto
  next
    case False
    let ?x = "decryptWriter mem_buffer (full_config env v key num)"
    have "DecryptWriter env mem_buffer (key_config v key num) = Inr (decW ?x)"
      unfolding DecryptWriter_def defaults [OF key v] using versions False by (simp add: full_config_def)
    moreover have "decW_expects env fin (decW ?x) (concat ps) d"
      using e w t d(1) hd_coded [OF ae(1), of d fin] by (simp add: decW_expects_def decryptWriter_def coded_Nil_iff [OF ae(1)])
    moreover have "dec_written (decW ?x) = []" using b by (simp add: decryptWriter_def)
    ultimately show ?thesis using decW_pieces [of env fin "decW ?x" ps d] that by auto
  qed
qed

section \<open>Parts of a stream\<close>

lemma coded_blocks:
  assumes "maxPayloadSize \<le> length d"
  shows "coded ae d False = dare_package ae (take maxPayloadSize d) False @ coded (next_ae ae) (drop maxPayloadSize d) False"
proof (cases "length d = maxPayloadSize")
  case True
  then have "d \<noteq> []" by auto
  then show ?thesis using True by (simp add: coded_short) (simp add: coded.simps)
next
  case False
  with assms show ?thesis by (intro coded_long) simp
qed

text \<open>After \<open>m\<close> full packages the stream goes on as a stream of its own, with the number \<open>m\<close> more.\<close>

lemma coded_cut:
  assumes "m * maxPayloadSize < length d"
  shows "coded ae d fin = coded ae (take (m * maxPayloadSize) d) False @
    coded ((next_ae ^^ m) ae) (drop (m * maxPayloadSize) d) fin"
  using assms
proof (induction m arbitrary: ae d)
  case 0
  then show ?case by (simp add: coded.simps [of ae "[]"])
next
  case (Suc m)
  let ?d = "drop maxPayloadSize d"
  have long: "maxPayloadSize < length d" using Suc.prems by simp
  have "m * maxPayloadSize < length ?d" using Suc.prems by simp
  note IH = Suc.IH [OF this, of "next_ae ae"]
  have "coded ae (take (Suc m * maxPayloadSize) d) False =
      dare_package ae (take maxPayloadSize d) False @ coded (next_ae ae) (take (m * maxPayloadSize) ?d) False"
    using coded_blocks [of "take (Suc m * maxPayloadSize) d" ae] Suc.prems
    by (simp add: min_def drop_take)
  then show ?case
    unfolding coded_long [OF long] IH by (simp add: add.commute funpow_Suc_right del: funpow.simps)
qed

lemma next_ae_funpow:
  "ae_ok ((next_ae ^^ m) ae) = ae_ok ae" "SeqNum ((next_ae ^^ m) ae) = SeqNum ae + of_nat m"
  "Cipher ((next_ae ^^ m) ae) = Cipher ae" "CipherID ((next_ae ^^ m) ae) = CipherID ae"
  by (induction m) simp_all

lemma length_blocks:
  assumes "ae_ok ae" and "m * maxPayloadSize \<le> length d"
  shows "length (coded ae (take (m * maxPayloadSize) d) fin) = m * maxPackageSize"
  using assms by (simp add: length_coded min_def encoded_length_def)

lemma take_coded:
  assumes "ae_ok ae" and "m * maxPayloadSize < length d"
  shows "take (m * maxPackageSize) (coded ae d fin) = coded ae (take (m * maxPayloadSize) d) False"
    and "drop (m * maxPackageSize) (coded ae d fin) = coded ((next_ae ^^ m) ae) (drop (m * maxPayloadSize) d) fin"
  unfolding coded_cut [OF assms(2)] using length_blocks [OF assms(1), of m d False] assms(2) by simp_all

section \<open>There and back\<close>

lemma dare_reads_back:
  assumes "env_ok env" and "length key = keySize" and "\<And>i. 0 < room i" and "\<And>i. 0 < room' i"
    and "v = 0 \<or> v = dare_Version20" and "v' = 0 \<or> v' = dare_Version20 \<and> d \<noteq> []"
  shows "\<exists>e. dare_Encrypt env room (source_of d) (key_config v key num) = Some (e, None) \<and>
    dare_Decrypt env room' (source_of e) (key_config v' key num) = Some (d, None) \<and>
    (length d \<le> 2 ^ 48 \<longrightarrow> sio_EncryptedSize (of_nat (length d)) = Inr (of_nat (length e)) \<and>
      sio_DecryptedSize (of_nat (length e)) = Inr (of_nat (length d)))"
proof (intro exI conjI impI)
  let ?ae = "new_ae env key num"
  let ?e = "coded ?ae d True"
  note ae = new_ae_ok [OF assms(1,2), where num = num]
  show "dare_Encrypt env room (source_of d) (key_config v key num) = Some (?e, None)"
    by (rule Encrypt_coded [OF assms(1,2,5,3)])
  show "dare_Decrypt env room' (source_of ?e) (key_config v' key num) = Some (d, None)"
  proof (cases "d = []")
    case True
    with assms(6) show ?thesis using Decrypt_empty [OF assms(2,4)] by (simp add: coded.simps)
  next
    case False
    obtain ad where ad: "newAuthDecV20 (env_suites env) (full_config env v' key num) = Inr ad" "follows ad ?ae"
      using new_ad_ok [OF assms(1,2)] ae(1,3,4) by metis
    have v': "v' = dare_Version20 \<or> v' = 0 \<and> ?e \<noteq> [] \<and> of_char (hd ?e) = dare_Version20"
      using assms(6) hd_coded [OF ae(1) False] by blast
    from Decrypt_decode [OF assms(1,2) v' assms(4) ad(1)] decode_coded [OF ad(2) False] show ?thesis by simp
  qed
  assume "length d \<le> 2 ^ 48"
  then have l: "length d \<le> maxDecryptedSize" by (simp add: maxDecryptedSize_def)
  then have "length d < 2 ^ 64" using size_constants(4) by linarith
  with l show "sio_EncryptedSize (of_nat (length d)) = Inr (of_nat (length ?e))"
    by (simp add: EncryptedSize_of_nat length_coded [OF ae(1)])
  show "sio_DecryptedSize (of_nat (length ?e)) = Inr (of_nat (length d))"
    using decoded_length [OF l] by (simp add: length_coded [OF ae(1)])
qed

end
