(* ===== verification/SioMain.thy ===== *)
theory SioMain
  imports DareProps
begin

text \<open>The properties of \<open>pkg/sio\<close>, over its entry points, with a cipher for their witnesses.\<close>

section \<open>A cipher\<close>

definition ex_aead :: aead where
  "ex_aead = \<lparr>aead_Seal = (\<lambda>_ d _. d @ replicate 16 CHR ''t''),
     aead_Open = (\<lambda>_ c _. if 16 \<le> length c \<and> drop (length c - 16) c = replicate 16 CHR ''t''
       then Some (take (length c - 16) c) else None)\<rparr>"

definition ex_sio_env :: sio_env where
  "ex_sio_env = \<lparr>env_suites = (\<lambda>_ _. Some ex_aead), supportsAES = True,
     system_rand = \<lparr>src_rest = ''0123456789ab'', src_fault = None\<rparr>\<rparr>"

definition ex_key :: string where "ex_key = replicate 32 CHR ''k''"

lemma ex_aead_works: "aead_works ex_aead"
proof -
  have "c = take (length c - 16) c @ replicate 16 CHR ''t''" if "drop (length c - 16) c = replicate 16 CHR ''t''" for c :: string
    using that by (metis append_take_drop_id)
  then show ?thesis by (auto simp: aead_works_def ex_aead_def tagSize_def split: if_splits)
qed

lemma ex_sio_env_ok: "env_ok ex_sio_env"
  by (simp add: env_ok_def ex_sio_env_def ex_aead_works)

lemma ex_key: "length ex_key = keySize"
  by (simp add: ex_key_def keySize_def)

section \<open>Properties\<close>

text \<open>C6: Encryption and decryption under one key undo each other, whatever buffers the two are read with: no
  error, no byte lost, for the empty text too unless the decrypter insists on version 2.0.  The sizes that
  \<open>EncryptedSize\<close> and \<open>DecryptedSize\<close> compute in 64 bits are the real ones.\<close>

theorem dare_roundtrip:
  assumes "env_ok env" and "length key = keySize" and "\<And>i. 0 < room i" and "\<And>i. 0 < room' i"
    and "v = 0 \<or> v = dare_Version20" and "v' = 0 \<or> v' = dare_Version20 \<and> d \<noteq> []"
  shows "\<exists>e. dare_Encrypt env room (source_of d) (key_config v key num) = Some (e, None) \<and>
    dare_Decrypt env room' (source_of e) (key_config v' key num) = Some (d, None) \<and>
    (length d \<le> 2 ^ 48 \<longrightarrow> sio_EncryptedSize (of_nat (length d)) = Inr (of_nat (length e)) \<and>
      sio_DecryptedSize (of_nat (length e)) = Inr (of_nat (length d)))"
  by (rule dare_reads_back [OF assms])

theorem dare_roundtrip_witness:
  "\<exists>e. dare_Encrypt ex_sio_env (\<lambda>i. i + 1) (source_of ''secret'') (key_config dare_Version20 ex_key 0) = Some (e, None) \<and>
    dare_Decrypt ex_sio_env (\<lambda>_. 7) (source_of e) (key_config 0 ex_key 0) = Some (''secret'', None) \<and>
    sio_EncryptedSize 6 = Inr (of_nat (length e))"
proof -
  have "\<exists>e. dare_Encrypt ex_sio_env (\<lambda>i. i + 1) (source_of ''secret'') (key_config dare_Version20 ex_key 0) = Some (e, None) \<and>
    dare_Decrypt ex_sio_env (\<lambda>_. 7) (source_of e) (key_config 0 ex_key 0) = Some (''secret'', None) \<and>
    (length ''secret'' \<le> 2 ^ 48 \<longrightarrow> sio_EncryptedSize (of_nat (length ''secret'')) = Inr (of_nat (length e)) \<and>
      sio_DecryptedSize (of_nat (length e)) = Inr (of_nat (length ''secret'')))"
    by (rule dare_roundtrip [OF ex_sio_env_ok ex_key]) simp_all
  then show ?thesis by auto
qed

text \<open>C8: A writer gives the same stream as the reader, in whatever pieces its input comes: an encrypting writer
  closes with exactly the encryption of all pieces together, and a decrypting writer that gets an encryption
  in pieces closes with its plaintext.\<close>

theorem dare_in_pieces:
  assumes "env_ok env" and "length key = keySize" and "\<And>i. 0 < room i"
    and "v = 0 \<or> v = dare_Version20" and "v' = 0 \<or> v' = dare_Version20"
    and "dare_Encrypt env room (source_of (concat ps)) (key_config v key num) = Some (e, None)" and "concat qs = e"
  shows "\<exists>w w' x x'. EncryptWriter env mem_buffer (key_config v key num) = Inr w \<and>
    write_pieces enc_writer_Write enc_writer_Close ps w = Some (w', None) \<and> enc_written w' = e \<and>
    DecryptWriter env mem_buffer (key_config v' key num) = Inr x \<and>
    write_pieces (dec_writer_Write env) dec_writer_Close qs x = Some (x', None) \<and> dec_written x' = concat ps"
proof -
  note ae = new_ae_ok [OF assms(1,2), where num = num]
  have e: "e = coded (new_ae env key num) (concat ps) True"
    using assms(6) by (simp add: Encrypt_coded [where room = room, OF assms(1,2,4,3)])
  obtain w w' where w: "EncryptWriter env mem_buffer (key_config v key num) = Inr w"
    "write_pieces enc_writer_Write enc_writer_Close ps w = Some (w', None)" "enc_written w' = e"
    using EncryptWriter_pieces [OF assms(1,2,4)] e by metis
  obtain x x' where x: "DecryptWriter env mem_buffer (key_config v' key num) = Inr x"
    "write_pieces (dec_writer_Write env) dec_writer_Close qs x = Some (x', None)" "dec_written x' = concat ps"
    by (rule DecryptWriter_pieces [OF assms(1,2,5) ae(1,4,3), of qs "concat ps" True]) (simp_all add: assms(7) e)
  from w x show ?thesis by blast
qed

theorem dare_in_pieces_witness:
  "\<exists>e w w' x x'. EncryptWriter ex_sio_env mem_buffer (key_config 0 ex_key 5) = Inr w \<and>
    write_pieces enc_writer_Write enc_writer_Close [''se'', [], ''cret''] w = Some (w', None) \<and> enc_written w' = e \<and>
    DecryptWriter ex_sio_env mem_buffer (key_config 0 ex_key 5) = Inr x \<and>
    write_pieces (dec_writer_Write ex_sio_env) dec_writer_Close [take 3 e, drop 3 e] x = Some (x', None) \<and>
    dec_written x' = ''secret''"
proof -
  have v: "(0::nat) = 0 \<or> 0 = dare_Version20" by simp
  obtain e where e: "dare_Encrypt ex_sio_env (\<lambda>_. 4) (source_of (concat [''se'', [], ''cret''])) (key_config 0 ex_key 5) = Some (e, None)"
    using Encrypt_coded [OF ex_sio_env_ok ex_key v, of "\<lambda>_. 4"] by simp
  have "concat [take 3 e, drop 3 e] = e" by simp
  from dare_in_pieces [OF ex_sio_env_ok ex_key _ v v e this] show ?thesis by simp blast
qed

text \<open>C7: Only encryptions open: what a decrypter of version 2.0 reads to the end without an error is the
  encryption of what it read, made under the same key from some random bytes.  Nothing is cut off, put
  together or reordered.\<close>

theorem dare_only_encryptions:
  assumes "env_ok env" and "length key = keySize" and "\<And>i. 0 < room i" and "\<And>i. 0 < room' i"
    and "dare_Decrypt env room (source_of s) (key_config dare_Version20 key num) = Some (d, None)"
  shows "d \<noteq> [] \<and> (\<exists>aes rand. dare_Encrypt (env\<lparr>supportsAES := aes, system_rand := rand\<rparr>) room' (source_of d)
    (key_config 0 key num) = Some (s, None))"
proof -
  have v: "dare_Version20 = dare_Version20 \<or> dare_Version20 = 0 \<and> s \<noteq> [] \<and> of_char (hd s) = dare_Version20" by simp
  obtain ad where ad: "newAuthDecV20 (env_suites env) (full_config env dare_Version20 key num) = Inr ad" "ciphers_ok ad"
    "\<not> dec_finalized ad" "refHeader ad = None" "dec_SeqNum ad = num" "\<And>c. c < 2 \<Longrightarrow> Ciphers ad c = env_suites env c key"
    using new_ad_ok [OF assms(1,2)] by metis
  obtain q e where q: "dare_decode ad s = (q, e)" by (cases "dare_decode ad s")
  from Decrypt_decode [OF assms(1,2) v assms(3) ad(1) q] assms(5) q have dec: "dare_decode ad s = (d, io_EOF)"
    by (auto split: if_splits)
  obtain ae where ae: "follows ad ae" "s = coded ae d True" "d \<noteq> []" using decode_only_coded [OF dec ad(2-4)] by blast
  have ok: "ae_ok ae" "SeqNum ae = num" "env_suites env (CipherID ae) key = Some (Cipher ae)" "CipherID ae < 2"
    using ae(1) ad(5,6) by (auto simp: follows_def ae_ok_def)
  let ?env = "env\<lparr>supportsAES := (CipherID ae = 0), system_rand := \<lparr>src_rest = RandVal ae, src_fault = None\<rparr>\<rparr>"
  have "env_ok ?env" using assms(1) ok(1) by (simp add: env_ok_def ae_ok_def)
  from Encrypt_coded [OF this assms(2) _ assms(4), of 0]
  have "dare_Encrypt ?env room' (source_of d) (key_config 0 key num) = Some (coded (new_ae ?env key num) d True, None)" by simp
  moreover have "new_ae ?env key num = ae\<lparr>enc_finalized := False\<rparr>"
  proof -
    have "hd (defaultCipherSuites (CipherID ae = 0)) = CipherID ae"
      using ok(4) by (auto simp: defaultCipherSuites_def AES_256_GCM_def CHACHA20_POLY1305_def)
    then show ?thesis using ok by (simp add: new_ae_def Let_def ae_ok_def)
  qed
  ultimately show ?thesis using ae(2,3) by auto
qed

theorem dare_only_encryptions_witness:
  "\<exists>s aes rand. dare_Encrypt (ex_sio_env\<lparr>supportsAES := aes, system_rand := rand\<rparr>) (\<lambda>_. 100) (source_of ''secret'')
    (key_config 0 ex_key 0) = Some (s, None)"
proof -
  have v: "(0::nat) = 0 \<or> 0 = dare_Version20" by simp
  let ?s = "coded (new_ae ex_sio_env ex_key 0) ''secret'' True"
  obtain ad where ad: "newAuthDecV20 (env_suites ex_sio_env) (full_config ex_sio_env dare_Version20 ex_key 0) = Inr ad"
    "follows ad (new_ae ex_sio_env ex_key 0)"
    using new_ad_ok [OF ex_sio_env_ok ex_key] new_ae_ok [OF ex_sio_env_ok ex_key, where num = 0] by metis
  have "dare_decode ad ?s = (''secret'', io_EOF)" using decode_coded [OF ad(2), of "''secret''" True] by simp
  then have "dare_Decrypt ex_sio_env (\<lambda>_. 9) (source_of ?s) (key_config dare_Version20 ex_key 0) = Some (''secret'', None)"
    using Decrypt_decode [OF ex_sio_env_ok ex_key _ _ ad(1), of ?s "\<lambda>_. 9"] by simp
  from dare_only_encryptions [OF ex_sio_env_ok ex_key _ _ this, of "\<lambda>_. 100"] show ?thesis by simp blast
qed

text \<open>C9: A stream that is cut after a full package: the decrypting reader gives out the packages that are there
  and reports an unexpected end, but the decrypting writer is closed without an error, as if the plaintext
  ended there.\<close>

theorem dare_cut_streams:
  assumes "env_ok env" and "length key = keySize" and "\<And>i. 0 < room i" and "\<And>i. 0 < room' i"
    and "v = 0 \<or> v = dare_Version20" and "v' = 0 \<or> v' = dare_Version20"
    and "dare_Encrypt env room (source_of (d @ x)) (key_config v key num) = Some (e, None)"
    and "length d = Suc n * maxPayloadSize" and "x \<noteq> []" and "concat ps = take (Suc n * maxPackageSize) e"
  shows "dare_Decrypt env room' (source_of (concat ps)) (key_config v' key num) = Some (d, Some sio_UnexpectedEOF) \<and>
    (\<exists>w w'. DecryptWriter env mem_buffer (key_config v' key num) = Inr w \<and>
      write_pieces (dec_writer_Write env) dec_writer_Close ps w = Some (w', None) \<and> dec_written w' = d)"
proof -
  note ae = new_ae_ok [OF assms(1,2), where num = num]
  let ?ae = "new_ae env key num"
  have e: "e = coded ?ae (d @ x) True"
    using assms(7) by (simp add: Encrypt_coded [where room = room, OF assms(1,2,5,3)])
  have l: "Suc n * maxPayloadSize < length (d @ x)" using assms(8,9) by simp
  have d0: "d \<noteq> []" using assms(8) by auto
  have ps: "concat ps = coded ?ae d False"
    using take_coded(1) [OF ae(1) l, of True] assms(8,10) e by simp
  have dvd: "False \<or> maxPayloadSize dvd length d" using assms(8) by simp
  obtain ad where ad: "newAuthDecV20 (env_suites env) (full_config env v' key num) = Inr ad" "follows ad ?ae"
    using new_ad_ok [OF assms(1,2)] ae(1,3,4) by metis
  have v: "v' = dare_Version20 \<or> v' = 0 \<and> coded ?ae d False \<noteq> [] \<and> of_char (hd (coded ?ae d False)) = dare_Version20"
    using assms(6) hd_coded [OF ae(1) d0] by blast
  from Decrypt_decode [OF assms(1,2) v assms(4) ad(1)] decode_coded [OF ad(2) d0 dvd]
  have "dare_Decrypt env room' (source_of (concat ps)) (key_config v' key num) = Some (d, Some sio_UnexpectedEOF)"
    unfolding ps by simp
  moreover obtain w w' where "DecryptWriter env mem_buffer (key_config v' key num) = Inr w"
    "write_pieces (dec_writer_Write env) dec_writer_Close ps w = Some (w', None)" "dec_written w' = d"
    using DecryptWriter_pieces [OF assms(1,2,6) ae(1,4,3) ps dvd] by metis
  ultimately show ?thesis by blast
qed

theorem dare_cut_streams_witness:
  "\<exists>ps w w'. DecryptWriter ex_sio_env mem_buffer (key_config 0 ex_key 0) = Inr w \<and>
    write_pieces (dec_writer_Write ex_sio_env) dec_writer_Close ps w = Some (w', None) \<and>
    dec_written w' = replicate maxPayloadSize CHR ''a''"
proof -
  have v: "(0::nat) = 0 \<or> 0 = dare_Version20" by simp
  let ?d = "replicate maxPayloadSize CHR ''a''"
  obtain e where e: "dare_Encrypt ex_sio_env (\<lambda>_. 4) (source_of (?d @ ''bc'')) (key_config 0 ex_key 0) = Some (e, None)"
    using Encrypt_coded [OF ex_sio_env_ok ex_key v, of "\<lambda>_. 4"] by simp
  have l: "length ?d = Suc 0 * maxPayloadSize" by simp
  have p: "concat [take (Suc 0 * maxPackageSize) e] = take (Suc 0 * maxPackageSize) e" by simp
  have x: "''bc'' \<noteq> []" and r: "0 < (4::nat)" by simp_all
  from dare_cut_streams [OF ex_sio_env_ok ex_key r r v v e l x p] show ?thesis by blast
qed

end
