(* ===== verification/CryptoMeta.thy ===== *)
theory CryptoMeta
  imports SigV4 ObjectLock GoPath SioMain
begin

text \<open>
  \<open>cmd/ipos/crypto\<close>: the headers that ask for encryption, the metadata of encrypted objects, and the
  sealing of object keys.  HMAC and SHA-256 are those of the record \<open>crypto\<close>; MD5, the random bytes and the
  two calls of \<open>pkg/sio\<close> are arguments, and \<open>pkg_sio\<close> is the record of those calls on the model of the package.  Keys and vectors are byte strings; where Go has an
  array, its length is a hypothesis of what is proved.
\<close>

section \<open>header.go\<close>

definition SSEHeader :: string where "SSEHeader = ''X-Amz-Server-Side-Encryption''"
definition SSEKmsID :: string where "SSEKmsID = SSEHeader @ ''-Aws-Kms-Key-Id''"
definition SSEKmsContext :: string where "SSEKmsContext = SSEHeader @ ''-Context''"
definition SSECAlgorithm :: string where "SSECAlgorithm = SSEHeader @ ''-Customer-Algorithm''"
definition SSECKey :: string where "SSECKey = SSEHeader @ ''-Customer-Key''"
definition SSECKeyMD5 :: string where "SSECKeyMD5 = SSEHeader @ ''-Customer-Key-Md5''"
definition SSECopyAlgorithm :: string where
  "SSECopyAlgorithm = ''X-Amz-Copy-Source-Server-Side-Encryption-Customer-Algorithm''"
definition SSECopyKey :: string where "SSECopyKey = ''X-Amz-Copy-Source-Server-Side-Encryption-Customer-Key''"
definition SSECopyKeyMD5 :: string where
  "SSECopyKeyMD5 = ''X-Amz-Copy-Source-Server-Side-Encryption-Customer-Key-Md5''"
definition SSEAlgorithmAES256 :: string where "SSEAlgorithmAES256 = ''AES256''"
definition SSEAlgorithmKMS :: string where "SSEAlgorithmKMS = ''aws:kms''"

lemmas sse_headers = SSEHeader_def SSEKmsID_def SSEKmsContext_def SSECAlgorithm_def SSECKey_def SSECKeyMD5_def
  SSECopyAlgorithm_def SSECopyKey_def SSECopyKeyMD5_def

definition RemoveSensitiveHeaders :: "values_map \<Rightarrow> values_map" where
  "RemoveSensitiveHeaders h = h(CanonicalHeaderKey SSECKey := None, CanonicalHeaderKey SSECopyKey := None)"

definition S3_IsRequested :: "(nat \<Rightarrow> nat) \<Rightarrow> values_map \<Rightarrow> bool" where
  "S3_IsRequested lw h \<longleftrightarrow> h SSEHeader \<noteq> None \<and> ToLower lw (header_get h SSEHeader) \<noteq> SSEAlgorithmKMS"

definition S3KMS_IsRequested :: "(nat \<Rightarrow> nat) \<Rightarrow> values_map \<Rightarrow> bool" where
  "S3KMS_IsRequested up h =
     (if h SSEKmsID \<noteq> None then True
      else if h SSEKmsContext \<noteq> None then True
      else if h SSEHeader \<noteq> None then ToUpper up (header_get h SSEHeader) \<noteq> SSEAlgorithmAES256
      else False)"

definition SSEC_IsRequested :: "values_map \<Rightarrow> bool" where
  "SSEC_IsRequested h \<longleftrightarrow> h SSECAlgorithm \<noteq> None \<or> h SSECKey \<noteq> None \<or> h SSECKeyMD5 \<noteq> None"

definition SSECopy_IsRequested :: "values_map \<Rightarrow> bool" where
  "SSECopy_IsRequested h \<longleftrightarrow> h SSECopyAlgorithm \<noteq> None \<or> h SSECopyKey \<noteq> None \<or> h SSECopyKeyMD5 \<noteq> None"

text \<open>\<open>up\<close> and \<open>lw\<close> are the tables of Unicode for upper and lower case.\<close>

definition sse_IsRequested :: "(nat \<Rightarrow> nat) \<Rightarrow> (nat \<Rightarrow> nat) \<Rightarrow> values_map \<Rightarrow> bool" where
  "sse_IsRequested up lw h \<longleftrightarrow> S3_IsRequested lw h \<or> SSEC_IsRequested h \<or> SSECopy_IsRequested h \<or> S3KMS_IsRequested up h"

datatype crypto_err =
    ErrInvalidEncryptionMethod
  | ErrInvalidCustomerAlgorithm
  | ErrMissingCustomerKey
  | ErrMissingCustomerKeyMD5
  | ErrInvalidCustomerKey
  | ErrSecretKeyMismatch
  | ErrCustomerKeyMD5Mismatch
  | errMissingInternalIV
  | errMissingInternalSealAlgorithm
  | errInvalidInternalIV
  | errInvalidInternalSealAlgorithm
  | errMissingS3SealedKey
  | errMissingS3KeyID
  | errMissingS3KMSSealedKey
  | errInvalidS3SealedKey
  | errInvalidS3KMSSealedKey
  | errMissingSSECSealedKey
  | errInvalidSSECSealedKey
  | errSealNotSupported string
  | errSioDecrypt
  | errInvalidContext
  | errMasterKeyColon
  | errMasterKeyLength
  | errMasterKeyHex

definition S3_ParseHTTP :: "values_map \<Rightarrow> crypto_err option" where
  "S3_ParseHTTP h = (if header_get h SSEHeader \<noteq> SSEAlgorithmAES256 then Some ErrInvalidEncryptionMethod else None)"

text \<open>\<open>json\<close> decodes the context of the KMS, \<open>None\<close> when it fails.\<close>

definition S3KMS_ParseHTTP :: "(string \<Rightarrow> 'j option) \<Rightarrow> values_map \<Rightarrow> crypto_err + string \<times> 'j option" where
  "S3KMS_ParseHTTP json h =
     (if header_get h SSEHeader \<noteq> SSEAlgorithmKMS then Inl ErrInvalidEncryptionMethod
      else case h SSEKmsContext of
        Some contextStr \<Rightarrow>
          (case json (contextStr ! 0) of None \<Rightarrow> Inl errInvalidContext | Some c \<Rightarrow> Inr (header_get h SSEKmsID, Some c))
      | None \<Rightarrow> Inr (header_get h SSEKmsID, None))"

text \<open>The headers of a client key: the two \<open>ParseHTTP\<close> differ in their names only.\<close>

definition customer_key :: "(string \<Rightarrow> string) \<Rightarrow> string \<Rightarrow> string \<Rightarrow> string \<Rightarrow> values_map \<Rightarrow> crypto_err + string" where
  "customer_key md5 algorithm key keyMD5 h =
     (if header_get h algorithm \<noteq> SSEAlgorithmAES256 then Inl ErrInvalidCustomerAlgorithm
      else if header_get h key = [] then Inl ErrMissingCustomerKey
      else if header_get h keyMD5 = [] then Inl ErrMissingCustomerKeyMD5
      else case b64_DecodeString (header_get h key) of
        None \<Rightarrow> Inl ErrInvalidCustomerKey
      | Some clientKey \<Rightarrow>
          if length clientKey \<noteq> 32 then Inl ErrInvalidCustomerKey
          else (case b64_DecodeString (header_get h keyMD5) of
            None \<Rightarrow> Inl ErrCustomerKeyMD5Mismatch
          | Some md5sum \<Rightarrow> if md5 clientKey \<noteq> md5sum then Inl ErrCustomerKeyMD5Mismatch else Inr clientKey))"

definition SSEC_ParseHTTP :: "(string \<Rightarrow> string) \<Rightarrow> values_map \<Rightarrow> crypto_err + string" where
  "SSEC_ParseHTTP md5 h = customer_key md5 SSECAlgorithm SSECKey SSECKeyMD5 h"

definition SSECopy_ParseHTTP :: "(string \<Rightarrow> string) \<Rightarrow> values_map \<Rightarrow> crypto_err + string" where
  "SSECopy_ParseHTTP md5 h = customer_key md5 SSECopyAlgorithm SSECopyKey SSECopyKeyMD5 h"

section \<open>sse.go\<close>

definition SSEMultipart :: string where "SSEMultipart = ''X-IPOS-Internal-Encrypted-Multipart''"
definition SSEIV :: string where "SSEIV = ''X-IPOS-Internal-Server-Side-Encryption-Iv''"
definition SSESealAlgorithm :: string where
  "SSESealAlgorithm = ''X-IPOS-Internal-Server-Side-Encryption-Seal-Algorithm''"
definition SSECSealedKey :: string where "SSECSealedKey = ''X-IPOS-Internal-Server-Side-Encryption-Sealed-Key''"
definition S3SealedKey :: string where "S3SealedKey = ''X-IPOS-Internal-Server-Side-Encryption-S3-Sealed-Key''"
definition S3KMSKeyID :: string where "S3KMSKeyID = ''X-IPOS-Internal-Server-Side-Encryption-S3-Kms-Key-Id''"
definition S3KMSSealedKey :: string where
  "S3KMSSealedKey = ''X-IPOS-Internal-Server-Side-Encryption-S3-Kms-Sealed-Key''"
definition SealAlgorithm :: string where "SealAlgorithm = ''DAREv2-HMAC-SHA256''"
definition InsecureSealAlgorithm :: string where "InsecureSealAlgorithm = ''DARE-SHA256''"

lemmas sse_keys = SSEMultipart_def SSEIV_def SSESealAlgorithm_def SSECSealedKey_def S3SealedKey_def S3KMSKeyID_def
  S3KMSSealedKey_def

section \<open>metadata.go\<close>

definition IsMultiPart :: "metadata \<Rightarrow> bool" where
  "IsMultiPart meta \<longleftrightarrow> meta SSEMultipart \<noteq> None"

definition RemoveSensitiveEntries :: "metadata \<Rightarrow> metadata" where
  "RemoveSensitiveEntries meta = meta(SSECKey := None, SSECopyKey := None)"

definition RemoveSSEHeaders :: "metadata \<Rightarrow> metadata" where
  "RemoveSSEHeaders meta = meta(SSEHeader := None, SSECKeyMD5 := None, SSECAlgorithm := None)"

definition RemoveInternalEntries :: "metadata \<Rightarrow> metadata" where
  "RemoveInternalEntries meta =
     meta(SSEMultipart := None, SSEIV := None, SSESealAlgorithm := None, SSECSealedKey := None, S3SealedKey := None,
       S3KMSKeyID := None, S3KMSSealedKey := None)"

definition S3_IsEncrypted :: "metadata \<Rightarrow> bool" where
  "S3_IsEncrypted meta \<longleftrightarrow> meta S3SealedKey \<noteq> None \<or> meta S3KMSKeyID \<noteq> None \<or> meta S3KMSSealedKey \<noteq> None"

definition SSEC_IsEncrypted :: "metadata \<Rightarrow> bool" where
  "SSEC_IsEncrypted meta \<longleftrightarrow> meta SSECSealedKey \<noteq> None"

definition crypto_IsEncrypted :: "metadata \<Rightarrow> bool" where
  "crypto_IsEncrypted meta \<longleftrightarrow>
     meta SSEIV \<noteq> None \<or> meta SSESealAlgorithm \<noteq> None \<or> IsMultiPart meta \<or> S3_IsEncrypted meta \<or> SSEC_IsEncrypted meta"

definition CreateMultipartMetadata :: "metadata \<Rightarrow> metadata" where
  "CreateMultipartMetadata meta = meta(SSEMultipart \<mapsto> [])"

record SealedKey =
  sk_Key :: string
  sk_IV :: string
  sk_Algorithm :: string

text \<open>A critical error ends the call by a panic.\<close>

definition S3_CreateMetadata :: "metadata \<Rightarrow> string \<Rightarrow> string \<Rightarrow> SealedKey \<Rightarrow> metadata go" where
  "S3_CreateMetadata meta keyID kmsKey sealedKey =
     (if sk_Algorithm sealedKey \<noteq> SealAlgorithm then None
      else if keyID = [] \<and> kmsKey \<noteq> [] then None
      else if keyID \<noteq> [] \<and> kmsKey = [] then None
      else
        (let m = meta(SSESealAlgorithm \<mapsto> sk_Algorithm sealedKey,
                      SSEIV \<mapsto> b64_EncodeToString (sk_IV sealedKey),
                      S3SealedKey \<mapsto> b64_EncodeToString (sk_Key sealedKey))
         in Some (if kmsKey \<noteq> [] \<and> keyID \<noteq> [] then m(S3KMSKeyID \<mapsto> keyID, S3KMSSealedKey \<mapsto> b64_EncodeToString kmsKey) else m)))"

definition S3_ParseMetadata :: "metadata \<Rightarrow> crypto_err + string \<times> string \<times> SealedKey" where
  "S3_ParseMetadata meta =
     (case meta SSEIV of
        None \<Rightarrow> Inl errMissingInternalIV
      | Some b64IV \<Rightarrow>
          (case meta SSESealAlgorithm of
             None \<Rightarrow> Inl errMissingInternalSealAlgorithm
           | Some algorithm \<Rightarrow>
               (case meta S3SealedKey of
                  None \<Rightarrow> Inl errMissingS3SealedKey
                | Some b64SealedKey \<Rightarrow>
                    if meta S3KMSKeyID = None \<and> meta S3KMSSealedKey \<noteq> None then Inl errMissingS3KeyID
                    else if meta S3KMSKeyID \<noteq> None \<and> meta S3KMSSealedKey = None then Inl errMissingS3KMSSealedKey
                    else (case b64_DecodeString b64IV of
                      None \<Rightarrow> Inl errInvalidInternalIV
                    | Some iv \<Rightarrow>
                        if length iv \<noteq> 32 then Inl errInvalidInternalIV
                        else if algorithm \<noteq> SealAlgorithm then Inl errInvalidInternalSealAlgorithm
                        else (case b64_DecodeString b64SealedKey of
                          None \<Rightarrow> Inl errInvalidS3SealedKey
                        | Some encryptedKey \<Rightarrow>
                            if length encryptedKey \<noteq> 64 then Inl errInvalidS3SealedKey
                            else
                              (let sealed = \<lparr>sk_Key = encryptedKey, sk_IV = iv, sk_Algorithm = algorithm\<rparr> in
                               case (meta S3KMSKeyID, meta S3KMSSealedKey) of
                                 (Some keyID, Some b64KMSSealedKey) \<Rightarrow>
                                   (case b64_DecodeString b64KMSSealedKey of
                                      None \<Rightarrow> Inl errInvalidS3KMSSealedKey
                                    | Some kmsKey \<Rightarrow> Inr (keyID, kmsKey, sealed))
                               | _ \<Rightarrow> Inr ([], [], sealed)))))))"

definition SSEC_CreateMetadata :: "metadata \<Rightarrow> SealedKey \<Rightarrow> metadata go" where
  "SSEC_CreateMetadata meta sealedKey =
     (if sk_Algorithm sealedKey \<noteq> SealAlgorithm then None
      else Some (meta(SSESealAlgorithm \<mapsto> SealAlgorithm, SSEIV \<mapsto> b64_EncodeToString (sk_IV sealedKey),
        SSECSealedKey \<mapsto> b64_EncodeToString (sk_Key sealedKey))))"

definition SSEC_ParseMetadata :: "metadata \<Rightarrow> crypto_err + SealedKey" where
  "SSEC_ParseMetadata meta =
     (case meta SSEIV of
        None \<Rightarrow> Inl errMissingInternalIV
      | Some b64IV \<Rightarrow>
          (case meta SSESealAlgorithm of
             None \<Rightarrow> Inl errMissingInternalSealAlgorithm
           | Some algorithm \<Rightarrow>
               (case meta SSECSealedKey of
                  None \<Rightarrow> Inl errMissingSSECSealedKey
                | Some b64SealedKey \<Rightarrow>
                    (case b64_DecodeString b64IV of
                       None \<Rightarrow> Inl errInvalidInternalIV
                     | Some iv \<Rightarrow>
                         if length iv \<noteq> 32 then Inl errInvalidInternalIV
                         else if algorithm \<noteq> SealAlgorithm \<and> algorithm \<noteq> InsecureSealAlgorithm
                         then Inl errInvalidInternalSealAlgorithm
                         else (case b64_DecodeString b64SealedKey of
                           None \<Rightarrow> Inl errInvalidSSECSealedKey
                         | Some encryptedKey \<Rightarrow>
                             if length encryptedKey \<noteq> 64 then Inl errInvalidSSECSealedKey
                             else Inr \<lparr>sk_Key = encryptedKey, sk_IV = iv, sk_Algorithm = algorithm\<rparr>)))))"

definition IsETagSealed :: "string \<Rightarrow> bool" where
  "IsETagSealed etag \<longleftrightarrow> 16 < length etag"

section \<open>key.go\<close>

text \<open>The calls of \<open>pkg/sio\<close>: \<open>None\<close> is an error; \<open>sio_Decrypt\<close> takes the smallest version allowed.\<close>

record sio =
  sio_Encrypt :: "string \<Rightarrow> string \<Rightarrow> string option"
  sio_Decrypt :: "nat \<Rightarrow> string \<Rightarrow> string \<Rightarrow> string option"

definition Version10 :: nat where "Version10 = 0x10"
definition Version20 :: nat where "Version20 = 0x20"

definition result_of :: "(string \<times> sio_err option) option \<Rightarrow> string option" where
  "result_of x = (case x of Some (d, None) \<Rightarrow> Some d | _ \<Rightarrow> None)"

definition pkg_sio :: "sio_env \<Rightarrow> (nat \<Rightarrow> nat) \<Rightarrow> sio" where
  "pkg_sio env room = \<lparr>
     sio_Encrypt = (\<lambda>key d. result_of (dare_Encrypt env room (source_of d) (key_config 0 key 0))),
     sio_Decrypt = (\<lambda>v key e. result_of (dare_Decrypt env room (source_of e) (key_config v key 0)))\<rparr>"

text \<open>The random source has at least 32 bytes or the call panics.\<close>

definition crypto_GenerateKey :: "crypto \<Rightarrow> string \<Rightarrow> string option \<Rightarrow> string go" where
  "crypto_GenerateKey cr extKey random =
     (case random of None \<Rightarrow> None | Some nonce \<Rightarrow> Some (Sum256 cr (extKey @ take 32 nonce)))"

definition GenerateIV :: "string option \<Rightarrow> string go" where
  "GenerateIV random = (case random of None \<Rightarrow> None | Some bs \<Rightarrow> Some (take 32 bs))"

definition sealing_key :: "crypto \<Rightarrow> string \<Rightarrow> string \<Rightarrow> string \<Rightarrow> string \<Rightarrow> string \<Rightarrow> string" where
  "sealing_key cr extKey iv domain bucket object =
     sumHMAC cr extKey (iv @ domain @ SealAlgorithm @ path_Join [bucket, object])"

definition Seal :: "crypto \<Rightarrow> sio \<Rightarrow> string \<Rightarrow> string \<Rightarrow> string \<Rightarrow> string \<Rightarrow> string \<Rightarrow> string \<Rightarrow> SealedKey go" where
  "Seal cr si key extKey iv domain bucket object =
     (case sio_Encrypt si (sealing_key cr extKey iv domain bucket object) key of
        None \<Rightarrow> None
      | Some encryptedKey \<Rightarrow>
          if length encryptedKey \<noteq> 64 then None
          else Some \<lparr>sk_Key = encryptedKey, sk_IV = iv, sk_Algorithm = SealAlgorithm\<rparr>)"

definition Unseal :: "crypto \<Rightarrow> sio \<Rightarrow> string \<Rightarrow> SealedKey \<Rightarrow> string \<Rightarrow> string \<Rightarrow> string \<Rightarrow> crypto_err + string" where
  "Unseal cr si extKey sealedKey domain bucket object =
     (case (if sk_Algorithm sealedKey = SealAlgorithm
            then Some (Version20, sealing_key cr extKey (sk_IV sealedKey) domain bucket object)
            else if sk_Algorithm sealedKey = InsecureSealAlgorithm
            then Some (Version10, Sum256 cr (extKey @ sk_IV sealedKey)) else None) of
        None \<Rightarrow> Inl (errSealNotSupported (sk_Algorithm sealedKey))
      | Some (version, unsealKey) \<Rightarrow>
          (case sio_Decrypt si version unsealKey (sk_Key sealedKey) of
             None \<Rightarrow> Inl ErrSecretKeyMismatch
           | Some key \<Rightarrow> if length key \<noteq> 32 then Inl ErrSecretKeyMismatch else Inr key))"

text \<open>The four bytes of a part number, the lowest first.\<close>

definition little_endian32 :: "nat \<Rightarrow> string" where
  "little_endian32 n = map (\<lambda>i. char_of (n div 256 ^ i mod 256)) [0..<4]"

definition DerivePartKey :: "crypto \<Rightarrow> string \<Rightarrow> nat \<Rightarrow> string" where
  "DerivePartKey cr key n = sumHMAC cr key (little_endian32 n)"

definition SealETag :: "crypto \<Rightarrow> sio \<Rightarrow> string \<Rightarrow> string \<Rightarrow> string go" where
  "SealETag cr si key etag =
     (if etag = [] then Some etag else sio_Encrypt si (sumHMAC cr key ''SSE-etag'') etag)"

definition UnsealETag :: "crypto \<Rightarrow> sio \<Rightarrow> string \<Rightarrow> string \<Rightarrow> crypto_err + string" where
  "UnsealETag cr si key etag =
     (if \<not> IsETagSealed etag then Inr etag
      else case sio_Decrypt si Version10 (sumHMAC cr key ''SSE-etag'') etag of
        None \<Rightarrow> Inl errSioDecrypt
      | Some e \<Rightarrow> Inr e)"

section \<open>kms.go\<close>

text \<open>What \<open>Context.WriteTo\<close> writes, without escapes.\<close>

definition Context_WriteTo :: "(string \<Rightarrow> string option) \<Rightarrow> string" where
  "Context_WriteTo c =
     ''{'' @ JoinOn '','' (map (\<lambda>k. [CHR 0x22] @ k @ [CHR 0x22, CHR '':'', CHR 0x22] @ the (c k) @ [CHR 0x22])
       (sorted_list_of_set (dom c))) @ ''}''"

record masterKeyKMS =
  kms_keyID :: string
  kms_masterKey :: string

definition NewMasterKey :: "string \<Rightarrow> string \<Rightarrow> masterKeyKMS" where
  "NewMasterKey keyID key = \<lparr>kms_keyID = keyID, kms_masterKey = key\<rparr>"

definition kms_deriveKey :: "crypto \<Rightarrow> masterKeyKMS \<Rightarrow> string \<Rightarrow> (string \<Rightarrow> string option) \<Rightarrow> string" where
  "kms_deriveKey cr kms keyID ctx = sumHMAC cr (kms_masterKey kms) (keyID @ Context_WriteTo ctx)"

definition kms_GenerateKey :: "crypto \<Rightarrow> sio \<Rightarrow> masterKeyKMS \<Rightarrow> string option \<Rightarrow> string \<Rightarrow> (string \<Rightarrow> string option) \<Rightarrow> (string \<times> string) go" where
  "kms_GenerateKey cr si kms random keyID ctx =
     (case random of
        None \<Rightarrow> None
      | Some bs \<Rightarrow>
          (case sio_Encrypt si (kms_deriveKey cr kms keyID ctx) (take 32 bs) of
             None \<Rightarrow> None
           | Some sealedKey \<Rightarrow> if length sealedKey \<noteq> 64 then None else Some (take 32 bs, sealedKey)))"

text \<open>A decryption to another length than 32 returns the zero key and no error.\<close>

definition kms_UnsealKey :: "crypto \<Rightarrow> sio \<Rightarrow> masterKeyKMS \<Rightarrow> string \<Rightarrow> string \<Rightarrow> (string \<Rightarrow> string option) \<Rightarrow> crypto_err + string" where
  "kms_UnsealKey cr si kms keyID sealedKey ctx =
     (case sio_Decrypt si Version10 (kms_deriveKey cr kms keyID ctx) sealedKey of
        None \<Rightarrow> Inl errSioDecrypt
      | Some key \<Rightarrow> if length key \<noteq> 32 then Inr (replicate 32 CHR 0x00) else Inr key)"

definition kms_UpdateKey :: "crypto \<Rightarrow> sio \<Rightarrow> masterKeyKMS \<Rightarrow> string \<Rightarrow> string \<Rightarrow> (string \<Rightarrow> string option) \<Rightarrow> crypto_err + string" where
  "kms_UpdateKey cr si kms keyID sealedKey ctx =
     (case kms_UnsealKey cr si kms keyID sealedKey ctx of Inl err \<Rightarrow> Inl err | Inr _ \<Rightarrow> Inr sealedKey)"

section \<open>Object keys\<close>

definition S3_String :: string where "S3_String = ''SSE-S3''"
definition SSEC_String :: string where "SSEC_String = ''SSE-C''"

definition S3_UnsealObjectKey :: "crypto \<Rightarrow> sio \<Rightarrow> masterKeyKMS \<Rightarrow> metadata \<Rightarrow> string \<Rightarrow> string \<Rightarrow> crypto_err + string" where
  "S3_UnsealObjectKey cr si kms meta bucket object =
     (case S3_ParseMetadata meta of
        Inl err \<Rightarrow> Inl err
      | Inr (keyID, kmsKey, sealedKey) \<Rightarrow>
          (case kms_UnsealKey cr si kms keyID kmsKey [bucket \<mapsto> path_Join [bucket, object]] of
             Inl err \<Rightarrow> Inl err
           | Inr unsealKey \<Rightarrow> Unseal cr si unsealKey sealedKey S3_String bucket object))"

definition unsealObjectKey :: "crypto \<Rightarrow> sio \<Rightarrow> string \<Rightarrow> metadata \<Rightarrow> string \<Rightarrow> string \<Rightarrow> crypto_err + string" where
  "unsealObjectKey cr si clientKey meta bucket object =
     (case SSEC_ParseMetadata meta of
        Inl err \<Rightarrow> Inl err
      | Inr sealedKey \<Rightarrow> Unseal cr si clientKey sealedKey SSEC_String bucket object)"

definition SSEC_UnsealObjectKey where
  "SSEC_UnsealObjectKey cr si md5 h meta bucket object =
     (case SSEC_ParseHTTP md5 h of Inl err \<Rightarrow> Inl err | Inr clientKey \<Rightarrow> unsealObjectKey cr si clientKey meta bucket object)"

definition SSECopy_UnsealObjectKey where
  "SSECopy_UnsealObjectKey cr si md5 h meta bucket object =
     (case SSECopy_ParseHTTP md5 h of Inl err \<Rightarrow> Inl err | Inr clientKey \<Rightarrow> unsealObjectKey cr si clientKey meta bucket object)"

section \<open>Properties\<close>

lemma defaults_Version10:
  "dare_Decrypt env room src (key_config Version10 key num) = dare_Decrypt env room src (key_config 0 key num)"
proof -
  have "setConfigDefaults aes r (key_config Version10 key num) = setConfigDefaults aes r (key_config 0 key num)" for aes r
    by (simp add: setConfigDefaults_def key_config_def Version10_def dare_Version10_def dare_Version20_def Let_def)
  then show ?thesis by (simp add: dare_Decrypt_def DecryptReader_def)
qed

text \<open>Decryption under the same key of 32 bytes undoes encryption, and 32 bytes become 64.\<close>

lemma sio_decrypts:
  assumes "env_ok env" and "\<And>i. 0 < room i" and "length k = 32" and "d \<noteq> []"
    and "sio_Encrypt (pkg_sio env room) k d = Some e" and "v = Version10 \<or> v = Version20"
  shows "sio_Decrypt (pkg_sio env room) v k e = Some d"
proof -
  have k: "length k = keySize" using assms(3) by (simp add: keySize_def)
  have v: "(0::nat) = 0 \<or> 0 = dare_Version20" "(if v = Version10 then 0 else v) = 0 \<or> (if v = Version10 then 0 else v) = dare_Version20 \<and> d \<noteq> []"
    using assms(4,6) by (auto simp: Version20_def dare_Version20_def)
  obtain e' where e': "dare_Encrypt env room (source_of d) (key_config 0 k 0) = Some (e', None)"
    "dare_Decrypt env room (source_of e') (key_config (if v = Version10 then 0 else v) k 0) = Some (d, None)"
    using dare_reads_back [where room = room and room' = room, OF assms(1) k assms(2) assms(2) v] by blast
  then have "e' = e" using assms(5) by (simp add: pkg_sio_def result_of_def)
  moreover have "dare_Decrypt env room (source_of e') (key_config v k 0) = Some (d, None)"
    using e'(2) by (cases "v = Version10") (simp_all add: defaults_Version10)
  ultimately show ?thesis by (simp add: pkg_sio_def result_of_def)
qed

lemma S3_keys_distinct:
  "distinct [SSEMultipart, SSEIV, SSESealAlgorithm, SSECSealedKey, S3SealedKey, S3KMSKeyID, S3KMSSealedKey]"
  by (simp add: sse_keys)

lemma S3_metadata:
  assumes "S3_CreateMetadata meta keyID kmsKey sealedKey = Some m" and "length (sk_IV sealedKey) = 32"
    and "length (sk_Key sealedKey) = 64" and "kmsKey \<noteq> []"
  shows "S3_ParseMetadata m = Inr (keyID, kmsKey, sealedKey)"
proof -
  from assms have m: "m = meta(SSESealAlgorithm \<mapsto> SealAlgorithm, SSEIV \<mapsto> b64_EncodeToString (sk_IV sealedKey),
      S3SealedKey \<mapsto> b64_EncodeToString (sk_Key sealedKey), S3KMSKeyID \<mapsto> keyID, S3KMSSealedKey \<mapsto> b64_EncodeToString kmsKey)"
    and alg: "sk_Algorithm sealedKey = SealAlgorithm"
    by (auto simp: S3_CreateMetadata_def Let_def split: if_splits)
  have keys: "m SSEIV = Some (b64_EncodeToString (sk_IV sealedKey))" "m SSESealAlgorithm = Some SealAlgorithm"
    "m S3SealedKey = Some (b64_EncodeToString (sk_Key sealedKey))" "m S3KMSKeyID = Some keyID"
    "m S3KMSSealedKey = Some (b64_EncodeToString kmsKey)"
    using S3_keys_distinct unfolding m by auto
  show ?thesis
    using assms(2,3) alg by (simp add: S3_ParseMetadata_def keys b64_roundtrip Let_def)
qed

lemma Unseal_Seal:
  assumes "env_ok env" and "\<And>i. 0 < room i" and "\<And>k d. length (sumHMAC cr k d) = 32"
    and "Seal cr (pkg_sio env room) key extKey iv domain bucket object = Some sealed" and "length key = 32"
  shows "Unseal cr (pkg_sio env room) extKey sealed domain bucket object = Inr key"
proof -
  let ?si = "pkg_sio env room"
  from assms(4) obtain e where e: "sio_Encrypt ?si (sealing_key cr extKey iv domain bucket object) key = Some e"
    and sealed: "sealed = \<lparr>sk_Key = e, sk_IV = iv, sk_Algorithm = SealAlgorithm\<rparr>"
    by (auto simp: Seal_def split: option.splits if_splits)
  have "length (sealing_key cr extKey iv domain bucket object) = 32" by (simp add: sealing_key_def assms(3))
  moreover have "key \<noteq> []" using assms(5) by auto
  ultimately have "sio_Decrypt ?si Version20 (sealing_key cr extKey iv domain bucket object) e = Some key"
    using sio_decrypts [where room = room, OF assms(1,2) _ _ e] by simp
  then show ?thesis by (simp add: Unseal_def sealed assms(5))
qed

text \<open>C10: The key of an object that is sealed with a key of the KMS and stored in the metadata of the
  object is found again from the metadata by whoever holds the master key: no step on the way loses
  or mixes up a field, whatever other metadata the object has.\<close>

theorem object_key_roundtrip:
  assumes "env_ok env" and "\<And>i. 0 < room i" and "\<And>k d. length (sumHMAC cr k d) = 32"
    and "length key = 32" and "length iv = 32" and "32 \<le> length rnd" and "keyID \<noteq> []"
    and "kms_GenerateKey cr (pkg_sio env room) kms (Some rnd) keyID [bucket \<mapsto> path_Join [bucket, object]] = Some (extKey, kmsKey)"
    and "Seal cr (pkg_sio env room) key extKey iv S3_String bucket object = Some sealed"
    and "S3_CreateMetadata meta keyID kmsKey sealed = Some m"
  shows "S3_UnsealObjectKey cr (pkg_sio env room) kms m bucket object = Inr key \<and> S3_IsEncrypted m \<and> crypto_IsEncrypted m \<and>
    S3_UnsealObjectKey cr (pkg_sio env room) kms (RemoveSensitiveEntries m) bucket object = Inr key"
proof -
  let ?si = "pkg_sio env room" and ?ctx = "[bucket \<mapsto> path_Join [bucket, object]]"
  from assms(8) have enc: "sio_Encrypt ?si (kms_deriveKey cr kms keyID ?ctx) (take 32 rnd) = Some kmsKey"
    and ext: "extKey = take 32 rnd" and len: "length kmsKey = 64"
    by (auto simp: kms_GenerateKey_def split: option.splits if_splits)
  have "length (kms_deriveKey cr kms keyID ?ctx) = 32" by (simp add: kms_deriveKey_def assms(3))
  moreover have "take 32 rnd \<noteq> []" using assms(6) by auto
  ultimately have dec: "sio_Decrypt ?si Version10 (kms_deriveKey cr kms keyID ?ctx) kmsKey = Some (take 32 rnd)"
    using sio_decrypts [where room = room, OF assms(1,2) _ _ enc] by simp
  have kms: "kms_UnsealKey cr ?si kms keyID kmsKey ?ctx = Inr extKey"
    using assms(6) by (simp add: kms_UnsealKey_def dec ext)
  from assms(9) have iv: "sk_IV sealed = iv" by (auto simp: Seal_def split: option.splits if_splits)
  have key64: "length (sk_Key sealed) = 64" using assms(9) by (auto simp: Seal_def split: option.splits if_splits)
  have parse: "S3_ParseMetadata m = Inr (keyID, kmsKey, sealed)"
    using S3_metadata [OF assms(10)] assms(5) iv key64 len by fastforce
  have same: "RemoveSensitiveEntries m SSEIV = m SSEIV" "RemoveSensitiveEntries m SSESealAlgorithm = m SSESealAlgorithm"
    "RemoveSensitiveEntries m S3SealedKey = m S3SealedKey" "RemoveSensitiveEntries m S3KMSKeyID = m S3KMSKeyID"
    "RemoveSensitiveEntries m S3KMSSealedKey = m S3KMSSealedKey"
    by (simp_all add: RemoveSensitiveEntries_def sse_keys sse_headers)
  have "S3_ParseMetadata (RemoveSensitiveEntries m) = S3_ParseMetadata m" unfolding S3_ParseMetadata_def same ..
  moreover have "S3_IsEncrypted m"
    using assms(10) by (auto simp: S3_CreateMetadata_def S3_IsEncrypted_def Let_def split: if_splits)
  ultimately show ?thesis
    using Unseal_Seal [where room = room, OF assms(1,2,3,9,4)] by (simp add: S3_UnsealObjectKey_def parse kms crypto_IsEncrypted_def)
qed

text \<open>With HMAC replaced by the first 32 bytes of its arguments and zeros.\<close>

definition ex_crypto :: crypto where
  "ex_crypto = \<lparr>sumHMAC = \<lambda>k d. take 32 (k @ d @ replicate 32 CHR ''0''), Sum256 = \<lambda>d. d\<rparr>"

lemma ex_encrypts:
  assumes "length k = 32" and "length d = 32"
  obtains e where "sio_Encrypt (pkg_sio ex_sio_env (\<lambda>_. 1)) k d = Some e" and "length e = 64"
proof -
  have k: "length k = keySize" using assms(1) by (simp add: keySize_def)
  have "dare_Encrypt ex_sio_env (\<lambda>_. 1) (source_of d) (key_config 0 k 0) = Some (coded (new_ae ex_sio_env k 0) d True, None)"
    using Encrypt_coded [where room = "\<lambda>_. 1", OF ex_sio_env_ok k] by simp
  moreover have "length (coded (new_ae ex_sio_env k 0) d True) = 64"
    using length_coded [OF new_ae_ok(1) [OF ex_sio_env_ok k]] assms(2)
    by (simp add: encoded_length_def maxPayloadSize_def sizes)
  ultimately show ?thesis using that by (simp add: pkg_sio_def result_of_def)
qed

theorem object_key_roundtrip_witness:
  "\<exists>m. S3_UnsealObjectKey ex_crypto (pkg_sio ex_sio_env (\<lambda>_. 1)) (NewMasterKey ''id'' ''master'') m ''bucket'' ''a/b'' =
     Inr (replicate 32 CHR ''k'')"
proof -
  let ?cr = ex_crypto and ?si = "pkg_sio ex_sio_env (\<lambda>_. 1)" and ?kms = "NewMasterKey ''id'' ''master''"
  let ?key = "replicate 32 (CHR ''k'')" and ?rnd = "replicate 32 (CHR ''r'')" and ?iv = "replicate 32 (CHR ''i'')"
  let ?ctx = "[''bucket'' \<mapsto> path_Join [''bucket'', ''a/b'']]"
  have hmac: "length (sumHMAC ?cr k d) = 32" for k d by (simp add: ex_crypto_def)
  have l: "length ?key = 32" "length ?iv = 32" "length ?rnd = 32" "32 \<le> length ?rnd" "''id'' \<noteq> []"
    by (simp_all only: length_replicate) simp_all
  obtain kmsKey where k: "sio_Encrypt ?si (kms_deriveKey ?cr ?kms ''id'' ?ctx) ?rnd = Some kmsKey" "length kmsKey = 64"
    using ex_encrypts [OF _ l(3), of "kms_deriveKey ?cr ?kms ''id'' ?ctx"] by (auto simp: kms_deriveKey_def hmac)
  obtain sealedKey where sk: "sio_Encrypt ?si (sealing_key ?cr ?rnd ?iv S3_String ''bucket'' ''a/b'') ?key = Some sealedKey"
    "length sealedKey = 64"
    using ex_encrypts [OF _ l(1), of "sealing_key ?cr ?rnd ?iv S3_String ''bucket'' ''a/b''"] by (auto simp: sealing_key_def hmac)
  have "take 32 ?rnd = ?rnd" using l(3) by simp
  then have gen: "kms_GenerateKey ?cr ?si ?kms (Some ?rnd) ''id'' ?ctx = Some (?rnd, kmsKey)"
    using k unfolding kms_GenerateKey_def by simp
  have seal: "Seal ?cr ?si ?key ?rnd ?iv S3_String ''bucket'' ''a/b'' =
      Some \<lparr>sk_Key = sealedKey, sk_IV = ?iv, sk_Algorithm = SealAlgorithm\<rparr>"
    unfolding Seal_def sk(1) option.case using sk(2) by simp
  obtain m where m: "S3_CreateMetadata Map.empty ''id'' kmsKey \<lparr>sk_Key = sealedKey, sk_IV = ?iv, sk_Algorithm = SealAlgorithm\<rparr> = Some m"
    unfolding S3_CreateMetadata_def Let_def SealedKey.simps using k(2) by (cases "kmsKey = []") simp_all
  have room: "0 < (1::nat)" by simp
  from object_key_roundtrip [OF ex_sio_env_ok room hmac l(1,2,4,5) gen seal m] show ?thesis by blast
qed

end
