(* ===== verification/ObjectUtils.thy ===== *)
theory ObjectUtils
  imports CryptoMeta S3Utils Wildcard
begin

text \<open>
  \<open>cmd/ipos/cmd/object-api-utils.go\<close>: names of buckets and objects, metadata of objects, and what is
  small beside them in \<open>object-handlers-common.go\<close>, \<open>generic-handlers.go\<close> and \<open>utils.go\<close>.  The server does
  not run on Windows, so names are compared as they are.
\<close>

section \<open>Names\<close>

definition iposMetaBucket :: string where "iposMetaBucket = ''.ipos.sys''"
definition mpartMetaPrefix :: string where "mpartMetaPrefix = ''multipart''"
definition iposMetaMultipartBucket :: string where
  "iposMetaMultipartBucket = iposMetaBucket @ SlashSeparator @ mpartMetaPrefix"
definition iposMetaTmpBucket :: string where "iposMetaTmpBucket = iposMetaBucket @ ''/tmp''"
definition dnsDelimiter :: string where "dnsDelimiter = ''.''"
definition ReservedMetadataPrefix :: string where "ReservedMetadataPrefix = ''X-IPOS-Internal-''"
definition iposReservedBucket :: string where "iposReservedBucket = ''ipos''"
definition iposReservedBucketPath :: string where "iposReservedBucketPath = SlashSeparator @ iposReservedBucket"

definition isIPOSMetaBucketName :: "string \<Rightarrow> bool" where
  "isIPOSMetaBucketName bucket \<longleftrightarrow>
     bucket = iposMetaBucket \<or> bucket = iposMetaMultipartBucket \<or> bucket = iposMetaTmpBucket"

text \<open>The loop over the bytes of a piece: \<open>None\<close> ends the check, otherwise whether a letter or a dash
  has been seen.\<close>

fun piece_bytes :: "bool \<Rightarrow> string \<Rightarrow> bool option" where
  "piece_bytes isNotNumber [] = Some isNotNumber"
| "piece_bytes isNotNumber (c # cs) =
     (if is_lower c \<or> c = CHR ''-'' then piece_bytes True cs
      else if is_digit c then piece_bytes isNotNumber cs
      else None)"

fun valid_pieces :: "bool \<Rightarrow> string list \<Rightarrow> bool option" where
  "valid_pieces allNumbers [] = Some allNumbers"
| "valid_pieces allNumbers (piece # pieces) =
     (if piece = [] \<or> hd piece = CHR ''-'' \<or> last piece = CHR ''-'' then None
      else case piece_bytes False piece of
        None \<Rightarrow> None
      | Some isNotNumber \<Rightarrow> valid_pieces (allNumbers \<and> \<not> isNotNumber) pieces)"

definition IsValidBucketName :: "string \<Rightarrow> bool" where
  "IsValidBucketName bucket =
     (if isIPOSMetaBucketName bucket then True
      else if length bucket < 3 \<or> 63 < length bucket then False
      else
        (let pieces = SplitOn CHR ''.'' bucket in
         case valid_pieces True pieces of
           None \<Rightarrow> False
         | Some allNumbers \<Rightarrow> \<not> (length pieces = 4 \<and> allNumbers)))"

definition IsValidObjectPrefix :: "string \<Rightarrow> bool" where
  "IsValidObjectPrefix object = (if \<not> ValidString object then False else \<not> Contains object ''//'')"

definition IsValidObjectName :: "string \<Rightarrow> bool" where
  "IsValidObjectName object =
     (if length object = 0 then False
      else if HasSuffix object SlashSeparator then False
      else IsValidObjectPrefix object)"

datatype name_err = ObjectNameTooLong string string | ObjectNamePrefixAsSlash string string

definition checkObjectNameForLengthAndSlash :: "string \<Rightarrow> string \<Rightarrow> name_err option" where
  "checkObjectNameForLengthAndSlash bucket object =
     (if 1024 < length object then Some (ObjectNameTooLong bucket object)
      else if HasPrefix object SlashSeparator then Some (ObjectNamePrefixAsSlash bucket object)
      else None)"

definition retainSlash :: "string \<Rightarrow> string" where
  "retainSlash s = TrimSuffix s SlashSeparator @ SlashSeparator"

definition pathsJoinPrefix :: "string \<Rightarrow> string list \<Rightarrow> string list" where
  "pathsJoinPrefix pre elem = map (\<lambda>e. pathJoin [pre, e]) elem"

definition isIPOSMetaBucket :: "string \<Rightarrow> bool" where
  "isIPOSMetaBucket bucketName \<longleftrightarrow> bucketName = iposMetaBucket"

definition isIPOSReservedBucket :: "string \<Rightarrow> bool" where
  "isIPOSReservedBucket bucketName \<longleftrightarrow> bucketName = iposReservedBucket"

definition isReservedOrInvalidBucket :: "string \<Rightarrow> bool \<Rightarrow> bool" where
  "isReservedOrInvalidBucket bucketEntry0 strict =
     (let bucketEntry = TrimSuffix bucketEntry0 SlashSeparator in
      if strict \<and> CheckValidBucketNameStrict bucketEntry \<noteq> None then True
      else if \<not> strict \<and> CheckValidBucketName bucketEntry \<noteq> None then True
      else isIPOSMetaBucket bucketEntry \<or> isIPOSReservedBucket bucketEntry)"

text \<open>The redirection of a browser to its own pages.\<close>

definition getRedirectLocation :: "string \<Rightarrow> string" where
  "getRedirectLocation urlPath =
     (if urlPath \<in> set [SlashSeparator, ''/webrpc'', ''/login'', ''/favicon-16x16.png'', ''/favicon-32x32.png'', ''/favicon-96x96.png'']
      then iposReservedBucketPath @ urlPath
      else if urlPath = iposReservedBucketPath then iposReservedBucketPath @ SlashSeparator
      else [])"

section \<open>Sizes\<close>

definition globalMaxObjectSize :: int where "globalMaxObjectSize = 5 * 2 ^ 40"
definition globalMinPartSize :: int where "globalMinPartSize = 5 * 2 ^ 20"
definition globalMaxPartSize :: int where "globalMaxPartSize = 5 * 2 ^ 30"
definition globalMaxPartID :: int where "globalMaxPartID = 10000"

definition isMaxObjectSize :: "int \<Rightarrow> bool" where "isMaxObjectSize size' \<longleftrightarrow> globalMaxObjectSize < size'"
definition isMaxAllowedPartSize :: "int \<Rightarrow> bool" where "isMaxAllowedPartSize size' \<longleftrightarrow> globalMaxPartSize < size'"
definition isMinAllowedPartSize :: "int \<Rightarrow> bool" where "isMinAllowedPartSize size' \<longleftrightarrow> globalMinPartSize \<le> size'"
definition isMaxPartID :: "int \<Rightarrow> bool" where "isMaxPartID partID \<longleftrightarrow> globalMaxPartID < partID"

section \<open>Entity tags\<close>

text \<open>The expression \<open>"*?([^"]*?)"*?$\<close>: quotes, the tag, quotes and the end.  The first place where it
  matches is replaced by the tag.\<close>

definition is_quote :: "char \<Rightarrow> bool" where "is_quote c \<longleftrightarrow> c = CHR 0x22"

definition etag_match :: "string \<Rightarrow> string option" where
  "etag_match s =
     (let r = dropWhile is_quote s in
      if list_all is_quote (dropWhile (\<lambda>c. \<not> is_quote c) r) then Some (takeWhile (\<lambda>c. \<not> is_quote c) r) else None)"

fun canonicalizeETag :: "string \<Rightarrow> string" where
  "canonicalizeETag [] = []"
| "canonicalizeETag (c # s) = (case etag_match (c # s) of Some tag \<Rightarrow> tag | None \<Rightarrow> c # canonicalizeETag s)"

definition isETagEqual :: "string \<Rightarrow> string \<Rightarrow> bool" where
  "isETagEqual left right \<longleftrightarrow> canonicalizeETag left = canonicalizeETag right"

text \<open>The tag of an upload in parts, with the sum of the sums; the parts are their tags.\<close>

definition getCompleteMultipartMD5 :: "(string \<Rightarrow> string) \<Rightarrow> string list \<Rightarrow> string" where
  "getCompleteMultipartMD5 md5 parts =
     (let finalMD5Bytes = concat (map (\<lambda>etag. case hex_DecodeString (canonicalizeETag etag) of None \<Rightarrow> etag | Some b \<Rightarrow> b) parts)
      in hex_EncodeToString (md5 finalMD5Bytes) @ ''-'' @ Itoa (int (length parts)))"

section \<open>Metadata\<close>

definition AmzStorageClass :: string where "AmzStorageClass = ''x-amz-storage-class''"
definition AmzObjectTagging :: string where "AmzObjectTagging = ''X-Amz-Tagging''"

definition removeStandardStorageClass :: "metadata \<Rightarrow> metadata" where
  "removeStandardStorageClass meta =
     (if meta AmzStorageClass = Some ''STANDARD'' then meta(AmzStorageClass := None) else meta)"

definition cleanMetadataKeys :: "metadata \<Rightarrow> string list \<Rightarrow> metadata" where
  "cleanMetadataKeys meta keyNames = (\<lambda>k. if k \<in> set keyNames then None else meta k)"

definition cleanMetadata :: "metadata \<Rightarrow> metadata" where
  "cleanMetadata meta = cleanMetadataKeys (removeStandardStorageClass meta) [''md5Sum'', ''etag'', ''expires'', AmzObjectTagging]"

definition extractETag :: "metadata \<Rightarrow> string" where
  "extractETag meta =
     (case meta ''md5Sum'' of Some etag \<Rightarrow> etag | None \<Rightarrow> (case meta ''etag'' of Some etag \<Rightarrow> etag | None \<Rightarrow> []))"

definition compressionAlgorithmV1 :: string where "compressionAlgorithmV1 = ''golang/snappy/LZ77''"
definition compressionAlgorithmV2 :: string where "compressionAlgorithmV2 = ''klauspost/compress/s2''"

definition IsCompressed :: "metadata \<Rightarrow> bool" where
  "IsCompressed meta \<longleftrightarrow> meta (ReservedMetadataPrefix @ ''compression'') \<noteq> None"

datatype compress_err = CompressedAndEncrypted string | UnknownCompression string

text \<open>The error and whether the object is compressed.\<close>

definition IsCompressedOK :: "metadata \<Rightarrow> bool \<times> compress_err option" where
  "IsCompressedOK meta =
     (case meta (ReservedMetadataPrefix @ ''compression'') of
        None \<Rightarrow> (False, None)
      | Some scheme \<Rightarrow>
          if crypto_IsEncrypted meta then (True, Some (CompressedAndEncrypted scheme))
          else if scheme = compressionAlgorithmV1 \<or> scheme = compressionAlgorithmV2 then (True, None)
          else (True, Some (UnknownCompression scheme)))"

definition GetActualSize :: "metadata \<Rightarrow> int" where
  "GetActualSize meta =
     (case meta (ReservedMetadataPrefix @ ''actual-size'') of
        None \<Rightarrow> -1
      | Some sizeStr \<Rightarrow> (case ParseInt sizeStr of None \<Rightarrow> -1 | Some n \<Rightarrow> n))"

definition hasStringSuffixInSlice :: "(nat \<Rightarrow> nat) \<Rightarrow> string \<Rightarrow> string list \<Rightarrow> bool" where
  "hasStringSuffixInSlice lw str list = list_ex (\<lambda>v. HasSuffix (ToLower lw str) (ToLower lw v)) list"

definition hasPattern :: "string list \<Rightarrow> string \<Rightarrow> bool go" where
  "hasPattern patterns matchStr = go_any (\<lambda>pattern. MatchSimple pattern matchStr) patterns"

text \<open>The number is printed with at least five digits.\<close>

definition part_name :: "nat \<Rightarrow> string \<Rightarrow> string" where
  "part_name partNumber etag =
     (let ds = nat_digits partNumber in replicate (5 - length ds) CHR ''0'' @ ds @ ''.'' @ etag @ ''.'')"

definition getPartFile :: "string list \<Rightarrow> nat \<Rightarrow> string \<Rightarrow> string" where
  "getPartFile entries partNumber etag =
     (case find (\<lambda>entry. HasPrefix entry (part_name partNumber etag)) entries of None \<Rightarrow> [] | Some e \<Rightarrow> e)"

text \<open>When a key with the prefix and the key without it are both there, Go keeps the one it visits last;
  \<open>ks\<close> is the order in which the keys are visited.\<close>

definition cleaned_key :: "string \<Rightarrow> string" where
  "cleaned_key k = (if HasPrefix k ''X-Amz-Meta-X-IPOS-Internal-'' then TrimPrefix k ''X-Amz-Meta-'' else k)"

definition CleanIPOSInternalMetadataKeys :: "string list \<Rightarrow> metadata \<Rightarrow> metadata" where
  "CleanIPOSInternalMetadataKeys ks meta = fold (\<lambda>k new. new(cleaned_key k := meta k)) ks Map.empty"

definition sealETag :: "crypto \<Rightarrow> sio \<Rightarrow> string \<Rightarrow> string \<Rightarrow> string go" where
  "sealETag cr si encKey md5CurrSum =
     (if encKey = replicate 32 CHR 0x00 then Some md5CurrSum else SealETag cr si encKey md5CurrSum)"

section \<open>Preconditions\<close>

definition ifModifiedSince :: "gotime \<Rightarrow> gotime \<Rightarrow> bool" where
  "ifModifiedSince objTime givenTime = time_After objTime (time_Add givenTime (10 ^ 9))"

definition IfModifiedSince :: string where "IfModifiedSince = ''If-Modified-Since''"
definition IfUnmodifiedSince :: string where "IfUnmodifiedSince = ''If-Unmodified-Since''"
definition IfMatch :: string where "IfMatch = ''If-Match''"
definition IfNoneMatch :: string where "IfNoneMatch = ''If-None-Match''"

datatype precondition = Proceed | NotModified | PreconditionFailed

text \<open>\<open>parseHTTP\<close> reads the date format of HTTP.  Whether the check wrote an answer, and which.\<close>

definition checkPreconditions ::
    "(string \<Rightarrow> gotime option) \<Rightarrow> http_request \<Rightarrow> gotime \<Rightarrow> string \<Rightarrow> precondition" where
  "checkPreconditions parseHTTP r modTime etag =
     (let since = (\<lambda>name. let v = Header_Get r name in if v = [] then None else parseHTTP v);
          tag = (\<lambda>name. let v = Header_Get r name in if v = [] then None else Some (isETagEqual etag v))
      in if Method r \<noteq> ''GET'' \<and> Method r \<noteq> ''HEAD'' then Proceed
         else if time_IsZero modTime \<or> time_Equal modTime timeSentinel then Proceed
         else if (case since IfModifiedSince of None \<Rightarrow> False | Some t \<Rightarrow> \<not> ifModifiedSince modTime t) then NotModified
         else if (case since IfUnmodifiedSince of None \<Rightarrow> False | Some t \<Rightarrow> ifModifiedSince modTime t) then PreconditionFailed
         else if tag IfMatch = Some False then PreconditionFailed
         else if tag IfNoneMatch = Some True then NotModified
         else Proceed)"

definition AmzCopySourceIfModifiedSince :: string where
  "AmzCopySourceIfModifiedSince = ''x-amz-copy-source-if-modified-since''"
definition AmzCopySourceIfUnmodifiedSince :: string where
  "AmzCopySourceIfUnmodifiedSince = ''x-amz-copy-source-if-unmodified-since''"
definition AmzCopySourceIfMatch :: string where "AmzCopySourceIfMatch = ''x-amz-copy-source-if-match''"
definition AmzCopySourceIfNoneMatch :: string where "AmzCopySourceIfNoneMatch = ''x-amz-copy-source-if-none-match''"

text \<open>The tag of the source that is compared, or a panic when an encrypted tag is shorter than 32.\<close>

definition copy_source_etag :: "bool \<Rightarrow> string \<Rightarrow> string \<Rightarrow> string go" where
  "copy_source_etag shouldDecryptEtag etag encETag =
     (if shouldDecryptEtag then (if length encETag < 32 then None else Some (drop (length encETag - 32) encETag)) else Some etag)"

definition copy_tag_check :: "http_request \<Rightarrow> string \<Rightarrow> bool \<Rightarrow> string \<Rightarrow> string \<Rightarrow> bool \<Rightarrow> bool go" where
  "copy_tag_check r name shouldDecryptEtag etag encETag fails =
     (let v = Header_Get r name in
      if v = [] then Some False
      else map_option (\<lambda>e. etag \<noteq> [] \<and> isETagEqual e v = fails) (copy_source_etag shouldDecryptEtag etag encETag))"

definition checkCopyObjectPreconditions ::
    "(string \<Rightarrow> gotime option) \<Rightarrow> http_request \<Rightarrow> gotime \<Rightarrow> string \<Rightarrow> metadata \<Rightarrow> string \<Rightarrow> precondition go" where
  "checkCopyObjectPreconditions parseHTTP r modTime etag meta encETag0 =
     (let encETag = (if encETag0 = [] then etag else encETag0);
          since = (\<lambda>name. let v = Header_Get r name in if v = [] then None else parseHTTP v);
          shouldDecryptEtag = SSECopy_IsRequested (Header r) \<and> \<not> IsMultiPart meta
      in if Method r \<noteq> ''PUT'' then Some Proceed
         else if time_IsZero modTime \<or> time_Equal modTime timeSentinel then Some Proceed
         else if (case since AmzCopySourceIfModifiedSince of None \<Rightarrow> False | Some t \<Rightarrow> \<not> ifModifiedSince modTime t)
           then Some PreconditionFailed
         else if (case since AmzCopySourceIfUnmodifiedSince of None \<Rightarrow> False | Some t \<Rightarrow> ifModifiedSince modTime t)
           then Some PreconditionFailed
         else
           (case copy_tag_check r AmzCopySourceIfMatch shouldDecryptEtag etag encETag False of
              None \<Rightarrow> None
            | Some True \<Rightarrow> Some PreconditionFailed
            | Some False \<Rightarrow>
                map_option (\<lambda>failed. if failed then PreconditionFailed else Proceed)
                  (copy_tag_check r AmzCopySourceIfNoneMatch shouldDecryptEtag etag encETag True)))"

section \<open>The two checks of bucket names\<close>

definition piece_char :: "char \<Rightarrow> bool" where
  "piece_char c \<longleftrightarrow> is_lower c \<or> is_digit c \<or> c = CHR ''-''"

definition good_piece :: "string \<Rightarrow> bool" where
  "good_piece p \<longleftrightarrow> p \<noteq> [] \<and> hd p \<noteq> CHR ''-'' \<and> last p \<noteq> CHR ''-'' \<and> list_all piece_char p"

lemma digit_no_lower: "is_digit c \<Longrightarrow> \<not> is_lower c \<and> c \<noteq> CHR ''-''"
  by (auto simp: is_digit_def is_lower_def ascii_def)

lemma piece_bytes_iff:
  "piece_bytes nn p = (if list_all piece_char p then Some (nn \<or> \<not> list_all is_digit p) else None)"
  by (induction p arbitrary: nn) (auto simp: piece_char_def dest: digit_no_lower)

lemma valid_pieces_iff:
  "valid_pieces al ps = (if list_all good_piece ps then Some (al \<and> list_all (list_all is_digit) ps) else None)"
  by (induction ps arbitrary: al) (auto simp: good_piece_def piece_bytes_iff)

lemma Contains_pair: "Contains (c # s) [x, y] \<longleftrightarrow> c = x \<and> s \<noteq> [] \<and> hd s = y \<or> Contains s [x, y]"
  by (cases s) (auto simp: Contains_def)

lemma Contains_pair_Nil: "\<not> Contains [] [x, y]"
  by (simp add: Contains_def)

definition tail_fine :: "string \<Rightarrow> bool" where
  "tail_fine b \<longleftrightarrow> list_all bucket_char_strict b \<and> \<not> Contains b ''..'' \<and> \<not> Contains b ''.-'' \<and> \<not> Contains b ''-.'' \<and>
     (b \<noteq> [] \<longrightarrow> last b \<notin> set ''.-'')"

lemma SplitOn_hd:
  assumes "SplitOn x b = p # ps"
  shows "p = [] \<longleftrightarrow> b = [] \<or> hd b = x" and "p \<noteq> [] \<Longrightarrow> hd p = hd b"
  using assms by (cases b; auto split: list.splits if_splits)+

lemma strict_char: "bucket_char_strict c \<longleftrightarrow> piece_char c \<or> c = CHR ''.''"
  by (auto simp: bucket_char_strict_def piece_char_def)

lemma dot_no_piece: "\<not> piece_char CHR ''.''"
  by (simp add: piece_char_def is_lower_def is_digit_def ascii_def)

lemma tail_fine_Cons:
  "tail_fine (c # b) \<longleftrightarrow> bucket_char_strict c \<and> tail_fine b \<and>
     (if c = CHR ''.'' \<or> c = CHR ''-'' then b \<noteq> [] \<and> hd b \<noteq> CHR ''.'' \<and> (c = CHR ''.'' \<longrightarrow> hd b \<noteq> CHR ''-'') else True)"
  by (auto simp: tail_fine_def Contains_pair Contains_pair_Nil)

lemma tail_fine_pieces:
  "SplitOn CHR ''.'' b = p # ps \<Longrightarrow>
     tail_fine b \<longleftrightarrow> list_all piece_char p \<and> (p \<noteq> [] \<longrightarrow> last p \<noteq> CHR ''-'') \<and> list_all good_piece ps"
proof (induction b arbitrary: p ps)
  case Nil
  then show ?case by (simp add: tail_fine_def Contains_pair_Nil)
next
  case (Cons c b)
  obtain q qs where q: "SplitOn CHR ''.'' b = q # qs" by (cases "SplitOn CHR ''.'' b") auto
  note ih = Cons.IH [OF q] and hd_q = SplitOn_hd [OF q]
  show ?case
  proof (cases "c = CHR ''.''")
    case True
    then have "p = [] \<and> ps = q # qs" using Cons.prems q by simp
    then show ?thesis using ih hd_q True by (cases "q = []") (auto simp: tail_fine_Cons good_piece_def strict_char)
  next
    case False
    then have "p = c # q \<and> ps = qs" using Cons.prems q by simp
    then show ?thesis using ih hd_q False by (cases "q = []") (auto simp: tail_fine_Cons strict_char)
  qed
qed

lemma pieces_are_names:
  "list_all good_piece (SplitOn CHR ''.'' b) \<longleftrightarrow> tail_fine b \<and> b \<noteq> [] \<and> hd b \<notin> set ''.-''"
proof -
  obtain p ps where p: "SplitOn CHR ''.'' b = p # ps" by (cases "SplitOn CHR ''.'' b") auto
  show ?thesis using tail_fine_pieces [OF p] SplitOn_hd [OF p] by (auto simp: p good_piece_def)
qed

lemma alnum_end: "bucket_char_strict c \<Longrightarrow> is_alnum c \<longleftrightarrow> c \<notin> set ''.-''"
  by (auto simp: bucket_char_strict_def is_alnum_def is_upper_def is_lower_def is_digit_def ascii_def)

lemma ends_no_alnum: "\<not> is_alnum CHR ''.''" "\<not> is_alnum CHR ''-''"
  by (simp_all add: is_alnum_def is_upper_def is_lower_def is_digit_def ascii_def)

lemma strict_is_loose: "bucket_char_strict c \<Longrightarrow> bucket_char c"
  by (auto simp: bucket_char_def bucket_char_strict_def is_alnum_def)

text \<open>C: The two checks of bucket names that the server has, over the pieces between the dots and over
  regular expressions, accept the same names, apart from the names of the server's own buckets.\<close>

theorem bucket_checks_agree:
  assumes "\<not> isIPOSMetaBucketName b"
  shows "IsValidBucketName b \<longleftrightarrow> CheckValidBucketNameStrict b = None"
proof -
  have ip: "ipAddress_regex b \<longleftrightarrow> length (SplitOn CHR ''.'' b) = 4 \<and> list_all (list_all is_digit) (SplitOn CHR ''.'' b)"
    if "list_all good_piece (SplitOn CHR ''.'' b)"
    using that by (auto simp: ipAddress_regex_def list_all_iff good_piece_def)
  have "IsValidBucketName b \<longleftrightarrow> 3 \<le> length b \<and> length b \<le> 63 \<and> list_all good_piece (SplitOn CHR ''.'' b) \<and>
      \<not> (length (SplitOn CHR ''.'' b) = 4 \<and> list_all (list_all is_digit) (SplitOn CHR ''.'' b))"
    using assms by (auto simp: IsValidBucketName_def Let_def valid_pieces_iff)
  also have "\<dots> \<longleftrightarrow> 3 \<le> length b \<and> length b \<le> 63 \<and> tail_fine b \<and> b \<noteq> [] \<and> hd b \<notin> set ''.-'' \<and> \<not> ipAddress_regex b"
    using ip pieces_are_names by blast
  also have "\<dots> \<longleftrightarrow> CheckValidBucketNameStrict b = None"
    unfolding CheckValidBucketName_accepts [of b, THEN conjunct2] CheckValidBucketName_accepts [of b, THEN conjunct1]
    by (cases b) (auto simp: tail_fine_def list_all_iff alnum_end strict_is_loose ends_no_alnum)
  finally show ?thesis .
qed

theorem bucket_checks_agree_witness: "IsValidBucketName ''a..b'' \<longleftrightarrow> CheckValidBucketNameStrict ''a..b'' = None"
  by (rule bucket_checks_agree) (simp add: isIPOSMetaBucketName_def iposMetaBucket_def iposMetaMultipartBucket_def
      iposMetaTmpBucket_def mpartMetaPrefix_def SlashSeparator_def)

end
