(* ===== verification/IpfsObjects.thy ===== *)
theory IpfsObjects
  imports ObjectUtils ApiErrors
begin

text \<open>
  \<open>cmd/ipos/cmd/ipfs.go\<close>: the object layer on the mutable file system (MFS) of an IPFS node.  The shell
  of the node is not part of the repository: it is the record \<open>shell\<close> of its commands, which read and
  change a state of type \<open>'m\<close>; an error of a command is its text.  What its documentation promises
  is the predicate \<open>mfs_laws\<close>.
\<close>

section \<open>The shell\<close>

record file_stat =
  stat_Hash :: string
  stat_Size :: nat
  stat_Type :: string
  stat_Blocks :: nat

text \<open>A file that is read ends, or breaks off with an error.  A file is written from a source that ends,
  or breaks off with an error of its own.\<close>

type_synonym source = "string \<times> obj_err option"

record 'm shell =
  FilesMkdir :: "bool \<Rightarrow> string \<Rightarrow> 'm \<Rightarrow> 'm \<times> string option"
  FilesStat :: "string \<Rightarrow> 'm \<Rightarrow> string + file_stat"
  FilesLs :: "string \<Rightarrow> 'm \<Rightarrow> string + string list"
  FilesRm :: "string \<Rightarrow> 'm \<Rightarrow> 'm \<times> string option"
  FilesRead :: "string \<Rightarrow> 'm \<Rightarrow> string + string \<times> string option"
  FilesWrite :: "string \<Rightarrow> source \<Rightarrow> 'm \<Rightarrow> 'm \<times> string option"

section \<open>Errors and paths\<close>

text \<open>The optional parameters are the bucket and the object.\<close>

definition param_bucket :: "string list \<Rightarrow> string" where
  "param_bucket params = (if length params = 1 \<or> length params = 2 then params ! 0 else [])"

definition param_object :: "string list \<Rightarrow> string" where
  "param_object params = (if length params = 2 then params ! 1 else [])"

definition ipfsToObjectError :: "string \<Rightarrow> string list \<Rightarrow> obj_err" where
  "ipfsToObjectError err params =
     (let bucket = param_bucket params; object = param_object params in
      if Contains err ''file already exists'' then
        (if object \<noteq> [] then ObjectAlreadyExists bucket object else BucketAlreadyExists bucket)
      else if Contains err ''file does not exist'' then
        (if object \<noteq> [] then ObjectNotFound bucket object else BucketNotFound bucket)
      else OtherError err)"

definition fs_path :: "string list \<Rightarrow> string" where
  "fs_path params =
     (let bucket = param_bucket params; object = param_object params in
      if bucket = [] then ''/''
      else if object = [] then ''/'' @ bucket
      else ''/'' @ bucket @ ''/'' @ object)"

text \<open>A command that changes the state, with its error converted; the rest runs on success.\<close>

definition ipfs_call :: "'m \<times> string option \<Rightarrow> string list \<Rightarrow> 'm \<times> obj_err option" where
  "ipfs_call r params = (fst r, map_option (\<lambda>err. ipfsToObjectError err params) (snd r))"

definition stat_then :: "'m shell \<Rightarrow> string list \<Rightarrow> 'm \<Rightarrow> (file_stat \<Rightarrow> obj_err + 'a) \<Rightarrow> obj_err + 'a" where
  "stat_then sh params m rest =
     (case FilesStat sh (fs_path params) m of Inl err \<Rightarrow> Inl (ipfsToObjectError err params) | Inr st \<Rightarrow> rest st)"

section \<open>Buckets\<close>

definition initMetaVolumeFS :: "'m shell \<Rightarrow> 'm \<Rightarrow> 'm \<times> obj_err option" where
  "initMetaVolumeFS sh m = ipfs_call (FilesMkdir sh True (fs_path [iposMetaBucket]) m) [iposMetaBucket]"

definition MakeBucketWithLocation :: "'m shell \<Rightarrow> string \<Rightarrow> string \<Rightarrow> 'm \<Rightarrow> 'm \<times> obj_err option" where
  "MakeBucketWithLocation sh bucket location m =
     (if CheckValidBucketNameStrict bucket \<noteq> None then (m, Some (BucketNameInvalid bucket))
      else ipfs_call (FilesMkdir sh False (fs_path [bucket]) m) [bucket])"

record BucketInfo =
  bi_Name :: string
  bi_Created :: gotime

definition GetBucketInfo :: "'m shell \<Rightarrow> gotime \<Rightarrow> string \<Rightarrow> 'm \<Rightarrow> obj_err + BucketInfo" where
  "GetBucketInfo sh now bucket m = stat_then sh [bucket] m (\<lambda>_. Inr \<lparr>bi_Name = bucket, bi_Created = now\<rparr>)"

definition ListBuckets :: "'m shell \<Rightarrow> gotime \<Rightarrow> 'm \<Rightarrow> obj_err + BucketInfo list" where
  "ListBuckets sh now m =
     (case FilesLs sh (fs_path []) m of
        Inl err \<Rightarrow> Inl (ipfsToObjectError err [])
      | Inr names \<Rightarrow>
          Inr (map (\<lambda>name. \<lparr>bi_Name = name, bi_Created = now\<rparr>) (filter (\<lambda>name. \<not> isReservedOrInvalidBucket name False) names)))"

definition DeleteBucket :: "'m shell \<Rightarrow> string \<Rightarrow> bool \<Rightarrow> 'm \<Rightarrow> 'm \<times> obj_err option" where
  "DeleteBucket sh bucket forceDelete m =
     (case FilesStat sh (fs_path [bucket]) m of
        Inl err \<Rightarrow> (m, Some (ipfsToObjectError err [bucket]))
      | Inr _ \<Rightarrow> ipfs_call (FilesRm sh (fs_path [bucket]) m) [bucket])"

section \<open>Objects\<close>

text \<open>The fields of \<open>ObjectInfo\<close> that the layer sets or the handlers read; the other ones stay zero.\<close>

record ObjectInfo =
  oi_Bucket :: string
  oi_Name :: string
  oi_ETag :: string
  oi_ModTime :: gotime
  oi_Size :: int
  oi_IsDir :: bool
  oi_UserDefined :: metadata

definition object_info :: "gotime \<Rightarrow> string \<Rightarrow> string \<Rightarrow> file_stat \<Rightarrow> ObjectInfo" where
  "object_info now bucket object st =
     \<lparr>oi_Bucket = bucket, oi_Name = object, oi_ETag = stat_Hash st, oi_ModTime = now,
      oi_Size = int64_of (int (stat_Size st)), oi_IsDir = (stat_Type st = ''directory''), oi_UserDefined = Map.empty\<rparr>"

definition GetObjectInfo :: "'m shell \<Rightarrow> gotime \<Rightarrow> string \<Rightarrow> string \<Rightarrow> 'm \<Rightarrow> obj_err + ObjectInfo" where
  "GetObjectInfo sh now bucket object m =
     stat_then sh [bucket, object] m (\<lambda>st. Inr (object_info now bucket object st))"

text \<open>What the writer gets, and the error.\<close>

definition GetObject :: "'m shell \<Rightarrow> string \<Rightarrow> string \<Rightarrow> int \<Rightarrow> int \<Rightarrow> 'm \<Rightarrow> string \<times> obj_err option" where
  "GetObject sh bucket object offset len m =
     (case FilesStat sh (fs_path [bucket]) m of
        Inl err \<Rightarrow> ([], Some (ipfsToObjectError err [bucket]))
      | Inr _ \<Rightarrow>
          (case FilesRead sh (fs_path [bucket, object]) m of
             Inl err \<Rightarrow> ([], Some (ipfsToObjectError err [bucket, object]))
           | Inr (content, end_err) \<Rightarrow>
               (content, map_option (\<lambda>err. ipfsToObjectError err [bucket, object]) end_err)))"

text \<open>The reader of the answer gives what \<open>GetObject\<close> writes into the pipe.\<close>

definition GetObjectNInfo ::
    "'m shell \<Rightarrow> gotime \<Rightarrow> string \<Rightarrow> string \<Rightarrow> HTTPRangeSpec option \<Rightarrow> 'm \<Rightarrow> obj_err + ObjectInfo \<times> string \<times> obj_err option" where
  "GetObjectNInfo sh now bucket object rs m =
     (case GetObjectInfo sh now bucket object m of
        Inl err \<Rightarrow> Inl err
      | Inr objInfo \<Rightarrow>
          (case GetOffsetLength rs (oi_Size objInfo) of
             Inl err \<Rightarrow> Inl (RangeFailure err)
           | Inr (startOffset, len) \<Rightarrow>
               (case GetObject sh bucket object startOffset len m of (content, err) \<Rightarrow> Inr (objInfo, content, err))))"

definition PutObject ::
    "'m shell \<Rightarrow> gotime \<Rightarrow> string \<Rightarrow> string \<Rightarrow> source \<Rightarrow> metadata \<Rightarrow> 'm \<Rightarrow> 'm \<times> (obj_err + ObjectInfo)" where
  "PutObject sh now bucket object r opts m =
     (case FilesStat sh (fs_path [bucket]) m of
        Inl err \<Rightarrow> (m, Inl (ipfsToObjectError err [bucket]))
      | Inr _ \<Rightarrow>
          (case FilesWrite sh (fs_path [bucket, object]) r m of
             (m', Some err) \<Rightarrow> (m', Inl (ipfsToObjectError err [bucket, object]))
           | (m', None) \<Rightarrow> (m', stat_then sh [bucket, object] m' (\<lambda>st. Inr (object_info now bucket object st)))))"

definition delete_object :: "'m shell \<Rightarrow> string \<Rightarrow> string \<Rightarrow> 'm \<Rightarrow> 'm \<times> string option" where
  "delete_object sh bucket object m =
     (if object = [] \<or> object = ''.'' \<or> object = SlashSeparator then (m, None)
      else case FilesStat sh (fs_path [bucket, object]) m of
        Inl err \<Rightarrow> (m, Some err)
      | Inr st \<Rightarrow>
          if stat_Type st = ''directory'' \<and> stat_Blocks st \<noteq> 0 then (m, None)
          else FilesRm sh (fs_path [bucket, object]) m)"

definition DeleteObject :: "'m shell \<Rightarrow> string \<Rightarrow> string \<Rightarrow> 'm \<Rightarrow> 'm \<times> obj_err option" where
  "DeleteObject sh bucket object m =
     (case FilesStat sh (fs_path [bucket]) m of
        Inl err \<Rightarrow> (m, Some (ipfsToObjectError err [bucket]))
      | Inr _ \<Rightarrow> ipfs_call (delete_object sh bucket object m) [bucket, object])"

fun DeleteObjects :: "'m shell \<Rightarrow> string \<Rightarrow> string list \<Rightarrow> 'm \<Rightarrow> 'm \<times> obj_err option list" where
  "DeleteObjects sh bucket [] m = (m, [])"
| "DeleteObjects sh bucket (object # objects) m =
     (case DeleteObject sh bucket object m of
        (m1, err) \<Rightarrow> (case DeleteObjects sh bucket objects m1 of (m2, errs) \<Rightarrow> (m2, err # errs)))"

text \<open>The listing of a directory, for the walk: whether it is empty, and the entries.\<close>

definition list_dir_entries :: "'m shell \<Rightarrow> string \<Rightarrow> string \<Rightarrow> 'm \<Rightarrow> string list \<Rightarrow> string list" where
  "list_dir_entries sh bucket prefixDir m names =
     List.map_filter (\<lambda>name.
       case FilesStat sh (fs_path [bucket, prefixDir @ ''/'' @ name]) m of
         Inl _ \<Rightarrow> None
       | Inr st \<Rightarrow> Some (if stat_Type st = ''directory'' then name @ SlashSeparator else name)) names"

section \<open>Operations that the layer does not have\<close>

definition CopyObject :: "string \<Rightarrow> string \<Rightarrow> string \<Rightarrow> string \<Rightarrow> 'm \<Rightarrow> 'm \<times> (obj_err + ObjectInfo)" where
  "CopyObject srcBucket srcObject dstBucket dstObject m = (m, Inl NotImplemented)"

definition PutObjectTag :: "string \<Rightarrow> string \<Rightarrow> string \<Rightarrow> 'm \<Rightarrow> 'm \<times> obj_err option" where
  "PutObjectTag bucket object tags m = (m, Some NotImplemented)"

definition DeleteObjectTag :: "string \<Rightarrow> string \<Rightarrow> 'm \<Rightarrow> 'm \<times> obj_err option" where
  "DeleteObjectTag bucket object m = (m, Some NotImplemented)"

text \<open>An upload in parts (\<open>ipfs-multipart.go\<close>) succeeds at every step and keeps nothing.\<close>

definition NewMultipartUpload :: "string \<Rightarrow> string \<Rightarrow> 'm \<Rightarrow> 'm \<times> (obj_err + string)" where
  "NewMultipartUpload bucket object m = (m, Inr [])"

definition PutObjectPart :: "string \<Rightarrow> string \<Rightarrow> string \<Rightarrow> nat \<Rightarrow> source \<Rightarrow> 'm \<Rightarrow> 'm \<times> (obj_err + string)" where
  "PutObjectPart bucket object uploadID partID r m = (m, Inr [])"

definition CompleteMultipartUpload ::
    "string \<Rightarrow> string \<Rightarrow> string \<Rightarrow> string list \<Rightarrow> 'm \<Rightarrow> 'm \<times> (obj_err + ObjectInfo)" where
  "CompleteMultipartUpload bucket object uploadID parts m =
     (m, Inr \<lparr>oi_Bucket = [], oi_Name = [], oi_ETag = [], oi_ModTime = zero_time, oi_Size = 0, oi_IsDir = False,
              oi_UserDefined = Map.empty\<rparr>)"

definition AbortMultipartUpload :: "string \<Rightarrow> string \<Rightarrow> string \<Rightarrow> 'm \<Rightarrow> 'm \<times> obj_err option" where
  "AbortMultipartUpload bucket object uploadID m = (m, None)"

section \<open>What the file system promises\<close>

definition mfs_file :: "'m shell \<Rightarrow> string \<Rightarrow> 'm \<Rightarrow> string option" where
  "mfs_file sh p m = (case FilesRead sh p m of Inr (c, None) \<Rightarrow> Some c | _ \<Rightarrow> None)"

definition mfs_there :: "'m shell \<Rightarrow> string \<Rightarrow> 'm \<Rightarrow> bool" where
  "mfs_there sh p m \<longleftrightarrow> (\<exists>st. FilesStat sh p m = Inr st)"

definition at_or_below :: "string \<Rightarrow> string \<Rightarrow> bool" where
  "at_or_below p q \<longleftrightarrow> path_Clean q = path_Clean p \<or> HasPrefix (path_Clean q) (path_Clean p @ ''/'')"

text \<open>Paths are cleaned; a write replaces the first bytes of a file and does not truncate it; a removal
  takes away what is at the path and below it; a file has its length in the answer of \<open>stat\<close>.\<close>

definition mfs_cleans :: "'m shell \<Rightarrow> bool" where
  "mfs_cleans sh \<longleftrightarrow> (\<forall>p m src.
     FilesStat sh (path_Clean p) m = FilesStat sh p m \<and> FilesRead sh (path_Clean p) m = FilesRead sh p m \<and>
     FilesWrite sh (path_Clean p) src m = FilesWrite sh p src m \<and> FilesRm sh (path_Clean p) m = FilesRm sh p m)"

definition mfs_writes :: "'m shell \<Rightarrow> bool" where
  "mfs_writes sh \<longleftrightarrow> (\<forall>p c m m'. FilesWrite sh p (c, None) m = (m', None) \<longrightarrow>
     mfs_file sh p m' = Some (c @ drop (length c) (case mfs_file sh p m of None \<Rightarrow> [] | Some old \<Rightarrow> old)) \<and>
     (\<forall>q. path_Clean q \<noteq> path_Clean p \<longrightarrow> mfs_file sh q m' = mfs_file sh q m) \<and>
     (\<forall>q. mfs_there sh q m \<longrightarrow> mfs_there sh q m'))"

definition mfs_removes :: "'m shell \<Rightarrow> bool" where
  "mfs_removes sh \<longleftrightarrow> (\<forall>p m m'. FilesRm sh p m = (m', None) \<and> path_Clean p \<noteq> ''/'' \<longrightarrow>
     (\<forall>q. mfs_file sh q m' = (if at_or_below p q then None else mfs_file sh q m)))"

definition mfs_stats :: "'m shell \<Rightarrow> bool" where
  "mfs_stats sh \<longleftrightarrow> (\<forall>p m c. mfs_file sh p m = Some c \<longrightarrow>
     (\<exists>st. FilesStat sh p m = Inr st \<and> stat_Size st = length c \<and> stat_Type st = ''file''))"

definition mfs_laws :: "'m shell \<Rightarrow> bool" where
  "mfs_laws sh \<longleftrightarrow> mfs_cleans sh \<and> mfs_writes sh \<and> mfs_removes sh \<and> mfs_stats sh"

section \<open>An instance\<close>

datatype mem_entry = Dir | File string

type_synonym mem = "string \<Rightarrow> mem_entry option"

definition mem_shell :: "mem shell" where
  "mem_shell =
     \<lparr>FilesMkdir = \<lambda>parents p m.
        (case m (path_Clean p) of
           None \<Rightarrow> (m(path_Clean p \<mapsto> Dir), None)
         | Some Dir \<Rightarrow> if parents then (m, None) else (m, Some ''file already exists'')
         | Some _ \<Rightarrow> (m, Some ''file already exists'')),
      FilesStat = \<lambda>p m.
        (case m (path_Clean p) of
           None \<Rightarrow> Inl ''file does not exist''
         | Some Dir \<Rightarrow> Inr \<lparr>stat_Hash = ''Qm'', stat_Size = 0, stat_Type = ''directory'', stat_Blocks = 0\<rparr>
         | Some (File c) \<Rightarrow> Inr \<lparr>stat_Hash = ''Qm'' @ c, stat_Size = length c, stat_Type = ''file'', stat_Blocks = 1\<rparr>),
      FilesLs = \<lambda>p m. Inl ''not a directory'',
      FilesRm = \<lambda>p m. ((\<lambda>q. if q = path_Clean p \<or> HasPrefix q (path_Clean p @ ''/'') then None else m q), None),
      FilesRead = \<lambda>p m.
        (case m (path_Clean p) of
           Some (File c) \<Rightarrow> Inr (c, None)
         | Some Dir \<Rightarrow> Inl ''this dag node is a directory''
         | None \<Rightarrow> Inl ''file does not exist''),
      FilesWrite = \<lambda>p (c, e) m.
        (case (e, m (path_Clean p)) of
           (Some _, _) \<Rightarrow> (m, Some ''unexpected EOF'')
         | (None, Some Dir) \<Rightarrow> (m, Some ''not a file'')
         | (None, Some (File old)) \<Rightarrow> (m(path_Clean p \<mapsto> File (c @ drop (length c) old)), None)
         | (None, None) \<Rightarrow> (m(path_Clean p \<mapsto> File c), None))\<rparr>"

end
