(* ===== verification/IpfsProps.thy ===== *)
theory IpfsProps
  imports IpfsObjects
begin

text \<open>
  What the object layer guarantees when the file system keeps its promises, and where it does not do
  what S3 asks for: overwriting, ranges, names with dots, and the removal of buckets.
\<close>

section \<open>The instance keeps the laws\<close>

lemma mem_file: "mfs_file mem_shell p m = (case m (path_Clean p) of Some (File c) \<Rightarrow> Some c | _ \<Rightarrow> None)"
  by (simp add: mfs_file_def mem_shell_def split: option.splits mem_entry.splits)

lemma mem_there: "mfs_there mem_shell p m \<longleftrightarrow> m (path_Clean p) \<noteq> None"
  by (auto simp: mfs_there_def mem_shell_def split: option.splits mem_entry.splits)

lemma mem_laws: "mfs_laws mem_shell"
proof -
  have "mfs_cleans mem_shell"
    unfolding mfs_cleans_def mem_shell_def shell.simps path_Clean_idem by simp
  moreover have "mfs_writes mem_shell"
    unfolding mfs_writes_def mem_file mem_there
    by (auto simp: mem_shell_def split: option.splits mem_entry.splits if_splits)
  moreover have "mfs_removes mem_shell"
    unfolding mfs_removes_def mem_file
    by (auto simp: mem_shell_def at_or_below_def split: option.splits mem_entry.splits if_splits)
  moreover have "mfs_stats mem_shell"
    unfolding mfs_stats_def mem_file by (auto simp: mem_shell_def split: option.splits mem_entry.splits)
  ultimately show ?thesis by (simp add: mfs_laws_def)
qed

section \<open>Consequences of the laws\<close>

lemma mfs_write:
  assumes "mfs_laws sh" and "FilesWrite sh p (c, None) m = (m', None)"
  shows "mfs_file sh p m' = Some (c @ drop (length c) (case mfs_file sh p m of None \<Rightarrow> [] | Some old \<Rightarrow> old))"
    and "path_Clean q \<noteq> path_Clean p \<Longrightarrow> mfs_file sh q m' = mfs_file sh q m"
    and "mfs_there sh q m \<Longrightarrow> mfs_there sh q m'"
  using assms unfolding mfs_laws_def mfs_writes_def by blast+

lemma mfs_same_path:
  assumes "mfs_laws sh" and "path_Clean p = path_Clean q"
  shows "FilesStat sh p = FilesStat sh q" and "FilesRead sh p = FilesRead sh q" and "mfs_file sh p = mfs_file sh q"
    and "FilesWrite sh p = FilesWrite sh q" and "FilesRm sh p = FilesRm sh q"
proof -
  have c: "mfs_cleans sh" using assms(1) by (simp add: mfs_laws_def)
  show "FilesStat sh p = FilesStat sh q" "FilesRm sh p = FilesRm sh q"
    by (rule ext; metis c assms(2) mfs_cleans_def)+
  show r: "FilesRead sh p = FilesRead sh q" by (rule ext) (metis c assms(2) mfs_cleans_def)
  show "FilesWrite sh p = FilesWrite sh q" by (rule ext, rule ext) (metis c assms(2) mfs_cleans_def)
  show "mfs_file sh p = mfs_file sh q" by (rule ext) (simp add: mfs_file_def r)
qed

lemma mfs_remove:
  assumes "mfs_laws sh" and "FilesRm sh p m = (m', None)" and "path_Clean p \<noteq> ''/''"
  shows "mfs_file sh q m' = (if at_or_below p q then None else mfs_file sh q m)"
  using assms unfolding mfs_laws_def mfs_removes_def by blast

lemma GetObject_file:
  assumes "mfs_there sh (fs_path [b]) m" and "mfs_file sh (fs_path [b, obj]) m = Some c"
  shows "GetObject sh b obj off len m = (c, None)"
  using assms by (auto simp: GetObject_def mfs_there_def mfs_file_def split: sum.splits prod.splits option.splits)

lemma PutObject_ok:
  assumes "PutObject sh now b obj (c, None) opts m = (m', Inr oi)"
  shows "mfs_there sh (fs_path [b]) m" and "FilesWrite sh (fs_path [b, obj]) (c, None) m = (m', None)"
    and "\<exists>st. FilesStat sh (fs_path [b, obj]) m' = Inr st \<and> oi = object_info now b obj st"
  using assms
  by (auto simp: PutObject_def stat_then_def mfs_there_def split: sum.splits prod.splits option.splits)

section \<open>Writing and reading\<close>

text \<open>C4: What a write leaves is read back whatever range is asked for, and the size in the answer is the
  one of all of it.  The bytes that were written come first; when the object was longer before, the
  rest of the old object follows them.  Every object with another path is as before.\<close>

theorem put_then_get:
  assumes "mfs_laws sh" and "PutObject sh now b obj (c, None) opts m = (m', Inr oi)"
  defines "old \<equiv> (case mfs_file sh (fs_path [b, obj]) m of None \<Rightarrow> [] | Some x \<Rightarrow> x)"
  shows "GetObject sh b obj off len m' = (c @ drop (length c) old, None) \<and>
    oi_Size oi = int64_of (int (max (length c) (length old))) \<and>
    (GetObject sh b obj off len m' = (c, None) \<longleftrightarrow> length old \<le> length c) \<and>
    (\<forall>b2 o2. path_Clean (fs_path [b2, o2]) \<noteq> path_Clean (fs_path [b, obj]) \<longrightarrow>
      mfs_file sh (fs_path [b2, o2]) m' = mfs_file sh (fs_path [b2, o2]) m)"
proof -
  note put = PutObject_ok [OF assms(2)]
  have fl: "mfs_file sh (fs_path [b, obj]) m' = Some (c @ drop (length c) old)"
    using mfs_write(1) [OF assms(1) put(2)] by (simp add: old_def)
  have got: "GetObject sh b obj off len m' = (c @ drop (length c) old, None)"
    by (rule GetObject_file [OF mfs_write(3) [OF assms(1) put(2,1)] fl])
  obtain st where st: "FilesStat sh (fs_path [b, obj]) m' = Inr st" "oi = object_info now b obj st" using put(3) by blast
  with fl assms(1) have "stat_Size st = length (c @ drop (length c) old)"
    unfolding mfs_laws_def mfs_stats_def by fastforce
  then have "oi_Size oi = int64_of (int (max (length c) (length old)))" by (simp add: st(2) object_info_def max_def)
  with got mfs_write(2) [OF assms(1) put(2)] show ?thesis by auto
qed

theorem put_then_get_witness:
  "\<exists>m' oi. PutObject mem_shell zero_time ''bkt'' ''o'' (''new'', None) Map.empty
      [''/bkt'' \<mapsto> Dir, ''/bkt/o'' \<mapsto> File ''older''] = (m', Inr oi) \<and>
    GetObject mem_shell ''bkt'' ''o'' 0 3 m' = (''newer'', None)"
proof -
  let ?m = "[''/bkt'' \<mapsto> Dir, ''/bkt/o'' \<mapsto> File ''older'']"
  have paths: "fs_path [''bkt''] = ''/bkt''" "fs_path [''bkt'', ''o''] = ''/bkt/o''"
    by (simp_all add: fs_path_def param_bucket_def param_object_def)
  have clean: "path_Clean ''/bkt'' = ''/bkt''" "path_Clean ''/bkt/o'' = ''/bkt/o''"
    by (simp_all add: path_Clean_def Let_def)
  obtain m' oi where put: "PutObject mem_shell zero_time ''bkt'' ''o'' (''new'', None) Map.empty ?m = (m', Inr oi)"
    by (simp add: PutObject_def stat_then_def paths mem_shell_def clean)
  have "mfs_file mem_shell (fs_path [''bkt'', ''o'']) ?m = Some ''older''" by (simp add: mem_file paths clean)
  with put_then_get [OF mem_laws put, of 0 3] put show ?thesis by (intro exI [of _ m'] exI [of _ oi]) simp
qed

section \<open>Names with dots\<close>

lemma valid_bucket_plain:
  assumes "CheckValidBucketName b = None"
  shows "b \<noteq> [] \<and> CHR ''/'' \<notin> set b \<and> b \<noteq> ''.'' \<and> b \<noteq> ''..''"
proof -
  from assms have v: "validBucketName b" "3 \<le> length b"
    by (auto simp: CheckValidBucketName_def checkBucketNameCommon_def split: if_splits)
  have slash: "\<not> bucket_char CHR ''/''" "\<not> is_alnum CHR ''/''"
    by (simp_all add: bucket_char_def is_alnum_def is_upper_def is_lower_def is_digit_def ascii_def)
  have "list_all bucket_char b \<or> CHR ''/'' \<notin> set b"
    using v slash by (cases b; cases "tl b" rule: rev_cases)
      (auto simp: validBucketName_def name_regex_def list_all_iff)
  with slash v(2) show ?thesis by (auto simp: list_all_iff)
qed

lemma bkt_valid: "CheckValidBucketName ''bkt'' = None"
  unfolding CheckValidBucketName_def checkBucketNameCommon_None
  by (simp add: ipAddress_regex_def validBucketName_def name_regex_def is_alnum_def is_upper_def is_lower_def is_digit_def
      bucket_char_def ascii_def Contains_def HasPrefix_def)

lemma escape_clean:
  assumes "b1 \<noteq> []" "CHR ''/'' \<notin> set b1" "b1 \<noteq> ''.''" "b1 \<noteq> ''..''"
  shows "path_Clean (''/'' @ b1 @ ''/../'' @ rest) = path_Clean (''/'' @ rest)"
proof -
  have "SplitOn CHR ''/'' (''/'' @ b1 @ ''/../'' @ rest) = [] # b1 # ''..'' # SplitOn CHR ''/'' rest"
    using SplitOn_append [OF assms(2), of "''../'' @ rest"] by (simp add: SplitOn_append [of "CHR ''/''" "''..''", simplified])
  moreover have "SplitOn CHR ''/'' (''/'' @ rest) = [] # SplitOn CHR ''/'' rest" by simp
  ultimately show ?thesis using assms by (simp add: path_Clean_def Let_def)
qed

lemma escape_path:
  assumes "CheckValidBucketName b1 = None" and "b2 \<noteq> []" and "obj \<noteq> []"
  shows "path_Clean (fs_path [b1, ''../'' @ b2 @ ''/'' @ obj]) = path_Clean (fs_path [b2, obj])"
  using escape_clean [of b1 "b2 @ ''/'' @ obj"] valid_bucket_plain [OF assms(1)] assms
  by (simp add: fs_path_def param_bucket_def param_object_def)

text \<open>C5: A name of an object that begins with two dots and a slash leaves the bucket: reads, writes and
  deletions work on any object of any bucket, the ones of the server among them.\<close>

theorem names_escape_the_bucket:
  assumes "mfs_laws sh" and "CheckValidBucketName b1 = None" and "b2 \<noteq> []" and "obj \<noteq> []"
    and "mfs_there sh (fs_path [b1]) m"
  defines "evil \<equiv> ''../'' @ b2 @ ''/'' @ obj"
  shows "(mfs_file sh (fs_path [b2, obj]) m = Some c \<longrightarrow> GetObject sh b1 evil off len m = (c, None)) \<and>
    (PutObject sh now b1 evil (d, None) opts m = (m', Inr oi) \<longrightarrow>
       (\<exists>rest. mfs_file sh (fs_path [b2, obj]) m' = Some (d @ rest))) \<and>
    (mfs_file sh (fs_path [b2, obj]) m = Some c \<and> path_Clean (fs_path [b2, obj]) \<noteq> ''/'' \<and>
       DeleteObject sh b1 evil m = (m'', None) \<longrightarrow> mfs_file sh (fs_path [b2, obj]) m'' = None)"
proof -
  note same = mfs_same_path [OF assms(1) escape_path [OF assms(2-4)], folded evil_def]
  have "GetObject sh b1 evil off len m = (c, None)" if "mfs_file sh (fs_path [b2, obj]) m = Some c"
    by (rule GetObject_file [OF assms(5)]) (simp add: same(3) that)
  moreover have "\<exists>rest. mfs_file sh (fs_path [b2, obj]) m' = Some (d @ rest)"
    if "PutObject sh now b1 evil (d, None) opts m = (m', Inr oi)"
    using mfs_write(1) [OF assms(1) PutObject_ok(2) [OF that]] by (simp add: same(3))
  moreover have "mfs_file sh (fs_path [b2, obj]) m'' = None"
    if fl: "mfs_file sh (fs_path [b2, obj]) m = Some c" and root: "path_Clean (fs_path [b2, obj]) \<noteq> ''/''"
      and del: "DeleteObject sh b1 evil m = (m'', None)"
  proof -
    from fl assms(1) obtain st where st: "FilesStat sh (fs_path [b2, obj]) m = Inr st" "stat_Type st = ''file''"
      unfolding mfs_laws_def mfs_stats_def by blast
    have "evil \<noteq> ''.''" "evil \<noteq> SlashSeparator" "evil \<noteq> []" by (simp_all add: evil_def SlashSeparator_def)
    with del st assms(5) have "FilesRm sh (fs_path [b2, obj]) m = (m'', None)"
      by (auto simp: DeleteObject_def delete_object_def ipfs_call_def mfs_there_def same prod_eq_iff split: sum.splits)
    from mfs_remove [OF assms(1) this root, of "fs_path [b2, obj]"] show ?thesis by (simp add: at_or_below_def)
  qed
  ultimately show ?thesis by blast
qed

theorem names_escape_the_bucket_witness:
  "GetObject mem_shell ''bkt'' (''../'' @ ''.ipos.sys'' @ ''/'' @ ''config/x'') 0 0
     [''/bkt'' \<mapsto> Dir, ''/.ipos.sys/config/x'' \<mapsto> File ''secret''] = (''secret'', None)"
proof -
  let ?m = "[''/bkt'' \<mapsto> Dir, ''/.ipos.sys/config/x'' \<mapsto> File ''secret'']"
  have paths: "fs_path [''bkt''] = ''/bkt''" "fs_path [''.ipos.sys'', ''config/x''] = ''/.ipos.sys/config/x''"
    by (simp_all add: fs_path_def param_bucket_def param_object_def)
  have clean: "path_Clean ''/bkt'' = ''/bkt''" "path_Clean ''/.ipos.sys/config/x'' = ''/.ipos.sys/config/x''"
    by (simp_all add: path_Clean_def Let_def)
  note bkt_valid
  moreover have "mfs_there mem_shell (fs_path [''bkt'']) ?m" by (simp add: mem_there paths clean)
  moreover have "mfs_file mem_shell (fs_path [''.ipos.sys'', ''config/x'']) ?m = Some ''secret''"
    by (simp add: mem_file paths clean)
  ultimately show ?thesis
    using names_escape_the_bucket [OF mem_laws, of "''bkt''" "''.ipos.sys''" "''config/x''" ?m "''secret''"] by simp
qed

section \<open>A map of objects\<close>

text \<open>The names that \<open>path.Clean\<close> leaves alone, and what is stored under them.\<close>

definition canonical :: "string \<Rightarrow> string \<Rightarrow> bool" where
  "canonical b obj \<longleftrightarrow> b \<noteq> [] \<and> CHR ''/'' \<notin> set b \<and> obj \<notin> {[], ''.'', ''/''} \<and>
     path_Clean (fs_path [b, obj]) = ''/'' @ b @ ''/'' @ obj \<and> path_Clean (fs_path [b]) = ''/'' @ b"

definition object_map :: "'m shell \<Rightarrow> 'm \<Rightarrow> string \<times> string \<Rightarrow> string option" where
  "object_map sh m = (\<lambda>(b, obj). if canonical b obj then mfs_file sh (fs_path [b, obj]) m else None)"

lemma same_bucket:
  assumes "CHR ''/'' \<notin> set b" and "CHR ''/'' \<notin> set b2" and "b @ ''/'' @ x = b2 @ ''/'' @ y"
  shows "b = b2 \<and> x = y"
  using assms
proof (induction b arbitrary: b2)
  case Nil
  then show ?case by (cases b2) auto
next
  case (Cons c b)
  then show ?case by (cases b2) auto
qed

lemma canonical_paths:
  assumes "canonical b obj"
  shows "path_Clean (fs_path [b, obj]) \<noteq> ''/''" and "path_Clean (fs_path [b]) \<noteq> ''/''"
  using assms by (auto simp: canonical_def)

lemma canonical_same:
  assumes "canonical b obj" and "canonical b2 obj2"
  shows "path_Clean (fs_path [b2, obj2]) = path_Clean (fs_path [b, obj]) \<longleftrightarrow> (b2, obj2) = (b, obj)"
  using assms same_bucket [of b2 b obj2 obj] by (auto simp: canonical_def)

lemma canonical_below_bucket:
  assumes "canonical b obj" and "canonical b2 obj2"
  shows "at_or_below (fs_path [b]) (fs_path [b2, obj2]) \<longleftrightarrow> b2 = b"
proof
  assume "at_or_below (fs_path [b]) (fs_path [b2, obj2])"
  then consider "b2 @ ''/'' @ obj2 = b" | x where "b2 @ ''/'' @ obj2 = b @ ''/'' @ x"
    using assms by (auto simp: at_or_below_def canonical_def HasPrefix_iff)
  then show "b2 = b"
  proof cases
    case 1
    then have "CHR ''/'' \<in> set b" by auto
    then show ?thesis using assms by (simp add: canonical_def)
  next
    case 2
    then show ?thesis using assms same_bucket [of b2 b] by (auto simp: canonical_def)
  qed
next
  assume "b2 = b"
  then show "at_or_below (fs_path [b]) (fs_path [b2, obj2])"
    using assms by (auto simp: at_or_below_def canonical_def HasPrefix_iff)
qed

lemma canonical_below:
  assumes "canonical b obj" and "canonical b2 obj2"
  shows "at_or_below (fs_path [b, obj]) (fs_path [b2, obj2]) \<longleftrightarrow> b2 = b \<and> (obj2 = obj \<or> HasPrefix obj2 (obj @ ''/''))"
proof
  assume "at_or_below (fs_path [b, obj]) (fs_path [b2, obj2])"
  then have "\<exists>x. b2 @ ''/'' @ obj2 = b @ ''/'' @ (obj @ x) \<and> (x = [] \<or> (\<exists>t. x = ''/'' @ t))"
    using assms by (auto simp: at_or_below_def canonical_def HasPrefix_iff)
  then obtain x where x: "b2 @ ''/'' @ obj2 = b @ ''/'' @ (obj @ x)" "x = [] \<or> (\<exists>t. x = ''/'' @ t)" by blast
  have "b2 = b \<and> obj2 = obj @ x" using assms by (intro same_bucket [OF _ _ x(1)]) (auto simp: canonical_def)
  with x(2) show "b2 = b \<and> (obj2 = obj \<or> HasPrefix obj2 (obj @ ''/''))" by (auto simp: HasPrefix_iff)
next
  assume "b2 = b \<and> (obj2 = obj \<or> HasPrefix obj2 (obj @ ''/''))"
  then show "at_or_below (fs_path [b, obj]) (fs_path [b2, obj2])"
    using assms by (auto simp: at_or_below_def canonical_def HasPrefix_iff)
qed

lemma map_put:
  assumes "mfs_laws sh" and "canonical b obj" and "PutObject sh now b obj (c, None) opts m = (m', Inr oi)"
  shows "object_map sh m' =
    (object_map sh m)((b, obj) \<mapsto> c @ drop (length c) (case object_map sh m (b, obj) of None \<Rightarrow> [] | Some old \<Rightarrow> old))"
proof (rule ext, clarify)
  fix b2 obj2
  note w = mfs_write(1,2) [OF assms(1) PutObject_ok(2) [OF assms(3)]]
  show "object_map sh m' (b2, obj2) =
      ((object_map sh m)((b, obj) \<mapsto> c @ drop (length c) (case object_map sh m (b, obj) of None \<Rightarrow> [] | Some old \<Rightarrow> old))) (b2, obj2)"
  proof (cases "(b2, obj2) = (b, obj)")
    case True
    then show ?thesis using w(1) assms(2) by (simp add: object_map_def)
  next
    case False
    then show ?thesis using w(2) [of "fs_path [b2, obj2]"] canonical_same [OF assms(2)]
      by (auto simp: object_map_def)
  qed
qed

lemma DeleteObject_file:
  assumes "mfs_laws sh" and "mfs_file sh (fs_path [b, obj]) m = Some c" and "obj \<notin> {[], ''.'', ''/''}"
    and "DeleteObject sh b obj m = (m', None)"
  shows "FilesRm sh (fs_path [b, obj]) m = (m', None)"
proof -
  from assms(1,2) obtain st where st: "FilesStat sh (fs_path [b, obj]) m = Inr st" "stat_Type st = ''file''"
    unfolding mfs_laws_def mfs_stats_def by blast
  with assms(3,4) show ?thesis
    by (auto simp: DeleteObject_def delete_object_def ipfs_call_def SlashSeparator_def prod_eq_iff split: sum.splits)
qed

lemma map_delete:
  assumes "mfs_laws sh" and "canonical b obj" and "object_map sh m (b, obj) = Some c"
    and "DeleteObject sh b obj m = (m', None)"
  shows "object_map sh m' = (\<lambda>(b2, obj2).
    if b2 = b \<and> (obj2 = obj \<or> HasPrefix obj2 (obj @ ''/'')) then None else object_map sh m (b2, obj2))"
proof (rule ext, clarify)
  fix b2 obj2
  have "FilesRm sh (fs_path [b, obj]) m = (m', None)"
    using assms(2-4) by (intro DeleteObject_file [OF assms(1)]) (auto simp: object_map_def canonical_def)
  from mfs_remove [OF assms(1) this, of "fs_path [b2, obj2]"]
  show "object_map sh m' (b2, obj2) =
      (if b2 = b \<and> (obj2 = obj \<or> HasPrefix obj2 (obj @ ''/'')) then None else object_map sh m (b2, obj2))"
    using canonical_below [OF assms(2), of b2 obj2] canonical_paths(1) [OF assms(2)]
    by (cases "canonical b2 obj2") (auto simp: object_map_def)
qed

lemma map_delete_bucket:
  assumes "mfs_laws sh" and "canonical b obj" and "DeleteBucket sh b force m = (m', None)"
  shows "object_map sh m' = (\<lambda>(b2, obj2). if b2 = b then None else object_map sh m (b2, obj2))"
proof (rule ext, clarify)
  fix b2 obj2
  have "FilesRm sh (fs_path [b]) m = (m', None)"
    using assms(3) by (auto simp: DeleteBucket_def ipfs_call_def prod_eq_iff split: sum.splits)
  from mfs_remove [OF assms(1) this, of "fs_path [b2, obj2]"]
  show "object_map sh m' (b2, obj2) = (if b2 = b then None else object_map sh m (b2, obj2))"
    using canonical_below_bucket [OF assms(2), of b2 obj2] canonical_paths(2) [OF assms(2)]
    by (cases "canonical b2 obj2") (simp_all add: object_map_def)
qed

text \<open>C3: On names that are canonical the layer is a map from buckets and names to contents.  A write changes
  one entry, and mixes the old content into it when that was longer; the deletion of an object takes
  the names below it along; the deletion of a bucket takes all of its objects, with or without force.\<close>

theorem objects_are_a_map:
  assumes "mfs_laws sh" and "canonical b obj"
  shows "(PutObject sh now b obj (c, None) opts m = (m1, Inr oi) \<longrightarrow> object_map sh m1 =
      (object_map sh m)((b, obj) \<mapsto> c @ drop (length c) (case object_map sh m (b, obj) of None \<Rightarrow> [] | Some old \<Rightarrow> old))) \<and>
    (DeleteObject sh b obj m = (m2, None) \<and> object_map sh m (b, obj) \<noteq> None \<longrightarrow>
      object_map sh m2 = (\<lambda>(b2, obj2).
        if b2 = b \<and> (obj2 = obj \<or> HasPrefix obj2 (obj @ ''/'')) then None else object_map sh m (b2, obj2))) \<and>
    (DeleteBucket sh b force m = (m3, None) \<longrightarrow>
      object_map sh m3 = (\<lambda>(b2, obj2). if b2 = b then None else object_map sh m (b2, obj2))) \<and>
    (mfs_there sh (fs_path [b]) m \<and> object_map sh m (b, obj) = Some d \<longrightarrow> GetObject sh b obj off len m = (d, None))"
proof (intro conjI impI)
  assume "mfs_there sh (fs_path [b]) m \<and> object_map sh m (b, obj) = Some d"
  then have "mfs_there sh (fs_path [b]) m" "mfs_file sh (fs_path [b, obj]) m = Some d"
    using assms(2) by (simp_all add: object_map_def)
  then show "GetObject sh b obj off len m = (d, None)" by (rule GetObject_file)
next
  assume "DeleteObject sh b obj m = (m2, None) \<and> object_map sh m (b, obj) \<noteq> None"
  then obtain x where "DeleteObject sh b obj m = (m2, None)" "object_map sh m (b, obj) = Some x" by blast
  then show "object_map sh m2 = (\<lambda>(b2, obj2).
      if b2 = b \<and> (obj2 = obj \<or> HasPrefix obj2 (obj @ ''/'')) then None else object_map sh m (b2, obj2))"
    by (intro map_delete [OF assms])
qed (rule map_put [OF assms] map_delete_bucket [OF assms]; assumption)+

theorem objects_are_a_map_witness:
  "\<exists>m'. DeleteBucket mem_shell ''bkt'' False [''/bkt'' \<mapsto> Dir, ''/bkt/o'' \<mapsto> File ''x''] = (m', None) \<and>
    object_map mem_shell [''/bkt'' \<mapsto> Dir, ''/bkt/o'' \<mapsto> File ''x''] (''bkt'', ''o'') = Some ''x'' \<and>
    object_map mem_shell m' (''bkt'', ''o'') = None"
proof -
  let ?m = "[''/bkt'' \<mapsto> Dir, ''/bkt/o'' \<mapsto> File ''x'']"
  have paths: "fs_path [''bkt''] = ''/bkt''" "fs_path [''bkt'', ''o''] = ''/bkt/o''"
    by (simp_all add: fs_path_def param_bucket_def param_object_def)
  have clean: "path_Clean ''/bkt'' = ''/bkt''" "path_Clean ''/bkt/o'' = ''/bkt/o''"
    by (simp_all add: path_Clean_def Let_def)
  have can: "canonical ''bkt'' ''o''" by (simp add: canonical_def paths clean)
  have "snd (DeleteBucket mem_shell ''bkt'' False ?m) = None"
    by (simp add: DeleteBucket_def ipfs_call_def paths mem_shell_def clean)
  then obtain m' where del: "DeleteBucket mem_shell ''bkt'' False ?m = (m', None)" by (metis prod.collapse)
  have "object_map mem_shell ?m (''bkt'', ''o'') = Some ''x''" using can by (simp add: object_map_def mem_file paths clean)
  moreover have "object_map mem_shell m' (''bkt'', ''o'') = None"
    using objects_are_a_map [OF mem_laws can, of _ _ _ ?m _ _ _ False m'] del by simp
  ultimately show ?thesis using del by (intro exI [of _ m']) simp
qed

end
