(* ===== verification/Listing.thy ===== *)
theory Listing
  imports IpfsObjects
begin

text \<open>
  The listing of objects: the walk of \<open>cmd/ipos/cmd/tree-walk.go\<close>, the pool of walks of
  \<open>tree-walk-pool.go\<close>, and the pages of \<open>object-api-common.go\<close> with the checks of
  \<open>object-api-input-checks.go\<close>.  A walk sends its results into a channel; the model is the list of
  what it sends, and the reader takes a part of it.
\<close>

section \<open>The walk\<close>

record TreeWalkResult =
  tw_entry :: string
  tw_end :: bool

text \<open>Strings are sorted by bytes.  Only the two ends of the list are cut.\<close>

definition filterMatchingPrefix :: "string list \<Rightarrow> string \<Rightarrow> string list" where
  "filterMatchingPrefix entries prefixEntry =
     (let no_match = (\<lambda>e. \<not> HasPrefix e prefixEntry) in
      sort (rev (dropWhile no_match (rev (dropWhile no_match entries)))))"

text \<open>\<open>sort.Search\<close>: the smallest index with a property, by bisection.\<close>

function search_loop :: "(nat \<Rightarrow> bool) \<Rightarrow> nat \<Rightarrow> nat \<Rightarrow> nat" where
  "search_loop f i j =
     (if i < j then (let h = (i + j) div 2 in if \<not> f h then search_loop f (h + 1) j else search_loop f i h) else i)"
  by auto
termination by (relation "measure (\<lambda>(_, i, j). j - i)") auto

declare search_loop.simps [simp del]

definition sort_Search :: "nat \<Rightarrow> (nat \<Rightarrow> bool) \<Rightarrow> nat" where
  "sort_Search n f = search_loop f 0 n"

text \<open>Whether a directory is empty, and its entries, directories with a slash at the end.\<close>

type_synonym list_dir = "string \<Rightarrow> string \<Rightarrow> bool \<times> string list"

definition marker_split :: "string \<Rightarrow> string \<times> string" where
  "marker_split marker =
     (if marker = [] then ([], [])
      else case SplitN2 marker SlashSeparator of
        [d, b] \<Rightarrow> (d @ SlashSeparator, b)
      | [d] \<Rightarrow> (d, [])
      | _ \<Rightarrow> ([], []))"

text \<open>The loop over the entries of a directory; \<open>walk\<close> walks a directory below and \<open>first\<close> is true for the
  first entry.  The walk returns whether the directory is empty, and the results; it may not return.\<close>

type_synonym walk = "string \<Rightarrow> string \<Rightarrow> bool \<Rightarrow> (bool \<times> TreeWalkResult list) option"

fun walk_entries ::
    "walk \<Rightarrow> string \<Rightarrow> string \<Rightarrow> string \<Rightarrow> bool \<Rightarrow> bool \<Rightarrow> bool \<Rightarrow> string list \<Rightarrow> TreeWalkResult list option" where
  "walk_entries walk prefixDir markerDir markerBase recursive isEnd first [] = Some []"
| "walk_entries walk prefixDir markerDir markerBase recursive isEnd first (entry # entries) =
     (let pentry = pathJoin [prefixDir, entry]; isDir = HasSuffix pentry SlashSeparator;
          isEOF = (entries = [] \<and> isEnd);
          rest = walk_entries walk prefixDir markerDir markerBase recursive isEnd False entries in
      if first \<and> markerDir = entry \<and> (\<not> recursive \<or> \<not> isDir) then rest
      else if recursive \<and> isDir then
        (case walk pentry (if entry = markerDir then markerBase else []) isEOF of
           None \<Rightarrow> None
         | Some (emptyDir, results) \<Rightarrow>
             map_option (\<lambda>more.
               results @ (if emptyDir then [\<lparr>tw_entry = pentry, tw_end = isEOF\<rparr>] else []) @ more) rest)
      else map_option (\<lambda>more. \<lparr>tw_entry = pentry, tw_end = isEOF\<rparr> # more) rest)"

text \<open>The first argument bounds the depth.\<close>

primrec doTreeWalk ::
    "nat \<Rightarrow> list_dir \<Rightarrow> string \<Rightarrow> string \<Rightarrow> string \<Rightarrow> bool \<Rightarrow> bool \<Rightarrow> (bool \<times> TreeWalkResult list) option" where
  "doTreeWalk 0 listDir prefixDir entryPrefixMatch marker recursive isEnd = None"
| "doTreeWalk (Suc fuel) listDir prefixDir entryPrefixMatch marker recursive isEnd =
     (case (marker_split marker, listDir prefixDir entryPrefixMatch) of
        (_, True, _) \<Rightarrow> Some (True, [])
      | ((markerDir, markerBase), False, all_entries) \<Rightarrow>
          (let idx = sort_Search (length all_entries) (\<lambda>i. markerDir \<le> all_entries ! i) in
           map_option (\<lambda>results. (False, results))
             (walk_entries (\<lambda>p m e. doTreeWalk fuel listDir p [] m recursive e) prefixDir markerDir markerBase
                recursive isEnd True (drop idx all_entries))))"

definition startTreeWalk :: "nat \<Rightarrow> list_dir \<Rightarrow> string \<Rightarrow> string \<Rightarrow> bool \<Rightarrow> TreeWalkResult list option" where
  "startTreeWalk fuel listDir pre marker recursive =
     (let (prefixDir, entryPrefixMatch) =
        (case LastIndexChar CHR ''/'' pre of None \<Rightarrow> ([], pre) | Some i \<Rightarrow> (take (i + 1) pre, drop (i + 1) pre)) in
      map_option snd (doTreeWalk fuel listDir prefixDir entryPrefixMatch (TrimPrefix marker prefixDir) recursive True))"

section \<open>The pool\<close>

record listParams =
  lp_bucket :: string
  lp_recursive :: bool
  lp_marker :: string
  lp_prefix :: string

text \<open>A walk that waits for the next page: what is left in its channel, and a number that stands for the
  identity of the channel.\<close>

record treeWalk =
  tw_id :: nat
  tw_results :: "TreeWalkResult list"

record TreeWalkPool =
  tp_pool :: "listParams \<Rightarrow> treeWalk list"
  tp_next :: nat

definition NewTreeWalkPool :: TreeWalkPool where
  "NewTreeWalkPool = \<lparr>tp_pool = (\<lambda>_. []), tp_next = 0\<rparr>"

definition pool_Release :: "TreeWalkPool \<Rightarrow> listParams \<Rightarrow> TreeWalkPool \<times> TreeWalkResult list option" where
  "pool_Release t params =
     (case tp_pool t params of
        [] \<Rightarrow> (t, None)
      | walk # walks \<Rightarrow> (t\<lparr>tp_pool := (tp_pool t)(params := walks)\<rparr>, Some (tw_results walk)))"

definition pool_Set :: "TreeWalkPool \<Rightarrow> listParams \<Rightarrow> TreeWalkResult list \<Rightarrow> TreeWalkPool" where
  "pool_Set t params results =
     t\<lparr>tp_pool := (tp_pool t)(params := tp_pool t params @ [\<lparr>tw_id = tp_next t, tw_results = results\<rparr>]),
       tp_next := tp_next t + 1\<rparr>"

text \<open>The timer of a walk.\<close>

definition pool_timeout :: "TreeWalkPool \<Rightarrow> listParams \<Rightarrow> nat \<Rightarrow> TreeWalkPool" where
  "pool_timeout t params walk_id =
     t\<lparr>tp_pool := (tp_pool t)(params := filter (\<lambda>walk. tw_id walk \<noteq> walk_id) (tp_pool t params))\<rparr>"

section \<open>Checks\<close>

definition checkListObjsArgs :: "obj_err option \<Rightarrow> string \<Rightarrow> string \<Rightarrow> string \<Rightarrow> obj_err option" where
  "checkListObjsArgs bucket_err bucket pre marker =
     (if bucket_err \<noteq> None then bucket_err
      else if \<not> IsValidObjectPrefix pre then Some (ObjectNameInvalid bucket pre)
      else if marker \<noteq> [] \<and> \<not> HasPrefix marker pre then Some (InvalidMarkerPrefixCombination marker pre)
      else None)"

section \<open>Pages\<close>

definition maxObjectList :: int where "maxObjectList = 10000"

record ListObjectsInfo =
  lo_IsTruncated :: bool
  lo_NextMarker :: string
  lo_Objects :: "ObjectInfo list"
  lo_Prefixes :: "string list"

definition no_objects :: ListObjectsInfo where
  "no_objects = \<lparr>lo_IsTruncated = False, lo_NextMarker = [], lo_Objects = [], lo_Prefixes = []\<rparr>"

definition dir_object :: "string \<Rightarrow> string \<Rightarrow> ObjectInfo" where
  "dir_object bucket name =
     \<lparr>oi_Bucket = bucket, oi_Name = name, oi_ETag = [], oi_ModTime = zero_time, oi_Size = 0, oi_IsDir = True,
      oi_UserDefined = Map.empty\<rparr>"

text \<open>What the page says of the objects that were collected.\<close>

definition page :: "(ObjectInfo \<Rightarrow> bool) \<Rightarrow> bool \<Rightarrow> ObjectInfo list \<Rightarrow> ListObjectsInfo" where
  "page is_prefix eof objInfos =
     \<lparr>lo_IsTruncated = (\<not> eof), lo_NextMarker = (if \<not> eof \<and> objInfos \<noteq> [] then oi_Name (last objInfos) else []),
      lo_Objects = filter (\<lambda>oi. \<not> is_prefix oi) objInfos, lo_Prefixes = map oi_Name (filter is_prefix objInfos)\<rparr>"

text \<open>The information of a directory: the functions are asked in turn until one knows it.\<close>

fun dir_info :: "string \<Rightarrow> string \<Rightarrow> (string \<Rightarrow> obj_err + ObjectInfo) list \<Rightarrow> obj_err + ObjectInfo \<Rightarrow> obj_err + ObjectInfo" where
  "dir_info bucket entry [] before = before"
| "dir_info bucket entry (f # fs) before =
     (case f entry of
        Inr oi \<Rightarrow> Inr oi
      | Inl err \<Rightarrow> dir_info bucket entry fs (if err = errFileNotFound then Inr (dir_object bucket entry) else Inl err))"

definition zero_object :: ObjectInfo where
  "zero_object =
     \<lparr>oi_Bucket = [], oi_Name = [], oi_ETag = [], oi_ModTime = zero_time, oi_Size = 0, oi_IsDir = False,
      oi_UserDefined = Map.empty\<rparr>"

definition entry_info ::
    "string \<Rightarrow> (string \<Rightarrow> obj_err + ObjectInfo) \<Rightarrow> (string \<Rightarrow> obj_err + ObjectInfo) list \<Rightarrow> string \<Rightarrow> obj_err + ObjectInfo" where
  "entry_info bucket getObjInfo getObjectInfoDirs entry =
     (if HasSuffix entry SlashSeparator then dir_info bucket entry getObjectInfoDirs (Inr zero_object) else getObjInfo entry)"

text \<open>The loop that collects a page: an error, or the objects, whether the walk is at its end, and what is
  left of it.\<close>

fun collect :: "(string \<Rightarrow> obj_err + ObjectInfo) \<Rightarrow> nat \<Rightarrow> TreeWalkResult list \<Rightarrow> obj_err + ObjectInfo list \<times> bool \<times> TreeWalkResult list" where
  "collect info 0 ws = Inr ([], False, ws)"
| "collect info (Suc n) [] = Inr ([], True, [])"
| "collect info (Suc n) (w # ws) =
     (case info (tw_entry w) of
        Inl err \<Rightarrow> if err = errFileNotFound then collect info (Suc n) ws else Inl err
      | Inr oi \<Rightarrow>
          if tw_end w then Inr ([oi], True, ws)
          else (case collect info n ws of
                  Inl err \<Rightarrow> Inl err
                | Inr (ois, eof, left) \<Rightarrow> Inr (oi # ois, eof, left)))"

text \<open>The loop for other delimiters, which asks for every object and skips what is not after the marker.\<close>

fun collect_nonslash ::
    "(string \<Rightarrow> obj_err + ObjectInfo) \<Rightarrow> string \<Rightarrow> string \<Rightarrow> string \<Rightarrow> string \<Rightarrow> nat \<Rightarrow> string \<Rightarrow> TreeWalkResult list \<Rightarrow>
     obj_err + ObjectInfo list \<times> bool" where
  "collect_nonslash info bucket pre marker delimiter 0 prevPrefix ws = Inr ([], False)"
| "collect_nonslash info bucket pre marker delimiter (Suc n) prevPrefix [] = Inr ([], True)"
| "collect_nonslash info bucket pre marker delimiter (Suc n) prevPrefix (w # ws) =
     (let take_it = (\<lambda>prev oi.
        if oi_Name oi \<le> marker then collect_nonslash info bucket pre marker delimiter (Suc n) prev ws
        else if tw_end w then Inr ([oi], True)
        else map_sum id (\<lambda>(ois, eof). (oi # ois, eof)) (collect_nonslash info bucket pre marker delimiter n prev ws)) in
      case Index (TrimPrefix (tw_entry w) pre) delimiter of
        None \<Rightarrow>
          (case info (tw_entry w) of
             Inl err \<Rightarrow>
               if err = errFileNotFound then collect_nonslash info bucket pre marker delimiter (Suc n) prevPrefix ws
               else Inl (toObjectErr err [bucket, pre])
           | Inr oi \<Rightarrow> take_it prevPrefix oi)
      | Some i \<Rightarrow>
          (let currPrefix = take (length pre + i + length delimiter) (tw_entry w) in
           if currPrefix = prevPrefix then collect_nonslash info bucket pre marker delimiter (Suc n) prevPrefix ws
           else take_it currPrefix (dir_object bucket currPrefix)))"

text \<open>A negative limit is never reached; then all results are taken.\<close>

definition listObjectsNonSlash ::
    "nat \<Rightarrow> list_dir \<Rightarrow> (string \<Rightarrow> obj_err + ObjectInfo) \<Rightarrow> string \<Rightarrow> string \<Rightarrow> string \<Rightarrow> string \<Rightarrow> int \<Rightarrow>
     (obj_err + ListObjectsInfo) option" where
  "listObjectsNonSlash fuel listDir getObjInfo bucket pre marker delimiter maxKeys =
     map_option (\<lambda>ws.
       let n = (if maxKeys < 0 then length ws + 1 else nat maxKeys) in
       map_sum id (\<lambda>(ois, eof). page oi_IsDir eof ois) (collect_nonslash getObjInfo bucket pre marker delimiter n [] ws))
     (startTreeWalk fuel listDir pre [] True)"

definition listObjects ::
    "nat \<Rightarrow> list_dir \<Rightarrow> (string \<Rightarrow> obj_err + ObjectInfo) \<Rightarrow> (string \<Rightarrow> obj_err + ObjectInfo) list \<Rightarrow> obj_err option \<Rightarrow>
     TreeWalkPool \<Rightarrow> string \<Rightarrow> string \<Rightarrow> string \<Rightarrow> string \<Rightarrow> int \<Rightarrow> (TreeWalkPool \<times> (obj_err + ListObjectsInfo)) option" where
  "listObjects fuel listDir getObjInfo getObjectInfoDirs bucket_err tpool bucket pre marker delimiter maxKeys0 =
     (if delimiter \<noteq> SlashSeparator \<and> delimiter \<noteq> [] then
        map_option (Pair tpool) (listObjectsNonSlash fuel listDir getObjInfo bucket pre marker delimiter maxKeys0)
      else case checkListObjsArgs bucket_err bucket pre marker of
        Some err \<Rightarrow> Some (tpool, Inl err)
      | None \<Rightarrow>
          if marker \<noteq> [] \<and> \<not> HasPrefix marker pre then Some (tpool, Inr no_objects)
          else if maxKeys0 = 0 then Some (tpool, Inr no_objects)
          else if delimiter = SlashSeparator \<and> pre = SlashSeparator then Some (tpool, Inr no_objects)
          else
            (let maxKeys = (if maxKeys0 < 0 \<or> maxObjectList < maxKeys0 then maxObjectList else maxKeys0);
                 recursive = (delimiter \<noteq> SlashSeparator);
                 (t, released) = pool_Release tpool \<lparr>lp_bucket = bucket, lp_recursive = recursive, lp_marker = marker, lp_prefix = pre\<rparr>
             in case (case released of Some ws \<Rightarrow> Some ws | None \<Rightarrow> startTreeWalk fuel listDir pre marker recursive) of
                  None \<Rightarrow> None
                | Some ws \<Rightarrow>
                    (case collect (entry_info bucket getObjInfo getObjectInfoDirs) (nat maxKeys) ws of
                       Inl err \<Rightarrow> Some (t, Inl (toObjectErr err [bucket, pre]))
                     | Inr (objInfos, eof, left) \<Rightarrow>
                         (let nextMarker = (if objInfos = [] then [] else oi_Name (last objInfos));
                              params = \<lparr>lp_bucket = bucket, lp_recursive = recursive, lp_marker = nextMarker, lp_prefix = pre\<rparr>
                          in Some (if eof then t else pool_Set t params left,
                                   Inr (page (\<lambda>oi. oi_IsDir oi \<and> delimiter = SlashSeparator) eof objInfos))))))"

section \<open>The listing of the IPFS layer\<close>

definition listDir :: "'m shell \<Rightarrow> string \<Rightarrow> 'm \<Rightarrow> list_dir" where
  "listDir sh bucket m prefixDir prefixEntry =
     (case FilesLs sh (fs_path [bucket, prefixDir]) m of
        Inl err \<Rightarrow> (False, [])
      | Inr names \<Rightarrow>
          if names = [] then (True, [])
          else (False, filterMatchingPrefix (list_dir_entries sh bucket prefixDir m names) prefixEntry))"

definition ListObjects ::
    "'m shell \<Rightarrow> gotime \<Rightarrow> nat \<Rightarrow> TreeWalkPool \<Rightarrow> string \<Rightarrow> string \<Rightarrow> string \<Rightarrow> string \<Rightarrow> int \<Rightarrow> 'm \<Rightarrow>
     (TreeWalkPool \<times> (obj_err + ListObjectsInfo)) option" where
  "ListObjects sh now fuel tpool bucket pre marker delimiter maxKeys m =
     (case FilesStat sh (fs_path [bucket]) m of
        Inl err \<Rightarrow> Some (tpool, Inl (ipfsToObjectError err [bucket]))
      | Inr _ \<Rightarrow>
          (let info = (\<lambda>object. GetObjectInfo sh now bucket object m);
               bucket_err = (case GetBucketInfo sh now bucket m of Inl err \<Rightarrow> Some err | Inr _ \<Rightarrow> None) in
           listObjects fuel (listDir sh bucket m) info [info] bucket_err tpool bucket pre marker delimiter maxKeys))"

record ListObjectsV2Info =
  l2_IsTruncated :: bool
  l2_ContinuationToken :: string
  l2_NextContinuationToken :: string
  l2_Objects :: "ObjectInfo list"
  l2_Prefixes :: "string list"

definition ListObjectsV2 ::
    "'m shell \<Rightarrow> gotime \<Rightarrow> nat \<Rightarrow> TreeWalkPool \<Rightarrow> string \<Rightarrow> string \<Rightarrow> string \<Rightarrow> string \<Rightarrow> int \<Rightarrow> string \<Rightarrow> 'm \<Rightarrow>
     (TreeWalkPool \<times> (obj_err + ListObjectsV2Info)) option" where
  "ListObjectsV2 sh now fuel tpool bucket pre continuationToken delimiter maxKeys startAfter m =
     (let marker = (if continuationToken = [] then startAfter else continuationToken) in
      map_option (map_prod id (map_sum id (\<lambda>v1.
        \<lparr>l2_IsTruncated = lo_IsTruncated v1, l2_ContinuationToken = continuationToken,
         l2_NextContinuationToken = lo_NextMarker v1, l2_Objects = lo_Objects v1, l2_Prefixes = lo_Prefixes v1\<rparr>)))
      (ListObjects sh now fuel tpool bucket pre marker delimiter maxKeys m))"

end
