(* ===== verification/ListingProps.thy ===== *)
theory ListingProps
  imports Listing
begin

text \<open>
  The walk of a finite tree of directories: what it sends, in which order, and what it sends from a
  marker on.
\<close>

section \<open>Bisection\<close>

lemma search_loop_prefix:
  assumes "i \<le> k" "k \<le> j" and "\<And>x. x < j \<Longrightarrow> f x \<longleftrightarrow> k \<le> x"
  shows "search_loop f i j = k"
  using assms
proof (induction f i j rule: search_loop.induct)
  case (1 f i j)
  show ?case
  proof (cases "i < j")
    case True
    define h where "h = (i + j) div 2"
    have h: "i \<le> h" "h < j" using True by (auto simp: h_def)
    note ih = "1.IH" [OF True h_def]
    have step: "search_loop f i j = (if \<not> f h then search_loop f (h + 1) j else search_loop f i h)"
      using True by (simp add: search_loop.simps [of f i j] Let_def h_def)
    show ?thesis
    proof (cases "f h")
      case f: True
      then have "k \<le> h" using "1.prems"(3) h by blast
      then show ?thesis using ih(2) f h "1.prems" by (simp add: step)
    next
      case f: False
      then have "\<not> k \<le> h" using "1.prems"(3) [of h] h by blast
      then show ?thesis using ih(1) f h "1.prems" by (simp add: step)
    qed
  next
    case False
    then show ?thesis using "1.prems" by (simp add: search_loop.simps [of f i j])
  qed
qed

lemma search_sorted:
  fixes xs :: "string list"
  assumes "sorted xs"
  shows "drop (sort_Search (length xs) (\<lambda>i. x \<le> xs ! i)) xs = dropWhile (\<lambda>e. e < x) xs"
proof -
  define k where "k = length (takeWhile (\<lambda>e. e < x) xs)"
  have k: "k \<le> length xs" by (simp add: k_def length_takeWhile_le)
  have "x \<le> xs ! i \<longleftrightarrow> k \<le> i" if i: "i < length xs" for i
  proof
    assume "x \<le> xs ! i"
    show "k \<le> i"
    proof (rule ccontr)
      assume "\<not> k \<le> i"
      then have "i < length (takeWhile (\<lambda>e. e < x) xs)" by (simp add: k_def)
      then have "xs ! i < x" using nth_mem set_takeWhileD takeWhile_nth by metis
      with \<open>x \<le> xs ! i\<close> show False by simp
    qed
  next
    assume "k \<le> i"
    then have "k < length xs" using i by simp
    then have "\<not> xs ! k < x" unfolding k_def by (rule nth_length_takeWhile)
    moreover have "xs ! k \<le> xs ! i" using assms \<open>k \<le> i\<close> i by (simp add: sorted_nth_mono)
    ultimately show "x \<le> xs ! i" by simp
  qed
  then have "sort_Search (length xs) (\<lambda>i. x \<le> xs ! i) = k"
    unfolding sort_Search_def using k by (intro search_loop_prefix) auto
  then show ?thesis unfolding k_def by (simp add: dropWhile_eq_drop)
qed

section \<open>Trees\<close>

datatype node = FileNode | DirNode "(string \<times> node) list"

fun entry_name :: "string \<times> node \<Rightarrow> string" where
  "entry_name (n, FileNode) = n"
| "entry_name (n, DirNode cs) = n @ ''/''"

text \<open>What an entry contributes: a file its name, an empty directory its name with a slash, any other
  directory what is below it.\<close>

definition below :: "string \<Rightarrow> node \<Rightarrow> string list \<Rightarrow> string list" where
  "below n c ps =
     (case c of FileNode \<Rightarrow> [n] | DirNode ds \<Rightarrow> if ds = [] then [n @ ''/''] else map (\<lambda>p. n @ ''/'' @ p) ps)"

fun node_paths :: "node \<Rightarrow> string list" where
  "node_paths FileNode = []"
| "node_paths (DirNode cs) = concat (map (\<lambda>x. below (fst x) (snd x) (node_paths (snd x))) cs)"

abbreviation child_paths :: "string \<times> node \<Rightarrow> string list" where
  "child_paths x \<equiv> below (fst x) (snd x) (node_paths (snd x))"

fun depth :: "node \<Rightarrow> nat" where
  "depth FileNode = 0"
| "depth (DirNode cs) = Suc (fold max (map (\<lambda>x. depth (snd x)) cs) 0)"

text \<open>Names are single path elements, and the entries are in the order of the listing.\<close>

fun good_node :: "node \<Rightarrow> bool" where
  "good_node FileNode = True"
| "good_node (DirNode cs) \<longleftrightarrow>
     list_all (\<lambda>x. element (fst x) \<and> good_node (snd x)) cs \<and> sorted_wrt (<) (map entry_name cs)"

text \<open>The function lists the tree that is at a directory.\<close>

fun lists_tree :: "list_dir \<Rightarrow> string list \<Rightarrow> node \<Rightarrow> bool" where
  "lists_tree ls es FileNode = True"
| "lists_tree ls es (DirNode cs) \<longleftrightarrow>
     ls (dir_path es) [] = (cs = [], map entry_name cs) \<and>
     list_all (\<lambda>x. lists_tree ls (es @ [fst x]) (snd x)) cs"

text \<open>The marks on the results: only the last one can be the end.\<close>

fun flagged :: "bool \<Rightarrow> string list \<Rightarrow> TreeWalkResult list" where
  "flagged e [] = []"
| "flagged e [p] = [\<lparr>tw_entry = p, tw_end = e\<rparr>]"
| "flagged e (p # q # ps) = \<lparr>tw_entry = p, tw_end = False\<rparr> # flagged e (q # ps)"

lemma flagged_append: "ys \<noteq> [] \<Longrightarrow> flagged e (xs @ ys) = flagged False xs @ flagged e ys"
proof (induction xs rule: induct_list012)
  case (2 x)
  then show ?case by (cases ys) auto
qed auto

section \<open>Order\<close>

text \<open>What the walk sends from a marker on: the names after it, and the empty directories that the marker
  is at or below.\<close>

definition after :: "string \<Rightarrow> string \<Rightarrow> bool" where
  "after m p \<longleftrightarrow> m < p \<or> HasSuffix p ''/'' \<and> HasPrefix m p"

lemma less_append_both:
  fixes a b :: string
  shows "a < b \<Longrightarrow> \<not> HasPrefix b a \<Longrightarrow> a @ x < b @ y"
proof (induction a arbitrary: b)
  case (Cons c a)
  then obtain d b' where "b = d # b'" by (cases b) auto
  with Cons show ?case by auto
qed simp

lemma append_ge: "(a :: string) \<le> a @ x"
  by (induction a) auto

lemma append_less_same: "(a :: string) @ x < a @ y \<longleftrightarrow> x < y"
  by (induction a) auto

lemma marker_split_parts:
  assumes "marker_split m = (md, mb)"
  shows "m = md @ mb" and "CHR ''/'' \<notin> set md \<and> mb = [] \<or> (\<exists>d. md = d @ ''/'' \<and> CHR ''/'' \<notin> set d)"
proof -
  consider "m = []" | "m \<noteq> []" "CHR ''/'' \<notin> set m" | d b where "m = d @ ''/'' @ b" "CHR ''/'' \<notin> set d"
    by (metis append_Cons append_Nil split_list_first)
  then have "m = md @ mb \<and> (CHR ''/'' \<notin> set md \<and> mb = [] \<or> (\<exists>d. md = d @ ''/'' \<and> CHR ''/'' \<notin> set d))"
  proof cases
    case 2
    then show ?thesis using assms by (auto simp: marker_split_def SlashSeparator_def SplitN2_char_absent)
  next
    case (3 d b)
    then show ?thesis using assms SplitN2_char_append [of "CHR ''/''" d b]
      by (auto simp: marker_split_def SlashSeparator_def)
  qed (use assms in \<open>auto simp: marker_split_def\<close>)
  then show "m = md @ mb" "CHR ''/'' \<notin> set md \<and> mb = [] \<or> (\<exists>d. md = d @ ''/'' \<and> CHR ''/'' \<notin> set d)" by blast+
qed

lemma slash_last:
  assumes "d @ ''/'' = n @ ''/'' @ t" and "CHR ''/'' \<notin> set d"
  shows "t = []"
proof (cases t rule: rev_cases)
  case (snoc u c)
  then have "d = n @ ''/'' @ u" using assms(1) by simp
  then show ?thesis using assms(2) by simp
qed

lemma below_nonempty: "n \<noteq> [] \<Longrightarrow> p \<in> set (below n c ps) \<Longrightarrow> p \<noteq> []"
  by (auto simp: below_def split: node.splits if_splits)

lemma node_paths_nonempty:
  assumes "good_node c" and "p \<in> set (node_paths c)"
  shows "p \<noteq> []"
proof (cases c)
  case (DirNode cs)
  then obtain x where "x \<in> set cs" "p \<in> set (child_paths x)" using assms(2) by auto
  moreover have "fst x \<noteq> []" using assms(1) DirNode \<open>x \<in> set cs\<close> by (auto simp: list_all_iff element_def)
  ultimately show ?thesis using below_nonempty by blast
qed (use assms in simp)

lemma child_paths_nonempty:
  assumes "element n" and "good_node c"
  shows "child_paths (n, c) \<noteq> []"
  using assms(2)
proof (induction c arbitrary: n)
  case (DirNode cs)
  show ?case
  proof (cases cs)
    case (Cons x xs)
    have "child_paths (fst x, snd x) \<noteq> []"
      using DirNode.IH [of x "snd x" "fst x"] DirNode.prems Cons by (cases x) simp
    then show ?thesis by (simp add: below_def Cons)
  qed (simp add: below_def)
qed (simp add: below_def)

lemma after_Nil: "p \<noteq> [] \<Longrightarrow> after [] p"
  by (cases p) (auto simp: after_def)

lemma after_same: "after (a @ m) (a @ p) \<longleftrightarrow> m < p \<or> HasSuffix (a @ p) ''/'' \<and> HasPrefix m p"
  by (simp add: after_def append_less_same) (simp add: HasPrefix_iff)

lemma child_beyond:
  assumes "marker_split m = (md, mb)" and "element n" and "md < n @ ''/''"
  shows "m < n @ ''/'' @ q"
proof (cases "HasPrefix (n @ ''/'') md")
  case True
  then obtain t where t: "n @ ''/'' = md @ t" by (auto simp: HasPrefix_iff)
  with assms(3) have "t \<noteq> []" by auto
  have "mb = []"
  proof (rule ccontr)
    assume "mb \<noteq> []"
    then obtain d where "md = d @ ''/''" using marker_split_parts(2) [OF assms(1)] by blast
    then have "t = []" using slash_last [of n d t] t assms(2) by (simp add: element_def)
    then show False using \<open>t \<noteq> []\<close> by simp
  qed
  then have "m < n @ ''/''" using marker_split_parts(1) [OF assms(1)] assms(3) by simp
  then show ?thesis using append_ge [of "n @ ''/''" q] by simp
next
  case False
  then show ?thesis using less_append_both [OF assms(3)] marker_split_parts(1) [OF assms(1)] by simp
qed

lemma child_filter:
  assumes "marker_split m = (md, mb)" and "element n" and "good_node c" and "md \<le> entry_name (n, c)"
  shows "filter (after m) (child_paths (n, c)) =
    (case c of FileNode \<Rightarrow> if md = n then [] else [n]
     | DirNode ds \<Rightarrow> if ds = [] then [n @ ''/'']
         else map (\<lambda>p. n @ ''/'' @ p) (filter (after (if md = n @ ''/'' then mb else [])) (node_paths c)))"
proof (cases c)
  case FileNode
  have noslash: "CHR ''/'' \<notin> set n" using assms(2) by (simp add: element_def)
  then have suffix: "\<not> HasSuffix n ''/''" by (auto simp: HasSuffix_iff)
  show ?thesis
  proof (cases "md = n")
    case True
    then have "m = n" using marker_split_parts [OF assms(1)] noslash by auto
    then show ?thesis using FileNode True suffix by (simp add: below_def after_def)
  next
    case False
    then have less: "md < n" using assms(4) FileNode by simp
    have "m < n"
    proof (cases "HasPrefix n md")
      case True
      then have "CHR ''/'' \<notin> set md" using noslash by (auto simp: HasPrefix_iff)
      then have "mb = []" using marker_split_parts(2) [OF assms(1)] by auto
      then show ?thesis using marker_split_parts(1) [OF assms(1)] less by simp
    next
      case False
      then show ?thesis using less_append_both [OF less False, of mb "[]"] marker_split_parts(1) [OF assms(1)] by simp
    qed
    then show ?thesis using FileNode False by (simp add: below_def after_def)
  qed
next
  case (DirNode ds)
  have ps: "p \<noteq> []" if "p \<in> set (node_paths c)" for p using node_paths_nonempty [OF assms(3) that] .
  show ?thesis
  proof (cases "md = n @ ''/''")
    case True
    then have m: "m = (n @ ''/'') @ mb" using marker_split_parts(1) [OF assms(1)] by simp
    have dir: "after m (n @ ''/'')" using after_same [of "n @ ''/''" mb "[]"] by (simp add: m HasSuffix_iff)
    have "after m (n @ ''/'' @ p) \<longleftrightarrow> after mb p" if "p \<noteq> []" for p
    proof -
      have "HasSuffix (n @ ''/'' @ p) ''/'' \<longleftrightarrow> HasSuffix p ''/''" using that
        by (cases p rule: rev_cases) (auto simp: HasSuffix_iff)
      then show ?thesis using after_same [of "n @ ''/''" mb p] by (simp add: m after_def)
    qed
    with ps have "filter (after m) (map (\<lambda>p. n @ ''/'' @ p) (node_paths c)) = map (\<lambda>p. n @ ''/'' @ p) (filter (after mb) (node_paths c))"
      unfolding filter_map by (intro arg_cong [of _ _ "map _"] filter_cong) auto
    then show ?thesis unfolding DirNode below_def node.case fst_conv snd_conv using dir True by simp
  next
    case False
    then have less: "md < n @ ''/''" using assms(4) DirNode by simp
    have "after m (n @ ''/'' @ q)" for q using child_beyond [OF assms(1,2) less] by (simp add: after_def)
    then have dir: "after m (n @ ''/'')" and all: "after m (n @ ''/'' @ q)" for q by (metis append_Nil2 append_assoc)+
    have "filter (after m) (map (\<lambda>p. n @ ''/'' @ p) (node_paths c)) = map (\<lambda>p. n @ ''/'' @ p) (filter (after []) (node_paths c))"
      using all ps after_Nil by (simp add: filter_map comp_def filter_id_conv [THEN iffD2])
    then show ?thesis unfolding DirNode below_def node.case fst_conv snd_conv using dir False by simp
  qed
qed

lemma child_filter_all:
  assumes "marker_split m = (md, mb)" and "element n" and "good_node c" and "md < entry_name (n, c)"
  shows "filter (after m) (child_paths (n, c)) = child_paths (n, c)"
proof (cases c)
  case FileNode
  then show ?thesis using child_filter [OF assms(1-3)] assms(4) by (simp add: below_def)
next
  case (DirNode ds)
  have "filter (after []) (node_paths c) = node_paths c"
    using node_paths_nonempty [OF assms(3)] after_Nil by (simp add: filter_id_conv)
  then show ?thesis using child_filter [OF assms(1-3)] assms(4) DirNode by (simp add: below_def)
qed

lemma child_before:
  assumes "marker_split m = (md, mb)" and "element n" and "good_node c" and "entry_name (n, c) < md"
  shows "filter (after m) (child_paths (n, c)) = []"
proof -
  have m: "m = md @ mb" using marker_split_parts(1) [OF assms(1)] .
  have no_slash: "CHR ''/'' \<notin> set n" using assms(2) by (simp add: element_def)
  have "\<not> after m p" if p: "p \<in> set (child_paths (n, c))" for p
  proof (cases c)
    case FileNode
    then have "p = n" using p by (simp add: below_def)
    moreover have "n < m" using assms(4) FileNode append_ge [of md mb] by (simp add: m)
    ultimately show ?thesis using no_slash by (auto simp: after_def HasSuffix_iff)
  next
    case (DirNode ds)
    obtain q where q: "p = (n @ ''/'') @ q" using p DirNode by (auto simp: below_def split: if_splits)
    have less: "n @ ''/'' < md" using assms(4) DirNode by simp
    have not_prefix: "\<not> HasPrefix md (n @ ''/'')"
    proof
      assume "HasPrefix md (n @ ''/'')"
      then obtain t where t: "md = n @ ''/'' @ t" by (auto simp: HasPrefix_iff)
      then obtain d where "md = d @ ''/''" "CHR ''/'' \<notin> set d" using marker_split_parts(2) [OF assms(1)] by auto
      then have "t = []" using slash_last [of d n t] t by simp
      then show False using less t by simp
    qed
    have "p < m" unfolding q m by (rule less_append_both [OF less not_prefix])
    moreover have "\<not> HasPrefix m p"
    proof
      assume "HasPrefix m p"
      then have "m = p @ drop (length p) m" by (metis HasPrefix_def append_take_drop_id)
      then have "(n @ ''/'') @ q @ drop (length p) m = md @ mb" by (metis m q append_assoc)
      with less_append_both [OF less not_prefix, of "q @ drop (length p) m" mb] show False by simp
    qed
    ultimately show ?thesis by (auto simp: after_def)
  qed
  then show ?thesis by (simp add: filter_empty_conv)
qed

section \<open>The walk of a tree\<close>

lemma no_slash_suffix:
  assumes "element n"
  shows "\<not> HasSuffix (d @ n) SlashSeparator"
  using assms by (cases n rule: rev_cases) (auto simp: element_def HasSuffix_iff SlashSeparator_def)

text \<open>\<open>walk_ok\<close>: a walk of a directory below does what is claimed for the whole walk.\<close>

definition walk_ok :: "walk \<Rightarrow> string list \<Rightarrow> string \<times> node \<Rightarrow> bool" where
  "walk_ok walk es x \<longleftrightarrow> (\<forall>ds m e. snd x = DirNode ds \<longrightarrow>
     walk (dir_path (es @ [fst x])) m e =
       Some (ds = [], flagged e (map ((@) (dir_path (es @ [fst x]))) (filter (after m) (node_paths (snd x))))))"

lemma walk_entries_tree:
  assumes "marker_split m = (md, mb)" and "list_all element es"
    and "list_all (\<lambda>x. element (fst x) \<and> good_node (snd x) \<and> walk_ok walk es x) cs"
    and "sorted_wrt (<) (map entry_name cs)" and "list_all (\<lambda>x. md \<le> entry_name x) cs"
    and "\<not> first \<longrightarrow> list_all (\<lambda>x. md < entry_name x) cs"
  shows "walk_entries walk (dir_path es) md mb True isEnd first (map entry_name cs) =
    Some (flagged isEnd (map ((@) (dir_path es)) (filter (after m) (concat (map child_paths cs)))))"
  using assms(3-6)
proof (induction cs arbitrary: first)
  case (Cons x cs)
  obtain n c where x: "x = (n, c)" by (cases x)
  have el: "element n" "good_node c" and wk: "walk_ok walk es x" using Cons.prems(1) by (auto simp: x)
  have beyond: "list_all (\<lambda>y. md < entry_name y) cs"
    using Cons.prems(2,3) by (auto simp: list_all_iff intro: le_less_trans)
  have rest: "walk_entries walk (dir_path es) md mb True isEnd False (map entry_name cs) =
      Some (flagged isEnd (map ((@) (dir_path es)) (filter (after m) (concat (map child_paths cs)))))"
    using Cons.prems beyond by (intro Cons.IH) (auto simp: list_all_iff)
  define R where "R = map ((@) (dir_path es)) (filter (after m) (concat (map child_paths cs)))"
  define P where "P = map ((@) (dir_path es)) (filter (after m) (child_paths x))"
  have R: "R \<noteq> []" if "cs \<noteq> []"
  proof -
    from that obtain y ys where y: "cs = y # ys" by (cases cs) auto
    obtain n2 c2 where yy: "y = (n2, c2)" by (cases y)
    have "md < entry_name (n2, c2)" "element n2" "good_node c2" using beyond Cons.prems(1) by (auto simp: y yy)
    then have "filter (after m) (child_paths (n2, c2)) \<noteq> []"
      using child_filter_all [OF assms(1)] child_paths_nonempty by metis
    then show ?thesis by (simp add: R_def y yy)
  qed
  have split: "flagged isEnd (P @ R) = flagged (cs = [] \<and> isEnd) P @ flagged isEnd R"
  proof (cases "cs = []")
    case True
    then show ?thesis by (simp add: R_def)
  qed (simp add: flagged_append R)
  have goal: "map ((@) (dir_path es)) (filter (after m) (concat (map child_paths (x # cs)))) = P @ R"
    by (simp add: P_def R_def)
  note rest = rest [folded R_def]
  have "md \<le> entry_name (n, c)" using Cons.prems(3) by (simp add: x)
  note filt = child_filter [OF assms(1) el this]
  show ?case
  proof (cases c)
    case FileNode
    then have join: "pathJoin [dir_path es, n] = dir_path es @ n" "\<not> HasSuffix (dir_path es @ n) SlashSeparator"
      using pathJoin_entry(1) [OF assms(2) el(1)] no_slash_suffix [OF el(1)] by simp_all
    have P: "P = (if md = n then [] else [dir_path es @ n])" using filt FileNode by (simp add: P_def x)
    have "md = n \<Longrightarrow> first" using Cons.prems(4) FileNode by (auto simp: x)
    moreover have "walk_entries walk (dir_path es) md mb True isEnd first (map entry_name (x # cs)) =
        (if first \<and> md = n then Some (flagged isEnd R)
         else Some (\<lparr>tw_entry = dir_path es @ n, tw_end = (cs = [] \<and> isEnd)\<rparr> # flagged isEnd R))"
      unfolding x FileNode list.map entry_name.simps walk_entries.simps Let_def join(1) rest using join(2) by simp
    ultimately show ?thesis unfolding goal split unfolding P by (cases "md = n") simp_all
  next
    case (DirNode ds)
    then have join: "pathJoin [dir_path es, n @ ''/''] = dir_path es @ n @ ''/''" "HasSuffix (dir_path es @ n @ ''/'') SlashSeparator"
      using pathJoin_entry(2) [OF assms(2) el(1)] by (auto simp: HasSuffix_iff SlashSeparator_def)
    have walk: "walk (dir_path es @ n @ ''/'') mk e = Some (ds = [], flagged e (map ((@) (dir_path es @ n @ ''/'')) (filter (after mk) (node_paths c))))" for mk e
      using wk DirNode by (auto simp: walk_ok_def x)
    have P: "P = (if ds = [] then [dir_path es @ n @ ''/'']
        else map ((@) (dir_path es @ n @ ''/'')) (filter (after (if md = n @ ''/'' then mb else [])) (node_paths c)))"
      using filt DirNode by (simp add: P_def x)
    have "walk_entries walk (dir_path es) md mb True isEnd first (map entry_name (x # cs)) =
        Some (flagged (cs = [] \<and> isEnd) (map ((@) (dir_path es @ n @ ''/''))
            (filter (after (if md = n @ ''/'' then mb else [])) (node_paths c))) @
          (if ds = [] then [\<lparr>tw_entry = dir_path es @ n @ ''/'', tw_end = (cs = [] \<and> isEnd)\<rparr>] else []) @ flagged isEnd R)"
      unfolding x DirNode list.map entry_name.simps walk_entries.simps Let_def join(1) rest walk [unfolded DirNode]
      using join(2) by (simp add: eq_commute [of md])
    then show ?thesis unfolding goal split unfolding P using DirNode by (cases "ds = []") simp_all
  qed
qed simp

lemma fold_max_ge: "x \<in> set xs \<or> x \<le> a \<Longrightarrow> (x :: nat) \<le> fold max xs a"
  by (induction xs arbitrary: a) (auto simp: le_max_iff_disj)

lemma depth_child: "x \<in> set cs \<Longrightarrow> depth (snd x) < depth (DirNode cs)"
  using fold_max_ge [of "depth (snd x)" "map (\<lambda>x. depth (snd x)) cs" 0] by (auto simp: less_Suc_eq_le)

lemma doTreeWalk_tree:
  assumes "good_node (DirNode cs)" and "lists_tree ls es (DirNode cs)" and "list_all element es" and "depth (DirNode cs) \<le> fuel"
  shows "doTreeWalk fuel ls (dir_path es) [] m True isEnd =
    Some (cs = [], flagged isEnd (map ((@) (dir_path es)) (filter (after m) (node_paths (DirNode cs)))))"
  using assms
proof (induction fuel arbitrary: es cs m isEnd)
  case (Suc fuel)
  obtain md mb where md: "marker_split m = (md, mb)" by fastforce
  have listing: "ls (dir_path es) [] = (cs = [], map entry_name cs)" using Suc.prems(2) by simp
  show ?case
  proof (cases "cs = []")
    case True
    then show ?thesis using listing md by simp
  next
    case False
    define cs1 where "cs1 = takeWhile (\<lambda>x. entry_name x < md) cs"
    define cs2 where "cs2 = dropWhile (\<lambda>x. entry_name x < md) cs"
    have cs: "cs = cs1 @ cs2" by (simp add: cs1_def cs2_def)
    have sorted: "sorted_wrt (<) (map entry_name cs)" and good: "list_all (\<lambda>x. element (fst x) \<and> good_node (snd x)) cs"
      using Suc.prems(1) by simp_all
    have "sorted (map entry_name cs)" using sorted strict_sorted_iff by blast
    then have drop: "drop (sort_Search (length (map entry_name cs)) (\<lambda>i. md \<le> map entry_name cs ! i)) (map entry_name cs) = map entry_name cs2"
      by (subst search_sorted) (simp_all add: dropWhile_map comp_def cs2_def)
    let ?walk = "\<lambda>p m e. doTreeWalk fuel ls p [] m True e"
    have ok: "walk_ok ?walk es x" if x: "x \<in> set cs" for x
      unfolding walk_ok_def
    proof (intro allI impI)
      fix ds m' e
      assume ds: "snd x = DirNode ds"
      have "element (fst x)" "good_node (snd x)" "lists_tree ls (es @ [fst x]) (snd x)" "depth (snd x) \<le> fuel"
        using x good Suc.prems(2,4) depth_child [OF x] by (auto simp: list_all_iff)
      with Suc.prems(3) show "doTreeWalk fuel ls (dir_path (es @ [fst x])) [] m' True e =
          Some (ds = [], flagged e (map ((@) (dir_path (es @ [fst x]))) (filter (after m') (node_paths (snd x)))))"
        unfolding ds by (intro Suc.IH) simp_all
    qed
    have ge: "list_all (\<lambda>x. md \<le> entry_name x) cs2"
    proof (cases cs2)
      case (Cons y ys)
      have "\<not> entry_name y < md" using Cons by (simp add: cs2_def dropWhile_eq_Cons_conv)
      moreover have "sorted_wrt (<) (map entry_name (y # ys))" using sorted cs Cons by (simp add: sorted_wrt_append)
      ultimately show ?thesis using Cons by (auto simp: list_all_iff intro: order.trans less_imp_le)
    qed simp
    have "walk_entries ?walk (dir_path es) md mb True isEnd True (map entry_name cs2) =
        Some (flagged isEnd (map ((@) (dir_path es)) (filter (after m) (concat (map child_paths cs2)))))"
    proof (rule walk_entries_tree [OF md Suc.prems(3) _ _ ge])
      show "list_all (\<lambda>x. element (fst x) \<and> good_node (snd x) \<and> walk_ok ?walk es x) cs2"
        using good ok by (auto simp: cs list_all_iff)
      show "sorted_wrt (<) (map entry_name cs2)" using sorted by (simp add: cs sorted_wrt_append)
    qed simp
    moreover have "filter (after m) (child_paths x) = []" if x: "x \<in> set cs1" for x
    proof -
      have "entry_name x < md" using x set_takeWhileD unfolding cs1_def by fastforce
      moreover have "element (fst x)" "good_node (snd x)" using x good by (auto simp: cs list_all_iff)
      ultimately show ?thesis using child_before [OF md, of "fst x" "snd x"] by simp
    qed
    then have "filter (after m) (concat (map child_paths cs1)) = []" by (auto simp: filter_concat)
    ultimately show ?thesis
      using listing md False drop by (simp add: cs [symmetric]) (simp add: cs)
  qed
qed simp

section \<open>The order of the results\<close>

lemma entry_order:
  assumes "entry_name x < entry_name y" and "element (fst x)" "element (fst y)" and "p \<in> set (child_paths x)" "q \<in> set (child_paths y)"
  shows "p < q"
proof -
  obtain n c n2 c2 where xy: "x = (n, c)" "y = (n2, c2)" by (cases x; cases y)
  have parts: "\<exists>s. p = entry_name x @ s" "\<exists>t. q = entry_name y @ t" "c = FileNode \<Longrightarrow> p = n"
    using assms(4,5) by (auto simp: xy below_def split: node.splits if_splits)
  then obtain s t where st: "p = entry_name x @ s" "q = entry_name y @ t" by blast
  show ?thesis
  proof (cases "HasPrefix (entry_name y) (entry_name x)")
    case True
    then obtain u where u: "entry_name y = entry_name x @ u" by (auto simp: HasPrefix_iff)
    have fl: "c = FileNode"
    proof (cases c)
      case (DirNode ds)
      have n2: "CHR ''/'' \<notin> set n2" using assms(3) by (simp add: xy element_def)
      have "\<exists>ds2. c2 = DirNode ds2" using u n2 by (cases c2) (auto simp: xy DirNode)
      then have "n2 @ ''/'' = n @ ''/'' @ u" using u by (auto simp: xy DirNode)
      then have "u = []" using slash_last n2 by blast
      then show ?thesis using u assms(1) by simp
    qed
    then have "p = entry_name x" using parts(3) by (simp add: xy)
    then show ?thesis using assms(1) append_ge [of "entry_name y" t] by (simp add: st(2))
  next
    case False
    then show ?thesis unfolding st by (rule less_append_both [OF assms(1)])
  qed
qed

lemma node_paths_sorted: "good_node c \<Longrightarrow> sorted_wrt (<) (node_paths c)"
proof (induction c)
  case (DirNode cs)
  have child: "sorted_wrt (<) (child_paths x)" if "x \<in> set cs" for x
  proof -
    have "sorted_wrt (<) (node_paths (snd x))"
      using DirNode.IH [of x "snd x"] DirNode.prems that by (cases x) (auto simp: list_all_iff)
    then show ?thesis by (auto simp: below_def sorted_wrt_map append_less_same split: node.splits)
  qed
  have "sorted_wrt (<) (concat (map child_paths cs))"
    using child DirNode.prems
  proof (induction cs)
    case (Cons x cs)
    have "p < q" if "p \<in> set (child_paths x)" "y \<in> set cs" "q \<in> set (child_paths y)" for p q y
      by (rule entry_order [OF _ _ _ that(1,3)]) (use that Cons.prems(2) in \<open>auto simp: list_all_iff\<close>)
    with Cons show ?case by (auto simp: sorted_wrt_append)
  qed simp
  then show ?case by simp
qed simp

text \<open>Below an empty directory there is nothing.\<close>

lemma below_slash: "q \<in> set (below n c ps) \<Longrightarrow> HasPrefix q (m @ ''/'') \<Longrightarrow> element n \<Longrightarrow> element m \<Longrightarrow> n = m \<and> c \<noteq> FileNode"
proof -
  assume q: "q \<in> set (below n c ps)" "HasPrefix q (m @ ''/'')" and el: "element n" "element m"
  have slash: "CHR ''/'' \<notin> set n" "CHR ''/'' \<notin> set m" using el by (auto simp: element_def)
  from q(2) obtain t where t: "q = m @ ''/'' @ t" by (auto simp: HasPrefix_iff)
  have "c \<noteq> FileNode"
  proof
    assume "c = FileNode"
    then have "q = n" using q(1) by (simp add: below_def)
    then have "n = m @ ''/'' @ t" using t by simp
    then show False using slash(1) by simp
  qed
  moreover from this obtain u where "q = n @ ''/'' @ u"
    using q(1) by (auto simp: below_def split: node.splits if_splits)
  then have "SplitOn CHR ''/'' (n @ ''/'' @ u) = SplitOn CHR ''/'' (m @ ''/'' @ t)" using t by simp
  then have "n = m" using SplitOn_append slash by simp
  ultimately show ?thesis by blast
qed

lemma same_entry:
  assumes "sorted_wrt (<) (map entry_name cs)" and "(n, c) \<in> set cs" and "(n, c2) \<in> set cs"
    and "c \<noteq> FileNode" "c2 \<noteq> FileNode"
  shows "c = c2"
proof -
  have "entry_name (n, c) = entry_name (n, c2)" using assms(4,5) by (cases c; cases c2) auto
  moreover have "distinct (map entry_name cs)" using assms(1) strict_sorted_iff by blast
  ultimately have "(n, c) = (n, c2)" using assms(2,3) by (meson distinct_map inj_onD)
  then show ?thesis by simp
qed

lemma nothing_below_empty:
  assumes "good_node c" and "p \<in> set (node_paths c)" "q \<in> set (node_paths c)" and "HasSuffix p ''/''" "HasPrefix q p"
  shows "q = p"
  using assms
proof (induction c arbitrary: p q)
  case (DirNode cs)
  obtain x y where x: "x \<in> set cs" "p \<in> set (child_paths x)" and y: "y \<in> set cs" "q \<in> set (child_paths y)"
    using DirNode.prems(2,3) by auto
  obtain n c n2 c2 where xy: "x = (n, c)" "y = (n2, c2)" by (cases x; cases y)
  have el: "element n" "element n2" "good_node c" using DirNode.prems(1) x(1) y(1) by (auto simp: xy list_all_iff)
  have "c \<noteq> FileNode"
  proof
    assume "c = FileNode"
    then have "p = n" using x(2) by (simp add: xy below_def)
    then show False using no_slash_suffix [OF el(1), of "[]"] DirNode.prems(4) by (simp add: SlashSeparator_def)
  qed
  then obtain ds where c: "c = DirNode ds" by (cases c) auto
  obtain s where s: "p = n @ ''/'' @ s" "if ds = [] then s = [] else s \<in> set (node_paths c)"
    using x(2) by (auto simp: xy c below_def split: if_splits)
  have "HasPrefix q (n @ ''/'')" using DirNode.prems(5) s(1) by (auto simp: HasPrefix_iff)
  from below_slash [OF _ this el(2,1)] y(2) have n2: "n2 = n" "c2 \<noteq> FileNode" by (auto simp: xy)
  have "c2 = c" using same_entry [of cs n c c2] DirNode.prems(1) x(1) y(1) n2 \<open>c \<noteq> FileNode\<close> by (simp add: xy)
  then obtain t where t: "q = n @ ''/'' @ t" "if ds = [] then t = [] else t \<in> set (node_paths c)"
    using y(2) n2 by (auto simp: xy c below_def split: if_splits)
  show ?case
  proof (cases "ds = []")
    case False
    have "s \<noteq> []" using s(2) False node_paths_nonempty [OF el(3)] by auto
    then have "HasSuffix s ''/''" using DirNode.prems(4) s(1) by (cases s rule: rev_cases) (auto simp: HasSuffix_iff)
    moreover have "HasPrefix t s" using DirNode.prems(5) by (simp add: s(1) t(1) HasPrefix_iff)
    ultimately have "t = s" using DirNode.IH [of x c s t] x(1) el(3) s(2) t(2) False by (simp add: xy)
    then show ?thesis by (simp add: s t)
  qed (use s t in simp)
qed simp

lemma after_nth:
  assumes "good_node c" and "i < length (node_paths c)"
  defines "p \<equiv> node_paths c ! i"
  shows "filter (after p) (node_paths c) = drop (if HasSuffix p ''/'' then i else i + 1) (node_paths c)"
proof -
  let ?L = "node_paths c"
  have sorted: "sorted_wrt (<) ?L" by (rule node_paths_sorted [OF assms(1)])
  have split: "?L = take i ?L @ p # drop (i + 1) ?L" using assms(2) by (simp add: p_def id_take_nth_drop)
  have order: "\<forall>q \<in> set (take i ?L). q < p" "\<forall>q \<in> set (drop (i + 1) ?L). p < q"
    using sorted by (subst (asm) split, auto simp: sorted_wrt_append)+
  have before: "\<not> after p q" if q: "q \<in> set (take i ?L)" for q
  proof
    assume "after p q"
    then have "HasSuffix q ''/''" "HasPrefix p q" using order(1) q by (auto simp: after_def)
    then have "p = q" using nothing_below_empty [OF assms(1), of q p] q assms(2) by (auto simp: p_def dest: in_set_takeD)
    then show False using order(1) q by auto
  qed
  have "filter (after p) (drop (i + 1) ?L) = drop (i + 1) ?L" using order(2) by (simp add: filter_id_conv after_def)
  moreover have "after p p \<longleftrightarrow> HasSuffix p ''/''" by (simp add: after_def HasPrefix_iff)
  moreover have "filter (after p) ?L = filter (after p) (take i ?L) @ filter (after p) (p # drop (i + 1) ?L)"
    by (subst split, subst filter_append) (rule refl)
  moreover have "filter (after p) (take i ?L) = []" using before by (simp add: filter_empty_conv)
  moreover have "drop i ?L = p # drop (i + 1) ?L" using assms(2) by (simp add: p_def Cons_nth_drop_Suc)
  ultimately show ?thesis by simp
qed

section \<open>The listing of a bucket\<close>

text \<open>The tree that the shell shows below a directory of a bucket, the names in any order.\<close>

fun tree_at :: "'m shell \<Rightarrow> string \<Rightarrow> 'm \<Rightarrow> string list \<Rightarrow> node \<Rightarrow> bool" where
  "tree_at sh bucket m es FileNode = True"
| "tree_at sh bucket m es (DirNode cs) \<longleftrightarrow>
     (\<exists>names. FilesLs sh (fs_path [bucket, dir_path es]) m = Inr names \<and> mset names = mset (map fst cs)) \<and>
     list_all (\<lambda>x.
       (\<exists>st. FilesStat sh (fs_path [bucket, dir_path es @ fst x]) m = Inr st \<and>
             (stat_Type st = ''directory'' \<longleftrightarrow> snd x \<noteq> FileNode)) \<and>
       tree_at sh bucket m (es @ [fst x]) (snd x)) cs"

lemma stat_slashes:
  assumes "mfs_cleans sh" and "bucket \<noteq> []" and "n \<noteq> []"
  shows "FilesStat sh (fs_path [bucket, pd @ ''/'' @ n]) m = FilesStat sh (fs_path [bucket, pd @ (if pd = [] \<or> last pd = CHR ''/'' then [] else ''/'') @ n]) m"
    and "FilesStat sh (fs_path [bucket, pd @ n @ ''/'']) m = FilesStat sh (fs_path [bucket, pd @ n]) m"
proof -
  have same: "FilesStat sh p m = FilesStat sh q m" if "path_Clean p = path_Clean q" for p q
    using assms(1) that unfolding mfs_cleans_def by metis
  have fs: "fs_path [bucket, x @ n] = ''/'' @ bucket @ ''/'' @ x @ n" for x
    using assms(2,3) by (simp add: fs_path_def param_bucket_def param_object_def)
  have fs2: "fs_path [bucket, x @ n @ ''/''] = ''/'' @ bucket @ ''/'' @ x @ n @ ''/''" for x
    using assms(2,3) by (simp add: fs_path_def param_bucket_def param_object_def)
  show "FilesStat sh (fs_path [bucket, pd @ n @ ''/'']) m = FilesStat sh (fs_path [bucket, pd @ n]) m"
    using path_Clean_slashes(2) [of "''/'' @ bucket @ ''/'' @ pd @ n"] by (intro same) (simp add: fs fs2)
  show "FilesStat sh (fs_path [bucket, pd @ ''/'' @ n]) m = FilesStat sh (fs_path [bucket, pd @ (if pd = [] \<or> last pd = CHR ''/'' then [] else ''/'') @ n]) m"
  proof (cases pd rule: rev_cases)
    case Nil
    then show ?thesis using path_Clean_slashes(1) [of "''/'' @ bucket" n] fs [of "''/''"] fs [of "[]"] by (intro same) simp
  next
    case (snoc d c)
    then show ?thesis
      using path_Clean_slashes(1) [of "''/'' @ bucket @ ''/'' @ d" n] fs [of "d @ ''//''"] fs [of "d @ ''/''"]
      by (cases "c = CHR ''/''") (auto intro: same)
  qed
qed

lemma dir_path_last: "dir_path es = [] \<or> last (dir_path es) = CHR ''/''"
  by (cases es rule: rev_cases) auto

lemma entries_of_tree:
  assumes "mfs_cleans sh" and "bucket \<noteq> []" and "tree_at sh bucket m es (DirNode cs)" and "good_node (DirNode cs)"
    and "mset names = mset (map fst cs)"
  shows "mset (list_dir_entries sh bucket (dir_path es) m names) = mset (map entry_name cs)"
proof -
  have stat: "FilesStat sh (fs_path [bucket, dir_path es @ ''/'' @ n]) m = FilesStat sh (fs_path [bucket, dir_path es @ n]) m"
    if "n \<noteq> []" for n
    using stat_slashes(1) [OF assms(1,2) that, of "dir_path es"] dir_path_last [of es] by auto
  define f where "f = (\<lambda>name. case FilesStat sh (fs_path [bucket, dir_path es @ ''/'' @ name]) m of
         Inl _ \<Rightarrow> None
       | Inr st \<Rightarrow> Some (if stat_Type st = ''directory'' then name @ SlashSeparator else name))"
  have f: "f (fst x) = Some (entry_name x)" if x: "x \<in> set cs" for x
  proof -
    have ne: "fst x \<noteq> []" using assms(4) x by (auto simp: list_all_iff element_def)
    obtain st where "FilesStat sh (fs_path [bucket, dir_path es @ fst x]) m = Inr st"
        "stat_Type st = ''directory'' \<longleftrightarrow> snd x \<noteq> FileNode"
      using assms(3) x by (auto simp: list_all_iff)
    then show ?thesis
      unfolding f_def stat [OF ne] by (cases x; cases "snd x") (simp_all add: SlashSeparator_def)
  qed
  have "mset (List.map_filter f names) = image_mset (the \<circ> f) (filter_mset (\<lambda>x. f x \<noteq> None) (mset names))"
    by (simp add: List.map_filter_def)
  also have "\<dots> = mset (List.map_filter f (map fst cs))" unfolding assms(5) by (simp add: List.map_filter_def)
  also have "List.map_filter f (map fst cs) = map entry_name cs"
    using f by (induction cs) (auto simp: List.map_filter_simps)
  finally show ?thesis by (simp add: list_dir_entries_def f_def)
qed

lemma lists_of_tree:
  assumes "mfs_cleans sh" and "bucket \<noteq> []" and "tree_at sh bucket m es c" and "good_node c"
  shows "lists_tree (listDir sh bucket m) es c"
  using assms(3,4)
proof (induction c arbitrary: es)
  case (DirNode cs)
  obtain names where names: "FilesLs sh (fs_path [bucket, dir_path es]) m = Inr names" "mset names = mset (map fst cs)"
    using DirNode.prems(1) by auto
  have empty: "names = [] \<longleftrightarrow> cs = []" using names(2) by (metis list.map_disc_iff mset_zero_iff)
  have "sorted (map entry_name cs)" using DirNode.prems(2) strict_sorted_iff by auto
  then have "sort (list_dir_entries sh bucket (dir_path es) m names) = map entry_name cs"
    using entries_of_tree [OF assms(1,2) DirNode.prems names(2)] by (simp add: properties_for_sort)
  then have "listDir sh bucket m (dir_path es) [] = (cs = [], map entry_name cs)"
    using empty by (auto simp: listDir_def names(1) filterMatchingPrefix_def)
  moreover have "lists_tree (listDir sh bucket m) (es @ [fst x]) (snd x)" if "x \<in> set cs" for x
  proof -
    have "tree_at sh bucket m (es @ [fst x]) (snd x)" "good_node (snd x)"
      using DirNode.prems that by (auto simp: list_all_iff)
    then show ?thesis using DirNode.IH [of x "snd x" "es @ [fst x]"] that by (cases x) simp
  qed
  ultimately show ?case by (simp add: list_all_iff)
qed simp

lemma info_of_tree:
  assumes "mfs_cleans sh" and "bucket \<noteq> []" and "tree_at sh bucket m es c" and "good_node c" and "p \<in> set (node_paths c)"
  shows "\<exists>oi. GetObjectInfo sh now bucket (dir_path es @ p) m = Inr oi \<and> oi_Name oi = dir_path es @ p \<and>
    (oi_IsDir oi \<longleftrightarrow> HasSuffix p ''/'')"
  using assms(3-5)
proof (induction c arbitrary: es p)
  case (DirNode cs)
  obtain x where x: "x \<in> set cs" "p \<in> set (child_paths x)" using DirNode.prems(3) by auto
  obtain n c where xy: "x = (n, c)" by (cases x)
  have el: "element n" "good_node c" "tree_at sh bucket m (es @ [n]) c"
    using DirNode.prems(1,2) x(1) by (auto simp: xy list_all_iff)
  obtain st where st: "FilesStat sh (fs_path [bucket, dir_path es @ n]) m = Inr st"
      "stat_Type st = ''directory'' \<longleftrightarrow> c \<noteq> FileNode"
    using DirNode.prems(1) x(1) by (auto simp: xy list_all_iff)
  have n: "n \<noteq> []" "\<not> HasSuffix n ''/''"
    using el(1) no_slash_suffix [OF el(1), of "[]"] by (auto simp: element_def SlashSeparator_def)
  consider "c = FileNode" "p = n" | "c = DirNode []" "p = n @ ''/''" | q where "q \<in> set (node_paths c)" "p = n @ ''/'' @ q"
    using x(2) by (cases c) (auto simp: xy below_def split: if_splits)
  then show ?case
  proof cases
    case 1
    then show ?thesis using st n by (simp add: GetObjectInfo_def stat_then_def object_info_def)
  next
    case 2
    then show ?thesis using st stat_slashes(2) [OF assms(1,2) n(1), of "dir_path es" m]
      by (simp add: GetObjectInfo_def stat_then_def object_info_def HasSuffix_iff)
  next
    case 3
    have "q \<noteq> []" using node_paths_nonempty [OF el(2) 3(1)] .
    then have "HasSuffix (n @ ''/'' @ q) ''/'' \<longleftrightarrow> HasSuffix q ''/''"
      by (cases q rule: rev_cases) (auto simp: HasSuffix_iff)
    then show ?thesis using DirNode.IH [of x c "es @ [n]" q] x(1) el 3 by (simp add: xy)
  qed
qed simp

section \<open>Pages\<close>

lemma collect_all:
  assumes "\<And>p. p \<in> set ps \<Longrightarrow> info p = Inr (oi p)" and "0 < k"
  shows "collect info k (flagged True ps) =
    Inr (map oi (take k ps), length ps \<le> k, if length ps \<le> k then [] else flagged True (drop k ps))"
  using assms
proof (induction ps arbitrary: k rule: induct_list012)
  case 1
  then show ?case by (cases k) auto
next
  case (2 p)
  then show ?case by (cases k) auto
next
  case (3 p q ps)
  then obtain k' where k: "k = Suc k'" by (cases k) auto
  show ?case
  proof (cases k')
    case 0
    then show ?thesis using 3 k by simp
  next
    case (Suc k2)
    then show ?thesis using "3.IH"(2) [of k'] 3 k by simp
  qed
qed

lemma startTreeWalk_tree:
  assumes "good_node (DirNode cs)" and "lists_tree ls [] (DirNode cs)" and "depth (DirNode cs) \<le> fuel"
  shows "startTreeWalk fuel ls [] m True = Some (flagged True (filter (after m) (node_paths (DirNode cs))))"
proof -
  have "map ((@) []) xs = xs" for xs :: "string list" by (induction xs) auto
  then show ?thesis using doTreeWalk_tree [OF assms(1,2) _ assms(3), of m True]
    by (simp add: startTreeWalk_def LastIndexChar_def TrimPrefix_def del: node_paths.simps)
qed

definition bucket_params :: "string \<Rightarrow> string \<Rightarrow> listParams" where
  "bucket_params bucket marker = \<lparr>lp_bucket = bucket, lp_recursive = True, lp_marker = marker, lp_prefix = []\<rparr>"

definition shows_tree :: "'m shell \<Rightarrow> string \<Rightarrow> 'm \<Rightarrow> nat \<Rightarrow> (string \<times> node) list \<Rightarrow> bool" where
  "shows_tree sh bucket m fuel cs \<longleftrightarrow>
     mfs_cleans sh \<and> bucket \<noteq> [] \<and> mfs_there sh (fs_path [bucket]) m \<and> tree_at sh bucket m [] (DirNode cs) \<and>
     good_node (DirNode cs) \<and> depth (DirNode cs) \<le> fuel"

lemma ListObjects_page:
  assumes "shows_tree sh bucket m fuel cs" and "0 < k" "k \<le> 10000"
    and walk: "pool_Release tpool (bucket_params bucket marker) = (t0, released)"
    and ws: "(case released of Some ws \<Rightarrow> Some ws | None \<Rightarrow> startTreeWalk fuel (listDir sh bucket m) [] marker True) = Some (flagged True ps)"
    and ps: "set ps \<subseteq> set (node_paths (DirNode cs))"
  shows "\<exists>t lo. ListObjects sh now fuel tpool bucket [] marker [] (int k) m = Some (t, Inr lo) \<and>
    map oi_Name (lo_Objects lo) = take k ps \<and> lo_Prefixes lo = [] \<and> (lo_IsTruncated lo \<longleftrightarrow> k < length ps) \<and>
    lo_NextMarker lo = (if k < length ps then ps ! (k - 1) else []) \<and>
    t = (if k < length ps then pool_Set t0 (bucket_params bucket (ps ! (k - 1))) (flagged True (drop k ps)) else t0)"
proof -
  from assms(1) have sh: "mfs_cleans sh" "bucket \<noteq> []" "tree_at sh bucket m [] (DirNode cs)" "good_node (DirNode cs)"
    unfolding shows_tree_def by blast+
  from assms(1) obtain st where st: "FilesStat sh (fs_path [bucket]) m = Inr st" by (auto simp: shows_tree_def mfs_there_def)
  define info where "info = (\<lambda>object. GetObjectInfo sh now bucket object m)"
  have "\<exists>oi. info p = Inr oi \<and> oi_Name oi = p" if "p \<in> set (node_paths (DirNode cs))" for p
    using info_of_tree [OF sh that, of now] by (auto simp: info_def)
  then obtain oi where oi: "\<And>p. p \<in> set (node_paths (DirNode cs)) \<Longrightarrow> info p = Inr (oi p) \<and> oi_Name (oi p) = p" by metis
  have entry: "entry_info bucket info [info] p = Inr (oi p)" if "p \<in> set ps" for p
  proof -
    have "info p = Inr (oi p)" using oi ps that by blast
    then show ?thesis by (simp add: entry_info_def)
  qed
  have all: "collect (entry_info bucket info [info]) k (flagged True ps) =
      Inr (map oi (take k ps), length ps \<le> k, if length ps \<le> k then [] else flagged True (drop k ps))"
    by (rule collect_all [OF entry assms(2)])
  have names: "map oi_Name (map oi (take k ps)) = take k ps"
  proof -
    have "oi_Name (oi p) = p" if "p \<in> set (take k ps)" for p using oi ps that in_set_takeD by (metis subsetD)
    then show ?thesis by (simp add: map_idI)
  qed
  have last: "map oi (take k ps) \<noteq> [] \<and> oi_Name (last (map oi (take k ps))) = ps ! (k - 1)" if "k < length ps"
  proof -
    have ne: "take k ps \<noteq> []" using that assms(2) by auto
    then have "oi_Name (last (map oi (take k ps))) = last (map oi_Name (map oi (take k ps)))" by (simp add: last_map)
    also have "\<dots> = ps ! (k - 1)" unfolding names using that assms(2) ne by (simp add: last_conv_nth)
    finally show ?thesis using ne by simp
  qed
  have limit: "nat (if int k < 0 \<or> maxObjectList < int k then maxObjectList else int k) = k"
    using assms(3) by (simp add: maxObjectList_def)
  have check: "checkListObjsArgs (case GetBucketInfo sh now bucket m of Inl err \<Rightarrow> Some err | Inr _ \<Rightarrow> None) bucket [] marker = None"
    using st by (simp add: checkListObjsArgs_def GetBucketInfo_def stat_then_def IsValidObjectPrefix_def ValidString_def
        bytes_of_def Contains_def)
  have ns: "([] = SlashSeparator) = False" by (simp add: SlashSeparator_def)
  have next_params: "(if map oi (take k ps) = [] then [] else oi_Name (last (map oi (take k ps)))) = ps ! (k - 1)" if "k < length ps"
    using last [OF that] by simp
  have "ListObjects sh now fuel tpool bucket [] marker [] (int k) m =
      Some (if length ps \<le> k then t0
            else pool_Set t0 (bucket_params bucket (if map oi (take k ps) = [] then [] else oi_Name (last (map oi (take k ps)))))
                   (if length ps \<le> k then [] else flagged True (drop k ps)),
            Inr (page (\<lambda>oi. oi_IsDir oi \<and> False) (length ps \<le> k) (map oi (take k ps))))"
    unfolding ListObjects_def st sum.case Let_def info_def [symmetric] listObjects_def check option.case limit ns not_False_eq_True
      walk [unfolded bucket_params_def] split_conv ws all bucket_params_def
    using assms(2) by simp
  then have page: "ListObjects sh now fuel tpool bucket [] marker [] (int k) m =
      Some (if k < length ps then pool_Set t0 (bucket_params bucket (ps ! (k - 1))) (flagged True (drop k ps)) else t0,
            Inr (page (\<lambda>oi. False) (length ps \<le> k) (map oi (take k ps))))"
    using next_params by (cases "k < length ps") simp_all
  have "filter (\<lambda>oi. \<not> False) xs = xs" "filter (\<lambda>oi. False) xs = []" for xs :: "ObjectInfo list" by simp_all
  then show ?thesis using names last unfolding page by (simp add: page_def not_less)
qed



section \<open>An instance\<close>

definition ex_tree :: "(string \<times> node) list" where
  "ex_tree = [(''e'', DirNode []), (''f'', FileNode)]"

definition ex_fs :: mem where
  "ex_fs = [''/bkt'' \<mapsto> Dir, ''/bkt/e'' \<mapsto> Dir, ''/bkt/f'' \<mapsto> File ''x'']"

definition ex_shell :: "mem shell" where
  "ex_shell = mem_shell\<lparr>FilesLs := \<lambda>p m. Inr (if path_Clean p = ''/bkt'' then [''e'', ''f''] else [])\<rparr>"

lemma ex_shows_tree: "shows_tree ex_shell ''bkt'' ex_fs 2 ex_tree"
proof -
  have paths: "fs_path [''bkt''] = ''/bkt''" "fs_path [''bkt'', []] = ''/bkt''" "fs_path [''bkt'', ''e''] = ''/bkt/e''"
    "fs_path [''bkt'', ''f''] = ''/bkt/f''" "fs_path [''bkt'', ''e/''] = ''/bkt/e/''"
    by (simp_all add: fs_path_def param_bucket_def param_object_def)
  have clean: "path_Clean ''/bkt'' = ''/bkt''" "path_Clean ''/bkt/e'' = ''/bkt/e''" "path_Clean ''/bkt/e/'' = ''/bkt/e''"
    "path_Clean ''/bkt/f'' = ''/bkt/f''"
    by (simp_all add: path_Clean_def Let_def)
  have "mfs_cleans ex_shell"
    unfolding mfs_cleans_def ex_shell_def mem_shell_def shell.simps path_Clean_idem by simp
  moreover have "mfs_there ex_shell (fs_path [''bkt'']) ex_fs"
    by (simp add: mfs_there_def ex_shell_def mem_shell_def paths clean ex_fs_def)
  moreover have "tree_at ex_shell ''bkt'' ex_fs [] (DirNode ex_tree)"
    by (simp add: ex_tree_def ex_shell_def mem_shell_def paths clean ex_fs_def)
  moreover have "good_node (DirNode ex_tree)" by (simp add: ex_tree_def element_def)
  moreover have "depth (DirNode ex_tree) \<le> 2" by (simp add: ex_tree_def)
  ultimately show ?thesis by (simp add: shows_tree_def)
qed

lemma ex_paths: "node_paths (DirNode ex_tree) = [''e/'', ''f'']"
  by (simp add: ex_tree_def below_def)



end
