(* ===== verification/ServerUtils.thy ===== *)
theory ServerUtils
  imports ObjectUtils HTTPRange ConditionValue "HOL-Library.Signed_Division"
begin

text \<open>
  The helpers of \<open>cmd/ipos/cmd/utils.go\<close> on paths, numbers and strings, and the master key of
  \<open>crypto/parse.go\<close>.
\<close>

section \<open>Paths and entity tags\<close>

definition path2BucketObjectWithBasePath :: "string \<Rightarrow> string \<Rightarrow> string \<times> string" where
  "path2BucketObjectWithBasePath basePath path0 =
     (let path = TrimPrefix (TrimPrefix path0 basePath) SlashSeparator in
      case Index path SlashSeparator of
        None \<Rightarrow> (path, [])
      | Some i \<Rightarrow> (take i path, drop (i + length SlashSeparator) path))"

definition path2BucketObject :: "string \<Rightarrow> string \<times> string" where
  "path2BucketObject s = path2BucketObjectWithBasePath [] s"

definition ToS3ETag :: "string \<Rightarrow> string" where
  "ToS3ETag etag0 =
     (let etag = canonicalizeETag etag0 in if \<not> HasSuffix etag ''-1'' then etag @ ''-1'' else etag)"

section \<open>Numbers\<close>

definition getDefaultParityBlocks :: "nat \<Rightarrow> nat" where "getDefaultParityBlocks drive = drive div 2"
definition getDefaultDataBlocks :: "nat \<Rightarrow> nat" where "getDefaultDataBlocks drive = drive - getDefaultParityBlocks drive"
definition getReadQuorum :: "nat \<Rightarrow> nat" where "getReadQuorum drive = getDefaultDataBlocks drive"
definition getWriteQuorum :: "nat \<Rightarrow> nat" where "getWriteQuorum drive = getDefaultDataBlocks drive + 1"

text \<open>Negation, division and increment wrap; \<open>sdiv\<close> and \<open>smod\<close> truncate towards zero as in Go.\<close>

definition ceilFrac :: "int \<Rightarrow> int \<Rightarrow> int" where
  "ceilFrac numerator denominator =
     (if denominator = 0 then 0
      else
        (let (n, d) = (if denominator < 0 then (wrap64 (- numerator), wrap64 (- denominator)) else (numerator, denominator));
             ceil = wrap64 (n sdiv d)
         in if 0 < n \<and> n smod d \<noteq> 0 then wrap64 (ceil + 1) else ceil))"

section \<open>Lists of strings\<close>

text \<open>The swaps of the two indices that move towards each other.\<close>

function reverse_loop :: "'a list \<Rightarrow> nat \<Rightarrow> nat \<Rightarrow> 'a list" where
  "reverse_loop input left right =
     (if left < right then reverse_loop (input[left := input ! right, right := input ! left]) (left + 1) (right - 1) else input)"
  by auto
termination by (relation "measure (\<lambda>(_, left, right). right - left)") auto

declare reverse_loop.simps [simp del]

definition reverseStringSlice :: "'a list \<Rightarrow> 'a list" where
  "reverseStringSlice input = reverse_loop input 0 (length input - 1)"

text \<open>Strings are compared byte by byte.\<close>

definition lcp_extremes :: "string list \<Rightarrow> string \<times> string \<Rightarrow> string \<times> string" where
  "lcp_extremes l = fold (\<lambda>s (mn, mx). if s < mn then (s, mx) else if mx < s then (mn, s) else (mn, mx)) l"

function lcp_loop :: "string \<Rightarrow> string \<Rightarrow> nat \<Rightarrow> string" where
  "lcp_loop mn mx i =
     (if i < length mn \<and> i < length mx then (if mn ! i \<noteq> mx ! i then take i mn else lcp_loop mn mx (i + 1)) else mn)"
  by auto
termination by (relation "measure (\<lambda>(mn, _, i). length mn - i)") auto

declare lcp_loop.simps [simp del]

definition lcp :: "string list \<Rightarrow> string" where
  "lcp l =
     (case l of
        [] \<Rightarrow> []
      | [s] \<Rightarrow> s
      | s # ss \<Rightarrow> (case lcp_extremes ss (s, s) of (mn, mx) \<Rightarrow> lcp_loop mn mx 0))"

section \<open>The master key\<close>

datatype master_key_err = NoColon string | NotThirtyTwoBytes string | NotHex string

definition ParseMasterKey :: "string \<Rightarrow> master_key_err + masterKeyKMS" where
  "ParseMasterKey envArg =
     (case SplitN2 envArg '':'' of
        [keyID, hexKey] \<Rightarrow>
          if length hexKey \<noteq> 64 then Inl (NotThirtyTwoBytes hexKey)
          else (case hex_DecodeString hexKey of
                  None \<Rightarrow> Inl (NotHex hexKey)
                | Some masterKey \<Rightarrow> Inr (NewMasterKey keyID masterKey))
      | _ \<Rightarrow> Inl (NoColon envArg))"

section \<open>What the helpers compute\<close>

lemma path_pairs_agree: "path2BucketObject s = path2BucketAndObject s"
  by (auto simp: path2BucketObject_def path2BucketObjectWithBasePath_def path2BucketAndObject_def Let_def SplitN2_def
      SlashSeparator_def TrimPrefix_def split: option.splits)

lemma reverse_loop_nth:
  assumes "right < length xs" and "i < length xs"
  shows "length (reverse_loop xs left right) = length xs \<and>
    reverse_loop xs left right ! i = (if left \<le> i \<and> i \<le> right then xs ! (left + right - i) else xs ! i)"
  using assms
proof (induction xs left right arbitrary: i rule: reverse_loop.induct)
  case (1 xs left right)
  show ?case
  proof (cases "left < right")
    case True
    let ?xs = "xs[left := xs ! right, right := xs ! left]"
    have ih: "length (reverse_loop ?xs (left + 1) (right - 1)) = length ?xs \<and>
        reverse_loop ?xs (left + 1) (right - 1) ! i =
        (if left + 1 \<le> i \<and> i \<le> right - 1 then ?xs ! (left + 1 + (right - 1) - i) else ?xs ! i)"
      by (rule "1.IH" [OF True]) (use "1.prems" in auto)
    consider "i = left" | "i = right" | "left < i" "i < right" | "i < left" | "right < i" by linarith
    then show ?thesis using ih "1.prems" True
      by cases (auto simp: reverse_loop.simps [of xs left right] nth_list_update)
  next
    case False
    then have "left \<le> i \<and> i \<le> right \<Longrightarrow> left + right - i = i" by linarith
    then show ?thesis using False by (auto simp: reverse_loop.simps [of xs left right])
  qed
qed

text \<open>Reversing in place is reversing.\<close>

lemma reverseStringSlice_rev: "reverseStringSlice xs = rev xs"
proof (cases "xs = []")
  case True
  then show ?thesis by (simp add: reverseStringSlice_def reverse_loop.simps)
next
  case False
  then have r: "length xs - 1 < length xs" by simp
  show ?thesis
  proof (rule nth_equalityI)
    show "length (reverseStringSlice xs) = length (rev xs)"
      using reverse_loop_nth [OF r r] by (simp add: reverseStringSlice_def)
    fix i
    assume "i < length (reverseStringSlice xs)"
    then have i: "i < length xs" using reverse_loop_nth [OF r r] by (simp add: reverseStringSlice_def)
    show "reverseStringSlice xs ! i = rev xs ! i"
    proof -
      have "i \<le> length xs - 1" using i by linarith
      then show ?thesis using reverse_loop_nth [OF r i, of 0] i by (simp add: reverseStringSlice_def rev_nth)
    qed
  qed
qed

lemma lcp_extremes_bounds:
  assumes "mn \<le> mx" and "lcp_extremes l (mn, mx) = (mn', mx')"
  shows "mn' \<le> mn \<and> mx \<le> mx' \<and> (\<forall>s\<in>set l. mn' \<le> s \<and> s \<le> mx') \<and> mn' \<in> insert mn (set l) \<and> mx' \<in> insert mx (set l)"
  using assms
proof (induction l arbitrary: mn mx)
  case (Cons s l)
  consider "s < mn" | "\<not> s < mn" "mx < s" | "mn \<le> s" "s \<le> mx" by fastforce
  then show ?case
  proof cases
    case 1
    have "s \<le> mx" using 1 Cons.prems(1) by simp
    moreover have "lcp_extremes l (s, mx) = (mn', mx')" using Cons.prems(2) 1 by (simp add: lcp_extremes_def)
    ultimately show ?thesis using Cons.IH [of s mx] 1 by (auto intro: order_trans less_imp_le)
  next
    case 2
    have "mn \<le> s" using 2 Cons.prems(1) by simp
    moreover have "lcp_extremes l (mn, s) = (mn', mx')" using Cons.prems(2) 2 by (simp add: lcp_extremes_def)
    ultimately show ?thesis using Cons.IH [of mn s] 2 by (auto intro: order_trans less_imp_le)
  next
    case 3
    then have "lcp_extremes l (mn, mx) = (mn', mx')" using Cons.prems(2) by (simp add: lcp_extremes_def not_less [symmetric])
    then show ?thesis using Cons.IH [OF Cons.prems(1)] 3 by (auto intro: order_trans)
  qed
qed (simp add: lcp_extremes_def)

text \<open>What two strings begin with, all strings between them begin with.\<close>

lemma between_prefix:
  fixes a s b :: string
  assumes "a \<le> s" and "s \<le> b" and "HasPrefix a p" and "HasPrefix b p"
  shows "HasPrefix s p"
  using assms
proof (induction p arbitrary: a s b)
  case (Cons c p)
  then obtain a' b' where ab: "a = c # a'" "b = c # b'" by (auto simp: HasPrefix_iff)
  then obtain c' s' where s: "s = c' # s'" using Cons.prems(1) by (cases s) auto
  have "c' = c" using Cons.prems(1,2) by (auto simp: ab s)
  then show ?case using Cons.IH [of a' s' b'] Cons.prems by (auto simp: ab s)
qed simp

lemma lcp_loop_prefix:
  assumes "take i mn = take i mx" and "i \<le> length mn" and "i \<le> length mx" and "mn \<le> mx"
  shows "HasPrefix mn (lcp_loop mn mx i) \<and> HasPrefix mx (lcp_loop mn mx i) \<and>
    (\<forall>p. HasPrefix mn p \<and> HasPrefix mx p \<longrightarrow> HasPrefix (lcp_loop mn mx i) p)"
  using assms
proof (induction mn mx i rule: lcp_loop.induct)
  case (1 mn mx i)
  consider "i < length mn" "i < length mx" "mn ! i = mx ! i" | "i < length mn" "i < length mx" "mn ! i \<noteq> mx ! i"
    | "i = length mn" | "i = length mx" "i < length mn" using "1.prems" by linarith
  then show ?case
  proof cases
    case 1
    then have "take (i + 1) mn = take (i + 1) mx" using "1.prems"(1) by (simp add: take_Suc_conv_app_nth)
    then show ?thesis using "1.IH" 1 "1.prems"(4) by (simp add: lcp_loop.simps [of mn mx i])
  next
    case 2
    have loop: "lcp_loop mn mx i = take i mn" using 2 by (simp add: lcp_loop.simps [of mn mx i])
    have "HasPrefix (take i mn) p" if p: "HasPrefix mn p" "HasPrefix mx p" for p
    proof -
      have "length p \<le> i"
      proof (rule ccontr)
        assume "\<not> length p \<le> i"
        then have "mn ! i = mx ! i" using p by (auto simp: HasPrefix_iff nth_append)
        then show False using 2 by simp
      qed
      then show ?thesis using p(1) by (auto simp: HasPrefix_def min_def)
    qed
    moreover have "HasPrefix mn (take i mn)" "HasPrefix mx (take i mn)"
      using "1.prems"(1) by (metis HasPrefix_iff append_take_drop_id)+
    ultimately show ?thesis by (simp add: loop)
  next
    case 3
    then have "lcp_loop mn mx i = mn" by (subst lcp_loop.simps) simp
    moreover have "HasPrefix mx mn" using "1.prems"(1) 3 by (simp add: HasPrefix_def)
    ultimately show ?thesis by (simp add: HasPrefix_def)
  next
    case 4
    then obtain t where "mn = mx @ t" "t \<noteq> []" using "1.prems"(1)
      by (metis append_take_drop_id drop_eq_Nil not_less take_all_iff order_refl)
    then have "mx < mn" by (cases t) (auto simp: list_less_def lexord_append_rightI)
    then show ?thesis using "1.prems"(4) by simp
  qed
qed

text \<open>C: The longest prefix that all strings of a list share: each string has it, and every other common
  prefix is one of it.\<close>

theorem lcp_is_longest:
  assumes "l \<noteq> []"
  shows "(\<forall>s \<in> set l. HasPrefix s (lcp l)) \<and> (\<forall>p. (\<forall>s \<in> set l. HasPrefix s p) \<longrightarrow> HasPrefix (lcp l) p)"
proof -
  obtain s ss where l: "l = s # ss" using assms by (cases l) auto
  show ?thesis
  proof (cases ss)
    case Nil
    then show ?thesis by (auto simp: l lcp_def HasPrefix_def)
  next
    case (Cons s2 ss2)
    obtain mn mx where e: "lcp_extremes ss (s, s) = (mn, mx)" by fastforce
    have b: "mn \<le> s" "s \<le> mx" "\<And>x. x \<in> set ss \<Longrightarrow> mn \<le> x \<and> x \<le> mx" "mn \<in> set l" "mx \<in> set l"
      using lcp_extremes_bounds [OF order_refl e] by (auto simp: l)
    have lcp: "lcp l = lcp_loop mn mx 0" using e Cons by (simp add: lcp_def l)
    have p: "HasPrefix mn (lcp l)" "HasPrefix mx (lcp l)" "\<And>p. HasPrefix mn p \<Longrightarrow> HasPrefix mx p \<Longrightarrow> HasPrefix (lcp l) p"
      using lcp_loop_prefix [of 0 mn mx] order_trans [OF b(1,2)] unfolding lcp by auto
    have "HasPrefix x (lcp l)" if "x \<in> set l" for x
      using that b(1-3) p(1,2) between_prefix [of mn x mx] by (auto simp: l)
    then show ?thesis using p(3) b(4,5) by blast
  qed
qed

theorem lcp_is_longest_witness: "HasPrefix ''abx'' (lcp [''abcd'', ''abx'', ''ab''])"
  using lcp_is_longest [of "[''abcd'', ''abx'', ''ab'']"] by simp

lemma sdiv_pos:
  assumes "0 < (d :: int)"
  shows "n sdiv d = (if 0 \<le> n then n div d else - (- n div d))" and "0 < n \<Longrightarrow> n smod d = n mod d"
  using assms by (auto simp: signed_divide_int_def signed_modulo_int_def sgn_if zdiv_zminus1_eq_if)

lemma div_le_self: "0 < (d :: int) \<Longrightarrow> 0 \<le> n \<Longrightarrow> n div d \<le> n"
  using zdiv_mono2 [of n 1 d] by simp

lemma ceil_pos:
  assumes "0 < (d :: int)" and "in_int64 n" and "in_int64 d"
  shows "(let ceil = wrap64 (n sdiv d) in if 0 < n \<and> n smod d \<noteq> 0 then wrap64 (ceil + 1) else ceil) = - (- n div d)"
proof (cases "0 < n")
  case True
  have q: "0 \<le> n div d" "n div d \<le> n" using assms(1) True by (simp_all add: pos_imp_zdiv_nonneg_iff div_le_self)
  then have "in_int64 (n div d)" using assms(2) by (simp add: in_int64_def int64_min_def)
  moreover have "in_int64 (n div d + 1)" if "n mod d \<noteq> 0"
  proof -
    have "d \<noteq> 1" using that by auto
    then have "n div d < n" using int_div_less_self [of n d] True assms(1) by simp
    then show ?thesis using q assms(2) by (simp add: in_int64_def int64_min_def)
  qed
  ultimately show ?thesis using True assms(1) sdiv_pos [OF assms(1), of n]
    by (simp add: Let_def zdiv_zminus1_eq_if)
next
  case False
  have q: "0 \<le> - n div d" "- n div d \<le> - n" using assms(1) False by (simp_all add: pos_imp_zdiv_nonneg_iff div_le_self)
  then have "in_int64 (- (- n div d))" using assms(2) False by (simp add: in_int64_def int64_max_def)
  moreover have "n sdiv d = - (- n div d)" using sdiv_pos(1) [OF assms(1), of n] False by (cases "n = 0") auto
  ultimately show ?thesis using False by (simp add: Let_def)
qed

text \<open>C: The quotient rounded up, for all int64 values but the smallest one, whose negation wraps.\<close>

theorem ceilFrac_rounds_up:
  assumes "in_int64 n" and "in_int64 d" and "n \<noteq> int64_min" and "d \<noteq> int64_min" and "d \<noteq> 0"
  shows "ceilFrac n d = - (- n div d)"
proof (cases "0 < d")
  case True
  then show ?thesis using ceil_pos [OF True assms(1,2)] assms(5) by (simp add: ceilFrac_def)
next
  case False
  have neg: "wrap64 (- n) = - n" "wrap64 (- d) = - d" "in_int64 (- n)" "in_int64 (- d)"
    using assms by (auto simp: in_int64_def int64_min_def int64_max_def intro!: wrap64_id)
  have "0 < - d" using False assms(5) by simp
  have "- (- n) div - d = - n div d" by (metis div_minus_minus minus_minus)
  with ceil_pos [OF \<open>0 < - d\<close> neg(3,4)] show ?thesis using False assms(5)
    by (simp only: ceilFrac_def neg(1,2) if_False split_conv Let_def) simp
qed

theorem ceilFrac_rounds_up_witness: "ceilFrac 7 (- 2) = - 3"
  using ceilFrac_rounds_up [of 7 "- 2"] by (simp add: in_int64_def int64_min_def int64_max_def)

end
