(* ===== verification/Spec2Isabelle.thy ===== *)
theory Spec2Isabelle
  imports Wildcard PolicySys NSLock HTTPRange IAMOps IAMStoreProps AuthProps IpfsProps ListingProps ServerUtils SioMain
begin

text \<open>
  A model of IPOS, a server with the S3 interface on top of IPFS, written in Go.  A request passes
  authentication, is authorised by the policies of the bucket or of the caller, takes a lock on the
  names it works on and goes to the object layer.  The development models the parts of this path
  that hold the program's own logic; the theories follow the packages.

  \<^item> Theory \<open>Prelude\<close>: results that may panic (\<open>'a go\<close>), loops over slices with an early exit,
    iteration over Go maps used as sets, collections of facts.
  \<^item> Theories \<open>GoStrings\<close>, \<open>GoPath\<close>, \<open>Utf8\<close>, \<open>GoTime\<close>, \<open>GoNet\<close>, \<open>Json\<close>: what the program uses of
    \<open>strings\<close>, \<open>strconv\<close>, \<open>path\<close>, runes, \<open>time\<close>, \<open>net\<close>, base64 and of decoded JSON documents.
    A string is a list of bytes; a document is a tree, as the decoder hands it to \<open>UnmarshalJSON\<close>.
  \<^item> Theory \<open>Wildcard\<close> (\<open>pkg/wildcard\<close>): the matcher \<open>deepMatchRune\<close> and its callers, against an
    inductive relation \<open>glob\<close>.  Theory \<open>StringSet\<close> (\<open>pkg/set\<close>).  Theory \<open>S3Utils\<close> (\<open>pkg/s3utils\<close>):
    names of buckets and objects, percent encoding, tags.
  \<^item> Theories \<open>ConditionKey\<close>, \<open>ConditionValue\<close>, \<open>ConditionString\<close>, \<open>ConditionScalar\<close>, \<open>Condition\<close>
    (\<open>pkg/bucket/policy/condition\<close>): keys, values and the 23 conditions; \<open>Function\<close> is the sum of
    the structs behind the Go interface \<open>Function\<close>, and a list of them is \<open>Functions\<close>.
  \<^item> Theory \<open>PolicyEngine\<close>: what the two policy packages share, with the locale \<open>policy_engine\<close> for
    the order of Deny, owner and Allow.  Theories \<open>BucketPolicy\<close> (\<open>pkg/bucket/policy\<close>) and
    \<open>IamPolicy\<close> (\<open>pkg/iam/policy\<close>) interpret it; they hold statements, policies, their validation,
    reading and writing, the removal of duplicates and the canned policies.
  \<^item> Theory \<open>HttpRequest\<close> (\<open>pkg/handlers/proxy.go\<close>, \<open>cmd/ipos/http/headers.go\<close>): requests and the
    address of the client.  Theory \<open>PolicySys\<close> (\<open>cmd/ipos/cmd/policy.go\<close>): the table of bucket
    policies and the condition values of a request.
  \<^item> Theories \<open>LRWMutex\<close> (\<open>pkg/lsync/lrwmutex.go\<close>) and \<open>NSLock\<close> (\<open>cmd/ipos/cmd/namespace-lock.go\<close>): the
    lock with a retry loop, as an interpretation of the locale \<open>rw_lock\<close>, and the reference counted
    map of locks as a step relation over any number of goroutines.
  \<^item> Theory \<open>HTTPRange\<close> (\<open>cmd/ipos/cmd/httprange.go\<close>): the \<open>Range\<close> header in \<open>int64\<close> arithmetic.
  \<^item> Theory \<open>Credentials\<close> (\<open>pkg/auth\<close>): access and secret keys.
  \<^item> Theories \<open>IAMStore\<close> (\<open>iam-object-store.go\<close>), \<open>IAMSys\<close>, \<open>IAMAdmin\<close> and \<open>IAMAccess\<close> (\<open>iam.go\<close>): users,
    groups, policies and mappings in memory and in a map of files whose calls may fail; the state is
    the record \<open>IAMSys\<close> with the disk in it, an operation returns the new state and the error.
    \<open>IAMProps\<close>, \<open>IAMDecide\<close>, \<open>IAMOps\<close> and \<open>IAMStoreProps\<close> hold the invariant of reachable states, the
    decision, the deletions and the refinement of the files to a map from keys to records.
  \<^item> Theory \<open>ApiErrors\<close> (\<open>api-errors.go\<close>, \<open>object-api-errors.go\<close>): codes, their table and the
    conversion of errors.
  \<^item> Theory \<open>SigV4\<close> (\<open>signature-v4-parser.go\<close>, \<open>signature-v4-utils.go\<close>, \<open>signature-v4.go\<close>): the header of
    a signed request, what a signature covers, and its check.
  \<^item> Theory \<open>ObjectLock\<close> (\<open>pkg/bucket/object/lock\<close>): retention and legal hold.
  \<^item> Theories \<open>AuthHandler\<close> and \<open>AuthProps\<close> (\<open>auth-handler.go\<close>): who sends a request and whether the
    sender may do what it asks for; the record \<open>server\<close> holds the states and parameters these
    functions read from globals.
  \<^item> Theory \<open>CryptoMeta\<close> (\<open>cmd/ipos/crypto\<close>): headers and metadata of encrypted objects, the sealing of
    their keys.  Theories \<open>ObjectUtils\<close> (\<open>object-api-utils.go\<close>, \<open>object-handlers-common.go\<close>) and
    \<open>ServerUtils\<close> (\<open>utils.go\<close>): names, entity tags, metadata, preconditions and small helpers.
  \<^item> Theories \<open>IpfsObjects\<close> and \<open>IpfsProps\<close> (\<open>ipfs.go\<close>, \<open>ipfs-multipart.go\<close>): buckets and objects over
    the shell of an IPFS node, which is the record \<open>shell\<close> of its commands; \<open>mfs_laws\<close> states what
    its file system promises, and an instance in memory keeps these laws.
  \<^item> Theories \<open>Listing\<close> and \<open>ListingProps\<close> (\<open>tree-walk.go\<close>, \<open>tree-walk-pool.go\<close>,
    \<open>object-api-common.go\<close>): the walk of a bucket, bounded by the depth of its tree, the pool of walks
    and the pages; the walk of a finite tree sends its names in the order of the bytes.

  A component has one definition per Go function, in the order of the code.  A Go error result is a
  value of an error datatype, as \<open>option\<close> or on the left of a sum; a panic is \<open>None\<close> of \<open>'a go\<close>, and
  the properties say when it cannot happen.  Recursion is structural or has a proved measure; the
  loop \<open>lockLoop\<close>, which waits for a timer, runs over a list of ticks, and it is proved that it
  returns at the latest at the first tick after the timeout.  Integers are unbounded where the code
  only compares or counts small numbers, and wrapped to 64 bits in \<open>HTTPRange\<close> and for the reference
  counts of \<open>NSLock\<close>; there the bound on the number of goroutines is \<open>2 ^ 64\<close>.

  Arguments of the model stand for what is not in the repository or not modelled: the folding table of
  Unicode, jsoniter's reading of the bytes of a document, the decoder of XML, HMAC and SHA-256, the
  tokens, the stream cipher, the shell of the IPFS node and the clock.  Not modelled are the HTTP
  handlers and their router, presigned requests, the encryption of streams, the admin client, the
  command line, logging, and the vendored or generated code.
\<close>

end
